(* ===== verification/Prelude.thy ===== *)
theory Prelude
  imports
    "HOL-Library.Word"
    "HOL-Library.Sublist"
    "HOL-Library.List_Lexorder"
    "HOL-Library.Char_ord"
    "HOL-Library.AList"
    "HOL-Library.Multiset"
begin

text \<open>
  Shared vocabulary of the development: what the Go sources use of the language and of its standard
  library. Go strings are byte sequences, modelled by \<^typ>\<open>string\<close>; a Go \<open>int32\<close> is a 32-bit word; a
  Go map is an association list whose order is the iteration order the runtime happened to choose;
  a function that returns a value and an error returns a sum, the error on the left.
  The theory also holds the collections \<open>go_str\<close> and \<open>go_map\<close> of simplification rules and the generic
  contract of the loops that parse a slice item by item and stop at the first error.
\<close>

named_theorems go_str "rewrite rules for the Go string functions"
named_theorems go_map "rewrite rules for Go maps as association lists"

type_synonym int32 = "32 word"

type_synonym ('k, 'v) gomap = "('k \<times> 'v) list"

subsection \<open>Results: a value or an error\<close>

text \<open>The Go idiom \<open>x, err := f(); if err != nil { return ..., err }\<close>.\<close>

definition bind_err :: "'e + 'a \<Rightarrow> ('a \<Rightarrow> 'e + 'b) \<Rightarrow> 'e + 'b" where
  "bind_err r k = (case r of Inl e \<Rightarrow> Inl e | Inr x \<Rightarrow> k x)"

lemma bind_err_simps [simp]:
  "bind_err (Inl e) k = Inl e"
  "bind_err (Inr x) k = k x"
  by (simp_all add: bind_err_def)

lemma bind_err_Inr: "bind_err r k = Inr y \<longleftrightarrow> (\<exists>x. r = Inr x \<and> k x = Inr y)"
  by (cases r) simp_all

lemma bind_err_Inl: "bind_err r k = Inl e \<longleftrightarrow> r = Inl e \<or> (\<exists>x. r = Inr x \<and> k x = Inl e)"
  by (cases r) simp_all

lemma map_sum_Inr: "map_sum f id r = Inr x \<longleftrightarrow> r = Inr x"
  by (cases r) auto

lemma bind_err_Inr_right: "bind_err r Inr = r"
  by (cases r) simp_all

lemma bind_err_cong [fundef_cong]:
  "r = r' \<Longrightarrow> (\<And>x. r' = Inr x \<Longrightarrow> k x = k' x) \<Longrightarrow> bind_err r k = bind_err r' k'"
  by (cases r') simp_all

definition is_ok :: "'e + 'a \<Rightarrow> bool" where
  "is_ok r = (case r of Inl _ \<Rightarrow> False | Inr _ \<Rightarrow> True)"

lemma is_ok_simps [simp]: "\<not> is_ok (Inl e)" "is_ok (Inr x)"
  by (simp_all add: is_ok_def)

lemma is_ok_iff: "is_ok r \<longleftrightarrow> (\<exists>x. r = Inr x)"
  by (cases r) simp_all

text \<open>
  The loop \<open>for _, arg := range args { x, err := f(arg); if err != nil { return nil, err };
  result = append(result, x) }\<close>: the results in order, or the error of the first item that fails.
\<close>

fun map_err :: "('a \<Rightarrow> 'e + 'b) \<Rightarrow> 'a list \<Rightarrow> 'e + 'b list" where
  "map_err f [] = Inr []"
| "map_err f (x # xs) = bind_err (f x) (\<lambda>y. bind_err (map_err f xs) (\<lambda>ys. Inr (y # ys)))"

lemma map_err_Inr_iff:
  "map_err f xs = Inr ys \<longleftrightarrow> list_all2 (\<lambda>x y. f x = Inr y) xs ys"
proof (induction xs arbitrary: ys)
  case Nil
  then show ?case by (auto simp: list_all2_Nil)
next
  case (Cons x xs)
  then show ?case by (auto simp: bind_err_Inr list_all2_Cons1)
qed

lemma map_err_Inl_iff:
  "map_err f xs = Inl e \<longleftrightarrow>
     (\<exists>pre x post ys. xs = pre @ x # post \<and> map_err f pre = Inr ys \<and> f x = Inl e)"
proof (induction xs)
  case Nil
  then show ?case by simp
next
  case (Cons a xs)
  show ?case
  proof (cases "f a")
    case (Inl e')
    then show ?thesis
      by (auto simp: Cons_eq_append_conv intro: exI [of _ "[]"])
  next
    case (Inr b)
    then have "map_err f (a # xs) = Inl e \<longleftrightarrow> map_err f xs = Inl e"
      by (auto simp: bind_err_Inl)
    also have "\<dots> \<longleftrightarrow> (\<exists>pre x post ys. xs = pre @ x # post \<and> map_err f pre = Inr ys \<and> f x = Inl e)"
      by (rule Cons.IH)
    also have "\<dots> \<longleftrightarrow> (\<exists>pre x post ys. a # xs = pre @ x # post \<and> map_err f pre = Inr ys \<and> f x = Inl e)"
      (is "?l \<longleftrightarrow> ?r")
    proof
      assume ?l
      then obtain pre x post ys where "xs = pre @ x # post" "map_err f pre = Inr ys" "f x = Inl e"
        by blast
      then have "a # xs = (a # pre) @ x # post" "map_err f (a # pre) = Inr (b # ys)" "f x = Inl e"
        using Inr by simp_all
      then show ?r by blast
    next
      assume ?r
      then show ?l using Inr by (fastforce simp: Cons_eq_append_conv bind_err_Inr)
    qed
    finally show ?thesis .
  qed
qed

lemma map_err_projr:
  "map_err f xs = Inr ys \<longleftrightarrow> (\<forall>x\<in>set xs. is_ok (f x)) \<and> ys = map (\<lambda>x. projr (f x)) xs"
  by (induction xs arbitrary: ys) (auto simp: bind_err_Inr is_ok_iff)

lemma map_err_cong [fundef_cong]:
  "xs = ys \<Longrightarrow> (\<And>x. x \<in> set ys \<Longrightarrow> f x = g x) \<Longrightarrow> map_err f xs = map_err g ys"
  by (induction ys arbitrary: xs) (auto intro!: bind_err_cong)

lemma map_err_length: "map_err f xs = Inr ys \<Longrightarrow> length ys = length xs"
  by (simp add: map_err_Inr_iff list_all2_lengthD)

lemma map_err_append:
  "map_err f (xs @ ys) = bind_err (map_err f xs) (\<lambda>us. bind_err (map_err f ys) (\<lambda>vs. Inr (us @ vs)))"
  by (induction xs) (auto simp: bind_err_def split: sum.splits)

lemma map_err_all: "(\<And>x. x \<in> set xs \<Longrightarrow> f x = Inr (g x)) \<Longrightarrow> map_err f xs = Inr (map g xs)"
  by (induction xs) simp_all

lemma map_err_set: "map_err f xs = Inr ys \<Longrightarrow> y \<in> set ys \<Longrightarrow> \<exists>x\<in>set xs. f x = Inr y"
  by (induction xs arbitrary: ys) (auto simp: bind_err_Inr)


subsection \<open>Package strings\<close>

definition str_has_prefix :: "string \<Rightarrow> string \<Rightarrow> bool" where
  "str_has_prefix s p = (take (length p) s = p)"

definition str_has_suffix :: "string \<Rightarrow> string \<Rightarrow> bool" where
  "str_has_suffix s p = str_has_prefix (rev s) (rev p)"

definition str_trim_prefix :: "string \<Rightarrow> string \<Rightarrow> string" where
  "str_trim_prefix s p = (if str_has_prefix s p then drop (length p) s else s)"

definition str_trim_suffix :: "string \<Rightarrow> string \<Rightarrow> string" where
  "str_trim_suffix s p = (if str_has_suffix s p then take (length s - length p) s else s)"

fun str_contains :: "string \<Rightarrow> string \<Rightarrow> bool" where
  "str_contains [] p = (p = [])"
| "str_contains (c # cs) p = (str_has_prefix (c # cs) p \<or> str_contains cs p)"

definition str_contains_any :: "string \<Rightarrow> string \<Rightarrow> bool" where
  "str_contains_any s chars = list_ex (\<lambda>c. c \<in> set chars) s"

text \<open>\<open>strings.Cut\<close> and \<open>strings.Split\<close> are always called with a separator of one byte.\<close>

fun str_cut :: "char \<Rightarrow> string \<Rightarrow> string \<times> string \<times> bool" where
  "str_cut c [] = ([], [], False)"
| "str_cut c (x # xs) =
     (if x = c then ([], xs, True)
      else (case str_cut c xs of (pre, post, found) \<Rightarrow> (x # pre, post, found)))"

fun str_split :: "char \<Rightarrow> string \<Rightarrow> string list" where
  "str_split c [] = [[]]"
| "str_split c (x # xs) =
     (if x = c then [] # str_split c xs
      else (case str_split c xs of [] \<Rightarrow> [[x]] | p # ps \<Rightarrow> (x # p) # ps))"

fun str_join :: "string \<Rightarrow> string list \<Rightarrow> string" where
  "str_join sep [] = []"
| "str_join sep [s] = s"
| "str_join sep (s # t # ts) = s @ sep @ str_join sep (t # ts)"

lemma str_has_prefix_iff [go_str]: "str_has_prefix s p \<longleftrightarrow> prefix p s"
  by (auto simp: str_has_prefix_def prefix_def) (metis append_take_drop_id)

lemma str_has_suffix_iff [go_str]: "str_has_suffix s p \<longleftrightarrow> suffix p s"
  by (simp add: str_has_suffix_def str_has_prefix_iff suffix_to_prefix)

lemma str_contains_iff: "str_contains s p \<longleftrightarrow> sublist p s"
  by (induction s) (auto simp: go_str sublist_Cons_right)

lemma str_contains_char [go_str]: "str_contains s [c] \<longleftrightarrow> c \<in> set s"
  by (induction s) (auto simp: str_has_prefix_def)

lemma str_contains_any_iff [go_str]: "str_contains_any s chars \<longleftrightarrow> set s \<inter> set chars \<noteq> {}"
  by (auto simp: str_contains_any_def list_ex_iff)

lemma str_trim_prefix_append [simp]: "str_trim_prefix (p @ s) p = s"
  by (simp add: str_trim_prefix_def str_has_prefix_def)

lemma str_trim_suffix_append [simp]: "str_trim_suffix (s @ p) p = s"
  by (simp add: str_trim_suffix_def str_has_suffix_def str_has_prefix_def)

lemma str_cut_append [simp]: "c \<notin> set a \<Longrightarrow> str_cut c (a @ c # b) = (a, b, True)"
  by (induction a) auto

lemma str_cut_none [simp]: "c \<notin> set a \<Longrightarrow> str_cut c a = (a, [], False)"
  by (induction a) auto

lemma str_cut_found: "str_cut c s = (a, b, True) \<longleftrightarrow> s = a @ c # b \<and> c \<notin> set a"
proof (cases "c \<in> set s")
  case True
  then obtain u v where "s = u @ c # v" "c \<notin> set u" by (meson split_list_first)
  then have "str_cut c s = (u, v, True)" by simp
  then show ?thesis using \<open>s = u @ c # v\<close> \<open>c \<notin> set u\<close> by (metis prod.inject str_cut_append)
qed auto

lemma str_cut_not_found: "str_cut c s = (a, b, False) \<longleftrightarrow> a = s \<and> b = [] \<and> c \<notin> set s"
proof (cases "c \<in> set s")
  case True
  then obtain u v where "s = u @ c # v" "c \<notin> set u" by (meson split_list_first)
  then show ?thesis by auto
qed auto

lemma str_split_not_Nil [simp]: "str_split c s \<noteq> []"
  by (cases s) (auto split: list.splits)

lemma str_split_no_sep: "p \<in> set (str_split c s) \<Longrightarrow> c \<notin> set p"
  by (induction s arbitrary: p) (auto split: if_splits list.splits)

lemma str_split_none [simp]: "c \<notin> set a \<Longrightarrow> str_split c a = [a]"
  by (induction a) auto

lemma str_split_append [simp]: "c \<notin> set a \<Longrightarrow> str_split c (a @ c # b) = a # str_split c b"
  by (induction a) auto

lemma str_join_split: "str_join [c] (str_split c s) = s"
proof (induction s)
  case (Cons x xs)
  then show ?case
    by (cases "str_split c xs") (auto split: list.splits, (metis append_Cons str_join.simps list.exhaust)+)
qed simp

lemma str_split_join:
  "ps \<noteq> [] \<Longrightarrow> (\<And>p. p \<in> set ps \<Longrightarrow> c \<notin> set p) \<Longrightarrow> str_split c (str_join [c] ps) = ps"
  by (induction ps rule: induct_list012) auto

lemma length_str_split: "length (str_split c s) = Suc (count_list s c)"
  by (induction s) (auto split: list.splits)

text \<open>
  \<open>strings.TrimSpace\<close> removes leading and trailing white space as Unicode defines it; the runes are
  given by their UTF-8 encodings.
\<close>

definition space_encodings :: "string list" where
  "space_encodings =
     [[CHR 0x20], [CHR 0x09], [CHR 0x0A], [CHR 0x0B], [CHR 0x0C], [CHR 0x0D],
      [CHR 0xC2, CHR 0x85], [CHR 0xC2, CHR 0xA0], [CHR 0xE1, CHR 0x9A, CHR 0x80],
      [CHR 0xE2, CHR 0x80, CHR 0x80], [CHR 0xE2, CHR 0x80, CHR 0x81], [CHR 0xE2, CHR 0x80, CHR 0x82],
      [CHR 0xE2, CHR 0x80, CHR 0x83], [CHR 0xE2, CHR 0x80, CHR 0x84], [CHR 0xE2, CHR 0x80, CHR 0x85],
      [CHR 0xE2, CHR 0x80, CHR 0x86], [CHR 0xE2, CHR 0x80, CHR 0x87], [CHR 0xE2, CHR 0x80, CHR 0x88],
      [CHR 0xE2, CHR 0x80, CHR 0x89], [CHR 0xE2, CHR 0x80, CHR 0x8A], [CHR 0xE2, CHR 0x80, CHR 0xA8],
      [CHR 0xE2, CHR 0x80, CHR 0xA9], [CHR 0xE2, CHR 0x80, CHR 0xAF], [CHR 0xE2, CHR 0x81, CHR 0x9F],
      [CHR 0xE3, CHR 0x80, CHR 0x80]]"

function trim_left_of :: "string list \<Rightarrow> string \<Rightarrow> string" where
  "trim_left_of encs s =
     (case find (\<lambda>e. e \<noteq> [] \<and> str_has_prefix s e) encs of
        None \<Rightarrow> s | Some e \<Rightarrow> trim_left_of encs (drop (length e) s))"
  by pat_completeness auto
termination
proof (relation "measure (\<lambda>(encs, s). length s)")
  fix encs s e
  assume "find (\<lambda>e. e \<noteq> [] \<and> str_has_prefix s e) encs = Some e"
  then have "e \<noteq> []" "str_has_prefix s e" by (auto simp: find_Some_iff)
  then have "length (drop (length e) s) < length s"
    by (cases s) (auto simp: str_has_prefix_def)
  then show "((encs, drop (length e) s), (encs, s)) \<in> measure (\<lambda>(encs, s). length s)"
    by simp
qed simp

declare trim_left_of.simps [simp del]

definition str_trim_space :: "string \<Rightarrow> string" where
  "str_trim_space s =
     rev (trim_left_of (map rev space_encodings) (rev (trim_left_of space_encodings s)))"

lemma trim_left_of_stop:
  "(\<And>e. e \<in> set encs \<Longrightarrow> e = [] \<or> \<not> prefix e s) \<Longrightarrow> trim_left_of encs s = s"
  by (subst trim_left_of.simps)
    (auto simp: go_str find_Some_iff split: option.splits dest: nth_mem)

lemma suffix_trim_left_of: "suffix (trim_left_of encs s) s"
proof (induction encs s rule: trim_left_of.induct)
  case (1 encs s)
  then show ?case
    by (subst trim_left_of.simps) (auto split: option.splits intro: suffix_order.trans suffix_drop)
qed

lemma str_trim_space_sublist: "sublist (str_trim_space s) s"
proof -
  have "prefix (str_trim_space s) (trim_left_of space_encodings s)"
    using suffix_trim_left_of [of "map rev space_encodings" "rev (trim_left_of space_encodings s)"]
    by (simp add: str_trim_space_def suffix_to_prefix)
  moreover have "suffix (trim_left_of space_encodings s) s"
    by (rule suffix_trim_left_of)
  ultimately show ?thesis
    by (meson prefix_imp_sublist suffix_imp_sublist sublist_order.order.trans)
qed

definition plain_char :: "char \<Rightarrow> bool" where
  "plain_char c = (33 \<le> (of_char c :: nat) \<and> (of_char c :: nat) < 127)"

lemma str_trim_space_plain:
  assumes "list_all plain_char s"
  shows "str_trim_space s = s"
proof -
  have *: "\<not> list_all plain_char e" if "e \<in> set space_encodings \<union> set (map rev space_encodings)" for e
    using that by (auto simp: space_encodings_def plain_char_def)
  have "\<not> prefix e s" if "e \<in> set space_encodings" for e
    using * [of e] that assms by (auto simp: prefix_def)
  then have "trim_left_of space_encodings s = s"
    by (simp add: trim_left_of_stop)
  moreover have "\<not> prefix e (rev s)" if "e \<in> set (map rev space_encodings)" for e
  proof
    assume "prefix e (rev s)"
    then obtain r where "rev s = e @ r" by (auto simp: prefix_def)
    then have "s = rev r @ rev e" by (metis rev_append rev_rev_ident)
    with assms have "list_all plain_char e" by simp
    with * [of e] that show False by blast
  qed
  then have "trim_left_of (map rev space_encodings) (rev s) = rev s"
    by (intro trim_left_of_stop) blast
  ultimately show ?thesis by (simp add: str_trim_space_def)
qed

definition char_to_lower :: "char \<Rightarrow> char" where
  "char_to_lower c =
     (if 65 \<le> (of_char c :: nat) \<and> (of_char c :: nat) \<le> 90 then char_of ((of_char c :: nat) + 32) else c)"

definition char_to_upper :: "char \<Rightarrow> char" where
  "char_to_upper c =
     (if 97 \<le> (of_char c :: nat) \<and> (of_char c :: nat) \<le> 122 then char_of ((of_char c :: nat) - 32) else c)"

text \<open>\<open>strings.ToLower\<close> and \<open>strings.ToUpper\<close> on ASCII text; other bytes are left alone.\<close>

definition str_to_lower :: "string \<Rightarrow> string" where
  "str_to_lower = map char_to_lower"

definition str_to_upper :: "string \<Rightarrow> string" where
  "str_to_upper = map char_to_upper"

subsection \<open>Package strconv\<close>

datatype num_error = NumError string

definition is_digit :: "char \<Rightarrow> bool" where
  "is_digit c = (48 \<le> (of_char c :: nat) \<and> (of_char c :: nat) \<le> 57)"

definition digit_value :: "char \<Rightarrow> nat" where
  "digit_value c = of_char c - 48"

definition dec_value :: "string \<Rightarrow> nat" where
  "dec_value ds = foldl (\<lambda>n c. 10 * n + digit_value c) 0 ds"

definition split_sign :: "string \<Rightarrow> bool \<times> string" where
  "split_sign s =
     (case s of [] \<Rightarrow> (False, [])
      | c # cs \<Rightarrow> if c = CHR ''-'' then (True, cs) else if c = CHR ''+'' then (False, cs) else (False, s))"

text \<open>\<open>strconv.Atoi\<close>: a sign and decimal digits, within the range of a 64-bit \<open>int\<close>.\<close>

definition atoi :: "string \<Rightarrow> num_error + int" where
  "atoi s =
     (case split_sign s of (neg, ds) \<Rightarrow>
        if ds = [] \<or> \<not> list_all is_digit ds then Inl (NumError s)
        else (let v = (if neg then - int (dec_value ds) else int (dec_value ds))
              in if - (2 ^ 63) \<le> v \<and> v < 2 ^ 63 then Inr v else Inl (NumError s)))"

definition digit_char :: "nat \<Rightarrow> char" where
  "digit_char n = ''0123456789'' ! n"

fun dec_digits :: "nat \<Rightarrow> string" where
  "dec_digits n = (if n < 10 then [digit_char n] else dec_digits (n div 10) @ [digit_char (n mod 10)])"

declare dec_digits.simps [simp del]

text \<open>\<open>strconv.Itoa\<close> and \<open>fmt.Sprint\<close> of an integer.\<close>

definition itoa :: "int \<Rightarrow> string" where
  "itoa i = (if i < 0 then CHR ''-'' # dec_digits (nat (- i)) else dec_digits (nat i))"

text \<open>The conversion \<open>int32(i)\<close> keeps the low 32 bits; \<open>int(p)\<close> reads them as a signed number.\<close>

definition to_int32 :: "int \<Rightarrow> int32" where
  "to_int32 i = word_of_int i"

lemma less_10_cases: "(n::nat) < 10 \<Longrightarrow> n \<in> {0, 1, 2, 3, 4, 5, 6, 7, 8, 9}"
  by auto

lemma digit_char_props:
  assumes "n < 10"
  shows "is_digit (digit_char n)" "digit_value (digit_char n) = n"
  using less_10_cases [OF assms]
  by (auto simp: digit_char_def is_digit_def digit_value_def numeral_eq_Suc)

lemma is_digit_not_sign: "is_digit c \<Longrightarrow> c \<noteq> CHR ''-'' \<and> c \<noteq> CHR ''+''"
  by (auto simp: is_digit_def)

lemma dec_digits_all: "list_all is_digit (dec_digits n) \<and> dec_digits n \<noteq> []"
proof (induction n rule: dec_digits.induct)
  case (1 n)
  then show ?case by (subst (1 2) dec_digits.simps) (auto simp: digit_char_props)
qed

lemma dec_value_append: "dec_value (xs @ [c]) = 10 * dec_value xs + digit_value c"
  by (simp add: dec_value_def)

lemma dec_value_digits [simp]: "dec_value (dec_digits n) = n"
proof (induction n rule: dec_digits.induct)
  case (1 n)
  show ?case
  proof (cases "n < 10")
    case True
    then show ?thesis
      by (subst dec_digits.simps) (simp add: dec_value_def digit_char_props)
  next
    case False
    then show ?thesis
      by (subst dec_digits.simps) (simp add: dec_value_append digit_char_props 1)
  qed
qed

lemma split_sign_digits: "split_sign (dec_digits n) = (False, dec_digits n)"
  using dec_digits_all [of n] is_digit_not_sign
  by (cases "dec_digits n") (auto simp: split_sign_def)

lemma atoi_itoa: "- (2 ^ 63) \<le> i \<Longrightarrow> i < 2 ^ 63 \<Longrightarrow> atoi (itoa i) = Inr i"
proof (cases "i < 0")
  case True
  assume "- (2 ^ 63) \<le> i" "i < 2 ^ 63"
  with True dec_digits_all [of "nat (- i)"] show ?thesis
    by (simp add: atoi_def itoa_def split_sign_def Let_def)
next
  case False
  assume "- (2 ^ 63) \<le> i" "i < 2 ^ 63"
  with False dec_digits_all [of "nat i"] show ?thesis
    by (simp add: atoi_def itoa_def split_sign_digits Let_def)
qed

lemma itoa_inject: "itoa i = itoa j \<longleftrightarrow> i = j"
proof
  assume eq: "itoa i = itoa j"
  have hd_neg: "hd (dec_digits n) \<noteq> CHR ''-''" for n
    using dec_digits_all [of n] is_digit_not_sign by (cases "dec_digits n") auto
  have ne: "dec_digits n \<noteq> CHR ''-'' # w" for n w
    using hd_neg [of n] by auto
  have inj: "dec_digits m = dec_digits n \<Longrightarrow> m = n" for m n
    by (metis dec_value_digits)
  from eq show "i = j"
    by (auto simp: itoa_def ne ne [symmetric] split: if_splits dest!: inj)
qed simp

lemma atoi_itoa_sint: "atoi (itoa (sint (w :: int32))) = Inr (sint w)"
proof (rule atoi_itoa)
  have "- (2 ^ 31) \<le> sint w" "sint w < 2 ^ 31"
    using sint_range_size [of w] by (simp_all add: word_size)
  then show "- (2 ^ 63) \<le> sint w" "sint w < 2 ^ 63" by simp_all
qed

lemma to_int32_sint [simp]: "to_int32 (sint w) = w"
  by (simp add: to_int32_def)

lemma sint_to_int32: "- (2 ^ 31) \<le> i \<Longrightarrow> i < 2 ^ 31 \<Longrightarrow> sint (to_int32 i) = i"
  by (simp add: to_int32_def int_word_sint)

lemma itoa_chars: "c \<in> set (itoa i) \<Longrightarrow> is_digit c \<or> c = CHR ''-''"
  using dec_digits_all by (auto simp: itoa_def list_all_iff split: if_splits)

lemma itoa_not_Nil [simp]: "itoa i \<noteq> []"
  using dec_digits_all by (auto simp: itoa_def)

subsection \<open>Maps\<close>

text \<open>
  \<open>m[k]\<close>, \<open>m[k] = v\<close>, \<open>delete(m, k)\<close> on association lists. Go does not say in which order \<open>range m\<close>
  visits the entries: a claim about a loop over a map has to hold for every order, that is, for every
  permutation of the list.
\<close>

definition gm_get :: "('k, 'v) gomap \<Rightarrow> 'k \<Rightarrow> 'v option" where
  "gm_get m k = map_of m k"

definition gm_set :: "('k, 'v) gomap \<Rightarrow> 'k \<Rightarrow> 'v \<Rightarrow> ('k, 'v) gomap" where
  "gm_set m k v = AList.update k v m"

definition gm_delete :: "('k, 'v) gomap \<Rightarrow> 'k \<Rightarrow> ('k, 'v) gomap" where
  "gm_delete m k = filter (\<lambda>kv. fst kv \<noteq> k) m"

definition gm_has :: "('k, 'v) gomap \<Rightarrow> 'k \<Rightarrow> bool" where
  "gm_has m k = (k \<in> fst ` set m)"

definition gm_ok :: "('k, 'v) gomap \<Rightarrow> bool" where
  "gm_ok m = distinct (map fst m)"

text \<open>A map lookup yields the zero value of the element type for an absent key.\<close>

definition gm_get_or :: "'v \<Rightarrow> ('k, 'v) gomap \<Rightarrow> 'k \<Rightarrow> 'v" where
  "gm_get_or zero m k = (case gm_get m k of None \<Rightarrow> zero | Some v \<Rightarrow> v)"

lemma gm_get_set [go_map]: "gm_get (gm_set m k v) k' = (if k = k' then Some v else gm_get m k')"
  by (simp add: gm_get_def gm_set_def update_conv')

lemma gm_get_Nil [go_map, simp]: "gm_get [] k = None"
  by (simp add: gm_get_def)

lemma gm_get_delete [go_map]: "gm_get (gm_delete m k) k' = (if k = k' then None else gm_get m k')"
  by (induction m) (auto simp: gm_get_def gm_delete_def)

lemma gm_get_or_set [go_map]:
  "gm_get_or z (gm_set m k v) k' = (if k = k' then v else gm_get_or z m k')"
  by (simp add: gm_get_or_def go_map)

lemma gm_has_iff: "gm_has m k \<longleftrightarrow> gm_get m k \<noteq> None"
  by (auto simp: gm_has_def gm_get_def map_of_eq_None_iff)

lemma gm_has_set [go_map]: "gm_has (gm_set m k v) k' \<longleftrightarrow> k = k' \<or> gm_has m k'"
  by (auto simp: gm_has_iff go_map)

lemma gm_has_delete [go_map]: "gm_has (gm_delete m k) k' \<longleftrightarrow> k \<noteq> k' \<and> gm_has m k'"
  by (auto simp: gm_has_iff go_map)

lemma gm_keys_set: "fst ` set (gm_set m k v) = insert k (fst ` set m)"
  by (simp add: gm_set_def update_conv' flip: dom_map_of_conv_image_fst)

lemma gm_set_new: "k \<notin> fst ` set m \<Longrightarrow> gm_set m k v = m @ [(k, v)]"
  by (induction m) (auto simp: gm_set_def)

lemma set_gm_set: "x \<in> set (gm_set m k v) \<Longrightarrow> x = (k, v) \<or> x \<in> set m"
  by (induction m) (auto simp: gm_set_def split: if_splits)

lemma gm_ok_Nil [simp]: "gm_ok []"
  by (simp add: gm_ok_def)

lemma gm_ok_set [simp]: "gm_ok m \<Longrightarrow> gm_ok (gm_set m k v)"
  by (simp add: gm_ok_def gm_set_def distinct_update)

lemma gm_ok_delete [simp]: "gm_ok m \<Longrightarrow> gm_ok (gm_delete m k)"
  by (simp add: gm_ok_def gm_delete_def distinct_map_filter)

lemma gm_get_in_set: "gm_ok m \<Longrightarrow> gm_get m k = Some v \<longleftrightarrow> (k, v) \<in> set m"
  by (simp add: gm_ok_def gm_get_def)

lemma foldl_gm_set:
  assumes "distinct (map fst xs)"
  shows "gm_get (foldl (\<lambda>m (k, v). gm_set m k (f k v)) m xs) k = (case map_of xs k of None \<Rightarrow> gm_get m k | Some v \<Rightarrow> Some (f k v))"
  using assms by (induction xs arbitrary: m) (auto simp: go_map split: option.splits dest: map_of_SomeD intro: rev_image_eqI)

lemma gm_get_perm: "gm_ok m \<Longrightarrow> mset m = mset m' \<Longrightarrow> gm_get m' = gm_get m"
proof -
  assume ok: "gm_ok m" and eq: "mset m = mset m'"
  then have "mset (map fst m) = mset (map fst m')" by simp
  with ok have "gm_ok m'" by (metis gm_ok_def mset_eq_imp_distinct_iff)
  moreover have "set m = set m'" using eq by (metis set_mset_mset)
  ultimately have "gm_get m' k = Some v \<longleftrightarrow> gm_get m k = Some v" for k v
    using ok by (simp add: gm_get_in_set)
  then show ?thesis by (metis ext option.exhaust)
qed

subsection \<open>Package sort\<close>

text \<open>
  \<open>sort.Slice\<close> rearranges the slice so that it is ascending for \<open>less\<close>; it is not stable, so the order
  of elements that compare equal is not specified. A definition that calls it takes the sorting
  function as an argument, and \<open>sorts\<close> is what the package documents.
\<close>

definition ascending :: "('a \<Rightarrow> 'a \<Rightarrow> bool) \<Rightarrow> 'a list \<Rightarrow> bool" where
  "ascending lt xs = sorted_wrt (\<lambda>x y. \<not> lt y x) xs"

definition sorts :: "(('a \<Rightarrow> 'a \<Rightarrow> bool) \<Rightarrow> 'a list \<Rightarrow> 'a list) \<Rightarrow> ('a \<Rightarrow> 'a \<Rightarrow> bool) \<Rightarrow> bool" where
  "sorts sortSlice lt \<longleftrightarrow>
     (\<forall>xs. mset (sortSlice lt xs) = mset xs \<and> ascending lt (sortSlice lt xs))"

lemma sorts_set: "sorts sortSlice lt \<Longrightarrow> set (sortSlice lt xs) = set xs"
  by (metis sorts_def set_mset_mset)

lemma sorts_length: "sorts sortSlice lt \<Longrightarrow> length (sortSlice lt xs) = length xs"
  by (metis sorts_def size_mset)

lemma ascending_key:
  fixes key :: "'a \<Rightarrow> 'b :: linorder"
  shows "ascending (\<lambda>x y. key x < key y) xs \<longleftrightarrow> sorted (map key xs)"
  by (simp add: ascending_def sorted_wrt_map not_less)

text \<open>An insertion sort by a key meets the contract, so the contract is not empty.\<close>

definition sort_by :: "('a \<Rightarrow> 'b :: linorder) \<Rightarrow> ('a \<Rightarrow> 'a \<Rightarrow> bool) \<Rightarrow> 'a list \<Rightarrow> 'a list" where
  "sort_by key lt xs = sort_key key xs"

lemma sorts_sort_by: "sorts (sort_by key) (\<lambda>x y. key x < key y)"
  by (simp add: sorts_def sort_by_def ascending_key)

text \<open>When no two elements share a key the result does not depend on the algorithm.\<close>

lemma sorts_unique:
  fixes key :: "'a \<Rightarrow> 'b :: linorder"
  assumes "sorts sortSlice (\<lambda>x y. key x < key y)" and "distinct (map key xs)" and "mset ys = mset xs"
  shows "sortSlice (\<lambda>x y. key x < key y) ys = sort_key key xs"
proof -
  let ?zs = "sortSlice (\<lambda>x y. key x < key y) ys"
  have m: "mset ?zs = mset xs" and s: "sorted (map key ?zs)"
    using assms(1,3) by (simp_all add: sorts_def ascending_key)
  have inj: "inj_on key (set ?zs)"
    using m assms(2) by (metis distinct_map set_mset_mset)
  have "map key ?zs = map key (sort_key key xs)"
  proof -
    have "mset (map key ?zs) = mset (map key (sort_key key xs))" using m by simp
    moreover have "sorted (map key (sort_key key xs))" by simp
    ultimately show ?thesis using s by (metis properties_for_sort)
  qed
  moreover have "set ?zs \<union> set (sort_key key xs) = set ?zs"
    using m by (metis mset_sort set_mset_mset sup.idem)
  ultimately show ?thesis using inj by (metis map_inj_on)
qed

subsection \<open>Contracts shared by several components\<close>

text \<open>
  The functions that parse a slice of command line arguments share one contract: they parse item by
  item, keep the order, and fail with the error of the first bad item.
\<close>

locale slice_parser =
  fixes parse_one :: "'a \<Rightarrow> 'e + 'b"
    and parse_all :: "'a list \<Rightarrow> 'e + 'b list"
  assumes parse_all_Nil: "parse_all [] = Inr []"
    and parse_all_Cons: "parse_all (x # xs) =
      bind_err (parse_one x) (\<lambda>y. bind_err (parse_all xs) (\<lambda>ys. Inr (y # ys)))"
begin

lemma parse_all_eq: "parse_all xs = map_err parse_one xs"
  by (induction xs) (simp_all add: parse_all_Nil parse_all_Cons)

lemma accepts_iff: "is_ok (parse_all xs) \<longleftrightarrow> (\<forall>x\<in>set xs. is_ok (parse_one x))"
  by (induction xs) (auto simp: parse_all_Nil parse_all_Cons is_ok_iff bind_err_Inr)

lemma results: "parse_all xs = Inr ys \<longleftrightarrow> list_all2 (\<lambda>x y. parse_one x = Inr y) xs ys"
  by (simp add: parse_all_eq map_err_Inr_iff)

lemma first_error:
  "parse_all xs = Inl e \<longleftrightarrow>
     (\<exists>pre x post. xs = pre @ x # post \<and> is_ok (parse_all pre) \<and> parse_one x = Inl e)"
  by (simp add: parse_all_eq map_err_Inl_iff is_ok_iff)

lemma results_satisfy:
  assumes "parse_all xs = Inr ys" and "\<And>x y. parse_one x = Inr y \<Longrightarrow> P y"
  shows "list_all P ys"
  using assms by (auto simp: list_all_iff parse_all_eq dest: map_err_set)

end

text \<open>The \<open>Complete\<close> methods fill in defaults; completing twice is completing once.\<close>

locale completion =
  fixes complete :: "'a \<Rightarrow> 'a" and completed :: "'a \<Rightarrow> bool"
  assumes complete_completed: "completed (complete x)"
    and complete_fixpoint: "completed x \<Longrightarrow> complete x = x"
begin

lemma idempotent: "complete (complete x) = complete x"
  by (rule complete_fixpoint [OF complete_completed])

lemma completed_iff: "completed x \<longleftrightarrow> complete x = x"
  by (metis complete_completed complete_fixpoint)

end

end
