(* ===== verification/PortSyntax.thy ===== *)
theory PortSyntax
  imports Prelude
begin

text \<open>
  The port types of \<open>pkg/apis/internal.acorn.io/v1\<close> (\<open>appspec.go\<close>, \<open>service.go\<close>) and the parser of the
  command line syntax for ports and port bindings (\<open>ports.go\<close>). The lemmas show which syntax is
  accepted, what the parser infers, that printing and parsing a port round trip, that parsed bindings
  are already complete, and that a port number is reduced modulo two to the thirty-second.
\<close>

subsection \<open>Types\<close>

type_synonym Protocol = string

definition ProtocolTCP :: Protocol where "ProtocolTCP = ''tcp''"
definition ProtocolUDP :: Protocol where "ProtocolUDP = ''udp''"
definition ProtocolHTTP :: Protocol where "ProtocolHTTP = ''http''"

lemmas protocol_defs = ProtocolTCP_def ProtocolUDP_def ProtocolHTTP_def

lemma protocol_distinct [simp]:
  "ProtocolTCP \<noteq> []" "ProtocolUDP \<noteq> []" "ProtocolHTTP \<noteq> []"
  "[] \<noteq> ProtocolTCP" "[] \<noteq> ProtocolUDP" "[] \<noteq> ProtocolHTTP"
  "ProtocolTCP \<noteq> ProtocolUDP" "ProtocolTCP \<noteq> ProtocolHTTP" "ProtocolUDP \<noteq> ProtocolHTTP"
  "ProtocolUDP \<noteq> ProtocolTCP" "ProtocolHTTP \<noteq> ProtocolTCP" "ProtocolHTTP \<noteq> ProtocolUDP"
  by (simp_all add: protocol_defs)

record PortDef =
  pd_Hostname :: string
  pd_Protocol :: Protocol
  pd_Publish :: bool
  pd_Dev :: bool
  pd_Port :: int32
  pd_TargetPort :: int32

record PortBinding =
  pb_Port :: int32
  pb_Protocol :: Protocol
  pb_Hostname :: string
  pb_ServiceName :: string
  pb_Publish :: bool
  pb_Expose :: bool
  pb_TargetPort :: int32
  pb_TargetServiceName :: string

record PortPublish =
  pp_Port :: int32
  pp_Protocol :: Protocol
  pp_Hostname :: string
  pp_TargetPort :: int32

definition zero_PortDef :: PortDef where
  "zero_PortDef = \<lparr>pd_Hostname = [], pd_Protocol = [], pd_Publish = False, pd_Dev = False,
     pd_Port = 0, pd_TargetPort = 0\<rparr>"

definition zero_PortBinding :: PortBinding where
  "zero_PortBinding = \<lparr>pb_Port = 0, pb_Protocol = [], pb_Hostname = [], pb_ServiceName = [],
     pb_Publish = False, pb_Expose = False, pb_TargetPort = 0, pb_TargetServiceName = []\<rparr>"

definition zero_PortPublish :: PortPublish where
  "zero_PortPublish = \<lparr>pp_Port = 0, pp_Protocol = [], pp_Hostname = [], pp_TargetPort = 0\<rparr>"

subsection \<open>Completion and printing\<close>

definition PortDef_Complete :: "PortDef \<Rightarrow> PortDef" where
  "PortDef_Complete p0 =
     (let p1 = (if pd_TargetPort p0 = 0 then p0\<lparr>pd_TargetPort := pd_Port p0\<rparr> else p0);
          p2 = (if pd_Port p1 = 0 then p1\<lparr>pd_Port := pd_TargetPort p1\<rparr> else p1);
          p3 = (if pd_Protocol p2 = [] then p2\<lparr>pd_Protocol := ProtocolTCP\<rparr> else p2)
      in p3)"

definition PortBinding_Complete :: "PortBinding \<Rightarrow> PortBinding" where
  "PortBinding_Complete b0 =
     (let b1 = (if pb_Hostname b0 \<noteq> [] \<and> pb_Protocol b0 = [] then b0\<lparr>pb_Protocol := ProtocolHTTP\<rparr> else b0);
          b2 = (if pb_Hostname b1 \<noteq> [] \<and> pb_Protocol b1 \<noteq> ProtocolHTTP then b1\<lparr>pb_Hostname := []\<rparr> else b1)
      in b2)"

definition PortPublish_Complete :: "PortPublish \<Rightarrow> PortPublish" where
  "PortPublish_Complete b0 =
     (let b1 = (if pp_Hostname b0 \<noteq> [] \<and> pp_Protocol b0 = [] then b0\<lparr>pp_Protocol := ProtocolHTTP\<rparr> else b0);
          b2 = (if pp_Hostname b1 \<noteq> [] \<and> pp_Protocol b1 \<noteq> ProtocolHTTP then b1\<lparr>pp_Hostname := []\<rparr> else b1)
      in b2)"

definition PortDef_completed :: "PortDef \<Rightarrow> bool" where
  "PortDef_completed p \<longleftrightarrow> (pd_Port p = 0 \<longleftrightarrow> pd_TargetPort p = 0) \<and> pd_Protocol p \<noteq> []"

definition PortBinding_completed :: "PortBinding \<Rightarrow> bool" where
  "PortBinding_completed b \<longleftrightarrow> pb_Hostname b = [] \<or> pb_Protocol b = ProtocolHTTP"

definition PortPublish_completed :: "PortPublish \<Rightarrow> bool" where
  "PortPublish_completed b \<longleftrightarrow> pp_Hostname b = [] \<or> pp_Protocol b = ProtocolHTTP"

interpretation port_def: completion PortDef_Complete PortDef_completed
  by unfold_locales (auto simp: PortDef_Complete_def PortDef_completed_def protocol_defs Let_def)

interpretation port_binding: completion PortBinding_Complete PortBinding_completed
  by unfold_locales (auto simp: PortBinding_Complete_def PortBinding_completed_def protocol_defs Let_def)

interpretation port_publish: completion PortPublish_Complete PortPublish_completed
  by unfold_locales (auto simp: PortPublish_Complete_def PortPublish_completed_def protocol_defs Let_def)

lemma PortDef_Complete_frame [simp]:
  "pd_Hostname (PortDef_Complete p) = pd_Hostname p"
  "pd_Publish (PortDef_Complete p) = pd_Publish p"
  "pd_Dev (PortDef_Complete p) = pd_Dev p"
  by (simp_all add: PortDef_Complete_def Let_def)

lemma PortDef_Complete_keeps:
  "pd_Port p \<noteq> 0 \<Longrightarrow> pd_Port (PortDef_Complete p) = pd_Port p"
  "pd_TargetPort p \<noteq> 0 \<Longrightarrow> pd_TargetPort (PortDef_Complete p) = pd_TargetPort p"
  "pd_Protocol p \<noteq> [] \<Longrightarrow> pd_Protocol (PortDef_Complete p) = pd_Protocol p"
  by (simp_all add: PortDef_Complete_def Let_def)

definition FormatString :: "PortDef \<Rightarrow> string \<Rightarrow> string" where
  "FormatString p serviceName =
     (let buf0 = serviceName;
          buf1 = (if pd_Port p \<noteq> pd_TargetPort p
                  then (if length buf0 > 0 then buf0 @ '':'' else buf0) @ itoa (sint (pd_Port p))
                  else buf0);
          buf2 = (if length buf1 > 0 then buf1 @ '':'' else buf1)
      in buf2 @ itoa (sint (pd_TargetPort p)) @ ''/'' @ pd_Protocol p)"

subsection \<open>The parser\<close>

datatype port_error =
    NameMismatch string
  | InvalidPortSyntax string num_error
  | InvalidBinding "string list"
  | MissingDot string
  | InvalidPort string string
  | TooManyParts string
  | InvalidProtocol string
  | ProtocolMismatch string string
  | HTTPPortBinding int32 int32

text \<open>\<open>^[a-z][-a-z0-9.]+$\<close>\<close>

definition is_lower :: "char \<Rightarrow> bool" where
  "is_lower c = (97 \<le> (of_char c :: nat) \<and> (of_char c :: nat) \<le> 122)"

definition nameRegexp :: "string \<Rightarrow> bool" where
  "nameRegexp s =
     (case s of c # d # ds \<Rightarrow> is_lower c \<and>
        list_all (\<lambda>x. x = CHR ''-'' \<or> is_lower x \<or> is_digit x \<or> x = CHR ''.'') (d # ds)
      | _ \<Rightarrow> False)"

definition validProto :: "string \<Rightarrow> Protocol \<times> bool" where
  "validProto p = (p, p = ProtocolTCP \<or> p = ProtocolUDP \<or> p = ProtocolHTTP \<or> p = [])"

definition parseNum :: "string \<Rightarrow> port_error + (int32 \<times> bool)" where
  "parseNum str =
     (case atoi str of
        Inl _ \<Rightarrow> if \<not> nameRegexp str then Inl (NameMismatch str) else Inr (0, False)
      | Inr i \<Rightarrow> Inr (to_int32 i, True))"

definition parsePortBindingSingle :: "string \<Rightarrow> port_error + (string \<times> int32)" where
  "parsePortBindingSingle str =
     (case atoi str of
        Inl _ \<Rightarrow> if \<not> nameRegexp str then Inl (NameMismatch str) else Inr (str, 0)
      | Inr i \<Rightarrow> Inr ([], to_int32 i))"

definition parsePortSingle :: "string \<Rightarrow> port_error + int32" where
  "parsePortSingle str =
     (case atoi str of Inl e \<Rightarrow> Inl (InvalidPortSyntax str e) | Inr i \<Rightarrow> Inr (to_int32 i))"

definition parsePortTriplet :: "string \<Rightarrow> string \<Rightarrow> string \<Rightarrow> port_error + PortDef" where
  "parsePortTriplet left middle right =
     bind_err (parseNum left) (\<lambda>(_, leftIsNum).
     bind_err (parseNum middle) (\<lambda>(middleNum, middleIsNum).
     bind_err (parseNum right) (\<lambda>(rightNum, rightIsNum).
       if \<not> leftIsNum \<and> middleIsNum \<and> rightIsNum
       then Inr (zero_PortDef\<lparr>pd_Port := middleNum, pd_TargetPort := rightNum, pd_Hostname := left,
                   pd_Protocol := ProtocolHTTP\<rparr>)
       else Inl (InvalidBinding [left, middle, right]))))"

definition parsePortBindingTriplet :: "string \<Rightarrow> string \<Rightarrow> string \<Rightarrow> port_error + PortBinding" where
  "parsePortBindingTriplet left middle right =
     bind_err (parseNum left) (\<lambda>(leftNum, leftIsNum).
     bind_err (parseNum middle) (\<lambda>(_, middleIsNum).
     bind_err (parseNum right) (\<lambda>(rightNum, rightIsNum).
       if leftIsNum \<and> \<not> middleIsNum \<and> rightIsNum
       then Inr (zero_PortBinding\<lparr>pb_Port := leftNum, pb_TargetPort := rightNum,
                   pb_TargetServiceName := middle\<rparr>)
       else if \<not> leftIsNum \<and> \<not> middleIsNum \<and> rightIsNum
       then Inr (zero_PortBinding\<lparr>pb_Hostname := left, pb_Protocol := ProtocolHTTP,
                   pb_TargetPort := rightNum, pb_TargetServiceName := middle\<rparr>)
       else Inl (InvalidBinding [left, middle, right]))))"

definition parsePortBindingTuple :: "string \<Rightarrow> string \<Rightarrow> port_error + PortBinding" where
  "parsePortBindingTuple left right =
     bind_err (parseNum left) (\<lambda>(leftNum, leftIsNum).
     bind_err (parseNum right) (\<lambda>(rightNum, rightIsNum).
       if leftIsNum \<and> rightIsNum
       then Inr (zero_PortBinding\<lparr>pb_Port := leftNum, pb_TargetPort := rightNum\<rparr>)
       else if \<not> leftIsNum \<and> rightIsNum
       then (if str_contains left ''.''
             then Inr (zero_PortBinding\<lparr>pb_Hostname := left, pb_TargetPort := rightNum,
                         pb_Protocol := ProtocolHTTP\<rparr>)
             else Inr (zero_PortBinding\<lparr>pb_TargetServiceName := left, pb_TargetPort := rightNum\<rparr>))
       else if leftIsNum \<and> \<not> rightIsNum
       then Inr (zero_PortBinding\<lparr>pb_Port := leftNum, pb_TargetServiceName := right\<rparr>)
       else (if str_contains left ''.''
             then Inr (zero_PortBinding\<lparr>pb_Hostname := left, pb_TargetServiceName := right,
                         pb_Protocol := ProtocolHTTP\<rparr>)
             else Inl (MissingDot left))))"

definition parsePortTuple :: "string \<Rightarrow> string \<Rightarrow> port_error + PortDef" where
  "parsePortTuple left right =
     bind_err (parseNum left) (\<lambda>(leftNum, leftIsNum).
     bind_err (parseNum right) (\<lambda>(rightNum, rightIsNum).
       if leftIsNum \<and> rightIsNum
       then Inr (zero_PortDef\<lparr>pd_Port := leftNum, pd_TargetPort := rightNum\<rparr>)
       else if \<not> leftIsNum \<and> rightIsNum
       then (if \<not> str_contains left ''.'' then Inl (MissingDot left)
             else Inr (zero_PortDef\<lparr>pd_Hostname := left, pd_TargetPort := rightNum,
                         pd_Protocol := ProtocolHTTP\<rparr>))
       else Inl (InvalidPort left right)))"

text \<open>The protocol check at the end of the loop bodies of \<open>ParsePorts\<close> and \<open>ParsePortBindings\<close>.\<close>

definition resolveProto :: "Protocol \<Rightarrow> string \<Rightarrow> port_error + Protocol" where
  "resolveProto inferred proto =
     (case validProto proto of (p, ok) \<Rightarrow>
        if \<not> ok then Inl (InvalidProtocol p)
        else if inferred \<noteq> [] \<and> p \<noteq> [] \<and> inferred \<noteq> p then Inl (ProtocolMismatch inferred p)
        else if inferred = [] then Inr p
        else Inr inferred)"

definition ParsePort :: "string \<Rightarrow> port_error + PortDef" where
  "ParsePort arg0 =
     (case str_cut CHR ''/'' arg0 of (arg, proto, _) \<Rightarrow>
        bind_err
          (case str_split CHR '':'' arg of
             [a] \<Rightarrow> bind_err (parsePortSingle a) (\<lambda>n. Inr (zero_PortDef\<lparr>pd_TargetPort := n\<rparr>))
           | [a, b] \<Rightarrow> parsePortTuple a b
           | [a, b, c] \<Rightarrow> parsePortTriplet a b c
           | _ \<Rightarrow> Inl (TooManyParts arg))
          (\<lambda>port. bind_err (resolveProto (pd_Protocol port) proto)
            (\<lambda>p. Inr (port\<lparr>pd_Protocol := p\<rparr>))))"

definition ParsePorts :: "string list \<Rightarrow> port_error + PortDef list" where
  "ParsePorts args = map_err ParsePort args"

definition ParsePortBinding :: "string \<Rightarrow> port_error + PortBinding" where
  "ParsePortBinding arg0 =
     (case str_cut CHR ''/'' arg0 of (arg, proto, _) \<Rightarrow>
        bind_err
          (case str_split CHR '':'' arg of
             [a] \<Rightarrow> bind_err (parsePortBindingSingle a)
               (\<lambda>(svc, n). Inr (zero_PortBinding\<lparr>pb_TargetServiceName := svc, pb_TargetPort := n\<rparr>))
           | [a, b] \<Rightarrow> bind_err (parsePortBindingTuple a b) (\<lambda>binding.
               if (pb_Protocol binding = ProtocolHTTP \<or> pb_Protocol binding = [] \<and> proto = ProtocolHTTP)
                  \<and> pb_Port binding \<noteq> 0
               then Inl (HTTPPortBinding (pb_TargetPort binding) (pb_Port binding))
               else Inr binding)
           | [a, b, c] \<Rightarrow> parsePortBindingTriplet a b c
           | _ \<Rightarrow> Inl (TooManyParts arg))
          (\<lambda>binding. bind_err (resolveProto (pb_Protocol binding) proto)
            (\<lambda>p. Inr (binding\<lparr>pb_Protocol := p\<rparr>))))"

definition ParsePortBindings :: "string list \<Rightarrow> port_error + PortBinding list" where
  "ParsePortBindings args = map_err ParsePortBinding args"

interpretation ports: slice_parser ParsePort ParsePorts
  by unfold_locales (simp_all add: ParsePorts_def)

interpretation bindings: slice_parser ParsePortBinding ParsePortBindings
  by unfold_locales (simp_all add: ParsePortBindings_def)

subsection \<open>Tokens\<close>

definition num_token :: "string \<Rightarrow> int32 \<Rightarrow> bool" where
  "num_token s n \<longleftrightarrow> (\<exists>i. atoi s = Inr i \<and> n = to_int32 i)"

lemma nameRegexp_not_num: "nameRegexp s \<Longrightarrow> \<exists>e. atoi s = Inl e"
  by (auto simp: nameRegexp_def atoi_def split_sign_def is_lower_def is_digit_def split: list.splits)

lemma parseNum_num: "parseNum s = Inr (n, True) \<longleftrightarrow> num_token s n"
  by (auto simp: parseNum_def num_token_def split: sum.splits if_splits)

lemma parseNum_name: "parseNum s = Inr (n, False) \<longleftrightarrow> nameRegexp s \<and> n = 0"
  by (auto simp: parseNum_def split: sum.splits if_splits dest: nameRegexp_not_num)

lemma parseNum_Inr:
  "parseNum s = Inr r \<longleftrightarrow> (\<exists>n. r = (n, True) \<and> num_token s n) \<or> (r = (0, False) \<and> nameRegexp s)"
  by (cases r) (metis (full_types) parseNum_num parseNum_name Pair_inject)

lemma parsePortBindingSingle_Inr:
  "parsePortBindingSingle s = Inr r \<longleftrightarrow>
     (\<exists>n. r = ([], n) \<and> num_token s n) \<or> (r = (s, 0) \<and> nameRegexp s)"
  by (auto simp: parsePortBindingSingle_def num_token_def split: sum.splits if_splits
      dest: nameRegexp_not_num)

lemma parsePortSingle_Inr: "parsePortSingle s = Inr n \<longleftrightarrow> num_token s n"
  by (auto simp: parsePortSingle_def num_token_def split: sum.splits)

lemma num_token_itoa: "num_token (itoa (sint w)) n \<longleftrightarrow> n = w"
  by (simp add: num_token_def atoi_itoa_sint)

lemma num_token_not_name: "num_token s n \<Longrightarrow> \<not> nameRegexp s"
  by (auto simp: num_token_def dest: nameRegexp_not_num)

lemma parseNum_cases:
  obtains (num) n where "num_token s n" "parseNum s = Inr (n, True)" "\<not> nameRegexp s"
      "\<And>m. num_token s m \<longleftrightarrow> m = n"
    | (name) "nameRegexp s" "parseNum s = Inr (0, False)" "\<And>m. \<not> num_token s m"
    | (bad) e where "parseNum s = Inl e" "\<not> nameRegexp s" "\<And>m. \<not> num_token s m"
proof (cases "atoi s")
  case (Inl e)
  then show thesis
    by (cases "nameRegexp s") (auto simp: num_token_def parseNum_def intro: name bad)
next
  case (Inr i)
  then have "\<not> nameRegexp s" by (auto dest: nameRegexp_not_num)
  with Inr show thesis
    by (intro num [of "to_int32 i"]) (auto simp: num_token_def parseNum_def)
qed

lemma resolveProto_Inr:
  "resolveProto inferred proto = Inr p \<longleftrightarrow>
     snd (validProto proto) \<and> (if inferred = [] then p = proto else p = inferred \<and> proto \<in> {[], inferred})"
  by (auto simp: resolveProto_def validProto_def)

subsection \<open>The documented forms\<close>

text \<open>
  The forms of a port binding that the comments of \<open>ports.go\<close> name, on the parts between the colons.
  \<open>num\<close> is a decimal number, a name is what \<open>nameRegexp\<close> accepts.
\<close>

inductive port_binding_syntax :: "string list \<Rightarrow> PortBinding \<Rightarrow> bool" where
  target: "num_token a n \<Longrightarrow> port_binding_syntax [a] (zero_PortBinding\<lparr>pb_TargetPort := n\<rparr>)"
| service: "nameRegexp a \<Longrightarrow> port_binding_syntax [a] (zero_PortBinding\<lparr>pb_TargetServiceName := a\<rparr>)"
| port_target: "num_token a m \<Longrightarrow> num_token b n \<Longrightarrow>
    port_binding_syntax [a, b] (zero_PortBinding\<lparr>pb_Port := m, pb_TargetPort := n\<rparr>)"
| host_target: "nameRegexp a \<Longrightarrow> CHR ''.'' \<in> set a \<Longrightarrow> num_token b n \<Longrightarrow>
    port_binding_syntax [a, b]
      (zero_PortBinding\<lparr>pb_Hostname := a, pb_TargetPort := n, pb_Protocol := ProtocolHTTP\<rparr>)"
| service_target: "nameRegexp a \<Longrightarrow> CHR ''.'' \<notin> set a \<Longrightarrow> num_token b n \<Longrightarrow>
    port_binding_syntax [a, b] (zero_PortBinding\<lparr>pb_TargetServiceName := a, pb_TargetPort := n\<rparr>)"
| port_service: "num_token a m \<Longrightarrow> nameRegexp b \<Longrightarrow>
    port_binding_syntax [a, b] (zero_PortBinding\<lparr>pb_Port := m, pb_TargetServiceName := b\<rparr>)"
| host_service: "nameRegexp a \<Longrightarrow> CHR ''.'' \<in> set a \<Longrightarrow> nameRegexp b \<Longrightarrow>
    port_binding_syntax [a, b]
      (zero_PortBinding\<lparr>pb_Hostname := a, pb_TargetServiceName := b, pb_Protocol := ProtocolHTTP\<rparr>)"
| port_service_target: "num_token a m \<Longrightarrow> nameRegexp b \<Longrightarrow> num_token c n \<Longrightarrow>
    port_binding_syntax [a, b, c]
      (zero_PortBinding\<lparr>pb_Port := m, pb_TargetPort := n, pb_TargetServiceName := b\<rparr>)"
| host_service_target: "nameRegexp a \<Longrightarrow> nameRegexp b \<Longrightarrow> num_token c n \<Longrightarrow>
    port_binding_syntax [a, b, c]
      (zero_PortBinding\<lparr>pb_Hostname := a, pb_Protocol := ProtocolHTTP, pb_TargetPort := n,
         pb_TargetServiceName := b\<rparr>)"

inductive_cases binding_syntaxE: "port_binding_syntax parts b"

inductive_simps binding_syntax1: "port_binding_syntax [a] bnd"
inductive_simps binding_syntax2: "port_binding_syntax [a, b] bnd"
inductive_simps binding_syntax3: "port_binding_syntax [a, b, c] bnd"

lemma single_syntax:
  "bind_err (parsePortBindingSingle a)
     (\<lambda>(svc, n). Inr (zero_PortBinding\<lparr>pb_TargetServiceName := svc, pb_TargetPort := n\<rparr>)) = Inr b
   \<longleftrightarrow> port_binding_syntax [a] b"
  by (auto simp: bind_err_Inr parsePortBindingSingle_Inr binding_syntax1 zero_PortBinding_def)

lemma tuple_syntax: "parsePortBindingTuple a c = Inr b \<longleftrightarrow> port_binding_syntax [a, c] b"
  by (cases a rule: parseNum_cases; cases c rule: parseNum_cases)
    (auto simp: parsePortBindingTuple_def binding_syntax2 go_str)

lemma triplet_syntax: "parsePortBindingTriplet a c d = Inr b \<longleftrightarrow> port_binding_syntax [a, c, d] b"
  by (cases a rule: parseNum_cases; cases c rule: parseNum_cases; cases d rule: parseNum_cases)
    (auto simp: parsePortBindingTriplet_def binding_syntax3)

lemmas binding_syntax_iff = single_syntax tuple_syntax triplet_syntax

lemma binding_syntax_length: "port_binding_syntax parts b \<Longrightarrow> length parts \<in> {1, 2, 3}"
  by (auto elim: binding_syntaxE)

text \<open>The guard of the two-part form.\<close>

definition http_port_binding :: "PortBinding \<Rightarrow> string \<Rightarrow> bool" where
  "http_port_binding b proto \<longleftrightarrow>
     (pb_Protocol b = ProtocolHTTP \<or> pb_Protocol b = [] \<and> proto = ProtocolHTTP) \<and> pb_Port b \<noteq> 0"

lemma ParsePortBinding_Inr:
  "ParsePortBinding arg0 = Inr b \<longleftrightarrow>
     (\<exists>arg proto f b0. str_cut CHR ''/'' arg0 = (arg, proto, f) \<and>
        port_binding_syntax (str_split CHR '':'' arg) b0 \<and>
        \<not> (length (str_split CHR '':'' arg) = 2 \<and> http_port_binding b0 proto) \<and>
        (\<exists>p. resolveProto (pb_Protocol b0) proto = Inr p \<and> b = b0\<lparr>pb_Protocol := p\<rparr>))"
proof -
  obtain arg proto f where cut: "str_cut CHR ''/'' arg0 = (arg, proto, f)"
    by (metis prod_cases3)
  let ?parts = "str_split CHR '':'' arg"
  consider (1) a where "?parts = [a]" | (2) a c where "?parts = [a, c]"
    | (3) a c d where "?parts = [a, c, d]" | (more) a c d e es where "?parts = a # c # d # e # es"
    by (metis list.exhaust str_split_not_Nil)
  then show ?thesis
  proof cases
    case 1
    then show ?thesis
      by (auto simp: ParsePortBinding_def cut bind_err_Inr parsePortBindingSingle_Inr
          binding_syntax1 zero_PortBinding_def)
  next
    case 2
    then show ?thesis
      by (auto simp: ParsePortBinding_def cut bind_err_Inr tuple_syntax http_port_binding_def)
  next
    case 3
    then show ?thesis
      by (auto simp: ParsePortBinding_def cut bind_err_Inr triplet_syntax)
  next
    case more
    then show ?thesis
      by (auto simp: ParsePortBinding_def cut dest!: binding_syntax_length)
  qed
qed

lemma binding_syntax_protocol:
  "port_binding_syntax parts b \<Longrightarrow>
     (pb_Hostname b = [] \<and> pb_Protocol b = []) \<or> (pb_Hostname b \<noteq> [] \<and> pb_Protocol b = ProtocolHTTP \<and> pb_Port b = 0)"
  by (auto elim!: binding_syntaxE simp: zero_PortBinding_def nameRegexp_def)

lemma resolveProto_valid:
  "resolveProto inferred proto = Inr p \<Longrightarrow> snd (validProto inferred) \<Longrightarrow> snd (validProto p)"
  by (auto simp: resolveProto_Inr split: if_splits)

lemma ParsePortBinding_completed:
  "ParsePortBinding arg = Inr b \<Longrightarrow> PortBinding_completed b \<and> snd (validProto (pb_Protocol b))"
  by (auto simp: ParsePortBinding_Inr PortBinding_completed_def resolveProto_Inr validProto_def
      dest!: binding_syntax_protocol split: if_splits)

lemma ParsePortBinding_http:
  assumes "ParsePortBinding arg0 = Inr b" and "pb_Protocol b = ProtocolHTTP" and "pb_Port b \<noteq> 0"
  shows "length (str_split CHR '':'' (fst (str_cut CHR ''/'' arg0))) = 3"
proof -
  from assms(1) obtain arg proto f b0 p where
      cut: "str_cut CHR ''/'' arg0 = (arg, proto, f)"
    and syn: "port_binding_syntax (str_split CHR '':'' arg) b0"
    and guard: "\<not> (length (str_split CHR '':'' arg) = 2 \<and> http_port_binding b0 proto)"
    and res: "resolveProto (pb_Protocol b0) proto = Inr p" and b: "b = b0\<lparr>pb_Protocol := p\<rparr>"
    by (auto simp: ParsePortBinding_Inr)
  have port: "pb_Port b0 \<noteq> 0" using assms(3) b by simp
  with syn have "pb_Protocol b0 = []"
    using binding_syntax_protocol by blast
  with res b assms(2) have "proto = ProtocolHTTP" by (simp add: resolveProto_Inr)
  with port \<open>pb_Protocol b0 = []\<close> guard have "length (str_split CHR '':'' arg) \<noteq> 2"
    by (simp add: http_port_binding_def)
  moreover have "length (str_split CHR '':'' arg) \<noteq> 1"
    using syn port by (auto elim!: binding_syntaxE simp: zero_PortBinding_def)
  ultimately show ?thesis
    using binding_syntax_length [OF syn] cut by simp
qed

subsection \<open>Printing and parsing\<close>

lemma itoa_no_sep: "CHR ''/'' \<notin> set (itoa i)" "CHR '':'' \<notin> set (itoa i)"
  using itoa_chars by (fastforce simp: is_digit_def)+

lemma cut_printed: "CHR ''/'' \<notin> set a \<Longrightarrow> str_cut CHR ''/'' (a @ CHR ''/'' # proto) = (a, proto, True)"
  by simp

lemma parseNum_itoa: "parseNum (itoa (sint w)) = Inr (w, True)"
  by (simp add: parseNum_num num_token_itoa)

lemma parsePortSingle_itoa: "parsePortSingle (itoa (sint w)) = Inr w"
  by (simp add: parsePortSingle_Inr num_token_itoa)

lemma parsePortTuple_itoa:
  "parsePortTuple (itoa (sint m)) (itoa (sint n)) =
     Inr (zero_PortDef\<lparr>pd_Port := m, pd_TargetPort := n\<rparr>)"
  by (simp add: parsePortTuple_def parseNum_itoa)

lemma resolveProto_empty: "snd (validProto p) \<Longrightarrow> resolveProto [] p = Inr p"
  by (simp add: resolveProto_Inr)

lemma ParsePort_single_form:
  assumes "snd (validProto proto)"
  shows "ParsePort (itoa (sint n) @ CHR ''/'' # proto) =
    Inr (zero_PortDef\<lparr>pd_TargetPort := n, pd_Protocol := proto\<rparr>)"
  using assms
  by (simp add: ParsePort_def itoa_no_sep parsePortSingle_itoa zero_PortDef_def resolveProto_empty)

lemma ParsePort_tuple_form:
  assumes "snd (validProto proto)"
  shows "ParsePort (itoa (sint m) @ CHR '':'' # itoa (sint n) @ CHR ''/'' # proto) =
    Inr (zero_PortDef\<lparr>pd_Port := m, pd_TargetPort := n, pd_Protocol := proto\<rparr>)"
proof -
  have "str_cut CHR ''/'' ((itoa (sint m) @ CHR '':'' # itoa (sint n)) @ CHR ''/'' # proto) =
      (itoa (sint m) @ CHR '':'' # itoa (sint n), proto, True)"
    by (rule cut_printed) (simp add: itoa_no_sep)
  then show ?thesis using assms
    by (simp add: ParsePort_def itoa_no_sep parsePortTuple_itoa zero_PortDef_def resolveProto_empty)
qed

text \<open>C14: A port that is complete, has a known protocol and sets nothing but its two numbers and its
  protocol is printed by \<open>FormatString\<close> (with no service name) in a form that \<open>ParsePorts\<close> accepts, and
  completing the parsed port gives the port back.\<close>

theorem port_format_parse:
  assumes "PortDef_completed p" and "snd (validProto (pd_Protocol p))"
    and "pd_Hostname p = []" and "\<not> pd_Publish p" and "\<not> pd_Dev p"
  shows "\<exists>q. ParsePorts [FormatString p []] = Inr [q] \<and> PortDef_Complete q = p"
proof (cases "pd_Port p = pd_TargetPort p")
  case True
  let ?q = "zero_PortDef\<lparr>pd_TargetPort := pd_TargetPort p, pd_Protocol := pd_Protocol p\<rparr>"
  have "ParsePorts [FormatString p []] = Inr [?q]"
    using True assms(2) by (simp add: ParsePorts_def FormatString_def ParsePort_single_form)
  moreover have "PortDef_Complete ?q = p"
    using True assms by (simp add: PortDef_Complete_def zero_PortDef_def PortDef_completed_def)
  ultimately show ?thesis by blast
next
  case False
  let ?q = "zero_PortDef\<lparr>pd_Port := pd_Port p, pd_TargetPort := pd_TargetPort p, pd_Protocol := pd_Protocol p\<rparr>"
  have "ParsePorts [FormatString p []] = Inr [?q]"
    using False assms(2) by (simp add: ParsePorts_def FormatString_def ParsePort_tuple_form)
  moreover have "PortDef_Complete ?q = p"
    using False assms by (simp add: PortDef_Complete_def zero_PortDef_def PortDef_completed_def)
  ultimately show ?thesis by blast
qed

theorem port_format_parse_witness:
  "\<exists>q. ParsePorts [FormatString (zero_PortDef\<lparr>pd_Port := 81, pd_TargetPort := 80, pd_Protocol := ''udp''\<rparr>) []]
        = Inr [q] \<and>
      PortDef_Complete q = zero_PortDef\<lparr>pd_Port := 81, pd_TargetPort := 80, pd_Protocol := ''udp''\<rparr>"
  by (rule port_format_parse)
    (simp_all add: PortDef_completed_def validProto_def zero_PortDef_def protocol_defs)


text \<open>Every binding that \<open>ParsePortBindings\<close> returns has a known protocol and is complete: its
  hostname is empty unless its protocol is http, so \<open>Complete\<close> leaves it as it is.\<close>

theorem ParsePortBindings_complete:
  "ParsePortBindings args = Inr bs \<Longrightarrow>
     list_all (\<lambda>b. PortBinding_Complete b = b \<and> snd (validProto (pb_Protocol b))) bs"
  by (rule bindings.results_satisfy)
    (auto dest!: ParsePortBinding_completed simp: port_binding.completed_iff)

theorem ParsePortBindings_complete_witness:
  "list_all (\<lambda>b. PortBinding_Complete b = b \<and> snd (validProto (pb_Protocol b)))
     [zero_PortBinding\<lparr>pb_Hostname := ''a.b'', pb_TargetServiceName := ''web'', pb_Protocol := ''http''\<rparr>]"
proof (rule ParsePortBindings_complete)
  show "ParsePortBindings [''a.b:web''] =
    Inr [zero_PortBinding\<lparr>pb_Hostname := ''a.b'', pb_TargetServiceName := ''web'', pb_Protocol := ''http''\<rparr>]"
    by code_simp
qed

text \<open>The rule that an http port can not be bound to an alternative port is only enforced for the
  two-part form: a binding that \<open>ParsePortBindings\<close> accepts with protocol http and a port number was
  written in the three-part form \<open>port:service:port/http\<close>.\<close>

theorem ParsePortBindings_http_port:
  assumes "ParsePortBindings [arg] = Inr [b]" and "pb_Protocol b = ProtocolHTTP" and "pb_Port b \<noteq> 0"
  shows "length (str_split CHR '':'' (fst (str_cut CHR ''/'' arg))) = 3"
  using assms by (intro ParsePortBinding_http) (auto simp: ParsePortBindings_def bind_err_Inr)

theorem ParsePortBindings_http_port_witness:
  "ParsePortBindings [''81:web:80/http''] =
     Inr [zero_PortBinding\<lparr>pb_Port := 81, pb_TargetPort := 80, pb_TargetServiceName := ''web'',
            pb_Protocol := ''http''\<rparr>] \<and>
   length (str_split CHR '':'' (fst (str_cut CHR ''/'' ''81:web:80/http''))) = 3"
proof (rule conjI)
  show *: "ParsePortBindings [''81:web:80/http''] =
     Inr [zero_PortBinding\<lparr>pb_Port := 81, pb_TargetPort := 80, pb_TargetServiceName := ''web'',
            pb_Protocol := ''http''\<rparr>]"
    by code_simp
  show "length (str_split CHR '':'' (fst (str_cut CHR ''/'' ''81:web:80/http''))) = 3"
    by (rule ParsePortBindings_http_port [OF *]) (simp_all add: zero_PortBinding_def protocol_defs)
qed

text \<open>\<open>ParsePorts\<close> accepts every 64-bit decimal number as a port and keeps its low 32 bits: two numbers
  that differ by a multiple of two to the thirty-second are the same port.\<close>

theorem ParsePorts_wraps:
  assumes "- (2 ^ 63) \<le> i" and "i < 2 ^ 63"
  shows "ParsePorts [itoa i] = Inr [zero_PortDef\<lparr>pd_TargetPort := word_of_int i\<rparr>]"
  using assms
  by (simp add: ParsePorts_def ParsePort_def itoa_no_sep parsePortSingle_def atoi_itoa to_int32_def
      resolveProto_def validProto_def zero_PortDef_def)

theorem ParsePorts_wraps_witness:
  "ParsePorts [itoa (2 ^ 32 + 80)] = Inr [zero_PortDef\<lparr>pd_TargetPort := 80\<rparr>]"
  using ParsePorts_wraps [of "2 ^ 32 + 80"] by simp

end
