(* ===== verification/PermissionRules.thy ===== *)
theory PermissionRules
  imports Prelude
begin

text \<open>
  The permission rules of an Acorn (\<open>PolicyRule\<close> and \<open>Permissions\<close> in
  \<open>pkg/apis/internal.acorn.io/v1/appspec.go\<close>) and the check whether granted permissions cover
  requested ones. The lemmas characterise the pattern match, the namespaces a rule resolves to and the
  check itself, and compare the two ways of collecting the rules of a service.
\<close>

subsection \<open>Rules\<close>

record PolicyRule =
  pr_Verbs :: "string list"
  pr_APIGroups :: "string list"
  pr_Resources :: "string list"
  pr_ResourceNames :: "string list"
  pr_NonResourceURLs :: "string list"
  pr_Scopes :: "string list"

definition zero_PolicyRule :: PolicyRule where
  "zero_PolicyRule = \<lparr>pr_Verbs = [], pr_APIGroups = [], pr_Resources = [], pr_ResourceNames = [],
     pr_NonResourceURLs = [], pr_Scopes = []\<rparr>"

fun matchesAny :: "string list \<Rightarrow> string \<Rightarrow> bool" where
  "matchesAny [] requested = False"
| "matchesAny (allow # rest) requested =
     (if allow = ''*'' \<or> requested = allow then True
      else if str_has_suffix allow ''*'' \<and> str_has_prefix requested (take (length allow - 1) allow) then True
      else matchesAny rest requested)"

definition matchesSingle :: "string list \<Rightarrow> string \<Rightarrow> bool \<Rightarrow> bool" where
  "matchesSingle allowed requested emptyAllowedIsAll =
     (if length requested = 0 then True
      else if emptyAllowedIsAll \<and> length allowed = 0 then True
      else matchesAny allowed requested)"

fun matches :: "string list \<Rightarrow> string list \<Rightarrow> bool \<Rightarrow> bool" where
  "matches allowed [] emptyAllowedIsAll = True"
| "matches allowed (requested # rest) emptyAllowedIsAll =
     (if \<not> matchesSingle allowed requested emptyAllowedIsAll then False
      else matches allowed rest emptyAllowedIsAll)"

fun IsAccountScoped_loop :: "string list \<Rightarrow> bool" where
  "IsAccountScoped_loop [] = False"
| "IsAccountScoped_loop (scope # rest) =
     (if scope = [] then True
      else if scope = ''cluster'' then True
      else if scope = ''account'' then True
      else IsAccountScoped_loop rest)"

definition IsAccountScoped :: "PolicyRule \<Rightarrow> bool" where
  "IsAccountScoped p = IsAccountScoped_loop (pr_Scopes p)"

definition IsProjectScoped :: "PolicyRule \<Rightarrow> bool" where
  "IsProjectScoped p =
     (if length (pr_Scopes p) = 0 then True else list_ex (\<lambda>scope. scope = ''project'') (pr_Scopes p))"

definition Namespaces :: "PolicyRule \<Rightarrow> string list" where
  "Namespaces p =
     map (\<lambda>scope. str_trim_prefix scope ''namespace:'')
       (filter (\<lambda>scope. str_has_prefix scope ''namespace:'') (pr_Scopes p))"

definition ResolveNamespaces :: "PolicyRule \<Rightarrow> string \<Rightarrow> string list" where
  "ResolveNamespaces p currentNamespace =
     (let m0 = ([] :: (string, unit) gomap);
          m1 = (if IsProjectScoped p then gm_set m0 currentNamespace () else m0);
          m2 = (if IsAccountScoped p then gm_set m1 [] () else m1);
          m3 = fold (\<lambda>namespace m. gm_set m namespace ()) (Namespaces p) m2
      in sort (map fst m3))"

definition PolicyRule_Grants :: "PolicyRule \<Rightarrow> string \<Rightarrow> PolicyRule \<Rightarrow> bool" where
  "PolicyRule_Grants p currentNamespace requested =
     (if length (pr_NonResourceURLs p) > 0 \<and> length (pr_Resources p) = 0
      then length (pr_Scopes p) = 0 \<and> length (pr_Scopes requested) = 0 \<and>
           matches (pr_NonResourceURLs p) (pr_NonResourceURLs requested) False
      else if length (pr_NonResourceURLs p) > 0 then False
      else list_ex (\<lambda>ns. list_ex (\<lambda>requestedNamespace.
             ns = requestedNamespace \<and>
             matches (pr_Verbs p) (pr_Verbs requested) False \<and>
             matches (pr_APIGroups p) (pr_APIGroups requested) False \<and>
             matches (pr_Resources p) (pr_Resources requested) False \<and>
             matches (pr_ResourceNames p) (pr_ResourceNames requested) True)
             (ResolveNamespaces requested currentNamespace))
           (ResolveNamespaces p currentNamespace))"

subsection \<open>Permissions of a service\<close>

record Permissions =
  pm_ServiceName :: string
  pm_Rules :: "PolicyRule list"
  pm_ClusterRules :: "PolicyRule list"

definition zero_Permissions :: Permissions where
  "zero_Permissions = \<lparr>pm_ServiceName = [], pm_Rules = [], pm_ClusterRules = []\<rparr>"

definition GetRules :: "Permissions \<Rightarrow> PolicyRule list" where
  "GetRules p =
     pm_Rules p @ map (\<lambda>rule. if length (pr_Scopes rule) = 0
                              then rule\<lparr>pr_Scopes := pr_Scopes rule @ [''cluster'']\<rparr> else rule)
                      (pm_ClusterRules p)"

definition HasRules :: "Permissions option \<Rightarrow> bool" where
  "HasRules p =
     (case p of None \<Rightarrow> False | Some q \<Rightarrow> length (pm_Rules q) > 0 \<or> length (pm_ClusterRules q) > 0)"

definition Permissions_Get :: "Permissions option \<Rightarrow> Permissions" where
  "Permissions_Get p = (case p of None \<Rightarrow> zero_Permissions | Some q \<Rightarrow> q)"

definition GroupByServiceName :: "Permissions list \<Rightarrow> (string, Permissions) gomap" where
  "GroupByServiceName perms =
     fold (\<lambda>perm byServiceName.
       let existing = gm_get_or zero_Permissions byServiceName (pm_ServiceName perm);
           existing1 = existing\<lparr>pm_ServiceName := pm_ServiceName perm\<rparr>;
           existing2 = existing1\<lparr>pm_Rules := pm_Rules existing1 @ pm_Rules perm\<rparr>
       in gm_set byServiceName (pm_ServiceName perm) existing2) perms []"

definition Permissions_Grants :: "Permissions \<Rightarrow> string \<Rightarrow> string \<Rightarrow> PolicyRule \<Rightarrow> bool" where
  "Permissions_Grants p currentNamespace forService requested =
     (if pm_ServiceName p \<noteq> forService then False
      else list_ex (\<lambda>granted. PolicyRule_Grants granted currentNamespace requested) (GetRules p))"

definition Grants :: "Permissions \<Rightarrow> string \<Rightarrow> Permissions \<Rightarrow> Permissions \<times> bool" where
  "Grants grantedPermissions currentNamespace requestedPermissions =
     (let missing0 = zero_Permissions\<lparr>pm_ServiceName := pm_ServiceName requestedPermissions\<rparr>;
          missing = fold (\<lambda>requested missing.
            if Permissions_Grants grantedPermissions currentNamespace
                 (pm_ServiceName requestedPermissions) requested
            then missing
            else missing\<lparr>pm_Rules := pm_Rules missing @ [requested]\<rparr>)
            (pm_Rules requestedPermissions) missing0
      in (missing, length (pm_Rules missing) = 0))"

definition FindPermission :: "string \<Rightarrow> Permissions list \<Rightarrow> Permissions" where
  "FindPermission serviceName perms =
     fold (\<lambda>perm result.
       if pm_ServiceName perm = serviceName
       then result\<lparr>pm_Rules := pm_Rules result @ GetRules perm\<rparr> else result)
       perms (zero_Permissions\<lparr>pm_ServiceName := serviceName\<rparr>)"

subsection \<open>The pattern match\<close>

text \<open>A pattern is a literal or a prefix followed by a star.\<close>

definition glob :: "string \<Rightarrow> string \<Rightarrow> bool" where
  "glob pat s \<longleftrightarrow> pat = s \<or> (\<exists>p r. pat = p @ ''*'' \<and> s = p @ r)"

lemma glob_suffix_star:
  "suffix ''*'' allow \<and> prefix (take (length allow - 1) allow) s \<longleftrightarrow> (\<exists>p r. allow = p @ ''*'' \<and> s = p @ r)"
  by (auto simp: suffix_def prefix_def)

lemma matchesAny_iff: "matchesAny allowed s \<longleftrightarrow> (\<exists>a\<in>set allowed. glob a s)"
proof (induction allowed)
  case (Cons a allowed)
  have "matchesAny (a # allowed) s \<longleftrightarrow> glob a s \<or> matchesAny allowed s"
    using glob_suffix_star [of a s] by (auto simp: glob_def go_str)
  then show ?case using Cons.IH by simp
qed simp

lemma matchesSingle_iff:
  "matchesSingle allowed s e \<longleftrightarrow> s = [] \<or> (e \<and> allowed = []) \<or> (\<exists>a\<in>set allowed. glob a s)"
  by (auto simp: matchesSingle_def matchesAny_iff)

lemma matches_iff:
  "matches allowed requested e \<longleftrightarrow>
     (\<forall>s\<in>set requested. s = [] \<or> (e \<and> allowed = []) \<or> (\<exists>a\<in>set allowed. glob a s))"
  by (induction requested) (auto simp: matchesSingle_iff)

lemma matches_refl: "matches xs xs e"
  by (auto simp: matches_iff glob_def)

lemma matches_subset: "set requested' \<subseteq> set requested \<Longrightarrow> matches allowed requested e \<Longrightarrow> matches allowed requested' e"
  by (auto simp: matches_iff)

subsection \<open>Namespaces\<close>

lemma IsAccountScoped_iff: "IsAccountScoped p \<longleftrightarrow> set (pr_Scopes p) \<inter> {[], ''cluster'', ''account''} \<noteq> {}"
proof -
  have "IsAccountScoped_loop xs \<longleftrightarrow> set xs \<inter> {[], ''cluster'', ''account''} \<noteq> {}" for xs
    by (induction xs) auto
  then show ?thesis by (simp add: IsAccountScoped_def)
qed

lemma IsProjectScoped_iff: "IsProjectScoped p \<longleftrightarrow> pr_Scopes p = [] \<or> ''project'' \<in> set (pr_Scopes p)"
  by (auto simp: IsProjectScoped_def list_ex_iff)

lemma Namespaces_iff: "ns \<in> set (Namespaces p) \<longleftrightarrow> ''namespace:'' @ ns \<in> set (pr_Scopes p)"
proof
  assume "ns \<in> set (Namespaces p)"
  then obtain scope where "scope \<in> set (pr_Scopes p)" "prefix ''namespace:'' scope"
      "ns = str_trim_prefix scope ''namespace:''"
    by (auto simp: Namespaces_def str_has_prefix_iff)
  then show "''namespace:'' @ ns \<in> set (pr_Scopes p)"
    by (metis prefix_def str_trim_prefix_append)
next
  assume "''namespace:'' @ ns \<in> set (pr_Scopes p)"
  then show "ns \<in> set (Namespaces p)"
    unfolding Namespaces_def set_map set_filter
    by (intro image_eqI [of _ _ "''namespace:'' @ ns"]) (simp_all only: str_trim_prefix_append mem_Collect_eq str_has_prefix_iff prefixI)
qed

definition resolved :: "PolicyRule \<Rightarrow> string \<Rightarrow> string set" where
  "resolved p currentNamespace =
     (if IsProjectScoped p then {currentNamespace} else {}) \<union>
     (if IsAccountScoped p then {[]} else {}) \<union> set (Namespaces p)"

lemma fold_gm_set_keys:
  "fst ` set (fold (\<lambda>k m. gm_set m k ()) ks m) = fst ` set m \<union> set ks"
  by (induction ks arbitrary: m) (auto simp: gm_keys_set)

lemma fold_gm_set_ok: "gm_ok m \<Longrightarrow> gm_ok (fold (\<lambda>k m. gm_set m k ()) ks m)"
  by (induction ks arbitrary: m) auto

lemma ResolveNamespaces_set: "set (ResolveNamespaces p cur) = resolved p cur"
  by (auto simp: ResolveNamespaces_def resolved_def Let_def fold_gm_set_keys gm_keys_set)

lemma ResolveNamespaces_distinct: "distinct (ResolveNamespaces p cur)"
proof -
  have "gm_ok (fold (\<lambda>k m. gm_set m k ()) (Namespaces p) m)" if "gm_ok m" for m
    using that by (rule fold_gm_set_ok)
  then show ?thesis by (simp add: ResolveNamespaces_def Let_def gm_ok_def [symmetric])
qed

lemma ResolveNamespaces_sorted: "sorted (ResolveNamespaces p cur)"
  by (simp add: ResolveNamespaces_def Let_def)

lemma ResolveNamespaces_eq: "ResolveNamespaces p cur = sorted_list_of_set (resolved p cur)"
  by (metis ResolveNamespaces_distinct ResolveNamespaces_set ResolveNamespaces_sorted
      sorted_list_of_set.idem_if_sorted_distinct)

subsection \<open>The check\<close>

definition rule_covers :: "PolicyRule \<Rightarrow> PolicyRule \<Rightarrow> bool" where
  "rule_covers p r \<longleftrightarrow>
     matches (pr_Verbs p) (pr_Verbs r) False \<and> matches (pr_APIGroups p) (pr_APIGroups r) False \<and>
     matches (pr_Resources p) (pr_Resources r) False \<and>
     matches (pr_ResourceNames p) (pr_ResourceNames r) True"

lemma Grants_resource:
  "pr_NonResourceURLs p = [] \<Longrightarrow>
     PolicyRule_Grants p cur r \<longleftrightarrow> resolved p cur \<inter> resolved r cur \<noteq> {} \<and> rule_covers p r"
  by (auto simp: PolicyRule_Grants_def list_ex_iff ResolveNamespaces_set rule_covers_def)

lemma Grants_url:
  "pr_NonResourceURLs p \<noteq> [] \<Longrightarrow>
     PolicyRule_Grants p cur r \<longleftrightarrow> pr_Resources p = [] \<and> pr_Scopes p = [] \<and> pr_Scopes r = [] \<and>
       matches (pr_NonResourceURLs p) (pr_NonResourceURLs r) False"
  by (simp add: PolicyRule_Grants_def)

lemma fold_missing:
  "fold (\<lambda>r m. if P r then m else m\<lparr>pm_Rules := pm_Rules m @ [r]\<rparr>) rs m0 =
     m0\<lparr>pm_Rules := pm_Rules m0 @ filter (\<lambda>r. \<not> P r) rs\<rparr>"
  by (induction rs arbitrary: m0) auto

lemma Grants_eq:
  "Grants g cur req =
     (let ms = filter (\<lambda>r. \<not> Permissions_Grants g cur (pm_ServiceName req) r) (pm_Rules req)
      in (\<lparr>pm_ServiceName = pm_ServiceName req, pm_Rules = ms, pm_ClusterRules = []\<rparr>, ms = []))"
  by (simp add: Grants_def fold_missing zero_Permissions_def Let_def)

lemma FindPermission_fold:
  "fold (\<lambda>perm result. if pm_ServiceName perm = s
       then result\<lparr>pm_Rules := pm_Rules result @ GetRules perm\<rparr> else result) perms p0 =
     p0\<lparr>pm_Rules := pm_Rules p0 @ concat (map GetRules (filter (\<lambda>p. pm_ServiceName p = s) perms))\<rparr>"
  by (induction perms arbitrary: p0) auto

lemma FindPermission_eq:
  "FindPermission s perms =
     \<lparr>pm_ServiceName = s, pm_Rules = concat (map GetRules (filter (\<lambda>p. pm_ServiceName p = s) perms)),
      pm_ClusterRules = []\<rparr>"
  by (simp add: FindPermission_def FindPermission_fold zero_Permissions_def)

definition group_entry :: "string \<Rightarrow> Permissions list \<Rightarrow> Permissions option" where
  "group_entry s perms =
     (if s \<in> pm_ServiceName ` set perms
      then Some \<lparr>pm_ServiceName = s, pm_Rules = concat (map pm_Rules (filter (\<lambda>p. pm_ServiceName p = s) perms)),
                 pm_ClusterRules = []\<rparr>
      else None)"

lemma GroupByServiceName_snoc:
  "GroupByServiceName (perms @ [perm]) =
     (let m = GroupByServiceName perms;
          existing = (gm_get_or zero_Permissions m (pm_ServiceName perm))\<lparr>pm_ServiceName := pm_ServiceName perm\<rparr>
      in gm_set m (pm_ServiceName perm) (existing\<lparr>pm_Rules := pm_Rules existing @ pm_Rules perm\<rparr>))"
  by (simp add: GroupByServiceName_def Let_def)

lemma GroupByServiceName_get: "gm_get (GroupByServiceName perms) s = group_entry s perms"
proof (induction perms rule: rev_induct)
  case Nil
  then show ?case by (simp add: GroupByServiceName_def group_entry_def)
next
  case (snoc perm perms)
  let ?n = "pm_ServiceName perm"
  have "gm_get_or zero_Permissions (GroupByServiceName perms) ?n =
      (case group_entry ?n perms of None \<Rightarrow> zero_Permissions | Some p \<Rightarrow> p)" if "s = ?n"
    using snoc that by (simp add: gm_get_or_def)
  then show ?case
    using snoc
    by (auto simp: GroupByServiceName_snoc Let_def go_map group_entry_def zero_Permissions_def
        image_iff concat_eq_Nil_conv filter_empty_conv)
qed

lemma GroupByServiceName_ok: "gm_ok (GroupByServiceName perms)"
  by (induction perms rule: rev_induct)
    (simp_all add: GroupByServiceName_snoc Let_def, simp add: GroupByServiceName_def)


text \<open>The namespaces of a rule come sorted and without duplicates: the current one for a project
  scoped rule (a rule without scopes is one), the empty one for an account or cluster scoped rule, and
  the namespaces its scopes name.\<close>

theorem ResolveNamespaces_spec:
  "sorted_wrt (<) (ResolveNamespaces p cur) \<and>
   set (ResolveNamespaces p cur) =
     {ns. ns = cur \<and> (pr_Scopes p = [] \<or> ''project'' \<in> set (pr_Scopes p))} \<union>
     {ns. ns = [] \<and> set (pr_Scopes p) \<inter> {[], ''cluster'', ''account''} \<noteq> {}} \<union>
     {ns. ''namespace:'' @ ns \<in> set (pr_Scopes p)}"
  using ResolveNamespaces_sorted [of p cur] ResolveNamespaces_distinct [of p cur]
  unfolding ResolveNamespaces_set resolved_def IsProjectScoped_iff IsAccountScoped_iff
  by (auto simp: strict_sorted_iff Namespaces_iff simp del: append.simps)

text \<open>\<open>Grants\<close> reports exactly the requested rules that no rule of the granted permissions covers, in
  their order, and says granted when there are none; permissions of another service grant nothing.\<close>

theorem Grants_missing:
  "Grants g cur req = (missing, ok) \<longleftrightarrow>
     missing = \<lparr>pm_ServiceName = pm_ServiceName req,
       pm_Rules = filter (\<lambda>r. \<not> (pm_ServiceName g = pm_ServiceName req \<and>
         (\<exists>granted\<in>set (GetRules g). PolicyRule_Grants granted cur r))) (pm_Rules req),
       pm_ClusterRules = []\<rparr> \<and>
     ok = (pm_Rules missing = [])"
  by (auto simp: Grants_eq Let_def Permissions_Grants_def list_ex_iff)

text \<open>The check looks for one common namespace and for nothing in an empty list of names, so it
  accepts more than the granting rule allows: when a rule is granted, the rule with further scopes
  added, and the rule without its restriction to resource names, are granted as well.\<close>

theorem PolicyRule_Grants_overapproximates:
  assumes "PolicyRule_Grants p cur r" and "pr_NonResourceURLs p = []" and "pr_Scopes r \<noteq> []"
  shows "PolicyRule_Grants p cur (r\<lparr>pr_Scopes := pr_Scopes r @ further, pr_ResourceNames := []\<rparr>)"
proof -
  let ?r = "r\<lparr>pr_Scopes := pr_Scopes r @ further, pr_ResourceNames := []\<rparr>"
  have "resolved r cur \<subseteq> resolved ?r cur"
    using assms(3)
    by (auto simp: resolved_def IsProjectScoped_iff IsAccountScoped_iff Namespaces_iff split: if_splits)
  moreover have "rule_covers p r \<Longrightarrow> rule_covers p ?r"
    by (simp add: rule_covers_def)
  ultimately show ?thesis
    using assms(1,2) by (auto simp: Grants_resource)
qed

theorem PolicyRule_Grants_overapproximates_witness:
  "let p = zero_PolicyRule\<lparr>pr_Verbs := [''get''], pr_APIGroups := [''api.acorn.io''], pr_Resources := [''secrets''],
             pr_ResourceNames := [''mine''], pr_Scopes := [''project'']\<rparr>
   in PolicyRule_Grants p ''ns'' (p\<lparr>pr_Scopes := pr_Scopes p @ [''cluster''], pr_ResourceNames := []\<rparr>)"
  unfolding Let_def
  by (rule PolicyRule_Grants_overapproximates)
    (simp_all add: zero_PolicyRule_def Grants_resource rule_covers_def matches_refl resolved_def
      IsProjectScoped_iff)

text \<open>Grouping permissions by service and collecting the permissions of one service agree as long as
  nobody uses the deprecated cluster rules: the group of a service that occurs is what
  \<open>FindPermission\<close> returns. With cluster rules \<open>GroupByServiceName\<close> drops them.\<close>

theorem GroupByServiceName_FindPermission:
  assumes "\<forall>p\<in>set perms. pm_ClusterRules p = []" and "s \<in> pm_ServiceName ` set perms"
  shows "gm_get (GroupByServiceName perms) s = Some (FindPermission s perms)"
proof -
  have "concat (map GetRules (filter (\<lambda>p. pm_ServiceName p = s) perms)) =
      concat (map pm_Rules (filter (\<lambda>p. pm_ServiceName p = s) perms))"
    using assms(1) by (intro arg_cong [of _ _ concat] map_cong) (auto simp: GetRules_def)
  then show ?thesis
    using assms(2) by (simp only: GroupByServiceName_get group_entry_def FindPermission_eq if_True)
qed

theorem GroupByServiceName_FindPermission_witness:
  "let perms = [\<lparr>pm_ServiceName = ''web'', pm_Rules = [zero_PolicyRule], pm_ClusterRules = []\<rparr>,
                \<lparr>pm_ServiceName = ''web'', pm_Rules = [zero_PolicyRule], pm_ClusterRules = []\<rparr>]
   in gm_get (GroupByServiceName perms) ''web'' = Some (FindPermission ''web'' perms)"
  unfolding Let_def by (rule GroupByServiceName_FindPermission) simp_all

end
