(* ===== verification/AppTypes.thy ===== *)
theory AppTypes
  imports PortSyntax PermissionRules
begin

text \<open>
  The data of an app: the structs of \<open>pkg/apis/internal.acorn.io/v1/appspec.go\<close> and the bindings and
  defaults of \<open>appinstance.go\<close>, field by field. A Go pointer to a scalar or struct is an option, a map is
  an association list. A container holds its sidecars, which are containers again, so its own fields
  are a record inside a recursive datatype.
\<close>

subsection \<open>Generic values\<close>

text \<open>
  The values a \<open>GenericMap\<close> can hold after \<open>encoding/json\<close> has decoded into an \<open>interface{}\<close> with
  \<open>UseNumber\<close>, and what \<open>translateObject\<close> makes of numbers. \<open>'f\<close> stands for \<open>float64\<close>.
\<close>

datatype 'f generic =
    GNull
  | GBool bool
  | GString string
  | GNumber string
  | GInt int
  | GFloat 'f
  | GArray "'f generic list"
  | GObject "(string \<times> 'f generic) list"

type_synonym 'f GenericMap = "(string, 'f generic) gomap"

subsection \<open>Building blocks\<close>

type_synonym Quantity = string
type_synonym AccessMode = string
type_synonym ChangeType = string
type_synonym PathType = string
type_synonym PublishMode = string

definition ChangeTypeRedeploy :: ChangeType where "ChangeTypeRedeploy = ''redeploy''"
definition ChangeTypeNoAction :: ChangeType where "ChangeTypeNoAction = ''noAction''"
definition PathTypePrefix :: PathType where "PathTypePrefix = ''prefix''"
definition PublishModeAll :: PublishMode where "PublishModeAll = ''all''"
definition PublishModeNone :: PublishMode where "PublishModeNone = ''none''"
definition PublishModeDefined :: PublishMode where "PublishModeDefined = ''defined''"

record 'f AcornBuild =
  ab_OriginalImage :: string
  ab_Context :: string
  ab_Acornfile :: string
  ab_BuildArgs :: "'f GenericMap"

record Build =
  bd_Context :: string
  bd_AdditionalContexts :: "(string, string) gomap"
  bd_Dockerfile :: string
  bd_DockerfileContents :: string
  bd_Target :: string
  bd_BaseImage :: string
  bd_ContextDirs :: "(string, string) gomap"
  bd_BuildArgs :: "(string, string) gomap"

definition zero_Build :: Build where
  "zero_Build = \<lparr>bd_Context = [], bd_AdditionalContexts = [], bd_Dockerfile = [],
     bd_DockerfileContents = [], bd_Target = [], bd_BaseImage = [], bd_ContextDirs = [], bd_BuildArgs = []\<rparr>"

definition BaseBuild :: "Build \<Rightarrow> Build" where
  "BaseBuild b = zero_Build\<lparr>bd_Context := bd_Context b, bd_Dockerfile := bd_Dockerfile b,
     bd_Target := bd_Target b\<rparr>"

record SecretReference =
  sr_Name :: string
  sr_Key :: string
  sr_OnChange :: ChangeType

definition zero_SecretReference :: SecretReference where
  "zero_SecretReference = \<lparr>sr_Name = [], sr_Key = [], sr_OnChange = []\<rparr>"

record File =
  fl_Mode :: string
  fl_Content :: string
  fl_Secret :: SecretReference

record VolumeSecretMount =
  vs_Name :: string
  vs_OnChange :: ChangeType

record VolumeMount =
  vm_Volume :: string
  vm_SubPath :: string
  vm_ContextDir :: string
  vm_Secret :: VolumeSecretMount

record NameValue =
  nv_Name :: string
  nv_Value :: string

record EnvVar =
  ev_Name :: string
  ev_Value :: string
  ev_Secret :: SecretReference

definition zero_EnvVar :: EnvVar where
  "zero_EnvVar = \<lparr>ev_Name = [], ev_Value = [], ev_Secret = zero_SecretReference\<rparr>"

record HTTPProbe =
  hp_URL :: string
  hp_Headers :: "(string, string) gomap"

record Probe =
  po_Type :: string
  po_Exec :: "string list option"
  po_HTTP :: "HTTPProbe option"
  po_TCP :: "string option"
  po_InitialDelaySeconds :: int32
  po_TimeoutSeconds :: int32
  po_PeriodSeconds :: int32
  po_SuccessThreshold :: int32
  po_FailureThreshold :: int32

record Dependency =
  dp_TargetName :: string

record ScopedLabel =
  sl_ResourceType :: string
  sl_ResourceName :: string
  sl_Key :: string
  sl_Value :: string

definition zero_ScopedLabel :: ScopedLabel where
  "zero_ScopedLabel = \<lparr>sl_ResourceType = [], sl_ResourceName = [], sl_Key = [], sl_Value = []\<rparr>"

record MetricsDef =
  md_Port :: int32
  md_Path :: string

subsection \<open>Bindings\<close>

record ServiceBinding =
  sb_Target :: string
  sb_Service :: string

record SecretBinding =
  sc_Secret :: string
  sc_Target :: string

record VolumeBinding =
  vb_Volume :: string
  vb_Target :: string
  vb_Size :: Quantity
  vb_AccessModes :: "AccessMode list"
  vb_Class :: string

definition zero_VolumeBinding :: VolumeBinding where
  "zero_VolumeBinding = \<lparr>vb_Volume = [], vb_Target = [], vb_Size = [], vb_AccessModes = [], vb_Class = []\<rparr>"

record VolumeDefault =
  vd_Class :: string
  vd_Size :: Quantity
  vd_AccessModes :: "AccessMode list"

text \<open>Workload to its memory; a key may be present with a nil pointer. Workload to its class.\<close>

type_synonym MemoryMap = "(string, int option) gomap"
type_synonym ComputeClassMap = "(string, string) gomap"

subsection \<open>Containers\<close>

record container_fields =
  c_Labels :: "(string, string) gomap"
  c_Annotations :: "(string, string) gomap"
  c_Dirs :: "(string, VolumeMount) gomap"
  c_Files :: "(string, File) gomap"
  c_Image :: string
  c_Build :: "Build option"
  c_Command :: "string list"
  c_Interactive :: bool
  c_Entrypoint :: "string list"
  c_Environment :: "EnvVar list"
  c_WorkingDir :: string
  c_Ports :: "PortDef list"
  c_Probes :: "Probe list option"
  c_Dependencies :: "Dependency list"
  c_Permissions :: "Permissions option"
  c_ComputeClass :: "string option"
  c_Memory :: "int option"
  c_Metrics :: MetricsDef
  c_Scale :: "int32 option"
  c_Schedule :: string
  c_Events :: "string list"
  c_Init :: bool

datatype Container = Container (c_fields: container_fields) (c_Sidecars: "(string \<times> Container) list")

definition zero_container_fields :: container_fields where
  "zero_container_fields = \<lparr>c_Labels = [], c_Annotations = [], c_Dirs = [], c_Files = [], c_Image = [],
     c_Build = None, c_Command = [], c_Interactive = False, c_Entrypoint = [], c_Environment = [],
     c_WorkingDir = [], c_Ports = [], c_Probes = None, c_Dependencies = [], c_Permissions = None,
     c_ComputeClass = None, c_Memory = None, c_Metrics = \<lparr>md_Port = 0, md_Path = []\<rparr>, c_Scale = None,
     c_Schedule = [], c_Events = [], c_Init = False\<rparr>"

subsection \<open>The app\<close>

record 'f Image =
  im_Image :: string
  im_Build :: "Build option"
  im_AcornBuild :: "'f AcornBuild option"

record Route =
  rt_Path :: string
  rt_TargetServiceName :: string
  rt_TargetPort :: int
  rt_PathType :: PathType

record Router =
  ro_Labels :: "(string, string) gomap"
  ro_Annotations :: "(string, string) gomap"
  ro_Routes :: "Route list"

record 'f Acorn =
  ac_Labels :: "ScopedLabel list"
  ac_Annotations :: "ScopedLabel list"
  ac_Image :: string
  ac_Build :: "'f AcornBuild option"
  ac_Profiles :: "string list"
  ac_DeployArgs :: "'f GenericMap"
  ac_Publish :: "PortBinding list"
  ac_PublishMode :: PublishMode
  ac_Environment :: "NameValue list"
  ac_Secrets :: "SecretBinding list"
  ac_Volumes :: "VolumeBinding list"
  ac_Links :: "ServiceBinding list"
  ac_AutoUpgrade :: "bool option"
  ac_NotifyUpgrade :: "bool option"
  ac_AutoUpgradeInterval :: string
  ac_Memory :: MemoryMap
  ac_ComputeClasses :: ComputeClassMap
  ac_Permissions :: "(string, Permissions) gomap"

definition Acorn_GetOriginalImage :: "'f Acorn \<Rightarrow> string" where
  "Acorn_GetOriginalImage a =
     (case ac_Build a of None \<Rightarrow> ac_Image a
      | Some b \<Rightarrow> if ab_OriginalImage b \<noteq> [] then ab_OriginalImage b else ac_Image a)"

record 'f Secret =
  st_External :: string
  st_Alias :: string
  st_Labels :: "(string, string) gomap"
  st_Annotations :: "(string, string) gomap"
  st_Type :: string
  st_Params :: "'f GenericMap"
  st_Data :: "(string, string) gomap"

definition zero_Secret :: "'f Secret" where
  "zero_Secret = \<lparr>st_External = [], st_Alias = [], st_Labels = [], st_Annotations = [], st_Type = [],
     st_Params = [], st_Data = []\<rparr>"

record VolumeRequest =
  vr_Labels :: "(string, string) gomap"
  vr_Annotations :: "(string, string) gomap"
  vr_Class :: string
  vr_Size :: Quantity
  vr_AccessModes :: "AccessMode list"

definition zero_VolumeRequest :: VolumeRequest where
  "zero_VolumeRequest = \<lparr>vr_Labels = [], vr_Annotations = [], vr_Class = [], vr_Size = [], vr_AccessModes = []\<rparr>"

record 'f Service =
  sv_Labels :: "ScopedLabel list"
  sv_Annotations :: "ScopedLabel list"
  sv_Default :: bool
  sv_External :: string
  sv_Alias :: string
  sv_Address :: string
  sv_Ports :: "PortDef list"
  sv_Container :: string
  sv_Data :: "'f GenericMap"
  sv_Generated :: "string option"
  sv_Image :: string
  sv_Build :: "'f AcornBuild option"
  sv_ServiceArgs :: "'f GenericMap"
  sv_Environment :: "NameValue list"
  sv_Secrets :: "SecretBinding list"
  sv_Links :: "ServiceBinding list"
  sv_AutoUpgrade :: "bool option"
  sv_NotifyUpgrade :: "bool option"
  sv_AutoUpgradeInterval :: string
  sv_Memory :: MemoryMap
  sv_Permissions :: "(string, Permissions) gomap"

definition Service_GetOriginalImage :: "'f Service \<Rightarrow> string" where
  "Service_GetOriginalImage s =
     (case sv_Build s of None \<Rightarrow> sv_Image s
      | Some b \<Rightarrow> if ab_OriginalImage b \<noteq> [] then ab_OriginalImage b else sv_Image s)"

definition GetJob :: "'f Service \<Rightarrow> string" where
  "GetJob s = (case sv_Generated s of None \<Rightarrow> [] | Some job \<Rightarrow> job)"

record 'f AppSpec =
  as_Labels :: "(string, string) gomap"
  as_Annotations :: "(string, string) gomap"
  as_Containers :: "(string, Container) gomap"
  as_Jobs :: "(string, Container) gomap"
  as_Images :: "(string, 'f Image) gomap"
  as_Volumes :: "(string, VolumeRequest) gomap"
  as_Secrets :: "(string, 'f Secret) gomap"
  as_Acorns :: "(string, 'f Acorn) gomap"
  as_Routers :: "(string, Router) gomap"
  as_Services :: "(string, 'f Service) gomap"

definition zero_AppSpec :: "'f AppSpec" where
  "zero_AppSpec = \<lparr>as_Labels = [], as_Annotations = [], as_Containers = [], as_Jobs = [], as_Images = [],
     as_Volumes = [], as_Secrets = [], as_Acorns = [], as_Routers = [], as_Services = []\<rparr>"

end
