(* ===== verification/PortPublishing.thy ===== *)
theory PortPublishing
  imports AppTypes
begin

text \<open>
  Package \<open>pkg/ports\<close>: service ports from port definitions (\<open>ports.go\<close>) and the decision which ports an
  app publishes where (\<open>publish.go\<close>). \<open>DedupPorts\<close> keeps pointers into the slice it appends to; its model
  keeps every backing array that \<open>append\<close> ever allocated, so a write through an old pointer goes to the
  array the pointer was taken from. The lemmas give what is kept and dropped, the invariant of the
  listen table, and what is published.
\<close>

subsection \<open>Service ports\<close>

record ServicePort =
  sp_Name :: string
  sp_Protocol :: string
  sp_AppProtocol :: "string option"
  sp_Port :: int32
  sp_TargetPort :: int32
  sp_NodePort :: int32

definition RouterPortDef :: PortDef where
  "RouterPortDef = zero_PortDef\<lparr>pd_Publish := True, pd_Port := 80, pd_Protocol := ProtocolHTTP,
     pd_TargetPort := 8080\<rparr>"

definition ToServicePort :: "PortDef \<Rightarrow> ServicePort" where
  "ToServicePort port0 =
     (let port = PortDef_Complete port0;
          servicePort = \<lparr>sp_Name = itoa (sint (pd_Port port)), sp_Protocol = ''TCP'', sp_AppProtocol = None,
            sp_Port = pd_Port port, sp_TargetPort = pd_TargetPort port, sp_NodePort = 0\<rparr>
      in if pd_Protocol port = ProtocolTCP then servicePort
         else if pd_Protocol port = ProtocolUDP then servicePort\<lparr>sp_Protocol := ''UDP''\<rparr>
         else if pd_Protocol port = ProtocolHTTP
         then servicePort\<lparr>sp_AppProtocol := Some (str_to_upper (pd_Protocol port))\<rparr>
         else servicePort)"

text \<open>
  The state of the loop of \<open>DedupPorts\<close>: the backing arrays in the order of their allocation (the last
  is the one of \<open>result\<close>), the capacity of the last, and \<open>byName\<close> with pointers as pairs of an array and
  an index. \<open>grow\<close> is the capacity that \<open>append\<close> chooses for a full slice; Go promises only that it is
  large enough.
\<close>

record dedup_state =
  ds_heap :: "ServicePort list list"
  ds_cap :: nat
  ds_byName :: "(string, nat \<times> nat) gomap"

definition ds_result :: "dedup_state \<Rightarrow> ServicePort list" where
  "ds_result st = (if ds_heap st = [] then [] else last (ds_heap st))"

definition ds_append :: "(nat \<Rightarrow> nat) \<Rightarrow> ServicePort \<Rightarrow> dedup_state \<Rightarrow> dedup_state" where
  "ds_append grow port st =
     (let result = ds_result st @ [port]
      in if length (ds_result st) < ds_cap st
         then st\<lparr>ds_heap := butlast (ds_heap st) @ [result]\<rparr>
         else st\<lparr>ds_heap := ds_heap st @ [result], ds_cap := grow (ds_cap st)\<rparr>)"

definition dedup_step :: "(nat \<Rightarrow> nat) \<Rightarrow> ServicePort \<Rightarrow> dedup_state \<Rightarrow> dedup_state" where
  "dedup_step grow port st =
     (case gm_get (ds_byName st) (sp_Name port) of
        Some (a, i) \<Rightarrow>
          (let existing = ds_heap st ! a ! i
           in if sp_AppProtocol existing = None \<or> sp_AppProtocol existing = Some []
              then st\<lparr>ds_heap := (ds_heap st)[a := (ds_heap st ! a)[i := existing\<lparr>sp_AppProtocol := sp_AppProtocol port\<rparr>]]\<rparr>
              else st)
      | None \<Rightarrow>
          (let st1 = ds_append grow port st
           in st1\<lparr>ds_byName := gm_set (ds_byName st1) (sp_Name port)
                    (length (ds_heap st1) - 1, length (ds_result st1) - 1)\<rparr>))"

definition dedup_init :: dedup_state where
  "dedup_init = \<lparr>ds_heap = [], ds_cap = 0, ds_byName = []\<rparr>"

definition DedupPorts :: "(nat \<Rightarrow> nat) \<Rightarrow> ServicePort list \<Rightarrow> ServicePort list" where
  "DedupPorts grow ports = ds_result (fold (dedup_step grow) ports dedup_init)"

definition CopyServicePorts :: "(nat \<Rightarrow> nat) \<Rightarrow> ServicePort list \<Rightarrow> ServicePort list" where
  "CopyServicePorts grow ports = DedupPorts grow (map (\<lambda>port. port\<lparr>sp_NodePort := 0\<rparr>) ports)"

text \<open>\<open>mapSlice\<close> is \<open>typed.MapSlice\<close> of the baaah library.\<close>

definition ToServicePorts ::
    "(nat \<Rightarrow> nat) \<Rightarrow> ((PortDef \<Rightarrow> ServicePort) \<Rightarrow> PortDef list \<Rightarrow> ServicePort list) \<Rightarrow> PortDef list \<Rightarrow> ServicePort list" where
  "ToServicePorts grow mapSlice ports = DedupPorts grow (mapSlice ToServicePort ports)"

definition RemoveNonHTTPPorts :: "ServicePort list \<Rightarrow> ServicePort list" where
  "RemoveNonHTTPPorts ports =
     filter (\<lambda>port. sp_Protocol port = ''TCP'' \<and>
       (case sp_AppProtocol port of None \<Rightarrow> False | Some a \<Rightarrow> str_to_upper a = ''HTTP'')) ports"

subsection \<open>Links and filters\<close>

definition LinkService :: "ServiceBinding list \<Rightarrow> string \<Rightarrow> string" where
  "LinkService links name =
     (if name = [] then []
      else (case find (\<lambda>binding. sb_Target binding = name) links of
              None \<Rightarrow> [] | Some binding \<Rightarrow> sb_Service binding))"

definition IsLinked :: "ServiceBinding list \<Rightarrow> string \<Rightarrow> bool" where
  "IsLinked links name = (if name = [] then False else list_ex (\<lambda>binding. sb_Target binding = name) links)"

definition ByProtocol :: "PortDef list \<Rightarrow> Protocol list \<Rightarrow> PortDef list" where
  "ByProtocol ports protocols =
     filter (\<lambda>port. list_ex (\<lambda>proto. pd_Protocol (PortDef_Complete port) = proto) protocols) ports"

definition FilterDevPorts :: "PortDef list \<Rightarrow> bool \<Rightarrow> PortDef list" where
  "FilterDevPorts ports devMode = filter (\<lambda>port. \<not> (pd_Dev port \<and> \<not> devMode)) ports"

subsection \<open>What is published where\<close>

record ListenDef =
  ld_Hostname :: string
  ld_Port :: int32
  ld_Protocol :: Protocol

type_synonym BoundPorts = "(ListenDef, PortDef list) gomap"

definition clusterDomainHTTPDef :: ListenDef where
  "clusterDomainHTTPDef = \<lparr>ld_Hostname = [], ld_Port = 0, ld_Protocol = ProtocolHTTP\<rparr>"

datatype publish_error = BoundToMany int32 "string list" | IndexOutOfRange

fun ServicePorts_loop :: "BoundPorts \<Rightarrow> publish_error + ServicePort list" where
  "ServicePorts_loop [] = Inr []"
| "ServicePorts_loop ((listen, ports) # rest) =
     (if length ports > 1
      then Inl (BoundToMany (ld_Port listen) (map (\<lambda>t. FormatString t []) ports))
      else (case ports of
              [] \<Rightarrow> Inl IndexOutOfRange
            | p # _ \<Rightarrow>
                (let port0 = PortDef_Complete p;
                     port = (if ld_Port listen \<noteq> 0 then port0\<lparr>pd_Port := ld_Port listen\<rparr> else port0)
                 in bind_err (ServicePorts_loop rest) (\<lambda>result. Inr (ToServicePort port # result)))))"

text \<open>\<open>sortSlice\<close> is \<open>sort.Slice\<close>.\<close>

definition ServicePorts ::
    "((ServicePort \<Rightarrow> ServicePort \<Rightarrow> bool) \<Rightarrow> ServicePort list \<Rightarrow> ServicePort list) \<Rightarrow> BoundPorts \<Rightarrow>
     publish_error + ServicePort list" where
  "ServicePorts sortSlice b =
     bind_err (ServicePorts_loop b) (\<lambda>result. Inr (sortSlice (\<lambda>x y. sp_Name x < sp_Name y) result))"

definition ByHostname :: "BoundPorts \<Rightarrow> (string, PortDef list) gomap" where
  "ByHostname b = fold (\<lambda>(k, v) byHostname. gm_set byHostname (ld_Hostname k) v) b []"

definition listenDefFromPort :: "PortDef \<Rightarrow> ListenDef" where
  "listenDefFromPort port =
     (let def = \<lparr>ld_Hostname = [], ld_Port = 0, ld_Protocol = pd_Protocol port\<rparr>
      in if pd_Protocol port = ProtocolHTTP then def\<lparr>ld_Hostname := pd_Hostname port\<rparr>
         else def\<lparr>ld_Port := pd_Port (PortDef_Complete port)\<rparr>)"

definition portMatches :: "PortPublish \<Rightarrow> PortDef \<Rightarrow> bool" where
  "portMatches binding port = (pp_TargetPort binding = 0 \<or> pp_TargetPort binding = pd_Port port)"

definition serviceMatches :: "string \<Rightarrow> PortBinding \<Rightarrow> bool" where
  "serviceMatches serviceName binding =
     (if pb_Expose binding \<and> \<not> pb_Publish binding then False
      else pb_TargetServiceName binding = [] \<or> pb_TargetServiceName binding = serviceName)"

definition protoMatches :: "PortPublish \<Rightarrow> PortDef \<Rightarrow> bool" where
  "protoMatches binding port = (pp_Protocol binding = [] \<or> pp_Protocol binding = pd_Protocol port)"

definition publishMatches :: "PortPublish \<Rightarrow> PortDef \<Rightarrow> bool" where
  "publishMatches binding0 port0 =
     (let port = PortDef_Complete port0; binding = PortPublish_Complete binding0
      in protoMatches binding port \<and> portMatches binding port)"

definition PortPublishForService :: "string \<Rightarrow> PortBinding list \<Rightarrow> PortPublish list" where
  "PortPublishForService serviceName bindings =
     map (\<lambda>binding. \<lparr>pp_Port = pb_Port binding, pp_Protocol = pb_Protocol binding,
            pp_Hostname = pb_Hostname binding, pp_TargetPort = pb_TargetPort binding\<rparr>)
       (filter (serviceMatches serviceName) bindings)"

definition bp_append :: "BoundPorts \<Rightarrow> ListenDef \<Rightarrow> PortDef \<Rightarrow> BoundPorts" where
  "bp_append result def port = gm_set result def (gm_get_or [] result def @ [port])"

definition bindingListenDef :: "PortPublish \<Rightarrow> PortDef \<Rightarrow> ListenDef" where
  "bindingListenDef binding port =
     (let def = listenDefFromPort port
      in if pp_Hostname binding \<noteq> [] \<and> pd_Protocol port = ProtocolHTTP
         then def\<lparr>ld_Hostname := pp_Hostname binding\<rparr>
         else if pp_Port binding \<noteq> 0 \<and> pd_Protocol port \<noteq> ProtocolHTTP
         then def\<lparr>ld_Port := pp_Port binding\<rparr>
         else def)"

fun applyPortBindings :: "PortPublish list \<Rightarrow> PortDef \<Rightarrow> bool \<times> BoundPorts \<Rightarrow> bool \<times> BoundPorts" where
  "applyPortBindings [] port (published, result) = (published, result)"
| "applyPortBindings (binding # rest) port (published, result) =
     applyPortBindings rest port
       (if publishMatches binding port then (True, bp_append result (bindingListenDef binding port) port)
        else (published, result))"

definition applyPort :: "PublishMode \<Rightarrow> PortPublish list \<Rightarrow> PortDef \<Rightarrow> BoundPorts \<Rightarrow> BoundPorts" where
  "applyPort mode bindings port result0 =
     (case applyPortBindings bindings port (False, result0) of (published1, result1) \<Rightarrow>
        let (published2, result2) =
              (if \<not> published1 \<and> (mode = PublishModeAll \<or> pd_Publish port)
               then (True, bp_append result1 (listenDefFromPort port) port)
               else (published1, result1))
        in if published2 \<and> pd_Protocol port = ProtocolHTTP
           then (if port \<in> set (gm_get_or [] result2 clusterDomainHTTPDef) then result2
                 else bp_append result2 clusterDomainHTTPDef port)
           else result2)"

definition ApplyBindings :: "PublishMode \<Rightarrow> PortPublish list \<Rightarrow> PortDef list \<Rightarrow> BoundPorts" where
  "ApplyBindings mode bindings ports =
     (if mode = PublishModeNone then [] else fold (applyPort mode bindings) ports [])"

subsection \<open>The ports of a container\<close>

record collect_state =
  cs_seen :: "(int32, int32 list) gomap"
  cs_hostnames :: "(string, unit) gomap"
  cs_result :: "PortDef list"

definition collectPort :: "bool \<Rightarrow> PortDef \<Rightarrow> collect_state \<Rightarrow> collect_state" where
  "collectPort devMode port0 st =
     (if \<not> devMode \<and> pd_Dev port0 then st
      else if pd_Hostname port0 \<noteq> [] \<and> gm_has (cs_hostnames st) (pd_Hostname port0) then st
      else
        (let port = (if pd_Port port0 = 0 then port0\<lparr>pd_Port := pd_TargetPort port0\<rparr> else port0)
         in case gm_get (cs_seen st) (pd_Port port) of
              Some targets \<Rightarrow>
                (if pd_Hostname port \<noteq> [] \<and> pd_TargetPort port \<in> set targets
                 then st\<lparr>cs_seen := gm_set (cs_seen st) (pd_Port port) (targets @ [pd_TargetPort port]),
                         cs_hostnames := gm_set (cs_hostnames st) (pd_Hostname port) (),
                         cs_result := cs_result st @ [port]\<rparr>
                 else st)
            | None \<Rightarrow>
                st\<lparr>cs_seen := gm_set (cs_seen st) (pd_Port port) [pd_TargetPort port],
                   cs_hostnames := (if pd_Hostname port \<noteq> [] then gm_set (cs_hostnames st) (pd_Hostname port) ()
                                    else cs_hostnames st),
                   cs_result := cs_result st @ [port]\<rparr>))"

definition collectPorts :: "bool \<Rightarrow> PortDef list \<Rightarrow> collect_state \<Rightarrow> collect_state" where
  "collectPorts devMode ports st = fold (collectPort devMode) ports st"

text \<open>\<open>typedSorted\<close> is \<open>typed.Sorted\<close> of the baaah library: the entries of a map ordered by key.\<close>

definition CollectContainerPorts ::
    "((string \<times> Container) list \<Rightarrow> (string \<times> Container) list) \<Rightarrow> Container \<Rightarrow> bool \<Rightarrow> PortDef list" where
  "CollectContainerPorts typedSorted container devMode =
     (let st0 = \<lparr>cs_seen = [], cs_hostnames = [], cs_result = []\<rparr>;
          st1 = collectPorts devMode (c_Ports (c_fields container)) st0;
          st2 = fold (\<lambda>entry st. collectPorts devMode (c_Ports (c_fields (snd entry))) st)
                  (typedSorted (c_Sidecars container)) st1
      in cs_result st2)"

subsection \<open>What deduplication keeps\<close>

definition erase_app :: "ServicePort \<Rightarrow> ServicePort" where
  "erase_app p = p\<lparr>sp_AppProtocol := None\<rparr>"

lemma erase_app_name [simp]: "sp_Name (erase_app p) = sp_Name p"
  by (simp add: erase_app_def)

text \<open>The first port of every name, in order.\<close>

definition keep_first :: "ServicePort \<Rightarrow> ServicePort list \<Rightarrow> ServicePort list" where
  "keep_first p acc = (if sp_Name p \<in> sp_Name ` set acc then acc else acc @ [p])"

definition first_by_name :: "ServicePort list \<Rightarrow> ServicePort list" where
  "first_by_name ports = fold keep_first ports []"

lemma first_by_name_distinct: "distinct (map sp_Name (first_by_name ports))"
proof -
  have "distinct (map sp_Name acc) \<Longrightarrow> distinct (map sp_Name (fold keep_first ports acc))" for acc
    by (induction ports arbitrary: acc) (auto simp: keep_first_def)
  then show ?thesis by (simp add: first_by_name_def)
qed

lemma first_by_name_set:
  "set (first_by_name ports) \<subseteq> set ports"
  "sp_Name ` set (first_by_name ports) = sp_Name ` set ports"
proof -
  have "x \<in> set (fold keep_first ports acc) \<Longrightarrow> x \<in> set ports \<union> set acc" for x acc
    by (induction ports arbitrary: acc) (fastforce simp: keep_first_def split: if_splits)+
  then show "set (first_by_name ports) \<subseteq> set ports"
    unfolding first_by_name_def by fastforce
  have "sp_Name ` set (fold keep_first ports acc) = sp_Name ` set ports \<union> sp_Name ` set acc" for acc
    by (induction ports arbitrary: acc) (auto simp: keep_first_def)
  then show "sp_Name ` set (first_by_name ports) = sp_Name ` set ports"
    by (simp add: first_by_name_def)
qed

definition dedup_inv :: "dedup_state \<Rightarrow> ServicePort list \<Rightarrow> bool" where
  "dedup_inv st acc \<longleftrightarrow> map erase_app (ds_result st) = map erase_app acc \<and>
     (\<forall>n. gm_has (ds_byName st) n \<longleftrightarrow> n \<in> sp_Name ` set acc) \<and>
     (ds_heap st = [] \<longrightarrow> ds_cap st = 0)"

lemma ds_result_append: "(ds_heap st = [] \<longrightarrow> ds_cap st = 0) \<Longrightarrow> ds_result (ds_append grow p st) = ds_result st @ [p]"
  by (simp add: ds_append_def ds_result_def Let_def)

lemma ds_result_byName [simp]: "ds_result (st\<lparr>ds_byName := m\<rparr>) = ds_result st"
  by (simp add: ds_result_def)

lemma ds_append_frame [simp]:
  "ds_byName (ds_append grow p st) = ds_byName st" "ds_heap (ds_append grow p st) \<noteq> []"
  by (simp_all add: ds_append_def Let_def)

lemma map_erase_update:
  "map erase_app (xs[i := (xs ! i)\<lparr>sp_AppProtocol := a\<rparr>]) = map erase_app xs"
  by (cases "i < length xs")
    (simp_all add: map_update erase_app_def list_update_same_conv list_update_beyond)

lemma last_list_update_any: "xs \<noteq> [] \<Longrightarrow> last (xs[a := y]) = (if a = length xs - 1 then y else last xs)"
  by (cases "a < length xs") (auto simp: last_list_update)

lemma dedup_step_inv:
  assumes "dedup_inv st acc"
  shows "dedup_inv (dedup_step grow port st) (keep_first port acc)"
proof (cases "gm_get (ds_byName st) (sp_Name port)")
  case None
  then have "\<not> gm_has (ds_byName st) (sp_Name port)" by (simp add: gm_has_iff)
  then have "sp_Name port \<notin> sp_Name ` set acc"
    using assms by (simp add: dedup_inv_def)
  moreover have "ds_result (dedup_step grow port st) = ds_result st @ [port]"
    using None assms by (simp add: dedup_step_def dedup_inv_def ds_result_append Let_def)
  moreover have "gm_has (ds_byName (dedup_step grow port st)) n \<longleftrightarrow> sp_Name port = n \<or> gm_has (ds_byName st) n" for n
    using None by (simp add: dedup_step_def Let_def go_map)
  moreover have "ds_heap (dedup_step grow port st) \<noteq> []"
    using None by (simp add: dedup_step_def Let_def)
  ultimately show ?thesis
    using assms by (auto simp: dedup_inv_def keep_first_def)
next
  case (Some ai)
  then obtain a i where ai: "gm_get (ds_byName st) (sp_Name port) = Some (a, i)" by (cases ai) auto
  then have "gm_has (ds_byName st) (sp_Name port)" by (simp add: gm_has_iff)
  then have seen: "sp_Name port \<in> sp_Name ` set acc"
    using assms by (simp add: dedup_inv_def)
  let ?upd = "(ds_heap st)[a := (ds_heap st ! a)[i := (ds_heap st ! a ! i)\<lparr>sp_AppProtocol := sp_AppProtocol port\<rparr>]]"
  have "map erase_app (ds_result (st\<lparr>ds_heap := ?upd\<rparr>)) = map erase_app (ds_result st)"
    by (cases "ds_heap st = []")
      (simp_all add: ds_result_def last_list_update_any map_erase_update last_conv_nth [of "ds_heap st"])
  with assms ai seen show ?thesis
    by (auto simp: dedup_inv_def dedup_step_def keep_first_def Let_def)
qed

lemma dedup_fold_inv:
  "dedup_inv st acc \<Longrightarrow> dedup_inv (fold (dedup_step grow) ports st) (fold keep_first ports acc)"
  by (induction ports arbitrary: st acc) (simp_all add: dedup_step_inv)

lemma dedup_inv_init: "dedup_inv dedup_init []"
  by (simp add: dedup_inv_def dedup_init_def ds_result_def gm_has_def)

lemma DedupPorts_erase: "map erase_app (DedupPorts grow ports) = map erase_app (first_by_name ports)"
  using dedup_fold_inv [OF dedup_inv_init, of grow ports]
  by (simp add: DedupPorts_def first_by_name_def dedup_inv_def)

lemma DedupPorts_names: "map sp_Name (DedupPorts grow ports) = map sp_Name (first_by_name ports)"
proof -
  have "map sp_Name (map erase_app (DedupPorts grow ports)) = map sp_Name (map erase_app (first_by_name ports))"
    by (simp only: DedupPorts_erase)
  then show ?thesis by (simp add: comp_def)
qed

text \<open>Whatever capacities \<open>append\<close> chooses, \<open>DedupPorts\<close> returns the first port of every name, in order
  and up to the application protocol; the names of the result are pairwise distinct and the same as
  the names of the input.\<close>

theorem DedupPorts_first:
  "map erase_app (DedupPorts grow ports) = map erase_app (first_by_name ports) \<and>
   distinct (map sp_Name (DedupPorts grow ports)) \<and>
   sp_Name ` set (DedupPorts grow ports) = sp_Name ` set ports"
proof (intro conjI)
  show "distinct (map sp_Name (DedupPorts grow ports))"
    by (simp add: DedupPorts_names first_by_name_distinct)
  have "set (map sp_Name (DedupPorts grow ports)) = set (map sp_Name (first_by_name ports))"
    by (simp only: DedupPorts_names)
  then show "sp_Name ` set (DedupPorts grow ports) = sp_Name ` set ports"
    by (simp add: first_by_name_set)
qed (rule DedupPorts_erase)

text \<open>The application protocol of a later port of the same name is copied to the kept one, but the
  copy is lost when \<open>append\<close> has moved the result to a new array in between: it then goes to the old
  array. With a slice that starts with room for one element, a port \<open>q\<close> between \<open>p\<close> and its duplicate
  \<open>p'\<close> makes the difference.\<close>

theorem DedupPorts_stale_pointer:
  assumes "grow 0 = 1" and "sp_Name p' = sp_Name p" and "sp_Name q \<noteq> sp_Name p"
    and "sp_AppProtocol p = None"
  shows "DedupPorts grow [p, p', q] = [p\<lparr>sp_AppProtocol := sp_AppProtocol p'\<rparr>, q] \<and>
         DedupPorts grow [p, q, p'] = [p, q]"
  using assms
  by (simp add: DedupPorts_def dedup_step_def dedup_init_def ds_append_def ds_result_def go_map)

theorem DedupPorts_stale_pointer_witness:
  "let p = ToServicePort (zero_PortDef\<lparr>pd_Port := 80\<rparr>); q = ToServicePort (zero_PortDef\<lparr>pd_Port := 81\<rparr>);
       p' = ToServicePort (zero_PortDef\<lparr>pd_Port := 80, pd_Protocol := ProtocolHTTP\<rparr>)
   in DedupPorts (\<lambda>c. max 1 (2 * c)) [p, p', q] = [p\<lparr>sp_AppProtocol := sp_AppProtocol p'\<rparr>, q] \<and>
      DedupPorts (\<lambda>c. max 1 (2 * c)) [p, q, p'] = [p, q]"
  unfolding Let_def
  by (rule DedupPorts_stale_pointer)
    (simp_all add: ToServicePort_def PortDef_Complete_def zero_PortDef_def itoa_inject Let_def)

subsection \<open>The listen table\<close>

lemma publish_modes [simp]: "PublishModeAll \<noteq> PublishModeNone" "PublishModeNone \<noteq> PublishModeAll"
  by (simp_all add: PublishModeAll_def PublishModeNone_def)

lemma gm_get_bp_append [go_map]:
  "gm_get (bp_append r d p) d' = (if d = d' then Some (gm_get_or [] r d @ [p]) else gm_get r d')"
  by (simp add: bp_append_def go_map)

definition all_bound :: "(ListenDef \<Rightarrow> PortDef \<Rightarrow> bool) \<Rightarrow> BoundPorts \<Rightarrow> bool" where
  "all_bound P b \<longleftrightarrow> (\<forall>d ps. gm_get b d = Some ps \<longrightarrow> ps \<noteq> [] \<and> (\<forall>p\<in>set ps. P d p))"

definition bound_ports :: "BoundPorts \<Rightarrow> PortDef set" where
  "bound_ports b = {p. \<exists>d ps. gm_get b d = Some ps \<and> p \<in> set ps}"

lemma all_bound_append: "all_bound P r \<Longrightarrow> P d p \<Longrightarrow> all_bound P (bp_append r d p)"
  by (cases "gm_get r d") (auto simp: all_bound_def go_map gm_get_or_def)

lemma bound_ports_append [simp]: "bound_ports (bp_append r d p) = insert p (bound_ports r)"
proof (intro set_eqI iffI)
  fix x
  assume "x \<in> insert p (bound_ports r)"
  then consider "x = p" | d' ps where "gm_get r d' = Some ps" "x \<in> set ps"
    by (auto simp: bound_ports_def)
  then show "x \<in> bound_ports (bp_append r d p)"
  proof cases
    case 1
    then show ?thesis by (force simp: bound_ports_def go_map)
  next
    case 2
    then show ?thesis by (cases "d = d'") (force simp: bound_ports_def go_map gm_get_or_def)+
  qed
qed (auto simp: bound_ports_def go_map gm_get_or_def split: if_splits option.splits)

lemma bound_ports_Nil [simp]: "bound_ports [] = {}"
  by (simp add: bound_ports_def)

lemma cluster_append:
  "set (gm_get_or [] (bp_append r d p) d') = set (gm_get_or [] r d') \<union> (if d = d' then {p} else {})"
  by (auto simp: gm_get_or_def go_map)

definition is_published :: "PublishMode \<Rightarrow> PortPublish list \<Rightarrow> PortDef \<Rightarrow> bool" where
  "is_published mode bindings port \<longleftrightarrow>
     (\<exists>b\<in>set bindings. publishMatches b port) \<or> mode = PublishModeAll \<or> pd_Publish port"

lemma applyPortBindings_published:
  "fst (applyPortBindings bindings port (pub, r)) \<longleftrightarrow> pub \<or> (\<exists>b\<in>set bindings. publishMatches b port)"
  by (induction bindings arbitrary: pub r) auto

lemma applyPortBindings_bound:
  "bound_ports (snd (applyPortBindings bindings port (pub, r))) =
     bound_ports r \<union> (if \<exists>b\<in>set bindings. publishMatches b port then {port} else {})"
  by (induction bindings arbitrary: pub r) auto

lemma applyPortBindings_all:
  assumes "\<And>b. b \<in> set bindings \<Longrightarrow> P (bindingListenDef b port) port" and "all_bound P r"
  shows "all_bound P (snd (applyPortBindings bindings port (pub, r)))"
  using assms
proof (induction bindings arbitrary: pub r)
  case (Cons b bs)
  then show ?case by (simp add: all_bound_append)
qed simp

lemma applyPortBindings_mono:
  "set (gm_get_or [] r d) \<subseteq> set (gm_get_or [] (snd (applyPortBindings bindings port (pub, r))) d)"
proof (induction bindings arbitrary: pub r)
  case (Cons b bs)
  have "set (gm_get_or [] r d) \<subseteq> set (gm_get_or [] (bp_append r d' port) d)" for d'
    by (auto simp: cluster_append)
  then show ?case by (auto intro: Cons.IH [THEN subsetD] simp: subset_iff)
qed simp

lemma applyPort_bound:
  "bound_ports (applyPort mode bindings port r) =
     bound_ports r \<union> (if is_published mode bindings port then {port} else {})"
  using applyPortBindings_bound [of bindings port False r]
    applyPortBindings_published [of bindings port False r]
  by (cases "applyPortBindings bindings port (False, r)")
    (auto simp: applyPort_def is_published_def Let_def split: if_splits)

lemma fold_applyPort_bound:
  "bound_ports (fold (applyPort mode bindings) ports r) =
     bound_ports r \<union> {p \<in> set ports. is_published mode bindings p}"
  by (induction ports arbitrary: r) (auto simp: applyPort_bound)

lemma applyPort_all:
  assumes "\<And>b. b \<in> set bindings \<Longrightarrow> P (bindingListenDef b port) port" and "P (listenDefFromPort port) port"
    and "pd_Protocol port = ProtocolHTTP \<Longrightarrow> P clusterDomainHTTPDef port" and "all_bound P r"
  shows "all_bound P (applyPort mode bindings port r)"
proof -
  obtain pub r1 where r1: "applyPortBindings bindings port (False, r) = (pub, r1)" by fastforce
  then have "all_bound P r1"
    using applyPortBindings_all [of bindings P port r False] assms by simp
  then show ?thesis
    using assms by (auto simp: applyPort_def r1 Let_def intro!: all_bound_append)
qed

lemma fold_applyPort_all:
  assumes "\<And>port b. P (bindingListenDef b port) port" and "\<And>port. P (listenDefFromPort port) port"
    and "\<And>port. pd_Protocol port = ProtocolHTTP \<Longrightarrow> P clusterDomainHTTPDef port"
  shows "all_bound P r \<Longrightarrow> all_bound P (fold (applyPort mode bindings) ports r)"
  by (induction ports arbitrary: r) (simp_all add: applyPort_all assms)

text \<open>What the comments of \<open>ListenDef\<close> say of its fields, and that a port is listed under its protocol.\<close>

definition listen_ok :: "ListenDef \<Rightarrow> PortDef \<Rightarrow> bool" where
  "listen_ok d p \<longleftrightarrow> (if ld_Protocol d = ProtocolHTTP then ld_Port d = 0 else ld_Hostname d = []) \<and>
     pd_Protocol p = ld_Protocol d"

lemma ApplyBindings_listen_ok: "all_bound listen_ok (ApplyBindings mode bindings ports)"
proof -
  have nil: "all_bound listen_ok []" by (simp add: all_bound_def)
  have "all_bound listen_ok (fold (applyPort mode bindings) ports [])"
    by (rule fold_applyPort_all [OF _ _ _ nil])
      (simp_all add: listen_ok_def bindingListenDef_def listenDefFromPort_def clusterDomainHTTPDef_def Let_def)
  with nil show ?thesis by (simp add: ApplyBindings_def)
qed

definition cluster_inv :: "BoundPorts \<Rightarrow> bool" where
  "cluster_inv r \<longleftrightarrow>
     (\<forall>p\<in>bound_ports r. pd_Protocol p = ProtocolHTTP \<longrightarrow> p \<in> set (gm_get_or [] r clusterDomainHTTPDef))"

lemma applyPort_cluster:
  assumes "cluster_inv r"
  shows "cluster_inv (applyPort mode bindings port r)"
proof -
  obtain pub r1 where r1: "applyPortBindings bindings port (False, r) = (pub, r1)" by fastforce
  have pub: "pub \<longleftrightarrow> (\<exists>b\<in>set bindings. publishMatches b port)"
    using applyPortBindings_published [of bindings port False r] r1 by simp
  have b1: "bound_ports r1 = bound_ports r \<union> (if pub then {port} else {})"
    using applyPortBindings_bound [of bindings port False r] r1 pub by simp
  have m: "set (gm_get_or [] r clusterDomainHTTPDef) \<subseteq> set (gm_get_or [] r1 clusterDomainHTTPDef)"
    using applyPortBindings_mono [of r clusterDomainHTTPDef bindings port False] r1 by simp
  show ?thesis
    using assms m b1
    by (auto simp: cluster_inv_def applyPort_def r1 Let_def cluster_append split: if_splits)
qed

lemma ApplyBindings_cluster: "cluster_inv (ApplyBindings mode bindings ports)"
proof -
  have "cluster_inv r \<Longrightarrow> cluster_inv (fold (applyPort mode bindings) ports r)" for r
    by (induction ports arbitrary: r) (simp_all add: applyPort_cluster)
  then show ?thesis by (simp add: ApplyBindings_def cluster_inv_def)
qed

text \<open>C12: \<open>ApplyBindings\<close> publishes a port exactly when publishing is not switched off and some binding matches
  it, or the mode is \<open>all\<close>, or the port asks to be published.\<close>

theorem ApplyBindings_published:
  "bound_ports (ApplyBindings mode bindings ports) =
     {p \<in> set ports. mode \<noteq> PublishModeNone \<and>
        ((\<exists>b\<in>set bindings. publishMatches b p) \<or> mode = PublishModeAll \<or> pd_Publish p)}"
  by (auto simp: ApplyBindings_def fold_applyPort_bound is_published_def)

text \<open>Every entry of the listen table has at least one port, all of the protocol of the entry; an http
  entry has no port number and another entry no hostname; and every published http port is also listed
  under the cluster domain.\<close>

theorem ApplyBindings_invariant:
  assumes "gm_get (ApplyBindings mode bindings ports) d = Some ps" and "p \<in> set ps"
  shows "pd_Protocol p = ld_Protocol d \<and>
    (if ld_Protocol d = ProtocolHTTP
     then ld_Port d = 0 \<and> p \<in> set (gm_get_or [] (ApplyBindings mode bindings ports) clusterDomainHTTPDef)
     else ld_Hostname d = [])"
proof -
  have "listen_ok d p"
    using ApplyBindings_listen_ok assms by (auto simp: all_bound_def)
  moreover have "p \<in> bound_ports (ApplyBindings mode bindings ports)"
    using assms by (auto simp: bound_ports_def)
  ultimately show ?thesis
    using ApplyBindings_cluster by (auto simp: listen_ok_def cluster_inv_def split: if_splits)
qed

theorem ApplyBindings_invariant_witness:
  "let p = zero_PortDef\<lparr>pd_Port := 80, pd_Protocol := ''http''\<rparr>; d = \<lparr>ld_Hostname = ''a.b'', ld_Port = 0, ld_Protocol = ''http''\<rparr>;
       b = [zero_PortPublish\<lparr>pp_Hostname := ''a.b''\<rparr>]
   in pd_Protocol p = ld_Protocol d \<and>
      (if ld_Protocol d = ProtocolHTTP
       then ld_Port d = 0 \<and> p \<in> set (gm_get_or [] (ApplyBindings ''defined'' b [p]) clusterDomainHTTPDef)
       else ld_Hostname d = [])"
  unfolding Let_def
proof (rule ApplyBindings_invariant)
  show "gm_get (ApplyBindings ''defined'' [zero_PortPublish\<lparr>pp_Hostname := ''a.b''\<rparr>]
      [zero_PortDef\<lparr>pd_Port := 80, pd_Protocol := ''http''\<rparr>])
      \<lparr>ld_Hostname = ''a.b'', ld_Port = 0, ld_Protocol = ''http''\<rparr> =
    Some [zero_PortDef\<lparr>pd_Port := 80, pd_Protocol := ''http''\<rparr>]"
    by code_simp
qed simp

subsection \<open>Service ports of a listen table\<close>

definition bound_service_port :: "ListenDef \<times> PortDef list \<Rightarrow> ServicePort" where
  "bound_service_port e =
     (let port = PortDef_Complete (hd (snd e))
      in ToServicePort (if ld_Port (fst e) \<noteq> 0 then port\<lparr>pd_Port := ld_Port (fst e)\<rparr> else port))"

lemma ServicePorts_loop_Inr:
  "ServicePorts_loop b = Inr r \<longleftrightarrow> (\<forall>e\<in>set b. length (snd e) = 1) \<and> r = map bound_service_port b"
proof (induction b arbitrary: r)
  case (Cons e b)
  obtain d ps where e: "e = (d, ps)" by (cases e)
  consider "ps = []" | p where "ps = [p]" | p q qs where "ps = p # q # qs"
    by (metis list.exhaust)
  then show ?case
    by cases (auto simp: e bind_err_Inr Cons.IH bound_service_port_def Let_def)
qed auto

lemma ToServicePort_fields:
  "sp_Name (ToServicePort p) = itoa (sint (pd_Port (PortDef_Complete p)))"
  "sp_Port (ToServicePort p) = pd_Port (PortDef_Complete p)"
  "sp_TargetPort (ToServicePort p) = pd_TargetPort (PortDef_Complete p)"
  by (simp_all add: ToServicePort_def Let_def)

lemma ToServicePort_name: "sp_Name (ToServicePort p) = itoa (sint (sp_Port (ToServicePort p)))"
  by (simp add: ToServicePort_fields)

lemma first_by_name_of: "set xs \<subseteq> S \<Longrightarrow> set (first_by_name xs) \<subseteq> S"
  using first_by_name_set(1) by blast

lemma erase_app_port: "map erase_app xs = map erase_app ys \<Longrightarrow> map sp_Port xs = map sp_Port ys"
proof -
  assume "map erase_app xs = map erase_app ys"
  then have "map sp_Port (map erase_app xs) = map sp_Port (map erase_app ys)" by simp
  then show ?thesis by (simp add: comp_def erase_app_def)
qed

text \<open>When the service ports of a listen table have distinct names, \<open>ServicePorts\<close> does not depend on the
  order in which the map is visited nor on the sorting algorithm; it fails exactly when some entry
  does not have exactly one port.\<close>

theorem ServicePorts_deterministic:
  assumes "mset b' = mset b"
    and "sorts sortSlice (\<lambda>x y. sp_Name x < sp_Name y)"
    and "distinct (map (\<lambda>e. sp_Name (bound_service_port e)) b)"
  shows "if \<forall>e\<in>set b. length (snd e) = 1
         then ServicePorts sortSlice b' = Inr (sort_key sp_Name (map bound_service_port b))
         else \<not> is_ok (ServicePorts sortSlice b')"
proof (cases "\<forall>e\<in>set b. length (snd e) = 1")
  case True
  moreover have "set b' = set b" using assms(1) by (metis set_mset_mset)
  ultimately have "ServicePorts_loop b' = Inr (map bound_service_port b')"
    by (simp add: ServicePorts_loop_Inr)
  moreover have "sortSlice (\<lambda>x y. sp_Name x < sp_Name y) (map bound_service_port b') =
      sort_key sp_Name (map bound_service_port b)"
    by (rule sorts_unique [OF assms(2)]) (use assms(1,3) in \<open>simp_all add: comp_def\<close>)
  ultimately show ?thesis using True by (simp add: ServicePorts_def)
next
  case False
  moreover have "set b' = set b" using assms(1) by (metis set_mset_mset)
  ultimately have "\<not> is_ok (ServicePorts sortSlice b')"
    by (auto simp: is_ok_iff ServicePorts_def bind_err_Inr ServicePorts_loop_Inr)
  then show ?thesis by (simp only: if_not_P [OF False] not_False_eq_True)
qed

theorem ServicePorts_deterministic_witness:
  "let d1 = \<lparr>ld_Hostname = [], ld_Port = 53, ld_Protocol = ''tcp''\<rparr>; d2 = \<lparr>ld_Hostname = [], ld_Port = 80, ld_Protocol = ''tcp''\<rparr>;
       b = [(d1, [zero_PortDef\<lparr>pd_Port := 53\<rparr>]), (d2, [zero_PortDef\<lparr>pd_Port := 81\<rparr>])]
   in if \<forall>e\<in>set b. length (snd e) = 1
      then ServicePorts (sort_by sp_Name) (rev b) = Inr (sort_key sp_Name (map bound_service_port b))
      else \<not> is_ok (ServicePorts (sort_by sp_Name) (rev b))"
  unfolding Let_def
  by (rule ServicePorts_deterministic)
    (simp_all add: sorts_sort_by bound_service_port_def ToServicePort_fields PortDef_Complete_def
      zero_PortDef_def itoa_inject Let_def)

text \<open>A service never has two ports with the same number: \<open>ToServicePorts\<close> names a port by its number
  alone, so of a TCP and a UDP port with one number only the first is kept.\<close>

theorem ToServicePorts_distinct_numbers:
  assumes "\<And>f xs. mapSlice f xs = map f xs"
  shows "distinct (map sp_Port (ToServicePorts grow mapSlice ports)) \<and>
    (pd_Port (PortDef_Complete p) = pd_Port (PortDef_Complete q) \<longrightarrow>
     length (ToServicePorts grow mapSlice [p, q]) = 1)"
proof
  let ?xs = "map ToServicePort ports"
  have "map sp_Port (ToServicePorts grow mapSlice ports) = map sp_Port (first_by_name ?xs)"
    by (rule erase_app_port) (simp add: ToServicePorts_def assms DedupPorts_erase)
  moreover have "map (\<lambda>x. itoa (sint x)) (map sp_Port (first_by_name ?xs)) = map sp_Name (first_by_name ?xs)"
    using first_by_name_set(1) [of ?xs] by (auto simp: ToServicePort_name)
  ultimately show "distinct (map sp_Port (ToServicePorts grow mapSlice ports))"
    by (metis first_by_name_distinct distinct_map)
  have "length (ToServicePorts grow mapSlice [p, q]) = length (first_by_name [ToServicePort p, ToServicePort q])"
    using arg_cong [OF DedupPorts_erase [of grow "[ToServicePort p, ToServicePort q]"], of length]
    by (simp add: ToServicePorts_def assms)
  then show "pd_Port (PortDef_Complete p) = pd_Port (PortDef_Complete q) \<longrightarrow>
      length (ToServicePorts grow mapSlice [p, q]) = 1"
    by (simp add: first_by_name_def keep_first_def ToServicePort_fields)
qed

theorem ToServicePorts_distinct_numbers_witness:
  "length (ToServicePorts (\<lambda>c. max 1 (2 * c)) map [zero_PortDef\<lparr>pd_Port := 53\<rparr>,
      zero_PortDef\<lparr>pd_Port := 53, pd_Protocol := ProtocolUDP\<rparr>]) = 1"
  using ToServicePorts_distinct_numbers [of map "\<lambda>c. max 1 (2 * c)" "[]" "zero_PortDef\<lparr>pd_Port := 53\<rparr>"
      "zero_PortDef\<lparr>pd_Port := 53, pd_Protocol := ProtocolUDP\<rparr>"]
  by (simp add: PortDef_Complete_def zero_PortDef_def)

lemma gm_get_Cons: "gm_get ((k, v) # m) k' = (if k = k' then Some v else gm_get m k')"
  by (simp add: gm_get_def)

lemma ByHostname_fold:
  assumes "gm_ok b" and "\<And>d. d \<in> fst ` set b \<Longrightarrow> ld_Port d = 0 \<and> ld_Protocol d = ProtocolHTTP"
  shows "gm_get (fold (\<lambda>(k, v) m. gm_set m (ld_Hostname k) v) b m0) h =
    (case gm_get b \<lparr>ld_Hostname = h, ld_Port = 0, ld_Protocol = ProtocolHTTP\<rparr> of
       Some v \<Rightarrow> Some v | None \<Rightarrow> gm_get m0 h)"
  using assms
proof (induction b arbitrary: m0)
  case (Cons e b)
  obtain k v where "e = (k, v)" by (cases e)
  then obtain hk where k: "k = \<lparr>ld_Hostname = hk, ld_Port = 0, ld_Protocol = ProtocolHTTP\<rparr>"
      and e: "e = (\<lparr>ld_Hostname = hk, ld_Port = 0, ld_Protocol = ProtocolHTTP\<rparr>, v)"
    using Cons.prems(2) [of k] by (metis (full_types) ListenDef.surjective fst_conv image_eqI list.set_intros(1) old.unit.exhaust)
  have "gm_get b k = None"
    using Cons.prems(1) e k by (simp add: gm_ok_def gm_get_def map_of_eq_None_iff)
  moreover have "gm_ok b" using Cons.prems(1) by (simp add: gm_ok_def)
  ultimately show ?case
    using Cons.IH [of "gm_set m0 hk v"] Cons.prems(2) k
    by (cases "hk = h") (auto simp: e go_map gm_get_Cons split: option.splits)
qed simp

subsection \<open>Container ports\<close>

text \<open>Ports that share a number lead to one target, and only the first may be without a hostname.\<close>

definition agree :: "PortDef \<Rightarrow> PortDef \<Rightarrow> bool" where
  "agree p q \<longleftrightarrow> (pd_Port p = pd_Port q \<longrightarrow> pd_TargetPort p = pd_TargetPort q \<and> pd_Hostname q \<noteq> [])"

definition hosts_differ :: "PortDef \<Rightarrow> PortDef \<Rightarrow> bool" where
  "hosts_differ p q \<longleftrightarrow> (pd_Hostname p = pd_Hostname q \<longrightarrow> pd_Hostname q = [])"

definition hostnames :: "PortDef list \<Rightarrow> string list" where
  "hostnames ps = filter (\<lambda>h. h \<noteq> []) (map pd_Hostname ps)"

definition seen_inv :: "(int32, int32 list) gomap \<Rightarrow> PortDef list \<Rightarrow> bool" where
  "seen_inv seen ps \<longleftrightarrow>
     (\<forall>p\<in>set ps. gm_has seen (pd_Port p)) \<and>
     (\<forall>n ts. gm_get seen n = Some ts \<longrightarrow>
        n \<in> pd_Port ` set ps \<and> (\<forall>t\<in>set ts. \<forall>p\<in>set ps. pd_Port p = n \<longrightarrow> pd_TargetPort p = t))"

definition collect_inv :: "bool \<Rightarrow> collect_state \<Rightarrow> bool" where
  "collect_inv devMode st \<longleftrightarrow>
     sorted_wrt agree (cs_result st) \<and> sorted_wrt hosts_differ (cs_result st) \<and>
     (\<forall>p\<in>set (cs_result st). (pd_Dev p \<longrightarrow> devMode) \<and> (pd_Port p = 0 \<longrightarrow> pd_TargetPort p = 0)) \<and>
     seen_inv (cs_seen st) (cs_result st) \<and>
     (\<forall>h. gm_has (cs_hostnames st) h \<longleftrightarrow> h \<in> set (hostnames (cs_result st)))"

lemma hostnames_append [simp]:
  "hostnames (ps @ [p]) = hostnames ps @ (if pd_Hostname p = [] then [] else [pd_Hostname p])"
  by (simp add: hostnames_def)

lemma seen_inv_append:
  assumes "seen_inv seen ps" and "\<forall>p\<in>set ps. pd_Port p = pd_Port port \<longrightarrow> pd_TargetPort p = pd_TargetPort port"
    and "\<forall>t\<in>set ts. t = pd_TargetPort port"
  shows "seen_inv (gm_set seen (pd_Port port) ts) (ps @ [port])"
  unfolding seen_inv_def
proof (intro conjI allI impI)
  show "\<forall>p\<in>set (ps @ [port]). gm_has (gm_set seen (pd_Port port) ts) (pd_Port p)"
    using assms(1) by (auto simp: seen_inv_def go_map)
  fix n us
  assume us: "gm_get (gm_set seen (pd_Port port) ts) n = Some us"
  show "n \<in> pd_Port ` set (ps @ [port])"
    using us assms(1) by (auto simp: seen_inv_def go_map split: if_splits)
  show "\<forall>t\<in>set us. \<forall>p\<in>set (ps @ [port]). pd_Port p = n \<longrightarrow> pd_TargetPort p = t"
  proof (cases "pd_Port port = n")
    case True
    with us have "us = ts" by (simp add: go_map)
    with True assms(2,3) show ?thesis by auto
  next
    case False
    with us have "gm_get seen n = Some us" by (simp add: go_map)
    with False assms(1) show ?thesis by (auto simp: seen_inv_def)
  qed
qed

lemma collect_append:
  assumes inv: "collect_inv devMode st"
    and "pd_Dev port \<longrightarrow> devMode" and "pd_Port port = 0 \<longrightarrow> pd_TargetPort port = 0"
    and host: "pd_Hostname port \<noteq> [] \<longrightarrow> \<not> gm_has (cs_hostnames st) (pd_Hostname port)"
    and agr: "\<forall>p\<in>set (cs_result st). agree p port"
    and ts: "\<forall>t\<in>set ts. t = pd_TargetPort port"
    and hs: "\<forall>h. gm_has hs h \<longleftrightarrow> gm_has (cs_hostnames st) h \<or> (h \<noteq> [] \<and> h = pd_Hostname port)"
  shows "collect_inv devMode (st\<lparr>cs_seen := gm_set (cs_seen st) (pd_Port port) ts, cs_hostnames := hs,
    cs_result := cs_result st @ [port]\<rparr>)"
proof -
  have "seen_inv (gm_set (cs_seen st) (pd_Port port) ts) (cs_result st @ [port])"
    using inv agr ts by (intro seen_inv_append) (auto simp: collect_inv_def agree_def)
  moreover have "\<forall>p\<in>set (cs_result st). hosts_differ p port"
  proof
    fix p
    assume "p \<in> set (cs_result st)"
    then have "pd_Hostname p \<noteq> [] \<Longrightarrow> pd_Hostname p \<in> set (hostnames (cs_result st))"
      by (simp add: hostnames_def)
    with inv host show "hosts_differ p port"
      unfolding collect_inv_def hosts_differ_def by metis
  qed
  ultimately show ?thesis
    using assms by (auto simp: collect_inv_def sorted_wrt_append)
qed

lemma seen_targets:
  assumes "seen_inv seen ps" and "gm_get seen n = Some ts" and "t \<in> set ts"
  shows "\<forall>t'\<in>set ts. t' = t" and "\<forall>p\<in>set ps. pd_Port p = n \<longrightarrow> pd_TargetPort p = t"
proof -
  obtain p where "p \<in> set ps" "pd_Port p = n"
    using assms unfolding seen_inv_def by (metis imageE)
  moreover have "\<forall>t\<in>set ts. \<forall>p\<in>set ps. pd_Port p = n \<longrightarrow> pd_TargetPort p = t"
    using assms(1,2) by (simp add: seen_inv_def)
  ultimately show "\<forall>t'\<in>set ts. t' = t" "\<forall>p\<in>set ps. pd_Port p = n \<longrightarrow> pd_TargetPort p = t"
    using assms(3) by metis+
qed

lemma collectPort_inv:
  assumes inv: "collect_inv devMode st"
  shows "collect_inv devMode (collectPort devMode port0 st)"
proof -
  define port where "port = (if pd_Port port0 = 0 then port0\<lparr>pd_Port := pd_TargetPort port0\<rparr> else port0)"
  have port: "pd_Hostname port = pd_Hostname port0" "pd_Dev port = pd_Dev port0" "pd_Port port = 0 \<longrightarrow> pd_TargetPort port = 0"
    by (simp_all add: port_def)
  show ?thesis
  proof (cases "\<not> devMode \<and> pd_Dev port0 \<or> pd_Hostname port0 \<noteq> [] \<and> gm_has (cs_hostnames st) (pd_Hostname port0)")
    case True
    with inv show ?thesis by (auto simp: collectPort_def)
  next
    case ok: False
    show ?thesis
    proof (cases "gm_get (cs_seen st) (pd_Port port)")
      case None
      then have "\<forall>p\<in>set (cs_result st). agree p port"
        using inv gm_has_iff [of "cs_seen st" "pd_Port port"]
        by (auto simp: collect_inv_def seen_inv_def agree_def)
      then have "collect_inv devMode (st\<lparr>cs_seen := gm_set (cs_seen st) (pd_Port port) [pd_TargetPort port],
        cs_hostnames := (if pd_Hostname port \<noteq> [] then gm_set (cs_hostnames st) (pd_Hostname port) () else cs_hostnames st),
        cs_result := cs_result st @ [port]\<rparr>)"
        using inv ok port by (intro collect_append) (auto simp: go_map)
      then show ?thesis
        using None ok by (auto simp: collectPort_def Let_def simp flip: port_def)
    next
      case (Some ts)
      show ?thesis
      proof (cases "pd_Hostname port \<noteq> [] \<and> pd_TargetPort port \<in> set ts")
        case True
        have seen: "seen_inv (cs_seen st) (cs_result st)" using inv by (simp add: collect_inv_def)
        have "\<forall>t\<in>set (ts @ [pd_TargetPort port]). t = pd_TargetPort port"
          using seen_targets(1) [OF seen Some] True by auto
        moreover have "\<forall>p\<in>set (cs_result st). agree p port"
          using seen_targets(2) [OF seen Some] True by (auto simp: agree_def)
        ultimately have "collect_inv devMode (st\<lparr>cs_seen := gm_set (cs_seen st) (pd_Port port) (ts @ [pd_TargetPort port]),
          cs_hostnames := gm_set (cs_hostnames st) (pd_Hostname port) (), cs_result := cs_result st @ [port]\<rparr>)"
          using inv ok port True by (intro collect_append) (auto simp: go_map)
        then show ?thesis
          using Some ok True by (auto simp: collectPort_def Let_def simp flip: port_def)
      next
        case False
        with inv Some ok show ?thesis
          by (auto simp: collectPort_def Let_def simp flip: port_def)
      qed
    qed
  qed
qed

lemma collectPorts_inv: "collect_inv devMode st \<Longrightarrow> collect_inv devMode (collectPorts devMode ports st)"
  unfolding collectPorts_def by (induction ports arbitrary: st) (simp_all add: collectPort_inv)

lemma collect_inv_init: "collect_inv devMode \<lparr>cs_seen = [], cs_hostnames = [], cs_result = []\<rparr>"
  by (simp add: collect_inv_def seen_inv_def hostnames_def gm_has_def)

lemma CollectContainerPorts_inv:
  "\<exists>st. collect_inv devMode st \<and> CollectContainerPorts typedSorted container devMode = cs_result st"
proof -
  have "collect_inv devMode st \<Longrightarrow>
      collect_inv devMode (fold (\<lambda>entry st. collectPorts devMode (c_Ports (c_fields (snd entry))) st) entries st)"
    for st and entries :: "(string \<times> Container) list"
    by (induction entries arbitrary: st) (simp_all add: collectPorts_inv)
  then show ?thesis
    unfolding CollectContainerPorts_def Let_def
    using collectPorts_inv [OF collect_inv_init] by blast
qed

text \<open>Among the ports that \<open>CollectContainerPorts\<close> returns for a container and its sidecars, no two have
  the same hostname; two that share a public port number lead to the same target port and the later one
  has a hostname; a dev port occurs in dev mode only; and every port has a public number unless its
  target is zero. This holds whatever order the sidecars are visited in.\<close>

theorem CollectContainerPorts_consistent:
  assumes "i < j" and "j < length ps" and "ps = CollectContainerPorts typedSorted container devMode"
  shows "(pd_Hostname (ps ! i) = pd_Hostname (ps ! j) \<longrightarrow> pd_Hostname (ps ! i) = []) \<and>
    (pd_Port (ps ! i) = pd_Port (ps ! j) \<longrightarrow>
       pd_TargetPort (ps ! i) = pd_TargetPort (ps ! j) \<and> pd_Hostname (ps ! j) \<noteq> []) \<and>
    (pd_Dev (ps ! j) \<longrightarrow> devMode) \<and> (pd_Port (ps ! j) = 0 \<longrightarrow> pd_TargetPort (ps ! j) = 0)"
proof -
  obtain st where st: "collect_inv devMode st" and ps: "ps = cs_result st"
    using CollectContainerPorts_inv assms(3) by metis
  have "agree (ps ! i) (ps ! j)" "hosts_differ (ps ! i) (ps ! j)"
    using st ps assms(1,2) by (simp_all add: collect_inv_def sorted_wrt_iff_nth_less)
  moreover have "ps ! j \<in> set ps" using assms(2) by simp
  ultimately show ?thesis
    using st ps by (auto simp: agree_def hosts_differ_def collect_inv_def)
qed

theorem CollectContainerPorts_consistent_witness:
  "let p = zero_PortDef\<lparr>pd_Port := 80, pd_TargetPort := 8080, pd_Hostname := ''a.b''\<rparr>; q = p\<lparr>pd_Hostname := ''c.d''\<rparr>; ps = [p, q]
   in (pd_Hostname (ps ! 0) = pd_Hostname (ps ! 1) \<longrightarrow> pd_Hostname (ps ! 0) = []) \<and>
    (pd_Port (ps ! 0) = pd_Port (ps ! 1) \<longrightarrow>
       pd_TargetPort (ps ! 0) = pd_TargetPort (ps ! 1) \<and> pd_Hostname (ps ! 1) \<noteq> []) \<and>
    (pd_Dev (ps ! 1) \<longrightarrow> False) \<and> (pd_Port (ps ! 1) = 0 \<longrightarrow> pd_TargetPort (ps ! 1) = 0)"
proof -
  let ?p = "zero_PortDef\<lparr>pd_Port := 80, pd_TargetPort := 8080, pd_Hostname := ''a.b''\<rparr>"
  let ?c = "Container (zero_container_fields\<lparr>c_Ports := [?p]\<rparr>)
    [(''side'', Container (zero_container_fields\<lparr>c_Ports := [?p\<lparr>pd_Hostname := ''c.d''\<rparr>]\<rparr>) [])]"
  have eq: "[?p, ?p\<lparr>pd_Hostname := ''c.d''\<rparr>] = CollectContainerPorts (\<lambda>xs. xs) ?c False"
    by code_simp
  show ?thesis
    unfolding Let_def
    by (rule CollectContainerPorts_consistent [OF _ _ eq]) simp_all
qed

end
