(* ===== verification/BindingSyntax.thy ===== *)
theory BindingSyntax
  imports AppTypes
begin

text \<open>
  The command line syntax of everything that is bound to an app besides ports: links and secrets
  (\<open>ports.go\<close>), volumes (\<open>volumes.go\<close>), scoped labels (\<open>labelsannotations.go\<close>), name-value pairs and
  quantities (\<open>unmarshal.go\<close>) and workload memory (\<open>memory.go\<close>), all in
  \<open>pkg/apis/internal.acorn.io/v1\<close>. Arguments stand for the libraries outside the repository:
  \<open>resParse\<close> is \<open>resource.ParseQuantity\<close> and \<open>amlParseInt\<close> is \<open>aml.ParseInt\<close>.
\<close>

datatype 'e binding_error =
    ZeroLengthBinding string
  | VolumeColon string
  | ZeroLengthVolume string
  | VolumeQuantity string 'e
  | VolumeOptions string
  | LabelScopeType string string
  | LabelScopeFormat string
  | LabelResourceType string

subsection \<open>Links and secrets\<close>

definition ParseLink :: "string \<Rightarrow> 'e binding_error + ServiceBinding" where
  "ParseLink arg =
     (case str_cut CHR '':'' arg of (existing0, secName0, ok) \<Rightarrow>
        let secName = str_trim_space (if \<not> ok then existing0 else secName0);
            existing = str_trim_space existing0
        in if secName = [] \<or> existing = [] then Inl (ZeroLengthBinding arg)
           else Inr \<lparr>sb_Target = secName, sb_Service = existing\<rparr>)"

definition ParseLinks :: "string list \<Rightarrow> 'e binding_error + ServiceBinding list" where
  "ParseLinks args = map_err ParseLink args"

definition ParseSecret :: "string \<Rightarrow> 'e binding_error + SecretBinding" where
  "ParseSecret arg =
     (case str_cut CHR '':'' arg of (existing0, secName0, ok) \<Rightarrow>
        let secName = str_trim_space (if \<not> ok then existing0 else secName0);
            existing = str_trim_space existing0
        in if secName = [] \<or> existing = [] then Inl (ZeroLengthBinding arg)
           else Inr \<lparr>sc_Secret = existing, sc_Target = secName\<rparr>)"

definition ParseSecrets :: "string list \<Rightarrow> 'e binding_error + SecretBinding list" where
  "ParseSecrets args = map_err ParseSecret args"

interpretation links: slice_parser ParseLink ParseLinks
  by unfold_locales (simp_all add: ParseLinks_def)

interpretation secrets: slice_parser ParseSecret ParseSecrets
  by unfold_locales (simp_all add: ParseSecrets_def)

subsection \<open>Options, quantities, volumes\<close>

text \<open>\<open>KVMap\<close> is called with a comma; a later pair overwrites an earlier one with the same key.\<close>

definition kv_step :: "string \<Rightarrow> (string, string) gomap \<Rightarrow> (string, string) gomap" where
  "kv_step part0 result =
     (let part = str_trim_space part0
      in if part = [] then result
         else (case str_cut CHR ''='' part of (k, v, _) \<Rightarrow> gm_set result k v))"

definition KVMap :: "string \<Rightarrow> char \<Rightarrow> (string, string) gomap" where
  "KVMap val sep = fold kv_step (str_split sep val) []"

definition ParseQuantity :: "(string \<Rightarrow> 'e + 'q) \<Rightarrow> string \<Rightarrow> 'e + Quantity" where
  "ParseQuantity resParse s =
     (if s = [] then Inr []
      else (case atoi s of
              Inr d \<Rightarrow> Inr (if d < 1000000 then s @ ''G'' else s)
            | Inl _ \<Rightarrow> bind_err (resParse s) (\<lambda>_. Inr s)))"

definition ParseVolume :: "(string \<Rightarrow> 'e + 'q) \<Rightarrow> bool \<Rightarrow> string \<Rightarrow> 'e binding_error + VolumeBinding" where
  "ParseVolume resParse fromCLI arg0 =
     (case str_cut CHR '','' arg0 of (arg, opts, _) \<Rightarrow>
      case str_cut CHR '':'' arg of (existing0, volName0, ok) \<Rightarrow>
        if ok \<and> \<not> fromCLI then Inl (VolumeColon arg)
        else
          (let volName = str_trim_space (if ok then volName0 else existing0);
               existing = str_trim_space (if ok then existing0 else [])
           in if volName = [] then Inl (ZeroLengthVolume arg)
              else
                (let volumeBinding = zero_VolumeBinding\<lparr>vb_Volume := existing, vb_Target := volName\<rparr>;
                     kvOpts = KVMap opts CHR '',''
                 in if fromCLI
                    then (case ParseQuantity resParse (gm_get_or [] kvOpts ''size'') of
                            Inl e \<Rightarrow> Inl (VolumeQuantity arg e)
                          | Inr q \<Rightarrow> Inr (volumeBinding\<lparr>vb_Class := str_trim_space (gm_get_or [] kvOpts ''class''),
                                                       vb_Size := q\<rparr>))
                    else if length kvOpts > 0 then Inl (VolumeOptions opts)
                    else Inr volumeBinding)))"

definition ParseVolumes :: "(string \<Rightarrow> 'e + 'q) \<Rightarrow> bool \<Rightarrow> string list \<Rightarrow> 'e binding_error + VolumeBinding list" where
  "ParseVolumes resParse fromCLI args = map_err (ParseVolume resParse fromCLI) args"

interpretation volumes: slice_parser "ParseVolume resParse fromCLI" "ParseVolumes resParse fromCLI"
  for resParse fromCLI
  by unfold_locales (simp_all add: ParseVolumes_def)

subsection \<open>Scoped labels\<close>

definition canonicalTypes :: "(string, string) gomap" where
  "canonicalTypes =
     [(''router'', ''router''), (''routers'', ''router''),
      (''container'', ''container''), (''containers'', ''container''),
      (''job'', ''job''), (''jobs'', ''job''),
      (''volume'', ''volume''), (''volumes'', ''volume''),
      (''secret'', ''secret''), (''secrets'', ''secret''),
      (''metadata'', ''metadata''), (''metadatas'', ''metadata''),
      (''acorn'', ''acorn''), (''acorns'', ''acorn''),
      (''service'', ''service''), (''services'', ''service'')]"

definition parseScopedLabel :: "string \<Rightarrow> string \<Rightarrow> 'e binding_error + ScopedLabel" where
  "parseScopedLabel k v =
     (case str_split CHR '':'' k of
        [key] \<Rightarrow> Inr (zero_ScopedLabel\<lparr>sl_Key := key, sl_Value := v\<rparr>)
      | [scope, key] \<Rightarrow>
          (let scopePart = gm_get_or [] canonicalTypes (str_to_lower scope)
           in if scopePart \<noteq> []
              then Inr (zero_ScopedLabel\<lparr>sl_ResourceType := scopePart, sl_Key := key, sl_Value := v\<rparr>)
              else Inr (zero_ScopedLabel\<lparr>sl_ResourceName := scope, sl_Key := key, sl_Value := v\<rparr>))
      | [scope, resourceName, key] \<Rightarrow>
          (let scopeTypePart = gm_get_or [] canonicalTypes (str_to_lower scope)
           in if scopeTypePart = [] then Inl (LabelScopeType k scope)
              else if resourceName = [] then Inl (LabelScopeFormat k)
              else Inr \<lparr>sl_ResourceType = scopeTypePart, sl_ResourceName = resourceName, sl_Key = key, sl_Value = v\<rparr>)
      | _ \<Rightarrow> Inl (LabelScopeFormat k))"

definition ParseScopedLabelArg :: "string \<Rightarrow> 'e binding_error + ScopedLabel" where
  "ParseScopedLabelArg s = (case str_cut CHR ''='' s of (k, v, _) \<Rightarrow> parseScopedLabel k v)"

definition ParseScopedLabels :: "string list \<Rightarrow> 'e binding_error + ScopedLabel list" where
  "ParseScopedLabels args = map_err ParseScopedLabelArg args"

interpretation labels: slice_parser ParseScopedLabelArg ParseScopedLabels
  by unfold_locales (simp_all add: ParseScopedLabels_def)

definition canonicalResourceType :: "string \<Rightarrow> 'e binding_error + string" where
  "canonicalResourceType rType =
     (if rType = [] then Inr rType
      else (let normalized = gm_get_or [] canonicalTypes (str_to_lower rType)
            in if normalized = [] then Inl (LabelResourceType rType) else Inr normalized))"

subsection \<open>Name-value pairs\<close>

text \<open>\<open>getenv\<close> is \<open>os.Getenv\<close>.\<close>

definition ParseNameValues :: "(string \<Rightarrow> string) \<Rightarrow> bool \<Rightarrow> string list \<Rightarrow> NameValue list" where
  "ParseNameValues getenv fillEnv args =
     map (\<lambda>s. case str_cut CHR ''='' s of (k, v, _) \<Rightarrow>
       \<lparr>nv_Name = k,
        nv_Value = (if v = [] \<and> fillEnv then getenv (last (str_split CHR ''.'' k)) else v)\<rparr>) args"

subsection \<open>Memory\<close>

fun ParseMemory_loop :: "(string \<Rightarrow> 'e + int) \<Rightarrow> string list \<Rightarrow> MemoryMap \<Rightarrow> 'e + MemoryMap" where
  "ParseMemory_loop amlParseInt [] result = Inr result"
| "ParseMemory_loop amlParseInt (s # rest) result =
     (case str_cut CHR ''='' s of (workload0, memBytes0, specific) \<Rightarrow>
        let memBytes = (if \<not> specific then workload0 else memBytes0);
            workload = (if \<not> specific then [] else workload0)
        in case amlParseInt memBytes of
             Inl e \<Rightarrow> Inl e
           | Inr quantity \<Rightarrow> ParseMemory_loop amlParseInt rest (gm_set result workload (Some quantity)))"

definition ParseMemory :: "(string \<Rightarrow> 'e + int) \<Rightarrow> string list \<Rightarrow> 'e + MemoryMap" where
  "ParseMemory amlParseInt s = ParseMemory_loop amlParseInt s []"

datatype memory_source = ErrInvalidAcornMemory | ErrInvalidSetMemory | ErrInvalidDefaultMemory

datatype memory_error = ExceedsMaximum memory_source string int int | DefaultExceedsMaximum memory_source int int

text \<open>The number of bytes of the quantity that is returned, and the error. A map entry may be a nil pointer.\<close>

definition ValidateMemory ::
    "MemoryMap \<Rightarrow> string \<Rightarrow> Container \<Rightarrow> int option \<Rightarrow> int option \<Rightarrow> int \<times> memory_error option" where
  "ValidateMemory memSpec containerName container specMemDefault specMemMaximum =
     (let memDefault = (case specMemDefault of None \<Rightarrow> 0 | Some d \<Rightarrow> d);
          memMaximum = (case specMemMaximum of None \<Rightarrow> 0 | Some m \<Rightarrow> m);
          (memBytes, errType) =
            (case gm_get_or None memSpec containerName of
               Some m \<Rightarrow> (m, ErrInvalidSetMemory)
             | None \<Rightarrow> (case gm_get_or None memSpec [] of
                 Some m \<Rightarrow> (m, ErrInvalidSetMemory)
               | None \<Rightarrow> (case c_Memory (c_fields container) of
                   Some m \<Rightarrow> (m, ErrInvalidAcornMemory)
                 | None \<Rightarrow> (memDefault, ErrInvalidDefaultMemory))))
      in if memMaximum \<noteq> 0
         then (if memBytes > memMaximum
               then (memBytes,
                     Some (if memBytes = memDefault then DefaultExceedsMaximum errType memDefault memMaximum
                           else ExceedsMaximum errType containerName memBytes memMaximum))
               else if memBytes = 0 then (memMaximum, None)
               else (memBytes, None))
         else (memBytes, None))"

subsection \<open>Correctness\<close>

lemma str_trim_space_Nil [simp]: "str_trim_space [] = []"
  using str_trim_space_sublist [of "[]"] by simp

lemma ParseSecret_ParseLink:
  "ParseSecret arg = map_sum id (\<lambda>b. \<lparr>sc_Secret = sb_Service b, sc_Target = sb_Target b\<rparr>) (ParseLink arg)"
  by (simp add: ParseSecret_def ParseLink_def Let_def split: prod.splits)

lemma map_err_map_sum:
  "map_err (\<lambda>x. map_sum id g (f x)) xs = map_sum id (map g) (map_err f xs)"
proof (induction xs)
  case (Cons x xs)
  then show ?case by (cases "f x"; cases "map_err f xs") simp_all
qed simp

lemma ParseLink_nonempty: "ParseLink arg = Inr b \<Longrightarrow> sb_Target b \<noteq> [] \<and> sb_Service b \<noteq> []"
  by (auto simp: ParseLink_def Let_def split: prod.splits if_splits)

lemma ParseLink_plain:
  assumes "list_all plain_char a" "list_all plain_char b" "a \<noteq> []" "b \<noteq> []" "CHR '':'' \<notin> set a"
  shows "ParseLink (a @ CHR '':'' # b) = Inr \<lparr>sb_Target = b, sb_Service = a\<rparr>"
    and "ParseLink a = Inr \<lparr>sb_Target = a, sb_Service = a\<rparr>"
  using assms by (simp_all add: ParseLink_def str_trim_space_plain Let_def)

text \<open>Links and secrets are parsed by the same rules: \<open>ParseSecrets\<close> fails on exactly the arguments on which
  \<open>ParseLinks\<close> fails, with the same error, and otherwise binds the same names; no bound name is empty.\<close>

theorem ParseSecrets_ParseLinks:
  "ParseSecrets args =
     map_sum id (map (\<lambda>b. \<lparr>sc_Secret = sb_Service b, sc_Target = sb_Target b\<rparr>)) (ParseLinks args) \<and>
   (case ParseLinks args of Inl _ \<Rightarrow> True
    | Inr bs \<Rightarrow> length bs = length args \<and> list_all (\<lambda>b. sb_Target b \<noteq> [] \<and> sb_Service b \<noteq> []) bs)"
proof
  show "ParseSecrets args =
      map_sum id (map (\<lambda>b. \<lparr>sc_Secret = sb_Service b, sc_Target = sb_Target b\<rparr>)) (ParseLinks args)"
    unfolding ParseSecrets_def ParseLinks_def map_err_map_sum [symmetric]
    by (simp add: ParseSecret_ParseLink [abs_def])
  show "case ParseLinks args of Inl _ \<Rightarrow> True
    | Inr bs \<Rightarrow> length bs = length args \<and> list_all (\<lambda>b. sb_Target b \<noteq> [] \<and> sb_Service b \<noteq> []) bs"
    by (auto simp: ParseLinks_def map_err_length split: sum.splits
        intro!: links.results_satisfy [unfolded ParseLinks_def] dest: ParseLink_nonempty)
qed

text \<open>A volume binding of an Acornfile (not from the command line) names its target only: it is refused if
  it contains a colon or an option, so an accepted one binds no existing volume, class or size.\<close>

theorem ParseVolumes_Acornfile:
  assumes "ParseVolumes resParse False args = Inr bs"
  shows "list_all (\<lambda>b. vb_Target b \<noteq> [] \<and> b = zero_VolumeBinding\<lparr>vb_Target := vb_Target b\<rparr>) bs"
  using assms
proof (rule volumes.results_satisfy)
  fix x y
  assume "ParseVolume resParse False x = Inr y"
  then show "vb_Target y \<noteq> [] \<and> y = zero_VolumeBinding\<lparr>vb_Target := vb_Target y\<rparr>"
    by (auto simp: ParseVolume_def Let_def zero_VolumeBinding_def split: prod.splits if_splits)
qed

theorem ParseVolumes_Acornfile_witness:
  "list_all (\<lambda>b. vb_Target b \<noteq> [] \<and> b = zero_VolumeBinding\<lparr>vb_Target := vb_Target b\<rparr>)
     [zero_VolumeBinding\<lparr>vb_Target := ''data''\<rparr>]"
proof (rule ParseVolumes_Acornfile)
  show "ParseVolumes (\<lambda>s. Inl ()) False [''data''] = (Inr [zero_VolumeBinding\<lparr>vb_Target := ''data''\<rparr>] :: unit binding_error + _)"
    by code_simp
qed

lemma canonical_lookup:
  assumes "t \<in> set (map snd canonicalTypes)"
  shows "gm_get_or [] canonicalTypes (str_to_lower t) = t" and "t \<noteq> []" and "CHR '':'' \<notin> set t" "CHR ''='' \<notin> set t"
proof -
  have "list_all (\<lambda>t. gm_get_or [] canonicalTypes (str_to_lower t) = t \<and> t \<noteq> [] \<and>
      CHR '':'' \<notin> set t \<and> CHR ''='' \<notin> set t) (map snd canonicalTypes)"
    by code_simp
  with assms show "gm_get_or [] canonicalTypes (str_to_lower t) = t" "t \<noteq> []" "CHR '':'' \<notin> set t" "CHR ''='' \<notin> set t"
    by (auto simp: list_all_iff)
qed

definition render_label :: "ScopedLabel \<Rightarrow> string" where
  "render_label l = sl_ResourceType l @ CHR '':'' # sl_ResourceName l @ CHR '':'' # sl_Key l @ CHR ''='' # sl_Value l"

text \<open>A label scoped to a named resource of a canonical type, written \<open>type:name:key=value\<close>, is parsed back to
  the same label, whatever its value contains; \<open>canonicalResourceType\<close> keeps canonical types.\<close>

theorem scoped_label_roundtrip:
  assumes "sl_ResourceType l \<in> set (map snd canonicalTypes)" and "sl_ResourceName l \<noteq> []"
    and "set (sl_ResourceName l) \<inter> {CHR '':'', CHR ''=''} = {}" and "set (sl_Key l) \<inter> {CHR '':'', CHR ''=''} = {}"
  shows "ParseScopedLabels [render_label l] = Inr [l] \<and>
    canonicalResourceType (sl_ResourceType l) = Inr (sl_ResourceType l)"
proof
  note ct = canonical_lookup [OF assms(1)]
  let ?k = "sl_ResourceType l @ CHR '':'' # sl_ResourceName l @ CHR '':'' # sl_Key l"
  have "str_cut CHR ''='' (?k @ CHR ''='' # sl_Value l) = (?k, sl_Value l, True)"
    using assms ct by (intro str_cut_append) auto
  moreover have "str_split CHR '':'' ?k = [sl_ResourceType l, sl_ResourceName l, sl_Key l]"
    using assms ct by simp
  ultimately show "ParseScopedLabels [render_label l] = Inr [l]"
    using assms(2) ct
    by (simp add: ParseScopedLabels_def ParseScopedLabelArg_def render_label_def parseScopedLabel_def Let_def)
  show "canonicalResourceType (sl_ResourceType l) = Inr (sl_ResourceType l)"
    using ct by (simp add: canonicalResourceType_def)
qed

theorem scoped_label_roundtrip_witness:
  "let l = \<lparr>sl_ResourceType = ''container'', sl_ResourceName = ''web'', sl_Key = ''k'', sl_Value = ''a=b:c''\<rparr>
   in ParseScopedLabels [render_label l] = (Inr [l] :: unit binding_error + _) \<and>
      canonicalResourceType (sl_ResourceType l) = (Inr (sl_ResourceType l) :: unit binding_error + _)"
  unfolding Let_def by (rule scoped_label_roundtrip) (simp_all add: canonicalTypes_def)

definition chosen_memory :: "MemoryMap \<Rightarrow> string \<Rightarrow> Container \<Rightarrow> int option \<Rightarrow> int" where
  "chosen_memory memSpec name container def =
     (case gm_get_or None memSpec name of Some m \<Rightarrow> m
      | None \<Rightarrow> (case gm_get_or None memSpec [] of Some m \<Rightarrow> m
        | None \<Rightarrow> (case c_Memory (c_fields container) of Some m \<Rightarrow> m
          | None \<Rightarrow> (case def of Some d \<Rightarrow> d | None \<Rightarrow> 0))))"

lemma ValidateMemory_eq:
  "ValidateMemory memSpec name container def mx =
     (let b = chosen_memory memSpec name container def; m = (case mx of None \<Rightarrow> 0 | Some m \<Rightarrow> m)
      in (if m \<noteq> 0 \<and> b = 0 \<and> \<not> b > m then m else b, snd (ValidateMemory memSpec name container def mx)))"
  by (auto simp: ValidateMemory_def chosen_memory_def Let_def split: option.splits)

text \<open>The memory of a workload is what the user set for it, else what the user set for all workloads, else
  what the Acornfile says, else the default. With a positive maximum it is an error exactly when that
  exceeds the maximum; otherwise the result is not zero and at most the maximum.\<close>

theorem ValidateMemory_spec:
  assumes "0 < m"
  shows "case ValidateMemory memSpec name container def (Some m) of (q, err) \<Rightarrow>
    (if m < chosen_memory memSpec name container def
     then err \<noteq> None \<and> q = chosen_memory memSpec name container def
     else err = None \<and> q \<noteq> 0 \<and> q \<le> m \<and>
          (chosen_memory memSpec name container def \<noteq> 0 \<longrightarrow> q = chosen_memory memSpec name container def))"
  using assms by (auto simp: ValidateMemory_def chosen_memory_def Let_def split: option.splits)

theorem ValidateMemory_spec_witness:
  "case ValidateMemory [('''', Some 0)] ''web'' (Container zero_container_fields []) (Some 5) (Some 7) of (q, err) \<Rightarrow>
    (if 7 < chosen_memory [('''', Some 0)] ''web'' (Container zero_container_fields []) (Some 5)
     then err \<noteq> None \<and> q = chosen_memory [('''', Some 0)] ''web'' (Container zero_container_fields []) (Some 5)
     else err = None \<and> q \<noteq> 0 \<and> q \<le> 7 \<and>
          (chosen_memory [('''', Some 0)] ''web'' (Container zero_container_fields []) (Some 5) \<noteq> 0 \<longrightarrow>
           q = chosen_memory [('''', Some 0)] ''web'' (Container zero_container_fields []) (Some 5)))"
  by (rule ValidateMemory_spec) simp

end
