(* ===== verification/GoText.thy ===== *)
theory GoText
  imports Prelude
begin

text \<open>
  The parts of the standard library that the decoders of \<open>unmarshal.go\<close> rely on beyond strings and
  maps: \<open>strconv.ParseInt\<close> in base 8, \<open>strings.EqualFold\<close> against an ASCII word, \<open>filepath.Join\<close>,
  \<open>base64.StdEncoding\<close> and \<open>url.Parse\<close> with \<open>Query\<close>. Text is a sequence of bytes.
\<close>

subsection \<open>Packages strconv, strings and filepath\<close>

definition is_octal :: "char \<Rightarrow> bool" where
  "is_octal c = (48 \<le> (of_char c :: nat) \<and> (of_char c :: nat) \<le> 55)"

definition oct_value :: "string \<Rightarrow> nat" where
  "oct_value ds = foldl (\<lambda>n c. 8 * n + digit_value c) 0 ds"

text \<open>\<open>strconv.ParseInt(s, 8, 32)\<close>.\<close>

definition parse_octal32 :: "string \<Rightarrow> num_error + int" where
  "parse_octal32 s =
     (case split_sign s of (neg, ds) \<Rightarrow>
        if ds = [] \<or> \<not> list_all is_octal ds then Inl (NumError s)
        else (let v = (if neg then - int (oct_value ds) else int (oct_value ds))
              in if - (2 ^ 31) \<le> v \<and> v < 2 ^ 31 then Inr v else Inl (NumError s)))"

text \<open>
  \<open>strings.EqualFold(s, t)\<close> for a word \<open>t\<close> of ASCII characters other than \<open>k\<close> and \<open>s\<close>, which are the only
  ones that Unicode folds with a rune outside ASCII.
\<close>

definition equal_fold :: "string \<Rightarrow> string \<Rightarrow> bool" where
  "equal_fold s t = (str_to_lower s = str_to_lower t)"

text \<open>
  \<open>filepath.Clean\<close>: the components of the path are processed from the left, the list holds the
  components kept so far in reverse.
\<close>

fun clean_step :: "bool \<Rightarrow> string list \<Rightarrow> string \<Rightarrow> string list" where
  "clean_step rooted out p =
     (if p = [] \<or> p = ''.'' then out
      else if p = ''..'' then
        (case out of
           [] \<Rightarrow> if rooted then [] else [''..'']
         | q # qs \<Rightarrow> if q = ''..'' then ''..'' # out else qs)
      else p # out)"

definition filepath_Clean :: "string \<Rightarrow> string" where
  "filepath_Clean s =
     (let rooted = str_has_prefix s ''/'';
          out = str_join ''/'' (rev (foldl (clean_step rooted) [] (str_split CHR ''/'' s)))
      in if rooted then CHR ''/'' # out else if out = [] then ''.'' else out)"

definition filepath_Join :: "string list \<Rightarrow> string" where
  "filepath_Join elems =
     (let es = dropWhile (\<lambda>e. e = []) elems
      in if es = [] then [] else filepath_Clean (str_join ''/'' es))"

subsection \<open>Package base64\<close>

definition base64_alphabet :: string where
  "base64_alphabet = ''ABCDEFGHIJKLMNOPQRSTUVWXYZabcdefghijklmnopqrstuvwxyz0123456789+/''"

definition base64_char :: "nat \<Rightarrow> char" where
  "base64_char n = base64_alphabet ! n"

text \<open>\<open>StdEncoding.EncodeToString\<close>: three bytes become four characters of six bits, the rest is padded.\<close>

fun base64_encode :: "string \<Rightarrow> string" where
  "base64_encode [] = []"
| "base64_encode [a] =
     (let n = of_char a * 16 in [base64_char (n div 64), base64_char (n mod 64), CHR ''='', CHR ''=''])"
| "base64_encode [a, b] =
     (let n = (of_char a * 256 + of_char b) * 4
      in [base64_char (n div 4096), base64_char (n div 64 mod 64), base64_char (n mod 64), CHR ''=''])"
| "base64_encode (a # b # c # rest) =
     (let n = of_char a * 65536 + of_char b * 256 + of_char c
      in [base64_char (n div 262144), base64_char (n div 4096 mod 64), base64_char (n div 64 mod 64),
          base64_char (n mod 64)] @ base64_encode rest)"

fun find_index :: "'a \<Rightarrow> 'a list \<Rightarrow> nat option" where
  "find_index x [] = None"
| "find_index x (y # ys) = (if x = y then Some 0 else map_option Suc (find_index x ys))"

definition base64_value :: "char \<Rightarrow> nat option" where
  "base64_value c = find_index c base64_alphabet"

text \<open>\<open>StdEncoding.DecodeString\<close>: new lines are ignored, padding is required, trailing bits are dropped.\<close>

fun base64_quads :: "string \<Rightarrow> string option" where
  "base64_quads [] = Some []"
| "base64_quads [a, b, c, d] =
     (case (base64_value a, base64_value b) of
        (Some u, Some v) \<Rightarrow>
          (if c = CHR ''='' \<and> d = CHR ''='' then Some [char_of ((u * 64 + v) div 16)]
           else (case base64_value c of None \<Rightarrow> None
                 | Some w \<Rightarrow>
                     if d = CHR ''='' then
                       (let n = (u * 4096 + v * 64 + w) div 4 in Some [char_of (n div 256), char_of (n mod 256)])
                     else (case base64_value d of None \<Rightarrow> None
                           | Some x \<Rightarrow>
                               (let n = u * 262144 + v * 4096 + w * 64 + x
                                in Some [char_of (n div 65536), char_of (n div 256 mod 256), char_of (n mod 256)]))))
      | _ \<Rightarrow> None)"
| "base64_quads (a # b # c # d # rest) =
     (case (base64_value a, base64_value b, base64_value c, base64_value d) of
        (Some u, Some v, Some w, Some x) \<Rightarrow>
          (let n = u * 262144 + v * 4096 + w * 64 + x
           in map_option (\<lambda>r. [char_of (n div 65536), char_of (n div 256 mod 256), char_of (n mod 256)] @ r)
                (base64_quads rest))
      | _ \<Rightarrow> None)"
| "base64_quads _ = None"

definition base64_decode :: "string \<Rightarrow> string option" where
  "base64_decode s = base64_quads (filter (\<lambda>c. c \<noteq> CHR 0x0A \<and> c \<noteq> CHR 0x0D) s)"

subsection \<open>Package url\<close>

datatype url_error =
    InvalidControlCharacter | MissingScheme | ColonInFirstSegment | EscapeError string
  | InvalidHostError char | MissingBracket | InvalidURLPort string | InvalidUserinfo

record URL =
  u_Scheme :: string
  u_Opaque :: string
  u_Host :: string
  u_Path :: string
  u_RawQuery :: string

definition zero_URL :: URL where
  "zero_URL = \<lparr>u_Scheme = [], u_Opaque = [], u_Host = [], u_Path = [], u_RawQuery = []\<rparr>"

definition is_alpha :: "char \<Rightarrow> bool" where
  "is_alpha c = ((65 \<le> (of_char c :: nat) \<and> (of_char c :: nat) \<le> 90) \<or>
                 (97 \<le> (of_char c :: nat) \<and> (of_char c :: nat) \<le> 122))"

definition is_alnum :: "char \<Rightarrow> bool" where
  "is_alnum c = (is_alpha c \<or> is_digit c)"

definition unhex :: "char \<Rightarrow> nat option" where
  "unhex c = (let n = (of_char c :: nat) in
     if is_digit c then Some (n - 48)
     else if 65 \<le> n \<and> n \<le> 70 then Some (n - 55)
     else if 97 \<le> n \<and> n \<le> 102 then Some (n - 87) else None)"

datatype encoding = EncodePath | EncodeHost | EncodeZone | EncodeUserPassword | EncodeQueryComponent | EncodeFragment

text \<open>\<open>shouldEscape\<close> for the two encodings whose text is checked against it.\<close>

definition shouldEscapeHost :: "char \<Rightarrow> bool" where
  "shouldEscapeHost c =
     (\<not> is_alnum c \<and> c \<notin> set (CHR 0x22 # CHR 0x27 # ''!$&()*+,;=:[]<>'') \<and> c \<notin> set ''-_.~'')"

fun unescape :: "encoding \<Rightarrow> string \<Rightarrow> url_error + string" where
  "unescape m [] = Inr []"
| "unescape m (c # cs) =
     (if c = CHR ''%'' then
        (case cs of
           h # l # rest \<Rightarrow>
             (case (unhex h, unhex l) of
                (Some u, Some v) \<Rightarrow>
                  (let b = char_of (16 * u + v)
                   in if m = EncodeHost \<and> u < 8 \<and> [h, l] \<noteq> ''25'' then Inl (EscapeError [c, h, l])
                      else if m = EncodeZone \<and> [h, l] \<noteq> ''25'' \<and> b \<noteq> CHR '' '' \<and> shouldEscapeHost b
                        then Inl (EscapeError [c, h, l])
                      else bind_err (unescape m rest) (\<lambda>r. Inr (b # r)))
              | _ \<Rightarrow> Inl (EscapeError [c, h, l]))
         | _ \<Rightarrow> Inl (EscapeError (c # cs)))
      else if c = CHR ''+'' \<and> m = EncodeQueryComponent then bind_err (unescape m cs) (\<lambda>r. Inr (CHR '' '' # r))
      else if (m = EncodeHost \<or> m = EncodeZone) \<and> (of_char c :: nat) < 128 \<and> shouldEscapeHost c
        then Inl (InvalidHostError c)
      else bind_err (unescape m cs) (\<lambda>r. Inr (c # r)))"

definition validOptionalPort :: "string \<Rightarrow> bool" where
  "validOptionalPort port = (case port of [] \<Rightarrow> True | c # cs \<Rightarrow> c = CHR '':'' \<and> list_all is_digit cs)"

text \<open>The text before and after the last occurrence of a character.\<close>

definition cut_last :: "char \<Rightarrow> string \<Rightarrow> (string \<times> string) option" where
  "cut_last c s = (case str_cut c (rev s) of (post, pre, found) \<Rightarrow>
     if found then Some (rev pre, rev post) else None)"

fun index_str :: "string \<Rightarrow> string \<Rightarrow> nat option" where
  "index_str p [] = (if p = [] then Some 0 else None)"
| "index_str p (c # cs) = (if str_has_prefix (c # cs) p then Some 0 else map_option Suc (index_str p cs))"

definition parseHost :: "string \<Rightarrow> url_error + string" where
  "parseHost host =
     (if str_has_prefix host ''['' then
        (case cut_last CHR '']'' host of
           None \<Rightarrow> Inl MissingBracket
         | Some (pre, colonPort) \<Rightarrow>
             if \<not> validOptionalPort colonPort then Inl (InvalidURLPort colonPort)
             else (case index_str ''%25'' pre of
                     None \<Rightarrow> unescape EncodeHost host
                   | Some zone \<Rightarrow>
                       bind_err (unescape EncodeHost (take zone host)) (\<lambda>host1.
                       bind_err (unescape EncodeZone (drop zone pre)) (\<lambda>host2.
                       bind_err (unescape EncodeHost (CHR '']'' # colonPort)) (\<lambda>host3.
                         Inr (host1 @ host2 @ host3))))))
      else (case cut_last CHR '':'' host of
              None \<Rightarrow> unescape EncodeHost host
            | Some (_, port) \<Rightarrow>
                if validOptionalPort (CHR '':'' # port) then unescape EncodeHost host
                else Inl (InvalidURLPort (CHR '':'' # port))))"

definition validUserinfo :: "string \<Rightarrow> bool" where
  "validUserinfo s = list_all (\<lambda>c. is_alnum c \<or> c \<in> set (CHR 0x27 # ''-._:~!$&()*+,;=%@'')) s"

definition parseAuthority :: "string \<Rightarrow> url_error + string" where
  "parseAuthority authority =
     (case cut_last CHR ''@'' authority of
        None \<Rightarrow> parseHost authority
      | Some (userinfo, h) \<Rightarrow>
          bind_err (parseHost h) (\<lambda>host.
            if \<not> validUserinfo userinfo then Inl InvalidUserinfo
            else (case str_cut CHR '':'' userinfo of (username, password, _) \<Rightarrow>
              bind_err (unescape EncodeUserPassword username) (\<lambda>_.
              bind_err (unescape EncodeUserPassword password) (\<lambda>_. Inr host)))))"

text \<open>\<open>getScheme\<close>: the flag says that no character has been read yet.\<close>

fun scheme_loop :: "bool \<Rightarrow> string \<Rightarrow> (string \<times> string) option + unit" where
  "scheme_loop first [] = Inl None"
| "scheme_loop first (c # cs) =
     (if is_alpha c \<or> (\<not> first \<and> (is_digit c \<or> c \<in> set ''+-.''))
      then (case scheme_loop False cs of
              Inl (Some (sch, rest)) \<Rightarrow> Inl (Some (c # sch, rest)) | r \<Rightarrow> r)
      else if c = CHR '':'' then (if first then Inr () else Inl (Some ([], cs)))
      else Inl None)"

definition getScheme :: "string \<Rightarrow> url_error + (string \<times> string)" where
  "getScheme s =
     (case scheme_loop True s of
        Inr _ \<Rightarrow> Inl MissingScheme | Inl None \<Rightarrow> Inr ([], s) | Inl (Some r) \<Rightarrow> Inr r)"

definition is_ctl :: "char \<Rightarrow> bool" where
  "is_ctl c = ((of_char c :: nat) < 32 \<or> (of_char c :: nat) = 127)"

definition split_query :: "string \<Rightarrow> string \<times> string" where
  "split_query rest =
     (if str_has_suffix rest ''?'' \<and> count_list rest CHR ''?'' = 1 then (butlast rest, [])
      else (case str_cut CHR ''?'' rest of (r, q, _) \<Rightarrow> (r, q)))"

definition url_parse :: "string \<Rightarrow> url_error + URL" where
  "url_parse raw =
     (if list_ex is_ctl raw then Inl InvalidControlCharacter
      else if raw = ''*'' then Inr (zero_URL\<lparr>u_Path := ''*''\<rparr>)
      else bind_err (getScheme raw) (\<lambda>(sch, rest0).
        let scheme = str_to_lower sch; (rest, query) = split_query rest0;
            u = zero_URL\<lparr>u_Scheme := scheme, u_RawQuery := query\<rparr>
        in if \<not> str_has_prefix rest ''/'' \<and> scheme \<noteq> [] then Inr (u\<lparr>u_Opaque := rest\<rparr>)
           else if \<not> str_has_prefix rest ''/'' \<and> CHR '':'' \<in> set (fst (str_cut CHR ''/'' rest))
             then Inl ColonInFirstSegment
           else if (scheme \<noteq> [] \<or> \<not> str_has_prefix rest ''///'') \<and> str_has_prefix rest ''//'' then
             (case str_cut CHR ''/'' (drop 2 rest) of (authority, path, found) \<Rightarrow>
                bind_err (parseAuthority authority) (\<lambda>host.
                bind_err (unescape EncodePath (if found then CHR ''/'' # path else [])) (\<lambda>p.
                  Inr (u\<lparr>u_Host := host, u_Path := p\<rparr>))))
           else bind_err (unescape EncodePath rest) (\<lambda>p. Inr (u\<lparr>u_Path := p\<rparr>))))"

definition url_Parse :: "string \<Rightarrow> url_error + URL" where
  "url_Parse rawURL =
     (case str_cut CHR ''#'' rawURL of (raw, frag, _) \<Rightarrow>
        bind_err (url_parse raw) (\<lambda>u.
        bind_err (unescape EncodeFragment frag) (\<lambda>_. Inr u)))"

text \<open>\<open>Query\<close>: pairs that do not parse are left out. \<open>Get\<close> gives the first value.\<close>

definition query_step :: "(string, string list) gomap \<Rightarrow> string \<Rightarrow> (string, string list) gomap" where
  "query_step m part =
     (if CHR '';'' \<in> set part \<or> part = [] then m
      else (case str_cut CHR ''='' part of (k, v, _) \<Rightarrow>
        (case (unescape EncodeQueryComponent k, unescape EncodeQueryComponent v) of
           (Inr key, Inr value) \<Rightarrow> gm_set m key (gm_get_or [] m key @ [value])
         | _ \<Rightarrow> m)))"

definition url_Query :: "URL \<Rightarrow> (string, string list) gomap" where
  "url_Query u = foldl query_step [] (str_split CHR ''&'' (u_RawQuery u))"

definition values_Get :: "(string, string list) gomap \<Rightarrow> string \<Rightarrow> string" where
  "values_Get q key = (case gm_get_or [] q key of [] \<Rightarrow> [] | v # _ \<Rightarrow> v)"
subsection \<open>Round trips and plain text\<close>

lemma find_index_nth: "distinct xs \<Longrightarrow> n < length xs \<Longrightarrow> find_index (xs ! n) xs = Some n"
proof (induction xs arbitrary: n)
  case (Cons x xs)
  then show ?case by (cases n) auto
qed simp

lemma base64_alphabet_props:
  "distinct base64_alphabet" "length base64_alphabet = 64"
  "CHR ''='' \<notin> set base64_alphabet" "CHR 0x0A \<notin> set base64_alphabet" "CHR 0x0D \<notin> set base64_alphabet"
  by (code_simp)+

lemma base64_value_char [simp]: "n < 64 \<Longrightarrow> base64_value (base64_char n) = Some n"
  by (simp add: base64_value_def base64_char_def find_index_nth base64_alphabet_props)

lemma base64_char_in: "n < 64 \<Longrightarrow> base64_char n \<in> set base64_alphabet"
  by (simp add: base64_char_def base64_alphabet_props)

lemma base64_char_neq:
  "n < 64 \<Longrightarrow> base64_char n \<noteq> CHR ''=''" "n < 64 \<Longrightarrow> base64_char n \<noteq> CHR 0x0A"
  "n < 64 \<Longrightarrow> base64_char n \<noteq> CHR 0x0D"
  using base64_char_in [of n] base64_alphabet_props by metis+

lemma of_char_less [simp]: "(of_char c :: nat) < 256"
  using of_char_mod_256 [where ?'a = nat, of c] by (metis mod_less_divisor zero_less_numeral)

lemma base64_quads_full:
  assumes "u < 64" "v < 64" "w < 64" "x < 64"
  shows "base64_quads (base64_char u # base64_char v # base64_char w # base64_char x # rest) =
    map_option (\<lambda>r. [char_of ((u * 262144 + v * 4096 + w * 64 + x) div 65536),
        char_of ((u * 262144 + v * 4096 + w * 64 + x) div 256 mod 256),
        char_of ((u * 262144 + v * 4096 + w * 64 + x) mod 256)] @ r) (base64_quads rest)"
proof (cases rest)
  case (Cons y ys)
  then show ?thesis using assms by (simp add: Let_def append_Cons [abs_def])
qed (use assms in \<open>simp add: base64_char_neq Let_def\<close>)

lemma quad_value:
  fixes n :: nat
  shows "n div 262144 * 262144 + n div 4096 mod 64 * 4096 + n div 64 mod 64 * 64 + n mod 64 = n"
proof -
  have "n div 4096 = n div 64 div 64" "n div 262144 = n div 64 div 64 div 64"
    by (simp_all flip: div_mult2_eq)
  moreover have "q3 * 262144 + r2 * 4096 + r1 * 64 + r0 = n"
    if "64 * q1 + r0 = n" "64 * q2 + r1 = q1" "64 * q3 + r2 = q2" for q1 q2 q3 r0 r1 r2 :: nat
    using that by linarith
  ultimately show ?thesis by (metis mult_div_mod_eq)
qed

lemma triple_value:
  fixes a b c :: nat
  assumes "b < 256" "c < 256"
  shows "(a * 65536 + b * 256 + c) div 65536 = a" "(a * 65536 + b * 256 + c) div 256 mod 256 = b"
    "(a * 65536 + b * 256 + c) mod 256 = c"
proof -
  have n: "a * 65536 + b * 256 + c = (a * 256 + b) * 256 + c" by simp
  have "((a * 256 + b) * 256 + c) div 256 = a * 256 + b" using assms(2) by simp
  then have *: "(a * 65536 + b * 256 + c) div 256 = a * 256 + b" by (simp only: n)
  with assms(1) show "(a * 65536 + b * 256 + c) div 256 mod 256 = b" by (simp only: * mod_mult_self3 mod_less)
  have "((a * 256 + b) * 256 + c) mod 256 = c" using assms(2) by (simp only: mod_mult_self3 mod_less)
  then show "(a * 65536 + b * 256 + c) mod 256 = c" by (simp only: n)
  have "(a * 65536 + b * 256 + c) div 65536 = (a * 65536 + b * 256 + c) div 256 div 256"
    by (simp flip: div_mult2_eq)
  also have "\<dots> = a" using assms(1) by (simp add: *)
  finally show "(a * 65536 + b * 256 + c) div 65536 = a" .
qed

lemma double_value: "(n div 4096 * 4096 + n div 64 mod 64 * 64 + n mod 64) = (n :: nat)"
proof -
  have "n div 4096 = n div 64 div 64" by (simp flip: div_mult2_eq)
  moreover have "q2 * 4096 + r1 * 64 + r0 = n" if "64 * q1 + r0 = n" "64 * q2 + r1 = q1" for q1 q2 r0 r1 :: nat
    using that by linarith
  ultimately show ?thesis by (metis mult_div_mod_eq)
qed

lemma byte_bounds:
  fixes a b c :: nat
  shows "a < 256 \<Longrightarrow> a * 16 div 64 < 64"
    and "a < 256 \<Longrightarrow> b < 256 \<Longrightarrow> (a * 256 + b) * 4 div 4096 < 64"
    and "a < 256 \<Longrightarrow> b < 256 \<Longrightarrow> c < 256 \<Longrightarrow> (a * 65536 + b * 256 + c) div 262144 < 64"
  by (simp_all add: div_less_iff_less_mult)

lemma base64_quads_encode: "base64_quads (base64_encode s) = Some s"
proof (induction s rule: base64_encode.induct)
  case (2 a)
  define n where "n = of_char a * (16::nat)"
  have "n div 64 < 64" using byte_bounds(1) [of "of_char a"] by (simp add: n_def)
  moreover have "n div 16 = of_char a" by (simp add: n_def)
  ultimately show ?case unfolding base64_encode.simps Let_def n_def [symmetric] by simp
next
  case (3 a b)
  define n where "n = (of_char a * 256 + of_char b) * (4::nat)"
  have "n div 4096 < 64" using byte_bounds(2) [of "of_char a" "of_char b"] by (simp add: n_def)
  moreover have "n div 4 = of_char a * 256 + of_char b" by (simp add: n_def)
  ultimately show ?case unfolding base64_encode.simps Let_def n_def [symmetric]
    by (simp add: base64_char_neq Let_def double_value del: char_of_mod_256)
next
  case (4 a b c rest)
  define n where "n = of_char a * 65536 + of_char b * 256 + (of_char c :: nat)"
  have "n div 262144 < 64" using byte_bounds(3) [of "of_char a" "of_char b" "of_char c"] by (simp add: n_def)
  moreover have "n div 65536 = of_char a" "n div 256 mod 256 = of_char b" "n mod 256 = of_char c"
    unfolding n_def by (simp_all add: triple_value)
  ultimately show ?case using 4 unfolding base64_encode.simps Let_def n_def [symmetric]
    by (simp add: base64_quads_full quad_value del: char_of_mod_256)
qed simp

lemma base64_encode_chars: "c \<in> set (base64_encode s) \<Longrightarrow> c \<noteq> CHR 0x0A \<and> c \<noteq> CHR 0x0D"
proof (induction s rule: base64_encode.induct)
  case (2 a)
  then show ?case using byte_bounds(1) [of "of_char a"] by (auto simp: Let_def base64_char_neq)
next
  case (3 a b)
  then show ?case using byte_bounds(2) [of "of_char a" "of_char b"] by (auto simp: Let_def base64_char_neq)
next
  case (4 a b c rest)
  then show ?case using byte_bounds(3) [of "of_char a" "of_char b" "of_char c"]
    by (auto simp: Let_def base64_char_neq)
qed simp

lemma base64_decode_encode: "base64_decode (base64_encode s) = Some s"
proof -
  have "filter (\<lambda>c. c \<noteq> CHR 0x0A \<and> c \<noteq> CHR 0x0D) (base64_encode s) = base64_encode s"
    using base64_encode_chars by (auto intro: filter_True)
  then show ?thesis by (simp add: base64_decode_def base64_quads_encode)
qed

text \<open>Characters with no meaning of their own in a URL.\<close>

definition url_plain :: "char \<Rightarrow> bool" where
  "url_plain c = (is_alnum c \<or> c \<in> set ''-_.'')"

lemma url_plain_not:
  assumes "url_plain c"
  shows "c \<noteq> CHR ''%''" "c \<noteq> CHR ''+''" "c \<noteq> CHR ''/''" "c \<noteq> CHR ''?''" "c \<noteq> CHR ''#''" "c \<noteq> CHR ''&''"
    "c \<noteq> CHR '';''" "c \<noteq> CHR ''=''" "c \<noteq> CHR '':''" "c \<noteq> CHR ''@''" "c \<noteq> CHR ''[''" "c \<noteq> CHR ''$''"
    "c \<noteq> CHR ''{''" "c \<noteq> CHR ''}''" "\<not> is_ctl c" "\<not> shouldEscapeHost c"
  using assms by (auto simp: url_plain_def is_alnum_def is_alpha_def is_digit_def is_ctl_def shouldEscapeHost_def)

lemma not_url_plain [simp]:
  "\<not> url_plain CHR ''%''" "\<not> url_plain CHR ''+''" "\<not> url_plain CHR ''/''" "\<not> url_plain CHR ''?''"
  "\<not> url_plain CHR ''#''" "\<not> url_plain CHR ''&''" "\<not> url_plain CHR '';''" "\<not> url_plain CHR ''=''"
  "\<not> url_plain CHR '':''" "\<not> url_plain CHR ''@''" "\<not> url_plain CHR ''[''" "\<not> url_plain CHR ''$''"
  "\<not> url_plain CHR ''{''" "\<not> url_plain CHR ''}''"
  by (code_simp)+

lemma unescape_plain: "list_all (\<lambda>c. url_plain c \<or> c = CHR ''/'' \<and> m = EncodePath) s \<Longrightarrow> unescape m s = Inr s"
proof (induction s)
  case (Cons c s)
  then have "c \<noteq> CHR ''%''" "c \<noteq> CHR ''+''" "m = EncodeHost \<or> m = EncodeZone \<Longrightarrow> \<not> shouldEscapeHost c"
    by (auto simp: url_plain_not(16))
  with Cons show ?case by auto
qed simp

lemma unescape_plain': "list_all url_plain s \<Longrightarrow> unescape m s = Inr s"
  by (rule unescape_plain) (auto simp: list_all_iff)

lemma plain_notin:
  assumes "list_all url_plain s" "\<not> url_plain c"
  shows "c \<notin> set s"
  using assms by (auto simp: list_all_iff)

lemma cut_last_none: "c \<notin> set s \<Longrightarrow> cut_last c s = None"
  by (simp add: cut_last_def)

lemma parseAuthority_plain: "list_all url_plain h \<Longrightarrow> parseAuthority h = Inr h"
  using plain_notin [of h "CHR ''[''"]
  by (auto simp: parseAuthority_def parseHost_def cut_last_none plain_notin unescape_plain'
      str_has_prefix_iff prefix_def)

lemma scheme_loop_alpha:
  "list_all is_alpha s \<Longrightarrow> s \<noteq> [] \<or> \<not> first \<Longrightarrow> scheme_loop first (s @ CHR '':'' # r) = Inl (Some (s, r))"
proof (induction s arbitrary: first)
  case Nil
  then show ?case by (simp add: is_alpha_def is_digit_def)
next
  case (Cons c s)
  then show ?case using Cons.IH [of False] by (auto simp: is_alpha_def)
qed

lemma getScheme_alpha: "list_all is_alpha s \<Longrightarrow> s \<noteq> [] \<Longrightarrow> getScheme (s @ CHR '':'' # r) = Inr (s, r)"
  by (simp add: getScheme_def scheme_loop_alpha)

lemma split_query_some:
  assumes "CHR ''?'' \<notin> set r" "q \<noteq> []"
  shows "split_query (r @ CHR ''?'' # q) = (r, q)"
proof -
  have "\<not> (str_has_suffix (r @ CHR ''?'' # q) ''?'' \<and> count_list (r @ CHR ''?'' # q) CHR ''?'' = 1)"
  proof
    assume *: "str_has_suffix (r @ CHR ''?'' # q) ''?'' \<and> count_list (r @ CHR ''?'' # q) CHR ''?'' = 1"
    then have "count_list q CHR ''?'' = 0" by simp
    moreover from * assms(2) have "last q = CHR ''?''"
      by (auto simp: str_has_suffix_iff suffix_def) (metis last_ConsR last_appendR last_snoc list.discI)
    ultimately show False using assms(2) by (metis count_list_0_iff last_in_set)
  qed
  then show ?thesis unfolding split_query_def using assms(1) by (simp only: if_False str_cut_append prod.case simp_thms)
qed

lemma split_query_none: "CHR ''?'' \<notin> set r \<Longrightarrow> split_query r = (r, [])"
  by (simp add: split_query_def)

text \<open>
  A URL \<open>scheme://host/path?query\<close> of plain text is taken apart into these parts; an empty path stands
  for the absence of the slash and an empty query for the absence of the question mark.
\<close>

definition url_text :: "string \<Rightarrow> string \<Rightarrow> string \<Rightarrow> string \<Rightarrow> string" where
  "url_text scheme host path query =
     scheme @ ''://'' @ host @ (if path = [] then [] else CHR ''/'' # path) @
     (if query = [] then [] else CHR ''?'' # query)"

definition query_plain :: "char \<Rightarrow> bool" where
  "query_plain c = (url_plain c \<or> c \<in> set ''&='')"

lemma query_plain_not: "query_plain c \<Longrightarrow> c \<noteq> CHR ''#'' \<and> c \<noteq> CHR ''?'' \<and> \<not> is_ctl c"
  using url_plain_not [of c] by (auto simp: query_plain_def is_ctl_def)

lemma str_to_lower_id: "list_all (\<lambda>c. 97 \<le> (of_char c :: nat)) s \<Longrightarrow> str_to_lower s = s"
  by (induction s) (auto simp: str_to_lower_def char_to_lower_def)

lemma url_text_chars:
  assumes "list_all is_alpha scheme" "list_all url_plain host" "list_all url_plain path" "list_all query_plain query"
    and "c \<in> set (url_text scheme host path query)"
  shows "url_plain c \<or> c \<in> set '':/?&=''"
  using assms by (auto simp: url_text_def list_all_iff query_plain_def url_plain_def is_alnum_def split: if_splits)

lemma url_Parse_plain:
  assumes scheme: "list_all is_alpha scheme" "list_all (\<lambda>c. 97 \<le> (of_char c :: nat)) scheme" "scheme \<noteq> []"
    and host: "list_all url_plain host" and path: "list_all url_plain path" and query: "list_all query_plain query"
  shows "url_Parse (url_text scheme host path query) =
    Inr \<lparr>u_Scheme = scheme, u_Opaque = [], u_Host = host,
         u_Path = (if path = [] then [] else CHR ''/'' # path), u_RawQuery = query\<rparr>"
proof -
  let ?p = "if path = [] then [] else CHR ''/'' # path"
  let ?q = "if query = [] then [] else CHR ''?'' # query"
  have nq: "CHR ''?'' \<notin> set (''//'' @ host @ ?p)"
    using plain_notin [OF host, of "CHR ''?''"] plain_notin [OF path, of "CHR ''?''"] by simp
  have sq: "split_query (''//'' @ host @ ?p @ ?q) = (''//'' @ host @ ?p, query)"
    using split_query_some [OF nq, of query] split_query_none [OF nq] by (cases "query = []") simp_all
  have cut: "str_cut CHR ''/'' (host @ ?p) = (host, path, path \<noteq> [])"
    using plain_notin [OF host, of "CHR ''/''"] by simp
  note chars = url_text_chars [OF scheme(1) host path query]
  have nf: "CHR ''#'' \<notin> set (url_text scheme host path query)" using chars [of "CHR ''#''"] by auto
  have "\<not> is_ctl c" if "c \<in> set (url_text scheme host path query)" for c
    using chars [OF that] url_plain_not(15) [of c] by (elim disjE) (auto simp: is_ctl_def)
  then have ctl: "\<not> list_ex is_ctl (url_text scheme host path query)" by (auto simp: list_ex_iff)
  have star: "url_text scheme host path query \<noteq> ''*''"
    using scheme by (cases scheme) (auto simp: url_text_def)
  have gs: "getScheme (url_text scheme host path query) = Inr (scheme, ''//'' @ host @ ?p @ ?q)"
    using getScheme_alpha [OF scheme(1,3), of "''//'' @ host @ ?p @ ?q"] by (simp add: url_text_def)
  have "url_parse (url_text scheme host path query) =
    Inr \<lparr>u_Scheme = scheme, u_Opaque = [], u_Host = host, u_Path = ?p, u_RawQuery = query\<rparr>"
    unfolding url_parse_def gs bind_err_simps prod.case sq Let_def
    using ctl star cut scheme parseAuthority_plain [OF host] unescape_plain' [OF path]
    by (simp add: str_to_lower_id str_has_prefix_def zero_URL_def)
  then show ?thesis using nf by (simp add: url_Parse_def)
qed

end
