(* ===== verification/JsonDecode.thy ===== *)
theory JsonDecode
  imports BindingSyntax GoText
begin

text \<open>
  What \<open>encoding/json\<close> does with the types of an app. A document is a tree; the raw text handed to an
  \<open>UnmarshalJSON\<close> method is one value of it, so that the tests \<open>isObject\<close>, \<open>isArray\<close> and \<open>isString\<close> on its
  first byte are tests on the constructor. A decoder takes the value to decode and the Go variable it
  decodes into, because Go leaves what the document does not mention as it was. The members of an
  object are taken in the order of the document, an error of a member is the error of the whole.
  Field names are compared up to the case of ASCII letters; slices are decoded into fresh memory.
\<close>

subsection \<open>Documents\<close>

datatype json =
    JNull
  | JBool bool
  | JNumber string
  | JString string
  | JArray "json list"
  | JObject "(string \<times> json) list"

definition isObject :: "json \<Rightarrow> bool" where
  "isObject j = (case j of JObject _ \<Rightarrow> True | _ \<Rightarrow> False)"

definition isArray :: "json \<Rightarrow> bool" where
  "isArray j = (case j of JArray _ \<Rightarrow> True | _ \<Rightarrow> False)"

definition isString :: "json \<Rightarrow> bool" where
  "isString j = (case j of JString _ \<Rightarrow> True | _ \<Rightarrow> False)"

text \<open>\<open>string(data)\<close> for a value that is neither a string nor an object; an array begins with a bracket.\<close>

definition raw_text :: "json \<Rightarrow> string" where
  "raw_text j = (case j of JNull \<Rightarrow> ''null'' | JBool b \<Rightarrow> if b then ''true'' else ''false''
     | JNumber n \<Rightarrow> n | JString s \<Rightarrow> [CHR 0x22] | JArray _ \<Rightarrow> ''['' | JObject _ \<Rightarrow> ''{'')"

datatype 'e decode_error =
    TypeMismatch
  | LibraryError 'e
  | PortSyntaxError port_error
  | BindingSyntaxError "'e binding_error"
  | URLError url_error
  | VolumeReferenceError string url_error
  | InvalidFileMode string num_error
  | InvalidRoutePort string string num_error
  | InvalidBindingPort string num_error
  | InvalidBase64
  | DuplicateName string string string

type_synonym ('e, 'a) dec = "json \<Rightarrow> 'a \<Rightarrow> 'e decode_error + 'a"

subsection \<open>Decoders\<close>

fun fold_err :: "('a \<Rightarrow> 's \<Rightarrow> 'e + 's) \<Rightarrow> 'a list \<Rightarrow> 's \<Rightarrow> 'e + 's" where
  "fold_err f [] s = Inr s"
| "fold_err f (x # xs) s = bind_err (f x s) (fold_err f xs)"

lemma fold_err_invariant:
  assumes "fold_err f xs s = Inr s'" and "P s"
    and "\<And>x s s'. x \<in> set xs \<Longrightarrow> P s \<Longrightarrow> f x s = Inr s' \<Longrightarrow> P s'"
  shows "P s'"
  using assms by (induction xs arbitrary: s) (auto simp: bind_err_Inr)

lemma fold_err_append: "fold_err f (xs @ ys) s = bind_err (fold_err f xs s) (fold_err f ys)"
proof (induction xs arbitrary: s)
  case (Cons x xs)
  then show ?case by (cases "f x s") simp_all
qed simp

lemma fold_err_Nil_fun: "fold_err f [] = Inr"
  by (rule ext) simp

definition dec_string :: "('e, string) dec" where
  "dec_string j s = (case j of JNull \<Rightarrow> Inr s | JString t \<Rightarrow> Inr t | _ \<Rightarrow> Inl TypeMismatch)"

definition dec_bool :: "('e, bool) dec" where
  "dec_bool j b = (case j of JNull \<Rightarrow> Inr b | JBool c \<Rightarrow> Inr c | _ \<Rightarrow> Inl TypeMismatch)"

definition dec_int64 :: "('e, int) dec" where
  "dec_int64 j i =
     (case j of JNull \<Rightarrow> Inr i
      | JNumber n \<Rightarrow> (case atoi n of Inl _ \<Rightarrow> Inl TypeMismatch | Inr v \<Rightarrow> Inr v)
      | _ \<Rightarrow> Inl TypeMismatch)"

definition dec_int32 :: "('e, int32) dec" where
  "dec_int32 j i =
     bind_err (dec_int64 j (sint i)) (\<lambda>v. if - (2 ^ 31) \<le> v \<and> v < 2 ^ 31 then Inr (to_int32 v) else Inl TypeMismatch)"

definition dec_ptr :: "'a \<Rightarrow> ('e, 'a) dec \<Rightarrow> ('e, 'a option) dec" where
  "dec_ptr zero d j p =
     (case j of JNull \<Rightarrow> Inr None
      | _ \<Rightarrow> bind_err (d j (case p of None \<Rightarrow> zero | Some x \<Rightarrow> x)) (\<lambda>x. Inr (Some x)))"

definition dec_slice :: "'a \<Rightarrow> ('e, 'a) dec \<Rightarrow> ('e, 'a list) dec" where
  "dec_slice zero d j xs =
     (case j of JNull \<Rightarrow> Inr [] | JArray js \<Rightarrow> map_err (\<lambda>v. d v zero) js | _ \<Rightarrow> Inl TypeMismatch)"

definition dec_pairs :: "'a \<Rightarrow> ('e, 'a) dec \<Rightarrow> (string \<times> json) list \<Rightarrow> (string, 'a) gomap \<Rightarrow>
    'e decode_error + (string, 'a) gomap" where
  "dec_pairs zero d = fold_err (\<lambda>(k, v) m. bind_err (d v zero) (\<lambda>x. Inr (gm_set m k x)))"

definition dec_map :: "'a \<Rightarrow> ('e, 'a) dec \<Rightarrow> ('e, (string, 'a) gomap) dec" where
  "dec_map zero d j m =
     (case j of JNull \<Rightarrow> Inr [] | JObject kvs \<Rightarrow> dec_pairs zero d kvs m | _ \<Rightarrow> Inl TypeMismatch)"

abbreviation dec_string_map :: "('e, (string, string) gomap) dec" where
  "dec_string_map \<equiv> dec_map [] dec_string"

abbreviation dec_string_slice :: "('e, string list) dec" where
  "dec_string_slice \<equiv> dec_slice [] dec_string"

text \<open>A struct: the decoder of every field, under the name of its tag. Unknown members are skipped.\<close>

type_synonym ('e, 'r) fieldset = "(string \<times> ('e, 'r) dec) list"

definition field :: "('e, 'a) dec \<Rightarrow> ('r \<Rightarrow> 'a) \<Rightarrow> (('a \<Rightarrow> 'a) \<Rightarrow> 'r \<Rightarrow> 'r) \<Rightarrow> ('e, 'r) dec" where
  "field d get upd j r = bind_err (d j (get r)) (\<lambda>v. Inr (upd (\<lambda>_. v) r))"

definition dec_member :: "('e, 'r) fieldset \<Rightarrow> string \<times> json \<Rightarrow> 'r \<Rightarrow> 'e decode_error + 'r" where
  "dec_member fs kv r =
     (case find (\<lambda>f. equal_fold (fst f) (fst kv)) fs of None \<Rightarrow> Inr r | Some f \<Rightarrow> snd f (snd kv) r)"

definition dec_struct :: "('e, 'r) fieldset \<Rightarrow> ('e, 'r) dec" where
  "dec_struct fs j r =
     (case j of JNull \<Rightarrow> Inr r | JObject kvs \<Rightarrow> fold_err (dec_member fs) kvs r | _ \<Rightarrow> Inl TypeMismatch)"

subsection \<open>Decoding a map\<close>

lemma dec_pairs_ok:
  assumes "dec_pairs zero d kvs m = Inr m'" and "gm_ok m"
  shows "gm_ok m'"
  using assms unfolding dec_pairs_def
  by (rule fold_err_invariant [where P = gm_ok]) (auto simp: bind_err_Inr)

lemma dec_pairs_keys:
  assumes "dec_pairs zero d kvs m = Inr m'"
  shows "fst ` set m' = fst ` set m \<union> fst ` set kvs"
  using assms
proof (induction kvs arbitrary: m)
  case (Cons kv kvs)
  obtain k v where kv: "kv = (k, v)" by (cases kv)
  from Cons.prems obtain x where "dec_pairs zero d kvs (gm_set m k x) = Inr m'"
    by (auto simp: dec_pairs_def kv bind_err_Inr)
  from Cons.IH [OF this] show ?case by (auto simp: gm_keys_set kv)
qed (simp add: dec_pairs_def)

lemma dec_pairs_values:
  assumes "dec_pairs zero d kvs m = Inr m'" and "\<And>v x. d v zero = Inr x \<Longrightarrow> P x"
    and "\<And>k x. gm_get m k = Some x \<Longrightarrow> P x" and "gm_get m' k = Some x"
  shows "P x"
proof -
  have "\<forall>k x. gm_get m' k = Some x \<longrightarrow> P x"
    using assms(1) unfolding dec_pairs_def
    by (rule fold_err_invariant [where P = "\<lambda>m. \<forall>k x. gm_get m k = Some x \<longrightarrow> P x"])
      (use assms(2,3) in \<open>auto simp: bind_err_Inr go_map split: if_splits\<close>)
  with assms(4) show ?thesis by blast
qed

lemma dec_pairs_distinct:
  assumes "distinct (map fst kvs)" "fst ` set kvs \<inter> fst ` set m = {}"
  shows "dec_pairs zero d kvs m =
    bind_err (map_err (\<lambda>(k, v). bind_err (d v zero) (\<lambda>x. Inr (k, x))) kvs) (\<lambda>new. Inr (m @ new))"
  using assms
proof (induction kvs arbitrary: m)
  case (Cons kv kvs)
  obtain k v where kv: "kv = (k, v)" by (cases kv)
  show ?case
  proof (cases "d v zero")
    case (Inr x)
    have new: "gm_set m k x = m @ [(k, x)]" using Cons.prems kv by (intro gm_set_new) auto
    have "dec_pairs zero d kvs (m @ [(k, x)]) =
      bind_err (map_err (\<lambda>(k, v). bind_err (d v zero) (\<lambda>x. Inr (k, x))) kvs) (\<lambda>new. Inr ((m @ [(k, x)]) @ new))"
      by (rule Cons.IH) (use Cons.prems kv in auto)
    with Inr kv new show ?thesis
      by (cases "map_err (\<lambda>(k, v). bind_err (d v zero) (\<lambda>x. Inr (k, x))) kvs") (simp_all add: dec_pairs_def)
  qed (simp add: kv dec_pairs_def)
qed (simp add: dec_pairs_def)

lemma dec_map_perm:
  assumes "distinct (map fst kvs)" "mset kvs = mset kvs'" "dec_map zero d (JObject kvs) [] = Inr m"
  shows "\<exists>m'. dec_map zero d (JObject kvs') [] = Inr m' \<and> mset m' = mset m"
proof -
  let ?f = "\<lambda>(k, v). bind_err (d v zero) (\<lambda>x. Inr (k, x))"
  have "mset (map fst kvs) = mset (map fst kvs')" using assms(2) by simp
  then have d': "distinct (map fst kvs')" using assms(1) mset_eq_imp_distinct_iff by blast
  have "map_err ?f kvs = Inr m"
    using assms(1,3) by (auto simp: dec_map_def dec_pairs_distinct bind_err_Inr)
  then have ok: "\<forall>x\<in>set kvs. is_ok (?f x)" and m: "m = map (\<lambda>x. projr (?f x)) kvs"
    unfolding map_err_projr by blast+
  have "\<forall>x\<in>set kvs'. is_ok (?f x)" using ok mset_eq_setD [OF assms(2)] by simp
  then have "map_err ?f kvs' = Inr (map (\<lambda>x. projr (?f x)) kvs')" unfolding map_err_projr by blast
  then have "dec_map zero d (JObject kvs') [] = Inr (map (\<lambda>x. projr (?f x)) kvs')"
    using d' by (simp add: dec_map_def dec_pairs_distinct)
  moreover have "mset (map (\<lambda>x. projr (?f x)) kvs') = mset m"
    unfolding m mset_map assms(2) by (rule refl)
  ultimately show ?thesis by blast
qed

lemma dec_map_keys:
  assumes "dec_map zero d (JObject kvs) [] = Inr m"
  shows "fst ` set m = fst ` set kvs" and "distinct (map fst m)"
  using assms dec_pairs_keys [of zero d kvs "[]" m] dec_pairs_ok [of zero d kvs "[]" m]
  by (auto simp: dec_map_def gm_ok_def)

end
