(* ===== verification/AppSpecDecode.thy ===== *)
theory AppSpecDecode
  imports JsonDecode "HOL-Library.Product_Lexorder"
begin

text \<open>
  The \<open>UnmarshalJSON\<close> methods of \<open>pkg/apis/internal.acorn.io/v1/unmarshal.go\<close> and \<open>map.go\<close>: how the JSON
  form of an app, in which most parts may also be written as a string, a number or a map, becomes the
  data of \<open>AppTypes\<close>. The record \<open>lib\<close> stands for the libraries outside the repository and for
  \<open>sort.Slice\<close>, whose result is only specified up to the order of elements that compare equal.
\<close>

record ('e, 'q, 'f) lib =
  resParse :: "string \<Rightarrow> 'e + 'q"
  resCmp :: "'q \<Rightarrow> 'q \<Rightarrow> int"
  shlexSplit :: "string \<Rightarrow> 'e + string list"
  amlParseInt :: "json \<Rightarrow> 'e + int"
  parseFloat :: "string \<Rightarrow> 'e + 'f"
  sortRoutes :: "(Route \<Rightarrow> Route \<Rightarrow> bool) \<Rightarrow> Route list \<Rightarrow> Route list"
  sortNameValues :: "(NameValue \<Rightarrow> NameValue \<Rightarrow> bool) \<Rightarrow> NameValue list \<Rightarrow> NameValue list"
  sortProbes :: "(Probe \<Rightarrow> Probe \<Rightarrow> bool) \<Rightarrow> Probe list \<Rightarrow> Probe list"
  sortEnvVars :: "(EnvVar \<Rightarrow> EnvVar \<Rightarrow> bool) \<Rightarrow> EnvVar list \<Rightarrow> EnvVar list"
  sortLabels :: "(ScopedLabel \<Rightarrow> ScopedLabel \<Rightarrow> bool) \<Rightarrow> ScopedLabel list \<Rightarrow> ScopedLabel list"
  sortAccessModes :: "(AccessMode \<Rightarrow> AccessMode \<Rightarrow> bool) \<Rightarrow> AccessMode list \<Rightarrow> AccessMode list"

text \<open>A failing call of a library, and of the parsers of the command line syntax.\<close>

definition lib_err :: "'e + 'a \<Rightarrow> 'e decode_error + 'a" where
  "lib_err r = map_sum LibraryError id r"

definition bnd_err :: "'e binding_error + 'a \<Rightarrow> 'e decode_error + 'a" where
  "bnd_err r = map_sum BindingSyntaxError id r"

definition port_err :: "port_error + 'a \<Rightarrow> 'e decode_error + 'a" where
  "port_err r = map_sum PortSyntaxError id r"

subsection \<open>References to secrets and volumes\<close>

record secretReference =
  srf_Ref :: SecretReference
  srf_Mode :: string

definition zero_secretReference :: secretReference where
  "zero_secretReference = \<lparr>srf_Ref = zero_SecretReference, srf_Mode = []\<rparr>"

definition guessMode :: "string \<Rightarrow> string" where
  "guessMode s =
     (if str_contains s ''/bin/'' \<or> str_contains s ''/sbin/'' \<or> str_has_suffix s ''.sh'' then ''0755'' else ''0644'')"

definition secretOption :: "string \<Rightarrow> string \<Rightarrow> secretReference \<Rightarrow> 'e decode_error + secretReference" where
  "secretOption k v result =
     (if equal_fold k ''onchange'' then
        Inr (if equal_fold v ''no-action'' \<or> equal_fold v ''noaction''
             then result\<lparr>srf_Ref := (srf_Ref result)\<lparr>sr_OnChange := ChangeTypeNoAction\<rparr>\<rparr> else result)
      else if equal_fold k ''mode'' then
        (case parse_octal32 v of
           Inl e \<Rightarrow> Inl (InvalidFileMode v e) | Inr _ \<Rightarrow> Inr (result\<lparr>srf_Mode := v\<rparr>))
      else Inr result)"

definition parseSecretReference :: "string \<Rightarrow> 'e decode_error + secretReference option" where
  "parseSecretReference s0 =
     (let s = (if str_has_prefix s0 ''${secret://'' \<and> str_has_suffix s0 ''}''
               then take (length s0 - 3) (drop 2 s0) else s0)
      in if \<not> str_has_prefix s ''secret://'' then Inr None
         else (case url_Parse s of
                 Inl e \<Rightarrow> Inl (URLError e)
               | Inr u \<Rightarrow>
                   (let result = zero_secretReference\<lparr>srf_Ref :=
                          \<lparr>sr_Name = u_Host u,
                           sr_Key = fst (str_cut CHR ''/'' (str_trim_prefix (u_Path u) ''/'')),
                           sr_OnChange = ChangeTypeRedeploy\<rparr>\<rparr>
                    in bind_err (fold_err (\<lambda>(k, vs). fold_err (secretOption k) vs) (url_Query u) result)
                         (\<lambda>r. Inr (Some r)))))"

definition parseEnvVar :: "string \<Rightarrow> string \<Rightarrow> 'e decode_error + EnvVar" where
  "parseEnvVar key value =
     bind_err (parseSecretReference key) (\<lambda>sec.
       case sec of
         Some r \<Rightarrow> Inr (zero_EnvVar\<lparr>ev_Secret := srf_Ref r\<rparr>)
       | None \<Rightarrow> bind_err (parseSecretReference value) (\<lambda>sec.
           case sec of
             Some r \<Rightarrow> Inr (zero_EnvVar\<lparr>ev_Name := key, ev_Secret := srf_Ref r\<rparr>)
           | None \<Rightarrow> Inr (zero_EnvVar\<lparr>ev_Name := key, ev_Value := value\<rparr>)))"

definition parseVolumeDefinition :: "(string \<Rightarrow> 'e + 'q) \<Rightarrow> string \<Rightarrow> string \<Rightarrow> 'e decode_error + VolumeBinding" where
  "parseVolumeDefinition rp anonName s0 =
     (let s = (if s0 = [] then ''ephemeral://'' else s0)
      in case url_Parse s of
           Inl e \<Rightarrow> Inl (VolumeReferenceError s e)
         | Inr u \<Rightarrow>
             bind_err (lib_err (ParseQuantity rp (values_Get (url_Query u) ''size''))) (\<lambda>q.
               let result = zero_VolumeBinding\<lparr>vb_Volume := u_Host u, vb_Size := q\<rparr>;
                   result = (if u_Scheme u = ''ephemeral''
                             then result\<lparr>vb_Class := u_Scheme u,
                                         vb_Volume := (if vb_Volume result = [] then anonName else vb_Volume result)\<rparr>
                             else result)
               in Inr (result\<lparr>vb_AccessModes :=
                    gm_get_or [] (url_Query u) ''accessMode'' @ gm_get_or [] (url_Query u) ''accessmode''\<rparr>)))"

definition parseVolumeReference :: "string \<Rightarrow> 'e decode_error + string \<times> string" where
  "parseVolumeReference s =
     (if \<not> str_has_prefix s ''volume://'' \<and> \<not> str_has_prefix s ''ephemeral://'' then Inr (s, [])
      else (case url_Parse s of
              Inl e \<Rightarrow> Inl (VolumeReferenceError s e)
            | Inr u \<Rightarrow>
                (let q = url_Query u; subPath = values_Get q ''subPath'';
                     subPath = (if subPath = [] then values_Get q ''subpath'' else subPath);
                     subPath = (if subPath = [] then values_Get q ''sub-path'' else subPath)
                 in Inr (s, subPath))))"

subsection \<open>Generic values\<close>

text \<open>Decoding into an \<open>interface{}\<close> with \<open>UseNumber\<close>, and \<open>translateObject\<close> on the result.\<close>

primrec generic_of :: "json \<Rightarrow> 'f generic" where
  "generic_of JNull = GNull"
| "generic_of (JBool b) = GBool b"
| "generic_of (JNumber n) = GNumber n"
| "generic_of (JString s) = GString s"
| "generic_of (JArray js) = GArray (map generic_of js)"
| "generic_of (JObject kvs) = GObject (map (map_prod id generic_of) kvs)"

fun translateObject :: "(string \<Rightarrow> 'e + 'f) \<Rightarrow> 'f generic \<Rightarrow> 'e + 'f generic" where
  "translateObject pf (GObject kvs) =
     bind_err (map_err (\<lambda>kv. bind_err (translateObject pf (snd kv)) (\<lambda>v. Inr (fst kv, v))) kvs)
       (\<lambda>kvs'. Inr (GObject kvs'))"
| "translateObject pf (GArray vs) =
     bind_err (map_err (translateObject pf) vs) (\<lambda>vs'. Inr (GArray vs'))"
| "translateObject pf (GNumber n) =
     (case atoi n of Inr i \<Rightarrow> Inr (GInt i) | Inl _ \<Rightarrow> bind_err (pf n) (\<lambda>x. Inr (GFloat x)))"
| "translateObject pf v = Inr v"

definition Unmarshal_GenericMap :: "('e, 'q, 'f) lib \<Rightarrow> ('e, 'f GenericMap) dec" where
  "Unmarshal_GenericMap L j m =
     (case j of
        JNull \<Rightarrow> Inr []
      | JObject kvs \<Rightarrow>
          bind_err (lib_err (translateObject (parseFloat L)
              (GObject (fold (\<lambda>(k, v) m. gm_set m k (generic_of v)) kvs m))))
            (\<lambda>g. Inr (case g of GObject kvs' \<Rightarrow> kvs' | _ \<Rightarrow> []))
      | _ \<Rightarrow> Inl TypeMismatch)"
subsection \<open>Routes, name-value pairs, dependencies, quantities\<close>

record routeTarget =
  rg_PathType :: PathType
  rg_TargetPort :: int
  rg_TargetServiceName :: string

definition zero_routeTarget :: routeTarget where
  "zero_routeTarget = \<lparr>rg_PathType = [], rg_TargetPort = 0, rg_TargetServiceName = []\<rparr>"

definition Unmarshal_routeTarget :: "('e, routeTarget) dec" where
  "Unmarshal_routeTarget j r =
     (case j of
        JString s \<Rightarrow>
          (case str_split CHR '':'' s of
             [service, port] \<Rightarrow>
               (case atoi port of
                  Inl e \<Rightarrow> Inl (InvalidRoutePort port s e)
                | Inr n \<Rightarrow> Inr (r\<lparr>rg_TargetPort := n, rg_TargetServiceName := service, rg_PathType := PathTypePrefix\<rparr>))
           | _ \<Rightarrow> Inr (r\<lparr>rg_TargetServiceName := s, rg_PathType := PathTypePrefix\<rparr>))
      | _ \<Rightarrow> dec_struct
               [(''pathType'', field dec_string rg_PathType rg_PathType_update),
                (''targetPort'', field dec_int64 rg_TargetPort rg_TargetPort_update),
                (''targetServiceName'', field dec_string rg_TargetServiceName rg_TargetServiceName_update)] j r)"

definition zero_Route :: Route where
  "zero_Route = \<lparr>rt_Path = [], rt_TargetServiceName = [], rt_TargetPort = 0, rt_PathType = []\<rparr>"

definition dec_Route :: "('e, Route) dec" where
  "dec_Route = dec_struct
     [(''path'', field dec_string rt_Path rt_Path_update),
      (''targetServiceName'', field dec_string rt_TargetServiceName rt_TargetServiceName_update),
      (''targetPort'', field dec_int64 rt_TargetPort rt_TargetPort_update),
      (''pathType'', field dec_string rt_PathType rt_PathType_update)]"

definition routeLess :: "Route \<Rightarrow> Route \<Rightarrow> bool" where
  "routeLess a b =
     (if length (rt_Path a) > length (rt_Path b) then True
      else if length (rt_Path a) < length (rt_Path b) then False
      else rt_Path a < rt_Path b)"

definition routeOf :: "string \<times> routeTarget \<Rightarrow> Route" where
  "routeOf kv = \<lparr>rt_Path = fst kv, rt_TargetServiceName = rg_TargetServiceName (snd kv),
     rt_TargetPort = rg_TargetPort (snd kv), rt_PathType = rg_PathType (snd kv)\<rparr>"

definition Unmarshal_Routes :: "('e, 'q, 'f) lib \<Rightarrow> ('e, Route list) dec" where
  "Unmarshal_Routes L j routes =
     (if \<not> isObject j then dec_slice zero_Route dec_Route j routes
      else bind_err (dec_map zero_routeTarget Unmarshal_routeTarget j [])
             (\<lambda>routeMap. Inr (sortRoutes L routeLess (map routeOf routeMap))))"

definition zero_NameValue :: NameValue where
  "zero_NameValue = \<lparr>nv_Name = [], nv_Value = []\<rparr>"

definition Unmarshal_NameValue :: "('e, NameValue) dec" where
  "Unmarshal_NameValue j nv =
     (case j of
        JString s \<Rightarrow> Inr (hd (ParseNameValues (\<lambda>_. []) False [s]))
      | _ \<Rightarrow> dec_struct [(''name'', field dec_string nv_Name nv_Name_update),
                          (''value'', field dec_string nv_Value nv_Value_update)] j nv)"

definition nameValueLess :: "NameValue \<Rightarrow> NameValue \<Rightarrow> bool" where
  "nameValueLess a b = (if nv_Name a = nv_Name b then nv_Value a < nv_Value b else nv_Name a < nv_Name b)"

definition Unmarshal_NameValues :: "('e, 'q, 'f) lib \<Rightarrow> ('e, NameValue list) dec" where
  "Unmarshal_NameValues L j nvs =
     (if \<not> isObject j then dec_slice zero_NameValue Unmarshal_NameValue j nvs
      else bind_err (dec_string_map j [])
             (\<lambda>nv. Inr (sortNameValues L nameValueLess (nvs @ map (\<lambda>(k, v). \<lparr>nv_Name = k, nv_Value = v\<rparr>) nv))))"

definition Unmarshal_Dependency :: "('e, Dependency) dec" where
  "Unmarshal_Dependency j d =
     (case j of
        JString s \<Rightarrow> Inr (d\<lparr>dp_TargetName := s\<rparr>)
      | _ \<Rightarrow> dec_struct [(''targetName'', field dec_string dp_TargetName dp_TargetName_update)] j d)"

definition Unmarshal_Dependencies :: "('e, Dependency list) dec" where
  "Unmarshal_Dependencies j ds =
     (if \<not> isString j then dec_slice \<lparr>dp_TargetName = []\<rparr> Unmarshal_Dependency j ds
      else bind_err (Unmarshal_Dependency j \<lparr>dp_TargetName = []\<rparr>) (\<lambda>dep. Inr (ds @ [dep])))"

definition Unmarshal_Quantity :: "('e, 'q, 'f) lib \<Rightarrow> ('e, Quantity) dec" where
  "Unmarshal_Quantity L j q0 =
     bind_err (case j of JString s \<Rightarrow> Inr s | _ \<Rightarrow> bind_err (dec_int64 j 0) (\<lambda>d. Inr (itoa d)))
       (\<lambda>s. lib_err (ParseQuantity (resParse L) s))"

definition Unmarshal_MemoryMap :: "('e, 'q, 'f) lib \<Rightarrow> ('e, MemoryMap) dec" where
  "Unmarshal_MemoryMap L j m =
     (if isObject j then dec_map None (dec_ptr 0 dec_int64) j m
      else bind_err (lib_err (amlParseInt L j)) (\<lambda>i. Inr [([], Some i)]))"

subsection \<open>Bindings\<close>

definition Unmarshal_ServiceBinding :: "('e, ServiceBinding) dec" where
  "Unmarshal_ServiceBinding j b =
     (case j of
        JString s \<Rightarrow>
          (case (ParseLinks [s] :: 'e binding_error + ServiceBinding list) of
             Inr (r # _) \<Rightarrow> Inr r
           | _ \<Rightarrow> Inr b)
      | _ \<Rightarrow> dec_struct [(''target'', field dec_string sb_Target sb_Target_update),
                          (''service'', field dec_string sb_Service sb_Service_update)] j b)"

definition Unmarshal_ServiceBindings :: "('e, ServiceBinding list) dec" where
  "Unmarshal_ServiceBindings j bs =
     (if isArray j then dec_slice \<lparr>sb_Target = [], sb_Service = []\<rparr> Unmarshal_ServiceBinding j bs
      else bind_err (Unmarshal_ServiceBinding j \<lparr>sb_Target = [], sb_Service = []\<rparr>) (\<lambda>b. Inr (bs @ [b])))"

definition Unmarshal_SecretBinding :: "('e, SecretBinding) dec" where
  "Unmarshal_SecretBinding j b =
     (case j of
        JString s \<Rightarrow> bind_err (bnd_err (ParseSecrets [s])) (\<lambda>result. Inr (hd result))
      | _ \<Rightarrow> dec_struct [(''secret'', field dec_string sc_Secret sc_Secret_update),
                          (''target'', field dec_string sc_Target sc_Target_update)] j b)"

definition Unmarshal_SecretBindings :: "('e, SecretBinding list) dec" where
  "Unmarshal_SecretBindings j bs =
     (if isArray j then dec_slice \<lparr>sc_Secret = [], sc_Target = []\<rparr> Unmarshal_SecretBinding j bs
      else bind_err (Unmarshal_SecretBinding j \<lparr>sc_Secret = [], sc_Target = []\<rparr>) (\<lambda>b. Inr (bs @ [b])))"

definition Unmarshal_AccessModes :: "('e, AccessMode list) dec" where
  "Unmarshal_AccessModes j ms =
     (if \<not> isString j then dec_string_slice j ms
      else bind_err (dec_string j []) (\<lambda>mode. Inr (ms @ [mode])))"

definition Unmarshal_VolumeBinding :: "('e, 'q, 'f) lib \<Rightarrow> ('e, VolumeBinding) dec" where
  "Unmarshal_VolumeBinding L j b =
     (case j of
        JString s \<Rightarrow> bind_err (bnd_err (ParseVolumes (resParse L) False [s])) (\<lambda>result. Inr (hd result))
      | _ \<Rightarrow> dec_struct [(''volume'', field dec_string vb_Volume vb_Volume_update),
                          (''target'', field dec_string vb_Target vb_Target_update),
                          (''size'', field (Unmarshal_Quantity L) vb_Size vb_Size_update),
                          (''accessModes'', field Unmarshal_AccessModes vb_AccessModes vb_AccessModes_update),
                          (''class'', field dec_string vb_Class vb_Class_update)] j b)"

definition Unmarshal_VolumeBindings :: "('e, 'q, 'f) lib \<Rightarrow> ('e, VolumeBinding list) dec" where
  "Unmarshal_VolumeBindings L j bs =
     (if isArray j then dec_slice zero_VolumeBinding (Unmarshal_VolumeBinding L) j bs
      else bind_err (Unmarshal_VolumeBinding L j zero_VolumeBinding) (\<lambda>b. Inr (bs @ [b])))"

text \<open>The deferred function of \<open>PortBinding.UnmarshalJSON\<close>.\<close>

definition fixServiceName :: "PortBinding \<Rightarrow> PortBinding" where
  "fixServiceName b = (if pb_ServiceName b \<noteq> [] \<and> pb_Hostname b = [] then b\<lparr>pb_Hostname := pb_ServiceName b\<rparr> else b)"

definition Unmarshal_PortBinding :: "('e, PortBinding) dec" where
  "Unmarshal_PortBinding j b =
     bind_err
       (case j of
          JObject _ \<Rightarrow> dec_struct
            [(''port'', field dec_int32 pb_Port pb_Port_update),
             (''protocol'', field dec_string pb_Protocol pb_Protocol_update),
             (''hostname'', field dec_string pb_Hostname pb_Hostname_update),
             (''serviceName'', field dec_string pb_ServiceName pb_ServiceName_update),
             (''publish'', field dec_bool pb_Publish pb_Publish_update),
             (''expose'', field dec_bool pb_Expose pb_Expose_update),
             (''targetPort'', field dec_int32 pb_TargetPort pb_TargetPort_update),
             (''targetServiceName'', field dec_string pb_TargetServiceName pb_TargetServiceName_update)] j b
        | JString s \<Rightarrow> bind_err (port_err (ParsePortBindings [s])) (\<lambda>bs. Inr (hd bs))
        | _ \<Rightarrow> (case atoi (raw_text j) of
                  Inl e \<Rightarrow> Inl (InvalidBindingPort (raw_text j) e)
                | Inr i \<Rightarrow> Inr (b\<lparr>pb_TargetPort := to_int32 i\<rparr>)))
       (\<lambda>b. Inr (fixServiceName b))"

definition Unmarshal_PortBindings :: "('e, PortBinding list) dec" where
  "Unmarshal_PortBindings j bs =
     (if isArray j then dec_slice zero_PortBinding Unmarshal_PortBinding j bs
      else bind_err (Unmarshal_PortBinding j zero_PortBinding) (\<lambda>b. Inr (bs @ [b])))"
subsection \<open>Permissions\<close>

definition DefaultVerbs :: "string list" where
  "DefaultVerbs = [''get'', ''list'', ''watch'', ''update'', ''patch'', ''delete'', ''deletecollection'', ''create'']"

definition ReadVerbs :: "string list" where
  "ReadVerbs = [''get'', ''list'', ''watch'']"

record policyRuleAliases =
  pa_Verb :: string
  pa_APIGroup :: string
  pa_Resource :: string
  pa_ResourceName :: string
  pa_Scope :: string
  pa_Namespaces :: "string list"

definition policyRule_fieldset :: "('e, PolicyRule) fieldset" where
  "policyRule_fieldset =
     [(''verbs'', field dec_string_slice pr_Verbs pr_Verbs_update),
      (''apiGroups'', field dec_string_slice pr_APIGroups pr_APIGroups_update),
      (''resources'', field dec_string_slice pr_Resources pr_Resources_update),
      (''resourceNames'', field dec_string_slice pr_ResourceNames pr_ResourceNames_update),
      (''nonResourceURLs'', field dec_string_slice pr_NonResourceURLs pr_NonResourceURLs_update),
      (''scopes'', field dec_string_slice pr_Scopes pr_Scopes_update)]"

definition policyRuleAliases_fieldset :: "('e, policyRuleAliases) fieldset" where
  "policyRuleAliases_fieldset =
     [(''verb'', field dec_string pa_Verb pa_Verb_update),
      (''apiGroup'', field dec_string pa_APIGroup pa_APIGroup_update),
      (''resource'', field dec_string pa_Resource pa_Resource_update),
      (''resourceName'', field dec_string pa_ResourceName pa_ResourceName_update),
      (''scope'', field dec_string pa_Scope pa_Scope_update),
      (''namespaces'', field dec_string_slice pa_Namespaces pa_Namespaces_update)]"

declare policyRule_fieldset_def [code_unfold] policyRuleAliases_fieldset_def [code_unfold]

definition appendNonEmpty :: "string list \<Rightarrow> string \<Rightarrow> string list" where
  "appendNonEmpty xs x = (if x \<noteq> [] then xs @ [x] else xs)"

definition applyPolicyRuleAliases :: "policyRuleAliases \<Rightarrow> PolicyRule \<Rightarrow> PolicyRule" where
  "applyPolicyRuleAliases al p =
     p\<lparr>pr_Verbs := appendNonEmpty (pr_Verbs p) (pa_Verb al),
       pr_APIGroups := appendNonEmpty (pr_APIGroups p) (pa_APIGroup al),
       pr_Resources := appendNonEmpty (pr_Resources p) (pa_Resource al),
       pr_ResourceNames := appendNonEmpty (pr_ResourceNames p) (pa_ResourceName al),
       pr_Scopes := appendNonEmpty (pr_Scopes p) (pa_Scope al) @ map (\<lambda>ns. ''namespace:'' @ ns) (pa_Namespaces al)\<rparr>"

definition Unmarshal_PolicyRule :: "('e, PolicyRule) dec" where
  "Unmarshal_PolicyRule j p =
     (case j of
        JString s0 \<Rightarrow>
          (let isRead = str_has_prefix s0 ''read '';
               s = (if isRead then str_trim_prefix s0 ''read '' else s0);
               (resource, apiGroup, _) = str_cut CHR ''.'' s
           in Inr (p\<lparr>pr_Resources := [resource],
                     pr_APIGroups := [if apiGroup = [] then ''api.acorn.io'' else apiGroup],
                     pr_Verbs := (if isRead then ReadVerbs else DefaultVerbs)\<rparr>))
      | _ \<Rightarrow>
          bind_err (dec_struct policyRule_fieldset j p) (\<lambda>p'.
          bind_err (dec_struct policyRuleAliases_fieldset j
              \<lparr>pa_Verb = [], pa_APIGroup = [], pa_Resource = [], pa_ResourceName = [], pa_Scope = [], pa_Namespaces = []\<rparr>)
            (\<lambda>al. Inr (applyPolicyRuleAliases al p'))))"

definition Unmarshal_Permissions :: "('e, Permissions) dec" where
  "Unmarshal_Permissions j p =
     (if \<not> isArray j then dec_struct
        [(''serviceName'', field dec_string pm_ServiceName pm_ServiceName_update),
         (''rules'', field (dec_slice zero_PolicyRule Unmarshal_PolicyRule) pm_Rules pm_Rules_update),
         (''clusterRules'', field (dec_slice zero_PolicyRule Unmarshal_PolicyRule) pm_ClusterRules pm_ClusterRules_update)] j p
      else bind_err (dec_slice zero_PolicyRule Unmarshal_PolicyRule j []) (\<lambda>rules. Inr (p\<lparr>pm_Rules := rules\<rparr>)))"

subsection \<open>Ports\<close>

definition Unmarshal_PortDef :: "('e, PortDef) dec" where
  "Unmarshal_PortDef j p =
     (case j of
        JString s \<Rightarrow> bind_err (port_err (ParsePorts [s])) (\<lambda>ports. Inr (hd ports))
      | JObject _ \<Rightarrow> dec_struct
          [(''hostname'', field dec_string pd_Hostname pd_Hostname_update),
           (''protocol'', field dec_string pd_Protocol pd_Protocol_update),
           (''publish'', field dec_bool pd_Publish pd_Publish_update),
           (''dev'', field dec_bool pd_Dev pd_Dev_update),
           (''port'', field dec_int32 pd_Port pd_Port_update),
           (''targetPort'', field dec_int32 pd_TargetPort pd_TargetPort_update)] j p
      | _ \<Rightarrow> bind_err (dec_int32 j 0) (\<lambda>num. Inr (p\<lparr>pd_TargetPort := num, pd_Port := num\<rparr>)))"

text \<open>The four groups of ports of the object form.\<close>

definition portGroups :: "PortDef list \<Rightarrow> (string, PortDef list) gomap \<Rightarrow> PortDef list" where
  "portGroups ps ports =
     map (\<lambda>p. p\<lparr>pd_Publish := False\<rparr>) (ps @ gm_get_or [] ports ''expose'' @ gm_get_or [] ports ''internal'') @
     map (\<lambda>p. p\<lparr>pd_Publish := True, pd_Dev := False\<rparr>) (gm_get_or [] ports ''publish'') @
     map (\<lambda>p. p\<lparr>pd_Dev := True\<rparr>) (gm_get_or [] ports ''dev'')"

fun Unmarshal_Ports :: "('e, PortDef list) dec"
  and portGroupPairs :: "(string \<times> json) list \<Rightarrow> (string, PortDef list) gomap \<Rightarrow>
    'e decode_error + (string, PortDef list) gomap" where
  "Unmarshal_Ports j ps =
     (case j of
        JObject kvs \<Rightarrow> bind_err (portGroupPairs kvs []) (\<lambda>ports. Inr (portGroups ps ports))
      | JArray _ \<Rightarrow> dec_slice zero_PortDef Unmarshal_PortDef j ps
      | JString _ \<Rightarrow> bind_err (Unmarshal_PortDef j zero_PortDef) (\<lambda>p. Inr (ps @ [p]))
      | _ \<Rightarrow> bind_err (dec_int32 j 0) (\<lambda>num. Inr (ps @ [zero_PortDef\<lparr>pd_TargetPort := num, pd_Port := num\<rparr>])))"
| "portGroupPairs [] m = Inr m"
| "portGroupPairs ((k, v) # kvs) m =
     bind_err (Unmarshal_Ports v []) (\<lambda>ps. portGroupPairs kvs (gm_set m k ps))"

declare Unmarshal_Ports.simps(1) [simp del]

subsection \<open>Mounts, probes, environment, files\<close>

definition zero_VolumeMount :: VolumeMount where
  "zero_VolumeMount = \<lparr>vm_Volume = [], vm_SubPath = [], vm_ContextDir = [], vm_Secret = \<lparr>vs_Name = [], vs_OnChange = []\<rparr>\<rparr>"

definition dec_VolumeSecretMount :: "('e, VolumeSecretMount) dec" where
  "dec_VolumeSecretMount = dec_struct
     [(''name'', field dec_string vs_Name vs_Name_update),
      (''onChange'', field dec_string vs_OnChange vs_OnChange_update)]"

definition Unmarshal_VolumeMount :: "('e, VolumeMount) dec" where
  "Unmarshal_VolumeMount j m =
     (case j of
        JString s \<Rightarrow>
          bind_err (parseSecretReference s) (\<lambda>sec.
            case sec of
              Some r \<Rightarrow> Inr (m\<lparr>vm_Secret := \<lparr>vs_Name = sr_Name (srf_Ref r), vs_OnChange = sr_OnChange (srf_Ref r)\<rparr>\<rparr>)
            | None \<Rightarrow>
                if str_has_prefix s ''./'' then Inr (m\<lparr>vm_ContextDir := s\<rparr>)
                else bind_err (parseVolumeReference s) (\<lambda>(volume, subPath).
                       Inr (m\<lparr>vm_Volume := volume, vm_SubPath := subPath\<rparr>)))
      | _ \<Rightarrow> dec_struct
          [(''volume'', field dec_string vm_Volume vm_Volume_update),
           (''subPath'', field dec_string vm_SubPath vm_SubPath_update),
           (''contextDir'', field dec_string vm_ContextDir vm_ContextDir_update),
           (''secret'', field dec_VolumeSecretMount vm_Secret vm_Secret_update)] j m)"

definition ReadinessProbeType :: string where "ReadinessProbeType = ''readiness''"
definition LivenessProbeType :: string where "LivenessProbeType = ''liveness''"
definition StartupProbeType :: string where "StartupProbeType = ''startup''"

definition zero_Probe :: Probe where
  "zero_Probe = \<lparr>po_Type = [], po_Exec = None, po_HTTP = None, po_TCP = None, po_InitialDelaySeconds = 0,
     po_TimeoutSeconds = 0, po_PeriodSeconds = 0, po_SuccessThreshold = 0, po_FailureThreshold = 0\<rparr>"

definition readyType :: "Probe \<Rightarrow> Probe" where
  "readyType p = (if po_Type p = ''ready'' then p\<lparr>po_Type := ReadinessProbeType\<rparr> else p)"

definition Unmarshal_Probe :: "('e, 'q, 'f) lib \<Rightarrow> ('e, Probe) dec" where
  "Unmarshal_Probe L j p =
     (case j of
        JString s \<Rightarrow>
          (let p' = p\<lparr>po_Type := ReadinessProbeType, po_TimeoutSeconds := 1, po_PeriodSeconds := 10,
                      po_SuccessThreshold := 1, po_FailureThreshold := 3\<rparr>
           in if str_has_prefix s ''http://'' \<or> str_has_prefix s ''https://''
              then Inr (p'\<lparr>po_HTTP := Some \<lparr>hp_URL = s, hp_Headers = []\<rparr>\<rparr>)
              else if str_has_prefix s ''tcp://'' then Inr (p'\<lparr>po_TCP := Some s\<rparr>)
              else bind_err (lib_err (shlexSplit L s)) (\<lambda>cmd. Inr (p'\<lparr>po_Exec := Some cmd\<rparr>)))
      | _ \<Rightarrow> bind_err (dec_struct
          [(''type'', field dec_string po_Type po_Type_update),
           (''exec'', field (dec_ptr [] (dec_struct [(''command'', dec_string_slice)])) po_Exec po_Exec_update),
           (''http'', field (dec_ptr \<lparr>hp_URL = [], hp_Headers = []\<rparr> (dec_struct
              [(''url'', field dec_string hp_URL hp_URL_update),
               (''headers'', field dec_string_map hp_Headers hp_Headers_update)])) po_HTTP po_HTTP_update),
           (''tcp'', field (dec_ptr [] (dec_struct [(''url'', dec_string)])) po_TCP po_TCP_update),
           (''initialDelaySeconds'', field dec_int32 po_InitialDelaySeconds po_InitialDelaySeconds_update),
           (''timeoutSeconds'', field dec_int32 po_TimeoutSeconds po_TimeoutSeconds_update),
           (''periodSeconds'', field dec_int32 po_PeriodSeconds po_PeriodSeconds_update),
           (''successThreshold'', field dec_int32 po_SuccessThreshold po_SuccessThreshold_update),
           (''failureThreshold'', field dec_int32 po_FailureThreshold po_FailureThreshold_update)] j p)
          (\<lambda>p'. Inr (readyType p')))"

definition probeLess :: "Probe \<Rightarrow> Probe \<Rightarrow> bool" where
  "probeLess a b = (po_Type a < po_Type b)"

definition Unmarshal_Probes :: "('e, 'q, 'f) lib \<Rightarrow> ('e, Probe list option) dec" where
  "Unmarshal_Probes L j ps =
     (case j of
        JString _ \<Rightarrow> bind_err (Unmarshal_Probe L j zero_Probe) (\<lambda>p. Inr (Some [p]))
      | JObject _ \<Rightarrow>
          bind_err (dec_map zero_Probe (Unmarshal_Probe L) j [])
            (\<lambda>d. Inr (Some (sortProbes L probeLess (map (\<lambda>(k, v). readyType (v\<lparr>po_Type := k\<rparr>)) d))))
      | JNull \<Rightarrow> Inr None
      | _ \<Rightarrow> bind_err (dec_slice zero_Probe (Unmarshal_Probe L) j []) (\<lambda>ps. Inr (Some ps)))"
definition dec_SecretReference :: "('e, SecretReference) dec" where
  "dec_SecretReference = dec_struct
     [(''name'', field dec_string sr_Name sr_Name_update),
      (''key'', field dec_string sr_Key sr_Key_update),
      (''onChange'', field dec_string sr_OnChange sr_OnChange_update)]"

definition dec_EnvVar_struct :: "('e, EnvVar) dec" where
  "dec_EnvVar_struct = dec_struct
     [(''name'', field dec_string ev_Name ev_Name_update),
      (''value'', field dec_string ev_Value ev_Value_update),
      (''secret'', field dec_SecretReference ev_Secret ev_Secret_update)]"

text \<open>\<open>envVal\<close> has the fields of \<open>EnvVar\<close>; its string form is a value only.\<close>

definition Unmarshal_envVal :: "('e, EnvVar) dec" where
  "Unmarshal_envVal j v = (case j of JString s \<Rightarrow> parseEnvVar [] s | _ \<Rightarrow> dec_EnvVar_struct j v)"

definition Unmarshal_EnvVar :: "('e, EnvVar) dec" where
  "Unmarshal_EnvVar j v =
     (case j of
        JString s \<Rightarrow> (case str_cut CHR ''='' s of (k, v, _) \<Rightarrow> parseEnvVar k v)
      | _ \<Rightarrow> dec_EnvVar_struct j v)"

definition envVarLess :: "EnvVar \<Rightarrow> EnvVar \<Rightarrow> bool" where
  "envVarLess a b = (ev_Name a < ev_Name b)"

definition envEntry :: "string \<times> EnvVar \<Rightarrow> 'e decode_error + EnvVar" where
  "envEntry kv =
     bind_err (parseSecretReference (fst kv)) (\<lambda>sec.
       case sec of
         Some r \<Rightarrow> Inr ((snd kv)\<lparr>ev_Secret := srf_Ref r\<rparr>)
       | None \<Rightarrow> Inr ((snd kv)\<lparr>ev_Name := fst kv\<rparr>))"

definition Unmarshal_EnvVars :: "('e, 'q, 'f) lib \<Rightarrow> ('e, EnvVar list) dec" where
  "Unmarshal_EnvVars L j es =
     bind_err
       (if isObject j
        then bind_err (dec_map zero_EnvVar Unmarshal_envVal j []) (\<lambda>values.
               bind_err (map_err envEntry values) (\<lambda>vs. Inr (es @ vs)))
        else dec_slice zero_EnvVar Unmarshal_EnvVar j es)
       (\<lambda>es. Inr (sortEnvVars L envVarLess es))"

definition zero_File :: File where
  "zero_File = \<lparr>fl_Mode = [], fl_Content = [], fl_Secret = zero_SecretReference\<rparr>"

definition Unmarshal_File :: "('e, File) dec" where
  "Unmarshal_File j f =
     (case j of
        JObject _ \<Rightarrow> dec_struct
          [(''mode'', field dec_string fl_Mode fl_Mode_update),
           (''content'', field dec_string fl_Content fl_Content_update),
           (''secret'', field dec_SecretReference fl_Secret fl_Secret_update)] j f
      | JString s \<Rightarrow>
          bind_err (parseSecretReference s) (\<lambda>sec.
            case sec of
              Some r \<Rightarrow> Inr (f\<lparr>fl_Secret := srf_Ref r, fl_Mode := srf_Mode r\<rparr>)
            | None \<Rightarrow> Inr (f\<lparr>fl_Content := base64_encode s\<rparr>))
      | _ \<Rightarrow> (case base64_decode (raw_text j) of
                None \<Rightarrow> Inl InvalidBase64 | Some _ \<Rightarrow> Inr (f\<lparr>fl_Content := raw_text j\<rparr>)))"

definition fileMode :: "string \<Rightarrow> File \<Rightarrow> File" where
  "fileMode k v = (if fl_Mode v = [] \<and> sr_Name (fl_Secret v) = [] then v\<lparr>fl_Mode := guessMode k\<rparr> else v)"

definition Unmarshal_Files :: "('e, (string, File) gomap) dec" where
  "Unmarshal_Files j fs =
     bind_err (dec_map zero_File Unmarshal_File j fs) (\<lambda>m. Inr (map (\<lambda>(k, v). (k, fileMode k v)) m))"

definition labelLess :: "ScopedLabel \<Rightarrow> ScopedLabel \<Rightarrow> bool" where
  "labelLess a b =
     (if sl_ResourceType a \<noteq> sl_ResourceType b then sl_ResourceType a < sl_ResourceType b
      else if sl_ResourceName a \<noteq> sl_ResourceName b then sl_ResourceName a < sl_ResourceName b
      else sl_Key a < sl_Key b)"

definition dec_ScopedLabel :: "('e, ScopedLabel) dec" where
  "dec_ScopedLabel = dec_struct
     [(''resourceType'', field dec_string sl_ResourceType sl_ResourceType_update),
      (''resourceName'', field dec_string sl_ResourceName sl_ResourceName_update),
      (''key'', field dec_string sl_Key sl_Key_update),
      (''value'', field dec_string sl_Value sl_Value_update)]"

definition Unmarshal_ScopedLabels :: "('e, 'q, 'f) lib \<Rightarrow> ('e, ScopedLabel list) dec" where
  "Unmarshal_ScopedLabels L j ls =
     (if isObject j
      then bind_err (dec_string_map j []) (\<lambda>values.
             bind_err (bnd_err (map_err (\<lambda>(k, v). parseScopedLabel k v) values)) (\<lambda>new.
               Inr (sortLabels L labelLess (ls @ new))))
      else bind_err (dec_slice zero_ScopedLabel dec_ScopedLabel j ls) (\<lambda>ls'.
             bnd_err (map_err (\<lambda>l. bind_err (canonicalResourceType (sl_ResourceType l))
               (\<lambda>nType. Inr (l\<lparr>sl_ResourceType := nType\<rparr>))) ls')))"

definition Unmarshal_CommandSlice :: "('e, 'q, 'f) lib \<Rightarrow> ('e, string list) dec" where
  "Unmarshal_CommandSlice L j cs =
     (case j of JString s \<Rightarrow> lib_err (shlexSplit L s) | _ \<Rightarrow> dec_string_slice j cs)"

subsection \<open>Builds\<close>

definition zero_AcornBuild :: "'f AcornBuild" where
  "zero_AcornBuild = \<lparr>ab_OriginalImage = [], ab_Context = [], ab_Acornfile = [], ab_BuildArgs = []\<rparr>"

definition Unmarshal_AcornBuild :: "('e, 'q, 'f) lib \<Rightarrow> ('e, 'f AcornBuild) dec" where
  "Unmarshal_AcornBuild L j b =
     (case j of
        JString s \<Rightarrow> Inr (b\<lparr>ab_Context := s, ab_Acornfile := filepath_Join [s, ''Acornfile'']\<rparr>)
      | _ \<Rightarrow> dec_struct
          [(''originalImage'', field dec_string ab_OriginalImage ab_OriginalImage_update),
           (''context'', field dec_string ab_Context ab_Context_update),
           (''acornfile'', field dec_string ab_Acornfile ab_Acornfile_update),
           (''buildArgs'', field (Unmarshal_GenericMap L) ab_BuildArgs ab_BuildArgs_update)] j b)"

definition buildDefaults :: "Build \<Rightarrow> Build" where
  "buildDefaults b0 =
     (let b1 = (if bd_Context b0 = [] then b0\<lparr>bd_Context := ''.''\<rparr> else b0)
      in if bd_Dockerfile b1 = [] then b1\<lparr>bd_Dockerfile := filepath_Join [bd_Context b1, ''Dockerfile'']\<rparr> else b1)"

definition Unmarshal_Build :: "('e, Build) dec" where
  "Unmarshal_Build j b =
     (case j of
        JString s \<Rightarrow> Inr (b\<lparr>bd_Context := s, bd_Dockerfile := filepath_Join [s, ''Dockerfile'']\<rparr>)
      | _ \<Rightarrow> bind_err (dec_struct
          [(''context'', field dec_string bd_Context bd_Context_update),
           (''additionalContexts'', field dec_string_map bd_AdditionalContexts bd_AdditionalContexts_update),
           (''dockerfile'', field dec_string bd_Dockerfile bd_Dockerfile_update),
           (''dockerfileContents'', field dec_string bd_DockerfileContents bd_DockerfileContents_update),
           (''target'', field dec_string bd_Target bd_Target_update),
           (''baseImage'', field dec_string bd_BaseImage bd_BaseImage_update),
           (''contextDirs'', field dec_string_map bd_ContextDirs bd_ContextDirs_update),
           (''buildArgs'', field dec_string_map bd_BuildArgs bd_BuildArgs_update)] j b)
          (\<lambda>b. Inr (buildDefaults b)))"

definition contextDirs :: "container_fields \<Rightarrow> (string, string) gomap" where
  "contextDirs c = map (\<lambda>(path, dir). (path, vm_ContextDir dir)) (filter (\<lambda>(path, dir). vm_ContextDir dir \<noteq> []) (c_Dirs c))"

definition adjustBuildForContextDirs :: "container_fields \<Rightarrow> Build option" where
  "adjustBuildForContextDirs c =
     (if length (contextDirs c) = 0 then c_Build c
      else (let build = (case c_Build c of
                           None \<Rightarrow> zero_Build\<lparr>bd_Context := ''.'', bd_Dockerfile := ''Dockerfile''\<rparr>
                         | Some b \<Rightarrow> b)
            in Some (build\<lparr>bd_BaseImage := c_Image c, bd_ContextDirs := contextDirs c\<rparr>)))"
subsection \<open>Containers\<close>

record containerAliases =
  ca_Cmd :: "string list"
  ca_Env :: "EnvVar list"
  ca_WorkDir :: string
  ca_TTY :: bool
  ca_Stdin :: bool
  ca_Probe :: "Probe list option"
  ca_Directories :: "(string, VolumeMount) gomap"
  ca_DependsOn :: "Dependency list"
  ca_DependsOnUnderscore :: "Dependency list"
  ca_Memory :: "int option"

definition zero_containerAliases :: containerAliases where
  "zero_containerAliases = \<lparr>ca_Cmd = [], ca_Env = [], ca_WorkDir = [], ca_TTY = False, ca_Stdin = False,
     ca_Probe = None, ca_Directories = [], ca_DependsOn = [], ca_DependsOnUnderscore = [], ca_Memory = None\<rparr>"

definition containerAliases_fieldset :: "('e, 'q, 'f) lib \<Rightarrow> ('e, containerAliases) fieldset" where
  "containerAliases_fieldset L =
     [(''cmd'', field (Unmarshal_CommandSlice L) ca_Cmd ca_Cmd_update),
      (''env'', field (Unmarshal_EnvVars L) ca_Env ca_Env_update),
      (''workDir'', field dec_string ca_WorkDir ca_WorkDir_update),
      (''tty'', field dec_bool ca_TTY ca_TTY_update),
      (''stdin'', field dec_bool ca_Stdin ca_Stdin_update),
      (''probe'', field (Unmarshal_Probes L) ca_Probe ca_Probe_update),
      (''directories'', field (dec_map zero_VolumeMount Unmarshal_VolumeMount) ca_Directories ca_Directories_update),
      (''dependsOn'', field Unmarshal_Dependencies ca_DependsOn ca_DependsOn_update),
      (''depends_on'', field Unmarshal_Dependencies ca_DependsOnUnderscore ca_DependsOnUnderscore_update),
      (''mem'', field (dec_ptr 0 dec_int64) ca_Memory ca_Memory_update)]"

definition SetContainer :: "containerAliases \<Rightarrow> container_fields \<Rightarrow> container_fields" where
  "SetContainer a c =
     c\<lparr>c_Command := (if length (ca_Cmd a) > 0 then ca_Cmd a else c_Command c),
       c_Environment := (if length (ca_Env a) > 0 then c_Environment c @ ca_Env a else c_Environment c),
       c_WorkingDir := (if ca_WorkDir a \<noteq> [] then ca_WorkDir a else c_WorkingDir c),
       c_Interactive := (if ca_TTY a \<or> ca_Stdin a then True else c_Interactive c),
       c_Probes := (case ca_Probe a of Some (p # ps) \<Rightarrow> Some (p # ps) | _ \<Rightarrow> c_Probes c),
       c_Dirs := (if length (ca_Directories a) > 0 then ca_Directories a else c_Dirs c),
       c_Dependencies := (if length (ca_DependsOnUnderscore a) > 0 then ca_DependsOnUnderscore a
                          else if length (ca_DependsOn a) > 0 then ca_DependsOn a else c_Dependencies c),
       c_Memory := (if ca_Memory a \<noteq> None then ca_Memory a else c_Memory c)\<rparr>"

definition dec_MetricsDef :: "('e, MetricsDef) dec" where
  "dec_MetricsDef = dec_struct
     [(''port'', field dec_int32 md_Port md_Port_update), (''path'', field dec_string md_Path md_Path_update)]"

text \<open>The fields of a container without its sidecars.\<close>

definition container_fieldset :: "('e, 'q, 'f) lib \<Rightarrow> ('e, container_fields) fieldset" where
  "container_fieldset L =
     [(''labels'', field dec_string_map c_Labels c_Labels_update),
      (''annotations'', field dec_string_map c_Annotations c_Annotations_update),
      (''dirs'', field (dec_map zero_VolumeMount Unmarshal_VolumeMount) c_Dirs c_Dirs_update),
      (''files'', field Unmarshal_Files c_Files c_Files_update),
      (''image'', field dec_string c_Image c_Image_update),
      (''build'', field (dec_ptr zero_Build Unmarshal_Build) c_Build c_Build_update),
      (''command'', field (Unmarshal_CommandSlice L) c_Command c_Command_update),
      (''interactive'', field dec_bool c_Interactive c_Interactive_update),
      (''entrypoint'', field (Unmarshal_CommandSlice L) c_Entrypoint c_Entrypoint_update),
      (''environment'', field (Unmarshal_EnvVars L) c_Environment c_Environment_update),
      (''workingDir'', field dec_string c_WorkingDir c_WorkingDir_update),
      (''ports'', field Unmarshal_Ports c_Ports c_Ports_update),
      (''probes'', field (Unmarshal_Probes L) c_Probes c_Probes_update),
      (''dependencies'', field Unmarshal_Dependencies c_Dependencies c_Dependencies_update),
      (''permissions'', field (dec_ptr zero_Permissions Unmarshal_Permissions) c_Permissions c_Permissions_update),
      (''class'', field (dec_ptr [] dec_string) c_ComputeClass c_ComputeClass_update),
      (''memory'', field (dec_ptr 0 dec_int64) c_Memory c_Memory_update),
      (''metrics'', field dec_MetricsDef c_Metrics c_Metrics_update),
      (''scale'', field (dec_ptr 0 dec_int32) c_Scale c_Scale_update),
      (''schedule'', field dec_string c_Schedule c_Schedule_update),
      (''events'', field dec_string_slice c_Events c_Events_update),
      (''init'', field dec_bool c_Init c_Init_update)]"

definition adjustBuild :: "Container \<Rightarrow> Container" where
  "adjustBuild c = Container ((c_fields c)\<lparr>c_Build := adjustBuildForContextDirs (c_fields c)\<rparr>) (c_Sidecars c)"

definition finishContainer :: "containerAliases \<Rightarrow> container_fields \<times> (string, Container) gomap \<Rightarrow> Container" where
  "finishContainer al st =
     adjustBuild (Container (SetContainer al (fst st)) (map (\<lambda>(name, sidecar). (name, adjustBuild sidecar)) (snd st)))"

fun Unmarshal_Container :: "('e, 'q, 'f) lib \<Rightarrow> json \<Rightarrow> 'e decode_error + Container"
  and containerPairs :: "('e, 'q, 'f) lib \<Rightarrow> (string \<times> json) list \<Rightarrow> container_fields \<times> (string, Container) gomap \<Rightarrow>
    'e decode_error + container_fields \<times> (string, Container) gomap"
  and sidecarPairs :: "('e, 'q, 'f) lib \<Rightarrow> (string \<times> json) list \<Rightarrow> (string, Container) gomap \<Rightarrow>
    'e decode_error + (string, Container) gomap" where
  "Unmarshal_Container L j =
     bind_err (case j of
         JNull \<Rightarrow> Inr (zero_container_fields, [])
       | JObject kvs \<Rightarrow> containerPairs L kvs (zero_container_fields, [])
       | _ \<Rightarrow> Inl TypeMismatch) (\<lambda>c.
     bind_err (dec_struct (containerAliases_fieldset L) j zero_containerAliases) (\<lambda>al.
       Inr (finishContainer al c)))"
| "containerPairs L [] st = Inr st"
| "containerPairs L ((k, v) # kvs) st =
     bind_err
       (if equal_fold ''sidecars'' k
        then bind_err (case v of
                JNull \<Rightarrow> Inr []
              | JObject skvs \<Rightarrow> sidecarPairs L skvs (snd st)
              | _ \<Rightarrow> Inl TypeMismatch) (\<lambda>m. Inr (fst st, m))
        else bind_err (dec_member (container_fieldset L) (k, v) (fst st)) (\<lambda>f. Inr (f, snd st)))
       (\<lambda>st'. containerPairs L kvs st')"
| "sidecarPairs L [] m = Inr m"
| "sidecarPairs L ((k, v) # kvs) m =
     bind_err (Unmarshal_Container L v) (\<lambda>c. sidecarPairs L kvs (gm_set m k c))"

declare Unmarshal_Container.simps(1) [simp del]
subsection \<open>Nested Acorns and services\<close>

record acornAliases =
  aa_Env :: "NameValue list"
  aa_Mem :: MemoryMap

definition acornAliases_fieldset :: "('e, 'q, 'f) lib \<Rightarrow> ('e, acornAliases) fieldset" where
  "acornAliases_fieldset L =
     [(''env'', field (Unmarshal_NameValues L) aa_Env aa_Env_update),
      (''mem'', field (Unmarshal_MemoryMap L) aa_Mem aa_Mem_update)]"

definition SetService :: "acornAliases \<Rightarrow> 'f Service \<Rightarrow> 'f Service" where
  "SetService a dst =
     dst\<lparr>sv_Environment := (if length (aa_Env a) > 0 then sv_Environment dst @ aa_Env a else sv_Environment dst),
         sv_Memory := (if length (aa_Mem a) > 0 then aa_Mem a else sv_Memory dst)\<rparr>"

definition SetAcorn :: "acornAliases \<Rightarrow> 'f Acorn \<Rightarrow> 'f Acorn" where
  "SetAcorn a dst =
     dst\<lparr>ac_Environment := (if length (aa_Env a) > 0 then ac_Environment dst @ aa_Env a else ac_Environment dst),
         ac_Memory := (if length (aa_Mem a) > 0 then aa_Mem a else ac_Memory dst)\<rparr>"

definition zero_Acorn :: "'f Acorn" where
  "zero_Acorn = \<lparr>ac_Labels = [], ac_Annotations = [], ac_Image = [], ac_Build = None, ac_Profiles = [],
     ac_DeployArgs = [], ac_Publish = [], ac_PublishMode = [], ac_Environment = [], ac_Secrets = [],
     ac_Volumes = [], ac_Links = [], ac_AutoUpgrade = None, ac_NotifyUpgrade = None,
     ac_AutoUpgradeInterval = [], ac_Memory = [], ac_ComputeClasses = [], ac_Permissions = []\<rparr>"

definition acorn_fieldset :: "('e, 'q, 'f) lib \<Rightarrow> ('e, 'f Acorn) fieldset" where
  "acorn_fieldset L =
     [(''labels'', field (Unmarshal_ScopedLabels L) ac_Labels ac_Labels_update),
      (''annotations'', field (Unmarshal_ScopedLabels L) ac_Annotations ac_Annotations_update),
      (''image'', field dec_string ac_Image ac_Image_update),
      (''build'', field (dec_ptr zero_AcornBuild (Unmarshal_AcornBuild L)) ac_Build ac_Build_update),
      (''profiles'', field dec_string_slice ac_Profiles ac_Profiles_update),
      (''deployArgs'', field (Unmarshal_GenericMap L) ac_DeployArgs ac_DeployArgs_update),
      (''publish'', field Unmarshal_PortBindings ac_Publish ac_Publish_update),
      (''publishMode'', field dec_string ac_PublishMode ac_PublishMode_update),
      (''environment'', field (Unmarshal_NameValues L) ac_Environment ac_Environment_update),
      (''secrets'', field Unmarshal_SecretBindings ac_Secrets ac_Secrets_update),
      (''volumes'', field (Unmarshal_VolumeBindings L) ac_Volumes ac_Volumes_update),
      (''links'', field Unmarshal_ServiceBindings ac_Links ac_Links_update),
      (''autoUpgrade'', field (dec_ptr False dec_bool) ac_AutoUpgrade ac_AutoUpgrade_update),
      (''notifyUpgrade'', field (dec_ptr False dec_bool) ac_NotifyUpgrade ac_NotifyUpgrade_update),
      (''autoUpgradeInterval'', field dec_string ac_AutoUpgradeInterval ac_AutoUpgradeInterval_update),
      (''memory'', field (Unmarshal_MemoryMap L) ac_Memory ac_Memory_update),
      (''computeClasses'', field dec_string_map ac_ComputeClasses ac_ComputeClasses_update),
      (''permissions'', field (dec_map zero_Permissions Unmarshal_Permissions) ac_Permissions ac_Permissions_update)]"

definition Unmarshal_Acorn :: "('e, 'q, 'f) lib \<Rightarrow> ('e, 'f Acorn) dec" where
  "Unmarshal_Acorn L j _ =
     bind_err (dec_struct (acorn_fieldset L) j zero_Acorn) (\<lambda>a.
     bind_err (dec_struct (acornAliases_fieldset L) j \<lparr>aa_Env = [], aa_Mem = []\<rparr>) (\<lambda>al. Inr (SetAcorn al a)))"

definition zero_Service :: "'f Service" where
  "zero_Service = \<lparr>sv_Labels = [], sv_Annotations = [], sv_Default = False, sv_External = [], sv_Alias = [],
     sv_Address = [], sv_Ports = [], sv_Container = [], sv_Data = [], sv_Generated = None, sv_Image = [],
     sv_Build = None, sv_ServiceArgs = [], sv_Environment = [], sv_Secrets = [], sv_Links = [],
     sv_AutoUpgrade = None, sv_NotifyUpgrade = None, sv_AutoUpgradeInterval = [], sv_Memory = [],
     sv_Permissions = []\<rparr>"

definition service_fieldset :: "('e, 'q, 'f) lib \<Rightarrow> ('e, 'f Service) fieldset" where
  "service_fieldset L =
     [(''labels'', field (Unmarshal_ScopedLabels L) sv_Labels sv_Labels_update),
      (''annotations'', field (Unmarshal_ScopedLabels L) sv_Annotations sv_Annotations_update),
      (''default'', field dec_bool sv_Default sv_Default_update),
      (''external'', field dec_string sv_External sv_External_update),
      (''alias'', field dec_string sv_Alias sv_Alias_update),
      (''address'', field dec_string sv_Address sv_Address_update),
      (''ports'', field Unmarshal_Ports sv_Ports sv_Ports_update),
      (''container'', field dec_string sv_Container sv_Container_update),
      (''data'', field (Unmarshal_GenericMap L) sv_Data sv_Data_update),
      (''generated'', field (dec_ptr [] (dec_struct [(''job'', dec_string)])) sv_Generated sv_Generated_update),
      (''image'', field dec_string sv_Image sv_Image_update),
      (''build'', field (dec_ptr zero_AcornBuild (Unmarshal_AcornBuild L)) sv_Build sv_Build_update),
      (''serviceArgs'', field (Unmarshal_GenericMap L) sv_ServiceArgs sv_ServiceArgs_update),
      (''environment'', field (Unmarshal_NameValues L) sv_Environment sv_Environment_update),
      (''secrets'', field Unmarshal_SecretBindings sv_Secrets sv_Secrets_update),
      (''links'', field Unmarshal_ServiceBindings sv_Links sv_Links_update),
      (''autoUpgrade'', field (dec_ptr False dec_bool) sv_AutoUpgrade sv_AutoUpgrade_update),
      (''notifyUpgrade'', field (dec_ptr False dec_bool) sv_NotifyUpgrade sv_NotifyUpgrade_update),
      (''autoUpgradeInterval'', field dec_string sv_AutoUpgradeInterval sv_AutoUpgradeInterval_update),
      (''memory'', field (Unmarshal_MemoryMap L) sv_Memory sv_Memory_update),
      (''permissions'', field (dec_map zero_Permissions Unmarshal_Permissions) sv_Permissions sv_Permissions_update)]"

definition Unmarshal_Service :: "('e, 'q, 'f) lib \<Rightarrow> ('e, 'f Service) dec" where
  "Unmarshal_Service L j _ =
     bind_err (dec_struct (service_fieldset L) j zero_Service) (\<lambda>a.
     bind_err (dec_struct (acornAliases_fieldset L) j \<lparr>aa_Env = [], aa_Mem = []\<rparr>) (\<lambda>al. Inr (SetService al a)))"

subsection \<open>The app\<close>

definition dec_Image :: "('e, 'q, 'f) lib \<Rightarrow> ('e, 'f Image) dec" where
  "dec_Image L = dec_struct
     [(''image'', field dec_string im_Image im_Image_update),
      (''containerBuild'', field (dec_ptr zero_Build Unmarshal_Build) im_Build im_Build_update),
      (''build'', field (dec_ptr zero_AcornBuild (Unmarshal_AcornBuild L)) im_AcornBuild im_AcornBuild_update)]"

definition dec_Router :: "('e, 'q, 'f) lib \<Rightarrow> ('e, Router) dec" where
  "dec_Router L = dec_struct
     [(''labels'', field dec_string_map ro_Labels ro_Labels_update),
      (''annotations'', field dec_string_map ro_Annotations ro_Annotations_update),
      (''routes'', field (Unmarshal_Routes L) ro_Routes ro_Routes_update)]"

definition dec_Secret :: "('e, 'q, 'f) lib \<Rightarrow> ('e, 'f Secret) dec" where
  "dec_Secret L = dec_struct
     [(''external'', field dec_string st_External st_External_update),
      (''alias'', field dec_string st_Alias st_Alias_update),
      (''labels'', field dec_string_map st_Labels st_Labels_update),
      (''annotations'', field dec_string_map st_Annotations st_Annotations_update),
      (''type'', field dec_string st_Type st_Type_update),
      (''params'', field (Unmarshal_GenericMap L) st_Params st_Params_update),
      (''data'', field dec_string_map st_Data st_Data_update)]"

definition dec_VolumeRequest :: "('e, 'q, 'f) lib \<Rightarrow> ('e, VolumeRequest) dec" where
  "dec_VolumeRequest L = dec_struct
     [(''labels'', field dec_string_map vr_Labels vr_Labels_update),
      (''annotations'', field dec_string_map vr_Annotations vr_Annotations_update),
      (''class'', field dec_string vr_Class vr_Class_update),
      (''size'', field (Unmarshal_Quantity L) vr_Size vr_Size_update),
      (''accessModes'', field Unmarshal_AccessModes vr_AccessModes vr_AccessModes_update)]"

definition appSpec_fieldset :: "('e, 'q, 'f) lib \<Rightarrow> ('e, 'f AppSpec) fieldset" where
  "appSpec_fieldset L =
     [(''labels'', field dec_string_map as_Labels as_Labels_update),
      (''annotations'', field dec_string_map as_Annotations as_Annotations_update),
      (''containers'', field (dec_map (Container zero_container_fields []) (\<lambda>j _. Unmarshal_Container L j))
         as_Containers as_Containers_update),
      (''jobs'', field (dec_map (Container zero_container_fields []) (\<lambda>j _. Unmarshal_Container L j))
         as_Jobs as_Jobs_update),
      (''images'', field (dec_map \<lparr>im_Image = [], im_Build = None, im_AcornBuild = None\<rparr> (dec_Image L))
         as_Images as_Images_update),
      (''volumes'', field (dec_map zero_VolumeRequest (dec_VolumeRequest L)) as_Volumes as_Volumes_update),
      (''secrets'', field (dec_map zero_Secret (dec_Secret L)) as_Secrets as_Secrets_update),
      (''acorns'', field (dec_map zero_Acorn (Unmarshal_Acorn L)) as_Acorns as_Acorns_update),
      (''routers'', field (dec_map \<lparr>ro_Labels = [], ro_Annotations = [], ro_Routes = []\<rparr> (dec_Router L))
         as_Routers as_Routers_update),
      (''services'', field (dec_map zero_Service (Unmarshal_Service L)) as_Services as_Services_update)]"

subsection \<open>Correctness\<close>

text \<open>The text of a reference to a key of a secret.\<close>

definition render_secret :: "SecretReference \<Rightarrow> string" where
  "render_secret r = url_text ''secret'' (sr_Name r) (sr_Key r)
     (if sr_OnChange r = ChangeTypeNoAction then ''onchange=no-action'' else [])"

lemma url_Query_simps:
  "url_Query u = []" if "u_RawQuery u = []"
  by (simp add: url_Query_def query_step_def that)

lemma url_Query_onchange: "url_Query u = [(''onchange'', [''no-action''])]" if "u_RawQuery u = ''onchange=no-action''"
  unfolding url_Query_def that by code_simp

lemma parseSecretReference_url:
  assumes "str_has_prefix s ''secret://''" "url_Parse s = Inr u"
    and "fold_err (\<lambda>(k, vs). fold_err (secretOption k) vs) (url_Query u)
      \<lparr>srf_Ref = \<lparr>sr_Name = u_Host u, sr_Key = fst (str_cut CHR ''/'' (str_trim_prefix (u_Path u) ''/'')),
        sr_OnChange = ChangeTypeRedeploy\<rparr>, srf_Mode = []\<rparr> = (Inr r :: 'e decode_error + _)"
  shows "parseSecretReference s = (Inr (Some r) :: 'e decode_error + _)"
proof -
  have "\<not> str_has_prefix s ''${secret://''" using assms(1) by (auto simp: str_has_prefix_iff prefix_def)
  with assms show ?thesis by (simp add: parseSecretReference_def zero_secretReference_def)
qed

lemma parseSecretReference_render:
  assumes "list_all url_plain (sr_Name r)" "list_all url_plain (sr_Key r)"
    and "sr_OnChange r \<in> {ChangeTypeRedeploy, ChangeTypeNoAction}"
  shows "parseSecretReference (render_secret r) = Inr (Some \<lparr>srf_Ref = r, srf_Mode = []\<rparr>)"
proof (rule parseSecretReference_url)
  let ?q = "if sr_OnChange r = ChangeTypeNoAction then ''onchange=no-action'' else []"
  let ?u = "\<lparr>u_Scheme = ''secret'', u_Opaque = [], u_Host = sr_Name r,
     u_Path = (if sr_Key r = [] then [] else CHR ''/'' # sr_Key r), u_RawQuery = ?q\<rparr>"
  have q: "list_all query_plain ?q" by (simp, intro impI, code_simp)
  have s: "list_all is_alpha ''secret''" "list_all (\<lambda>c. 97 \<le> (of_char c :: nat)) ''secret''" by code_simp+
  show "url_Parse (render_secret r) = Inr ?u"
    unfolding render_secret_def by (rule url_Parse_plain [OF s _ assms(1,2) q]) simp
  show "str_has_prefix (render_secret r) ''secret://''"
    by (simp add: render_secret_def url_text_def str_has_prefix_def)
  have key: "fst (str_cut CHR ''/'' (str_trim_prefix (u_Path ?u) ''/'')) = sr_Key r"
    using plain_notin [OF assms(2), of "CHR ''/''"] str_trim_prefix_append [of "''/''" "sr_Key r"]
    by (auto simp: str_trim_prefix_def str_has_prefix_def)
  show "fold_err (\<lambda>(k, vs). fold_err (secretOption k) vs) (url_Query ?u)
      \<lparr>srf_Ref = \<lparr>sr_Name = u_Host ?u, sr_Key = fst (str_cut CHR ''/'' (str_trim_prefix (u_Path ?u) ''/'')),
        sr_OnChange = ChangeTypeRedeploy\<rparr>, srf_Mode = []\<rparr> = Inr \<lparr>srf_Ref = r, srf_Mode = []\<rparr>"
  proof (cases "sr_OnChange r = ChangeTypeNoAction")
    case True
    then have "url_Query ?u = [(''onchange'', [''no-action''])]" by (intro url_Query_onchange) simp
    moreover have "equal_fold ''onchange'' ''onchange''" "equal_fold ''no-action'' ''no-action''"
      by (simp_all add: equal_fold_def)
    ultimately show ?thesis unfolding key using True by (simp add: secretOption_def)
  next
    case False
    then have "url_Query ?u = []" by (intro url_Query_simps) simp
    then show ?thesis unfolding key using False assms(3) by simp
  qed
qed

lemma parseSecretReference_wrapped:
  assumes "str_has_prefix s ''secret://''"
  shows "parseSecretReference (''${'' @ s @ ''}'') = parseSecretReference s"
proof -
  have "str_has_prefix (''${'' @ s @ ''}'') ''${secret://''" using assms by (auto simp: str_has_prefix_iff)
  moreover have "str_has_suffix (''${'' @ s @ ''}'') ''}''" by (simp add: str_has_suffix_def str_has_prefix_def)
  moreover have "\<not> str_has_prefix s ''${secret://''" using assms by (auto simp: str_has_prefix_iff prefix_def)
  ultimately show ?thesis by (simp add: parseSecretReference_def Let_def)
qed

text \<open>A reference to a secret survives printing and parsing, bare or inside \<open>${}\<close>: the name, the key and
  what to do on a change come back as they were written.\<close>

theorem secret_reference_roundtrip:
  assumes "list_all url_plain (sr_Name r)" "list_all url_plain (sr_Key r)"
    and "sr_OnChange r \<in> {ChangeTypeRedeploy, ChangeTypeNoAction}"
  shows "parseSecretReference (render_secret r) = Inr (Some \<lparr>srf_Ref = r, srf_Mode = []\<rparr>) \<and>
    parseSecretReference (''${'' @ render_secret r @ ''}'') = Inr (Some \<lparr>srf_Ref = r, srf_Mode = []\<rparr>)"
proof -
  have "str_has_prefix (render_secret r) ''secret://''"
    by (simp add: render_secret_def url_text_def str_has_prefix_def)
  then show ?thesis
    using parseSecretReference_render [OF assms] parseSecretReference_wrapped by metis
qed

theorem secret_reference_roundtrip_witness:
  "(parseSecretReference ''secret://db/password?onchange=no-action'' :: unit decode_error + _) =
     Inr (Some \<lparr>srf_Ref = \<lparr>sr_Name = ''db'', sr_Key = ''password'', sr_OnChange = ChangeTypeNoAction\<rparr>, srf_Mode = []\<rparr>)"
proof -
  let ?r = "\<lparr>sr_Name = ''db'', sr_Key = ''password'', sr_OnChange = ChangeTypeNoAction\<rparr>"
  have "list_all url_plain (sr_Name ?r)" "list_all url_plain (sr_Key ?r)" by code_simp+
  then have "(parseSecretReference (render_secret ?r) :: unit decode_error + _) = Inr (Some \<lparr>srf_Ref = ?r, srf_Mode = []\<rparr>)"
    by (intro conjunct1 [OF secret_reference_roundtrip]) simp_all
  then show ?thesis by (simp add: render_secret_def url_text_def)
qed

text \<open>The order of the routes is the order of a key: longer paths first, then by the text.\<close>

definition routeKey :: "Route \<Rightarrow> int \<times> string" where
  "routeKey r = (- int (length (rt_Path r)), rt_Path r)"

lemma routeLess_key: "routeLess = (\<lambda>a b. routeKey a < routeKey b)"
  by (rule ext)+ (auto simp: routeLess_def routeKey_def less_prod_def')

text \<open>The routes of a router written as a map do not depend on the order in which the map is visited nor
  on the sorting algorithm: every path has its route, and longer paths come first, so that the first
  matching prefix is the most specific one.\<close>

theorem Unmarshal_Routes_order:
  fixes L :: "('e, 'q, 'f) lib"
  assumes "sorts (sortRoutes L) routeLess" "distinct (map fst kvs)" "mset kvs = mset kvs'"
    and "Unmarshal_Routes L (JObject kvs) [] = Inr rs"
  shows "Unmarshal_Routes L (JObject kvs') [] = Inr rs \<and>
    rt_Path ` set rs = fst ` set kvs \<and>
    sorted_wrt (\<lambda>a b. length (rt_Path b) \<le> length (rt_Path a)) rs"
proof -
  from assms(4) obtain m where m: "(dec_map zero_routeTarget Unmarshal_routeTarget (JObject kvs) [] :: 'e decode_error + _) = Inr m"
    and rs: "rs = sortRoutes L routeLess (map routeOf m)"
    by (auto simp: Unmarshal_Routes_def isObject_def bind_err_Inr)
  obtain m' where m': "(dec_map zero_routeTarget Unmarshal_routeTarget (JObject kvs') [] :: 'e decode_error + _) = Inr m'" "mset m' = mset m"
    using dec_map_perm [OF assms(2,3) m] by blast
  have dist: "distinct (map routeKey (map routeOf m))"
  proof -
    have "map routeKey (map routeOf m) = map (\<lambda>p. (- int (length p), p)) (map fst m)"
      by (simp add: routeKey_def routeOf_def comp_def)
    then show ?thesis
      using dec_map_keys(2) [OF m] by (metis (no_types, lifting) distinct_map inj_onI prod.inject)
  qed
  have s: "sorts (sortRoutes L) (\<lambda>a b. routeKey a < routeKey b)" using assms(1) by (simp add: routeLess_key)
  have eq: "sortRoutes L routeLess (map routeOf m') = rs"
    using sorts_unique [OF s dist] m'(2) by (simp add: rs routeLess_key)
  have "rt_Path ` set rs = fst ` set m"
    using sorts_set [OF assms(1)] by (force simp: rs routeOf_def)
  moreover have "sorted (map routeKey rs)"
    using s by (simp add: sorts_def ascending_key rs routeLess_key)
  then have "sorted_wrt (\<lambda>a b. length (rt_Path b) \<le> length (rt_Path a)) rs"
    unfolding sorted_wrt_map by (rule sorted_wrt_mono_rel [rotated]) (auto simp: routeKey_def)
  ultimately show ?thesis
    using m'(1) eq dec_map_keys(1) [OF m] by (simp add: Unmarshal_Routes_def isObject_def)
qed

text \<open>A library to run the decoder with: quantities are ordered by the length of their text.\<close>

definition sample_lib :: "(unit, nat, unit) lib" where
  "sample_lib = \<lparr>resParse = (\<lambda>s. if s = [] then Inl () else Inr (length s)), resCmp = (\<lambda>a b. int a - int b),
     shlexSplit = (\<lambda>s. Inr (str_split CHR '' '' s)), amlParseInt = (\<lambda>_. Inl ()), parseFloat = (\<lambda>_. Inr ()),
     sortRoutes = sort_by routeKey, sortNameValues = sort_by (\<lambda>n. (nv_Name n, nv_Value n)), sortProbes = sort_by po_Type,
     sortEnvVars = sort_by ev_Name, sortLabels = sort_by (\<lambda>l. (sl_ResourceType l, sl_ResourceName l, sl_Key l)),
     sortAccessModes = sort_by id\<rparr>"

theorem Unmarshal_Routes_order_witness:
  "let rs = [\<lparr>rt_Path = ''/api'', rt_TargetServiceName = ''web'', rt_TargetPort = 81, rt_PathType = ''prefix''\<rparr>,
             \<lparr>rt_Path = ''/'', rt_TargetServiceName = ''web'', rt_TargetPort = 0, rt_PathType = ''prefix''\<rparr>]
   in Unmarshal_Routes sample_lib (JObject [(''/api'', JString ''web:81''), (''/'', JString ''web'')]) [] = Inr rs"
proof -
  let ?rs = "[\<lparr>rt_Path = ''/api'', rt_TargetServiceName = ''web'', rt_TargetPort = 81, rt_PathType = ''prefix''\<rparr>,
              \<lparr>rt_Path = ''/'', rt_TargetServiceName = ''web'', rt_TargetPort = 0, rt_PathType = ''prefix''\<rparr>]"
  have "sorts (sortRoutes sample_lib) routeLess" unfolding routeLess_key by (simp add: sample_lib_def sorts_sort_by)
  moreover have "Unmarshal_Routes sample_lib (JObject [(''/'', JString ''web''), (''/api'', JString ''web:81'')]) [] = Inr ?rs"
    by code_simp
  moreover have "mset [(''/'', JString ''web''), (''/api'', JString ''web:81'')] =
    mset [(''/api'', JString ''web:81''), (''/'', JString ''web'')]" by simp
  moreover have "distinct (map fst [(''/'', JString ''web''), (''/api'', JString ''web:81'')])" by simp
  ultimately show ?thesis unfolding Let_def using Unmarshal_Routes_order by blast
qed

text \<open>A generic value without the numbers that the JSON decoder leaves as text.\<close>

primrec number_free :: "'f generic \<Rightarrow> bool" where
  "number_free GNull = True"
| "number_free (GBool b) = True"
| "number_free (GString s) = True"
| "number_free (GNumber n) = False"
| "number_free (GInt i) = True"
| "number_free (GFloat x) = True"
| "number_free (GArray vs) = list_all id (map number_free vs)"
| "number_free (GObject kvs) = list_all id (map snd (map (map_prod id number_free) kvs))"

lemma translateObject_number_free: "translateObject pf g = Inr g' \<Longrightarrow> number_free g'"
proof (induction pf g arbitrary: g' rule: translateObject.induct)
  case (1 pf kvs)
  then obtain kvs' where g': "g' = GObject kvs'"
    and m: "map_err (\<lambda>kv. bind_err (translateObject pf (snd kv)) (\<lambda>v. Inr (fst kv, v))) kvs = Inr kvs'"
    by (auto simp: bind_err_Inr)
  have "number_free (snd kv')" if "kv' \<in> set kvs'" for kv'
    using map_err_set [OF m that] 1(1) by (auto simp: bind_err_Inr)
  then show ?case by (auto simp: g' list_all_iff)
next
  case (2 pf vs)
  then obtain vs' where g': "g' = GArray vs'" and m: "map_err (translateObject pf) vs = Inr vs'"
    by (auto simp: bind_err_Inr)
  have "number_free v'" if "v' \<in> set vs'" for v'
    using map_err_set [OF m that] 2(1) by auto
  then show ?case by (auto simp: g' list_all_iff)
qed (auto simp: bind_err_Inr split: sum.splits)

lemma translateObject_id: "number_free g \<Longrightarrow> translateObject pf g = Inr g"
proof (induction pf g rule: translateObject.induct)
  case (1 pf kvs)
  have "map_err (\<lambda>kv. bind_err (translateObject pf (snd kv)) (\<lambda>v. Inr (fst kv, v))) kvs = Inr (map id kvs)"
    by (rule map_err_all) (use 1 in \<open>auto simp: list_all_iff\<close>)
  then show ?case by simp
next
  case (2 pf vs)
  have "map_err (translateObject pf) vs = Inr (map id vs)"
    by (rule map_err_all) (use 2 in \<open>auto simp: list_all_iff\<close>)
  then show ?case by simp
qed simp_all

text \<open>\<open>translateObject\<close> replaces every number the decoder left as text, at every depth of the value, and is
  idempotent; so a \<open>GenericMap\<close> that has been decoded once is not changed by decoding it again.\<close>

theorem translateObject_normal_form:
  assumes "translateObject pf g = Inr g'"
  shows "number_free g' \<and> translateObject pf g' = Inr g'"
  using translateObject_number_free [OF assms] translateObject_id by blast

theorem translateObject_normal_form_witness:
  "number_free (GObject [(''a'', GArray [GInt 3, GFloat (5 :: int)])])"
proof -
  have "translateObject (\<lambda>_. Inr 5) (GObject [(''a'', GArray [GNumber ''3'', GNumber ''0.5''])]) =
    (Inr (GObject [(''a'', GArray [GInt 3, GFloat (5 :: int)])]) :: unit + _)"
    by code_simp
  from translateObject_normal_form [OF this] show ?thesis by blast
qed

text \<open>The content of a file written as a string is kept: it is stored in base64, and decoding what is stored
  gives the string back.\<close>

theorem Unmarshal_File_content:
  assumes "\<not> str_has_prefix s ''secret://''" "\<not> str_has_prefix s ''${secret://''"
  shows "\<exists>f. Unmarshal_File (JString s) zero_File = Inr f \<and> base64_decode (fl_Content f) = Some s \<and>
    fl_Secret f = zero_SecretReference"
  using assms by (simp add: Unmarshal_File_def parseSecretReference_def base64_decode_encode zero_File_def)

theorem Unmarshal_File_content_witness:
  "\<exists>f. (Unmarshal_File (JString ''hello'') zero_File :: unit decode_error + _) = Inr f \<and>
    base64_decode (fl_Content f) = Some ''hello''"
proof -
  have "\<not> str_has_prefix ''hello'' ''secret://''" "\<not> str_has_prefix ''hello'' ''${secret://''" by code_simp+
  from Unmarshal_File_content [OF this] show ?thesis by blast
qed

text \<open>A container that mounts directories of the build context is built with them, on top of its image.\<close>

definition own_build_ok :: "container_fields \<Rightarrow> bool" where
  "own_build_ok f \<longleftrightarrow> contextDirs f = [] \<or>
     (\<exists>b. c_Build f = Some b \<and> bd_ContextDirs b = contextDirs f \<and> bd_BaseImage b = c_Image f)"

primrec build_ok :: "Container \<Rightarrow> bool" where
  "build_ok (Container f ss) = (own_build_ok f \<and> list_all snd (map (map_prod id build_ok) ss))"

definition sidecars_ok :: "(string, Container) gomap \<Rightarrow> bool" where
  "sidecars_ok m = list_all (\<lambda>s. build_ok (snd s)) m"

lemma build_ok_iff: "build_ok c \<longleftrightarrow> own_build_ok (c_fields c) \<and> sidecars_ok (c_Sidecars c)"
  by (cases c) (auto simp: sidecars_ok_def list_all_iff)

lemma own_build_ok_adjust: "own_build_ok (c_fields (adjustBuild c))"
  by (simp add: own_build_ok_def adjustBuild_def adjustBuildForContextDirs_def contextDirs_def Let_def)

lemma build_ok_adjust: "sidecars_ok (c_Sidecars c) \<Longrightarrow> build_ok (adjustBuild c)"
  using own_build_ok_adjust [of c] by (simp add: build_ok_iff) (simp add: adjustBuild_def)

lemma build_ok_finish: "sidecars_ok (snd st) \<Longrightarrow> build_ok (finishContainer al st)"
  unfolding finishContainer_def
  by (rule build_ok_adjust) (force simp: sidecars_ok_def list_all_iff intro!: build_ok_adjust [unfolded sidecars_ok_def list_all_iff] dest: build_ok_iff [THEN iffD1])

lemma Unmarshal_Container_build_ok_aux:
  fixes L :: "('e, 'q, 'f) lib"
  shows "Unmarshal_Container L j = Inr c \<Longrightarrow> build_ok c"
    and "containerPairs L kvs st = Inr st' \<Longrightarrow> sidecars_ok (snd st) \<Longrightarrow> sidecars_ok (snd st')"
    and "sidecarPairs L skvs m = Inr m' \<Longrightarrow> sidecars_ok m \<Longrightarrow> sidecars_ok m'"
proof (induction L j and L kvs st and L skvs m arbitrary: c and st' and m'
    rule: Unmarshal_Container_containerPairs_sidecarPairs.induct)
  case (1 L j)
  from "1.prems" show ?case
    by (auto simp: Unmarshal_Container.simps bind_err_Inr sidecars_ok_def split: json.splits
        intro!: build_ok_finish dest!: "1.IH" [rotated])
next
  case (3 L k v kvs st)
  then show ?case
    by (cases st') (auto simp: bind_err_Inr sidecars_ok_def split: if_splits json.splits)
next
  case (5 L k v kvs m)
  from "5.prems"(1) obtain c where c: "Unmarshal_Container L v = Inr c"
    and rest: "sidecarPairs L kvs (gm_set m k c) = Inr m'"
    by (auto simp: bind_err_Inr)
  have "sidecars_ok (gm_set m k c)"
    using "5.IH"(1) [OF c] "5.prems"(2) by (auto simp: sidecars_ok_def list_all_iff dest: set_gm_set)
  then show ?case using "5.IH"(2) [OF c rest] by blast
qed simp_all

text \<open>A container, job or sidecar at any depth that mounts directories of the build context has, once it is
  decoded, a build with exactly these directories whose base image is the image of the container.\<close>

theorem Unmarshal_Container_build_ok:
  assumes "Unmarshal_Container L j = Inr c"
  shows "build_ok c"
  using assms by (rule Unmarshal_Container_build_ok_aux(1))

theorem Unmarshal_Container_build_ok_witness:
  "let b = \<lparr>bd_Context = ''.'', bd_AdditionalContexts = [], bd_Dockerfile = ''Dockerfile'', bd_DockerfileContents = [],
            bd_Target = [], bd_BaseImage = ''nginx'', bd_ContextDirs = [(''/app'', ''./src'')], bd_BuildArgs = []\<rparr>;
       m = \<lparr>vm_Volume = [], vm_SubPath = [], vm_ContextDir = ''./src'', vm_Secret = \<lparr>vs_Name = [], vs_OnChange = []\<rparr>\<rparr>
   in build_ok (Container (zero_container_fields\<lparr>c_Image := ''nginx'', c_Dirs := [(''/app'', m)], c_Build := Some b\<rparr>) [])"
  unfolding Let_def
proof (rule Unmarshal_Container_build_ok)
  show "Unmarshal_Container sample_lib (JObject [(''image'', JString ''nginx''), (''dirs'', JObject [(''/app'', JString ''./src'')])]) =
    Inr (Container (zero_container_fields\<lparr>c_Image := ''nginx'',
      c_Dirs := [(''/app'', \<lparr>vm_Volume = [], vm_SubPath = [], vm_ContextDir = ''./src'',
        vm_Secret = \<lparr>vs_Name = [], vs_OnChange = []\<rparr>\<rparr>)],
      c_Build := Some \<lparr>bd_Context = ''.'', bd_AdditionalContexts = [], bd_Dockerfile = ''Dockerfile'',
        bd_DockerfileContents = [], bd_Target = [], bd_BaseImage = ''nginx'', bd_ContextDirs = [(''/app'', ''./src'')],
        bd_BuildArgs = []\<rparr>\<rparr>) [])"
    by code_simp
qed

end
