(* ===== verification/ImpliedResources.thy ===== *)
theory ImpliedResources
  imports AppSpecDecode
begin

text \<open>
  The last steps of \<open>AppSpec.UnmarshalJSON\<close> in \<open>unmarshal.go\<close>: \<open>addImpliedResources\<close> declares every secret and
  volume that a container, job, sidecar or nested Acorn mentions, \<open>checkForDuplicateNames\<close> makes sure that
  no name is used for two kinds of things. The loops run over Go maps, in an order that is not
  specified: the order of the association lists. Where the code sorts the access modes of a volume in
  place the slice may be shared with the binding of an Acorn it was copied from; the model updates the
  volume only.
\<close>

subsection \<open>Duplicate names\<close>

definition addName :: "(string, string) gomap \<Rightarrow> string \<Rightarrow> string \<Rightarrow> 'e decode_error + (string, string) gomap" where
  "addName data key value =
     (let existing = gm_get_or [] data key
      in if existing \<noteq> [] \<and> existing \<noteq> value then Inl (DuplicateName key existing value)
         else Inr (gm_set data key value))"

definition addNames :: "string \<Rightarrow> (string, 'a) gomap \<Rightarrow> (string, string) gomap \<Rightarrow>
    'e decode_error + (string, string) gomap" where
  "addNames value m = fold_err (\<lambda>key names. addName names key value) (map fst m)"

definition checkForDuplicateNames :: "'f AppSpec \<Rightarrow> 'e decode_error + (string, string) gomap" where
  "checkForDuplicateNames a =
     bind_err (addNames ''container'' (as_Containers a) []) (\<lambda>names.
     bind_err (addNames ''job'' (as_Jobs a) names) (\<lambda>names.
     bind_err (addNames ''router'' (as_Routers a) names) (\<lambda>names.
     bind_err (addNames ''acorn'' (as_Acorns a) names) (\<lambda>names.
     bind_err (addNames ''service'' (as_Services a) names) (\<lambda>names.
       addNames ''image'' (as_Images a) names)))))"

subsection \<open>Implied secrets and volumes\<close>

definition opaqueSecret :: "'f Secret" where
  "opaqueSecret = zero_Secret\<lparr>st_Type := ''opaque''\<rparr>"

definition addSecret :: "string \<Rightarrow> (string, 'f Secret) gomap \<Rightarrow> (string, 'f Secret) gomap" where
  "addSecret name secrets =
     (if name \<noteq> [] \<and> \<not> gm_has secrets name then gm_set secrets name opaqueSecret else secrets)"

definition impliedSecretsForContainer ::
    "container_fields \<Rightarrow> (string, 'f Secret) gomap \<Rightarrow> (string, 'f Secret) gomap" where
  "impliedSecretsForContainer c secrets =
     fold (\<lambda>file. addSecret (sr_Name (fl_Secret (snd file)))) (c_Files c)
       (fold (\<lambda>dir. addSecret (vs_Name (vm_Secret (snd dir)))) (c_Dirs c)
         (fold (\<lambda>env. addSecret (sr_Name (ev_Secret env))) (c_Environment c) secrets))"

definition DefaultSizeQuantity :: Quantity where "DefaultSizeQuantity = ''10G''"

definition addAccessMode :: "AccessMode \<Rightarrow> AccessMode list \<Rightarrow> AccessMode list" where
  "addAccessMode accessMode existing = (if accessMode \<in> set existing then existing else existing @ [accessMode])"

text \<open>The volume request after another definition of the same volume; \<open>None\<close> is \<open>continue\<close>.\<close>

definition growSize :: "('e, 'q, 'f) lib \<Rightarrow> Quantity \<Rightarrow> VolumeRequest \<Rightarrow> VolumeRequest option" where
  "growSize L sz existing =
     (case resParse L (vr_Size existing) of
        Inl _ \<Rightarrow> None
      | Inr existingSize \<Rightarrow>
          if sz \<noteq> [] then
            (case resParse L sz of
               Inl _ \<Rightarrow> None
             | Inr vSize \<Rightarrow> Some (if resCmp L existingSize vSize < 0 then existing\<lparr>vr_Size := sz\<rparr> else existing))
          else Some existing)"

definition mergeVolume :: "('e, 'q, 'f) lib \<Rightarrow> VolumeBinding \<Rightarrow> VolumeRequest \<Rightarrow> VolumeRequest option" where
  "mergeVolume L v existing0 =
     (case growSize L (vb_Size v) existing0 of
        None \<Rightarrow> None
      | Some existing \<Rightarrow>
          Some (existing\<lparr>vr_AccessModes :=
            sortAccessModes L (\<lambda>a b. a < b) (fold addAccessMode (vb_AccessModes v) (vr_AccessModes existing))\<rparr>))"

definition newVolume :: "VolumeBinding \<Rightarrow> VolumeRequest" where
  "newVolume v = zero_VolumeRequest\<lparr>vr_Size := (if vb_Size v = [] then DefaultSizeQuantity else vb_Size v),
     vr_AccessModes := vb_AccessModes v, vr_Class := vb_Class v\<rparr>"

definition isInlineVolume :: "VolumeMount \<Rightarrow> bool" where
  "isInlineVolume mount =
     (str_has_prefix (vm_Volume mount) ''volume://'' \<or> str_has_prefix (vm_Volume mount) ''ephemeral://'' \<or>
      vm_Volume mount = [])"

text \<open>One iteration over \<open>container.Dirs\<close>: the mount after it, and the volumes of the app.\<close>

definition impliedVolume :: "('e, 'q, 'f) lib \<Rightarrow> string \<Rightarrow> string \<Rightarrow> string \<Rightarrow> VolumeMount \<Rightarrow>
    (string, VolumeRequest) gomap \<Rightarrow> 'e decode_error + VolumeMount \<times> (string, VolumeRequest) gomap" where
  "impliedVolume L containerName sideCarName path mount volumes =
     (if vm_ContextDir mount \<noteq> [] \<or> vs_Name (vm_Secret mount) \<noteq> [] then Inr (mount, volumes)
      else if isInlineVolume mount then
        bind_err (parseVolumeDefinition (resParse L) (filepath_Join [containerName, sideCarName, path]) (vm_Volume mount))
          (\<lambda>v. let mount' = mount\<lparr>vm_Volume := vb_Volume v\<rparr>
               in Inr (mount',
                    case gm_get volumes (vb_Volume v) of
                      Some existing \<Rightarrow>
                        (case mergeVolume L v existing of
                           None \<Rightarrow> volumes | Some r \<Rightarrow> gm_set volumes (vb_Volume v) r)
                    | None \<Rightarrow> gm_set volumes (vb_Volume v) (newVolume v)))
      else if \<not> gm_has volumes (vm_Volume mount)
        then Inr (mount, gm_set volumes (vm_Volume mount) zero_VolumeRequest)
      else Inr (mount, volumes))"

fun impliedVolumes :: "('e, 'q, 'f) lib \<Rightarrow> string \<Rightarrow> string \<Rightarrow> (string, VolumeMount) gomap \<Rightarrow>
    (string, VolumeRequest) gomap \<Rightarrow>
    'e decode_error + (string, VolumeMount) gomap \<times> (string, VolumeRequest) gomap" where
  "impliedVolumes L containerName sideCarName [] volumes = Inr ([], volumes)"
| "impliedVolumes L containerName sideCarName ((path, mount) # dirs) volumes =
     bind_err (impliedVolume L containerName sideCarName path mount volumes) (\<lambda>(mount', volumes').
     bind_err (impliedVolumes L containerName sideCarName dirs volumes') (\<lambda>(dirs', volumes'').
       Inr ((path, mount') # dirs', volumes'')))"

definition impliedVolumesForContainer :: "('e, 'q, 'f) lib \<Rightarrow> string \<Rightarrow> string \<Rightarrow> container_fields \<Rightarrow>
    (string, VolumeRequest) gomap \<Rightarrow> 'e decode_error + container_fields \<times> (string, VolumeRequest) gomap" where
  "impliedVolumesForContainer L containerName sideCarName c volumes =
     bind_err (impliedVolumes L containerName sideCarName (c_Dirs c) volumes) (\<lambda>(dirs, volumes').
       Inr (c\<lparr>c_Dirs := dirs\<rparr>, volumes'))"

text \<open>A container with its sidecars, then all containers or jobs of the app.\<close>

type_synonym 'f resources = "(string, 'f Secret) gomap \<times> (string, VolumeRequest) gomap"

definition impliedForFields :: "('e, 'q, 'f) lib \<Rightarrow> string \<Rightarrow> string \<Rightarrow> container_fields \<Rightarrow> 'f resources \<Rightarrow>
    'e decode_error + container_fields \<times> 'f resources" where
  "impliedForFields L containerName sideCarName c res =
     bind_err (impliedVolumesForContainer L containerName sideCarName c (snd res)) (\<lambda>(c', volumes).
       Inr (c', impliedSecretsForContainer c (fst res), volumes))"

fun impliedForSidecars :: "('e, 'q, 'f) lib \<Rightarrow> string \<Rightarrow> (string, Container) gomap \<Rightarrow> 'f resources \<Rightarrow>
    'e decode_error + (string, Container) gomap \<times> 'f resources" where
  "impliedForSidecars L containerName [] res = Inr ([], res)"
| "impliedForSidecars L containerName ((name, s) # rest) res =
     bind_err (impliedForFields L containerName name (c_fields s) res) (\<lambda>(f, res').
     bind_err (impliedForSidecars L containerName rest res') (\<lambda>(ss, res'').
       Inr ((name, Container f (c_Sidecars s)) # ss, res'')))"

fun impliedForContainers :: "('e, 'q, 'f) lib \<Rightarrow> (string, Container) gomap \<Rightarrow> 'f resources \<Rightarrow>
    'e decode_error + (string, Container) gomap \<times> 'f resources" where
  "impliedForContainers L [] res = Inr ([], res)"
| "impliedForContainers L ((name, c) # rest) res =
     bind_err (impliedForFields L name [] (c_fields c) res) (\<lambda>(f, res1).
     bind_err (impliedForSidecars L name (c_Sidecars c) res1) (\<lambda>(ss, res2).
     bind_err (impliedForContainers L rest res2) (\<lambda>(cs, res3).
       Inr ((name, Container f ss) # cs, res3))))"

definition impliedVolumeBinding :: "VolumeBinding \<Rightarrow> (string, VolumeRequest) gomap \<Rightarrow> (string, VolumeRequest) gomap" where
  "impliedVolumeBinding b volumes =
     (if str_contains (vb_Volume b) ''.'' \<or> gm_has volumes (vb_Volume b) then volumes
      else gm_set volumes (vb_Volume b) (zero_VolumeRequest\<lparr>vr_Size := vb_Size b, vr_AccessModes := vb_AccessModes b\<rparr>))"

definition impliedSecretBinding :: "SecretBinding \<Rightarrow> (string, 'f Secret) gomap \<Rightarrow> (string, 'f Secret) gomap" where
  "impliedSecretBinding b secrets =
     (if str_contains (sc_Secret b) ''.'' \<or> gm_has secrets (sc_Secret b) then secrets
      else gm_set secrets (sc_Secret b) opaqueSecret)"

definition impliedForAcorns :: "(string, 'f Acorn) gomap \<Rightarrow> 'f resources \<Rightarrow> 'f resources" where
  "impliedForAcorns acorns res =
     fold (\<lambda>a (secrets, volumes).
         (fold impliedSecretBinding (ac_Secrets (snd a)) secrets, fold impliedVolumeBinding (ac_Volumes (snd a)) volumes))
       acorns res"

definition addImpliedResources :: "('e, 'q, 'f) lib \<Rightarrow> 'f AppSpec \<Rightarrow> 'e decode_error + 'f AppSpec" where
  "addImpliedResources L a =
     bind_err (impliedForContainers L (as_Containers a) (impliedForAcorns (as_Acorns a) (as_Secrets a, as_Volumes a)))
       (\<lambda>(containers, res1).
     bind_err (impliedForContainers L (as_Jobs a) res1) (\<lambda>(jobs, res2).
       Inr (a\<lparr>as_Containers := containers, as_Jobs := jobs, as_Secrets := fst res2, as_Volumes := snd res2\<rparr>)))"

definition Unmarshal_AppSpec :: "('e, 'q, 'f) lib \<Rightarrow> ('e, 'f AppSpec) dec" where
  "Unmarshal_AppSpec L j a =
     bind_err (dec_struct (appSpec_fieldset L) j a) (\<lambda>a1.
     bind_err (addImpliedResources L a1) (\<lambda>a2.
     bind_err (checkForDuplicateNames a2) (\<lambda>_. Inr a2)))"

subsection \<open>Names are unique across kinds\<close>

lemma addNames_Nil [simp]: "addNames value [] names = Inr names"
  by (simp add: addNames_def)

lemma addNames_Cons [simp]:
  "addNames value (x # m) names = bind_err (addName names (fst x) value) (addNames value m)"
  by (simp add: addNames_def)

lemma addNames_get:
  assumes "addNames value m names = Inr names'"
  shows "gm_get_or [] names' k = (if k \<in> fst ` set m then value else gm_get_or [] names k)"
  using assms
  by (induction m arbitrary: names) (auto simp: addName_def Let_def go_map split: if_splits)

lemma addNames_ok:
  assumes "value \<noteq> []"
  shows "is_ok (addNames value m names) \<longleftrightarrow> (\<forall>k\<in>fst ` set m. gm_get_or [] names k \<in> {[], value})"
  using assms
  by (induction m arbitrary: names) (auto simp: addName_def Let_def go_map)

text \<open>The six loops are one loop over the kinds, each with its names.\<close>

definition kinds :: "'f AppSpec \<Rightarrow> (string \<times> string list) list" where
  "kinds a =
     [(''container'', map fst (as_Containers a)), (''job'', map fst (as_Jobs a)), (''router'', map fst (as_Routers a)),
      (''acorn'', map fst (as_Acorns a)), (''service'', map fst (as_Services a)), (''image'', map fst (as_Images a))]"

definition addKind :: "string \<times> string list \<Rightarrow> (string, string) gomap \<Rightarrow> 'e decode_error + (string, string) gomap" where
  "addKind kind = addNames (fst kind) (map (\<lambda>k. (k, ())) (snd kind))"

lemma addKind_keys: "addKind (value, map fst m) = addNames value m"
  by (simp add: addKind_def addNames_def comp_def)

lemma checkForDuplicateNames_kinds: "checkForDuplicateNames a = fold_err addKind (kinds a) []"
  by (simp add: checkForDuplicateNames_def kinds_def addKind_keys fold_err_Nil_fun bind_err_Inr_right cong: bind_err_cong)

lemma addKinds_ok:
  assumes "distinct (map fst ks)" "[] \<notin> set (map fst ks)"
    and "\<And>k. gm_get_or [] names k \<notin> set (map fst ks)"
  shows "is_ok (fold_err addKind ks names) \<longleftrightarrow>
    sorted_wrt (\<lambda>x y. set (snd x) \<inter> set (snd y) = {}) ks \<and>
    (\<forall>x\<in>set ks. \<forall>k\<in>set (snd x). gm_get_or [] names k = [])"
  using assms
proof (induction ks arbitrary: names)
  case (Cons x ks)
  obtain v keys where x: "x = (v, keys)" by (cases x)
  have first: "is_ok (addKind x names :: 'a decode_error + _) \<longleftrightarrow> (\<forall>k\<in>set keys. gm_get_or [] names k = [])"
  proof -
    have "v \<noteq> []" "gm_get_or [] names k \<noteq> v" for k using Cons.prems(2) Cons.prems(3) [of k] x by auto
    then show ?thesis by (auto simp: addKind_def addNames_ok x)
  qed
  show ?case
  proof (cases "addKind x names :: 'a decode_error + _")
    case (Inl e)
    with first x show ?thesis by auto
  next
    case (Inr names')
    have get: "gm_get_or [] names' k = (if k \<in> set keys then v else gm_get_or [] names k)" for k
      using addNames_get [OF Inr [unfolded addKind_def x fst_conv snd_conv], of k] by (simp add: image_image)
    have "is_ok (fold_err addKind ks names' :: 'a decode_error + _) \<longleftrightarrow>
      sorted_wrt (\<lambda>x y. set (snd x) \<inter> set (snd y) = {}) ks \<and>
      (\<forall>x\<in>set ks. \<forall>k\<in>set (snd x). gm_get_or [] names' k = [])"
      using Cons.prems x by (intro Cons.IH) (auto simp: get)
    moreover have "v \<noteq> []" using Cons.prems x by auto
    ultimately show ?thesis
      using first Inr x by (auto simp: get)
  qed
qed simp

text \<open>\<open>checkForDuplicateNames\<close> accepts an app exactly when no name is used for two of its containers, jobs,
  routers, Acorns, services and images; in particular the answer does not depend on the order in which
  the maps are visited.\<close>

theorem checkForDuplicateNames_iff:
  "is_ok (checkForDuplicateNames a) \<longleftrightarrow> sorted_wrt (\<lambda>x y. set (snd x) \<inter> set (snd y) = {}) (kinds a)"
  unfolding checkForDuplicateNames_kinds
  by (subst addKinds_ok) (simp_all add: kinds_def gm_get_or_def)

subsection \<open>Everything that is used is declared\<close>

definition has_secret :: "'f resources \<Rightarrow> string \<Rightarrow> bool" where
  "has_secret res name \<longleftrightarrow> name = [] \<or> gm_has (fst res) name"

definition mount_declared :: "'f resources \<Rightarrow> VolumeMount \<Rightarrow> bool" where
  "mount_declared res m \<longleftrightarrow>
     has_secret res (vs_Name (vm_Secret m)) \<and>
     (vm_ContextDir m \<noteq> [] \<or> vs_Name (vm_Secret m) \<noteq> [] \<or> gm_has (snd res) (vm_Volume m))"

definition fields_declared :: "'f resources \<Rightarrow> container_fields \<Rightarrow> bool" where
  "fields_declared res c \<longleftrightarrow>
     list_all (\<lambda>e. has_secret res (sr_Name (ev_Secret e))) (c_Environment c) \<and>
     list_all (\<lambda>d. mount_declared res (snd d)) (c_Dirs c) \<and>
     list_all (\<lambda>f. has_secret res (sr_Name (fl_Secret (snd f)))) (c_Files c)"

definition container_declared :: "'f resources \<Rightarrow> Container \<Rightarrow> bool" where
  "container_declared res c \<longleftrightarrow>
     fields_declared res (c_fields c) \<and> list_all (\<lambda>s. fields_declared res (c_fields (snd s))) (c_Sidecars c)"

text \<open>More resources: the secrets that were there are unchanged, the volumes are still there.\<close>

definition res_le :: "'f resources \<Rightarrow> 'f resources \<Rightarrow> bool" where
  "res_le r r' \<longleftrightarrow>
     (\<forall>k s. gm_get (fst r) k = Some s \<longrightarrow> gm_get (fst r') k = Some s) \<and>
     (\<forall>k. gm_has (snd r) k \<longrightarrow> gm_has (snd r') k)"

lemma res_le_refl [simp]: "res_le r r"
  by (simp add: res_le_def)

lemma res_le_trans [trans]: "res_le a b \<Longrightarrow> res_le b c \<Longrightarrow> res_le a c"
  by (auto simp: res_le_def)

lemma has_secret_mono: "res_le r r' \<Longrightarrow> has_secret r k \<Longrightarrow> has_secret r' k"
  by (auto simp: res_le_def has_secret_def gm_has_iff)

lemma mount_declared_mono: "res_le r r' \<Longrightarrow> mount_declared r m \<Longrightarrow> mount_declared r' m"
  using has_secret_mono [of r r'] by (auto simp: mount_declared_def res_le_def)

lemma fields_declared_mono: "res_le r r' \<Longrightarrow> fields_declared r c \<Longrightarrow> fields_declared r' c"
  using has_secret_mono [of r r'] mount_declared_mono [of r r'] by (auto simp: fields_declared_def list_all_iff)

lemma container_declared_mono: "res_le r r' \<Longrightarrow> container_declared r c \<Longrightarrow> container_declared r' c"
  using fields_declared_mono [of r r'] by (auto simp: container_declared_def list_all_iff)

lemma addSecret_le: "res_le (s, v) (addSecret n s, v)"
  by (auto simp: addSecret_def res_le_def gm_has_iff go_map)

lemma addSecret_has: "n = [] \<or> gm_has (addSecret n s) n"
  by (auto simp: addSecret_def go_map)

lemma fold_addSecret:
  "res_le (s, v) (fold (\<lambda>x. addSecret (g x)) xs s, v) \<and>
   list_all (\<lambda>x. has_secret (fold (\<lambda>x. addSecret (g x)) xs s, v) (g x)) xs"
proof (induction xs arbitrary: s)
  case (Cons x xs)
  let ?r = "(fold (\<lambda>x. addSecret (g x)) xs (addSecret (g x) s), v)"
  have "res_le (addSecret (g x) s, v) ?r" "list_all (\<lambda>x. has_secret ?r (g x)) xs" using Cons.IH by auto
  moreover from this(1) have "has_secret ?r (g x)"
    by (rule has_secret_mono) (use addSecret_has in \<open>auto simp: has_secret_def\<close>)
  ultimately show ?case using addSecret_le [of s v "g x"] res_le_trans by fastforce
qed simp

lemma impliedSecrets_declared:
  assumes res_def: "res = (impliedSecretsForContainer c secrets, volumes)"
  shows "res_le (secrets, volumes) res"
    and "list_all (\<lambda>e. has_secret res (sr_Name (ev_Secret e))) (c_Environment c)"
    and "list_all (\<lambda>d. has_secret res (vs_Name (vm_Secret (snd d)))) (c_Dirs c)"
    and "list_all (\<lambda>f. has_secret res (sr_Name (fl_Secret (snd f)))) (c_Files c)"
proof -
  define s1 where "s1 = fold (\<lambda>env. addSecret (sr_Name (ev_Secret env))) (c_Environment c) secrets"
  define s2 where "s2 = fold (\<lambda>dir. addSecret (vs_Name (vm_Secret (snd dir)))) (c_Dirs c) s1"
  have res: "res = (fold (\<lambda>file. addSecret (sr_Name (fl_Secret (snd file)))) (c_Files c) s2, volumes)"
    by (simp add: res_def impliedSecretsForContainer_def s1_def s2_def)
  note f1 = fold_addSecret [where g = "\<lambda>e. sr_Name (ev_Secret e)" and xs = "c_Environment c" and s = secrets and v = volumes, folded s1_def]
  note f2 = fold_addSecret [where g = "\<lambda>d. vs_Name (vm_Secret (snd d))" and xs = "c_Dirs c" and s = s1 and v = volumes, folded s2_def]
  note f3 = fold_addSecret [where g = "\<lambda>f. sr_Name (fl_Secret (snd f))" and xs = "c_Files c" and s = s2 and v = volumes, folded res]
  have le2: "res_le (s2, volumes) res" using f3 by blast
  have le1: "res_le (s1, volumes) res" using f2 by (blast intro: res_le_trans [OF _ le2])
  show "res_le (secrets, volumes) res" using f1 by (blast intro: res_le_trans [OF _ le1])
  show "list_all (\<lambda>e. has_secret res (sr_Name (ev_Secret e))) (c_Environment c)"
    using f1 has_secret_mono [OF le1] by (simp add: list_all_iff)
  show "list_all (\<lambda>d. has_secret res (vs_Name (vm_Secret (snd d)))) (c_Dirs c)"
    using f2 has_secret_mono [OF le2] by (simp add: list_all_iff)
  show "list_all (\<lambda>f. has_secret res (sr_Name (fl_Secret (snd f)))) (c_Files c)" using f3 by blast
qed

lemma gm_has_put:
  "gm_has (case gm_get vs n of
       Some e \<Rightarrow> (case r e of None \<Rightarrow> vs | Some x \<Rightarrow> gm_set vs n x) | None \<Rightarrow> gm_set vs n y) k \<longleftrightarrow>
     k = n \<or> gm_has vs k"
  by (auto simp: gm_has_iff go_map split: option.splits)

lemma impliedVolume_declared:
  assumes "impliedVolume L cn sn path m vs = Inr (m', vs')"
  shows "gm_has vs k \<Longrightarrow> gm_has vs' k" and "vm_Secret m' = vm_Secret m"
    and "vm_ContextDir m' \<noteq> [] \<or> vs_Name (vm_Secret m') \<noteq> [] \<or> gm_has vs' (vm_Volume m')"
  using assms
  by (auto simp: impliedVolume_def bind_err_Inr Let_def gm_has_put gm_has_set split: if_splits)

lemma impliedVolumes_declared:
  assumes "impliedVolumes L cn sn dirs vs = Inr (dirs', vs')"
  shows "(\<forall>k. gm_has vs k \<longrightarrow> gm_has vs' k) \<and>
    map (\<lambda>d. vm_Secret (snd d)) dirs' = map (\<lambda>d. vm_Secret (snd d)) dirs \<and>
    list_all (\<lambda>d. vm_ContextDir (snd d) \<noteq> [] \<or> vs_Name (vm_Secret (snd d)) \<noteq> [] \<or> gm_has vs' (vm_Volume (snd d))) dirs'"
  using assms
proof (induction dirs arbitrary: vs dirs')
  case (Cons d dirs)
  obtain path m where d: "d = (path, m)" by (cases d)
  from Cons.prems d obtain m1 vs1 ds where
    one: "impliedVolume L cn sn path m vs = Inr (m1, vs1)" and
    rest: "impliedVolumes L cn sn dirs vs1 = Inr (ds, vs')" and dirs': "dirs' = (path, m1) # ds"
    by (auto simp: bind_err_Inr)
  show ?case
    using Cons.IH [OF rest] impliedVolume_declared [OF one] by (auto simp: d dirs')
qed simp

lemma impliedForFields_declared:
  assumes "impliedForFields L cn sn c res = Inr (c', res')"
  shows "res_le res res'" and "fields_declared res' c'"
proof -
  from assms obtain dirs where vols: "impliedVolumes L cn sn (c_Dirs c) (snd res) = Inr (dirs, snd res')"
    and c': "c' = c\<lparr>c_Dirs := dirs\<rparr>" and sec: "fst res' = impliedSecretsForContainer c (fst res)"
    by (auto simp: impliedForFields_def impliedVolumesForContainer_def bind_err_Inr)
  note V = impliedVolumes_declared [OF vols]
  have "res' = (impliedSecretsForContainer c (fst res), snd res')" by (simp flip: sec)
  note S = impliedSecrets_declared [OF this]
  have "res_le res (fst res, snd res')" using V by (simp add: res_le_def)
  from this S(1) show "res_le res res'" by (rule res_le_trans)
  have "has_secret res' (vs_Name (vm_Secret (snd d)))" if "d \<in> set dirs" for d
  proof -
    have "vm_Secret (snd d) \<in> (\<lambda>d. vm_Secret (snd d)) ` set (c_Dirs c)"
      using V that by (metis (no_types, lifting) imageI set_map)
    then show ?thesis using S(3) by (auto simp: list_all_iff)
  qed
  then show "fields_declared res' c'"
    using S(2,4) V by (auto simp: fields_declared_def c' list_all_iff mount_declared_def)
qed

lemma impliedForSidecars_declared:
  assumes "impliedForSidecars L cn ss res = Inr (ss', res')"
  shows "res_le res res' \<and> list_all (\<lambda>s. fields_declared res' (c_fields (snd s))) ss'"
  using assms
proof (induction ss arbitrary: res ss')
  case (Cons s ss)
  obtain name c where s: "s = (name, c)" by (cases s)
  from Cons.prems s obtain f r1 cs where
    one: "impliedForFields L cn name (c_fields c) res = Inr (f, r1)" and
    rest: "impliedForSidecars L cn ss r1 = Inr (cs, res')" and ss': "ss' = (name, Container f (c_Sidecars c)) # cs"
    by (auto simp: bind_err_Inr)
  have le: "res_le r1 res'" using Cons.IH [OF rest] by blast
  show ?case
    using Cons.IH [OF rest] impliedForFields_declared(1) [OF one, THEN res_le_trans, OF le]
      fields_declared_mono [OF le impliedForFields_declared(2) [OF one]] by (simp add: ss')
qed simp

lemma impliedForContainers_declared:
  assumes "impliedForContainers L cs res = Inr (cs', res')"
  shows "res_le res res' \<and> list_all (\<lambda>c. container_declared res' (snd c)) cs' \<and> map fst cs' = map fst cs"
  using assms
proof (induction cs arbitrary: res cs')
  case (Cons c cs)
  obtain name con where c: "c = (name, con)" by (cases c)
  from Cons.prems c obtain f r1 ss r2 ds where
    one: "impliedForFields L name [] (c_fields con) res = Inr (f, r1)" and
    sides: "impliedForSidecars L name (c_Sidecars con) r1 = Inr (ss, r2)" and
    rest: "impliedForContainers L cs r2 = Inr (ds, res')" and cs': "cs' = (name, Container f ss) # ds"
    by (auto simp: bind_err_Inr)
  note F = impliedForFields_declared [OF one] and S = impliedForSidecars_declared [OF sides] and C = Cons.IH [OF rest]
  have le2: "res_le r1 r2" and le3: "res_le r2 res'" using S C by blast+
  have "container_declared r2 (Container f ss)"
    using S fields_declared_mono [OF le2 F(2)] by (simp add: container_declared_def)
  from container_declared_mono [OF le3 this] F(1) [THEN res_le_trans, OF le2, THEN res_le_trans, OF le3] C
  show ?case by (simp add: cs' c)
qed simp

lemma impliedSecretBinding_le:
  "res_le (s, v) (impliedSecretBinding b s, v)"
  "str_contains (sc_Secret b) ''.'' \<or> gm_has (impliedSecretBinding b s) (sc_Secret b)"
  by (auto simp: impliedSecretBinding_def res_le_def gm_has_iff go_map)

lemma impliedVolumeBinding_le: "res_le (s, v) (s, impliedVolumeBinding b v)"
  by (auto simp: impliedVolumeBinding_def res_le_def go_map)

lemma impliedForAcorns_le: "res_le res (impliedForAcorns acorns res)"
proof -
  have s: "res_le (s, v) (fold impliedSecretBinding bs s, v)" for bs and s :: "(string, 'f Secret) gomap" and v
    by (induction bs arbitrary: s) (auto intro: res_le_trans [OF impliedSecretBinding_le(1)])
  have v: "res_le (s, v) (s, fold impliedVolumeBinding bs v)" for bs and s :: "(string, 'f Secret) gomap" and v
    by (induction bs arbitrary: v) (auto intro: res_le_trans [OF impliedVolumeBinding_le])
  show ?thesis
    unfolding impliedForAcorns_def
  proof (induction acorns arbitrary: res)
    case (Cons a acorns)
    obtain ss vv where res: "res = (ss, vv)" by (cases res)
    show ?case unfolding res fold_simps comp_apply prod.case
      by (rule res_le_trans [OF res_le_trans [OF s v] Cons.IH])
  qed simp
qed

lemma addImpliedResources_res:
  assumes "addImpliedResources L a = Inr a'"
  shows "res_le (as_Secrets a, as_Volumes a) (as_Secrets a', as_Volumes a') \<and>
    list_all (\<lambda>c. container_declared (as_Secrets a', as_Volumes a') (snd c)) (as_Containers a' @ as_Jobs a') \<and>
    map fst (as_Containers a') = map fst (as_Containers a) \<and> map fst (as_Jobs a') = map fst (as_Jobs a)"
proof -
  let ?r0 = "impliedForAcorns (as_Acorns a) (as_Secrets a, as_Volumes a)"
  from assms obtain cs r1 js r2 where
    one: "impliedForContainers L (as_Containers a) ?r0 = Inr (cs, r1)" and
    two: "impliedForContainers L (as_Jobs a) r1 = Inr (js, r2)" and
    a': "a' = a\<lparr>as_Containers := cs, as_Jobs := js, as_Secrets := fst r2, as_Volumes := snd r2\<rparr>"
    by (auto simp: addImpliedResources_def bind_err_Inr)
  note C = impliedForContainers_declared [OF one] and J = impliedForContainers_declared [OF two]
  have le1: "res_le ?r0 r1" and le2: "res_le r1 r2" using C J by blast+
  have "res_le (as_Secrets a, as_Volumes a) r2"
    by (rule impliedForAcorns_le [THEN res_le_trans, THEN res_le_trans, OF le1 le2])
  moreover have "list_all (\<lambda>c. container_declared r2 (snd c)) cs"
    using C container_declared_mono [OF le2] by (simp add: list_all_iff)
  ultimately show ?thesis using C J by (simp add: a')
qed



text \<open>Adding implied resources only adds: a secret that the app declares keeps its declaration, its volumes and
  the names of its containers and jobs stay, so an explicit declaration always wins over an implied one.\<close>

theorem addImpliedResources_keeps:
  assumes "addImpliedResources L a = Inr a'"
  shows "(\<forall>k s. gm_get (as_Secrets a) k = Some s \<longrightarrow> gm_get (as_Secrets a') k = Some s) \<and>
    (\<forall>k. gm_has (as_Volumes a) k \<longrightarrow> gm_has (as_Volumes a') k) \<and>
    map fst (as_Containers a') = map fst (as_Containers a) \<and> map fst (as_Jobs a') = map fst (as_Jobs a)"
  using addImpliedResources_res [OF assms] by (auto simp: res_le_def)

theorem addImpliedResources_keeps_witness:
  "gm_get [(''db'', zero_Secret\<lparr>st_Type := ''basic''\<rparr>)] ''db'' = Some (zero_Secret\<lparr>st_Type := ''basic''\<rparr>)"
proof -
  let ?s = "[(''db'', zero_Secret\<lparr>st_Type := ''basic''\<rparr>)] :: (string, unit Secret) gomap"
  let ?a = "zero_AppSpec\<lparr>as_Secrets := ?s, as_Acorns := [(''x'', zero_Acorn\<lparr>ac_Secrets := [\<lparr>sc_Secret = ''db'', sc_Target = ''db''\<rparr>]\<rparr>)]\<rparr>"
  have "addImpliedResources sample_lib ?a = Inr ?a" by code_simp
  from addImpliedResources_keeps [OF this] show ?thesis by (simp add: gm_get_def)
qed

end
