(* ===== verification/StatusTypes.thy ===== *)
theory StatusTypes
  imports AppTypes
begin

text \<open>
  The status of the parts of an app, \<open>pkg/apis/internal.acorn.io/v1/appstatus.go\<close>. Every kind of part embeds a
  \<open>CommonStatus\<close>; its record extends that record, so \<open>GetCommonStatus\<close> is the selection of the common fields.
\<close>

type_synonym DependencyType = string

definition DependencySecret :: DependencyType where "DependencySecret = ''secret''"
definition DependencyService :: DependencyType where "DependencyService = ''service''"
definition DependencyJob :: DependencyType where "DependencyJob = ''job''"
definition DependencyContainer :: DependencyType where "DependencyContainer = ''container''"

record DependencyNotFound =
  nf_DependencyType :: DependencyType
  nf_Name :: string

record ExpressionError =
  ee_DependencyNotFound :: "DependencyNotFound option"
  ee_Expression :: string
  ee_Error :: string

definition ExpressionError_String :: "ExpressionError \<Rightarrow> string" where
  "ExpressionError_String e =
     (case ee_DependencyNotFound e of
        None \<Rightarrow> ''error ['' @ ee_Error e @ ''] expression ['' @ ee_Expression e @ '']''
      | Some nf \<Rightarrow>
          if ee_Expression e \<noteq> [] then
            ''missing '' @ nf_DependencyType nf @ '' ['' @ nf_Name nf @ ''] from expression ['' @ ee_Expression e @ '']''
          else ''missing '' @ nf_DependencyType nf @ '' ['' @ nf_Name nf @ '']'')"

record ReplicasSummary =
  rs_RunningCount :: int
  rs_MaxReplicaRestartCount :: int32
  rs_TransitioningMessages :: "string list"
  rs_ErrorMessages :: "string list"

record CommonStatus =
  us_Ready :: bool
  us_UpToDate :: bool
  us_Defined :: bool
  us_LinkOverride :: string
  us_TransitioningMessages :: "string list"
  us_ErrorMessages :: "string list"

record DependencyStatus =
  de_Ready :: bool
  de_Missing :: bool
  de_DependencyType :: DependencyType

record AcornStatus = CommonStatus +
  us_AcornName :: string

type_synonym RouterStatus = CommonStatus

record 'f ServiceStatus = CommonStatus +
  us_Default :: bool
  us_Ports :: "PortDef list"
  us_Data :: "'f GenericMap"
  us_Secrets :: "string list"
  us_Address :: string
  us_Endpoint :: string
  us_ServiceAcornName :: string
  us_ServiceAcornReady :: bool
  us_ServiceErrors :: "ExpressionError list"

record SecretStatus = CommonStatus +
  us_SecretName :: string
  us_JobName :: string
  us_JobReady :: bool
  us_LookupErrors :: "string list"
  us_LookupTransitioning :: "string list"
  us_DataKeys :: "string list"

record ContainerStatus = CommonStatus +
  us_ReadyReplicaCount :: int32
  us_DesiredReplicaCount :: int32
  us_RunningReplicaCount :: int32
  us_UpToDateReplicaCount :: int32
  us_MaxReplicaRestartCount :: int32
  us_Dependencies :: "(string, DependencyStatus) gomap"
  us_ExpressionErrors :: "ExpressionError list"

record JobStatus = CommonStatus +
  us_RunningCount :: int
  us_ErrorCount :: int
  us_CreateEventSucceeded :: bool
  us_JobDependencies :: "(string, DependencyStatus) gomap"
  us_Skipped :: bool
  us_JobErrors :: "ExpressionError list"

record VolumeStatus = CommonStatus +
  us_VolumeName :: string
  us_StorageClassFound :: bool
  us_Bound :: bool

record Endpoint =
  ep_Target :: string
  ep_TargetPort :: int32
  ep_Address :: string
  ep_Protocol :: Protocol
  ep_PublishProtocol :: string
  ep_Pending :: bool

record 'f AppStatus =
  at_Containers :: "(string, ContainerStatus) gomap"
  at_Jobs :: "(string, JobStatus) gomap"
  at_Volumes :: "(string, VolumeStatus) gomap"
  at_Secrets :: "(string, SecretStatus) gomap"
  at_Acorns :: "(string, AcornStatus) gomap"
  at_Routers :: "(string, RouterStatus) gomap"
  at_Services :: "(string, 'f ServiceStatus) gomap"
  at_Endpoints :: "Endpoint list"
  at_Stopped :: bool
  at_Completed :: bool

definition GetCommonStatus :: "'a CommonStatus_scheme \<Rightarrow> CommonStatus" where
  "GetCommonStatus s = CommonStatus.truncate s"

definition zero_CommonStatus :: CommonStatus where
  "zero_CommonStatus = \<lparr>us_Ready = False, us_UpToDate = False, us_Defined = False, us_LinkOverride = [],
     us_TransitioningMessages = [], us_ErrorMessages = []\<rparr>"

definition zero_AcornStatus :: AcornStatus where
  "zero_AcornStatus = CommonStatus.extend zero_CommonStatus (AcornStatus.fields [])"

definition zero_ServiceStatus :: "'f ServiceStatus" where
  "zero_ServiceStatus = \<lparr>us_Ready = False, us_UpToDate = False, us_Defined = False, us_LinkOverride = [],
     us_TransitioningMessages = [], us_ErrorMessages = [], us_Default = False, us_Ports = [], us_Data = [], us_Secrets = [],
     us_Address = [], us_Endpoint = [], us_ServiceAcornName = [], us_ServiceAcornReady = False, us_ServiceErrors = []\<rparr>"

definition zero_SecretStatus :: SecretStatus where
  "zero_SecretStatus = CommonStatus.extend zero_CommonStatus (SecretStatus.fields [] [] False [] [] [])"

definition zero_ContainerStatus :: ContainerStatus where
  "zero_ContainerStatus = CommonStatus.extend zero_CommonStatus (ContainerStatus.fields 0 0 0 0 0 [] [])"

definition zero_JobStatus :: JobStatus where
  "zero_JobStatus = CommonStatus.extend zero_CommonStatus (JobStatus.fields 0 0 False [] False [])"

definition zero_VolumeStatus :: VolumeStatus where
  "zero_VolumeStatus = CommonStatus.extend zero_CommonStatus (VolumeStatus.fields [] False False)"

definition zero_AppStatus :: "'f AppStatus" where
  "zero_AppStatus = \<lparr>at_Containers = [], at_Jobs = [], at_Volumes = [], at_Secrets = [], at_Acorns = [], at_Routers = [],
     at_Services = [], at_Endpoints = [], at_Stopped = False, at_Completed = False\<rparr>"

lemmas zero_status_defs =
  zero_AcornStatus_def zero_ServiceStatus_def zero_SecretStatus_def zero_ContainerStatus_def
  zero_JobStatus_def zero_VolumeStatus_def zero_CommonStatus_def
  CommonStatus.defs AcornStatus.defs ServiceStatus.defs SecretStatus.defs ContainerStatus.defs
  JobStatus.defs VolumeStatus.defs

end
