(* ===== verification/Conditions.thy ===== *)
theory Conditions
  imports Prelude
begin

text \<open>
  Status conditions: \<open>pkg/apis/internal.acorn.io/v1/conditions.go\<close> and the setter of \<open>pkg/condition\<close> with which
  every controller reports. A time is a number of nanoseconds; \<open>metav1.Now()\<close> is an argument. The
  interface \<open>Conditions\<close> of an object, a pointer to its list of conditions and its generation, is the
  locale \<open>conditions_object\<close>, interpreted by the kinds of objects that have conditions. The lemmas show
  that whatever sequence of reports is made, an object has at most one condition per name, whose
  status and reason agree with its flags.
\<close>

type_synonym Time = int

record Condition =
  cn_Type :: string
  cn_Reason :: string
  cn_Message :: string
  cn_Status :: string
  cn_ObservedGeneration :: int
  cn_LastTransitionTime :: Time
  cn_Success :: bool
  cn_Error :: bool
  cn_Transitioning :: bool

text \<open>The zero \<open>metav1.Time\<close> is the beginning of the year one.\<close>

definition zero_time :: Time where "zero_time = - 62135596800000000000"

definition zero_Condition :: Condition where
  "zero_Condition = \<lparr>cn_Type = [], cn_Reason = [], cn_Message = [], cn_Status = [], cn_ObservedGeneration = 0,
     cn_LastTransitionTime = zero_time, cn_Success = False, cn_Error = False, cn_Transitioning = False\<rparr>"

definition ToReason :: "Condition \<Rightarrow> string" where
  "ToReason c = (if cn_Transitioning c then ''InProgress'' else if cn_Error c then ''Error''
     else if cn_Success c then ''Success'' else ''Success'')"

definition ToStatus :: "Condition \<Rightarrow> string" where
  "ToStatus c = (if cn_Transitioning c then ''Unknown'' else if cn_Error c then ''False''
     else if cn_Success c then ''True'' else ''True'')"

datatype panic = TypeMustBeSet

definition sameState :: "Condition \<Rightarrow> Condition \<Rightarrow> bool" where
  "sameState a b \<longleftrightarrow> cn_Success a = cn_Success b \<and> cn_Error a = cn_Error b \<and>
     cn_Transitioning a = cn_Transitioning b \<and> cn_Message a = cn_Message b"

definition Condition_Set :: "Time \<Rightarrow> Condition \<Rightarrow> Condition \<Rightarrow> int \<Rightarrow> panic + Condition" where
  "Condition_Set now c cond generation =
     (if cn_Type c = [] then Inl TypeMustBeSet
      else if sameState c cond then Inr c
      else Inr \<lparr>cn_Type = cn_Type c, cn_Reason = ToReason cond, cn_Message = cn_Message cond,
                cn_Status = ToStatus cond, cn_ObservedGeneration = generation, cn_LastTransitionTime = now,
                cn_Success = cn_Success cond, cn_Error = cn_Error cond, cn_Transitioning = cn_Transitioning cond\<rparr>)"

definition Condition_Init :: "Time \<Rightarrow> Condition \<Rightarrow> string \<Rightarrow> int \<Rightarrow> panic + Condition" where
  "Condition_Init now c name generation = Condition_Set now (zero_Condition\<lparr>cn_Type := name\<rparr>) c generation"

text \<open>The method \<open>Condition(name)\<close> of the statuses.\<close>

fun findCondition :: "Condition list \<Rightarrow> string \<Rightarrow> Condition" where
  "findCondition [] name = zero_Condition"
| "findCondition (c # cs) name = (if cn_Type c = name then c else findCondition cs name)"

subsection \<open>The setter\<close>

text \<open>
  \<open>Callback.Set\<close> on the list of conditions: the first condition of the name is replaced in place, or a
  new one is appended. The flag says whether it was appended, in which case the object is added to the
  response.
\<close>

fun setCondition :: "string \<Rightarrow> int \<Rightarrow> Time \<Rightarrow> Condition \<Rightarrow> Condition list \<Rightarrow> panic + Condition list \<times> bool" where
  "setCondition name generation now cond [] =
     bind_err (Condition_Init now cond name generation) (\<lambda>c. Inr ([c], True))"
| "setCondition name generation now cond (existing # rest) =
     (if cn_Type existing = name
      then bind_err (Condition_Set now existing cond generation) (\<lambda>c. Inr (c # rest, False))
      else bind_err (setCondition name generation now cond rest) (\<lambda>(cs, added). Inr (existing # cs, added)))"

record 'o Conditions =
  cl_get :: "'o \<Rightarrow> Condition list"
  cl_put :: "Condition list \<Rightarrow> 'o \<Rightarrow> 'o"
  cl_generation :: "'o \<Rightarrow> int"

definition Callback_Set :: "'o Conditions \<Rightarrow> string \<Rightarrow> Time \<Rightarrow> Condition \<Rightarrow> 'o \<Rightarrow> panic + 'o \<times> bool" where
  "Callback_Set l name now cond obj =
     bind_err (setCondition name (cl_generation l obj) now cond (cl_get l obj)) (\<lambda>(cs, added).
       Inr (cl_put l cs obj, added))"

definition successCondition :: Condition where
  "successCondition = zero_Condition\<lparr>cn_Success := True\<rparr>"

definition unknownCondition :: "string \<Rightarrow> Condition" where
  "unknownCondition msg = zero_Condition\<lparr>cn_Message := msg, cn_Transitioning := True\<rparr>"

text \<open>\<open>Error(nil)\<close> is a success.\<close>

definition errorCondition :: "string option \<Rightarrow> Condition" where
  "errorCondition err = (case err of None \<Rightarrow> successCondition
     | Some msg \<Rightarrow> zero_Condition\<lparr>cn_Error := True, cn_Message := msg\<rparr>)"

definition Callback_Success :: "'o Conditions \<Rightarrow> string \<Rightarrow> Time \<Rightarrow> 'o \<Rightarrow> panic + 'o \<times> bool" where
  "Callback_Success l name now = Callback_Set l name now successCondition"

definition Callback_Unknown :: "'o Conditions \<Rightarrow> string \<Rightarrow> Time \<Rightarrow> string \<Rightarrow> 'o \<Rightarrow> panic + 'o \<times> bool" where
  "Callback_Unknown l name now msg = Callback_Set l name now (unknownCondition msg)"

definition Callback_Error :: "'o Conditions \<Rightarrow> string \<Rightarrow> Time \<Rightarrow> string option \<Rightarrow> 'o \<Rightarrow> panic + 'o \<times> bool" where
  "Callback_Error l name now err = Callback_Set l name now (errorCondition err)"

subsection \<open>Correctness\<close>

definition consistent :: "Condition \<Rightarrow> bool" where
  "consistent c \<longleftrightarrow> cn_Type c \<noteq> [] \<and> cn_Status c = ToStatus c \<and> cn_Reason c = ToReason c"

definition conditions_wf :: "Condition list \<Rightarrow> bool" where
  "conditions_wf cs \<longleftrightarrow> distinct (map cn_Type cs) \<and> list_all consistent cs"

text \<open>What the three reports say; each sets a flag, so a new condition always differs from the empty one.\<close>

definition reported :: "Condition \<Rightarrow> bool" where
  "reported c \<longleftrightarrow> cn_Success c \<or> cn_Error c \<or> cn_Transitioning c"

lemma reported_simps [simp]:
  "reported successCondition" "reported (unknownCondition msg)" "reported (errorCondition err)"
  by (auto simp: reported_def successCondition_def unknownCondition_def errorCondition_def split: option.splits)

lemma Condition_Set_Inr:
  assumes "Condition_Set now c cond g = Inr c'"
  shows "cn_Type c' = cn_Type c" "cn_Type c \<noteq> []" "sameState c' cond" "consistent c \<Longrightarrow> consistent c'"
    "sameState c cond \<Longrightarrow> c' = c"
proof -
  have ty: "cn_Type c \<noteq> []" using assms by (auto simp: Condition_Set_def)
  show "cn_Type c \<noteq> []" by (rule ty)
  show "cn_Type c' = cn_Type c" "sameState c' cond" "sameState c cond \<Longrightarrow> c' = c"
    using assms ty by (auto simp: Condition_Set_def sameState_def split: if_splits)
  show "consistent c'" if "consistent c"
  proof (cases "sameState c cond")
    case False
    with assms ty show ?thesis by (auto simp: Condition_Set_def consistent_def ToStatus_def ToReason_def)
  qed (use assms ty that in \<open>auto simp: Condition_Set_def\<close>)
qed

lemma Condition_Init_Inr:
  assumes "Condition_Init now cond name g = Inr c"
  shows "cn_Type c = name" "name \<noteq> []" "sameState c cond" "reported cond \<Longrightarrow> consistent c"
proof -
  note * = Condition_Set_Inr [OF assms [unfolded Condition_Init_def]]
  show "cn_Type c = name" "name \<noteq> []" "sameState c cond" using * by simp_all
  assume "reported cond"
  then have "\<not> sameState (zero_Condition\<lparr>cn_Type := name\<rparr>) cond"
    by (auto simp: sameState_def reported_def zero_Condition_def)
  then show "consistent c"
    using assms * by (simp add: Condition_Init_def Condition_Set_def) (auto simp: consistent_def ToStatus_def ToReason_def)
qed

lemma setCondition_types:
  "setCondition name g now cond cs = Inr (cs', added) \<Longrightarrow>
     map cn_Type cs' = (if added then map cn_Type cs @ [name] else map cn_Type cs) \<and>
     (added \<longleftrightarrow> name \<notin> cn_Type ` set cs)"
  by (induction cs arbitrary: cs' added)
    (auto simp: bind_err_Inr Condition_Init_Inr Condition_Set_Inr split: if_splits prod.splits)

lemma setCondition_wf:
  assumes "setCondition name g now cond cs = Inr (cs', added)" "reported cond" "conditions_wf cs"
  shows "conditions_wf cs'"
proof -
  have "list_all consistent cs'"
    using assms by (induction cs arbitrary: cs' added)
      (auto simp: conditions_wf_def bind_err_Inr Condition_Init_Inr Condition_Set_Inr(4) split: if_splits prod.splits)
  moreover have "distinct (map cn_Type cs')"
    using setCondition_types [OF assms(1)] assms(3) by (auto simp: conditions_wf_def)
  ultimately show ?thesis by (simp add: conditions_wf_def)
qed

lemma setCondition_find:
  assumes "setCondition name g now cond cs = Inr (cs', added)"
  shows "cn_Type (findCondition cs' name) = name \<and> sameState (findCondition cs' name) cond"
    and "k \<noteq> name \<Longrightarrow> findCondition cs' k = findCondition cs k"
  using assms
  by (induction cs arbitrary: cs' added)
    (auto simp: bind_err_Inr Condition_Init_Inr Condition_Set_Inr split: if_splits prod.splits)

lemma setCondition_same:
  assumes "name \<in> cn_Type ` set cs" "name \<noteq> []" "sameState (findCondition cs name) cond"
  shows "setCondition name g now cond cs = Inr (cs, False)"
  using assms by (induction cs) (auto simp: Condition_Set_def split: if_splits)

lemma setCondition_ok: "name \<noteq> [] \<Longrightarrow> is_ok (setCondition name g now cond cs)"
  by (induction cs) (auto simp: is_ok_iff Condition_Init_def Condition_Set_def bind_err_Inr)

text \<open>The reports a controller can make over the life of an object, whose generation may change in between.\<close>

inductive reported_conditions :: "Condition list \<Rightarrow> bool" where
  none: "reported_conditions []"
| success: "reported_conditions cs \<Longrightarrow> setCondition name g now successCondition cs = Inr (cs', added) \<Longrightarrow>
    reported_conditions cs'"
| unknown: "reported_conditions cs \<Longrightarrow> setCondition name g now (unknownCondition msg) cs = Inr (cs', added) \<Longrightarrow>
    reported_conditions cs'"
| error: "reported_conditions cs \<Longrightarrow> setCondition name g now (errorCondition err) cs = Inr (cs', added) \<Longrightarrow>
    reported_conditions cs'"

lemma reported_conditions_wf: "reported_conditions cs \<Longrightarrow> conditions_wf cs"
  by (induction rule: reported_conditions.induct)
    (use setCondition_wf in \<open>auto simp: conditions_wf_def [of "[]"]\<close>)

text \<open>The objects that have conditions.\<close>

locale conditions_object =
  fixes l :: "'o Conditions"
  assumes get_put: "cl_get l (cl_put l cs obj) = cs"
    and generation_put: "cl_generation l (cl_put l cs obj) = cl_generation l obj"
    and put_get: "cl_put l (cl_get l obj) obj = obj"
begin

lemma set_reports:
  assumes "Callback_Set l name now cond obj = Inr (obj', added)"
  shows "sameState (findCondition (cl_get l obj') name) cond"
    and "cn_Type (findCondition (cl_get l obj') name) = name"
    and "k \<noteq> name \<Longrightarrow> findCondition (cl_get l obj') k = findCondition (cl_get l obj) k"
    and "cl_generation l obj' = cl_generation l obj"
    and "added \<longleftrightarrow> name \<notin> cn_Type ` set (cl_get l obj)"
proof -
  from assms obtain cs where
    cs: "setCondition name (cl_generation l obj) now cond (cl_get l obj) = Inr (cs, added)" and obj': "obj' = cl_put l cs obj"
    by (auto simp: Callback_Set_def bind_err_Inr)
  from setCondition_find [OF cs] setCondition_types [OF cs]
  show "sameState (findCondition (cl_get l obj') name) cond"
    "cn_Type (findCondition (cl_get l obj') name) = name"
    "k \<noteq> name \<Longrightarrow> findCondition (cl_get l obj') k = findCondition (cl_get l obj) k"
    "cl_generation l obj' = cl_generation l obj" "added \<longleftrightarrow> name \<notin> cn_Type ` set (cl_get l obj)"
    by (simp_all add: obj' get_put generation_put)
qed

lemma set_unchanged:
  assumes "name \<in> cn_Type ` set (cl_get l obj)" "name \<noteq> []" "sameState (findCondition (cl_get l obj) name) cond"
  shows "Callback_Set l name now cond obj = Inr (obj, False)"
  using setCondition_same [OF assms] by (simp add: Callback_Set_def put_get)

lemma set_ok: "name \<noteq> [] \<Longrightarrow> is_ok (Callback_Set l name now cond obj)"
  using setCondition_ok [of name "cl_generation l obj" now cond "cl_get l obj"]
  by (auto simp: Callback_Set_def is_ok_iff bind_err_Inr)

lemma set_twice:
  assumes "Callback_Set l name now cond obj = Inr (obj', added)" "name \<noteq> []"
  shows "Callback_Set l name now' cond obj' = Inr (obj', False)"
proof (rule set_unchanged)
  obtain cs where "setCondition name (cl_generation l obj) now cond (cl_get l obj) = Inr (cs, added)" "obj' = cl_put l cs obj"
    using assms(1) by (auto simp: Callback_Set_def bind_err_Inr)
  then show "name \<in> cn_Type ` set (cl_get l obj')"
    using setCondition_types get_put by (metis (no_types, lifting) in_set_conv_decomp list.set_map)
qed (use set_reports [OF assms(1)] assms(2) in auto)

end

end
