(* ===== verification/AppInstances.thy ===== *)
theory AppInstances
  imports StatusTypes Conditions
begin

text \<open>
  The objects the controllers work on, \<open>appinstance.go\<close>, \<open>projectinstance.go\<close> and \<open>appimage.go\<close> of
  \<open>pkg/apis/internal.acorn.io/v1\<close>: metadata, what the user asked for and what the controllers have found out. The lemmas show how the region, the profiles
  and the permissions of an app are resolved and that an app has conditions.
\<close>

record ObjectMeta =
  om_Name :: string
  om_Namespace :: string
  om_UID :: string
  om_Generation :: int
  om_Labels :: "(string, string) gomap"
  om_Annotations :: "(string, string) gomap"
  om_CreationTimestamp :: Time
  om_DeletionTimestamp :: "Time option"

record 'f AppInstanceSpec =
  ai_Region :: string
  ai_Labels :: "ScopedLabel list"
  ai_Annotations :: "ScopedLabel list"
  ai_Image :: string
  ai_Stop :: "bool option"
  ai_Profiles :: "string list"
  ai_Volumes :: "VolumeBinding list"
  ai_Secrets :: "SecretBinding list"
  ai_Environment :: "NameValue list"
  ai_PublishMode :: PublishMode
  ai_TargetNamespace :: string
  ai_Links :: "ServiceBinding list"
  ai_Publish :: "PortBinding list"
  ai_DeployArgs :: "'f GenericMap"
  ai_Permissions :: "Permissions list"
  ai_ImageGrantedPermissions :: "Permissions list"
  ai_AutoUpgrade :: "bool option"
  ai_NotifyUpgrade :: "bool option"
  ai_AutoUpgradeInterval :: string
  ai_ComputeClasses :: ComputeClassMap
  ai_Memory :: MemoryMap

record VCS =
  vcs_Remotes :: "string list"
  vcs_Revision :: string
  vcs_Clean :: bool
  vcs_Modified :: bool
  vcs_Untracked :: bool

record 'f AppImage =
  ig_ID :: string
  ig_Name :: string
  ig_Digest :: string
  ig_Acornfile :: string
  ig_BuildArgs :: "'f GenericMap"
  ig_VCS :: VCS

record Defaults =
  df_Volumes :: "(string, VolumeDefault) gomap"
  df_Memory :: MemoryMap
  df_Region :: string

text \<open>
  \<open>Scheduling.Requirements\<close> by resource name, where \<open>'q\<close> is a \<open>resource.Quantity\<close>. The affinity is only handed on:
  it is kept as its text.
\<close>

type_synonym Affinity = string

record Toleration =
  tn_Key :: string
  tn_Operator :: string
  tn_Value :: string
  tn_Effect :: string
  tn_Seconds :: "int option"

record 'q Scheduling =
  sg_Requests :: "(string, 'q) gomap"
  sg_Limits :: "(string, 'q) gomap"
  sg_Affinity :: "Affinity option"
  sg_Tolerations :: "Toleration list"
  sg_PriorityClassName :: string

record AppColumns =
  co_Healthy :: string
  co_UpToDate :: string
  co_Message :: string
  co_Endpoints :: string

record ('f, 'q) AppInstanceStatus =
  is_DevSession :: bool
  is_ObservedGeneration :: int
  is_ObservedImageDigest :: string
  is_ObservedAutoUpgrade :: bool
  is_Columns :: AppColumns
  is_Ready :: bool
  is_Namespace :: string
  is_AppImage :: "'f AppImage"
  is_AvailableAppImage :: string
  is_ConfirmUpgradeAppImage :: string
  is_AppSpec :: "'f AppSpec"
  is_AppStatus :: "'f AppStatus"
  is_Scheduling :: "(string, 'q Scheduling) gomap"
  is_Conditions :: "Condition list"
  is_Defaults :: Defaults

record ('f, 'q) AppInstance =
  app_Meta :: ObjectMeta
  app_Spec :: "'f AppInstanceSpec"
  app_Status :: "('f, 'q) AppInstanceStatus"

definition zero_ObjectMeta :: ObjectMeta where
  "zero_ObjectMeta = \<lparr>om_Name = [], om_Namespace = [], om_UID = [], om_Generation = 0, om_Labels = [],
     om_Annotations = [], om_CreationTimestamp = zero_time, om_DeletionTimestamp = None\<rparr>"

definition zero_AppInstanceSpec :: "'f AppInstanceSpec" where
  "zero_AppInstanceSpec = \<lparr>ai_Region = [], ai_Labels = [], ai_Annotations = [], ai_Image = [], ai_Stop = None,
     ai_Profiles = [], ai_Volumes = [], ai_Secrets = [], ai_Environment = [], ai_PublishMode = [],
     ai_TargetNamespace = [], ai_Links = [], ai_Publish = [], ai_DeployArgs = [], ai_Permissions = [],
     ai_ImageGrantedPermissions = [], ai_AutoUpgrade = None, ai_NotifyUpgrade = None,
     ai_AutoUpgradeInterval = [], ai_ComputeClasses = [], ai_Memory = []\<rparr>"

definition zero_AppImage :: "'f AppImage" where
  "zero_AppImage = \<lparr>ig_ID = [], ig_Name = [], ig_Digest = [], ig_Acornfile = [], ig_BuildArgs = [],
     ig_VCS = \<lparr>vcs_Remotes = [], vcs_Revision = [], vcs_Clean = False, vcs_Modified = False, vcs_Untracked = False\<rparr>\<rparr>"

definition zero_AppInstanceStatus :: "('f, 'q) AppInstanceStatus" where
  "zero_AppInstanceStatus = \<lparr>is_DevSession = False, is_ObservedGeneration = 0, is_ObservedImageDigest = [],
     is_ObservedAutoUpgrade = False, is_Columns = \<lparr>co_Healthy = [], co_UpToDate = [], co_Message = [], co_Endpoints = []\<rparr>,
     is_Ready = False, is_Namespace = [],
     is_AppImage = zero_AppImage, is_AvailableAppImage = [], is_ConfirmUpgradeAppImage = [],
     is_AppSpec = zero_AppSpec, is_AppStatus = zero_AppStatus, is_Scheduling = [], is_Conditions = [],
     is_Defaults = \<lparr>df_Volumes = [], df_Memory = [], df_Region = []\<rparr>\<rparr>"

definition zero_AppInstance :: "('f, 'q) AppInstance" where
  "zero_AppInstance = \<lparr>app_Meta = zero_ObjectMeta, app_Spec = zero_AppInstanceSpec, app_Status = zero_AppInstanceStatus\<rparr>"

subsection \<open>Accessors\<close>

definition HasRegion :: "('f, 'q) AppInstance \<Rightarrow> string \<Rightarrow> bool" where
  "HasRegion a region \<longleftrightarrow> df_Region (is_Defaults (app_Status a)) = region \<or> ai_Region (app_Spec a) = region"

definition GetRegion :: "('f, 'q) AppInstance \<Rightarrow> string" where
  "GetRegion a = (if ai_Region (app_Spec a) \<noteq> [] then ai_Region (app_Spec a) else df_Region (is_Defaults (app_Status a)))"

definition setDefaultRegion :: "string \<Rightarrow> ('f, 'q) AppInstance \<Rightarrow> ('f, 'q) AppInstance" where
  "setDefaultRegion r a =
     a\<lparr>app_Status := (app_Status a)\<lparr>is_Defaults := (is_Defaults (app_Status a))\<lparr>df_Region := r\<rparr>\<rparr>\<rparr>"

definition SetDefaultRegion :: "('f, 'q) AppInstance \<Rightarrow> string \<Rightarrow> ('f, 'q) AppInstance" where
  "SetDefaultRegion a region =
     (if ai_Region (app_Spec a) = [] then
        (if df_Region (is_Defaults (app_Status a)) = [] then setDefaultRegion region a else a)
      else setDefaultRegion [] a)"

definition ShortID :: "('f, 'q) AppInstance \<Rightarrow> string" where
  "ShortID a = (if length (om_UID (app_Meta a)) > 11 then take 12 (om_UID (app_Meta a)) else om_UID (app_Meta a))"

definition GetPermissions :: "'f AppInstanceSpec \<Rightarrow> Permissions list" where
  "GetPermissions s = ai_Permissions s @ ai_ImageGrantedPermissions s"

definition GetStopped :: "('f, 'q) AppInstance \<Rightarrow> bool" where
  "GetStopped a \<longleftrightarrow> ai_Stop (app_Spec a) = Some True \<and> om_DeletionTimestamp (app_Meta a) = None"

definition GetAutoUpgrade :: "'f AppInstanceSpec \<Rightarrow> bool" where
  "GetAutoUpgrade s \<longleftrightarrow> ai_AutoUpgrade s = Some True"

definition GetNotifyUpgrade :: "'f AppInstanceSpec \<Rightarrow> bool" where
  "GetNotifyUpgrade s \<longleftrightarrow> ai_NotifyUpgrade s = Some True"

definition addProfile :: "string list \<Rightarrow> string \<Rightarrow> string list" where
  "addProfile profiles toAdd =
     (let optional = str_has_suffix toAdd ''?'';
          nonOptionalName = butlast toAdd;
          found = list_ex (\<lambda>profile. profile = toAdd \<or> optional \<and> profile = nonOptionalName) profiles
      in if \<not> found then toAdd # profiles else profiles)"

definition GetProfiles :: "'f AppInstanceSpec \<Rightarrow> bool \<Rightarrow> string list" where
  "GetProfiles s devMode =
     (let profiles = ai_Profiles s;
          profiles = (if devMode then addProfile profiles ''devMode?'' else profiles)
      in if GetAutoUpgrade s then addProfile profiles ''autoUpgrade?'' else profiles)"

definition GetDevMode :: "('f, 'q) AppInstanceStatus \<Rightarrow> bool" where
  "GetDevMode s = is_DevSession s"

definition AppInstanceStatus_Condition :: "('f, 'q) AppInstanceStatus \<Rightarrow> string \<Rightarrow> Condition" where
  "AppInstanceStatus_Condition s name = findCondition (is_Conditions s) name"

definition AppInstance_Conditions :: "('f, 'q) AppInstance Conditions" where
  "AppInstance_Conditions =
     \<lparr>cl_get = (\<lambda>a. is_Conditions (app_Status a)),
      cl_put = (\<lambda>cs a. a\<lparr>app_Status := (app_Status a)\<lparr>is_Conditions := cs\<rparr>\<rparr>),
      cl_generation = (\<lambda>a. om_Generation (app_Meta a))\<rparr>"

interpretation app: conditions_object AppInstance_Conditions
  by unfold_locales (simp_all add: AppInstance_Conditions_def)

subsection \<open>Projects\<close>

record ProjectInstance =
  pj_SpecDefaultRegion :: string
  pj_SpecSupportedRegions :: "string list"
  pj_DefaultRegion :: string
  pj_SupportedRegions :: "string list"

definition LocalRegion :: string where "LocalRegion = ''local''"
definition AllRegions :: string where "AllRegions = ''*''"

definition Project_HasRegion :: "ProjectInstance \<Rightarrow> string \<Rightarrow> bool" where
  "Project_HasRegion p region \<longleftrightarrow> region = [] \<or> region \<in> set (pj_SupportedRegions p)"

definition Project_GetRegion :: "ProjectInstance \<Rightarrow> string" where
  "Project_GetRegion p = pj_DefaultRegion p"

definition Project_SetDefaultRegion :: "ProjectInstance \<Rightarrow> string \<Rightarrow> ProjectInstance" where
  "Project_SetDefaultRegion p region =
     (if pj_SpecDefaultRegion p = [] \<and> length (pj_SpecSupportedRegions p) = 0
      then p\<lparr>pj_DefaultRegion := region, pj_SupportedRegions := [''*'']\<rparr>
      else p\<lparr>pj_DefaultRegion := pj_SpecDefaultRegion p, pj_SupportedRegions := pj_SpecSupportedRegions p\<rparr>)"

text \<open>The handler of \<open>pkg/project/handlers.go\<close> and the validator of \<open>projects/validator.go\<close>.\<close>

definition SetProjectSupportedRegions :: "ProjectInstance \<Rightarrow> ProjectInstance" where
  "SetProjectSupportedRegions p0 =
     (let p = Project_SetDefaultRegion p0 LocalRegion
      in if AllRegions \<in> set (pj_SupportedRegions p)
         then p\<lparr>pj_SupportedRegions := [pj_DefaultRegion p] @ (if pj_DefaultRegion p \<noteq> LocalRegion then [LocalRegion] else [])\<rparr>
         else p)"

definition Project_Validate :: "ProjectInstance \<Rightarrow> bool" where
  "Project_Validate p \<longleftrightarrow>
     \<not> (pj_SpecDefaultRegion p \<noteq> [] \<and> pj_SpecDefaultRegion p \<notin> set (pj_SpecSupportedRegions p) \<and>
        AllRegions \<notin> set (pj_SpecSupportedRegions p))"

text \<open>Objects that live in a region: an object is in the region it names.\<close>

locale regional =
  fixes has_region :: "'o \<Rightarrow> string \<Rightarrow> bool" and get_region :: "'o \<Rightarrow> string" and set_default :: "'o \<Rightarrow> string \<Rightarrow> 'o"
  assumes in_own_region: "has_region obj (get_region obj)"
    and default_fills: "get_region obj = [] \<Longrightarrow> get_region (set_default obj region) = region"
begin

lemma default_in_region: "get_region obj = [] \<Longrightarrow> has_region (set_default obj region) region"
  using in_own_region [of "set_default obj region"] default_fills [of obj region] by simp

end

interpretation app_region: regional HasRegion GetRegion SetDefaultRegion
  by unfold_locales (auto simp: HasRegion_def GetRegion_def SetDefaultRegion_def setDefaultRegion_def split: if_splits)

lemma GetRegion_SetDefaultRegion:
  "GetRegion (SetDefaultRegion a region) = (if GetRegion a = [] then region else GetRegion a)"
  by (auto simp: GetRegion_def SetDefaultRegion_def setDefaultRegion_def)

subsection \<open>Correctness\<close>

text \<open>However controllers report on an object, by success, progress or error, under whatever names and
  generations, the list of its conditions keeps at most one condition per name, and the status and the
  reason of each agree with its flags.\<close>

theorem conditions_invariant:
  assumes "reported_conditions cs"
  shows "conditions_wf cs"
  using assms by (rule reported_conditions_wf)

theorem conditions_invariant_witness:
  "conditions_wf [\<lparr>cn_Type = ''pull'', cn_Reason = ''Error'', cn_Message = ''boom'', cn_Status = ''False'',
     cn_ObservedGeneration = 2, cn_LastTransitionTime = 7, cn_Success = False, cn_Error = True, cn_Transitioning = False\<rparr>]"
proof (rule conditions_invariant)
  let ?c = "\<lparr>cn_Type = ''pull'', cn_Reason = ''Success'', cn_Message = [], cn_Status = ''True'',
     cn_ObservedGeneration = 1, cn_LastTransitionTime = 5, cn_Success = True, cn_Error = False, cn_Transitioning = False\<rparr>"
  have "reported_conditions [?c]"
    by (rule reported_conditions.success [OF reported_conditions.none, where name = "''pull''" and g = 1 and now = 5 and added = True])
      code_simp
  then show "reported_conditions [\<lparr>cn_Type = ''pull'', cn_Reason = ''Error'', cn_Message = ''boom'', cn_Status = ''False'',
     cn_ObservedGeneration = 2, cn_LastTransitionTime = 7, cn_Success = False, cn_Error = True, cn_Transitioning = False\<rparr>]"
    by (rule reported_conditions.error [where name = "''pull''" and g = 2 and now = 7 and err = "Some ''boom''" and added = False])
      code_simp
qed

text \<open>A report on an app sets the condition of its name to the reported state and leaves the others alone, adds
  the app to the response exactly when the condition is new, and is idempotent: the same report again
  changes nothing, not even the time of the last transition.\<close>

theorem Callback_Set_app:
  assumes "Callback_Set AppInstance_Conditions name now cond a = Inr (a', added)" and "name \<noteq> []"
  shows "sameState (AppInstanceStatus_Condition (app_Status a') name) cond \<and>
    (k = name \<or> AppInstanceStatus_Condition (app_Status a') k = AppInstanceStatus_Condition (app_Status a) k) \<and>
    (added \<longleftrightarrow> name \<notin> cn_Type ` set (is_Conditions (app_Status a))) \<and>
    Callback_Set AppInstance_Conditions name later cond a' = Inr (a', False)"
  using app.set_reports [OF assms(1)] app.set_twice [OF assms]
  by (auto simp: AppInstanceStatus_Condition_def AppInstance_Conditions_def)

theorem Callback_Set_app_witness:
  "\<exists>a'. Callback_Set AppInstance_Conditions ''pull'' 5 successCondition (zero_AppInstance :: (unit, unit) AppInstance) = Inr (a', True) \<and>
    cn_Success (AppInstanceStatus_Condition (app_Status a') ''pull'') \<and>
    Callback_Set AppInstance_Conditions ''pull'' 9 successCondition a' = Inr (a', False)"
proof -
  let ?a = "zero_AppInstance :: (unit, unit) AppInstance"
  obtain a' added where *: "Callback_Set AppInstance_Conditions ''pull'' 5 successCondition ?a = Inr (a', added)"
    using app.set_ok [of "''pull''" 5 successCondition ?a] by (auto simp: is_ok_iff)
  from Callback_Set_app [OF * _, of "''pull''" 9]
  have "sameState (AppInstanceStatus_Condition (app_Status a') ''pull'') successCondition" "added"
    "Callback_Set AppInstance_Conditions ''pull'' 9 successCondition a' = Inr (a', False)"
    by (auto simp: zero_AppInstance_def zero_AppInstanceStatus_def)
  with * show ?thesis by (auto simp: sameState_def successCondition_def)
qed

text \<open>A project that passes validation supports its own default region once the handler has run; if it allows all
  regions, or names none, it supports the local region too.\<close>

theorem project_default_region:
  assumes "Project_Validate p"
  shows "Project_HasRegion (SetProjectSupportedRegions p) (Project_GetRegion (SetProjectSupportedRegions p)) \<and>
    (AllRegions \<in> set (pj_SpecSupportedRegions p) \<or> pj_SpecSupportedRegions p = [] \<longrightarrow>
       Project_HasRegion (SetProjectSupportedRegions p) LocalRegion)"
  using assms
  by (auto simp: Project_Validate_def SetProjectSupportedRegions_def Project_SetDefaultRegion_def Project_HasRegion_def
      Project_GetRegion_def AllRegions_def LocalRegion_def Let_def split: if_splits)

theorem project_default_region_witness:
  "let p = SetProjectSupportedRegions \<lparr>pj_SpecDefaultRegion = ''east'', pj_SpecSupportedRegions = [''*''],
       pj_DefaultRegion = [], pj_SupportedRegions = []\<rparr>
   in pj_SupportedRegions p = [''east'', ''local''] \<and> Project_HasRegion p (Project_GetRegion p)"
proof -
  let ?p = "\<lparr>pj_SpecDefaultRegion = ''east'', pj_SpecSupportedRegions = [''*''], pj_DefaultRegion = [], pj_SupportedRegions = []\<rparr>"
  have "Project_Validate ?p" by code_simp
  moreover have "pj_SupportedRegions (SetProjectSupportedRegions ?p) = [''east'', ''local'']" by code_simp
  ultimately show ?thesis unfolding Let_def using project_default_region [of ?p] by blast
qed

end
