(* ===== verification/Quota.thy ===== *)
theory Quota
  imports AppInstances
begin

text \<open>
  Quota: the resources of a request (\<open>resources.go\<close>, \<open>quotarequests.go\<close> of
  \<open>pkg/apis/internal.admin.acorn.io/v1\<close>) and the controller that asks for quota and holds an app back until it is
  granted (\<open>pkg/controller/quota/quota.go\<close>). A \<open>resource.Quantity\<close> is a value of type \<open>'q\<close> with the operations
  of \<open>quantity\<close>; \<open>quantity_laws\<close> states what the package documents of them, for the number a quantity stands
  for. Reading a project and a quota request from the cluster are arguments. The counts are
  unbounded integers.
\<close>

record 'q quantity =
  q_zero :: 'q
  q_add :: "'q \<Rightarrow> 'q \<Rightarrow> 'q"
  q_sub :: "'q \<Rightarrow> 'q \<Rightarrow> 'q"
  q_cmp :: "'q \<Rightarrow> 'q \<Rightarrow> int"
  q_isZero :: "'q \<Rightarrow> bool"

definition quantity_laws :: "'q quantity \<Rightarrow> ('q \<Rightarrow> int) \<Rightarrow> bool" where
  "quantity_laws Q val \<longleftrightarrow>
     val (q_zero Q) = 0 \<and>
     (\<forall>a b. val (q_add Q a b) = val a + val b) \<and>
     (\<forall>a b. val (q_sub Q a b) = val a - val b) \<and>
     (\<forall>a b. q_cmp Q a b = (if val a < val b then - 1 else if val a = val b then 0 else 1)) \<and>
     (\<forall>a. q_isZero Q a \<longleftrightarrow> val a = 0)"

subsection \<open>Resources\<close>

record 'q Resources =
  rs_Unlimited :: bool
  rs_Apps :: int
  rs_Containers :: int
  rs_Jobs :: int
  rs_Volumes :: int
  rs_Secrets :: int
  rs_Images :: int
  rs_Projects :: int
  rs_VolumeStorage :: 'q
  rs_Memory :: 'q
  rs_CPU :: 'q

definition zero_Resources :: "'q quantity \<Rightarrow> 'q Resources" where
  "zero_Resources Q = \<lparr>rs_Unlimited = False, rs_Apps = 0, rs_Containers = 0, rs_Jobs = 0, rs_Volumes = 0,
     rs_Secrets = 0, rs_Images = 0, rs_Projects = 0, rs_VolumeStorage = q_zero Q, rs_Memory = q_zero Q, rs_CPU = q_zero Q\<rparr>"

definition Resources_Add :: "'q quantity \<Rightarrow> 'q Resources \<Rightarrow> 'q Resources \<Rightarrow> 'q Resources" where
  "Resources_Add Q current incoming =
     current\<lparr>rs_Apps := rs_Apps current + rs_Apps incoming,
       rs_Containers := rs_Containers current + rs_Containers incoming,
       rs_Jobs := rs_Jobs current + rs_Jobs incoming,
       rs_Volumes := rs_Volumes current + rs_Volumes incoming,
       rs_Secrets := rs_Secrets current + rs_Secrets incoming,
       rs_Images := rs_Images current + rs_Images incoming,
       rs_Projects := rs_Projects current + rs_Projects incoming,
       rs_VolumeStorage := q_add Q (rs_VolumeStorage current) (rs_VolumeStorage incoming),
       rs_Memory := q_add Q (rs_Memory current) (rs_Memory incoming),
       rs_CPU := q_add Q (rs_CPU current) (rs_CPU incoming)\<rparr>"

definition nonNegativeSubtract :: "int \<Rightarrow> int \<Rightarrow> int" where
  "nonNegativeSubtract currentVal incomingVal =
     (let difference = currentVal - incomingVal in if difference < 0 then 0 else difference)"

definition Resources_Remove :: "'q quantity \<Rightarrow> 'q Resources \<Rightarrow> 'q Resources \<Rightarrow> bool \<Rightarrow> 'q Resources" where
  "Resources_Remove Q current incoming all =
     (let r = current\<lparr>rs_Apps := nonNegativeSubtract (rs_Apps current) (rs_Apps incoming),
            rs_Containers := nonNegativeSubtract (rs_Containers current) (rs_Containers incoming),
            rs_Jobs := nonNegativeSubtract (rs_Jobs current) (rs_Jobs incoming),
            rs_Volumes := nonNegativeSubtract (rs_Volumes current) (rs_Volumes incoming),
            rs_Images := nonNegativeSubtract (rs_Images current) (rs_Images incoming),
            rs_Projects := nonNegativeSubtract (rs_Projects current) (rs_Projects incoming),
            rs_Memory := q_sub Q (rs_Memory current) (rs_Memory incoming),
            rs_CPU := q_sub Q (rs_CPU current) (rs_CPU incoming)\<rparr>
      in if all
         then r\<lparr>rs_Secrets := nonNegativeSubtract (rs_Secrets r) (rs_Secrets incoming),
                rs_VolumeStorage := q_sub Q (rs_VolumeStorage r) (rs_VolumeStorage incoming)\<rparr>
         else r)"

text \<open>The names of the exceeded resources; the error is nil when there are none.\<close>

definition Resources_Fits :: "'q quantity \<Rightarrow> 'q Resources \<Rightarrow> 'q Resources \<Rightarrow> string list" where
  "Resources_Fits Q current incoming =
     map fst (filter snd
       [(''Apps'', rs_Apps current \<le> rs_Apps incoming),
        (''Containers'', rs_Containers current \<le> rs_Containers incoming),
        (''Jobs'', rs_Jobs current \<le> rs_Jobs incoming),
        (''Volumes'', rs_Volumes current \<le> rs_Volumes incoming),
        (''Secrets'', rs_Secrets current \<le> rs_Secrets incoming),
        (''Images'', rs_Images current \<le> rs_Images incoming),
        (''Projects'', rs_Projects current \<le> rs_Projects incoming),
        (''VolumeStorage'', q_cmp Q (rs_VolumeStorage current) (rs_VolumeStorage incoming) \<le> 0),
        (''Memory'', q_cmp Q (rs_Memory current) (rs_Memory incoming) \<le> 0),
        (''Cpu'', q_cmp Q (rs_CPU current) (rs_CPU incoming) \<le> 0)])"

definition NonEmptyString :: "'q quantity \<Rightarrow> 'q Resources \<Rightarrow> string" where
  "NonEmptyString Q current =
     str_join '', '' (map fst (filter snd
       [(''Apps'', rs_Apps current > 0), (''Containers'', rs_Containers current > 0), (''Jobs'', rs_Jobs current > 0),
        (''Volumes'', rs_Volumes current > 0), (''Secrets'', rs_Secrets current > 0), (''Images'', rs_Images current > 0),
        (''Projects'', rs_Projects current > 0), (''VolumeStorage'', \<not> q_isZero Q (rs_VolumeStorage current)),
        (''Memory'', \<not> q_isZero Q (rs_Memory current)), (''Cpu'', \<not> q_isZero Q (rs_CPU current))]))"

definition Resources_Equals :: "'q quantity \<Rightarrow> 'q Resources \<Rightarrow> 'q Resources \<Rightarrow> bool" where
  "Resources_Equals Q current incoming \<longleftrightarrow>
     rs_Unlimited current = rs_Unlimited incoming \<and> rs_Apps current = rs_Apps incoming \<and>
     rs_Containers current = rs_Containers incoming \<and> rs_Jobs current = rs_Jobs incoming \<and>
     rs_Volumes current = rs_Volumes incoming \<and> rs_Secrets current = rs_Secrets incoming \<and>
     rs_Images current = rs_Images incoming \<and> rs_Projects current = rs_Projects incoming \<and>
     q_cmp Q (rs_VolumeStorage current) (rs_VolumeStorage incoming) = 0 \<and>
     q_cmp Q (rs_Memory current) (rs_Memory incoming) = 0 \<and>
     q_cmp Q (rs_CPU current) (rs_CPU incoming) = 0"

subsection \<open>Requests\<close>

definition QuotaRequestCondition :: string where "QuotaRequestCondition = ''quota-request''"
definition AppInstanceConditionQuotaAllocated :: string where "AppInstanceConditionQuotaAllocated = ''quota-allocated''"
definition ProjectEnforcedQuotaAnnotation :: string where
  "ProjectEnforcedQuotaAnnotation = ''acorn.io/enforced-quota''"

record 'q QuotaRequestInstance =
  qr_Meta :: ObjectMeta
  qr_Region :: string
  qr_Resources :: "'q Resources"
  qr_AllocatedResources :: "'q Resources"
  qr_FailedResources :: "'q Resources option"
  qr_Conditions :: "Condition list"

definition zero_QuotaRequest :: "'q quantity \<Rightarrow> 'q QuotaRequestInstance" where
  "zero_QuotaRequest Q = \<lparr>qr_Meta = zero_ObjectMeta, qr_Region = [], qr_Resources = zero_Resources Q,
     qr_AllocatedResources = zero_Resources Q, qr_FailedResources = None, qr_Conditions = []\<rparr>"

definition QuotaRequest_EnsureRegion :: "'q QuotaRequestInstance \<Rightarrow> string \<Rightarrow> 'q QuotaRequestInstance \<times> bool" where
  "QuotaRequest_EnsureRegion r region =
     (let r' = (if qr_Region r = [] then r\<lparr>qr_Region := region\<rparr> else r) in (r', qr_Region r' = region))"

definition QuotaRequest_HasRegion :: "'q QuotaRequestInstance \<Rightarrow> string \<Rightarrow> bool" where
  "QuotaRequest_HasRegion r region \<longleftrightarrow> qr_Region r = region"

definition QuotaRequest_GetRegion :: "'q QuotaRequestInstance \<Rightarrow> string" where
  "QuotaRequest_GetRegion r = qr_Region r"

definition QuotaRequest_Conditions :: "'q QuotaRequestInstance Conditions" where
  "QuotaRequest_Conditions = \<lparr>cl_get = qr_Conditions, cl_put = (\<lambda>cs r. r\<lparr>qr_Conditions := cs\<rparr>),
     cl_generation = (\<lambda>r. om_Generation (qr_Meta r))\<rparr>"

interpretation quota_request: conditions_object QuotaRequest_Conditions
  by unfold_locales (simp_all add: QuotaRequest_Conditions_def)

interpretation quota_region: regional QuotaRequest_HasRegion QuotaRequest_GetRegion "\<lambda>r. fst \<circ> QuotaRequest_EnsureRegion r"
  by unfold_locales (simp_all add: QuotaRequest_HasRegion_def QuotaRequest_GetRegion_def QuotaRequest_EnsureRegion_def Let_def)

subsection \<open>What an app asks for\<close>

definition workloadRequests :: "(string, 'q Scheduling) gomap \<Rightarrow> string \<Rightarrow> (string, 'q) gomap" where
  "workloadRequests scheduling name =
     (case gm_get scheduling name of
        Some specific \<Rightarrow> sg_Requests specific
      | None \<Rightarrow> (case gm_get scheduling [] of Some all \<Rightarrow> sg_Requests all | None \<Rightarrow> []))"

definition addWorkload :: "'q quantity \<Rightarrow> (string, 'q Scheduling) gomap \<Rightarrow> string \<Rightarrow> 'q Resources \<Rightarrow> 'q Resources" where
  "addWorkload Q scheduling name r =
     (let requests = workloadRequests scheduling name
      in r\<lparr>rs_CPU := q_add Q (rs_CPU r) (gm_get_or (q_zero Q) requests ''cpu''),
           rs_Memory := q_add Q (rs_Memory r) (gm_get_or (q_zero Q) requests ''memory'')\<rparr>)"

fun addCompute :: "'q quantity \<Rightarrow> (string, 'q Scheduling) gomap \<Rightarrow> (string \<times> Container) list \<Rightarrow> 'q Resources \<Rightarrow> 'q Resources" where
  "addCompute Q scheduling [] r = r"
| "addCompute Q scheduling ((name, Container f sidecars) # rest) r =
     addCompute Q scheduling rest (addCompute Q scheduling sidecars (addWorkload Q scheduling name r))"

fun boundVolumeSize :: "string \<Rightarrow> VolumeBinding list \<Rightarrow> bool \<times> Quantity" where
  "boundVolumeSize name [] = (False, ''0'')"
| "boundVolumeSize name (binding # rest) =
     (if vb_Target binding = name \<and> vb_Volume binding = [] then (True, vb_Size binding) else boundVolumeSize name rest)"

fun boundSecret :: "string \<Rightarrow> SecretBinding list \<Rightarrow> bool" where
  "boundSecret name [] = False"
| "boundSecret name (binding # rest) =
     (if sc_Target binding = name \<and> sc_Secret binding = [] then True else boundSecret name rest)"

definition quotaSize :: "VolumeBinding list \<Rightarrow> string \<times> VolumeRequest \<Rightarrow> Quantity" where
  "quotaSize bindings v =
     (case boundVolumeSize (fst v) bindings of (bound, boundSize) \<Rightarrow> if bound then boundSize else vr_Size (snd v))"

fun addVolumes :: "'q quantity \<Rightarrow> (string \<Rightarrow> 'e + 'q) \<Rightarrow> VolumeBinding list \<Rightarrow> (string \<times> VolumeRequest) list \<Rightarrow> 'q Resources \<Rightarrow>
    'e + 'q Resources" where
  "addVolumes Q rp bindings [] r = Inr r"
| "addVolumes Q rp bindings (v # rest) r =
     (let sz = quotaSize bindings v
      in if sz = [] \<or> sz = ''0'' then addVolumes Q rp bindings rest r
         else bind_err (rp sz) (\<lambda>parsedSize.
                addVolumes Q rp bindings rest (r\<lparr>rs_VolumeStorage := q_add Q (rs_VolumeStorage r) parsedSize\<rparr>)))"

definition addStorage :: "'q quantity \<Rightarrow> (string \<Rightarrow> 'e + 'q) \<Rightarrow> ('f, 'q) AppInstance \<Rightarrow> 'q Resources \<Rightarrow> 'e + 'q Resources" where
  "addStorage Q rp a r =
     bind_err (addVolumes Q rp (ai_Volumes (app_Spec a)) (as_Volumes (is_AppSpec (app_Status a))) r) (\<lambda>r'.
       Inr (r'\<lparr>rs_Secrets := rs_Secrets r' +
         int (length (filter (\<lambda>s. \<not> boundSecret (fst s) (ai_Secrets (app_Spec a))) (as_Secrets (is_AppSpec (app_Status a)))))\<rparr>))"

text \<open>\<open>getNamespace\<close> reads the annotations of a project.\<close>

definition isEnforced :: "(string \<Rightarrow> 'e + (string, string) gomap) \<Rightarrow> string \<Rightarrow> 'e + bool" where
  "isEnforced getNamespace namespace =
     bind_err (getNamespace namespace) (\<lambda>annotations.
       Inr (gm_get_or [] annotations ProjectEnforcedQuotaAnnotation = ''true''))"

definition requestedResources :: "'q quantity \<Rightarrow> (string \<Rightarrow> 'e + 'q) \<Rightarrow> ('f, 'q) AppInstance \<Rightarrow> 'e + 'q Resources" where
  "requestedResources Q rp a =
     (let spec = is_AppSpec (app_Status a);
          r0 = (zero_Resources Q)\<lparr>rs_Containers := int (length (as_Containers spec)), rs_Jobs := int (length (as_Jobs spec)),
                 rs_Volumes := int (length (as_Volumes spec)), rs_Images := int (length (as_Images spec))\<rparr>;
          r1 = addCompute Q (is_Scheduling (app_Status a)) (as_Containers spec) r0;
          r2 = addCompute Q (is_Scheduling (app_Status a)) (as_Jobs spec) r1
      in addStorage Q rp a r2)"

text \<open>The request that is added to the response, if quota is enforced; an error of a size is reported on the app.\<close>

datatype ('e, 'f, 'q) ensure_result =
    EnsureFailed 'e
  | EnsureNothing
  | EnsureRequest "'q QuotaRequestInstance"
  | EnsureError 'e "panic + ('f, 'q) AppInstance \<times> bool"

definition EnsureQuotaRequest :: "'q quantity \<Rightarrow> (string \<Rightarrow> 'e + 'q) \<Rightarrow> ('e \<Rightarrow> string) \<Rightarrow> Time \<Rightarrow>
    (string \<Rightarrow> 'e + (string, string) gomap) \<Rightarrow> ('f, 'q) AppInstance \<Rightarrow> ('e, 'f, 'q) ensure_result" where
  "EnsureQuotaRequest Q rp errorText now getNamespace a =
     (case isEnforced getNamespace (om_Namespace (app_Meta a)) of
        Inl e \<Rightarrow> EnsureFailed e
      | Inr False \<Rightarrow> EnsureNothing
      | Inr True \<Rightarrow>
          (case requestedResources Q rp a of
             Inl e \<Rightarrow> EnsureError e (Callback_Error AppInstance_Conditions AppInstanceConditionQuotaAllocated now (Some (errorText e)) a)
           | Inr r \<Rightarrow> EnsureRequest ((zero_QuotaRequest Q)\<lparr>qr_Meta := zero_ObjectMeta\<lparr>om_Name := om_Name (app_Meta a),
                 om_Namespace := om_Namespace (app_Meta a)\<rparr>, qr_Resources := r\<rparr>)))"

subsection \<open>Waiting for it\<close>

text \<open>
  \<open>getRequest\<close> reads the quota request of the app: not found is \<open>Inr None\<close>, another error \<open>Inl\<close>. The result
  is the app with its condition, and the error the handler returns.
\<close>

definition WaitForAllocation :: "'q quantity \<Rightarrow> ('e \<Rightarrow> string) \<Rightarrow> Time \<Rightarrow> (string \<Rightarrow> 'e + (string, string) gomap) \<Rightarrow>
    (string \<Rightarrow> string \<Rightarrow> 'e + 'q QuotaRequestInstance option) \<Rightarrow> ('f, 'q) AppInstance \<Rightarrow>
    panic + ('f, 'q) AppInstance \<times> 'e option" where
  "WaitForAllocation Q errorText now getNamespace getRequest a =
     (let report = (\<lambda>cond. bind_err (Callback_Set AppInstance_Conditions AppInstanceConditionQuotaAllocated now cond a)
            (\<lambda>(a', _). Inr a'))
      in case isEnforced getNamespace (om_Namespace (app_Meta a)) of
           Inl e \<Rightarrow> bind_err (report (errorCondition (Some (errorText e)))) (\<lambda>a'. Inr (a', Some e))
         | Inr False \<Rightarrow> bind_err (report successCondition) (\<lambda>a'. Inr (a', None))
         | Inr True \<Rightarrow>
             (case getRequest (om_Namespace (app_Meta a)) (om_Name (app_Meta a)) of
                Inl e \<Rightarrow> Inr (a, Some e)
              | Inr found \<Rightarrow>
                  (let quotaRequest = (case found of None \<Rightarrow> zero_QuotaRequest Q | Some r \<Rightarrow> r);
                       cond = findCondition (qr_Conditions quotaRequest) QuotaRequestCondition
                   in case qr_FailedResources quotaRequest of
                        Some failed \<Rightarrow>
                          bind_err (report (errorCondition (Some
                            (''failed to provision the following resources: '' @ NonEmptyString Q failed)))) (\<lambda>a'. Inr (a', None))
                      | None \<Rightarrow>
                          if cn_Error cond then
                            bind_err (report (errorCondition (Some
                              (''error occurred while trying to allocate quota: '' @ cn_Message cond)))) (\<lambda>a'. Inr (a', None))
                          else if found = None \<or> \<not> Resources_Equals Q (qr_Resources quotaRequest) (qr_AllocatedResources quotaRequest) then
                            bind_err (report (unknownCondition ''waiting for quota allocation'')) (\<lambda>a'. Inr (a', None))
                          else if cn_Success cond then bind_err (report successCondition) (\<lambda>a'. Inr (a', None))
                          else Inr (a, None))))"
subsection \<open>Correctness\<close>

lemma AppInstanceStatus_Condition_get: "findCondition (cl_get AppInstance_Conditions a) name = AppInstanceStatus_Condition (app_Status a) name"
  by (simp add: AppInstance_Conditions_def AppInstanceStatus_Condition_def)

lemma report_state:
  assumes "Callback_Set AppInstance_Conditions name now cond a = Inr (a', added)"
  shows "sameState (AppInstanceStatus_Condition (app_Status a') name) cond"
  using app.set_reports(1) [OF assms] by (simp add: AppInstanceStatus_Condition_get)

lemma not_success_conditions [simp]:
  "\<not> cn_Success (errorCondition (Some msg))" "\<not> cn_Success (unknownCondition msg)"
  by (simp_all add: errorCondition_def unknownCondition_def zero_Condition_def)

text \<open>C9: An app is released only when it may be: its quota condition turns to success only if quota is not enforced
  in its project, or if a quota request exists for it whose resources have been allocated exactly as
  requested, without failed resources or an error, and which reports success.\<close>

theorem WaitForAllocation_success:
  assumes "WaitForAllocation Q errorText now getNamespace getRequest a = Inr (a', err)"
    and "cn_Success (AppInstanceStatus_Condition (app_Status a') AppInstanceConditionQuotaAllocated)"
    and "\<not> cn_Success (AppInstanceStatus_Condition (app_Status a) AppInstanceConditionQuotaAllocated)"
  shows "err = None \<and>
    (isEnforced getNamespace (om_Namespace (app_Meta a)) = Inr False \<or>
     (\<exists>r. getRequest (om_Namespace (app_Meta a)) (om_Name (app_Meta a)) = Inr (Some r) \<and> qr_FailedResources r = None \<and>
       Resources_Equals Q (qr_Resources r) (qr_AllocatedResources r) \<and>
       cn_Success (findCondition (qr_Conditions r) QuotaRequestCondition) \<and>
       \<not> cn_Error (findCondition (qr_Conditions r) QuotaRequestCondition)))"
proof -
  have rep: "cn_Success cond"
    if "Callback_Set AppInstance_Conditions AppInstanceConditionQuotaAllocated now cond a = Inr (a', added)" for cond added
    using report_state [OF that] assms(2) by (simp add: sameState_def)
  have no: "Callback_Set AppInstance_Conditions AppInstanceConditionQuotaAllocated now (errorCondition (Some msg)) a \<noteq> Inr (a', added)"
    "Callback_Set AppInstance_Conditions AppInstanceConditionQuotaAllocated now (unknownCondition msg) a \<noteq> Inr (a', added)" for msg added
    using rep by fastforce+
  have "a' \<noteq> a" using assms(2,3) by blast
  with assms(1) no show ?thesis
    by (auto simp: WaitForAllocation_def Let_def bind_err_Inr split: sum.splits bool.splits option.splits if_splits)
qed

definition int_quantity :: "int quantity" where
  "int_quantity = \<lparr>q_zero = 0, q_add = (+), q_sub = (-), q_cmp = (\<lambda>a b. if a < b then - 1 else if a = b then 0 else 1),
     q_isZero = (\<lambda>a. a = 0)\<rparr>"

lemma int_quantity_laws: "quantity_laws int_quantity id"
  by (simp add: quantity_laws_def int_quantity_def)

theorem WaitForAllocation_success_witness:
  "\<exists>a' err. WaitForAllocation int_quantity (\<lambda>e. e) 3 (\<lambda>_. Inr []) (\<lambda>_ _. Inr None) (zero_AppInstance :: (unit, int) AppInstance) = Inr (a', err) \<and>
     err = None"
proof -
  let ?ns = "\<lambda>_ :: string. Inr [] :: string + (string, string) gomap"
  let ?a = "zero_AppInstance :: (unit, int) AppInstance"
  obtain a' added where c: "Callback_Set AppInstance_Conditions AppInstanceConditionQuotaAllocated 3 successCondition ?a = Inr (a', added)"
    using app.set_ok [of AppInstanceConditionQuotaAllocated 3 successCondition ?a]
    by (auto simp: is_ok_iff AppInstanceConditionQuotaAllocated_def)
  then have w: "WaitForAllocation int_quantity (\<lambda>e. e) 3 ?ns (\<lambda>_ _. Inr None) ?a = Inr (a', None)"
    by (simp add: WaitForAllocation_def isEnforced_def gm_get_or_def)
  moreover have "cn_Success (AppInstanceStatus_Condition (app_Status a') AppInstanceConditionQuotaAllocated)"
    using report_state [OF c] by (simp add: sameState_def successCondition_def)
  moreover have "\<not> cn_Success (AppInstanceStatus_Condition (app_Status ?a) AppInstanceConditionQuotaAllocated)"
    by (simp add: AppInstanceStatus_Condition_def zero_AppInstance_def zero_AppInstanceStatus_def zero_Condition_def)
  ultimately show ?thesis using WaitForAllocation_success [OF w] by blast
qed

text \<open>The workloads of containers or jobs, sidecars included.\<close>

fun workloads :: "(string \<times> Container) list \<Rightarrow> string list" where
  "workloads [] = []"
| "workloads ((name, Container f sidecars) # rest) = name # workloads sidecars @ workloads rest"

definition requested :: "'q quantity \<Rightarrow> ('q \<Rightarrow> int) \<Rightarrow> (string, 'q Scheduling) gomap \<Rightarrow> string \<Rightarrow> string \<Rightarrow> int" where
  "requested Q val scheduling resource name = val (gm_get_or (q_zero Q) (workloadRequests scheduling name) resource)"

lemma addCompute_totals:
  assumes "quantity_laws Q val"
  shows "val (rs_CPU (addCompute Q s cs r)) = val (rs_CPU r) + sum_list (map (requested Q val s ''cpu'') (workloads cs))"
    and "val (rs_Memory (addCompute Q s cs r)) = val (rs_Memory r) + sum_list (map (requested Q val s ''memory'') (workloads cs))"
  using assms
  by (induction Q s cs r rule: addCompute.induct) (simp_all add: addWorkload_def Let_def requested_def quantity_laws_def)

lemma addCompute_frame:
  "rs_Containers (addCompute Q s cs r) = rs_Containers r" "rs_Jobs (addCompute Q s cs r) = rs_Jobs r"
  "rs_Volumes (addCompute Q s cs r) = rs_Volumes r" "rs_Images (addCompute Q s cs r) = rs_Images r"
  "rs_Secrets (addCompute Q s cs r) = rs_Secrets r" "rs_VolumeStorage (addCompute Q s cs r) = rs_VolumeStorage r"
  by (induction Q s cs r rule: addCompute.induct) (simp_all add: addWorkload_def Let_def)

lemma addVolumes_frame:
  "addVolumes Q rp bs vs r = Inr r' \<Longrightarrow>
     rs_CPU r' = rs_CPU r \<and> rs_Memory r' = rs_Memory r \<and> rs_Containers r' = rs_Containers r \<and> rs_Jobs r' = rs_Jobs r \<and>
     rs_Secrets r' = rs_Secrets r"
  by (induction vs arbitrary: r) (auto simp: Let_def bind_err_Inr split: if_splits)

text \<open>The request asks for what the app will use: the CPU and the memory are the sums over all workloads of the
  app, sidecars of containers and jobs included, of what scheduling decided for the workload or, if it
  decided nothing for it, for all workloads; the counts are those of the app. The order in which the
  maps are visited does not matter.\<close>

theorem EnsureQuotaRequest_totals:
  assumes "quantity_laws Q val"
    and "EnsureQuotaRequest Q rp errorText now getNamespace a = EnsureRequest q"
  shows "let spec = is_AppSpec (app_Status a); s = is_Scheduling (app_Status a);
             names = workloads (as_Containers spec) @ workloads (as_Jobs spec)
         in val (rs_CPU (qr_Resources q)) = sum_list (map (requested Q val s ''cpu'') names) \<and>
            val (rs_Memory (qr_Resources q)) = sum_list (map (requested Q val s ''memory'') names) \<and>
            rs_Containers (qr_Resources q) = int (length (as_Containers spec)) \<and>
            rs_Jobs (qr_Resources q) = int (length (as_Jobs spec)) \<and>
            om_Name (qr_Meta q) = om_Name (app_Meta a) \<and> om_Namespace (qr_Meta q) = om_Namespace (app_Meta a)"
proof -
  have z: "val (q_zero Q) = 0" using assms(1) by (simp add: quantity_laws_def)
  from assms(2) obtain r where q: "q = (zero_QuotaRequest Q)\<lparr>qr_Meta := zero_ObjectMeta\<lparr>om_Name := om_Name (app_Meta a),
      om_Namespace := om_Namespace (app_Meta a)\<rparr>, qr_Resources := r\<rparr>" and r: "requestedResources Q rp a = Inr r"
    by (auto simp: EnsureQuotaRequest_def split: sum.splits bool.splits)
  from r z show ?thesis
    by (auto simp: q requestedResources_def addStorage_def Let_def bind_err_Inr addCompute_totals [OF assms(1)]
        addCompute_frame zero_Resources_def dest!: addVolumes_frame)
qed

definition quota_sample :: "(unit, int) AppInstance" where
  "quota_sample = zero_AppInstance\<lparr>app_Meta := zero_ObjectMeta\<lparr>om_Name := ''web'', om_Namespace := ''prod''\<rparr>,
     app_Status := zero_AppInstanceStatus\<lparr>
       is_AppSpec := zero_AppSpec\<lparr>as_Containers := [(''web'', Container zero_container_fields [(''log'', Container zero_container_fields [])])]\<rparr>,
       is_Scheduling := [(''web'', \<lparr>sg_Requests = [(''cpu'', 500)], sg_Limits = [], sg_Affinity = None, sg_Tolerations = [], sg_PriorityClassName = []\<rparr>),
                         ([], \<lparr>sg_Requests = [(''cpu'', 100), (''memory'', 64)], sg_Limits = [], sg_Affinity = None, sg_Tolerations = [], sg_PriorityClassName = []\<rparr>)]\<rparr>\<rparr>"

theorem EnsureQuotaRequest_totals_witness:
  "\<exists>q. EnsureQuotaRequest int_quantity (\<lambda>_. Inl ()) (\<lambda>_. []) 3 (\<lambda>_. Inr [(''acorn.io/enforced-quota'', ''true'')]) quota_sample =
      EnsureRequest q \<and> rs_CPU (qr_Resources q) = 600 \<and> rs_Memory (qr_Resources q) = 64"
proof -
  let ?ns = "\<lambda>_ :: string. Inr [(''acorn.io/enforced-quota'', ''true'')] :: unit + (string, string) gomap"
  have "\<exists>q. EnsureQuotaRequest int_quantity (\<lambda>_. Inl ()) (\<lambda>_. []) 3 ?ns quota_sample = EnsureRequest q"
    by (simp add: EnsureQuotaRequest_def isEnforced_def gm_get_or_def gm_get_def ProjectEnforcedQuotaAnnotation_def
        requestedResources_def Let_def addStorage_def quota_sample_def zero_AppSpec_def)
  then obtain q where q: "EnsureQuotaRequest int_quantity (\<lambda>_. Inl ()) (\<lambda>_. []) 3 ?ns quota_sample = EnsureRequest q" by blast
  have "requested int_quantity id (is_Scheduling (app_Status quota_sample)) ''cpu'' ''web'' = 500"
    "requested int_quantity id (is_Scheduling (app_Status quota_sample)) ''cpu'' ''log'' = 100"
    "requested int_quantity id (is_Scheduling (app_Status quota_sample)) ''memory'' ''web'' = 0"
    "requested int_quantity id (is_Scheduling (app_Status quota_sample)) ''memory'' ''log'' = 64"
    by (simp_all add: requested_def workloadRequests_def quota_sample_def gm_get_or_def gm_get_def int_quantity_def)
  with EnsureQuotaRequest_totals [OF int_quantity_laws q] q show ?thesis
    by (auto simp: quota_sample_def Let_def zero_AppSpec_def)
qed

lemma boundVolumeSize_existing:
  assumes "list_all (\<lambda>b. vb_Target b \<noteq> name \<or> vb_Volume b \<noteq> []) bindings"
  shows "boundVolumeSize name bindings = (False, ''0'')"
  using assms by (induction bindings) auto

lemma boundSecret_existing:
  assumes "list_all (\<lambda>b. sc_Target b \<noteq> name \<or> sc_Secret b \<noteq> []) bindings"
  shows "\<not> boundSecret name bindings"
  using assms by (induction bindings) auto

text \<open>A volume that is bound to an existing volume is charged again: it counts with the size of its declaration,
  and a secret that is bound to an existing secret counts as a new one, because the tests for a binding
  look for one that names no existing object.\<close>

theorem quota_charges_bound:
  assumes "list_all (\<lambda>b. vb_Target b \<noteq> name \<or> vb_Volume b \<noteq> []) volumes"
    and "list_all (\<lambda>b. sc_Target b \<noteq> name \<or> sc_Secret b \<noteq> []) secrets"
  shows "quotaSize volumes (name, v) = vr_Size v \<and> \<not> boundSecret name secrets"
  using boundVolumeSize_existing [OF assms(1)] boundSecret_existing [OF assms(2)] by (simp add: quotaSize_def)

theorem quota_charges_bound_witness:
  "quotaSize [zero_VolumeBinding\<lparr>vb_Volume := ''old'', vb_Target := ''data''\<rparr>] (''data'', zero_VolumeRequest\<lparr>vr_Size := ''5G''\<rparr>) = ''5G'' \<and>
   \<not> boundSecret ''data'' [\<lparr>sc_Secret = ''old'', sc_Target = ''data''\<rparr>]"
  using quota_charges_bound [of "''data''" "[zero_VolumeBinding\<lparr>vb_Volume := ''old'', vb_Target := ''data''\<rparr>]"
      "[\<lparr>sc_Secret = ''old'', sc_Target = ''data''\<rparr>]" "zero_VolumeRequest\<lparr>vr_Size := ''5G''\<rparr>"] by simp

lemma nonNegativeSubtract_add: "0 \<le> a \<Longrightarrow> nonNegativeSubtract (a + b) b = a"
  by (simp add: nonNegativeSubtract_def)

definition nonNegative :: "'q Resources \<Rightarrow> bool" where
  "nonNegative r \<longleftrightarrow> 0 \<le> rs_Apps r \<and> 0 \<le> rs_Containers r \<and> 0 \<le> rs_Jobs r \<and> 0 \<le> rs_Volumes r \<and> 0 \<le> rs_Secrets r \<and>
     0 \<le> rs_Images r \<and> 0 \<le> rs_Projects r"

text \<open>Removing all of what was added gives back what was there before; removing without the persistent resources
  keeps the added secrets and storage. What was there has counts that are not negative.\<close>

theorem Resources_Remove_Add:
  assumes "quantity_laws Q val" "nonNegative r"
  shows "Resources_Equals Q (Resources_Remove Q (Resources_Add Q r x) x True) r \<and>
    rs_Secrets (Resources_Remove Q (Resources_Add Q r x) x False) = rs_Secrets r + rs_Secrets x \<and>
    val (rs_VolumeStorage (Resources_Remove Q (Resources_Add Q r x) x False)) = val (rs_VolumeStorage r) + val (rs_VolumeStorage x)"
  using assms
  by (simp add: Resources_Equals_def Resources_Remove_def Resources_Add_def Let_def nonNegative_def
      nonNegativeSubtract_add quantity_laws_def)

theorem Resources_Remove_Add_witness:
  "Resources_Equals int_quantity
     (Resources_Remove int_quantity (Resources_Add int_quantity (zero_Resources int_quantity) ((zero_Resources int_quantity)\<lparr>rs_Jobs := 3\<rparr>))
       ((zero_Resources int_quantity)\<lparr>rs_Jobs := 3\<rparr>) True) (zero_Resources int_quantity)"
  using Resources_Remove_Add [OF int_quantity_laws, of "zero_Resources int_quantity" "(zero_Resources int_quantity)\<lparr>rs_Jobs := 3\<rparr>"]
  by (simp add: nonNegative_def zero_Resources_def)

end
