(* ===== verification/Labels.thy ===== *)
theory Labels
  imports AppInstances
begin

text \<open>
  Labels and public names: \<open>pkg/labels/labels.go\<close> and \<open>pkg/publicname\<close>. The labels and annotations of an object are
  gathered from the app, the resource and the options of the user; keys of Acorn itself are never taken over,
  and an administrator can restrict what users may set. The lemmas show which label wins, that only allowed
  labels survive the filter, and that the name of a child splits into the parent and the child.
\<close>

subsection \<open>Helpers of the baaah library\<close>

text \<open>\<open>typed.Sorted\<close>, the entries of a map by key, and \<open>typed.Concat\<close>, where later maps win.\<close>

definition typed_Sorted :: "('k :: linorder, 'v) gomap \<Rightarrow> ('k \<times> 'v) list" where
  "typed_Sorted m = sort_key fst m"

definition copyInto :: "('k, 'v) gomap \<Rightarrow> ('k, 'v) gomap \<Rightarrow> ('k, 'v) gomap" where
  "copyInto dst src = foldl (\<lambda>m (k, v). gm_set m k v) dst src"

definition typed_Concat :: "('k, 'v) gomap list \<Rightarrow> ('k, 'v) gomap" where
  "typed_Concat ms = foldl copyInto [] ms"

subsection \<open>Labels\<close>

definition Prefix :: string where "Prefix = ''acorn.io/''"
definition AcornAppGeneration :: string where "AcornAppGeneration = Prefix @ ''app-generation''"
definition AcornAppNamespace :: string where "AcornAppNamespace = Prefix @ ''app-namespace''"
definition AcornAppName :: string where "AcornAppName = Prefix @ ''app-name''"
definition AcornParentAcornName :: string where "AcornParentAcornName = Prefix @ ''parent-acorn-name''"
definition AcornPublicName :: string where "AcornPublicName = Prefix @ ''public-name''"
definition AcornAcornName :: string where "AcornAcornName = Prefix @ ''acorn-name''"
definition AcornVolumeName :: string where "AcornVolumeName = Prefix @ ''volume-name''"
definition AcornSecretSourceName :: string where "AcornSecretSourceName = Prefix @ ''secret-source-name''"
definition AcornContainerName :: string where "AcornContainerName = Prefix @ ''container-name''"
definition AcornJobName :: string where "AcornJobName = Prefix @ ''job-name''"
definition AcornManaged :: string where "AcornManaged = Prefix @ ''managed''"
definition AcornServicePublish :: string where "AcornServicePublish = Prefix @ ''service-publish''"
definition AcornPublishURL :: string where "AcornPublishURL = Prefix @ ''publish-url''"
definition AcornTargets :: string where "AcornTargets = Prefix @ ''targets''"

definition Merge :: "(string, string) gomap \<Rightarrow> (string, string) gomap \<Rightarrow> (string, string) gomap" where
  "Merge base overlay = copyInto base overlay"

definition ExcludeAcornKey :: "(string, string) gomap \<Rightarrow> (string, string) gomap" where
  "ExcludeAcornKey input =
     foldl (\<lambda>result (k, v). if str_contains k ''acorn.io/'' then result else gm_set result k v) [] input"

fun managedLoop :: "(string, string) gomap \<Rightarrow> string list \<Rightarrow> (string, string) gomap" where
  "managedLoop labels (k # v # kv) = managedLoop (if v = [] then gm_delete labels k else gm_set labels k v) kv"
| "managedLoop labels _ = labels"

definition ManagedByApp :: "string \<Rightarrow> string \<Rightarrow> string list \<Rightarrow> (string, string) gomap" where
  "ManagedByApp appNamespace appName kv =
     managedLoop [(AcornAppName, appName), (AcornAppNamespace, appNamespace), (AcornManaged, ''true'')] kv"

definition Managed :: "('f, 'q) AppInstance \<Rightarrow> string list \<Rightarrow> (string, string) gomap" where
  "Managed app kv = ManagedByApp (om_Namespace (app_Meta app)) (om_Name (app_Meta app)) kv"

text \<open>
  \<open>strings.EqualFold\<close> with an ASCII text on one side. Besides the letters of the other case, the Kelvin sign folds
  to k and the long s to s; the two are written in their UTF-8 bytes.
\<close>

fun foldText :: "string \<Rightarrow> string" where
  "foldText (a # b # c # s) =
     (if a = CHR 0xE2 \<and> b = CHR 0x84 \<and> c = CHR 0xAA then CHR ''k'' # foldText s
      else if a = CHR 0xC5 \<and> b = CHR 0xBF then CHR ''s'' # foldText (c # s)
      else char_to_lower a # foldText (b # c # s))"
| "foldText [a, b] = (if a = CHR 0xC5 \<and> b = CHR 0xBF then ''s'' else [char_to_lower a, char_to_lower b])"
| "foldText [a] = [char_to_lower a]"
| "foldText [] = []"

definition EqualFold :: "string \<Rightarrow> string \<Rightarrow> bool" where
  "EqualFold s t \<longleftrightarrow> foldText s = foldText t"

definition gather_step :: "string \<Rightarrow> string \<Rightarrow> ScopedLabel \<Rightarrow> (string, string) gomap \<Rightarrow> (string, string) gomap" where
  "gather_step resourceName resourceType scopedLabel m =
     (let put = gm_set m (sl_Key scopedLabel) (sl_Value scopedLabel)
      in if sl_ResourceType scopedLabel = [] then
           (if sl_ResourceName scopedLabel = [] then put
            else if sl_ResourceName scopedLabel = resourceName then put else m)
         else if EqualFold (sl_ResourceType scopedLabel) resourceType then
           (if sl_ResourceName scopedLabel = [] \<or> sl_ResourceName scopedLabel = resourceName then put else m)
         else m)"

definition GatherScoped :: "string \<Rightarrow> string \<Rightarrow> (string, string) gomap \<Rightarrow> (string, string) gomap \<Rightarrow> ScopedLabel list \<Rightarrow> (string, string) gomap" where
  "GatherScoped resourceName resourceType globalLabels resourceLabels scoped =
     ExcludeAcornKey (fold (gather_step resourceName resourceType) scoped (typed_Concat [globalLabels, resourceLabels]))"

definition filterScoped :: "ScopedLabel list \<Rightarrow> string list \<Rightarrow> ScopedLabel list" where
  "filterScoped scoped allowed = (if allowed = [] then [] else filter (\<lambda>label. sl_Key label \<in> set allowed) scoped)"

definition filterMap :: "(string, 'v) gomap \<Rightarrow> string list \<Rightarrow> (string, 'v) gomap" where
  "filterMap m allowed =
     (if allowed = [] then []
      else foldl (\<lambda>result key. case gm_get m key of None \<Rightarrow> result | Some val \<Rightarrow> gm_set result key val) [] allowed)"

definition filterContainer :: "string list \<Rightarrow> string list \<Rightarrow> Container \<Rightarrow> Container" where
  "filterContainer allowedLabels allowedAnnotations c =
     Container ((c_fields c)\<lparr>c_Labels := filterMap (c_Labels (c_fields c)) allowedLabels,
       c_Annotations := filterMap (c_Annotations (c_fields c)) allowedAnnotations\<rparr>) (c_Sidecars c)"

definition filterRouter :: "string list \<Rightarrow> string list \<Rightarrow> Router \<Rightarrow> Router" where
  "filterRouter allowedLabels allowedAnnotations r =
     r\<lparr>ro_Labels := filterMap (ro_Labels r) allowedLabels, ro_Annotations := filterMap (ro_Annotations r) allowedAnnotations\<rparr>"

definition filterVolume :: "string list \<Rightarrow> string list \<Rightarrow> VolumeRequest \<Rightarrow> VolumeRequest" where
  "filterVolume allowedLabels allowedAnnotations v =
     v\<lparr>vr_Labels := filterMap (vr_Labels v) allowedLabels, vr_Annotations := filterMap (vr_Annotations v) allowedAnnotations\<rparr>"

definition filterService :: "string list \<Rightarrow> string list \<Rightarrow> 'f Service \<Rightarrow> 'f Service" where
  "filterService allowedLabels allowedAnnotations s =
     s\<lparr>sv_Labels := filter (\<lambda>v. sl_Key v \<in> set allowedLabels) (sv_Labels s),
       sv_Annotations := filter (\<lambda>v. sl_Key v \<in> set allowedAnnotations) (sv_Annotations s)\<rparr>"

text \<open>Writing back every entry of a map keeps its keys.\<close>

definition mapValues :: "('v \<Rightarrow> 'v) \<Rightarrow> ('k, 'v) gomap \<Rightarrow> ('k, 'v) gomap" where
  "mapValues f m = map (\<lambda>(key, v). (key, f v)) m"

definition FilterUserDefined :: "('f, 'q) AppInstance \<Rightarrow> string list \<Rightarrow> string list \<Rightarrow> string list \<Rightarrow> ('f, 'q) AppInstance" where
  "FilterUserDefined app allowedLabels allowedAnnotations allowedNamespaces =
     (if om_Namespace (app_Meta app) \<in> set allowedNamespaces then app
      else let spec = is_AppSpec (app_Status app) in
        app\<lparr>app_Spec := (app_Spec app)\<lparr>ai_Labels := filterScoped (ai_Labels (app_Spec app)) allowedLabels,
              ai_Annotations := filterScoped (ai_Annotations (app_Spec app)) allowedAnnotations\<rparr>,
            app_Status := (app_Status app)\<lparr>is_AppSpec := spec\<lparr>
              as_Labels := filterMap (as_Labels spec) allowedLabels,
              as_Annotations := filterMap (as_Annotations spec) allowedAnnotations,
              as_Containers := mapValues (filterContainer allowedLabels allowedAnnotations) (as_Containers spec),
              as_Jobs := mapValues (filterContainer allowedLabels allowedAnnotations) (as_Jobs spec),
              as_Routers := mapValues (filterRouter allowedLabels allowedAnnotations) (as_Routers spec),
              as_Volumes := mapValues (filterVolume allowedLabels allowedAnnotations) (as_Volumes spec),
              as_Services := mapValues (filterService allowedLabels allowedAnnotations) (as_Services spec)\<rparr>\<rparr>\<rparr>)"

subsection \<open>Public names\<close>

definition publicname_Get :: "ObjectMeta \<Rightarrow> string" where
  "publicname_Get obj =
     (let publicName = gm_get_or [] (om_Labels obj) AcornPublicName in if publicName = [] then om_Name obj else publicName)"

text \<open>\<open>safeConcatName\<close> is \<open>name.SafeConcatName\<close> of the baaah library, applied to one name.\<close>

definition ForChild :: "(string \<Rightarrow> string) \<Rightarrow> ObjectMeta \<Rightarrow> string \<Rightarrow> string" where
  "ForChild safeConcatName parent childName = safeConcatName (publicname_Get parent @ ''.'' @ childName)"

text \<open>The index of the last occurrence, \<open>strings.LastIndex\<close>; none is the minus one of Go.\<close>

fun lastIndex :: "char \<Rightarrow> string \<Rightarrow> nat option" where
  "lastIndex c [] = None"
| "lastIndex c (x # s) = (case lastIndex c s of Some i \<Rightarrow> Some (Suc i) | None \<Rightarrow> if x = c then Some 0 else None)"

definition publicname_Split :: "string \<Rightarrow> string \<times> string" where
  "publicname_Split name =
     (case lastIndex (CHR ''.'') name of
        None \<Rightarrow> (name, [])
      | Some i \<Rightarrow> if i = length name - 1 \<or> str_has_prefix name ''.'' then (name, []) else (take i name, drop (i + 1) name))"

definition SplitPodContainerName :: "string \<Rightarrow> string \<times> string" where
  "SplitPodContainerName name =
     (case str_cut (CHR '':'') (last (str_split (CHR ''.'') name)) of (podName, containerName, _) \<Rightarrow> (podName, containerName))"

text \<open>
  \<open>Translator.FromPublicName\<close>, where \<open>listByPublicName\<close> lists the names of the objects that carry a public name: the last
  one wins.
\<close>

definition FromPublicName :: "(string \<Rightarrow> string \<Rightarrow> 'e + string list) \<Rightarrow> string \<Rightarrow> string \<Rightarrow> 'e + string \<times> string" where
  "FromPublicName listByPublicName namespace name =
     (if fst (publicname_Split name) = [] then Inr (namespace, name)
      else bind_err (listByPublicName namespace name) (\<lambda>objects. Inr (namespace, fold (\<lambda>object _. object) objects name)))"

subsection \<open>Correctness\<close>

lemma set_typed_Sorted [simp]: "set (typed_Sorted m) = set m"
  by (simp add: typed_Sorted_def)

lemma copyInto_get: "gm_ok src \<Longrightarrow> gm_get (copyInto dst src) k = (case gm_get src k of None \<Rightarrow> gm_get dst k | Some v \<Rightarrow> Some v)"
  using foldl_gm_set [of src "\<lambda>_ v. v" dst k] by (simp add: copyInto_def gm_ok_def gm_get_def [of src])

lemma copyInto_ok: "gm_ok dst \<Longrightarrow> gm_ok (copyInto dst src)"
  by (induction src arbitrary: dst) (auto simp: copyInto_def)

lemma ExcludeAcornKey_copyInto: "ExcludeAcornKey m = copyInto [] (filter (\<lambda>(k, _). \<not> str_contains k ''acorn.io/'') m)"
proof -
  have "foldl (\<lambda>result (k, v). if str_contains k ''acorn.io/'' then result else gm_set result k v) r m =
      copyInto r (filter (\<lambda>(k, _). \<not> str_contains k ''acorn.io/'') m)" for r
    by (induction m arbitrary: r) (auto simp: copyInto_def)
  then show ?thesis by (simp add: ExcludeAcornKey_def)
qed

lemma gm_get_filter_keys: "gm_get (filter (\<lambda>(k, _). P k) m) k = (if P k then gm_get m k else None)"
  by (induction m) (auto simp: gm_get_def)

lemma gm_ok_filter: "gm_ok m \<Longrightarrow> gm_ok (filter P m)"
  by (simp add: gm_ok_def distinct_map_filter)

lemma ExcludeAcornKey_get:
  "gm_ok m \<Longrightarrow> gm_get (ExcludeAcornKey m) k = (if str_contains k ''acorn.io/'' then None else gm_get m k)"
  using gm_get_filter_keys [of "\<lambda>k. \<not> str_contains k ''acorn.io/''" m k]
  by (simp add: ExcludeAcornKey_copyInto copyInto_get gm_ok_filter split: option.splits)

text \<open>The labels of the user that are meant for a resource.\<close>

definition applies :: "string \<Rightarrow> string \<Rightarrow> ScopedLabel \<Rightarrow> bool" where
  "applies resourceName resourceType l \<longleftrightarrow>
     (sl_ResourceType l = [] \<or> EqualFold (sl_ResourceType l) resourceType) \<and> (sl_ResourceName l = [] \<or> sl_ResourceName l = resourceName)"

lemma gather_step_applies:
  "gather_step resourceName resourceType l m = (if applies resourceName resourceType l then gm_set m (sl_Key l) (sl_Value l) else m)"
  by (auto simp: gather_step_def applies_def Let_def)

lemma gather_fold:
  "gm_get (fold (gather_step n t) ls m) k =
     (case find (\<lambda>l. applies n t l \<and> sl_Key l = k) (rev ls) of Some l \<Rightarrow> Some (sl_Value l) | None \<Rightarrow> gm_get m k)"
  by (induction ls rule: rev_induct) (auto simp: gather_step_applies go_map)

lemma gather_fold_ok: "gm_ok m \<Longrightarrow> gm_ok (fold (gather_step n t) ls m)"
  by (induction ls arbitrary: m) (auto simp: gather_step_applies)

lemma filterMap_get: "gm_get (filterMap m allowed) k = (if k \<in> set allowed then gm_get m k else None)"
proof -
  have "gm_get (foldl (\<lambda>result key. case gm_get m key of None \<Rightarrow> result | Some val \<Rightarrow> gm_set result key val) [] allowed) k =
      (if k \<in> set allowed then gm_get m k else None)"
    by (induction allowed rule: rev_induct) (auto simp: go_map split: option.splits)
  then show ?thesis by (simp add: filterMap_def)
qed

lemma filterMap_keys: "gm_has (filterMap m allowed) k \<longleftrightarrow> k \<in> set allowed \<and> gm_has m k"
  by (simp add: gm_has_iff filterMap_get)

lemma filterScoped_set: "set (filterScoped ls allowed) = {l \<in> set ls. sl_Key l \<in> set allowed}"
  by (auto simp: filterScoped_def)

lemma lastIndex_append: "c \<notin> set t \<Longrightarrow> lastIndex c (s @ c # t) = Some (length s)"
proof -
  assume "c \<notin> set t"
  then have "lastIndex c t = None" by (induction t) auto
  then show ?thesis by (induction s) auto
qed

lemma split_child:
  assumes "CHR ''.'' \<notin> set child" "child \<noteq> []" "parent \<noteq> []" "hd parent \<noteq> CHR ''.''"
  shows "publicname_Split (parent @ ''.'' @ child) = (parent, child)"
  using assms lastIndex_append [of "CHR ''.''" child parent]
  by (cases parent) (auto simp: publicname_Split_def str_has_prefix_def)

lemma split_pod:
  assumes "CHR ''.'' \<notin> set pod" "CHR '':'' \<notin> set pod" "CHR ''.'' \<notin> set container"
  shows "SplitPodContainerName (app @ ''.'' @ pod @ '':'' @ container) = (pod, container)"
proof -
  have "\<exists>xs. xs \<noteq> [] \<and> str_split (CHR ''.'') (app @ CHR ''.'' # s) = xs @ [s]" if "CHR ''.'' \<notin> set s" for s
  proof (induction app)
    case (Cons a app)
    then obtain x xs where "str_split (CHR ''.'') (app @ CHR ''.'' # s) = (x # xs) @ [s]" by (metis list.exhaust)
    then show ?case by (cases "a = CHR ''.''") (force simp: Cons_eq_append_conv)+
  qed (use that in simp)
  from this [of "pod @ '':'' @ container"] show ?thesis using assms by (auto simp: SplitPodContainerName_def)
qed

subsection \<open>Properties\<close>

text \<open>The labels of a resource: a key of Acorn is never taken over; otherwise the last label of the user that is meant
  for the resource wins, then the label of the resource, then that of the app.\<close>

theorem GatherScoped_spec:
  assumes "gm_ok globalLabels" "gm_ok resourceLabels"
  shows "gm_get (GatherScoped resourceName resourceType globalLabels resourceLabels scoped) k =
    (if str_contains k ''acorn.io/'' then None
     else case find (\<lambda>l. applies resourceName resourceType l \<and> sl_Key l = k) (rev scoped) of
         Some l \<Rightarrow> Some (sl_Value l)
       | None \<Rightarrow> (case gm_get resourceLabels k of Some v \<Rightarrow> Some v | None \<Rightarrow> gm_get globalLabels k))"
proof -
  let ?m = "typed_Concat [globalLabels, resourceLabels]"
  have "gm_ok ?m" by (simp add: typed_Concat_def copyInto_ok)
  moreover have "gm_get ?m k = (case gm_get resourceLabels k of Some v \<Rightarrow> Some v | None \<Rightarrow> gm_get globalLabels k)"
    using assms by (simp add: typed_Concat_def copyInto_get split: option.splits)
  ultimately show ?thesis 
    by (simp only: GatherScoped_def ExcludeAcornKey_get [OF gather_fold_ok] gather_fold)
qed

theorem GatherScoped_spec_witness:
  "gm_get (GatherScoped ''web'' ''container'' [(''tier'', ''all'')] [] [\<lparr>sl_ResourceType = ''container'', sl_ResourceName = [], sl_Key = ''tier'', sl_Value = ''user''\<rparr>]) ''tier'' = Some ''user''"
  using GatherScoped_spec [of "[(''tier'', ''all'')]" "[]" "''web''" "''container''"
      "[\<lparr>sl_ResourceType = ''container'', sl_ResourceName = [], sl_Key = ''tier'', sl_Value = ''user''\<rparr>]" "''tier''"]
  by (simp add: gm_ok_def applies_def EqualFold_def char_to_lower_def str_has_prefix_def)

text \<open>When user labels are restricted and the app is not in an exempt namespace, every label that is left on the app, its
  containers, jobs, routers, volumes and services is an allowed one, and no allowed label is lost.\<close>

theorem FilterUserDefined_allowed:
  assumes "om_Namespace (app_Meta app) \<notin> set allowedNamespaces"
    "app' = FilterUserDefined app allowedLabels allowedAnnotations allowedNamespaces"
    "spec = is_AppSpec (app_Status app)" "spec' = is_AppSpec (app_Status app')"
  shows "set (ai_Labels (app_Spec app')) = {l \<in> set (ai_Labels (app_Spec app)). sl_Key l \<in> set allowedLabels} \<and>
    (\<forall>k. gm_get (as_Labels spec') k = (if k \<in> set allowedLabels then gm_get (as_Labels spec) k else None)) \<and>
    list_all2 (\<lambda>(n, c) (n', c'). n' = n \<and> c_Sidecars c' = c_Sidecars c \<and>
        (\<forall>k. gm_get (c_Labels (c_fields c')) k = (if k \<in> set allowedLabels then gm_get (c_Labels (c_fields c)) k else None)))
      (as_Containers spec @ as_Jobs spec) (as_Containers spec' @ as_Jobs spec') \<and>
    list_all2 (\<lambda>(n, r) (n', r'). n' = n \<and> ro_Routes r' = ro_Routes r \<and>
        (\<forall>k. gm_get (ro_Labels r') k = (if k \<in> set allowedLabels then gm_get (ro_Labels r) k else None)))
      (as_Routers spec) (as_Routers spec') \<and>
    list_all2 (\<lambda>(n, v) (n', v'). n' = n \<and> vr_Class v' = vr_Class v \<and>
        (\<forall>k. gm_get (vr_Labels v') k = (if k \<in> set allowedLabels then gm_get (vr_Labels v) k else None)))
      (as_Volumes spec) (as_Volumes spec') \<and>
    list_all2 (\<lambda>(n, s) (n', s'). n' = n \<and> set (sv_Labels s') = {l \<in> set (sv_Labels s). sl_Key l \<in> set allowedLabels})
      (as_Services spec) (as_Services spec')"
proof -
  have eq: "ai_Labels (app_Spec app') = filterScoped (ai_Labels (app_Spec app)) allowedLabels"
    "as_Labels spec' = filterMap (as_Labels spec) allowedLabels"
    "as_Containers spec' = mapValues (filterContainer allowedLabels allowedAnnotations) (as_Containers spec)"
    "as_Jobs spec' = mapValues (filterContainer allowedLabels allowedAnnotations) (as_Jobs spec)"
    "as_Routers spec' = mapValues (filterRouter allowedLabels allowedAnnotations) (as_Routers spec)"
    "as_Volumes spec' = mapValues (filterVolume allowedLabels allowedAnnotations) (as_Volumes spec)"
    "as_Services spec' = mapValues (filterService allowedLabels allowedAnnotations) (as_Services spec)"
    using assms by (simp_all add: FilterUserDefined_def Let_def)
  have kept: "list_all2 R m (mapValues f m)" if "\<And>n x. R (n, x) (n, f x)" for R m and f :: "'x \<Rightarrow> 'x"
    by (induction m) (auto simp: mapValues_def that)
  show ?thesis
    unfolding eq by (intro conjI list_all2_appendI kept)
      (auto simp: filterScoped_set filterMap_get filterContainer_def filterRouter_def filterVolume_def filterService_def)
qed

theorem FilterUserDefined_allowed_witness:
  "gm_get (as_Labels (is_AppSpec (app_Status (FilterUserDefined (zero_AppInstance :: (unit, unit) AppInstance) [''a''] [] [''x''])))) ''b'' = None"
  using FilterUserDefined_allowed [of "zero_AppInstance :: (unit, unit) AppInstance" "[''x'']" _ "[''a'']" "[]", OF _ refl refl refl]
  by (simp add: zero_AppInstance_def zero_ObjectMeta_def)

text \<open>The public name of a child is the public name of the parent, a dot and the name of the child, and splits into the two
  again, as does the name of a container of a pod.\<close>

theorem publicname_roundtrip:
  assumes "CHR ''.'' \<notin> set child" "child \<noteq> []" "publicname_Get parent \<noteq> []" "hd (publicname_Get parent) \<noteq> CHR ''.''"
    "safeConcatName (publicname_Get parent @ ''.'' @ child) = publicname_Get parent @ ''.'' @ child"
    "CHR ''.'' \<notin> set pod \<union> set container" "CHR '':'' \<notin> set pod"
  shows "publicname_Split (ForChild safeConcatName parent child) = (publicname_Get parent, child) \<and>
    SplitPodContainerName (app @ ''.'' @ pod @ '':'' @ container) = (pod, container)"
  using split_child [OF assms(1-4)] split_pod [of pod container app] assms(5-7) by (simp add: ForChild_def)

theorem publicname_roundtrip_witness:
  "publicname_Split (ForChild (\<lambda>n. n) (zero_ObjectMeta\<lparr>om_Name := ''app''\<rparr>) ''db'') = (''app'', ''db'') \<and>
   SplitPodContainerName ''app.web-1:side'' = (''web-1'', ''side'')"
  using publicname_roundtrip [of "''db''" "zero_ObjectMeta\<lparr>om_Name := ''app''\<rparr>" "\<lambda>n. n" "''web-1''" "''side''" "''app''"]
  by (simp add: publicname_Get_def zero_ObjectMeta_def gm_get_or_def)

end
