(* ===== verification/Refs.thy ===== *)
theory Refs
  imports Labels
begin

text \<open>
  References between apps, \<open>pkg/ref/ref.go\<close>, and the objects they lead to. A service can stand for another one: by an
  alias in its own namespace or by an external name in the namespace of its app. \<open>Lookup\<close> follows these
  references; it keeps no record of where it has been, so it is a partial function, and not returning is the value
  \<open>None\<close>. \<open>Lookup\<close> and \<open>getService\<close> call each other: they are one function on the datatype \<open>ref_call\<close>. What is read from
  the cluster are the fields of \<open>ref_cluster\<close>, where \<open>None\<close> is an object that is not found. The lemmas show when a lookup
  returns, when it does not, what it returns, and that a service hands out only the secrets it lists.
\<close>

record 'f ServiceInstance =
  si_Meta :: ObjectMeta
  si_Default :: bool
  si_External :: string
  si_Alias :: string
  si_Address :: string
  si_Ports :: "PortDef list"
  si_Container :: string
  si_Job :: string
  si_ContainerLabels :: "(string, string) gomap"
  si_Secrets :: "string list"
  si_Data :: "'f GenericMap"
  si_AppName :: string
  si_AppNamespace :: string
  si_Routes :: "Route list"
  si_PublishMode :: PublishMode
  si_Publish :: "PortPublish list"
  si_Conditions :: "Condition list"
  si_Endpoints :: "Endpoint list"
  si_HasService :: bool

definition zero_ServiceInstance :: "'f ServiceInstance" where
  "zero_ServiceInstance = \<lparr>si_Meta = zero_ObjectMeta, si_Default = False, si_External = [], si_Alias = [], si_Address = [],
     si_Ports = [], si_Container = [], si_Job = [], si_ContainerLabels = [], si_Secrets = [], si_Data = [], si_AppName = [],
     si_AppNamespace = [], si_Routes = [], si_PublishMode = [], si_Publish = [], si_Conditions = [], si_Endpoints = [],
     si_HasService = False\<rparr>"

text \<open>A secret of Kubernetes.\<close>

record KSecret =
  kx_Meta :: ObjectMeta
  kx_Type :: string
  kx_Data :: "(string, string) gomap"

definition zero_KSecret :: KSecret where
  "zero_KSecret = \<lparr>kx_Meta = zero_ObjectMeta, kx_Type = [], kx_Data = []\<rparr>"

record ('e, 'f, 'q) ref_cluster =
  rc_getNamespace :: "string \<Rightarrow> 'e + ObjectMeta option"
  rc_getApp :: "string \<Rightarrow> string \<Rightarrow> 'e + ('f, 'q) AppInstance option"
  rc_listChildApps :: "string \<Rightarrow> string \<Rightarrow> string \<Rightarrow> 'e + ('f, 'q) AppInstance list"
  rc_getService :: "string \<Rightarrow> string \<Rightarrow> 'e + 'f ServiceInstance option"
  rc_listServices :: "string \<Rightarrow> 'e + 'f ServiceInstance list"
  rc_getSecret :: "string \<Rightarrow> string \<Rightarrow> 'e + KSecret option"
  rc_listSecretsByPublicName :: "string \<Rightarrow> string \<Rightarrow> 'e + KSecret list"

datatype 'e ref_error = RefNotFound string | RefError 'e

subsection \<open>The resolver\<close>

definition getAcorn :: "('e, 'f, 'q) ref_cluster \<Rightarrow> string \<Rightarrow> string \<Rightarrow> 'e ref_error + ('f, 'q) AppInstance" where
  "getAcorn K namespace name =
     (case rc_getNamespace K namespace of
        Inl e \<Rightarrow> Inl (RefError e)
      | Inr None \<Rightarrow> Inl (RefNotFound namespace)
      | Inr (Some ns) \<Rightarrow>
          let parentAppName = gm_get_or [] (om_Labels ns) AcornAppName;
              parentAppNamespace = gm_get_or [] (om_Labels ns) AcornAppNamespace
          in if parentAppName = [] \<or> parentAppNamespace = [] then
               (case rc_getApp K namespace name of
                  Inl e \<Rightarrow> Inl (RefError e) | Inr None \<Rightarrow> Inl (RefNotFound name) | Inr (Some app) \<Rightarrow> Inr app)
             else (case rc_listChildApps K parentAppNamespace name parentAppName of
                     Inl e \<Rightarrow> Inl (RefError e)
                   | Inr parentApps \<Rightarrow> (case parentApps of [app] \<Rightarrow> Inr app | _ \<Rightarrow> Inl (RefNotFound name))))"

definition getServiceForAcorn :: "('e, 'f, 'q) ref_cluster \<Rightarrow> ('f, 'q) AppInstance \<Rightarrow> 'e ref_error + 'f ServiceInstance" where
  "getServiceForAcorn K app =
     bind_err (if is_Namespace (app_Status app) \<noteq> [] then map_sum RefError id (rc_listServices K (is_Namespace (app_Status app))) else Inr [])
       (\<lambda>svcs. case find si_Default svcs of Some svc \<Rightarrow> Inr svc | None \<Rightarrow> Inl (RefNotFound (om_Name (app_Meta app))))"

text \<open>Where a service refers to: the namespace and the parts of the name.\<close>

definition reference :: "'f ServiceInstance \<Rightarrow> (string \<times> string list) option" where
  "reference svc =
     (if si_External svc \<noteq> [] then
        (if publicname_Get (si_Meta svc) = si_External svc then None
         else Some (si_AppNamespace svc, str_split (CHR ''.'') (si_External svc)))
      else if si_Alias svc \<noteq> [] then
        (if om_Name (si_Meta svc) = si_Alias svc then None
         else Some (om_Namespace (si_Meta svc), str_split (CHR ''.'') (si_Alias svc)))
      else None)"

datatype 'f ref_call =
    GetService string string
  | LookupService "'f ServiceInstance" string "string list" bool

text \<open>The last argument of \<open>LookupService\<close> says that a service was found, so that \<open>validSecrets\<close> is set.\<close>

partial_function (option) resolve :: "('e, 'f, 'q) ref_cluster \<Rightarrow> 'f ref_call \<Rightarrow> ('e ref_error + 'f ServiceInstance) option" where
  "resolve K call =
     (case call of
        GetService namespace name \<Rightarrow>
          (case rc_getService K namespace name of
             Inl e \<Rightarrow> Some (Inl (RefError e))
           | Inr None \<Rightarrow> Some (Inl (RefNotFound name))
           | Inr (Some svc) \<Rightarrow>
               (case reference svc of
                  None \<Rightarrow> Some (Inr svc)
                | Some (ns, parts) \<Rightarrow> resolve K (LookupService svc ns parts False)))
      | LookupService out namespace parts found \<Rightarrow>
          (case parts of
             [] \<Rightarrow> Some (Inr out)
           | name # rest \<Rightarrow>
               if rest = [] then
                 (case getAcorn K namespace name of
                    Inr app \<Rightarrow> Some (getServiceForAcorn K app)
                  | Inl (RefNotFound _) \<Rightarrow> resolve K (GetService namespace name)
                  | Inl e \<Rightarrow> Some (Inl e))
               else if \<not> found then
                 (case getAcorn K namespace name of
                    Inr app \<Rightarrow> resolve K (LookupService out (is_Namespace (app_Status app)) rest False)
                  | Inl (RefNotFound _) \<Rightarrow>
                      Option.bind (resolve K (GetService namespace name)) (\<lambda>r.
                        case r of Inl e \<Rightarrow> Some (Inl e)
                        | Inr svc \<Rightarrow> resolve K (LookupService out (om_Namespace (si_Meta svc)) rest True))
                  | Inl e \<Rightarrow> Some (Inl e))
               else if length rest = 1 \<and> (name = ''secrets'' \<or> name = ''secret'') then resolve K (LookupService out namespace rest True)
               else Some (Inl (RefNotFound (hd rest)))))"

definition getService :: "('e, 'f, 'q) ref_cluster \<Rightarrow> string \<Rightarrow> string \<Rightarrow> ('e ref_error + 'f ServiceInstance) option" where
  "getService K namespace name = resolve K (GetService namespace name)"

text \<open>\<open>Lookup\<close> with a service as the result, and below with a secret.\<close>

definition Lookup_Service :: "('e, 'f, 'q) ref_cluster \<Rightarrow> string \<Rightarrow> string list \<Rightarrow> ('e ref_error + 'f ServiceInstance) option" where
  "Lookup_Service K namespace parts = resolve K (LookupService zero_ServiceInstance namespace parts False)"

definition getSecret :: "('e, 'f, 'q) ref_cluster \<Rightarrow> string \<Rightarrow> string \<Rightarrow> string list option \<Rightarrow> 'e ref_error + KSecret" where
  "getSecret K namespace name validSecrets =
     (if (case validSecrets of None \<Rightarrow> False | Some names \<Rightarrow> name \<notin> set names) then Inl (RefNotFound name)
      else (case rc_getSecret K namespace name of
              Inl e \<Rightarrow> Inl (RefError e)
            | Inr (Some secret) \<Rightarrow> Inr secret
            | Inr None \<Rightarrow>
                (case rc_listSecretsByPublicName K namespace name of
                   Inl e \<Rightarrow> Inl (RefError e)
                 | Inr secrets \<Rightarrow> (case secrets of [secret] \<Rightarrow> Inr secret | _ \<Rightarrow> Inl (RefNotFound name)))))"

fun lookupSecret :: "('e, 'f, 'q) ref_cluster \<Rightarrow> string \<Rightarrow> string \<Rightarrow> string list \<Rightarrow> string list option \<Rightarrow> ('e ref_error + KSecret) option" where
  "lookupSecret K whole namespace [] validSecrets = Some (Inr zero_KSecret)"
| "lookupSecret K whole namespace [name] validSecrets = Some (getSecret K namespace name validSecrets)"
| "lookupSecret K whole namespace (name # next # rest) validSecrets =
     (if validSecrets = None then
        (case getSecret K namespace whole None of
           Inl (RefNotFound _) \<Rightarrow>
             (case getAcorn K namespace name of
                Inr app \<Rightarrow> lookupSecret K whole (is_Namespace (app_Status app)) (next # rest) None
              | Inl (RefNotFound _) \<Rightarrow>
                  Option.bind (getService K namespace name) (\<lambda>r.
                    case r of Inl e \<Rightarrow> Some (Inl e)
                    | Inr svc \<Rightarrow> lookupSecret K whole (om_Namespace (si_Meta svc)) (next # rest) (Some (si_Secrets svc)))
              | Inl e \<Rightarrow> Some (Inl e))
         | r \<Rightarrow> Some r)
      else if rest = [] \<and> (name = ''secrets'' \<or> name = ''secret'') then lookupSecret K whole namespace (next # rest) validSecrets
      else Some (Inl (RefNotFound next)))"

definition Lookup_Secret :: "('e, 'f, 'q) ref_cluster \<Rightarrow> string \<Rightarrow> string list \<Rightarrow> ('e ref_error + KSecret) option" where
  "Lookup_Secret K namespace parts = lookupSecret K (str_join ''.'' parts) namespace parts None"

subsection \<open>When a lookup returns\<close>

lemma resolve_GetService:
  "resolve K (GetService namespace name) =
     (case rc_getService K namespace name of
        Inl e \<Rightarrow> Some (Inl (RefError e))
      | Inr None \<Rightarrow> Some (Inl (RefNotFound name))
      | Inr (Some svc) \<Rightarrow>
          (case reference svc of None \<Rightarrow> Some (Inr svc) | Some (ns, parts) \<Rightarrow> resolve K (LookupService svc ns parts False)))"
  by (subst resolve.simps) simp

lemma resolve_Lookup_Nil: "resolve K (LookupService out namespace [] found) = Some (Inr out)"
  by (subst resolve.simps) simp

lemma resolve_Lookup_Cons:
  "resolve K (LookupService out namespace (name # rest) found) =
     (if rest = [] then
        (case getAcorn K namespace name of
           Inr app \<Rightarrow> Some (getServiceForAcorn K app)
         | Inl (RefNotFound _) \<Rightarrow> resolve K (GetService namespace name)
         | Inl e \<Rightarrow> Some (Inl e))
      else if \<not> found then
        (case getAcorn K namespace name of
           Inr app \<Rightarrow> resolve K (LookupService out (is_Namespace (app_Status app)) rest False)
         | Inl (RefNotFound _) \<Rightarrow>
             Option.bind (resolve K (GetService namespace name)) (\<lambda>r.
               case r of Inl e \<Rightarrow> Some (Inl e)
               | Inr svc \<Rightarrow> resolve K (LookupService out (om_Namespace (si_Meta svc)) rest True))
         | Inl e \<Rightarrow> Some (Inl e))
      else if length rest = 1 \<and> (name = ''secrets'' \<or> name = ''secret'') then resolve K (LookupService out namespace rest True)
      else Some (Inl (RefNotFound (hd rest))))"
  by (subst resolve.simps) simp

lemmas resolve_unfold = resolve_GetService resolve_Lookup_Nil resolve_Lookup_Cons

text \<open>The services a lookup gets on its way, and the services that a service leads to.\<close>

inductive visits :: "('e, 'f, 'q) ref_cluster \<Rightarrow> string \<Rightarrow> string list \<Rightarrow> bool \<Rightarrow> string \<times> string \<Rightarrow> bool" for K where
  visit_last: "getAcorn K ns name = Inl (RefNotFound n) \<Longrightarrow> visits K ns [name] found (ns, name)"
| visit_first: "getAcorn K ns name = Inl (RefNotFound n) \<Longrightarrow> visits K ns (name # rest) False (ns, name)"
| visit_service: "getAcorn K ns name = Inl (RefNotFound n) \<Longrightarrow> getService K ns name = Some (Inr svc) \<Longrightarrow>
    visits K (om_Namespace (si_Meta svc)) rest True x \<Longrightarrow> visits K ns (name # rest) False x"
| visit_acorn: "getAcorn K ns name = Inr app \<Longrightarrow> visits K (is_Namespace (app_Status app)) rest False x \<Longrightarrow>
    visits K ns (name # rest) False x"
| visit_secrets: "visits K ns rest True x \<Longrightarrow> visits K ns (name # rest) True x"

definition refers :: "('e, 'f, 'q) ref_cluster \<Rightarrow> string \<times> string \<Rightarrow> string \<times> string \<Rightarrow> bool" where
  "refers K x y \<longleftrightarrow> (\<exists>svc ns parts. rc_getService K (fst x) (snd x) = Inr (Some svc) \<and> reference svc = Some (ns, parts) \<and>
     visits K ns parts False y)"

lemma lookup_returns:
  assumes "\<And>ns name. visits K namespace parts found (ns, name) \<Longrightarrow> \<exists>r. resolve K (GetService ns name) = Some r"
  shows "\<exists>r. resolve K (LookupService out namespace parts found) = Some r"
  using assms
proof (induction parts arbitrary: namespace found)
  case Nil
  then show ?case by (simp add: resolve_Lookup_Nil)
next
  case (Cons name rest)
  consider (acorn) app where "getAcorn K namespace name = Inr app"
    | (none) n where "getAcorn K namespace name = Inl (RefNotFound n)"
    | (error) e where "getAcorn K namespace name = Inl (RefError e)"
    by (metis ref_error.exhaust sum.exhaust)
  then show ?case
  proof cases
    case acorn
    have "\<exists>r. resolve K (LookupService out (is_Namespace (app_Status app)) rest False) = Some r" if "\<not> found"
      by (rule Cons.IH) (use Cons.prems acorn that in \<open>auto intro: visit_acorn\<close>)
    moreover have "\<exists>r. resolve K (LookupService out namespace rest True) = Some r" if found
      by (rule Cons.IH) (use Cons.prems that in \<open>auto intro: visit_secrets\<close>)
    ultimately show ?thesis using acorn by (simp add: resolve_Lookup_Cons)
  next
    case none
    have svc: "\<exists>r. resolve K (GetService namespace name) = Some r" if "rest = [] \<or> \<not> found"
      using Cons.prems [of namespace name] visit_last [OF none] visit_first [OF none] that by (metis (full_types))
    have "\<exists>r. resolve K (LookupService out (om_Namespace (si_Meta svc)) rest True) = Some r"
      if "\<not> found" "resolve K (GetService namespace name) = Some (Inr svc)" for svc
      using Cons.IH [of "om_Namespace (si_Meta svc)" True] Cons.prems visit_service [OF none] that by (auto simp: getService_def)
    moreover have "\<exists>r. resolve K (LookupService out namespace rest True) = Some r" if found
      by (rule Cons.IH) (use Cons.prems that in \<open>auto intro: visit_secrets\<close>)
    ultimately show ?thesis using none svc by (auto simp: resolve_Lookup_Cons split: sum.splits)
  next
    case error
    moreover have "\<exists>r. resolve K (LookupService out namespace rest True) = Some r" if found
      by (rule Cons.IH) (use Cons.prems that in \<open>auto intro: visit_secrets\<close>)
    ultimately show ?thesis by (simp add: resolve_Lookup_Cons)
  qed
qed

lemma getService_returns:
  assumes "wf {(y, x). refers K x y}"
  shows "\<exists>r. resolve K (GetService ns name) = Some r"
proof -
  have "\<exists>r. resolve K (GetService (fst x) (snd x)) = Some r" for x
    using assms
  proof (induction x rule: wf_induct_rule)
    case (less x)
    show ?case
    proof (cases "\<exists>svc ns' parts. rc_getService K (fst x) (snd x) = Inr (Some svc) \<and> reference svc = Some (ns', parts)")
      case True
      then obtain svc ns' parts where svc: "rc_getService K (fst x) (snd x) = Inr (Some svc)" "reference svc = Some (ns', parts)" by blast
      have "\<exists>r. resolve K (GetService ns name) = Some r" if "visits K ns' parts False (ns, name)" for ns name
        using less [of "(ns, name)"] svc that by (auto simp: refers_def)
      from lookup_returns [OF this] show ?thesis using svc by (simp add: resolve_GetService)
    next
      case False
      then show ?thesis by (auto simp: resolve_GetService split: sum.splits option.splits)
    qed
  qed
  from this [of "(ns, name)"] show ?thesis by simp
qed

lemma lookupSecret_returns:
  assumes "\<And>ns name. \<exists>r. getService K ns name = Some r"
  shows "\<exists>r. lookupSecret K whole namespace parts validSecrets = Some r"
proof (induction parts arbitrary: namespace validSecrets)
  case (Cons name parts)
  show ?case
  proof (cases parts)
    case (Cons "next" rest)
    consider (acorn) app where "getAcorn K namespace name = Inr app"
      | (none) n r where "getAcorn K namespace name = Inl (RefNotFound n)" "getService K namespace name = Some r"
      | (error) e where "getAcorn K namespace name = Inl (RefError e)"
      using assms [of namespace name] by (metis ref_error.exhaust sum.exhaust)
    then show ?thesis
      using Cons.IH by cases (auto simp: \<open>parts = next # rest\<close> split: sum.splits ref_error.splits)
  qed simp
qed simp

text \<open>Services that stand for each other in a circle: the lookup does not return.\<close>

definition circular :: "('e, 'f, 'q) ref_cluster \<Rightarrow> (string \<times> string) set \<Rightarrow> bool" where
  "circular K S \<longleftrightarrow> (\<forall>(ns, name)\<in>S. \<exists>svc ns' name' n. rc_getService K ns name = Inr (Some svc) \<and> reference svc = Some (ns', [name']) \<and>
     getAcorn K ns' name' = Inl (RefNotFound n) \<and> (ns', name') \<in> S)"

definition avoids :: "('e, 'f, 'q) ref_cluster \<Rightarrow> (string \<times> string) set \<Rightarrow> 'f ref_call \<Rightarrow> bool" where
  "avoids K S call \<longleftrightarrow> (case call of GetService ns name \<Rightarrow> (ns, name) \<notin> S
     | LookupService out ns parts found \<Rightarrow> \<not> (\<exists>name n. parts = [name] \<and> getAcorn K ns name = Inl (RefNotFound n) \<and> (ns, name) \<in> S))"

lemma resolve_circular:
  assumes "resolve K call = Some r"
  shows "circular K S \<longrightarrow> avoids K S call"
proof (rule resolve.raw_induct [where P = "\<lambda>K call _. circular K S \<longrightarrow> avoids K S call"], goal_cases)
  case (1 f K call r)
  note IH = 1(1) and body = 1(2)
  show ?case
  proof (intro impI, cases call)
    fix ns name
    assume circular: "circular K S" and call: "call = GetService ns name"
    have "(ns, name) \<notin> S"
    proof
      assume "(ns, name) \<in> S"
      then obtain svc ns' name' n where svc: "rc_getService K ns name = Inr (Some svc)" "reference svc = Some (ns', [name'])"
        "getAcorn K ns' name' = Inl (RefNotFound n)" "(ns', name') \<in> S"
        using circular by (fastforce simp: circular_def)
      then have "f K (LookupService svc ns' [name'] False) = Some r" using body call by simp
      from IH [OF this] circular svc show False by (auto simp: avoids_def)
    qed
    then show "avoids K S call" by (simp add: call avoids_def)
  next
    fix out ns parts found
    assume circular: "circular K S" and call: "call = LookupService out ns parts found"
    have False if "parts = [name]" "getAcorn K ns name = Inl (RefNotFound n)" "(ns, name) \<in> S" for name n
      using body that call circular IH [of K "GetService ns name" r] by (simp add: avoids_def)
    then show "avoids K S call" by (auto simp: call avoids_def)
  qed
qed (rule assms)

lemma getService_circular: "circular K S \<Longrightarrow> (ns, name) \<in> S \<Longrightarrow> resolve K (GetService ns name) = None"
  using resolve_circular [of K "GetService ns name" _ S] by (cases "resolve K (GetService ns name)") (auto simp: avoids_def)

subsection \<open>What a lookup returns\<close>

text \<open>A service that stands for itself, or the default service of an app.\<close>

definition resolved :: "('e, 'f, 'q) ref_cluster \<Rightarrow> 'f ServiceInstance \<Rightarrow> bool" where
  "resolved K svc \<longleftrightarrow> reference svc = None \<or>
     si_Default svc \<and> (\<exists>ns svcs. rc_listServices K ns = Inr svcs \<and> svc \<in> set svcs)"

lemma getServiceForAcorn_default:
  "getServiceForAcorn K app = Inr svc \<Longrightarrow> si_Default svc \<and> (\<exists>ns svcs. rc_listServices K ns = Inr svcs \<and> svc \<in> set svcs)"
  by (auto simp: getServiceForAcorn_def bind_err_Inr map_sum_Inr find_Some_iff split: if_splits option.splits)
    (metis nth_mem)

definition proper :: "'f ref_call \<Rightarrow> bool" where
  "proper call \<longleftrightarrow> (case call of GetService _ _ \<Rightarrow> True | LookupService _ _ parts _ \<Rightarrow> parts \<noteq> [])"

lemma reference_proper: "reference svc = Some (ns, parts) \<Longrightarrow> parts \<noteq> []"
  by (auto simp: reference_def split: if_splits)

lemma resolve_resolved:
  assumes "resolve K call = Some r"
  shows "proper call \<longrightarrow> (\<forall>svc. r = Inr svc \<longrightarrow> resolved K svc)"
proof (rule resolve.raw_induct [where P = "\<lambda>K call r. proper call \<longrightarrow> (\<forall>svc. r = Inr svc \<longrightarrow> resolved K svc)"], goal_cases)
  case (1 f K call r)
  note IH = 1(1) and body = 1(2)
  show ?case
  proof (intro impI allI, cases call)
    fix svc ns name
    assume call: "proper call" "r = Inr svc" "call = GetService ns name"
    consider (found) "rc_getService K ns name = Inr (Some svc)" "reference svc = None"
      | (refers) svc' ns' parts where "reference svc' = Some (ns', parts)" "f K (LookupService svc' ns' parts False) = Some (Inr svc)"
      using body call by (auto split: sum.splits option.splits)
    then show "resolved K svc"
    proof cases
      case refers
      from IH [OF this(2)] show ?thesis using reference_proper [OF refers(1)] by (simp add: proper_def)
    qed (simp add: resolved_def)
  next
    fix svc out ns parts found
    assume call: "proper call" "r = Inr svc" "call = LookupService out ns parts found"
    then obtain name rest where parts: "parts = name # rest" by (cases parts) (auto simp: proper_def)
    consider (acorn) app where "getServiceForAcorn K app = Inr svc"
      | (service) "f K (GetService ns name) = Some (Inr svc)"
      | (rest) ns' found' where "rest \<noteq> []" "f K (LookupService out ns' rest found') = Some (Inr svc)"
      using body call(2,3) parts by (auto split: sum.splits ref_error.splits if_splits simp: bind_eq_Some_conv) (metis sum.exhaust)
    then show "resolved K svc"
    proof cases
      case acorn
      then show ?thesis using getServiceForAcorn_default [of K app svc] by (auto simp: resolved_def)
    next
      case service
      from IH [OF this] show ?thesis by (simp add: proper_def)
    next
      case rest
      from IH [OF this(2)] show ?thesis using rest(1) by (simp add: proper_def)
    qed
  qed
qed (rule assms)

text \<open>Behind a service only the secrets it lists are found.\<close>

lemma getSecret_valid: "getSecret K ns name (Some names) = Inr s \<Longrightarrow> name \<in> set names"
  by (auto simp: getSecret_def split: if_splits)

lemma lookupSecret_behind:
  assumes "lookupSecret K whole ns parts (Some names) = Some (Inr s)" "parts \<noteq> []"
  shows "last parts \<in> set names \<and> getSecret K ns (last parts) (Some names) = Inr s"
proof -
  have "vs \<noteq> None \<Longrightarrow> lookupSecret K whole ns parts vs = Some (Inr s) \<Longrightarrow> parts \<noteq> [] \<Longrightarrow>
      last parts \<in> set (the vs) \<and> getSecret K ns (last parts) vs = Inr s" for vs
  proof (induction parts)
    case (Cons a parts)
    then show ?case by (cases parts) (auto dest: getSecret_valid split: if_splits)
  qed simp
  from this [of "Some names"] assms show ?thesis by simp
qed

subsection \<open>Properties\<close>

text \<open>A project with the services \<open>db\<close>, which stands for \<open>store\<close>, and two that stand for each other.\<close>

definition sample_service :: "string \<Rightarrow> string \<Rightarrow> unit ServiceInstance" where
  "sample_service name alias = zero_ServiceInstance\<lparr>si_Meta := zero_ObjectMeta\<lparr>om_Name := name, om_Namespace := ''ns''\<rparr>,
     si_Alias := alias, si_Secrets := [''admin'']\<rparr>"

definition sample_refs :: "(string \<times> string) list \<Rightarrow> (unit, unit, unit) ref_cluster" where
  "sample_refs aliases = \<lparr>rc_getNamespace = (\<lambda>_. Inr (Some zero_ObjectMeta)), rc_getApp = (\<lambda>_ _. Inr None),
     rc_listChildApps = (\<lambda>_ _ _. Inr []),
     rc_getService = (\<lambda>ns name. Inr (case map_of aliases name of None \<Rightarrow> None | Some alias \<Rightarrow> Some (sample_service name alias))),
     rc_listServices = (\<lambda>_. Inr []), rc_getSecret = (\<lambda>_ name. Inr (if name = ''svc.admin'' then None else Some zero_KSecret)),
     rc_listSecretsByPublicName = (\<lambda>_ _. Inr [])\<rparr>"

lemma sample_refs_simps [simp]:
  "rc_getService (sample_refs aliases) ns name = Inr (case map_of aliases name of None \<Rightarrow> None | Some alias \<Rightarrow> Some (sample_service name alias))"
  "getAcorn (sample_refs aliases) ns name = Inl (RefNotFound name)"
  "rc_getSecret (sample_refs aliases) ns name = Inr (if name = ''svc.admin'' then None else Some zero_KSecret)"
  "rc_listSecretsByPublicName (sample_refs aliases) ns name = Inr []" "rc_listServices (sample_refs aliases) ns = Inr []"
  by (simp_all add: sample_refs_def getAcorn_def zero_ObjectMeta_def gm_get_or_def Let_def)

lemma sample_reference [simp]:
  "reference (sample_service name alias) = (if alias = [] \<or> alias = name then None else Some (''ns'', str_split (CHR ''.'') alias))"
  "si_Secrets (sample_service name alias) = [''admin'']"
  by (simp_all add: reference_def sample_service_def zero_ServiceInstance_def)

text \<open>C5: When no chain of aliases and external names goes on for ever, every lookup of a service or a secret returns. Services
  that stand for each other in a circle are looked up for ever: nothing in the lookup notices.\<close>

theorem Lookup_terminates:
  "(wf {(y, x). refers K x y} \<longrightarrow> (\<exists>r. Lookup_Service K namespace parts = Some r) \<and> (\<exists>r. Lookup_Secret K namespace parts = Some r)) \<and>
   (circular K S \<and> (namespace, name) \<in> S \<and> getAcorn K namespace name = Inl (RefNotFound n) \<longrightarrow> Lookup_Service K namespace [name] = None)"
  using getService_returns [of K] lookup_returns [of K namespace parts False zero_ServiceInstance]
    lookupSecret_returns [of K "str_join ''.'' parts" namespace parts None] getService_circular [of K S namespace name]
  by (auto simp: Lookup_Service_def Lookup_Secret_def getService_def resolve_Lookup_Cons)

theorem Lookup_terminates_witness:
  "(\<exists>r. Lookup_Service (sample_refs [(''db'', ''store''), (''store'', [])]) ''ns'' [''db''] = Some r) \<and>
   Lookup_Service (sample_refs [(''a'', ''b''), (''b'', ''a'')]) ''ns'' [''a''] = None"
proof
  have "refers (sample_refs [(''db'', ''store''), (''store'', [])]) x y \<Longrightarrow> snd x = ''db'' \<and> snd y = ''store''" for x y
    by (auto simp: refers_def elim!: visits.cases split: if_splits)
  then have "wf {(y, x). refers (sample_refs [(''db'', ''store''), (''store'', [])]) x y}"
    by (intro wf_subset [OF wf_measure [of "\<lambda>x. if snd x = ''db'' then 1 else 0"]]) fastforce
  then show "\<exists>r. Lookup_Service (sample_refs [(''db'', ''store''), (''store'', [])]) ''ns'' [''db''] = Some r"
    using Lookup_terminates by blast
  have "circular (sample_refs [(''a'', ''b''), (''b'', ''a'')]) {(''ns'', ''a''), (''ns'', ''b'')}"
    by (auto simp: circular_def)
  then show "Lookup_Service (sample_refs [(''a'', ''b''), (''b'', ''a'')]) ''ns'' [''a''] = None"
    using Lookup_terminates [of "sample_refs [(''a'', ''b''), (''b'', ''a'')]" "''ns''" "[]" "{(''ns'', ''a''), (''ns'', ''b'')}" "''a''" "''a''"]
    by simp
qed

text \<open>A service that a lookup returns stands for itself, or is the default service of an app that the reference names.\<close>

theorem Lookup_Service_resolved:
  assumes "Lookup_Service K namespace parts = Some (Inr svc)" "parts \<noteq> []"
  shows "reference svc = None \<or> si_Default svc \<and> (\<exists>ns svcs. rc_listServices K ns = Inr svcs \<and> svc \<in> set svcs)"
  using resolve_resolved [OF assms(1) [unfolded Lookup_Service_def]] assms(2) by (simp add: proper_def resolved_def)

theorem Lookup_Service_resolved_witness: "reference (sample_service ''store'' []) = None"
proof -
  let ?K = "sample_refs [(''db'', ''store''), (''store'', [])]"
  have "Lookup_Service ?K ''ns'' [''db''] = Some (Inr (sample_service ''store'' []))"
    by (simp add: Lookup_Service_def resolve_unfold)
  from Lookup_Service_resolved [OF this] show ?thesis by simp
qed

text \<open>A secret that is named through a service is one that the service lists, and it is taken from the namespace of that
  service; unless there is a secret with the whole name, an app is no service.\<close>

theorem Lookup_Secret_listed:
  assumes "Lookup_Secret K namespace (svcName # rest) = Some (Inr secret)" "rest \<noteq> []"
    "getSecret K namespace (str_join ''.'' (svcName # rest)) None = Inl (RefNotFound m)" "getAcorn K namespace svcName = Inl (RefNotFound n)"
  shows "\<exists>svc. getService K namespace svcName = Some (Inr svc) \<and> last rest \<in> set (si_Secrets svc) \<and>
    getSecret K (om_Namespace (si_Meta svc)) (last rest) None = Inr secret"
proof -
  obtain "next" rest' where rest: "rest = next # rest'" using assms(2) by (cases rest) auto
  obtain svc where svc: "getService K namespace svcName = Some (Inr svc)"
    "lookupSecret K (str_join ''.'' (svcName # rest)) (om_Namespace (si_Meta svc)) rest (Some (si_Secrets svc)) = Some (Inr secret)"
    using assms rest by (auto simp: Lookup_Secret_def bind_eq_Some_conv split: sum.splits) (metis sum.exhaust)
  from lookupSecret_behind [OF svc(2) assms(2)] svc(1) show ?thesis by (auto simp: getSecret_def split: if_splits)
qed

theorem Lookup_Secret_listed_witness:
  "\<exists>svc. getService (sample_refs [(''svc'', [])]) ''ns'' ''svc'' = Some (Inr svc) \<and> ''admin'' \<in> set (si_Secrets svc)"
proof -
  have svc: "resolve (sample_refs [(''svc'', [])]) (GetService ''ns'' ''svc'') = Some (Inr (sample_service ''svc'' []))"
    by (simp add: resolve_unfold)
  then have "Lookup_Secret (sample_refs [(''svc'', [])]) ''ns'' [''svc'', ''admin''] = Some (Inr zero_KSecret)"
    by (simp add: Lookup_Secret_def getService_def getSecret_def)
  from Lookup_Secret_listed [OF this] show ?thesis by (auto simp: getSecret_def)
qed

end
