(* ===== verification/Classes.thy ===== *)
theory Classes
  imports AppInstances
begin

text \<open>
  Compute classes and volume classes: \<open>pkg/computeclasses/computeclasses.go\<close>, \<open>default.go\<close>, \<open>computeclasses.go\<close> and
  \<open>volumes.go\<close> of \<open>pkg/apis/internal.admin.acorn.io/v1\<close> and \<open>pkg/volume/volume.go\<close>. Which class is the default,
  which memory a compute class allows, and which volume classes a project sees. The lists of classes
  read from the cluster are arguments, in the order the cluster returns them; \<open>resParse\<close> and \<open>valueOf\<close> are
  \<open>resource.ParseQuantity\<close> and \<open>Value\<close>, and \<open>cpuMillis\<close> is the floating point computation of the scaler.
\<close>

subsection \<open>Compute classes\<close>

record ComputeClassMemory =
  cm_Min :: string
  cm_Max :: string
  cm_Default :: string
  cm_Values :: "string list"

record 'fl ProjectComputeClassInstance =
  cc_Name :: string
  cc_Description :: string
  cc_CPUScaler :: 'fl
  cc_Default :: bool
  cc_Affinity :: "Affinity option"
  cc_Tolerations :: "Toleration list"
  cc_Memory :: ComputeClassMemory
  cc_SupportedRegions :: "string list"
  cc_PriorityClassName :: string

definition ComputeClass_EnsureRegion :: "'fl ProjectComputeClassInstance \<Rightarrow> string \<Rightarrow> 'fl ProjectComputeClassInstance" where
  "ComputeClass_EnsureRegion c region =
     (if region \<in> set (cc_SupportedRegions c) then c
      else c\<lparr>cc_SupportedRegions := cc_SupportedRegions c @ [region]\<rparr>)"

definition ComputeClass_HasRegion :: "'fl ProjectComputeClassInstance \<Rightarrow> string \<Rightarrow> bool" where
  "ComputeClass_HasRegion c region \<longleftrightarrow> region \<in> set (cc_SupportedRegions c)"

record memoryQuantities =
  mq_Max :: int
  mq_Min :: int
  mq_Def :: int
  mq_Values :: "int list"

datatype 'e class_error =
    InvalidClass 'e
  | NotAllowedValue
  | DefaultAboveMaximum | DefinedAboveMaximum
  | DefaultBelowMinimum | DefinedBelowMinimum
  | NilDereference

definition parseQuantity :: "(string \<Rightarrow> 'e + 'q) \<Rightarrow> string \<Rightarrow> 'e + 'q" where
  "parseQuantity rp memory = rp (if memory = [] then ''0'' else memory)"

definition ParseComputeClassMemory :: "(string \<Rightarrow> 'e + 'q) \<Rightarrow> ('q \<Rightarrow> int) \<Rightarrow> ComputeClassMemory \<Rightarrow> 'e + memoryQuantities" where
  "ParseComputeClassMemory rp valueOf memory =
     bind_err (parseQuantity rp (cm_Min memory)) (\<lambda>minInt.
     bind_err (parseQuantity rp (cm_Max memory)) (\<lambda>maxInt.
     bind_err (parseQuantity rp (cm_Default memory)) (\<lambda>defInt.
     bind_err (map_err (parseQuantity rp) (cm_Values memory)) (\<lambda>values.
       Inr \<lparr>mq_Max = valueOf maxInt, mq_Min = valueOf minInt, mq_Def = valueOf defInt, mq_Values = map valueOf values\<rparr>))))"

definition memoryInValues :: "memoryQuantities \<Rightarrow> int \<Rightarrow> bool" where
  "memoryInValues parsedMemory v \<longleftrightarrow> list_ex (\<lambda>allowed. v = allowed) (mq_Values parsedMemory) \<or> length (mq_Values parsedMemory) = 0"

text \<open>A bound that is violated: the message compares with \<open>*memDefault\<close>, which may be a nil pointer.\<close>

definition boundError :: "int option \<Rightarrow> int \<Rightarrow> 'e class_error \<Rightarrow> 'e class_error \<Rightarrow> 'e class_error + unit" where
  "boundError memDefault memBytes ifDefault ifDefined =
     (case memDefault of
        None \<Rightarrow> Inl NilDereference
      | Some d \<Rightarrow> if memBytes = d then Inl ifDefault else Inl ifDefined)"

definition Validate :: "(string \<Rightarrow> 'e + 'q) \<Rightarrow> ('q \<Rightarrow> int) \<Rightarrow> ComputeClassMemory \<Rightarrow> 'q \<Rightarrow> int option \<Rightarrow> 'e class_error + unit" where
  "Validate rp valueOf ccMemory memory memDefault0 =
     (case ParseComputeClassMemory rp valueOf ccMemory of
        Inl e \<Rightarrow> Inl (InvalidClass e)
      | Inr parsedMemory \<Rightarrow>
          (let memDefault = (if cm_Default ccMemory \<noteq> [] then Some (mq_Def parsedMemory) else memDefault0);
               memBytes = valueOf memory
           in if \<not> memoryInValues parsedMemory memBytes then Inl NotAllowedValue
              else if mq_Max parsedMemory \<noteq> 0 \<and> memBytes > mq_Max parsedMemory
                then boundError memDefault memBytes DefaultAboveMaximum DefinedAboveMaximum
              else if memBytes \<noteq> 0 \<and> memBytes < mq_Min parsedMemory
                then boundError memDefault memBytes DefaultBelowMinimum DefinedBelowMinimum
              else Inr ()))"

definition ValidateProjectComputeClass :: "(string \<Rightarrow> 'e + 'q) \<Rightarrow> ('q \<Rightarrow> int) \<Rightarrow> 'fl ProjectComputeClassInstance \<Rightarrow> 'q \<Rightarrow>
    int option \<Rightarrow> 'e class_error + unit" where
  "ValidateProjectComputeClass rp valueOf cc memory memDefault = Validate rp valueOf (cc_Memory cc) memory memDefault"

definition CalculateCPU :: "(string \<Rightarrow> 'e + 'q) \<Rightarrow> ('q \<Rightarrow> int) \<Rightarrow> ('fl \<Rightarrow> 'q \<Rightarrow> int) \<Rightarrow> 'fl ProjectComputeClassInstance \<Rightarrow> int option \<Rightarrow>
    'q \<Rightarrow> 'e class_error + int" where
  "CalculateCPU rp valueOf cpuMillis cc memDefault memory =
     bind_err (ValidateProjectComputeClass rp valueOf cc memory memDefault) (\<lambda>_. Inr (cpuMillis (cc_CPUScaler cc) memory))"

definition GetComputeClassNameForWorkload :: "string \<Rightarrow> Container \<Rightarrow> ComputeClassMap \<Rightarrow> string" where
  "GetComputeClassNameForWorkload workload container computeClasses =
     (case gm_get computeClasses workload of
        Some specific \<Rightarrow> specific
      | None \<Rightarrow> (case gm_get computeClasses [] of
          Some all \<Rightarrow> all
        | None \<Rightarrow> (case c_ComputeClass (c_fields container) of Some cc \<Rightarrow> cc | None \<Rightarrow> [])))"

text \<open>
  \<open>getCurrentClusterComputeClassDefault\<close> and \<open>getCurrentProjectComputeClassDefault\<close>: the loop over the classes
  sorted by name, for the two lists.
\<close>

datatype 'e default_error = ListError 'e | TwoDefaults string string

fun defaultLoop :: "'fl ProjectComputeClassInstance list \<Rightarrow> 'fl ProjectComputeClassInstance option \<Rightarrow>
    'e default_error + 'fl ProjectComputeClassInstance option" where
  "defaultLoop [] found = Inr found"
| "defaultLoop (c # cs) found =
     (if cc_Default c then
        (case found of Some d \<Rightarrow> Inl (TwoDefaults (cc_Name d) (cc_Name c)) | None \<Rightarrow> defaultLoop cs (Some c))
      else defaultLoop cs found)"

definition classLess :: "'fl ProjectComputeClassInstance \<Rightarrow> 'fl ProjectComputeClassInstance \<Rightarrow> bool" where
  "classLess a b = (cc_Name a < cc_Name b)"

type_synonym 'fl class_sort = "('fl ProjectComputeClassInstance \<Rightarrow> 'fl ProjectComputeClassInstance \<Rightarrow> bool) \<Rightarrow>
  'fl ProjectComputeClassInstance list \<Rightarrow> 'fl ProjectComputeClassInstance list"

definition getCurrentComputeClassDefault :: "'fl class_sort \<Rightarrow> 'e + 'fl ProjectComputeClassInstance list \<Rightarrow>
    'e default_error + 'fl ProjectComputeClassInstance option" where
  "getCurrentComputeClassDefault sortSlice listed =
     (case listed of
        Inl e \<Rightarrow> Inl (ListError e)
      | Inr items \<Rightarrow> defaultLoop (sortSlice classLess items) None)"

definition GetDefaultComputeClass :: "'fl class_sort \<Rightarrow> (string \<Rightarrow> 'e + 'fl ProjectComputeClassInstance list) \<Rightarrow>
    'e + 'fl ProjectComputeClassInstance list \<Rightarrow> string \<Rightarrow> 'e default_error + string" where
  "GetDefaultComputeClass sortSlice listProject listCluster namespace =
     bind_err (getCurrentComputeClassDefault sortSlice (listProject namespace)) (\<lambda>pcc.
       case pcc of
         Some c \<Rightarrow> Inr (cc_Name c)
       | None \<Rightarrow> bind_err (getCurrentComputeClassDefault sortSlice listCluster) (\<lambda>ccc.
           Inr (case ccc of Some c \<Rightarrow> cc_Name c | None \<Rightarrow> [])))"

text \<open>\<open>getProject\<close> and \<open>getCluster\<close> read a class by name; not found is \<open>Inr None\<close>.\<close>

datatype 'e get_error = GetError 'e | NotFound | NoDefault "'e default_error"

definition GetAsProjectComputeClassInstance :: "(string \<Rightarrow> string \<Rightarrow> 'e + 'fl ProjectComputeClassInstance option) \<Rightarrow>
    (string \<Rightarrow> 'e + 'fl ProjectComputeClassInstance option) \<Rightarrow> string \<Rightarrow> string \<Rightarrow>
    'e get_error + 'fl ProjectComputeClassInstance option" where
  "GetAsProjectComputeClassInstance getProject getCluster namespace computeClass =
     (if computeClass = [] then Inr None
      else (case getProject namespace computeClass of
              Inl e \<Rightarrow> Inl (GetError e)
            | Inr (Some c) \<Rightarrow> Inr (Some c)
            | Inr None \<Rightarrow>
                (case getCluster computeClass of
                   Inl e \<Rightarrow> Inl (GetError e) | Inr None \<Rightarrow> Inl NotFound | Inr (Some c) \<Rightarrow> Inr (Some c))))"

definition GetClassForWorkload :: "'fl class_sort \<Rightarrow> (string \<Rightarrow> 'e + 'fl ProjectComputeClassInstance list) \<Rightarrow>
    'e + 'fl ProjectComputeClassInstance list \<Rightarrow> (string \<Rightarrow> string \<Rightarrow> 'e + 'fl ProjectComputeClassInstance option) \<Rightarrow>
    (string \<Rightarrow> 'e + 'fl ProjectComputeClassInstance option) \<Rightarrow> ComputeClassMap \<Rightarrow> Container \<Rightarrow> string \<Rightarrow> string \<Rightarrow>
    'e get_error + 'fl ProjectComputeClassInstance option" where
  "GetClassForWorkload sortSlice listProject listCluster getProject getCluster computeClasses container workload namespace =
     bind_err
       (let ccName = GetComputeClassNameForWorkload workload container computeClasses
        in if ccName = [] then map_sum NoDefault id (GetDefaultComputeClass sortSlice listProject listCluster namespace)
           else Inr ccName)
       (\<lambda>ccName. if ccName = [] then Inr None
                 else GetAsProjectComputeClassInstance getProject getCluster namespace ccName)"

subsection \<open>Volume classes\<close>

record VolumeClass =
  vc_Name :: string
  vc_StorageClassName :: string
  vc_Description :: string
  vc_Default :: bool
  vc_AllowedAccessModes :: "AccessMode list"
  vc_SizeDefault :: Quantity
  vc_SizeMin :: Quantity
  vc_SizeMax :: Quantity
  vc_Inactive :: bool
  vc_SupportedRegions :: "string list"

definition NormalizeMode :: "string \<Rightarrow> string" where
  "NormalizeMode mode = (if mode = ''0644'' \<or> mode = ''644'' then [] else mode)"

definition VolumeClass_EnsureRegion :: "VolumeClass \<Rightarrow> string \<Rightarrow> VolumeClass" where
  "VolumeClass_EnsureRegion c region =
     (if region \<in> set (vc_SupportedRegions c) then c else c\<lparr>vc_SupportedRegions := vc_SupportedRegions c @ [region]\<rparr>)"

definition VolumeClass_HasRegion :: "VolumeClass \<Rightarrow> string \<Rightarrow> bool" where
  "VolumeClass_HasRegion c region \<longleftrightarrow> region \<in> set (vc_SupportedRegions c)"

definition betterDefault :: "VolumeClass \<Rightarrow> VolumeClass option \<Rightarrow> VolumeClass option" where
  "betterDefault vc current =
     (case current of None \<Rightarrow> Some vc | Some d \<Rightarrow> if vc_Name vc < vc_Name d then Some vc else Some d)"

text \<open>The loop over the classes of the project: the classes, the default so far.\<close>

definition projectStep :: "VolumeClass \<Rightarrow> VolumeClass list \<times> VolumeClass option \<Rightarrow> VolumeClass list \<times> VolumeClass option" where
  "projectStep vc st =
     (if vc_Default vc then
        (if \<not> vc_Inactive vc then (fst st @ [vc], betterDefault vc (snd st))
         else (fst st @ [vc\<lparr>vc_Default := False\<rparr>], snd st))
      else (fst st @ [vc], snd st))"

definition clusterStep :: "string list \<Rightarrow> bool \<Rightarrow> VolumeClass \<Rightarrow> VolumeClass list \<times> VolumeClass option \<Rightarrow>
    VolumeClass list \<times> VolumeClass option" where
  "clusterStep projectClassesSeen projectDefaultFound cvc st =
     (if vc_Name cvc \<in> set projectClassesSeen then st
      else if vc_Default cvc then
        (if projectDefaultFound \<or> vc_Inactive cvc then (fst st @ [cvc\<lparr>vc_Default := False\<rparr>], snd st)
         else (fst st @ [cvc], betterDefault cvc (snd st)))
      else (fst st @ [cvc], snd st))"

definition SliceToMap :: "('a \<Rightarrow> 'k) \<Rightarrow> 'a list \<Rightarrow> ('k, 'a) gomap" where
  "SliceToMap keyFunc s = fold (\<lambda>obj m. gm_set m (keyFunc obj) obj) s []"

definition volumeClasses :: "VolumeClass list \<Rightarrow> VolumeClass list \<Rightarrow> VolumeClass list \<times> VolumeClass option" where
  "volumeClasses projectClasses clusterClasses =
     (let st = fold projectStep projectClasses ([], None);
          projectDefaultFound = list_ex (\<lambda>vc. vc_Default vc \<and> \<not> vc_Inactive vc) projectClasses
      in fold (clusterStep (map vc_Name projectClasses) projectDefaultFound) clusterClasses st)"

definition GetVolumeClassInstances :: "(string \<Rightarrow> 'e + VolumeClass list) \<Rightarrow> 'e + VolumeClass list \<Rightarrow> string \<Rightarrow>
    'e + (string, VolumeClass) gomap \<times> VolumeClass option" where
  "GetVolumeClassInstances listProject listCluster namespace =
     bind_err (listProject namespace) (\<lambda>projectClasses.
     bind_err listCluster (\<lambda>clusterClasses.
       let (items, def) = volumeClasses projectClasses clusterClasses in Inr (SliceToMap vc_Name items, def)))"

subsection \<open>Correctness\<close>

text \<open>Classes are offered in a set of regions; ensuring a region only adds to it.\<close>

locale region_set =
  fixes ensure :: "'o \<Rightarrow> string \<Rightarrow> 'o" and has :: "'o \<Rightarrow> string \<Rightarrow> bool"
  assumes ensure_has: "has (ensure c r) r"
    and ensure_keeps: "has c r' \<Longrightarrow> has (ensure c r) r'"
    and ensure_fix: "has c r \<Longrightarrow> ensure c r = c"
begin

lemma ensure_twice: "ensure (ensure c r) r = ensure c r"
  by (rule ensure_fix [OF ensure_has])

lemma ensure_both: "has (ensure (ensure c r) r') r \<and> has (ensure (ensure c r) r') r'"
  by (simp add: ensure_has ensure_keeps)

end

interpretation compute_class: region_set ComputeClass_EnsureRegion ComputeClass_HasRegion
  by unfold_locales (auto simp: ComputeClass_EnsureRegion_def ComputeClass_HasRegion_def)

interpretation volume_class: region_set VolumeClass_EnsureRegion VolumeClass_HasRegion
  by unfold_locales (auto simp: VolumeClass_EnsureRegion_def VolumeClass_HasRegion_def)

definition memory_allowed :: "memoryQuantities \<Rightarrow> int \<Rightarrow> bool" where
  "memory_allowed m v \<longleftrightarrow> (mq_Values m = [] \<or> v \<in> set (mq_Values m)) \<and> (mq_Max m = 0 \<or> v \<le> mq_Max m) \<and> (v = 0 \<or> mq_Min m \<le> v)"

text \<open>A compute class accepts a memory size exactly when its own bounds parse and the size is one of its values, if it
  lists any, not above its maximum, if it has one, and zero or not below its minimum. When a bound is
  violated and neither the class nor the caller has a default, building the message dereferences a nil
  pointer.\<close>

theorem Validate_iff:
  "(is_ok (Validate rp valueOf m memory d) \<longleftrightarrow>
     (case ParseComputeClassMemory rp valueOf m of Inl _ \<Rightarrow> False | Inr p \<Rightarrow> memory_allowed p (valueOf memory))) \<and>
   (Validate rp valueOf m memory d = Inl NilDereference \<longleftrightarrow>
     (case ParseComputeClassMemory rp valueOf m of Inl _ \<Rightarrow> False
      | Inr p \<Rightarrow> memoryInValues p (valueOf memory) \<and> \<not> memory_allowed p (valueOf memory) \<and> cm_Default m = [] \<and> d = None))"
  by (auto simp: Validate_def memory_allowed_def memoryInValues_def boundError_def Let_def list_ex_iff
      split: sum.splits option.splits)

lemma defaultLoop_Some: "defaultLoop cs (Some d) = (case filter cc_Default cs of [] \<Rightarrow> Inr (Some d) | c # _ \<Rightarrow> Inl (TwoDefaults (cc_Name d) (cc_Name c)))"
  by (induction cs) auto

lemma defaultLoop_None: "defaultLoop cs None =
    (case filter cc_Default cs of [] \<Rightarrow> Inr None | [c] \<Rightarrow> Inr (Some c) | c # d # _ \<Rightarrow> Inl (TwoDefaults (cc_Name c) (cc_Name d)))"
  by (induction cs) (auto simp: defaultLoop_Some split: list.splits)

lemma filter_perm_single:
  assumes "mset xs = mset ys"
  shows "filter P xs = [c] \<longleftrightarrow> filter P ys = [c]" and "filter P xs = [] \<longleftrightarrow> filter P ys = []"
proof -
  have "mset (filter P xs) = mset (filter P ys)" using assms by simp
  then show "filter P xs = [c] \<longleftrightarrow> filter P ys = [c]" "filter P xs = [] \<longleftrightarrow> filter P ys = []"
    by (metis mset_single_iff, metis mset_zero_iff)
qed

lemma currentDefault_Inr:
  assumes "sorts sortSlice classLess"
  shows "getCurrentComputeClassDefault sortSlice (Inr items) = Inr r \<longleftrightarrow>
    (case r of None \<Rightarrow> filter cc_Default items = [] | Some c \<Rightarrow> filter cc_Default items = [c])"
proof -
  have "mset (sortSlice classLess items) = mset items" using assms by (simp add: sorts_def)
  note * = filter_perm_single [OF this, where P = cc_Default]
  show ?thesis
    unfolding getCurrentComputeClassDefault_def defaultLoop_None sum.case * [symmetric]
    by (auto split: list.splits option.splits simp: *)
qed

text \<open>The default compute class is the one class of the project that is marked as default; only if the project marks
  none it is the one class of the cluster that is; if there is none, there is no default, and two of them
  are an error. The order in which the cluster lists the classes plays no role.\<close>

theorem GetDefaultComputeClass_spec:
  assumes "sorts sortSlice classLess" "listProject namespace = Inr ps" "listCluster = Inr cs"
  shows "GetDefaultComputeClass sortSlice listProject listCluster namespace = Inr name \<longleftrightarrow>
    (\<exists>c. filter cc_Default ps = [c] \<and> name = cc_Name c) \<or>
    filter cc_Default ps = [] \<and>
      ((\<exists>c. filter cc_Default cs = [c] \<and> name = cc_Name c) \<or> filter cc_Default cs = [] \<and> name = [])"
  using assms(2,3)
  by (auto simp: GetDefaultComputeClass_def bind_err_Inr currentDefault_Inr [OF assms(1)] split: option.splits)

theorem GetDefaultComputeClass_spec_witness:
  "let c = \<lparr>cc_Name = ''small'', cc_Description = [], cc_CPUScaler = (1::int), cc_Default = True, cc_Affinity = None, cc_Tolerations = [],
        cc_Memory = \<lparr>cm_Min = [], cm_Max = [], cm_Default = [], cm_Values = []\<rparr>, cc_SupportedRegions = [], cc_PriorityClassName = []\<rparr>
   in GetDefaultComputeClass (sort_by cc_Name) (\<lambda>_. Inr [] :: unit + _) (Inr [c\<lparr>cc_Name := ''big'', cc_Default := False\<rparr>, c]) ''prod'' = Inr ''small''"
proof -
  have "sorts (sort_by cc_Name) classLess" unfolding classLess_def by (rule sorts_sort_by)
  note * = GetDefaultComputeClass_spec [OF this, of "\<lambda>_. Inr [] :: unit + _" "''prod''" "[]", OF refl refl]
  show ?thesis unfolding Let_def * by simp
qed

definition activeDefault :: "VolumeClass \<Rightarrow> bool" where
  "activeDefault vc \<longleftrightarrow> vc_Default vc \<and> \<not> vc_Inactive vc"

definition undefault :: "bool \<Rightarrow> VolumeClass \<Rightarrow> VolumeClass" where
  "undefault override vc = (if vc_Default vc \<and> (override \<or> vc_Inactive vc) then vc\<lparr>vc_Default := False\<rparr> else vc)"

lemma undefault_simps [simp]:
  "vc_Name (undefault b vc) = vc_Name vc"
  "vc_Default (undefault b vc) \<longleftrightarrow> activeDefault vc \<and> \<not> b"
  by (auto simp: undefault_def activeDefault_def)

lemma fold_projectStep:
  "fold projectStep ps st = (fst st @ map (undefault False) ps, fold betterDefault (filter activeDefault ps) (snd st))"
  by (induction ps arbitrary: st) (auto simp: projectStep_def undefault_def activeDefault_def)

lemma fold_clusterStep:
  "fold (clusterStep seen found) cs st =
     (fst st @ map (undefault found) (filter (\<lambda>c. vc_Name c \<notin> set seen) cs),
      fold betterDefault (filter (\<lambda>c. activeDefault c \<and> \<not> found) (filter (\<lambda>c. vc_Name c \<notin> set seen) cs)) (snd st))"
  by (induction cs arbitrary: st) (auto simp: clusterStep_def undefault_def activeDefault_def)

lemma filter_undefault: "filter vc_Default (map (undefault b) vs) = filter (\<lambda>c. activeDefault c \<and> \<not> b) vs"
  by (induction vs) (auto simp: undefault_def activeDefault_def)

lemma volumeClasses_default:
  "snd (volumeClasses ps cs) = fold betterDefault (filter vc_Default (fst (volumeClasses ps cs))) None"
  by (simp add: volumeClasses_def Let_def fold_projectStep fold_clusterStep filter_undefault)

lemma fold_betterDefault:
  "case fold betterDefault xs d of
     None \<Rightarrow> xs = [] \<and> d = None
   | Some b \<Rightarrow> (b \<in> set xs \<or> d = Some b) \<and> (\<forall>x\<in>set xs. vc_Name b \<le> vc_Name x) \<and> (\<forall>x. d = Some x \<longrightarrow> vc_Name b \<le> vc_Name x)"
proof (induction xs arbitrary: d)
  case (Cons x xs)
  from Cons.IH [of "betterDefault x d"] show ?case
    by (auto simp: betterDefault_def split: option.splits if_splits)
qed (auto split: option.splits)

lemma volumeClasses_names:
  assumes "distinct (map vc_Name ps)" "distinct (map vc_Name cs)"
  shows "distinct (map vc_Name (fst (volumeClasses ps cs)))"
  using assms
  by (auto simp: volumeClasses_def Let_def fold_projectStep fold_clusterStep comp_def distinct_map_filter)
    (metis imageI)

lemma SliceToMap_get:
  assumes "distinct (map key xs)"
  shows "gm_get (SliceToMap key xs) k = Some x \<longleftrightarrow> x \<in> set xs \<and> key x = k"
proof -
  have "gm_get (fold (\<lambda>obj m. gm_set m (key obj) obj) xs m) k = Some x \<longleftrightarrow>
    x \<in> set xs \<and> key x = k \<or> k \<notin> key ` set xs \<and> gm_get m k = Some x" for m
    using assms by (induction xs arbitrary: m) (auto simp: go_map)
  then show ?thesis by (simp add: SliceToMap_def)
qed

text \<open>The volume classes of a project have one coherent default: it is an active class of the map that is marked as
  default, the first by name of all that are marked, and if there is none then no class of the map is
  marked; a default of the cluster never competes with one of the project.\<close>

theorem GetVolumeClassInstances_default:
  assumes "GetVolumeClassInstances (\<lambda>_. Inr ps) (Inr cs) namespace = Inr (m, def)"
    and "distinct (map vc_Name ps)" "distinct (map vc_Name cs)"
  shows "(case def of
      None \<Rightarrow> \<forall>k c. gm_get m k = Some c \<longrightarrow> \<not> vc_Default c
    | Some d \<Rightarrow> gm_get m (vc_Name d) = Some d \<and> vc_Default d \<and>
        (\<forall>k c. gm_get m k = Some c \<and> vc_Default c \<longrightarrow> vc_Name d \<le> vc_Name c)) \<and>
    (\<forall>k c. gm_get m k = Some c \<and> vc_Default c \<longrightarrow> \<not> vc_Inactive c \<and> (list_ex activeDefault ps \<longrightarrow> c \<in> set ps))"
proof -
  from assms(1) have m: "m = SliceToMap vc_Name (fst (volumeClasses ps cs))" and d: "def = snd (volumeClasses ps cs)"
    by (auto simp: GetVolumeClassInstances_def split: prod.splits)
  note get = SliceToMap_get [OF volumeClasses_names [OF assms(2,3)], folded m]
  have act: "\<not> vc_Inactive c \<and> (list_ex activeDefault ps \<longrightarrow> c \<in> set ps)" if "c \<in> set (fst (volumeClasses ps cs))" "vc_Default c" for c
    using that
    by (auto simp: volumeClasses_def Let_def fold_projectStep fold_clusterStep undefault_def activeDefault_def list_ex_iff
        split: if_splits)
  show ?thesis
    using fold_betterDefault [of "filter vc_Default (fst (volumeClasses ps cs))" None] act
    by (auto simp: get d volumeClasses_default filter_empty_conv split: option.splits)
qed

theorem GetVolumeClassInstances_default_witness:
  "let c = \<lparr>vc_Name = ''fast'', vc_StorageClassName = ''ssd'', vc_Description = [], vc_Default = True, vc_AllowedAccessModes = [],
        vc_SizeDefault = [], vc_SizeMin = [], vc_SizeMax = [], vc_Inactive = False, vc_SupportedRegions = []\<rparr>;
       b = c\<lparr>vc_Name := ''basic''\<rparr>
   in gm_get [(''fast'', c), (''basic'', b\<lparr>vc_Default := False\<rparr>)] ''fast'' = Some c"
proof -
  let ?c = "\<lparr>vc_Name = ''fast'', vc_StorageClassName = ''ssd'', vc_Description = [], vc_Default = True, vc_AllowedAccessModes = [],
     vc_SizeDefault = [], vc_SizeMin = [], vc_SizeMax = [], vc_Inactive = False, vc_SupportedRegions = []\<rparr>"
  let ?b = "?c\<lparr>vc_Name := ''basic''\<rparr>"
  have "GetVolumeClassInstances (\<lambda>_. Inr [?c]) (Inr [?b]) ''prod'' =
    (Inr ([(''fast'', ?c), (''basic'', ?b\<lparr>vc_Default := False\<rparr>)], Some ?c) :: unit + _)"
    by code_simp
  from GetVolumeClassInstances_default [OF this] show ?thesis by (simp add: Let_def)
qed

end
