(* ===== verification/StatusRender.thy ===== *)
theory StatusRender
  imports Refs Classes PortPublishing
begin

text \<open>
  The status of an app, \<open>pkg/controller/appstatus\<close>, with the events of jobs of \<open>pkg/jobs\<close>. \<open>PrepareStatus\<close> runs before and
  \<open>SetStatus\<close>, \<open>ReadyStatus\<close> and \<open>CLIStatus\<close> after the objects of an app were applied. The objects of Kubernetes are
  records of the fields that are read; what is read from the cluster are the fields of \<open>status_reads\<close>, where \<open>None\<close> is an
  object that is not found. The services of the cluster are a finite map, so that the chain of external names
  of \<open>isServiceReadyByNamespace\<close>, which remembers where it has been, ends.
\<close>

subsection \<open>Objects of the cluster\<close>

record Deployment =
  dl_Meta :: ObjectMeta
  dl_Replicas :: "int32 option"
  dl_StatusReplicas :: int32
  dl_ReadyReplicas :: int32
  dl_UpdatedReplicas :: int32
  dl_ObservedGeneration :: int
  dl_Conditions :: "(string \<times> string) list"

record ReplicaSet =
  rp_Meta :: ObjectMeta
  rp_ObservedGeneration :: int
  rp_Replicas :: int32
  rp_ReadyReplicas :: int32
  rp_AvailableReplicas :: int32

record KJob =
  kj_Meta :: ObjectMeta
  kj_Succeeded :: int32
  kj_Failed :: int32
  kj_Active :: int32

record CronJob =
  cj_Meta :: ObjectMeta
  cj_Active :: "string list"
  cj_LastSuccessfulTime :: "Time option"

record WaitingState =
  ws_Reason :: string
  ws_Message :: string

record TerminatedState =
  ts_Reason :: string
  ts_ExitCode :: int32

record KContainerStatus =
  kc_Waiting :: "WaitingState option"
  kc_Terminated :: "TerminatedState option"
  kc_RestartCount :: int32

record Pod =
  po_Meta :: ObjectMeta
  po_Conditions :: "(string \<times> string) list"
  po_InitContainerStatuses :: "KContainerStatus list"
  po_ContainerStatuses :: "KContainerStatus list"

record PersistentVolumeClaim =
  pv_Meta :: ObjectMeta
  pv_VolumeName :: string
  pv_StorageClassName :: "string option"
  pv_Phase :: string

record KServicePort =
  kp_Protocol :: string
  kp_Port :: int32
  kp_TargetPort :: int32

record LoadBalancerIngress =
  lb_Hostname :: string
  lb_IP :: string

record KService =
  ks_Meta :: ObjectMeta
  ks_ExternalName :: string
  ks_Ports :: "KServicePort list"
  ks_Ingress :: "LoadBalancerIngress list"

record Ingress =
  ig_Meta :: ObjectMeta
  ig_TLSHosts :: "string list list"
  ig_Ingress :: "LoadBalancerIngress list"

record Target =
  tg_Port :: int32
  tg_Service :: string

text \<open>
  The reads. \<open>rd_services\<close> are the services by namespace and name, \<open>rd_serviceError\<close> the errors of getting them or their
  endpoints; \<open>rd_endpoints\<close> gives for every subset its number of addresses. The \<open>rd_sort\<close> fields are \<open>sort.Slice\<close>; \<open>rd_sprint\<close>
  is \<open>fmt.Sprint\<close> of a value other than nil or text.
\<close>

record ('e, 'f, 'q) status_reads =
  rd_pods :: "string \<Rightarrow> string \<Rightarrow> string \<Rightarrow> 'e + Pod list"
  rd_deployment :: "string \<Rightarrow> string \<Rightarrow> 'e + Deployment option"
  rd_replicaSets :: "string \<Rightarrow> string \<Rightarrow> string \<Rightarrow> string \<Rightarrow> 'e + ReplicaSet list"
  rd_job :: "string \<Rightarrow> string \<Rightarrow> 'e + KJob option"
  rd_cronJob :: "string \<Rightarrow> string \<Rightarrow> 'e + CronJob option"
  rd_services :: "(string \<times> string, KService) gomap"
  rd_serviceError :: "string \<Rightarrow> string \<Rightarrow> 'e option"
  rd_endpoints :: "string \<Rightarrow> string \<Rightarrow> 'e + nat list option"
  rd_clusterDomain :: "'e + string"
  rd_pvcs :: "string \<Rightarrow> string \<Rightarrow> 'e + PersistentVolumeClaim list"
  rd_listProjectVC :: "string \<Rightarrow> 'e + VolumeClass list"
  rd_listClusterVC :: "'e + VolumeClass list"
  rd_pv :: "string \<Rightarrow> 'e + ObjectMeta option"
  rd_app :: "string \<Rightarrow> string \<Rightarrow> 'e + ('f, 'q) AppInstance option"
  rd_lookupService :: "string \<Rightarrow> string \<Rightarrow> 'e + 'f ServiceInstance option"
  rd_serviceInstance :: "string \<Rightarrow> string \<Rightarrow> 'e + 'f ServiceInstance option"
  rd_lookupSecret :: "string \<Rightarrow> string \<Rightarrow> 'e + KSecret option"
  rd_secret :: "string \<Rightarrow> string \<Rightarrow> 'e + KSecret option"
  rd_ingress :: "string \<Rightarrow> string \<Rightarrow> 'e + Ingress option"
  rd_publishedServices :: "string \<Rightarrow> 'e + KService list"
  rd_ingresses :: "string \<Rightarrow> 'e + Ingress list"
  rd_appIngresses :: "string \<Rightarrow> string \<Rightarrow> 'e + Ingress list"
  rd_parseTargets :: "string \<Rightarrow> 'e + (string, Target) gomap"
  rd_sortPods :: "(Pod \<Rightarrow> Pod \<Rightarrow> bool) \<Rightarrow> Pod list \<Rightarrow> Pod list"
  rd_sortPVCs :: "(PersistentVolumeClaim \<Rightarrow> PersistentVolumeClaim \<Rightarrow> bool) \<Rightarrow> PersistentVolumeClaim list \<Rightarrow> PersistentVolumeClaim list"
  rd_sortEndpoints :: "(Endpoint \<Rightarrow> Endpoint \<Rightarrow> bool) \<Rightarrow> Endpoint list \<Rightarrow> Endpoint list"
  rd_safeHashConcatName :: "string \<Rightarrow> string \<Rightarrow> string"
  rd_sprint :: "'f generic \<Rightarrow> string"

datatype 'e status_error = StatusRead 'e | CircularService string string

definition lift_read :: "'e + 'a \<Rightarrow> 'e status_error + 'a" where
  "lift_read r = map_sum StatusRead id r"

definition annotation :: "ObjectMeta \<Rightarrow> string \<Rightarrow> string" where
  "annotation m k = gm_get_or [] (om_Annotations m) k"

definition objectLabel :: "ObjectMeta \<Rightarrow> string \<Rightarrow> string" where
  "objectLabel m k = gm_get_or [] (om_Labels m) k"

text \<open>The object was applied for the current generation of the app.\<close>

definition currentGeneration :: "('f, 'q) AppInstance \<Rightarrow> ObjectMeta \<Rightarrow> bool" where
  "currentGeneration app m \<longleftrightarrow> annotation m AcornAppGeneration = itoa (om_Generation (app_Meta app))"

subsection \<open>Events of jobs\<close>

definition ShouldRunForEvent :: "string \<Rightarrow> Container \<Rightarrow> bool" where
  "ShouldRunForEvent eventName container =
     (if c_Events (c_fields container) = [] then eventName \<in> set [''create'', ''update'']
      else eventName \<in> set (c_Events (c_fields container)))"

definition GetEvent :: "string \<Rightarrow> ('f, 'q) AppInstance \<Rightarrow> string" where
  "GetEvent jobName app =
     (if om_DeletionTimestamp (app_Meta app) \<noteq> None then ''delete''
      else if ai_Stop (app_Spec app) = Some True then ''stop''
      else if om_Generation (app_Meta app) \<le> 1 \<or>
          ''create'' \<in> set (case gm_get (as_Jobs (is_AppSpec (app_Status app))) jobName of None \<Rightarrow> [] | Some job \<Rightarrow> c_Events (c_fields job)) \<and>
          \<not> us_CreateEventSucceeded (gm_get_or zero_JobStatus (at_Jobs (is_AppStatus (app_Status app))) jobName)
      then ''create'' else ''update'')"

definition ShouldRun :: "string \<Rightarrow> ('f, 'q) AppInstance \<Rightarrow> bool" where
  "ShouldRun jobName app =
     (case gm_get (as_Jobs (is_AppSpec (app_Status app))) jobName of
        None \<Rightarrow> False | Some job \<Rightarrow> ShouldRunForEvent (GetEvent jobName app) job)"

subsection \<open>Before the app is applied\<close>

definition prepareContainer :: "('f, 'q) AppInstance \<Rightarrow> ContainerStatus \<Rightarrow> ContainerStatus" where
  "prepareContainer app status =
     status\<lparr>us_Ready := us_Ready status \<and> om_Generation (app_Meta app) = is_ObservedGeneration (app_Status app),
       us_ExpressionErrors := [], us_Dependencies := []\<rparr>"

definition prepareJob :: "('f, 'q) AppInstance \<Rightarrow> string \<Rightarrow> JobStatus \<Rightarrow> JobStatus" where
  "prepareJob app name status =
     (let status' = status\<lparr>us_JobErrors := [], us_JobDependencies := []\<rparr>
      in if om_Generation (app_Meta app) \<noteq> is_ObservedGeneration (app_Status app) \<and> ShouldRun name app
         then status'\<lparr>us_Ready := False\<rparr> else status')"

definition PrepareStatus :: "('f, 'q) AppInstance \<Rightarrow> ('f, 'q) AppInstance" where
  "PrepareStatus app =
     (let st = is_AppStatus (app_Status app) in
      app\<lparr>app_Status := (app_Status app)\<lparr>is_AppStatus := st\<lparr>
        at_Containers := mapValues (prepareContainer app) (at_Containers st),
        at_Jobs := map (\<lambda>(name, status). (name, prepareJob app name status)) (at_Jobs st),
        at_Services := mapValues (\<lambda>status. status\<lparr>us_ServiceErrors := []\<rparr>) (at_Services st),
        at_Secrets := mapValues (\<lambda>status. status\<lparr>us_LookupErrors := [], us_LookupTransitioning := []\<rparr>) (at_Secrets st)\<rparr>\<rparr>\<rparr>)"

subsection \<open>Messages\<close>

definition addError :: "string \<Rightarrow> 'a CommonStatus_scheme \<Rightarrow> 'a CommonStatus_scheme" where
  "addError msg s = s\<lparr>us_ErrorMessages := us_ErrorMessages s @ [msg]\<rparr>"

definition addTransitioning :: "string \<Rightarrow> 'a CommonStatus_scheme \<Rightarrow> 'a CommonStatus_scheme" where
  "addTransitioning msg s = s\<lparr>us_TransitioningMessages := us_TransitioningMessages s @ [msg]\<rparr>"

definition expressionError_step :: "ExpressionError \<Rightarrow> 'a CommonStatus_scheme \<times> (string, DependencyType) gomap \<Rightarrow>
    'a CommonStatus_scheme \<times> (string, DependencyType) gomap" where
  "expressionError_step ee st =
     (case st of (status0, missing) \<Rightarrow>
        let status = status0\<lparr>us_Ready := False\<rparr> in
        case ee_DependencyNotFound ee of
          Some nf \<Rightarrow> (status, gm_set missing (nf_Name nf) (nf_DependencyType nf))
        | None \<Rightarrow>
            if ee_Error ee \<noteq> [] then
              (addError (if ee_Expression ee = [] then ee_Error ee else ''['' @ ee_Expression ee @ '']: '' @ ee_Error ee) status, missing)
            else (status, missing))"

definition addExpressionErrors :: "ExpressionError list \<Rightarrow> 'a CommonStatus_scheme \<Rightarrow> 'a CommonStatus_scheme" where
  "addExpressionErrors expressionErrors status =
     (case fold expressionError_step expressionErrors (status, []) of (status, missing) \<Rightarrow>
        fold (\<lambda>(name, ty). addTransitioning (ty @ '' ['' @ name @ ''] missing'')) (typed_Sorted missing) status)"

definition dependency_step :: "string \<times> DependencyStatus \<Rightarrow> 'a CommonStatus_scheme \<Rightarrow> 'a CommonStatus_scheme" where
  "dependency_step entry s =
     (case entry of (depName, dep) \<Rightarrow>
        if de_Ready dep then s
        else addTransitioning (de_DependencyType dep @ '' '' @ depName @
               (if de_Missing dep then '' dependency is missing'' else '' dependency is not ready'')) (s\<lparr>us_Ready := False\<rparr>))"

subsection \<open>Replicas\<close>

definition podName :: "Pod \<Rightarrow> string" where
  "podName pod =
     (let jobName = objectLabel (po_Meta pod) AcornJobName in if jobName \<noteq> [] then jobName else objectLabel (po_Meta pod) AcornContainerName)"

definition transitionMessages :: "Pod \<Rightarrow> KContainerStatus \<Rightarrow> string list" where
  "transitionMessages pod container =
     (case kc_Waiting container of
        None \<Rightarrow> []
      | Some w \<Rightarrow> if ws_Reason w = [] then []
          else if ws_Message w = [] then [podName pod @ '' '' @ ws_Reason w]
          else [podName pod @ '' '' @ ws_Reason w @ '': '' @ ws_Message w])"

definition errorMessages :: "Pod \<Rightarrow> KContainerStatus \<Rightarrow> string list" where
  "errorMessages pod container =
     (case kc_Terminated container of
        None \<Rightarrow> []
      | Some t \<Rightarrow> if sint (ts_ExitCode t) > 0 then [podName pod @ '' '' @ ts_Reason t @ '': Exit Code '' @ itoa (sint (ts_ExitCode t))] else [])"

definition containerMessages :: "Pod \<Rightarrow> KContainerStatus list \<Rightarrow> string list \<times> string list" where
  "containerMessages pod status = (concat (map (transitionMessages pod) status), concat (map (errorMessages pod) status))"

definition podSummary :: "Pod \<Rightarrow> ReplicasSummary" where
  "podSummary pod =
     (let statuses = po_InitContainerStatuses pod @ po_ContainerStatuses pod;
          (transition, errored) = containerMessages pod statuses
      in \<lparr>rs_RunningCount = 0,
          rs_MaxReplicaRestartCount = fold (\<lambda>status m. if sint (kc_RestartCount status) > sint m then kc_RestartCount status else m) statuses 0,
          rs_TransitioningMessages =
            map (\<lambda>_. podName pod @ '' is not scheduled to a node'')
              (filter (\<lambda>(ty, status). ty = ''PodScheduled'' \<and> status \<noteq> ''True'') (po_Conditions pod)) @ transition,
          rs_ErrorMessages = errored\<rparr>)"

definition zero_ReplicasSummary :: ReplicasSummary where
  "zero_ReplicasSummary = \<lparr>rs_RunningCount = 0, rs_MaxReplicaRestartCount = 0, rs_TransitioningMessages = [], rs_ErrorMessages = []\<rparr>"

definition getReplicasSummary :: "('e, 'f, 'q) status_reads \<Rightarrow> ('f, 'q) AppInstance \<Rightarrow> string \<Rightarrow>
    'e status_error + (string, ReplicasSummary) gomap" where
  "getReplicasSummary R app nameLabel =
     bind_err (lift_read (rd_pods R (is_Namespace (app_Status app)) (om_Name (app_Meta app)) nameLabel)) (\<lambda>pods.
       Inr (foldl (\<lambda>result pod. gm_set result (objectLabel (po_Meta pod) nameLabel) (podSummary pod)) []
              (rd_sortPods R (\<lambda>a b. om_CreationTimestamp (po_Meta a) < om_CreationTimestamp (po_Meta b)) pods)))"

subsection \<open>Services\<close>

definition getKService :: "('e, 'f, 'q) status_reads \<Rightarrow> string \<Rightarrow> string \<Rightarrow> 'e + KService option" where
  "getKService R namespace svc =
     (case rd_serviceError R namespace svc of Some e \<Rightarrow> Inl e | None \<Rightarrow> Inr (gm_get (rd_services R) (namespace, svc)))"

text \<open>The namespace and service that an external name of the cluster stands for.\<close>

definition internalName :: "string \<Rightarrow> KService \<Rightarrow> (string \<times> string) option" where
  "internalName clusterDomain svcDep =
     (let parts = str_split (CHR ''.'') (ks_ExternalName svcDep)
      in if str_has_suffix (ks_ExternalName svcDep) clusterDomain \<and> length parts > 2 then Some (parts ! 1, parts ! 0) else None)"

function isServiceReadyByNamespace :: "('e, 'f, 'q) status_reads \<Rightarrow> (string \<times> string) list \<Rightarrow> string \<Rightarrow> string \<Rightarrow>
    'e status_error + bool \<times> bool" where
  "isServiceReadyByNamespace R seen namespace svc =
     (if (namespace, svc) \<in> set seen then Inl (CircularService namespace svc)
      else (case getKService R namespace svc of
              Inl e \<Rightarrow> Inl (StatusRead e)
            | Inr None \<Rightarrow> Inr (False, False)
            | Inr (Some svcDep) \<Rightarrow>
                if objectLabel (ks_Meta svcDep) AcornManaged \<noteq> ''true'' then Inr (True, True)
                else if ks_ExternalName svcDep \<noteq> [] then
                  (case rd_clusterDomain R of
                     Inl _ \<Rightarrow> Inr (False, True)
                   | Inr domain \<Rightarrow>
                       (case internalName domain svcDep of
                          Some (ns, name) \<Rightarrow> isServiceReadyByNamespace R (seen @ [(namespace, svc)]) ns name
                        | None \<Rightarrow> Inr (True, True)))
                else (case rd_endpoints R namespace svc of
                        Inl e \<Rightarrow> Inl (StatusRead e)
                      | Inr None \<Rightarrow> Inr (False, False)
                      | Inr (Some subsets) \<Rightarrow> Inr (list_ex (\<lambda>addresses. addresses > 0) subsets, True))))"
  by pat_completeness auto
termination
proof (relation "measure (\<lambda>(R, seen, _, _). card (fst ` set (rd_services R) - set seen))", goal_cases)
  case (2 R seen namespace svc svcOpt svcDep domain nsName ns name)
  then have "(namespace, svc) \<in> fst ` set (rd_services R) - set seen"
    by (auto simp: getKService_def gm_get_def map_of_eq_None_iff split: option.splits dest!: map_of_SomeD intro!: rev_image_eqI)
  then have "fst ` set (rd_services R) - set (seen @ [(namespace, svc)]) \<subset> fst ` set (rd_services R) - set seen" by auto
  then show ?case by (simp add: psubset_card_mono)
qed simp

declare isServiceReadyByNamespace.simps [simp del]

definition isServiceReady :: "('e, 'f, 'q) status_reads \<Rightarrow> ('f, 'q) AppInstance \<Rightarrow> string \<Rightarrow> 'e status_error + bool \<times> bool" where
  "isServiceReady R app svc = isServiceReadyByNamespace R [] (is_Namespace (app_Status app)) svc"

subsection \<open>Containers\<close>

definition replicas :: "int32 option \<Rightarrow> int32" where
  "replicas r = (case r of None \<Rightarrow> 1 | Some n \<Rightarrow> n)"

definition isDepReady :: "('e, 'f, 'q) status_reads \<Rightarrow> ('f, 'q) AppInstance \<Rightarrow> Deployment \<Rightarrow> bool" where
  "isDepReady R app dep =
     (if (''Available'', ''True'') \<notin> set (dl_Conditions dep) then False
      else if \<not> currentGeneration app (dl_Meta dep) \<or> dl_ObservedGeneration dep \<noteq> om_Generation (dl_Meta dep) \<or>
          dl_StatusReplicas dep \<noteq> dl_ReadyReplicas dep \<or> dl_StatusReplicas dep \<noteq> dl_UpdatedReplicas dep then False
      else (case rd_replicaSets R (is_Namespace (app_Status app)) (om_Name (app_Meta app)) (om_Namespace (app_Meta app))
                   (objectLabel (dl_Meta dep) AcornContainerName) of
              Inl _ \<Rightarrow> False
            | Inr reps \<Rightarrow> list_ex (\<lambda>rep. currentGeneration app (rp_Meta rep) \<and> om_Generation (rp_Meta rep) = rp_ObservedGeneration rep \<and>
                rp_Replicas rep = rp_ReadyReplicas rep \<and> rp_Replicas rep = rp_AvailableReplicas rep) reps))"

definition deploymentStatus :: "('e, 'f, 'q) status_reads \<Rightarrow> ('f, 'q) AppInstance \<Rightarrow> Deployment \<Rightarrow> ContainerStatus \<Rightarrow> ContainerStatus" where
  "deploymentStatus R app dep cs0 =
     (let cs = cs0\<lparr>us_UpToDate := currentGeneration app (dl_Meta dep), us_ReadyReplicaCount := dl_ReadyReplicas dep,
            us_RunningReplicaCount := dl_StatusReplicas dep, us_DesiredReplicaCount := replicas (dl_Replicas dep),
            us_UpToDateReplicaCount := dl_UpdatedReplicas dep, us_Defined := True\<rparr>
      in if us_UpToDate cs \<and> us_ReadyReplicaCount cs = us_DesiredReplicaCount cs \<and> us_ExpressionErrors cs = []
         then cs\<lparr>us_Ready := isDepReady R app dep\<rparr> else cs)"

definition linkStatus :: "('e, 'f, 'q) status_reads \<Rightarrow> ('f, 'q) AppInstance \<Rightarrow> string \<Rightarrow> 'a CommonStatus_scheme \<Rightarrow>
    'e status_error + 'a CommonStatus_scheme" where
  "linkStatus R app name s =
     (if us_LinkOverride s \<noteq> [] then
        bind_err (isServiceReady R app name) (\<lambda>(ready, found). Inr (s\<lparr>us_UpToDate := True, us_Ready := ready, us_Defined := found\<rparr>))
      else Inr s)"

definition initialContainer :: "('f, 'q) AppInstance \<Rightarrow> (string, ReplicasSummary) gomap \<Rightarrow> string \<Rightarrow> ContainerStatus" where
  "initialContainer app summaries containerName =
     (let existing = gm_get_or zero_ContainerStatus (at_Containers (is_AppStatus (app_Status app))) containerName;
          summary = gm_get_or zero_ReplicasSummary summaries containerName
      in zero_ContainerStatus\<lparr>us_Defined := IsLinked (ai_Links (app_Spec app)) containerName,
           us_LinkOverride := LinkService (ai_Links (app_Spec app)) containerName,
           us_ErrorMessages := rs_ErrorMessages summary, us_TransitioningMessages := rs_TransitioningMessages summary,
           us_ExpressionErrors := us_ExpressionErrors existing, us_Dependencies := us_Dependencies existing,
           us_MaxReplicaRestartCount := rs_MaxReplicaRestartCount summary\<rparr>)"

text \<open>The status of one container, and whether a replica is in transition.\<close>

definition readContainer :: "('e, 'f, 'q) status_reads \<Rightarrow> ('f, 'q) AppInstance \<Rightarrow> (string, ReplicasSummary) gomap \<Rightarrow> string \<Rightarrow>
    'e status_error + ContainerStatus \<times> bool" where
  "readContainer R app summaries containerName =
     bind_err (lift_read (rd_deployment R (is_Namespace (app_Status app)) containerName)) (\<lambda>dep.
     bind_err (linkStatus R app containerName
         (let cs = initialContainer app summaries containerName in case dep of None \<Rightarrow> cs | Some dep \<Rightarrow> deploymentStatus R app dep cs)) (\<lambda>cs.
       Inr (addExpressionErrors (us_ExpressionErrors cs) (fold dependency_step (typed_Sorted (us_Dependencies cs)) cs),
            us_TransitioningMessages cs \<noteq> [])))"

definition putAppStatus :: "('f, 'q) AppInstance \<Rightarrow> 'f AppStatus \<Rightarrow> ('f, 'q) AppInstance" where
  "putAppStatus app st = app\<lparr>app_Status := (app_Status app)\<lparr>is_AppStatus := st\<rparr>\<rparr>"

definition readAll :: "(string \<Rightarrow> 'd \<Rightarrow> 'e + 's) \<Rightarrow> (string, 'd) gomap \<Rightarrow> 'e + (string, 's) gomap" where
  "readAll read defs = map_err (\<lambda>(name, d). bind_err (read name d) (\<lambda>s. Inr (name, s))) defs"

definition readContainers :: "('e, 'f, 'q) status_reads \<Rightarrow> ('f, 'q) AppInstance \<Rightarrow> 'e status_error + ('f, 'q) AppInstance" where
  "readContainers R app =
     bind_err (getReplicasSummary R app AcornContainerName) (\<lambda>summaries.
     bind_err (readAll (\<lambda>name _. readContainer R app summaries name) (as_Containers (is_AppSpec (app_Status app)))) (\<lambda>statuses.
       let isTransitioning = list_ex (snd \<circ> snd) statuses;
           containers = map (\<lambda>(name, cs, _). (name, cs)) statuses
       in Inr (putAppStatus app ((is_AppStatus (app_Status app))\<lparr>at_Containers := containers,
            at_Stopped := \<not> isTransitioning \<and> GetStopped app \<and> list_all (\<lambda>(_, cs). us_DesiredReplicaCount cs = 0) containers\<rparr>))))"

subsection \<open>Jobs\<close>

definition cronJobStatus :: "('f, 'q) AppInstance \<Rightarrow> CronJob \<Rightarrow> JobStatus \<Rightarrow> JobStatus" where
  "cronJobStatus app cronJob c0 =
     (let c = c0\<lparr>us_Defined := True, us_UpToDate := currentGeneration app (cj_Meta cronJob),
            us_RunningCount := int (length (cj_Active cronJob))\<rparr>
      in if cj_LastSuccessfulTime cronJob \<noteq> None then c\<lparr>us_CreateEventSucceeded := True, us_Ready := us_UpToDate c\<rparr> else c)"

definition kjobStatus :: "('f, 'q) AppInstance \<Rightarrow> KJob \<Rightarrow> JobStatus \<Rightarrow> JobStatus" where
  "kjobStatus app job c0 =
     (let c = c0\<lparr>us_Defined := True, us_UpToDate := currentGeneration app (kj_Meta job)\<rparr>
      in if sint (kj_Succeeded job) > 0 then c\<lparr>us_CreateEventSucceeded := True, us_Ready := us_UpToDate c\<rparr>
         else if sint (kj_Failed job) > 0 then c\<lparr>us_ErrorCount := sint (kj_Failed job)\<rparr>
         else if sint (kj_Active job) > 0 \<and> us_RunningCount c = 0 then c\<lparr>us_RunningCount := sint (kj_Active job)\<rparr>
         else c)"

definition readKJob :: "('e, 'f, 'q) status_reads \<Rightarrow> ('f, 'q) AppInstance \<Rightarrow> string \<Rightarrow> JobStatus \<Rightarrow> 'e status_error + JobStatus" where
  "readKJob R app jobName c =
     bind_err (lift_read (rd_job R (is_Namespace (app_Status app)) jobName)) (\<lambda>job.
       case job of
         Some job \<Rightarrow> Inr (kjobStatus app job c)
       | None \<Rightarrow> bind_err (lift_read (rd_cronJob R (is_Namespace (app_Status app)) jobName)) (\<lambda>cronJob.
           Inr (case cronJob of None \<Rightarrow> c | Some cronJob \<Rightarrow> cronJobStatus app cronJob c)))"

definition countMessages :: "JobStatus \<Rightarrow> JobStatus" where
  "countMessages c =
     (if us_RunningCount c > 0 then addTransitioning ''running'' c
      else if us_ErrorCount c > 0 then addError (itoa (us_ErrorCount c) @ '' failed attempts'') c else c)"

definition initialJob :: "('f, 'q) AppInstance \<Rightarrow> (string, ReplicasSummary) gomap \<Rightarrow> string \<Rightarrow> JobStatus" where
  "initialJob app summaries jobName =
     (let existing = gm_get_or zero_JobStatus (at_Jobs (is_AppStatus (app_Status app))) jobName;
          summary = gm_get_or zero_ReplicasSummary summaries jobName
      in zero_JobStatus\<lparr>us_CreateEventSucceeded := us_CreateEventSucceeded existing, us_Skipped := us_Skipped existing,
           us_JobErrors := us_JobErrors existing, us_JobDependencies := us_JobDependencies existing,
           us_Defined := IsLinked (ai_Links (app_Spec app)) jobName,
           us_LinkOverride := LinkService (ai_Links (app_Spec app)) jobName,
           us_TransitioningMessages := rs_TransitioningMessages summary, us_ErrorMessages := rs_ErrorMessages summary,
           us_RunningCount := rs_RunningCount summary\<rparr>)"

definition linkedJob :: "JobStatus \<Rightarrow> JobStatus" where
  "linkedJob c = (if us_LinkOverride c \<noteq> [] \<and> us_Ready c then c\<lparr>us_CreateEventSucceeded := True\<rparr> else c)"

definition readJob :: "('e, 'f, 'q) status_reads \<Rightarrow> ('f, 'q) AppInstance \<Rightarrow> (string, ReplicasSummary) gomap \<Rightarrow> string \<Rightarrow>
    'e status_error + JobStatus" where
  "readJob R app summaries jobName =
     (let c = initialJob app summaries jobName
      in if us_Skipped c then
           Inr (c\<lparr>us_Ready := True, us_UpToDate := True, us_Defined := True, us_ErrorCount := 0, us_RunningCount := 0, us_JobDependencies := []\<rparr>)
         else
           bind_err (readKJob R app jobName c) (\<lambda>c.
           bind_err (linkStatus R app jobName (countMessages c)) (\<lambda>c.
             Inr (addExpressionErrors (us_JobErrors c) (fold dependency_step (typed_Sorted (us_JobDependencies c)) (linkedJob c))))))"

definition readJobs :: "('e, 'f, 'q) status_reads \<Rightarrow> ('f, 'q) AppInstance \<Rightarrow> 'e status_error + ('f, 'q) AppInstance" where
  "readJobs R app =
     bind_err (getReplicasSummary R app AcornJobName) (\<lambda>summaries.
     bind_err (readAll (\<lambda>name _. readJob R app summaries name) (as_Jobs (is_AppSpec (app_Status app)))) (\<lambda>statuses.
       Inr (putAppStatus app ((is_AppStatus (app_Status app))\<lparr>at_Jobs := statuses\<rparr>))))"

definition isJobReady :: "('e, 'f, 'q) status_reads \<Rightarrow> ('f, 'q) AppInstance \<Rightarrow> string \<Rightarrow> 'e status_error + bool" where
  "isJobReady R app jobName =
     bind_err (lift_read (rd_job R (is_Namespace (app_Status app)) jobName)) (\<lambda>job.
       Inr (case job of None \<Rightarrow> False | Some jobDep \<Rightarrow> currentGeneration app (kj_Meta jobDep) \<and> kj_Succeeded jobDep = 1))"

subsection \<open>Volumes\<close>

definition VolumeRequestTypeEphemeral :: string where "VolumeRequestTypeEphemeral = ''ephemeral''"

definition linkedVolume :: "('f, 'q) AppInstance \<Rightarrow> string \<Rightarrow> string" where
  "linkedVolume app name =
     (if name = [] then []
      else (case find (\<lambda>binding. vb_Target binding = name) (ai_Volumes (app_Spec app)) of None \<Rightarrow> [] | Some binding \<Rightarrow> vb_Volume binding))"

definition mounts :: "Container \<Rightarrow> string \<Rightarrow> bool" where
  "mounts c volumeName \<longleftrightarrow> list_ex (\<lambda>(_, mount). vm_Volume mount = volumeName) (c_Dirs (c_fields c))"

definition volumeIsUsed :: "('f, 'q) AppInstance \<Rightarrow> string \<Rightarrow> bool" where
  "volumeIsUsed app volumeName \<longleftrightarrow>
     list_ex (\<lambda>(_, container). mounts container volumeName \<or> list_ex (\<lambda>(_, sidecar). mounts sidecar volumeName) (c_Sidecars container))
       (as_Containers (is_AppSpec (app_Status app)) @ as_Jobs (is_AppSpec (app_Status app)))"

definition initialVolume :: "('f, 'q) AppInstance \<Rightarrow> string \<Rightarrow> VolumeRequest \<Rightarrow> VolumeStatus" where
  "initialVolume app volumeName vol =
     (let isEphemeral = vr_Class vol = VolumeRequestTypeEphemeral
      in zero_VolumeStatus\<lparr>us_LinkOverride := linkedVolume app volumeName, us_Defined := isEphemeral, us_UpToDate := isEphemeral,
           us_Ready := isEphemeral, us_Bound := isEphemeral, us_StorageClassFound := isEphemeral\<rparr>)"

definition claimStatus :: "('f, 'q) AppInstance \<Rightarrow> string list \<Rightarrow> PersistentVolumeClaim \<Rightarrow> VolumeStatus \<Rightarrow> VolumeStatus" where
  "claimStatus app storageClassNames pvc v =
     (let volumeName = objectLabel (pv_Meta pvc) AcornVolumeName
      in if pv_Phase pvc = ''Bound'' then v\<lparr>us_Ready := True, us_Bound := True, us_StorageClassFound := True\<rparr>
         else if volumeIsUsed app volumeName then
           addTransitioning (''waiting for volume '' @ volumeName @ '' to provision and bind'')
             (case pv_StorageClassName pvc of
                Some class \<Rightarrow>
                  if class \<noteq> [] \<and> class \<notin> set storageClassNames
                  then addError (''volume class '' @ class @ '' for volume '' @ volumeName @ '' doesn't exist'') v
                  else v\<lparr>us_StorageClassFound := True\<rparr>
              | None \<Rightarrow> v\<lparr>us_StorageClassFound := True\<rparr>)
         else v)"

definition readClaim :: "('e, 'f, 'q) status_reads \<Rightarrow> ('f, 'q) AppInstance \<Rightarrow> string list \<Rightarrow> PersistentVolumeClaim \<Rightarrow>
    (string, VolumeStatus) gomap \<Rightarrow> 'e status_error + (string, VolumeStatus) gomap" where
  "readClaim R app storageClassNames pvc volumes =
     (let volumeName = objectLabel (pv_Meta pvc) AcornVolumeName in
      if volumeName = [] then Inr volumes
      else let v = (gm_get_or zero_VolumeStatus volumes volumeName)\<lparr>us_Defined := True, us_UpToDate := currentGeneration app (pv_Meta pvc)\<rparr>
        in bind_err (if pv_VolumeName pvc \<noteq> [] then
               bind_err (lift_read (rd_pv R (pv_VolumeName pvc))) (\<lambda>pv.
                 Inr (v\<lparr>us_VolumeName := publicname_Get (case pv of None \<Rightarrow> zero_ObjectMeta | Some m \<Rightarrow> m)\<rparr>))
             else Inr v) (\<lambda>v. Inr (gm_set volumes volumeName (claimStatus app storageClassNames pvc v))))"

definition fold_read :: "('x \<Rightarrow> 's \<Rightarrow> 'e + 's) \<Rightarrow> 'x list \<Rightarrow> 's \<Rightarrow> 'e + 's" where
  "fold_read f xs s = foldl (\<lambda>r x. bind_err r (f x)) (Inr s) xs"

definition getVolumeClassNames :: "(string, VolumeClass) gomap \<Rightarrow> bool \<Rightarrow> string list" where
  "getVolumeClassNames classes storageClassNames =
     (if \<not> storageClassNames then sort (map fst classes)
      else sort (remdups (map (\<lambda>(_, sc). vc_StorageClassName sc) classes)))"

definition GetVolumeClassNames :: "(string \<Rightarrow> 'e + VolumeClass list) \<Rightarrow> 'e + VolumeClass list \<Rightarrow> string \<Rightarrow> bool \<Rightarrow> 'e + string list" where
  "GetVolumeClassNames listProject listCluster namespace storageClassNames =
     bind_err (GetVolumeClassInstances listProject listCluster namespace) (\<lambda>(classes, _).
       Inr (getVolumeClassNames classes storageClassNames))"

definition readVolumes :: "('e, 'f, 'q) status_reads \<Rightarrow> ('f, 'q) AppInstance \<Rightarrow> 'e status_error + ('f, 'q) AppInstance" where
  "readVolumes R app =
     (let volumes = map (\<lambda>(name, vol). (name, initialVolume app name vol)) (as_Volumes (is_AppSpec (app_Status app)));
          put = (\<lambda>volumes. putAppStatus app ((is_AppStatus (app_Status app))\<lparr>at_Volumes := volumes\<rparr>))
      in bind_err (lift_read (rd_pvcs R (is_Namespace (app_Status app)) (om_Name (app_Meta app)))) (\<lambda>pvcs.
         if pvcs = [] then Inr (put volumes)
         else bind_err (lift_read (GetVolumeClassNames (rd_listProjectVC R) (rd_listClusterVC R) (om_Namespace (app_Meta app)) True)) (\<lambda>storageClassNames.
           bind_err (fold_read (readClaim R app storageClassNames)
               (rd_sortPVCs R (\<lambda>a b. om_CreationTimestamp (pv_Meta a) < om_CreationTimestamp (pv_Meta b)) pvcs) volumes) (\<lambda>volumes.
             Inr (put volumes)))))"

subsection \<open>Services and secrets\<close>

definition serviceAcorn :: "('e, 'f, 'q) status_reads \<Rightarrow> ('f, 'q) AppInstance \<Rightarrow> string \<Rightarrow> 'f Service \<Rightarrow> 'f ServiceStatus \<Rightarrow>
    'e status_error + 'f ServiceStatus" where
  "serviceAcorn R app serviceName serviceDef s =
     (if us_LinkOverride s = [] \<and> sv_Image serviceDef \<noteq> [] then
        bind_err (lift_read (rd_app R (om_Namespace (app_Meta app)) (rd_safeHashConcatName R (om_Name (app_Meta app)) serviceName))) (\<lambda>found.
          let acorn = (case found of None \<Rightarrow> zero_AppInstance | Some acorn \<Rightarrow> acorn)
          in Inr (s\<lparr>us_ServiceAcornName := publicname_Get (app_Meta acorn), us_ServiceAcornReady := is_Ready (app_Status acorn)\<rparr>))
      else Inr s)"

text \<open>The message of the last failed condition of a service, and of the last one that is waiting.\<close>

definition serviceMessages :: "'f ServiceInstance \<Rightarrow> 'a CommonStatus_scheme \<Rightarrow> 'a CommonStatus_scheme" where
  "serviceMessages service s =
     (let failed = filter cn_Error (si_Conditions service);
          waiting = filter (\<lambda>c. \<not> cn_Error c \<and> (cn_Transitioning c \<or> \<not> cn_Success c)) (si_Conditions service);
          name = om_Name (si_Meta service)
      in if failed \<noteq> [] then addError (name @ '': failed ['' @ cn_Message (last failed) @ '']'') s
         else if waiting \<noteq> [] then addTransitioning (name @ '': waiting ['' @ cn_Message (last waiting) @ '']'') s
         else s)"

definition foundService :: "('f, 'q) AppInstance \<Rightarrow> 'f ServiceInstance \<Rightarrow> 'f ServiceStatus \<Rightarrow> 'f ServiceStatus" where
  "foundService app service s =
     (let defined = us_Defined s \<or> \<not> si_HasService service;
          upToDate = defined \<and> (om_Namespace (si_Meta service) \<noteq> is_Namespace (app_Status app) \<or> currentGeneration app (si_Meta service));
          ready = (us_Ready s \<or> \<not> si_HasService service) \<and> upToDate
      in serviceMessages service (s\<lparr>us_Defined := defined, us_UpToDate := upToDate,
           us_Ready := ready \<and> (us_ServiceAcornName s \<noteq> [] \<longrightarrow> us_ServiceAcornReady s),
           us_Default := si_Default service, us_Ports := si_Ports service, us_Data := si_Data service, us_Secrets := si_Secrets service,
           us_Address := si_Address service,
           us_Endpoint := (case si_Endpoints service of [] \<Rightarrow> [] | ep # _ \<Rightarrow> ep_Address ep)\<rparr>))"

definition readService :: "('e, 'f, 'q) status_reads \<Rightarrow> ('f, 'q) AppInstance \<Rightarrow> string \<Rightarrow> 'f Service \<Rightarrow> 'e status_error + 'f ServiceStatus" where
  "readService R app serviceName serviceDef =
     (let s = zero_ServiceStatus\<lparr>us_LinkOverride := LinkService (ai_Links (app_Spec app)) serviceName,
            us_ServiceErrors := us_ServiceErrors (gm_get_or zero_ServiceStatus (at_Services (is_AppStatus (app_Status app))) serviceName)\<rparr>
      in bind_err (isServiceReady R app serviceName) (\<lambda>(ready, defined).
         bind_err (serviceAcorn R app serviceName serviceDef (s\<lparr>us_Ready := ready, us_Defined := defined\<rparr>)) (\<lambda>s.
         bind_err (lift_read (rd_lookupService R (is_Namespace (app_Status app)) serviceName)) (\<lambda>found.
           case found of
             None \<Rightarrow> Inr (s\<lparr>us_Ready := False, us_UpToDate := us_ServiceAcornName s \<noteq> [], us_Defined := us_ServiceAcornName s \<noteq> []\<rparr>)
           | Some service \<Rightarrow>
               bind_err (lift_read (rd_serviceInstance R (is_Namespace (app_Status app)) serviceName)) (\<lambda>localService.
                 let s = foundService app service s;
                     s = (case localService of None \<Rightarrow> s | Some l \<Rightarrow> s\<lparr>us_Default := si_Default l\<rparr>)
                 in Inr (addExpressionErrors (us_ServiceErrors s) s))))))"

definition readServices :: "('e, 'f, 'q) status_reads \<Rightarrow> ('f, 'q) AppInstance \<Rightarrow> 'e status_error + ('f, 'q) AppInstance" where
  "readServices R app =
     bind_err (readAll (readService R app) (typed_Sorted (as_Services (is_AppSpec (app_Status app))))) (\<lambda>statuses.
       Inr (putAppStatus app ((is_AppStatus (app_Status app))\<lparr>at_Services := statuses\<rparr>)))"

definition linkedSecret :: "('f, 'q) AppInstance \<Rightarrow> string \<Rightarrow> string" where
  "linkedSecret app name =
     (if name = [] then []
      else (case find (\<lambda>binding. sc_Target binding = name) (ai_Secrets (app_Spec app)) of None \<Rightarrow> [] | Some binding \<Rightarrow> sc_Secret binding))"

definition SecretTypeGenerated :: string where "SecretTypeGenerated = ''secrets.acorn.io/generated''"

definition sprintValue :: "('e, 'f, 'q) status_reads \<Rightarrow> 'f generic option \<Rightarrow> string" where
  "sprintValue R v = (case v of None \<Rightarrow> ''<nil>'' | Some GNull \<Rightarrow> ''<nil>'' | Some (GString s) \<Rightarrow> s | Some v \<Rightarrow> rd_sprint R v)"

text \<open>A generated secret waits for its job; a parameter that is not set differs from the empty text, too.\<close>

definition secretJob :: "('e, 'f, 'q) status_reads \<Rightarrow> ('f, 'q) AppInstance \<Rightarrow> 'f Secret \<Rightarrow> SecretStatus \<Rightarrow> 'e status_error + SecretStatus" where
  "secretJob R app secretDef s =
     (if st_Type secretDef = SecretTypeGenerated \<and> gm_get (st_Params secretDef) ''job'' \<noteq> Some (GString []) then
        let jobName = sprintValue R (gm_get (st_Params secretDef) ''job'')
        in bind_err (isJobReady R app jobName) (\<lambda>ready. Inr (s\<lparr>us_JobName := jobName, us_JobReady := ready\<rparr>))
      else Inr (s\<lparr>us_JobReady := True\<rparr>))"

definition readSecret :: "('e, 'f, 'q) status_reads \<Rightarrow> ('f, 'q) AppInstance \<Rightarrow> string \<Rightarrow> 'f Secret \<Rightarrow> 'e status_error + SecretStatus" where
  "readSecret R app secretName secretDef =
     (let existing = gm_get_or zero_SecretStatus (at_Secrets (is_AppStatus (app_Status app))) secretName;
          s = zero_SecretStatus\<lparr>us_LinkOverride := linkedSecret app secretName, us_ErrorMessages := us_LookupErrors existing,
            us_TransitioningMessages := us_LookupTransitioning existing\<rparr>
      in bind_err (lift_read (rd_lookupSecret R (is_Namespace (app_Status app)) secretName)) (\<lambda>found.
           case found of
             None \<Rightarrow> Inr s
           | Some secret \<Rightarrow>
               let s = s\<lparr>us_UpToDate := currentGeneration app (kx_Meta secret), us_Defined := True, us_Ready := True\<rparr>
               in bind_err (lift_read (rd_secret R (om_Namespace (app_Meta app)) (objectLabel (kx_Meta secret) AcornSecretSourceName))) (\<lambda>source.
                    case source of
                      None \<Rightarrow> Inr s
                    | Some sourceSecret \<Rightarrow>
                        bind_err (secretJob R app secretDef (s\<lparr>us_SecretName := publicname_Get (kx_Meta sourceSecret)\<rparr>)) (\<lambda>s.
                          Inr (s\<lparr>us_Ready := us_Ready s \<and> us_JobReady s, us_DataKeys := sort (map fst (kx_Data sourceSecret))\<rparr>)))))"

definition readSecrets :: "('e, 'f, 'q) status_reads \<Rightarrow> ('f, 'q) AppInstance \<Rightarrow> 'e status_error + ('f, 'q) AppInstance" where
  "readSecrets R app =
     bind_err (readAll (readSecret R app) (as_Secrets (is_AppSpec (app_Status app)))) (\<lambda>statuses.
       Inr (putAppStatus app ((is_AppStatus (app_Status app))\<lparr>at_Secrets := statuses\<rparr>)))"

subsection \<open>Acorns and routers\<close>

definition AppInstanceConditionReady :: string where "AppInstanceConditionReady = ''Ready''"

definition acornCondition :: "Condition \<Rightarrow> AcornStatus \<Rightarrow> AcornStatus" where
  "acornCondition cond s =
     (if cn_Type cond \<noteq> AppInstanceConditionReady then s
      else if cn_Status cond = ''False'' then addError (cn_Message cond) s
      else if cn_Status cond = ''Unknown'' then addTransitioning (cn_Message cond) s else s)"

definition readAcorn :: "('e, 'f, 'q) status_reads \<Rightarrow> ('f, 'q) AppInstance \<Rightarrow> string \<Rightarrow> 'e status_error + AcornStatus" where
  "readAcorn R app acornName =
     (let s = zero_AcornStatus\<lparr>us_Defined := IsLinked (ai_Links (app_Spec app)) acornName,
            us_LinkOverride := LinkService (ai_Links (app_Spec app)) acornName\<rparr>
      in if us_LinkOverride s \<noteq> [] then
           bind_err (isServiceReady R app acornName) (\<lambda>(ready, _). Inr (s\<lparr>us_UpToDate := True, us_Ready := ready\<rparr>))
         else bind_err (lift_read (rd_app R (om_Namespace (app_Meta app)) (rd_safeHashConcatName R (om_Name (app_Meta app)) acornName))) (\<lambda>found.
           Inr (case found of
                  None \<Rightarrow> s
                | Some acorn \<Rightarrow>
                    let upToDate = currentGeneration app (app_Meta acorn)
                    in fold acornCondition (is_Conditions (app_Status acorn))
                         (s\<lparr>us_Defined := True, us_UpToDate := upToDate, us_Ready := upToDate \<and> is_Ready (app_Status acorn),
                            us_AcornName := publicname_Get (app_Meta acorn)\<rparr>))))"

definition readAcorns :: "('e, 'f, 'q) status_reads \<Rightarrow> ('f, 'q) AppInstance \<Rightarrow> 'e status_error + ('f, 'q) AppInstance" where
  "readAcorns R app =
     bind_err (readAll (\<lambda>name _. readAcorn R app name) (as_Acorns (is_AppSpec (app_Status app)))) (\<lambda>statuses.
       Inr (putAppStatus app ((is_AppStatus (app_Status app))\<lparr>at_Acorns := statuses\<rparr>)))"

definition readOneRouter :: "('e, 'f, 'q) status_reads \<Rightarrow> ('f, 'q) AppInstance \<Rightarrow> string \<Rightarrow> 'e status_error + RouterStatus" where
  "readOneRouter R app routerName =
     bind_err (lift_read (rd_ingress R (is_Namespace (app_Status app)) routerName)) (\<lambda>ingress.
     bind_err (isServiceReady R app routerName) (\<lambda>(ready, _).
       let defined = IsLinked (ai_Links (app_Spec app)) routerName \<or> ingress \<noteq> None
       in Inr (zero_CommonStatus\<lparr>us_Defined := defined, us_LinkOverride := LinkService (ai_Links (app_Spec app)) routerName,
            us_Ready := defined \<and> ready\<rparr>)))"

definition readRouter :: "('e, 'f, 'q) status_reads \<Rightarrow> ('f, 'q) AppInstance \<Rightarrow> 'e status_error + ('f, 'q) AppInstance" where
  "readRouter R app =
     bind_err (readAll (\<lambda>name _. readOneRouter R app name) (as_Routers (is_AppSpec (app_Status app)))) (\<lambda>statuses.
       Inr (putAppStatus app ((is_AppStatus (app_Status app))\<lparr>at_Routers := statuses\<rparr>)))"

subsection \<open>Endpoints\<close>

definition portEndpoints :: "KService \<Rightarrow> KServicePort \<Rightarrow> Endpoint list" where
  "portEndpoints service port =
     (let endpoint = (\<lambda>host pending protocol. \<lparr>ep_Target = objectLabel (ks_Meta service) AcornContainerName, ep_TargetPort = kp_TargetPort port,
            ep_Address = host @ '':'' @ itoa (sint (kp_Port port)), ep_Protocol = protocol, ep_PublishProtocol = [], ep_Pending = pending\<rparr>);
          all = (\<lambda>protocol. if ks_Ingress service = [] then [endpoint ''<Pending Ingress>'' True protocol]
            else concat (map (\<lambda>ingress. if lb_Hostname ingress \<noteq> [] then [endpoint (lb_Hostname ingress) False protocol]
                   else if lb_IP ingress \<noteq> [] then [endpoint (lb_IP ingress) False protocol] else []) (ks_Ingress service)))
      in if kp_Protocol port = ''TCP'' then all ProtocolTCP else if kp_Protocol port = ''UDP'' then all ProtocolUDP else [])"

definition serviceEndpoints :: "('e, 'f, 'q) status_reads \<Rightarrow> ('f, 'q) AppInstance \<Rightarrow> 'e status_error + Endpoint list" where
  "serviceEndpoints R app =
     bind_err (lift_read (rd_publishedServices R (is_Namespace (app_Status app)))) (\<lambda>services.
       Inr (concat (map (\<lambda>service. if objectLabel (ks_Meta service) AcornContainerName = [] then []
         else concat (map (portEndpoints service) (ks_Ports service))) services)))"

definition targetEndpoint :: "Ingress \<Rightarrow> string \<times> Target \<Rightarrow> Endpoint" where
  "targetEndpoint ingress entry =
     (case entry of (hostname, target) \<Rightarrow>
        let override = annotation (ig_Meta ingress) AcornPublishURL
        in \<lparr>ep_Target = tg_Service target, ep_TargetPort = tg_Port target, ep_Address = (if override \<noteq> [] then override else hostname),
            ep_Protocol = ProtocolHTTP, ep_PublishProtocol = [], ep_Pending = ig_Ingress ingress = []\<rparr>)"

text \<open>An ingress without targets ends the loop, and the endpoints found so far are dropped.\<close>

fun ingressLoop :: "('e, 'f, 'q) status_reads \<Rightarrow> Ingress list \<Rightarrow> Endpoint list \<Rightarrow> 'e status_error + Endpoint list" where
  "ingressLoop R [] endpoints = Inr endpoints"
| "ingressLoop R (ingress # rest) endpoints =
     (let targetStr = annotation (ig_Meta ingress) AcornTargets in
      if targetStr = [] then Inr []
      else bind_err (lift_read (rd_parseTargets R targetStr)) (\<lambda>targets.
        ingressLoop R rest (endpoints @ map (targetEndpoint ingress) (typed_Sorted targets))))"

definition ingressEndpoints :: "('e, 'f, 'q) status_reads \<Rightarrow> ('f, 'q) AppInstance \<Rightarrow> 'e status_error + Endpoint list" where
  "ingressEndpoints R app =
     bind_err (lift_read (rd_ingresses R (is_Namespace (app_Status app)))) (\<lambda>ingresses. ingressLoop R ingresses [])"

definition ingressTLSHosts :: "('e, 'f, 'q) status_reads \<Rightarrow> ('f, 'q) AppInstance \<Rightarrow> 'e status_error + string list" where
  "ingressTLSHosts R app =
     bind_err (lift_read (rd_appIngresses R (is_Namespace (app_Status app)) (om_Name (app_Meta app)))) (\<lambda>ingresses.
       Inr (concat (concat (map ig_TLSHosts ingresses))))"

definition publishProtocol :: "string list \<Rightarrow> Endpoint \<Rightarrow> Endpoint" where
  "publishProtocol tlsHosts ep =
     ep\<lparr>ep_PublishProtocol :=
       (if ep_Protocol ep = ProtocolHTTP then (if hd (str_split (CHR '':'') (ep_Address ep)) \<in> set tlsHosts then ''https'' else ''http'')
        else ep_Protocol ep)\<rparr>"

definition readEndpoints :: "('e, 'f, 'q) status_reads \<Rightarrow> ('f, 'q) AppInstance \<Rightarrow> 'e status_error + ('f, 'q) AppInstance" where
  "readEndpoints R app =
     bind_err (ingressEndpoints R app) (\<lambda>ingressEps.
     bind_err (serviceEndpoints R app) (\<lambda>serviceEps.
     bind_err (ingressTLSHosts R app) (\<lambda>tlsHosts.
       Inr (putAppStatus app ((is_AppStatus (app_Status app))\<lparr>at_Endpoints :=
         rd_sortEndpoints R (\<lambda>a b. ep_Address a < ep_Address b) (map (publishProtocol tlsHosts) (ingressEps @ serviceEps))\<rparr>)))))"

subsection \<open>The status of the app\<close>

definition AppStatus_Get :: "('e, 'f, 'q) status_reads \<Rightarrow> ('f, 'q) AppInstance \<Rightarrow> 'e status_error + 'f AppStatus" where
  "AppStatus_Get R app =
     bind_err (readContainers R app) (\<lambda>app.
     bind_err (readJobs R app) (\<lambda>app.
     bind_err (readVolumes R app) (\<lambda>app.
     bind_err (readServices R app) (\<lambda>app.
     bind_err (readSecrets R app) (\<lambda>app.
     bind_err (readAcorns R app) (\<lambda>app.
     bind_err (readRouter R app) (\<lambda>app.
     bind_err (readEndpoints R app) (\<lambda>app. Inr (is_AppStatus (app_Status app))))))))))"

definition formatMessage :: "string \<Rightarrow> string list \<Rightarrow> string" where
  "formatMessage name parts =
     (if name = [] then (if length parts = 1 then hd parts else ''['' @ str_join '', '' parts @ '']'')
      else name @ '': ['' @ str_join '', '' parts @ '']'')"

text \<open>What is reported of one part: its errors, or what it waits for.\<close>

definition partMessages :: "bool \<Rightarrow> string \<times> CommonStatus \<Rightarrow> string list \<times> string list" where
  "partMessages deleting entry =
     (case entry of (name, status) \<Rightarrow>
        if us_ErrorMessages status \<noteq> [] then ([formatMessage name (us_ErrorMessages status)], [])
        else if us_TransitioningMessages status \<noteq> [] then ([], [formatMessage name (us_TransitioningMessages status)])
        else if \<not> us_Defined status \<and> \<not> deleting then ([], [name @ '': [pending create]''])
        else if \<not> us_UpToDate status \<and> \<not> deleting then ([], [name @ '': [pending update]''])
        else if \<not> us_Ready status \<and> \<not> deleting then ([], [name @ '': [is not ready]''])
        else ([], []))"

definition partsCondition :: "bool \<Rightarrow> (string, 'a CommonStatus_scheme) gomap \<Rightarrow> Condition" where
  "partsCondition deleting status =
     (let parts = map (\<lambda>(name, s). partMessages deleting (name, GetCommonStatus s)) (typed_Sorted status);
          errors = concat (map fst parts); transitioning = concat (map snd parts)
      in if errors \<noteq> [] then errorCondition (Some (formatMessage [] (errors @ transitioning)))
         else if transitioning \<noteq> [] then unknownCondition (formatMessage [] (errors @ transitioning))
         else successCondition)"

definition setPartsCondition :: "Time \<Rightarrow> string \<Rightarrow> (string, 'a CommonStatus_scheme) gomap \<Rightarrow> ('f, 'q) AppInstance \<Rightarrow> panic + ('f, 'q) AppInstance" where
  "setPartsCondition now conditionName status app =
     map_sum id fst (Callback_Set AppInstance_Conditions conditionName now (partsCondition (om_DeletionTimestamp (app_Meta app) \<noteq> None) status) app)"

definition AppInstanceConditionContainers :: string where "AppInstanceConditionContainers = ''containers''"
definition AppInstanceConditionJobs :: string where "AppInstanceConditionJobs = ''jobs''"
definition AppInstanceConditionVolumes :: string where "AppInstanceConditionVolumes = ''volumes''"
definition AppInstanceConditionServices :: string where "AppInstanceConditionServices = ''services''"
definition AppInstanceConditionSecrets :: string where "AppInstanceConditionSecrets = ''secrets''"
definition AppInstanceConditionAcorns :: string where "AppInstanceConditionAcorns = ''acorns''"

datatype 'e set_error = StatusError "'e status_error" | Panic panic

definition SetStatus :: "('e, 'f, 'q) status_reads \<Rightarrow> Time \<Rightarrow> ('f, 'q) AppInstance \<Rightarrow> 'e set_error + ('f, 'q) AppInstance" where
  "SetStatus R now app =
     bind_err (map_sum StatusError id (AppStatus_Get R app)) (\<lambda>status.
     map_sum Panic id (
       bind_err (setPartsCondition now AppInstanceConditionContainers (at_Containers status) app) (\<lambda>app.
       bind_err (setPartsCondition now AppInstanceConditionJobs (at_Jobs status) app) (\<lambda>app.
       bind_err (setPartsCondition now AppInstanceConditionVolumes (at_Volumes status) app) (\<lambda>app.
       bind_err (setPartsCondition now AppInstanceConditionServices (at_Services status) app) (\<lambda>app.
       bind_err (setPartsCondition now AppInstanceConditionSecrets (at_Secrets status) app) (\<lambda>app.
       bind_err (setPartsCondition now AppInstanceConditionAcorns (at_Acorns status) app) (\<lambda>app.
         Inr (putAppStatus app status)))))))))"

end
