(* ===== verification/ImagePattern.thy ===== *)
theory ImagePattern
  imports AppInstances
begin

text \<open>
  Image patterns and the choice of the latest tag: \<open>pkg/imagepattern/pattern.go\<close> and \<open>FindLatest\<close> and
  \<open>findLatestTagForImageWithPattern\<close> of \<open>pkg/autoupgrade/tags.go\<close>. A compiled regular expression is a function from a
  text to the slice of its submatches, with the index of every named group; compiling is an argument,
  and so are the registry, the tags stored in the cluster and the image allow rules.
\<close>

subsection \<open>Patterns\<close>

definition IsImagePattern :: "string \<Rightarrow> bool" where
  "IsImagePattern img = str_contains_any img ''#*''"

datatype pType = Alpha | Numeric

record namedMatchingGroup =
  ng_PType :: pType
  ng_Name :: string

definition is_special :: "char \<Rightarrow> bool" where
  "is_special c \<longleftrightarrow> c = CHR ''#'' \<or> c = CHR ''*''"

text \<open>\<open>strings.ReplaceAll(pattern, "**", ...)\<close>.\<close>

definition ignoredGroup :: string where "ignoredGroup = ''([0-9A-Za-z_./:-]{0,})''"

fun replaceDoubleStar :: "string \<Rightarrow> string" where
  "replaceDoubleStar (c # d # cs) =
     (if c = CHR ''*'' \<and> d = CHR ''*'' then ignoredGroup @ replaceDoubleStar cs else c # replaceDoubleStar (d # cs))"
| "replaceDoubleStar cs = cs"

definition groupName :: "nat \<Rightarrow> string" where "groupName index = ''m'' @ itoa (int index)"

definition groupText :: "char \<Rightarrow> string \<Rightarrow> string" where
  "groupText c name = ''(?P<'' @ name @ (if c = CHR ''*'' then ''>[0-9A-Za-z_.-]+)'' else ''>'' @ [CHR 0x5C] @ ''d+)'')"

definition groupType :: "char \<Rightarrow> pType" where "groupType c = (if c = CHR ''*'' then Alpha else Numeric)"

text \<open>
  The loop of \<open>NewMatcher\<close> replaces the leftmost special character of the whole pattern by a group, until
  there is none.
\<close>

lemma itoa_not_special: "c \<in> set (itoa i) \<Longrightarrow> \<not> is_special c"
  using itoa_chars [of c i] by (auto simp: is_special_def is_digit_def)

lemma groupText_not_special: "c \<in> set (groupText d (groupName index)) \<Longrightarrow> \<not> is_special c"
  using itoa_not_special [of c "int index"] by (auto simp: groupText_def groupName_def is_special_def split: if_splits)

function matcherLoop :: "string \<Rightarrow> nat \<Rightarrow> namedMatchingGroup list \<Rightarrow> string \<times> namedMatchingGroup list" where
  "matcherLoop pattern index groups =
     (case dropWhile (\<lambda>c. \<not> is_special c) pattern of
        [] \<Rightarrow> (pattern, groups)
      | c # rest \<Rightarrow>
          matcherLoop (takeWhile (\<lambda>c. \<not> is_special c) pattern @ groupText c (groupName index) @ rest) (Suc index)
            (groups @ [\<lparr>ng_PType = groupType c, ng_Name = groupName index\<rparr>]))"
  by pat_completeness auto
termination
proof (relation "measure (\<lambda>(pattern, _, _). length (filter is_special pattern))")
  fix pattern index c rest and groups :: "namedMatchingGroup list"
  assume *: "dropWhile (\<lambda>c. \<not> is_special c) pattern = c # rest"
  have "pattern = takeWhile (\<lambda>c. \<not> is_special c) pattern @ c # rest" using * by (metis takeWhile_dropWhile_id)
  moreover have "is_special c" using hd_dropWhile [of "\<lambda>c. \<not> is_special c" pattern] * by auto
  moreover have "filter is_special (takeWhile (\<lambda>c. \<not> is_special c) pattern) = []"
    by (metis (mono_tags, lifting) filter_False set_takeWhileD)
  moreover have "filter is_special (groupText c (groupName index)) = []"
    using groupText_not_special by (auto simp: filter_empty_conv)
  ultimately have "length (filter is_special (takeWhile (\<lambda>c. \<not> is_special c) pattern @ groupText c (groupName index) @ rest)) <
    length (filter is_special pattern)"
    by (metis (no_types, lifting) append_Nil filter.simps(2) filter_append length_Cons lessI)
  then show "((takeWhile (\<lambda>c. \<not> is_special c) pattern @ groupText c (groupName index) @ rest, Suc index,
        groups @ [\<lparr>ng_PType = groupType c, ng_Name = groupName index\<rparr>]), pattern, index, groups)
      \<in> measure (\<lambda>(pattern, _, _). length (filter is_special pattern))"
    by simp
qed simp

declare matcherLoop.simps [simp del]

text \<open>A compiled expression: the submatches of a text, and the index of a named group.\<close>

record regexp =
  re_Submatch :: "string \<Rightarrow> string list option"
  re_SubexpIndex :: "string \<Rightarrow> int"

definition NewMatcher :: "(string \<Rightarrow> 'e + regexp) \<Rightarrow> string \<Rightarrow> 'e + regexp \<times> namedMatchingGroup list" where
  "NewMatcher compile pattern =
     (case matcherLoop (replaceDoubleStar (''^'' @ pattern @ ''$'')) 0 [] of
        (text, groups) \<Rightarrow> bind_err (compile text) (\<lambda>re. Inr (re, groups)))"

subsection \<open>The latest tag\<close>

text \<open>Is the tag with these submatches later than the latest one so far? An index out of range panics in Go.\<close>

datatype tag_error = NumberError num_error | IndexPanic

datatype 'e find_error = CompileError 'e | TagError tag_error

definition at :: "string list \<Rightarrow> int \<Rightarrow> tag_error + string" where
  "at xs i = (if 0 \<le> i \<and> nat i < length xs then Inr (xs ! nat i) else Inl IndexPanic)"

text \<open>The built-in \<open>copy\<close>: as many elements as fit.\<close>

definition go_copy :: "'a list \<Rightarrow> 'a list \<Rightarrow> 'a list" where
  "go_copy dst src = take (length dst) src @ drop (length src) dst"

fun laterMatch :: "regexp \<Rightarrow> namedMatchingGroup list \<Rightarrow> string list \<Rightarrow> string list \<Rightarrow> tag_error + bool" where
  "laterMatch re [] subs latestSubs = Inr False"
| "laterMatch re (p # ps) subs latestSubs =
     bind_err (at subs (re_SubexpIndex re (ng_Name p))) (\<lambda>m.
     bind_err (at latestSubs (re_SubexpIndex re (ng_Name p))) (\<lambda>l.
       if ng_PType p = Alpha then
         (if m < l then Inr False else if m > l then Inr True else laterMatch re ps subs latestSubs)
       else
         bind_err (map_sum NumberError id (atoi l)) (\<lambda>latestInt.
         bind_err (map_sum NumberError id (atoi m)) (\<lambda>matchInt.
           if matchInt < latestInt then Inr False else if matchInt > latestInt then Inr True
           else laterMatch re ps subs latestSubs))))"

fun latestLoop :: "regexp \<Rightarrow> namedMatchingGroup list \<Rightarrow> string list \<Rightarrow> string \<Rightarrow> string list \<Rightarrow> tag_error + string" where
  "latestLoop re groups [] latest latestSubs = Inr latest"
| "latestLoop re groups (tag # tags) latest latestSubs =
     (case re_Submatch re tag of
        None \<Rightarrow> latestLoop re groups tags latest latestSubs
      | Some subs \<Rightarrow>
          if length latestSubs = 0 then latestLoop re groups tags tag subs
          else bind_err (laterMatch re groups subs latestSubs) (\<lambda>later.
                 if later then latestLoop re groups tags tag (go_copy latestSubs subs)
                 else latestLoop re groups tags latest latestSubs))"

definition FindLatest :: "(string \<Rightarrow> 'e + regexp) \<Rightarrow> string \<Rightarrow> string \<Rightarrow> string list \<Rightarrow> 'e find_error + string" where
  "FindLatest compile current pattern tags =
     (case NewMatcher compile pattern of
        Inl e \<Rightarrow> Inl (CompileError e)
      | Inr (re, groups) \<Rightarrow>
          map_sum TagError id
            (latestLoop re groups tags current (case re_Submatch re current of None \<Rightarrow> [] | Some subs \<Rightarrow> subs)))"

subsection \<open>The latest allowed tag of an image\<close>

definition invalidTag :: string where "invalidTag = ''+notfound+''"
definition defaultNoReg :: string where "defaultNoReg = ''xxx-no-reg''"

text \<open>A parsed reference: its registry, its tag or digest, and the full name of the image under another tag.\<close>

record Reference =
  rf_RegistryStr :: string
  rf_Identifier :: string
  rf_TagName :: "string \<Rightarrow> string"

definition imageWithTag :: "Reference \<Rightarrow> string \<Rightarrow> string" where
  "imageWithTag ref tag = str_trim_prefix (rf_TagName ref tag) (defaultNoReg @ ''/'')"

text \<open>\<open>checkImageAllowed\<close> returns no error, the error of a rule, or another one.\<close>

datatype 'e allow_error = ErrImageNotAllowed | OtherError 'e

lemma latestLoop_member:
  "latestLoop re groups tags latest latestSubs = Inr t \<Longrightarrow> t = latest \<or> t \<in> set tags"
  by (induction tags arbitrary: latest latestSubs) (fastforce simp: bind_err_Inr split: option.splits if_splits)+

lemma FindLatest_member: "FindLatest compile current pattern tags = Inr t \<Longrightarrow> t = current \<or> t \<in> set tags"
  by (auto simp: FindLatest_def map_sum_Inr split: sum.splits prod.splits dest: latestLoop_member)

text \<open>
  The loop over the tags that are left: the tag that was chosen with its image, and the error of the
  last tag that was refused.
\<close>

function allowedLoop :: "(string \<Rightarrow> 'e + regexp) \<Rightarrow> Reference \<Rightarrow> (string \<Rightarrow> 'e allow_error option) \<Rightarrow> string \<Rightarrow> string \<Rightarrow>
    string list \<Rightarrow> 'e allow_error option \<Rightarrow> (string \<times> string) option \<times> 'e allow_error option" where
  "allowedLoop compile ref checkImageAllowed pattern newTag tags notAllowedErr =
     (if tags = [] then (None, notAllowedErr)
      else (case FindLatest compile newTag pattern tags of
              Inl _ \<Rightarrow> (None, notAllowedErr)
            | Inr nTag \<Rightarrow>
                if nTag = newTag then (None, notAllowedErr)
                else (case checkImageAllowed (imageWithTag ref nTag) of
                        Some e \<Rightarrow> allowedLoop compile ref checkImageAllowed pattern newTag
                                    (filter (\<lambda>tag. tag \<noteq> nTag) tags) (Some e)
                      | None \<Rightarrow> (Some (nTag, imageWithTag ref nTag), None))))"
  by pat_completeness auto
termination
proof (relation "measure (\<lambda>(_, _, _, _, _, tags, _). length tags)")
  fix compile :: "string \<Rightarrow> 'e + regexp" and ref checkImageAllowed pattern newTag tags notAllowedErr nTag e
  assume "FindLatest compile newTag pattern tags = Inr nTag" "nTag \<noteq> newTag"
  then have "nTag \<in> set tags" using FindLatest_member by fastforce
  then have "length (filter (\<lambda>tag. tag \<noteq> nTag) tags) < length tags" by (simp add: length_filter_less)
  then show "((compile, ref, checkImageAllowed, pattern, newTag, filter (\<lambda>tag. tag \<noteq> nTag) tags, Some e),
      (compile, ref, checkImageAllowed, pattern, newTag, tags, notAllowedErr)) \<in> measure (\<lambda>(_, _, _, _, _, tags, _). length tags)"
    by simp
qed simp

declare allowedLoop.simps [simp del]

text \<open>\<open>listTags\<close> and \<open>localTags\<close> give the tags they could find; their errors are only logged.\<close>

definition getTagsForImagePattern :: "(string \<Rightarrow> 'e + Reference) \<Rightarrow> (string \<Rightarrow> string list) \<Rightarrow> (Reference \<Rightarrow> string list) \<Rightarrow> string \<Rightarrow>
    'e + Reference \<times> string list" where
  "getTagsForImagePattern parseReference listTags localTags img =
     bind_err (parseReference img) (\<lambda>current.
       Inr (current, (if rf_RegistryStr current \<noteq> defaultNoReg then listTags img else []) @ localTags current))"

datatype 'e latest_error = ReferenceError 'e | NotAllowed "'e allow_error"

definition findLatestTagForImageWithPattern :: "(string \<Rightarrow> 'e + regexp) \<Rightarrow> (string \<Rightarrow> 'e + Reference) \<Rightarrow> (string \<Rightarrow> string list) \<Rightarrow>
    (Reference \<Rightarrow> string list) \<Rightarrow> (string \<Rightarrow> 'e allow_error option) \<Rightarrow> string \<Rightarrow> string \<Rightarrow> string \<Rightarrow> 'e latest_error + string \<times> bool" where
  "findLatestTagForImageWithPattern compile parseReference listTags localTags checkImageAllowed current img pattern =
     bind_err (map_sum ReferenceError id
         (getTagsForImagePattern parseReference listTags localTags (str_trim_suffix img ('':'' @ pattern)))) (\<lambda>(ref, tags).
       let newTag = (if current = [] then invalidTag else current)
       in case allowedLoop compile ref checkImageAllowed pattern newTag tags None of
            (Some (nTag, nImg), _) \<Rightarrow> if nTag = invalidTag then Inr ([], False) else Inr (nImg, nTag \<noteq> current)
          | (None, notAllowedErr) \<Rightarrow>
              if newTag = invalidTag then (case notAllowedErr of Some e \<Rightarrow> Inl (NotAllowed e) | None \<Rightarrow> Inr ([], False))
              else Inr (imageWithTag ref newTag, newTag \<noteq> current))"
subsection \<open>A matcher in one pass\<close>

text \<open>
  The specification of the loop: a single pass over the pattern that turns each special character into
  a group, numbered from the left.
\<close>

fun onePass :: "nat \<Rightarrow> string \<Rightarrow> string \<times> namedMatchingGroup list" where
  "onePass index [] = ([], [])"
| "onePass index (c # cs) =
     (if is_special c
      then case onePass (Suc index) cs of (text, groups) \<Rightarrow>
        (groupText c (groupName index) @ text, \<lparr>ng_PType = groupType c, ng_Name = groupName index\<rparr> # groups)
      else case onePass index cs of (text, groups) \<Rightarrow> (c # text, groups))"

lemma onePass_plain:
  "\<forall>c\<in>set a. \<not> is_special c \<Longrightarrow> onePass index (a @ b) = (a @ fst (onePass index b), snd (onePass index b))"
  by (induction a) (auto split: prod.splits)

lemma matcherLoop_onePass:
  "matcherLoop pattern index groups = (fst (onePass index pattern), groups @ snd (onePass index pattern))"
proof (induction pattern index groups rule: matcherLoop.induct)
  case (1 pattern index groups)
  let ?plain = "takeWhile (\<lambda>c. \<not> is_special c) pattern"
  have plain: "\<forall>c\<in>set ?plain. \<not> is_special c" by (auto dest: set_takeWhileD)
  show ?case
  proof (cases "dropWhile (\<lambda>c. \<not> is_special c) pattern")
    case Nil
    then have "onePass index pattern = (pattern, [])"
      using onePass_plain [of pattern index "[]"] by (auto simp: dropWhile_eq_Nil_conv)
    then show ?thesis unfolding matcherLoop.simps [of pattern] Nil by simp
  next
    case (Cons c rest)
    have c: "is_special c" using hd_dropWhile [of "\<lambda>c. \<not> is_special c" pattern] Cons by auto
    have p: "pattern = ?plain @ c # rest" using Cons by (metis takeWhile_dropWhile_id)
    have "onePass index pattern = (?plain @ fst (onePass index (c # rest)), snd (onePass index (c # rest)))"
      using onePass_plain [OF plain, of index "c # rest"] p by simp
    moreover have "onePass (Suc index) (?plain @ groupText c (groupName index) @ rest) =
      (?plain @ groupText c (groupName index) @ fst (onePass (Suc index) rest), snd (onePass (Suc index) rest))"
      using onePass_plain [OF plain, of "Suc index"] onePass_plain [of "groupText c (groupName index)" "Suc index" rest] groupText_not_special by auto
    ultimately show ?thesis
      using 1 [OF Cons] c by (simp add: matcherLoop.simps [of pattern] Cons split: prod.splits)
  qed
qed

lemma onePass_types: "map ng_PType (snd (onePass index p)) = map groupType (filter is_special p)"
  by (induction index p rule: onePass.induct) (auto split: prod.splits)

lemma onePass_names:
  "map ng_Name (snd (onePass index p)) = map groupName [index ..< index + length (filter is_special p)]"
  by (induction p arbitrary: index) (simp_all add: upt_conv_Cons split_beta del: upt_Suc)

lemma groupName_inj: "groupName i = groupName j \<longleftrightarrow> i = j"
  by (simp add: groupName_def itoa_inject)

text \<open>What a pattern without \<open>**\<close> reads: the text around the special characters is kept as it is.\<close>

fun no_double_star :: "string \<Rightarrow> bool" where
  "no_double_star (c # d # cs) \<longleftrightarrow> \<not> (c = CHR ''*'' \<and> d = CHR ''*'') \<and> no_double_star (d # cs)"
| "no_double_star _ \<longleftrightarrow> True"

lemma replaceDoubleStar_id: "no_double_star p \<Longrightarrow> replaceDoubleStar p = p"
  by (induction p rule: replaceDoubleStar.induct) auto

lemma ignoredGroup_not_special: "filter is_special ignoredGroup = []"
  by (simp add: ignoredGroup_def is_special_def)

subsection \<open>The order of the tags\<close>

lemma laterMatch_irrefl: "laterMatch re groups subs subs \<noteq> Inr True"
  by (induction groups) (auto simp: bind_err_Inr)

lemma laterMatch_trans:
  "laterMatch re groups a b = Inr True \<Longrightarrow> laterMatch re groups b c = Inr True \<Longrightarrow>
   laterMatch re groups a c = Inr True"
proof (induction groups)
  case Nil
  then show ?case by simp
next
  case (Cons p ps)
  obtain x y z where x: "at a (re_SubexpIndex re (ng_Name p)) = Inr x"
    and y: "at b (re_SubexpIndex re (ng_Name p)) = Inr y"
    and z: "at c (re_SubexpIndex re (ng_Name p)) = Inr z"
    using Cons.prems by (auto simp: bind_err_Inr)
  show ?case
  proof (cases "ng_PType p = Alpha")
    case True
    then show ?thesis using Cons x y z by (auto split: if_splits)
  next
    case False
    then show ?thesis using Cons x y z by (auto simp: bind_err_Inr split: if_splits)
  qed
qed

lemma laterMatch_asym: "laterMatch re groups a b = Inr True \<Longrightarrow> laterMatch re groups b a \<noteq> Inr True"
  using laterMatch_trans laterMatch_irrefl by blast

text \<open>The submatches of a text, none if it does not match, as \<open>latestMatches\<close> holds them.\<close>

definition submatches :: "regexp \<Rightarrow> string \<Rightarrow> string list" where
  "submatches re s = (case re_Submatch re s of None \<Rightarrow> [] | Some subs \<Rightarrow> subs)"

text \<open>
  What package \<open>regexp\<close> documents: the slice of submatches holds the match of the whole expression and
  one entry for each parenthesized group, so it is never empty and its length is that of the expression.
\<close>

definition submatch_laws :: "regexp \<Rightarrow> bool" where
  "submatch_laws re \<longleftrightarrow> (\<forall>s t xs ys. re_Submatch re s = Some xs \<longrightarrow> re_Submatch re t = Some ys \<longrightarrow> xs \<noteq> [] \<and> length xs = length ys)"

lemma go_copy_same: "length dst = length src \<Longrightarrow> go_copy dst src = src"
  by (simp add: go_copy_def)

lemma submatches_eq_Nil: "submatch_laws re \<Longrightarrow> submatches re s = [] \<longleftrightarrow> re_Submatch re s = None"
  by (auto simp: submatches_def submatch_laws_def split: option.splits)

lemma submatches_Some: "re_Submatch re s = Some subs \<Longrightarrow> submatches re s = subs"
  by (simp add: submatches_def)

lemma submatches_copy:
  assumes "submatch_laws re" "re_Submatch re s = Some subs" "submatches re latest \<noteq> []"
  shows "go_copy (submatches re latest) subs = subs"
proof -
  obtain ls where ls: "re_Submatch re latest = Some ls" using assms(3) by (cases "re_Submatch re latest") (auto simp: submatches_def)
  then have "length ls = length subs" using assms(1,2) unfolding submatch_laws_def by blast
  then show ?thesis by (simp add: go_copy_same submatches_Some [OF ls])
qed

text \<open>The text \<open>u\<close> does not sort after the tag \<open>t\<close>: it does not match, or both do and it is not later.\<close>

definition not_later :: "regexp \<Rightarrow> namedMatchingGroup list \<Rightarrow> string \<Rightarrow> string \<Rightarrow> bool" where
  "not_later re groups u t \<longleftrightarrow>
     re_Submatch re u = None \<or>
     re_Submatch re t \<noteq> None \<and> laterMatch re groups (submatches re u) (submatches re t) \<noteq> Inr True"

lemma latestLoop_later:
  assumes "submatch_laws re" "latestLoop re groups tags latest (submatches re latest) = Inr t"
  shows "submatches re t = submatches re latest \<or> submatches re latest = [] \<or>
    laterMatch re groups (submatches re t) (submatches re latest) = Inr True"
  using assms(2)
proof (induction tags arbitrary: latest)
  case Nil
  then show ?case by simp
next
  case (Cons tag tags)
  show ?case
  proof (cases "re_Submatch re tag = None \<or> submatches re latest = []")
    case True
    then show ?thesis using Cons.prems Cons.IH [of latest] by (auto split: option.splits)
  next
    case False
    then obtain subs where subs: "re_Submatch re tag = Some subs" by auto
    note copy = submatches_copy [OF assms(1) subs, of latest] submatches_Some [OF subs]
    show ?thesis
      using Cons.prems Cons.IH [of tag] Cons.IH [of latest] False subs copy laterMatch_trans
      by (auto simp: bind_err_Inr submatches_eq_Nil [OF assms(1)] split: if_splits)
  qed
qed

lemma not_later_step:
  assumes "submatch_laws re" "latestLoop re groups tags v (submatches re v) = Inr t"
    "re_Submatch re v \<noteq> None" "not_later re groups u v" "not_later re groups v t"
  shows "not_later re groups u t"
proof -
  have "submatches re t = submatches re v \<or> laterMatch re groups (submatches re t) (submatches re v) = Inr True"
    using latestLoop_later [OF assms(1,2)] submatches_eq_Nil [OF assms(1), of v] assms(3) by blast
  moreover have "re_Submatch re t \<noteq> None" using assms(3,5) by (auto simp: not_later_def)
  ultimately show ?thesis
    using assms(3,4) laterMatch_trans [of re groups "submatches re u" "submatches re t" "submatches re v"]
    by (auto simp: not_later_def)
qed

lemma latestLoop_not_later:
  assumes "submatch_laws re" "latestLoop re groups tags latest (submatches re latest) = Inr t" "u \<in> set (latest # tags)"
  shows "not_later re groups u t"
  using assms(2,3)
proof (induction tags arbitrary: latest u)
  case Nil
  then show ?case by (cases "re_Submatch re u") (simp_all add: not_later_def laterMatch_irrefl)
next
  case (Cons tag tags)
  consider (skip) "re_Submatch re tag = None" | (first) subs where "re_Submatch re tag = Some subs" "re_Submatch re latest = None"
    | (later) subs where "re_Submatch re tag = Some subs" "re_Submatch re latest \<noteq> None"
        "laterMatch re groups subs (submatches re latest) = Inr True"
    | (older) subs where "re_Submatch re tag = Some subs" "re_Submatch re latest \<noteq> None"
        "laterMatch re groups subs (submatches re latest) = Inr False"
    using Cons.prems(1) submatches_eq_Nil [OF assms(1), of latest]
    by (cases "re_Submatch re tag") (auto simp: bind_err_Inr split: if_splits)
  then show ?case
  proof cases
    case skip
    then show ?thesis using Cons.prems Cons.IH [of latest u] by (cases "u = tag") (auto simp: not_later_def [of re groups tag])
  next
    case first
    then show ?thesis
      using Cons.prems Cons.IH [of tag u] by (auto simp: submatches_eq_Nil [OF assms(1)] submatches_Some not_later_def)
  next
    case later
    have run: "latestLoop re groups tags tag (submatches re tag) = Inr t"
      using Cons.prems(1) later submatches_copy [OF assms(1) later(1), of latest]
      by (auto simp: submatches_eq_Nil [OF assms(1)] submatches_Some)
    have "not_later re groups latest tag"
      using later laterMatch_asym by (auto simp: not_later_def submatches_Some)
    then have "not_later re groups latest t"
      using not_later_step [OF assms(1) run] Cons.IH [OF run, of tag] later(1) by simp
    then show ?thesis using Cons.prems(2) Cons.IH [OF run] by auto
  next
    case older
    have run: "latestLoop re groups tags latest (submatches re latest) = Inr t"
      using Cons.prems(1) older by (auto simp: submatches_eq_Nil [OF assms(1)])
    have "not_later re groups tag latest" using older by (auto simp: not_later_def submatches_Some)
    then have "not_later re groups tag t"
      using not_later_step [OF assms(1) run] Cons.IH [OF run, of latest] older(2) by simp
    then show ?thesis using Cons.prems(2) Cons.IH [OF run] by auto
  qed
qed

lemma latestLoop_matches:
  "latestLoop re groups tags latest latestSubs = Inr t \<Longrightarrow> t = latest \<or> re_Submatch re t \<noteq> None"
  by (induction tags arbitrary: latest latestSubs) (fastforce simp: bind_err_Inr split: option.splits if_splits)+

lemma FindLatest_run:
  assumes "NewMatcher compile pattern = Inr (re, groups)"
  shows "FindLatest compile current pattern tags = Inr t \<longleftrightarrow> latestLoop re groups tags current (submatches re current) = Inr t"
  by (simp add: FindLatest_def assms map_sum_Inr submatches_def)

lemma allowedLoop_chosen:
  assumes "NewMatcher compile pattern = Inr (re, groups)" "submatch_laws re"
    "allowedLoop compile ref checkImageAllowed pattern newTag tags notAllowedErr = (Some (t, img), e)"
  shows "img = imageWithTag ref t \<and> checkImageAllowed img = None \<and> t \<in> set tags \<and> t \<noteq> newTag \<and>
    (\<forall>u\<in>set tags. checkImageAllowed (imageWithTag ref u) = None \<longrightarrow> not_later re groups u t)"
  using assms(1,3)
proof (induction compile ref checkImageAllowed pattern newTag tags notAllowedErr rule: allowedLoop.induct)
  case (1 compile ref checkImageAllowed pattern newTag tags notAllowedErr)
  obtain nTag where n: "FindLatest compile newTag pattern tags = Inr nTag" "nTag \<noteq> newTag" "tags \<noteq> []"
    using "1.prems"(2) by (subst (asm) allowedLoop.simps) (auto split: if_splits sum.splits)
  show ?case
  proof (cases "checkImageAllowed (imageWithTag ref nTag)")
    case None
    then have "t = nTag \<and> img = imageWithTag ref nTag"
      using "1.prems"(2) n by (subst (asm) allowedLoop.simps) auto
    moreover have "nTag \<in> set tags" using FindLatest_member [OF n(1)] n(2) by simp
    moreover have "\<forall>u\<in>set tags. not_later re groups u nTag"
      using latestLoop_not_later [OF assms(2)] n(1) unfolding FindLatest_run [OF "1.prems"(1)] by simp
    ultimately show ?thesis using None n(2) by blast
  next
    case (Some err)
    have "allowedLoop compile ref checkImageAllowed pattern newTag (filter (\<lambda>tag. tag \<noteq> nTag) tags) (Some err) = (Some (t, img), e)"
      using "1.prems"(2) n Some by (subst (asm) allowedLoop.simps) simp
    then have "img = imageWithTag ref t \<and> checkImageAllowed img = None \<and> t \<in> set (filter (\<lambda>tag. tag \<noteq> nTag) tags) \<and> t \<noteq> newTag \<and>
      (\<forall>u\<in>set (filter (\<lambda>tag. tag \<noteq> nTag) tags). checkImageAllowed (imageWithTag ref u) = None \<longrightarrow> not_later re groups u t)"
      using "1.IH" [OF n(3) n(1,2) Some "1.prems"(1)] by blast
    then show ?thesis using Some by auto
  qed
qed

lemma findLatestTag_run:
  assumes "findLatestTagForImageWithPattern compile parseReference listTags localTags checkImageAllowed current img pattern =
      Inr (nImg, True)"
  obtains ref tags t e where
    "getTagsForImagePattern parseReference listTags localTags (str_trim_suffix img ('':'' @ pattern)) = Inr (ref, tags)"
    "allowedLoop compile ref checkImageAllowed pattern (if current = [] then invalidTag else current) tags None = (Some (t, nImg), e)"
    "t \<noteq> current"
proof -
  obtain ref tags where get: "getTagsForImagePattern parseReference listTags localTags (str_trim_suffix img ('':'' @ pattern)) =
      Inr (ref, tags)"
    using assms by (auto simp: findLatestTagForImageWithPattern_def bind_err_Inr map_sum_Inr)
  let ?newTag = "if current = [] then invalidTag else current"
  obtain chosen e where run: "allowedLoop compile ref checkImageAllowed pattern ?newTag tags None = (chosen, e)"
    by (cases "allowedLoop compile ref checkImageAllowed pattern ?newTag tags None")
  have "\<exists>t. chosen = Some (t, nImg) \<and> t \<noteq> current"
    using assms get run
    by (auto simp: findLatestTagForImageWithPattern_def Let_def split: option.splits prod.splits if_splits)
  then show thesis using get run that by blast
qed

lemma allowedLoop_allowed:
  "allowedLoop compile ref checkImageAllowed pattern newTag tags notAllowedErr = (Some (t, img), e) \<Longrightarrow> checkImageAllowed img = None"
proof (induction compile ref checkImageAllowed pattern newTag tags notAllowedErr rule: allowedLoop.induct)
  case (1 compile ref checkImageAllowed pattern newTag tags notAllowedErr)
  show ?case using "1.prems" "1.IH"
    by (subst (asm) allowedLoop.simps) (auto split: if_splits sum.splits option.splits)
qed

lemma findLatestTag_allowed:
  assumes "findLatestTagForImageWithPattern compile parseReference listTags localTags checkImageAllowed current img pattern =
      Inr (nImg, True)"
  shows "checkImageAllowed nImg = None"
  by (rule findLatestTag_run [OF assms]) (rule allowedLoop_allowed)

definition sample_regexp :: regexp where
  "sample_regexp =
     \<lparr>re_Submatch = (\<lambda>s. if s \<noteq> [] \<and> hd s = CHR ''v'' \<and> tl s \<noteq> [] \<and> list_all is_digit (tl s) then Some [s, tl s] else None),
      re_SubexpIndex = (\<lambda>name. if name = ''m0'' then 1 else -1)\<rparr>"

lemma sample_regexp_laws: "submatch_laws sample_regexp"
  by (auto simp: submatch_laws_def sample_regexp_def split: if_splits)

lemma sample_matcher:
  "NewMatcher (\<lambda>_. Inr sample_regexp) ''v#'' = Inr (sample_regexp, [\<lparr>ng_PType = Numeric, ng_Name = ''m0''\<rparr>])"
proof -
  have "snd (onePass 0 (replaceDoubleStar ''^v#$'')) = [\<lparr>ng_PType = Numeric, ng_Name = ''m0''\<rparr>]" by code_simp
  then show ?thesis by (simp add: NewMatcher_def matcherLoop_onePass del: onePass.simps replaceDoubleStar.simps)
qed

subsection \<open>Properties\<close>

text \<open>the matcher of a pattern compiles the text in which a single pass from the left has replaced each
  special character by a group, and returns the groups in that order, numeric for \<open>#\<close> and alphabetic for
  \<open>*\<close>, under names that are all different. A \<open>**\<close> makes no group.
\<close>

theorem NewMatcher_spec:
  assumes "NewMatcher compile pattern = Inr (re, groups)"
  shows "compile (fst (onePass 0 (replaceDoubleStar (''^'' @ pattern @ ''$'')))) = Inr re \<and>
    map ng_PType groups = map groupType (filter is_special (replaceDoubleStar (''^'' @ pattern @ ''$''))) \<and>
    distinct (map ng_Name groups)"
proof -
  have "groups = snd (onePass 0 (replaceDoubleStar (''^'' @ pattern @ ''$'')))"
    "compile (fst (onePass 0 (replaceDoubleStar (''^'' @ pattern @ ''$'')))) = Inr re"
    using assms by (auto simp: NewMatcher_def matcherLoop_onePass bind_err_Inr simp del: onePass.simps append.simps)
  then show ?thesis
    by (simp add: onePass_types onePass_names distinct_map inj_on_def groupName_inj del: onePass.simps append.simps)
qed

theorem NewMatcher_spec_witness:
  "(\<exists>groups. NewMatcher (\<lambda>text. Inr \<lparr>re_Submatch = (\<lambda>s. Some [text]), re_SubexpIndex = (\<lambda>_. 0)\<rparr> :: unit + regexp) ''v#.*-**'' =
      Inr (\<lparr>re_Submatch = (\<lambda>s. Some [fst (onePass 0 (replaceDoubleStar ''^v#.*-**$''))]), re_SubexpIndex = (\<lambda>_. 0)\<rparr>, groups) \<and>
    map ng_PType groups = [Numeric, Alpha] \<and> distinct (map ng_Name groups))"
proof -
  let ?compile = "\<lambda>text. Inr \<lparr>re_Submatch = (\<lambda>s. Some [text]), re_SubexpIndex = (\<lambda>_. 0)\<rparr> :: unit + regexp"
  obtain re groups where run: "NewMatcher ?compile ''v#.*-**'' = Inr (re, groups)"
    by (simp add: NewMatcher_def split_beta)
  have eq: "''^'' @ ''v#.*-**'' @ ''$'' = ''^v#.*-**$''" by simp
  note spec = NewMatcher_spec [OF run, unfolded eq]
  have "re = \<lparr>re_Submatch = (\<lambda>s. Some [fst (onePass 0 (replaceDoubleStar ''^v#.*-**$''))]), re_SubexpIndex = (\<lambda>_. 0)\<rparr>"
    using spec by (simp del: onePass.simps replaceDoubleStar.simps)
  moreover have "map groupType (filter is_special (replaceDoubleStar ''^v#.*-**$'')) = [Numeric, Alpha]"
    by code_simp
  ultimately show ?thesis using run spec by (simp del: onePass.simps replaceDoubleStar.simps)
qed

text \<open>C13: the latest tag is the current one or one of the tags and then matches the pattern, and neither the
  current tag nor any of the tags sorts after it.
\<close>

theorem FindLatest_latest:
  assumes "NewMatcher compile pattern = Inr (re, groups)" "submatch_laws re"
    "FindLatest compile current pattern tags = Inr t"
  shows "(t = current \<or> t \<in> set tags \<and> re_Submatch re t \<noteq> None) \<and> (\<forall>u \<in> set (current # tags). not_later re groups u t)"
  using assms latestLoop_matches latestLoop_member latestLoop_not_later [OF assms(2)]
  unfolding FindLatest_run [OF assms(1)] by blast

theorem FindLatest_latest_witness:
  "FindLatest (\<lambda>_. Inr sample_regexp :: unit + regexp) ''v2'' ''v#'' [''v9'', ''v10'', ''w11''] = Inr ''v10'' \<and>
   not_later sample_regexp [\<lparr>ng_PType = Numeric, ng_Name = ''m0''\<rparr>] ''v9'' ''v10''"
proof -
  have run: "FindLatest (\<lambda>_. Inr sample_regexp :: unit + regexp) ''v2'' ''v#'' [''v9'', ''v10'', ''w11''] = Inr ''v10''"
    unfolding FindLatest_def sample_matcher by code_simp
  then show ?thesis using FindLatest_latest [OF sample_matcher sample_regexp_laws run] by simp
qed

text \<open>an image that is reported as an update is allowed, is the image under one of the tags that were
  found, different from the current one, and no tag whose image is allowed sorts after that tag.
\<close>

theorem findLatestTag_update:
  assumes "NewMatcher compile pattern = Inr (re, groups)" "submatch_laws re"
    "findLatestTagForImageWithPattern compile parseReference listTags localTags checkImageAllowed current img pattern =
      Inr (nImg, True)"
  shows "\<exists>ref tags t.
    getTagsForImagePattern parseReference listTags localTags (str_trim_suffix img ('':'' @ pattern)) = Inr (ref, tags) \<and>
    t \<in> set tags \<and> t \<noteq> current \<and> nImg = imageWithTag ref t \<and> checkImageAllowed nImg = None \<and>
    (\<forall>u\<in>set tags. checkImageAllowed (imageWithTag ref u) = None \<longrightarrow> not_later re groups u t)"
proof -
  obtain ref tags t e where
    "getTagsForImagePattern parseReference listTags localTags (str_trim_suffix img ('':'' @ pattern)) = Inr (ref, tags)"
    "allowedLoop compile ref checkImageAllowed pattern (if current = [] then invalidTag else current) tags None = (Some (t, nImg), e)"
    "t \<noteq> current"
    using findLatestTag_run [OF assms(3)] .
  then show ?thesis using allowedLoop_chosen [OF assms(1,2)] by blast
qed

theorem findLatestTag_update_witness:
  "findLatestTagForImageWithPattern (\<lambda>_. Inr sample_regexp :: unit + regexp)
     (\<lambda>_. Inr \<lparr>rf_RegistryStr = defaultNoReg, rf_Identifier = ''latest'', rf_TagName = (\<lambda>tag. ''xxx-no-reg/app:'' @ tag)\<rparr>) (\<lambda>_. [])
     (\<lambda>_. [''v1'', ''v2'', ''v3'']) (\<lambda>img. if img = ''app:v3'' then Some ErrImageNotAllowed else None) ''v1'' ''app:v#'' ''v#'' =
     Inr (''app:v2'', True) \<and>
   not_later sample_regexp [\<lparr>ng_PType = Numeric, ng_Name = ''m0''\<rparr>] ''v1'' ''v2''"
proof -
  let ?ref = "\<lparr>rf_RegistryStr = defaultNoReg, rf_Identifier = ''latest'', rf_TagName = (\<lambda>tag. ''xxx-no-reg/app:'' @ tag)\<rparr>"
  have run: "findLatestTagForImageWithPattern (\<lambda>_. Inr sample_regexp :: unit + regexp) (\<lambda>_. Inr ?ref) (\<lambda>_. [])
     (\<lambda>_. [''v1'', ''v2'', ''v3'']) (\<lambda>img. if img = ''app:v3'' then Some ErrImageNotAllowed else None) ''v1'' ''app:v#'' ''v#'' =
     Inr (''app:v2'', True)" (is ?run)
    by code_simp
  from findLatestTag_update [OF sample_matcher sample_regexp_laws run] show ?thesis using run
    by (auto simp: getTagsForImagePattern_def imageWithTag_def defaultNoReg_def str_trim_prefix_def str_has_prefix_def)
qed

end
