(* ===== verification/AutoUpgrade.thy ===== *)
theory AutoUpgrade
  imports ImagePattern
begin

text \<open>
  The auto-upgrade daemon: \<open>pkg/autoupgrade/daemon.go\<close>, \<open>getTagsForImagePattern\<close> and the lookups of
  \<open>client.go\<close> as arguments, and \<open>pkg/autoupgrade/validate\<close>. The state of the daemon is the time of the previous check
  of every app it watches. One \<open>sync\<close> reads the apps, forgets those that no longer upgrade, groups the
  others that are due by image and namespace, looks for a new tag or digest, and writes the new image to the status of
  the app. The cluster and the registry answer the same question the same way during one \<open>sync\<close>; times
  and durations are in nanoseconds, unbounded.
\<close>

subsection \<open>Patterns in an image name\<close>

definition AutoUpgradePattern :: "string \<Rightarrow> string \<times> bool" where
  "AutoUpgradePattern img =
     (let parts = str_split CHR '':'' img;
          tag = (if 1 < length parts \<and> \<not> str_contains (last parts) ''/'' then last parts else [])
      in (tag, str_contains_any tag ''#*''))"

definition removeTagPattern :: "string \<Rightarrow> string" where
  "removeTagPattern img =
     (case AutoUpgradePattern img of (p, ok) \<Rightarrow> if \<not> ok then img else str_trim_suffix img ('':'' @ p))"

definition ImpliedAutoUpgrade :: "string \<Rightarrow> string \<Rightarrow> bool" where
  "ImpliedAutoUpgrade interval img = (snd (AutoUpgradePattern img) \<or> interval \<noteq> [])"

definition Mode :: "'f AppInstanceSpec \<Rightarrow> string \<times> bool" where
  "Mode appSpec =
     (let on = GetAutoUpgrade appSpec \<or> GetNotifyUpgrade appSpec \<or> snd (AutoUpgradePattern (ai_Image appSpec))
      in if \<not> on then ([], False)
         else (if GetNotifyUpgrade appSpec then ''notify'' else ''enabled'', on))"

datatype interval_error = InvalidInterval | IntervalTooSmall

definition AutoUpgradeInterval :: "(string \<Rightarrow> 'e + int) \<Rightarrow> string \<Rightarrow> interval_error + int" where
  "AutoUpgradeInterval ParseDuration val =
     (case ParseDuration val of
        Inl _ \<Rightarrow> Inl InvalidInterval
      | Inr newDur \<Rightarrow> if newDur < 15 * 1000000000 then Inl IntervalTooSmall else Inr newDur)"

subsection \<open>The daemon\<close>

type_synonym ObjectKey = "string \<times> string"

type_synonym daemon = "(ObjectKey, Time) gomap"

record ('f, 'q, 'e) daemonClient =
  dc_getConfig :: "'e + string"
  dc_listAppInstances :: "'e + ('f, 'q) AppInstance list"
  dc_updateAppStatus :: "('f, 'q) AppInstance \<Rightarrow> 'e option"
  dc_listTags :: "string \<Rightarrow> string \<Rightarrow> string list"
  dc_getTagsMatchingRepo :: "Reference \<Rightarrow> string \<Rightarrow> string list"
  dc_imageDigest :: "string \<Rightarrow> string \<Rightarrow> 'e + string"
  dc_resolveLocalTag :: "string \<Rightarrow> string \<Rightarrow> string \<times> bool"
  dc_checkImageAllowed :: "string \<Rightarrow> string \<Rightarrow> 'e allow_error option"

text \<open>The packages the daemon calls; \<open>parseName\<close> parses with the default tag, \<open>parseImage\<close> with an empty one.\<close>

record 'e packages =
  pk_compile :: "string \<Rightarrow> 'e + regexp"
  pk_parseName :: "string \<Rightarrow> 'e + Reference"
  pk_parseImage :: "string \<Rightarrow> 'e + Reference"
  pk_ParseDuration :: "string \<Rightarrow> 'e + int"

definition appKeyOf :: "('f, 'q) AppInstance \<Rightarrow> ObjectKey" where
  "appKeyOf app = (om_Namespace (app_Meta app), om_Name (app_Meta app))"

definition calcNextCheck :: "'e packages \<Rightarrow> int \<Rightarrow> Time \<Rightarrow> ('f, 'q) AppInstance \<Rightarrow> 'e + Time" where
  "calcNextCheck P defaultInterval lastUpdate app =
     (if lastUpdate < om_CreationTimestamp (app_Meta app) then Inr zero_time
      else if ai_AutoUpgradeInterval (app_Spec app) \<noteq> [] then
        bind_err (pk_ParseDuration P (ai_AutoUpgradeInterval (app_Spec app))) (\<lambda>nextCheckInterval. Inr (lastUpdate + nextCheckInterval))
      else Inr (lastUpdate + defaultInterval))"

text \<open>The image an app is checked for, with the namespace whose pull credentials are used.\<close>

definition imageKeyOf :: "('f, 'q) AppInstance \<Rightarrow> string \<times> string" where
  "imageKeyOf app =
     (if ig_Name (is_AppImage (app_Status app)) = [] then removeTagPattern (ai_Image (app_Spec app))
      else ig_Name (is_AppImage (app_Status app)), om_Namespace (app_Meta app))"

definition refresh_step :: "'e packages \<Rightarrow> (ObjectKey, ('f, 'q) AppInstance) gomap \<Rightarrow> int \<Rightarrow> Time \<Rightarrow>
    daemon \<times> (string \<times> string, ObjectKey list) gomap \<Rightarrow> ObjectKey \<times> Time \<Rightarrow> daemon \<times> (string \<times> string, ObjectKey list) gomap" where
  "refresh_step P apps defaultInterval updateTime st entry =
     (case (st, entry) of ((d, imagesToRefresh), (appKey, prevCheckTime)) \<Rightarrow>
       (case gm_get apps appKey of
          None \<Rightarrow> (gm_delete d appKey, imagesToRefresh)
        | Some app \<Rightarrow>
            if \<not> snd (Mode (app_Spec app)) then (gm_delete d appKey, imagesToRefresh)
            else (case calcNextCheck P defaultInterval prevCheckTime app of
                    Inl _ \<Rightarrow> (d, imagesToRefresh)
                  | Inr nextCheck \<Rightarrow>
                      if nextCheck < updateTime
                      then (d, gm_set imagesToRefresh (imageKeyOf app) (gm_get_or [] imagesToRefresh (imageKeyOf app) @ [appKey]))
                      else (d, imagesToRefresh))))"

definition determineAppsToRefresh :: "'e packages \<Rightarrow> daemon \<Rightarrow> (ObjectKey, ('f, 'q) AppInstance) gomap \<Rightarrow> int \<Rightarrow> Time \<Rightarrow>
    daemon \<times> (string \<times> string, ObjectKey list) gomap" where
  "determineAppsToRefresh P d apps defaultInterval updateTime =
     foldl (refresh_step P apps defaultInterval updateTime) (d, []) d"

subsection \<open>Looking for a new image\<close>

text \<open>The digest of the image in the registry, or else the one stored in the cluster.\<close>

definition findDigest :: "('f, 'q, 'e) daemonClient \<Rightarrow> Reference \<Rightarrow> string \<Rightarrow> string \<Rightarrow> string" where
  "findDigest C current namespace img =
     (let remote = (if rf_RegistryStr current \<noteq> defaultNoReg
                    then (case dc_imageDigest C namespace img of Inl _ \<Rightarrow> [] | Inr digest \<Rightarrow> digest) else [])
      in if remote = []
         then (case dc_resolveLocalTag C namespace img of (localDigest, ok) \<Rightarrow> if ok \<and> localDigest \<noteq> [] then localDigest else remote)
         else remote)"

definition trimSha :: "string \<Rightarrow> string" where
  "trimSha s = str_trim_prefix s ''sha256:''"

text \<open>
  What is known of an app before its status is written: an error that leaves the app unchecked, or the
  next image, whether it is a new tag, and the digest.
\<close>

definition nextImage :: "'e packages \<Rightarrow> ('f, 'q, 'e) daemonClient \<Rightarrow> Reference \<Rightarrow> string \<times> string \<Rightarrow> ('f, 'q) AppInstance \<Rightarrow>
    'e latest_error + string \<times> bool \<times> string" where
  "nextImage P C current imageKey app =
     (case AutoUpgradePattern (ai_Image (app_Spec app)) of (tagPattern, isPattern) \<Rightarrow>
       bind_err (if isPattern
                 then findLatestTagForImageWithPattern (pk_compile P) (pk_parseName P) (dc_listTags C (snd imageKey))
                   (\<lambda>ref. dc_getTagsMatchingRepo C ref (snd imageKey)) (dc_checkImageAllowed C (snd imageKey))
                   (rf_Identifier current) (fst imageKey) tagPattern
                 else Inr ([], False)) (\<lambda>(nextAppImage, updated).
         if \<not> updated \<and> (\<not> isPattern \<or> rf_Identifier current \<noteq> [])
         then Inr (fst imageKey, updated, findDigest C current (om_Namespace (app_Meta app)) (fst imageKey))
         else Inr (nextAppImage, updated, [])))"

definition setAvailable :: "string \<Rightarrow> ('f, 'q) AppInstance \<Rightarrow> ('f, 'q) AppInstance" where
  "setAvailable img app = app\<lparr>app_Status := (app_Status app)\<lparr>is_AvailableAppImage := img, is_ConfirmUpgradeAppImage := []\<rparr>\<rparr>"

definition setConfirm :: "string \<Rightarrow> ('f, 'q) AppInstance \<Rightarrow> ('f, 'q) AppInstance" where
  "setConfirm img app = app\<lparr>app_Status := (app_Status app)\<lparr>is_ConfirmUpgradeAppImage := img, is_AvailableAppImage := []\<rparr>\<rparr>"

text \<open>What one app does to the daemon: whether it counts as checked, and the status that was sent to the cluster.\<close>

definition refreshApp :: "'e packages \<Rightarrow> ('f, 'q, 'e) daemonClient \<Rightarrow> Reference \<Rightarrow> string \<times> string \<Rightarrow> ('f, 'q) AppInstance \<Rightarrow>
    bool \<times> ('f, 'q) AppInstance option" where
  "refreshApp P C current imageKey app =
     (case nextImage P C current imageKey app of
        Inl _ \<Rightarrow> (False, None)
      | Inr (nextAppImage, updated, digest) \<Rightarrow>
          if updated \<or> trimSha (ig_Digest (is_AppImage (app_Status app))) \<noteq> trimSha digest then
            (case (if \<not> updated \<and> digest \<noteq> [] then dc_checkImageAllowed C (om_Namespace (app_Meta app)) nextAppImage else None) of
               Some ErrImageNotAllowed \<Rightarrow> (True, None)
             | Some (OtherError _) \<Rightarrow> (False, None)
             | None \<Rightarrow>
                 let mode = fst (Mode (app_Spec app)) in
                 if mode = ''enabled'' then
                   (if is_AvailableAppImage (app_Status app) = nextAppImage then (True, None)
                    else (dc_updateAppStatus C (setAvailable nextAppImage app) = None, Some (setAvailable nextAppImage app)))
                 else if mode = ''notify'' then
                   (if is_ConfirmUpgradeAppImage (app_Status app) = nextAppImage then (True, None)
                    else (dc_updateAppStatus C (setConfirm nextAppImage app) = None, Some (setConfirm nextAppImage app)))
                 else (False, None))
          else (True, None))"

definition refreshApps_step :: "'e packages \<Rightarrow> ('f, 'q, 'e) daemonClient \<Rightarrow> (ObjectKey, ('f, 'q) AppInstance) gomap \<Rightarrow> Time \<Rightarrow> Reference \<Rightarrow>
    string \<times> string \<Rightarrow> daemon \<times> ('f, 'q) AppInstance list \<Rightarrow> ObjectKey \<Rightarrow> daemon \<times> ('f, 'q) AppInstance list" where
  "refreshApps_step P C apps updateTime current imageKey st appKey =
     (case st of (d, updates) \<Rightarrow>
       case refreshApp P C current imageKey (gm_get_or zero_AppInstance apps appKey) of (checked, update) \<Rightarrow>
         (if checked then gm_set d appKey updateTime else d, updates @ (case update of None \<Rightarrow> [] | Some app \<Rightarrow> [app])))"

definition refreshImages :: "'e packages \<Rightarrow> ('f, 'q, 'e) daemonClient \<Rightarrow> daemon \<Rightarrow> (ObjectKey, ('f, 'q) AppInstance) gomap \<Rightarrow>
    (string \<times> string, ObjectKey list) gomap \<Rightarrow> Time \<Rightarrow> daemon \<times> ('f, 'q) AppInstance list" where
  "refreshImages P C d apps imagesToRefresh updateTime =
     foldl (\<lambda>st (imageKey, appsForImage).
       case pk_parseImage P (fst imageKey) of
         Inl _ \<Rightarrow> st
       | Inr current \<Rightarrow> foldl (refreshApps_step P C apps updateTime current imageKey) st appsForImage) (d, []) imagesToRefresh"

subsection \<open>Sync\<close>

definition collect_step :: "daemon \<times> (ObjectKey, ('f, 'q) AppInstance) gomap \<Rightarrow> ('f, 'q) AppInstance \<Rightarrow>
    daemon \<times> (ObjectKey, ('f, 'q) AppInstance) gomap" where
  "collect_step st app =
     (case st of (d, apps) \<Rightarrow>
       (if snd (Mode (app_Spec app)) \<and> \<not> gm_has d (appKeyOf app) then gm_set d (appKeyOf app) zero_time else d,
        gm_set apps (appKeyOf app) app))"

definition nearest_step :: "'e packages \<Rightarrow> int \<Rightarrow> (ObjectKey, ('f, 'q) AppInstance) gomap \<Rightarrow> Time \<Rightarrow> ObjectKey \<times> Time \<Rightarrow> Time" where
  "nearest_step P defaultInterval apps nearestNextCheck entry =
     (case entry of (appKey, prevCheck) \<Rightarrow>
       case calcNextCheck P defaultInterval prevCheck (gm_get_or zero_AppInstance apps appKey) of
         Inl _ \<Rightarrow> nearestNextCheck
       | Inr nextCheck \<Rightarrow> if nextCheck < nearestNextCheck then nextCheck else nearestNextCheck)"

text \<open>\<open>time.ParseDuration("1m")\<close> and the interval of the configuration.\<close>

definition nextCheckInterval :: "'e packages \<Rightarrow> string \<Rightarrow> int" where
  "nextCheckInterval P interval =
     (case pk_ParseDuration P interval of
        Inl _ \<Rightarrow> (case pk_ParseDuration P ''1m'' of Inl _ \<Rightarrow> 0 | Inr dur \<Rightarrow> dur)
      | Inr dur \<Rightarrow> dur)"

text \<open>
  The time left until the next check, the error, the daemon afterwards and the status updates; \<open>later\<close> is the
  clock when \<open>sync\<close> returns.
\<close>

definition sync :: "'e packages \<Rightarrow> ('f, 'q, 'e) daemonClient \<Rightarrow> daemon \<Rightarrow> Time \<Rightarrow> Time \<Rightarrow>
    int \<times> 'e option \<times> daemon \<times> ('f, 'q) AppInstance list" where
  "sync P C d now later =
     (case dc_getConfig C of
        Inl e \<Rightarrow> ((case pk_ParseDuration P ''1m'' of Inl _ \<Rightarrow> 0 | Inr dur \<Rightarrow> dur), Some e, d, [])
      | Inr interval \<Rightarrow>
          (let defaultInterval = nextCheckInterval P interval in
           case dc_listAppInstances C of
             Inl e \<Rightarrow> (defaultInterval, Some e, d, [])
           | Inr appInstances \<Rightarrow>
               (case foldl collect_step (d, []) appInstances of (d1, apps) \<Rightarrow>
                case determineAppsToRefresh P d1 apps defaultInterval now of (d2, imagesToRefresh) \<Rightarrow>
                case refreshImages P C d2 apps imagesToRefresh now of (d3, updates) \<Rightarrow>
                  (foldl (nearest_step P defaultInterval apps) (now + defaultInterval) d3 - later, None, d3, updates))))"
subsection \<open>Which apps are due\<close>

text \<open>The specification of the grouping: the app of a key upgrades, is due, and runs the image of the group.\<close>

definition watched :: "(ObjectKey, ('f, 'q) AppInstance) gomap \<Rightarrow> ObjectKey \<Rightarrow> bool" where
  "watched apps k \<longleftrightarrow> (case gm_get apps k of None \<Rightarrow> False | Some app \<Rightarrow> snd (Mode (app_Spec app)))"

definition due :: "'e packages \<Rightarrow> (ObjectKey, ('f, 'q) AppInstance) gomap \<Rightarrow> int \<Rightarrow> Time \<Rightarrow> ObjectKey \<Rightarrow> Time \<Rightarrow> string \<times> string \<Rightarrow> bool" where
  "due P apps defaultInterval now k prev g \<longleftrightarrow>
     (case gm_get apps k of
        None \<Rightarrow> False
      | Some app \<Rightarrow> snd (Mode (app_Spec app)) \<and> g = imageKeyOf app \<and>
          (case calcNextCheck P defaultInterval prev app of Inl _ \<Rightarrow> False | Inr n \<Rightarrow> n < now))"

lemma refresh_fold:
  assumes "foldl (refresh_step P apps I now) (d, m) es = (d', m')"
  shows "gm_get d' k = (if k \<in> fst ` set es \<and> \<not> watched apps k then None else gm_get d k)"
    and "k \<in> set (gm_get_or [] m' g) \<longleftrightarrow> k \<in> set (gm_get_or [] m g) \<or> (\<exists>prev. (k, prev) \<in> set es \<and> due P apps I now k prev g)"
    and "gm_ok d \<Longrightarrow> gm_ok d'"
    and "gm_ok m \<Longrightarrow> gm_ok m'"
  using assms
proof (atomize (full), induction es arbitrary: d m)
  case Nil
  then show ?case by simp
next
  case (Cons e es)
  obtain a prev where e: "e = (a, prev)" by (cases e)
  obtain d1 m1 where step: "refresh_step P apps I now (d, m) e = (d1, m1)" by (cases "refresh_step P apps I now (d, m) e")
  have d1: "gm_get d1 k = (if k = a \<and> \<not> watched apps k then None else gm_get d k)"
    and m1: "k \<in> set (gm_get_or [] m1 g) \<longleftrightarrow> k \<in> set (gm_get_or [] m g) \<or> k = a \<and> due P apps I now k prev g"
    and ok: "gm_ok d \<Longrightarrow> gm_ok d1" "gm_ok m \<Longrightarrow> gm_ok m1"
    using step by (auto simp: refresh_step_def e watched_def due_def go_map split: option.splits if_splits sum.splits)
  show ?case
    using Cons.IH [of d1 m1] Cons.prems step d1 m1 ok by (auto simp: e)
qed

lemmas determineAppsToRefresh_fold = refresh_fold [of _ _ _ _ d "[]" d for d, folded determineAppsToRefresh_def]

lemma mset_group_add:
  "mset (concat (map snd (gm_set m g (gm_get_or [] m g @ [k])))) = mset (k # concat (map snd m))"
  by (induction m) (auto simp: gm_set_def gm_get_or_def gm_get_def)

lemma refresh_once:
  assumes "foldl (refresh_step P apps I now) (d, m) es = (d', m')" "distinct (map fst es)"
    "distinct (concat (map snd m))" "set (concat (map snd m)) \<inter> fst ` set es = {}"
  shows "distinct (concat (map snd m'))"
  using assms
proof (induction es arbitrary: d m)
  case Nil
  then show ?case by simp
next
  case (Cons e es)
  obtain a prev where e: "e = (a, prev)" by (cases e)
  obtain d1 m1 where step: "refresh_step P apps I now (d, m) e = (d1, m1)" by (cases "refresh_step P apps I now (d, m) e")
  have "m1 = m \<or> (\<exists>g. m1 = gm_set m g (gm_get_or [] m g @ [a]))"
    using step by (auto simp: refresh_step_def e simp del: split_paired_Ex split_paired_All split: option.splits if_splits sum.splits)
  then have "m1 = m \<or> mset (concat (map snd m1)) = mset (a # concat (map snd m))"
    using mset_group_add by metis
  then have *: "distinct (concat (map snd m1)) \<and> set (concat (map snd m1)) \<subseteq> insert a (set (concat (map snd m)))"
  proof
    assume eq: "mset (concat (map snd m1)) = mset (a # concat (map snd m))"
    have "distinct (a # concat (map snd m))" using Cons.prems(3,4) by (auto simp: e)
    then show ?thesis using mset_eq_imp_distinct_iff [OF eq] mset_eq_setD [OF eq] by simp
  qed (use Cons.prems(3) in auto)
  moreover have "a \<notin> fst ` set es" "distinct (map fst es)" using Cons.prems(2) by (simp_all add: e)
  moreover have "set (concat (map snd m)) \<inter> fst ` set es = {}" using Cons.prems(4) by (auto simp: e)
  ultimately have "set (concat (map snd m1)) \<inter> fst ` set es = {}" by blast
  then show ?case using Cons.IH [of d1 m1] Cons.prems(1,2) * step by (simp add: e)
qed

subsection \<open>What a sync keeps\<close>

lemma collect_fold:
  assumes "foldl collect_step (d, apps) as = (d', apps')" "distinct (map appKeyOf as)"
  shows "gm_get apps' k = (case find (\<lambda>a. appKeyOf a = k) as of None \<Rightarrow> gm_get apps k | Some a \<Rightarrow> Some a)"
    and "gm_has d' k \<longleftrightarrow> gm_has d k \<or> (\<exists>a\<in>set as. appKeyOf a = k \<and> snd (Mode (app_Spec a)))"
    and "gm_ok d \<Longrightarrow> gm_ok d'"
  using assms
proof (atomize (full), induction as arbitrary: d apps)
  case Nil
  then show ?case by simp
next
  case (Cons a as)
  obtain d1 apps1 where step: "collect_step (d, apps) a = (d1, apps1)" by (cases "collect_step (d, apps) a")
  have apps1: "gm_get apps1 k = (if appKeyOf a = k then Some a else gm_get apps k)"
    and d1: "gm_has d1 k \<longleftrightarrow> gm_has d k \<or> appKeyOf a = k \<and> snd (Mode (app_Spec a))" and ok: "gm_ok d \<Longrightarrow> gm_ok d1"
    using step by (auto simp: collect_step_def go_map split: if_splits)
  have "find (\<lambda>b. appKeyOf b = k) as = None" if "appKeyOf a = k"
    unfolding find_None_iff using Cons.prems(2) that by (metis distinct.simps(2) image_eqI list.set_map list.simps(9))
  then show ?case using Cons.IH [of d1 apps1] Cons.prems step apps1 d1 ok by (auto split: option.splits)
qed

lemma refreshApps_fold:
  assumes "foldl (refreshApps_step P C apps now current g) (d, us) ks = (d', us')"
  shows "(gm_get d' k = gm_get d k \<or> k \<in> set ks \<and> gm_get d' k = Some now) \<and> (gm_ok d \<longrightarrow> gm_ok d') \<and>
    (\<forall>u\<in>set us'. u \<in> set us \<or> (\<exists>k\<in>set ks. snd (refreshApp P C current g (gm_get_or zero_AppInstance apps k)) = Some u))"
  using assms
proof (induction ks arbitrary: d us)
  case Nil
  then show ?case by simp
next
  case (Cons a ks)
  obtain d1 us1 where step: "refreshApps_step P C apps now current g (d, us) a = (d1, us1)"
    by (cases "refreshApps_step P C apps now current g (d, us) a")
  have "gm_get d1 k = (if k = a \<and> fst (refreshApp P C current g (gm_get_or zero_AppInstance apps a)) then Some now else gm_get d k)"
    "gm_ok d \<Longrightarrow> gm_ok d1"
    "us1 = us @ (case snd (refreshApp P C current g (gm_get_or zero_AppInstance apps a)) of None \<Rightarrow> [] | Some u \<Rightarrow> [u])"
    using step by (auto simp: refreshApps_step_def go_map split: prod.splits if_splits)
  then show ?case using Cons.IH [of d1 us1] Cons.prems step by (auto split: if_splits option.splits)
qed

lemma refreshImages_fold:
  assumes "foldl (\<lambda>st (imageKey, appsForImage).
       case pk_parseImage P (fst imageKey) of
         Inl _ \<Rightarrow> st
       | Inr current \<Rightarrow> foldl (refreshApps_step P C apps now current imageKey) st appsForImage) (d, us) groups = (d', us')"
  shows "(gm_get d' k = gm_get d k \<or> k \<in> set (concat (map snd groups)) \<and> gm_get d' k = Some now) \<and> (gm_ok d \<longrightarrow> gm_ok d') \<and>
    (\<forall>u\<in>set us'. u \<in> set us \<or> (\<exists>g ks k current. (g, ks) \<in> set groups \<and> k \<in> set ks \<and>
       snd (refreshApp P C current g (gm_get_or zero_AppInstance apps k)) = Some u))"
  using assms
proof (induction groups arbitrary: d us)
  case Nil
  then show ?case by simp
next
  case (Cons e groups)
  obtain g ks where e: "e = (g, ks)" by (cases e)
  show ?case
  proof (cases "pk_parseImage P (fst g)")
    case (Inl x)
    then show ?thesis using Cons.IH [of d us] Cons.prems by (fastforce simp: e)
  next
    case (Inr current)
    obtain d1 us1 where step: "foldl (refreshApps_step P C apps now current g) (d, us) ks = (d1, us1)"
      by (cases "foldl (refreshApps_step P C apps now current g) (d, us) ks")
    show ?thesis using Cons.IH [of d1 us1] Cons.prems Inr step refreshApps_fold [OF step, of k]
      by (fastforce simp: e)
  qed
qed

lemmas refreshImages_result = refreshImages_fold [where us = "[]", folded refreshImages_def]

lemma nearest_fold:
  "foldl (nearest_step P I apps) t es \<le> t \<and>
   (\<forall>(k, prev)\<in>set es. \<forall>n. calcNextCheck P I prev (gm_get_or zero_AppInstance apps k) = Inr n \<longrightarrow> foldl (nearest_step P I apps) t es \<le> n)"
proof (induction es arbitrary: t)
  case Nil
  then show ?case by simp
next
  case (Cons e es)
  obtain k prev where e: "e = (k, prev)" by (cases e)
  have "nearest_step P I apps t e \<le> t"
    "\<And>n. calcNextCheck P I prev (gm_get_or zero_AppInstance apps k) = Inr n \<Longrightarrow> nearest_step P I apps t e \<le> n"
    by (auto simp: nearest_step_def e split: sum.splits)
  then show ?case using Cons.IH [of "nearest_step P I apps t e"] by (fastforce simp: e)
qed
subsection \<open>Where a new image comes from\<close>

lemma nextImage_new_tag:
  "nextImage P C current imageKey app = Inr (img, True, digest) \<Longrightarrow> dc_checkImageAllowed C (snd imageKey) img = None"
  by (auto simp: nextImage_def bind_err_Inr split: prod.splits if_splits dest: findLatestTag_allowed)

text \<open>
  An image that the daemon writes to an app is allowed, with one exception: there is no new tag and no
  digest was found, neither in the registry nor in the cluster.
\<close>

lemma refreshApp_update:
  assumes "snd (refreshApp P C current imageKey app) = Some app'" "snd imageKey = om_Namespace (app_Meta app)"
  obtains img updated digest where "nextImage P C current imageKey app = Inr (img, updated, digest)"
    "app' = setAvailable img app \<and> fst (Mode (app_Spec app)) = ''enabled'' \<or>
     app' = setConfirm img app \<and> fst (Mode (app_Spec app)) = ''notify''"
    "dc_checkImageAllowed C (om_Namespace (app_Meta app)) img = None \<or> (updated, digest) = (False, [])"
proof -
  obtain img updated digest where next_: "nextImage P C current imageKey app = Inr (img, updated, digest)"
    using assms(1) by (cases "nextImage P C current imageKey app") (auto simp: refreshApp_def)
  have "dc_checkImageAllowed C (om_Namespace (app_Meta app)) img = None \<or> (updated, digest) = (False, [])"
  proof (cases updated)
    case True
    then show ?thesis using nextImage_new_tag next_ assms(2) by metis
  next
    case False
    then show ?thesis using assms(1) next_
      by (auto simp: refreshApp_def split: if_splits option.splits allow_error.splits)
  qed
  moreover have "app' = setAvailable img app \<and> fst (Mode (app_Spec app)) = ''enabled'' \<or>
     app' = setConfirm img app \<and> fst (Mode (app_Spec app)) = ''notify''"
    using assms(1) next_ by (auto simp: refreshApp_def Let_def split: if_splits option.splits allow_error.splits)
  ultimately show thesis using that next_ by blast
qed

lemma imageKeyOf_namespace [simp]: "snd (imageKeyOf app) = om_Namespace (app_Meta app)"
  by (simp add: imageKeyOf_def)

subsection \<open>One run of sync\<close>

text \<open>The three passes of a \<open>sync\<close> that could read the configuration and the apps.\<close>

lemma sync_run:
  assumes "dc_getConfig C = Inr interval" "dc_listAppInstances C = Inr as" "sync P C d now later = (wait, err, d', updates)"
  obtains d1 apps d2 groups where "foldl collect_step (d, []) as = (d1, apps)"
    "determineAppsToRefresh P d1 apps (nextCheckInterval P interval) now = (d2, groups)"
    "refreshImages P C d2 apps groups now = (d', updates)" "err = None"
    "wait + later = foldl (nearest_step P (nextCheckInterval P interval) apps) (now + nextCheckInterval P interval) d'"
  using assms by (auto simp: sync_def Let_def split: prod.splits)

lemma collected:
  assumes "foldl collect_step (d, []) as = (d1, apps)" "distinct (map appKeyOf as)"
  shows "gm_get apps k = Some a \<longleftrightarrow> a \<in> set as \<and> appKeyOf a = k"
proof -
  have "gm_get apps k = find (\<lambda>a. appKeyOf a = k) as"
    using collect_fold(1) [OF assms] by (auto split: option.splits)
  also have "\<dots> = Some a \<longleftrightarrow> a \<in> set as \<and> appKeyOf a = k"
    using assms(2)
    by (induction as) (auto simp: image_iff)
  finally show ?thesis .
qed

lemma watched_collected:
  assumes "foldl collect_step (d, []) as = (d1, apps)" "distinct (map appKeyOf as)"
  shows "watched apps k \<longleftrightarrow> (\<exists>a\<in>set as. appKeyOf a = k \<and> snd (Mode (app_Spec a)))"
  using collected [OF assms] by (fastforce simp: watched_def split: option.splits)

lemma due_watched: "due P apps I now k prev g \<Longrightarrow> watched apps k"
  by (auto simp: due_def watched_def split: option.splits)

lemma group_due:
  assumes "determineAppsToRefresh P d apps I now = (d', groups)" "(g, ks) \<in> set groups" "k \<in> set ks"
  shows "\<exists>prev. (k, prev) \<in> set d \<and> due P apps I now k prev g"
proof -
  have "gm_ok groups" using determineAppsToRefresh_fold(4) [OF assms(1)] by simp
  then have "gm_get_or [] groups g = ks" using assms(2) by (simp add: gm_get_or_def gm_get_in_set [THEN iffD2])
  then show ?thesis using determineAppsToRefresh_fold(2) [OF assms(1), of k g] assms(3) by (auto simp: gm_get_or_def)
qed

lemma sync_keys:
  assumes "foldl collect_step (d, []) as = (d1, apps)" "distinct (map appKeyOf as)"
    "determineAppsToRefresh P d1 apps I now = (d2, groups)" "refreshImages P C d2 apps groups now = (d', updates)"
  shows "gm_has d' k \<longleftrightarrow> watched apps k"
proof -
  have "gm_get d2 k = (if gm_has d1 k \<and> \<not> watched apps k then None else gm_get d1 k)"
    using determineAppsToRefresh_fold(1) [OF assms(3), of k] by (simp add: gm_has_def)
  then have "gm_has d2 k \<longleftrightarrow> watched apps k"
    using collect_fold(2) [OF assms(1,2), of k] watched_collected [OF assms(1,2), of k] by (auto simp: gm_has_iff)
  moreover have "watched apps k" if k: "k \<in> set (concat (map snd groups))"
  proof -
    obtain g ks where "(g, ks) \<in> set groups" "k \<in> set ks" using k by auto
    then show ?thesis using group_due [OF assms(3)] due_watched by blast
  qed
  ultimately show ?thesis using refreshImages_result [OF assms(4), of k] by (auto simp: gm_has_iff)
qed
subsection \<open>A sample cluster\<close>

text \<open>An app that upgrades by a tag pattern, one that does not upgrade, and the tags of a local image.\<close>

definition sample_packages :: "unit packages" where
  "sample_packages =
     \<lparr>pk_compile = (\<lambda>_. Inr sample_regexp),
      pk_parseName = (\<lambda>_. Inr \<lparr>rf_RegistryStr = defaultNoReg, rf_Identifier = ''latest'', rf_TagName = (\<lambda>tag. ''xxx-no-reg/web:'' @ tag)\<rparr>),
      pk_parseImage = (\<lambda>_. Inr \<lparr>rf_RegistryStr = defaultNoReg, rf_Identifier = [], rf_TagName = (\<lambda>tag. ''xxx-no-reg/web:'' @ tag)\<rparr>),
      pk_ParseDuration = (\<lambda>s. if s = ''1m'' then Inr 60 else Inl ())\<rparr>"

definition sample_app :: "string \<Rightarrow> string \<Rightarrow> (unit, unit) AppInstance" where
  "sample_app name img = zero_AppInstance\<lparr>app_Meta := zero_ObjectMeta\<lparr>om_Name := name, om_Namespace := ''acorn''\<rparr>,
     app_Spec := zero_AppInstanceSpec\<lparr>ai_Image := img\<rparr>\<rparr>"

definition sample_client :: "(unit, unit, unit) daemonClient" where
  "sample_client =
     \<lparr>dc_getConfig = Inr ''1m'', dc_listAppInstances = Inr [sample_app ''web'' ''web:v#'', sample_app ''db'' ''db:v1''],
      dc_updateAppStatus = (\<lambda>_. None), dc_listTags = (\<lambda>_ _. []), dc_getTagsMatchingRepo = (\<lambda>_ _. [''v1'', ''v2'', ''v3'']),
      dc_imageDigest = (\<lambda>_ _. Inl ()), dc_resolveLocalTag = (\<lambda>_ _. ([], False)),
      dc_checkImageAllowed = (\<lambda>_ img. if img = ''web:v3'' then Some ErrImageNotAllowed else None)\<rparr>"

lemmas sample_defs = sample_packages_def sample_client_def sample_app_def zero_AppInstance_def zero_ObjectMeta_def zero_AppInstanceSpec_def
  zero_AppInstanceStatus_def zero_AppImage_def

lemma sample_config:
  "dc_getConfig sample_client = Inr ''1m''"
  "dc_listAppInstances sample_client = Inr [sample_app ''web'' ''web:v#'', sample_app ''db'' ''db:v1'']"
  "distinct (map appKeyOf [sample_app ''web'' ''web:v#'', sample_app ''db'' ''db:v1''])"
  by (simp_all add: sample_defs appKeyOf_def)

text \<open>The passes of one \<open>sync\<close> of the sample, evaluated one after the other.\<close>

definition sample_ref :: Reference where
  "sample_ref = \<lparr>rf_RegistryStr = defaultNoReg, rf_Identifier = [], rf_TagName = (\<lambda>tag. ''xxx-no-reg/web:'' @ tag)\<rparr>"

lemma sample_eval:
  "Mode (app_Spec (sample_app ''web'' ''web:v#'')) = (''enabled'', True)"
  "Mode (app_Spec (sample_app ''db'' ''db:v1'')) = ([], False)"
  "imageKeyOf (sample_app ''web'' ''web:v#'') = (''web'', ''acorn'')"
  "nextImage sample_packages sample_client sample_ref (''web'', ''acorn'') (sample_app ''web'' ''web:v#'') = Inr (''web:v2'', True, [])"
  by code_simp+

lemma sample_meta:
  "appKeyOf (sample_app n i) = (''acorn'', n)"
  "is_AvailableAppImage (app_Status (sample_app n i)) = []"
  "prev \<ge> zero_time \<Longrightarrow> calcNextCheck sample_packages I prev (sample_app n i) = Inr (prev + I)"
  by (simp_all add: sample_defs appKeyOf_def calcNextCheck_def)

lemma sample_parse: "pk_parseImage sample_packages img = Inr sample_ref"
  by (simp add: sample_packages_def sample_ref_def)

lemma sample_refresh:
  "refreshApp sample_packages sample_client sample_ref (''web'', ''acorn'') (sample_app ''web'' ''web:v#'') =
     (True, Some (setAvailable ''web:v2'' (sample_app ''web'' ''web:v#'')))"
  by (simp add: refreshApp_def sample_eval sample_meta) (simp add: sample_client_def)

lemma sample_sync:
  "sync sample_packages sample_client [] 100 100 =
     (60, None, [((''acorn'', ''web''), 100)], [setAvailable ''web:v2'' (sample_app ''web'' ''web:v#'')])"
proof -
  let ?web = "sample_app ''web'' ''web:v#''" and ?db = "sample_app ''db'' ''db:v1''"
  let ?apps = "[((''acorn'', ''web''), ?web), ((''acorn'', ''db''), ?db)]"
  note maps = gm_set_def gm_get_def gm_get_or_def gm_has_def
  have "foldl collect_step ([], []) [?web, ?db] = ([((''acorn'', ''web''), zero_time)], ?apps)"
    by (simp add: collect_step_def sample_eval sample_meta maps)
  moreover have "determineAppsToRefresh sample_packages [((''acorn'', ''web''), zero_time)] ?apps 60 100 =
      ([((''acorn'', ''web''), zero_time)], [((''web'', ''acorn''), [(''acorn'', ''web'')])])"
    by (simp add: determineAppsToRefresh_def refresh_step_def sample_eval sample_meta maps) (simp add: zero_time_def)
  moreover have "refreshImages sample_packages sample_client [((''acorn'', ''web''), zero_time)] ?apps
      [((''web'', ''acorn''), [(''acorn'', ''web'')])] 100 =
      ([((''acorn'', ''web''), 100)], [setAvailable ''web:v2'' ?web])"
    by (simp add: refreshImages_def refreshApps_step_def maps sample_refresh sample_parse)
  moreover have "nextCheckInterval sample_packages ''1m'' = 60" by code_simp
  moreover have "nearest_step sample_packages 60 ?apps 160 ((''acorn'', ''web''), 100) = 160"
    by (simp add: nearest_step_def maps sample_meta zero_time_def)
  ultimately show ?thesis by (simp add: sync_def sample_config Let_def)
qed

subsection \<open>Properties\<close>

text \<open>C11: after a \<open>sync\<close> that could read the configuration and the apps, the daemon watches exactly the apps
  whose spec asks for upgrades; it sleeps no longer than the configured interval and no longer than until
  the next check of any watched app.
\<close>

theorem sync_watches:
  assumes "dc_getConfig C = Inr interval" "dc_listAppInstances C = Inr as" "distinct (map appKeyOf as)"
    "sync P C d now later = (wait, err, d', updates)"
  shows "err = None \<and> (\<forall>k. gm_has d' k \<longleftrightarrow> (\<exists>a\<in>set as. appKeyOf a = k \<and> snd (Mode (app_Spec a)))) \<and>
    later + wait \<le> now + nextCheckInterval P interval \<and>
    (\<forall>a prev n. a \<in> set as \<and> (appKeyOf a, prev) \<in> set d' \<and> calcNextCheck P (nextCheckInterval P interval) prev a = Inr n \<longrightarrow>
       later + wait \<le> n)"
proof -
  obtain d1 apps d2 groups where run: "foldl collect_step (d, []) as = (d1, apps)"
    "determineAppsToRefresh P d1 apps (nextCheckInterval P interval) now = (d2, groups)"
    "refreshImages P C d2 apps groups now = (d', updates)"
    and err: "err = None"
    and wait: "wait + later = foldl (nearest_step P (nextCheckInterval P interval) apps) (now + nextCheckInterval P interval) d'"
    by (rule sync_run [OF assms(1,2,4)])
  have "gm_has d' k \<longleftrightarrow> (\<exists>a\<in>set as. appKeyOf a = k \<and> snd (Mode (app_Spec a)))" for k
    using sync_keys [OF run(1) assms(3) run(2,3)] watched_collected [OF run(1) assms(3)] by blast
  moreover have "later + wait \<le> n"
    if "a \<in> set as" "(appKeyOf a, prev) \<in> set d'" "calcNextCheck P (nextCheckInterval P interval) prev a = Inr n" for a prev n
  proof -
    have "gm_get_or zero_AppInstance apps (appKeyOf a) = a"
      using collected [OF run(1) assms(3), of "appKeyOf a" a] that(1) by (simp add: gm_get_or_def)
    then show ?thesis
      using nearest_fold [of P "nextCheckInterval P interval" apps "now + nextCheckInterval P interval" d'] wait that(2,3) by fastforce
  qed
  ultimately show ?thesis
    using err wait nearest_fold [of P "nextCheckInterval P interval" apps "now + nextCheckInterval P interval" d'] by auto
qed

theorem sync_watches_witness:
  "\<forall>k. gm_has [((''acorn'', ''web''), 100 :: Time)] k \<longleftrightarrow>
     (\<exists>a\<in>set [sample_app ''web'' ''web:v#'', sample_app ''db'' ''db:v1'']. appKeyOf a = k \<and> snd (Mode (app_Spec a)))"
  by (rule sync_watches [OF sample_config sample_sync, THEN conjunct2, THEN conjunct1])



text \<open>\<open>determineAppsToRefresh\<close> puts a watched app whose next check is past into the group of its image and
  namespace, and nothing else into any group; no app is in two groups or twice in one.
\<close>

theorem determineAppsToRefresh_groups:
  assumes "gm_ok d" "determineAppsToRefresh P d apps I now = (d', groups)"
  shows "(k \<in> set (gm_get_or [] groups g) \<longleftrightarrow> (\<exists>prev. gm_get d k = Some prev \<and> due P apps I now k prev g)) \<and>
    distinct (concat (map snd groups)) \<and> gm_get d' k = (if watched apps k then gm_get d k else None)"
proof -
  have "distinct (concat (map snd groups))"
    using refresh_once [of P apps I now d "[]" d d' groups] assms by (simp add: determineAppsToRefresh_def gm_ok_def)
  moreover have "k \<notin> fst ` set d \<Longrightarrow> gm_get d k = None" by (simp add: gm_get_def map_of_eq_None_iff)
  ultimately show ?thesis
    using determineAppsToRefresh_fold(1,2) [OF assms(2)] by (auto simp: gm_get_in_set [OF assms(1)] gm_get_or_def)
qed


theorem determineAppsToRefresh_groups_witness:
  "(''acorn'', ''web'') \<in> set (gm_get_or [] [((''web'', ''acorn''), [(''acorn'', ''web'')])] (''web'', ''acorn'')) \<and>
   (\<exists>prev. gm_get [((''acorn'', ''web''), 0), ((''acorn'', ''gone''), 0)] (''acorn'', ''web'') = Some prev \<and>
     due sample_packages [((''acorn'', ''web''), sample_app ''web'' ''web:v#'')] 60 100 (''acorn'', ''web'') prev (''web'', ''acorn''))"
proof -
  have "determineAppsToRefresh sample_packages [((''acorn'', ''web''), 0), ((''acorn'', ''gone''), 0)]
      [((''acorn'', ''web''), sample_app ''web'' ''web:v#'')] 60 100 =
      ([((''acorn'', ''web''), 0)], [((''web'', ''acorn''), [(''acorn'', ''web'')])])"
    by (simp add: determineAppsToRefresh_def refresh_step_def sample_eval sample_meta gm_set_def gm_get_def gm_get_or_def gm_delete_def
        zero_time_def)
  note groups = determineAppsToRefresh_groups [OF _ this, of "(''acorn'', ''web'')" "(''web'', ''acorn'')", THEN conjunct1]
  have "gm_ok [((''acorn'', ''web''), 0 :: Time), ((''acorn'', ''gone''), 0)]" by (simp add: gm_ok_def)
  moreover have "(''acorn'', ''web'') \<in> set (gm_get_or [] [((''web'', ''acorn''), [(''acorn'', ''web'')])] (''web'', ''acorn''))"
    by (simp add: gm_get_or_def gm_get_def)
  ultimately show ?thesis using groups by blast
qed

text \<open>
  An app whose digest is known and whose image can no longer be found, neither in the registry nor in the
  cluster, is offered its own image as an upgrade, and the allow rules are not asked.
\<close>

lemma refreshApp_without_digest:
  assumes "nextImage P C current imageKey app = Inr (img, False, [])" "trimSha (ig_Digest (is_AppImage (app_Status app))) \<noteq> []"
    "fst (Mode (app_Spec app)) = ''enabled''" "is_AvailableAppImage (app_Status app) \<noteq> img"
  shows "snd (refreshApp P C current imageKey app) = Some (setAvailable img app)"
  using assms by (simp add: refreshApp_def trimSha_def str_trim_prefix_def str_has_prefix_def)

end
