(* ===== verification/Readiness.thy ===== *)
theory Readiness
  imports StatusRender AutoUpgrade
begin

text \<open>
  When an app is ready: \<open>ReadyStatus\<close>, \<open>CheckStatus\<close> and \<open>CLIStatus\<close> of \<open>pkg/controller/appstatus\<close>, and the dependencies between the parts
  of an app, \<open>depends.go\<close> and \<open>generation.go\<close> of \<open>pkg/controller/appdefinition\<close>. The lemmas show what a ready app guarantees, what the
  status of a container rests on, that asking for a service ends, and how the dependencies order the start of containers
  over a sequence of passes.
\<close>

subsection \<open>Readiness\<close>

definition conditionsToCheck :: "string list" where
  "conditionsToCheck = [''defaults'', ''scheduling'', ''quota-allocated'']"

text \<open>The handler behind the check runs only when all three conditions hold; otherwise pruning is disabled, the flag.\<close>

definition CheckStatus :: "(('f, 'q) AppInstance \<Rightarrow> 'r) \<Rightarrow> (('f, 'q) AppInstance \<Rightarrow> 'r) \<Rightarrow> ('f, 'q) AppInstance \<Rightarrow> 'r" where
  "CheckStatus disablePrune h app =
     (if list_all (\<lambda>cond. cn_Success (AppInstanceStatus_Condition (app_Status app) cond)) conditionsToCheck then h app else disablePrune app)"

definition otherConditions :: "('f, 'q) AppInstance \<Rightarrow> Condition list" where
  "otherConditions app = filter (\<lambda>c. cn_Type c \<noteq> AppInstanceConditionReady) (is_Conditions (app_Status app))"

definition setReady :: "bool \<Rightarrow> ('f, 'q) AppInstance \<Rightarrow> ('f, 'q) AppInstance" where
  "setReady b app = app\<lparr>app_Status := (app_Status app)\<lparr>is_Ready := b\<rparr>\<rparr>"

text \<open>\<open>mergeErrors\<close> is the text of \<open>merr.NewErrors\<close>.\<close>

definition readyCondition :: "(string list \<Rightarrow> string) \<Rightarrow> ('f, 'q) AppInstance \<Rightarrow> Condition \<times> bool" where
  "readyCondition mergeErrors app =
     (let conds = otherConditions app;
          errs = map cn_Message (filter (\<lambda>c. cn_Status c = ''False'') conds);
          transitioning = sort (remdups (map cn_Message (filter (\<lambda>c. cn_Status c = ''Unknown'' \<and> cn_Message c \<noteq> []) conds)));
          conditionSuccess = list_all cn_Success conds
      in if errs \<noteq> [] then
           (errorCondition (Some (mergeErrors (errs @ (if transitioning \<noteq> [] then [str_join '', '' transitioning] else [])))), False)
         else if transitioning \<noteq> [] then (unknownCondition (str_join '', '' transitioning), False)
         else if ig_ID (is_AppImage (app_Status app)) \<noteq> [] \<and> om_Generation (app_Meta app) = is_ObservedGeneration (app_Status app) \<and>
             conditionSuccess
           then (successCondition, True)
         else (unknownCondition ''Not ready'', False))"

definition ReadyStatus :: "(string list \<Rightarrow> string) \<Rightarrow> Time \<Rightarrow> ('f, 'q) AppInstance \<Rightarrow> panic + ('f, 'q) AppInstance \<times> bool" where
  "ReadyStatus mergeErrors now app =
     (case readyCondition mergeErrors app of (cond, ready) \<Rightarrow>
        Callback_Set AppInstance_Conditions AppInstanceConditionReady now cond (setReady ready app))"

subsection \<open>The columns of the command line\<close>

definition message_step :: "Condition \<Rightarrow> string \<Rightarrow> string" where
  "message_step cond buf =
     (if \<not> cn_Success cond \<and> (cn_Error cond \<or> cn_Transitioning cond) \<and> cn_Message cond \<noteq> []
      then buf @ (if buf \<noteq> [] then '' '' else []) @ ''['' @ cn_Type cond @ '': '' @ cn_Message cond @ '']'' else buf)"

definition cliMessage :: "('f, 'q) AppInstance \<Rightarrow> string" where
  "cliMessage app =
     (let buf = fold message_step (otherConditions app)
            (if om_DeletionTimestamp (app_Meta app) \<noteq> None then ''[removing]''
             else if GetStopped app \<and> \<not> at_Stopped (is_AppStatus (app_Status app)) then ''[stopping]'' else [])
      in if buf \<noteq> [] then buf
         else if is_ConfirmUpgradeAppImage (app_Status app) \<noteq> [] then ''Upgrade available: '' @ is_ConfirmUpgradeAppImage (app_Status app)
         else if is_Ready (app_Status app) then ''OK'' else ''pending'')"

text \<open>The counts are added as 32-bit numbers.\<close>

definition fraction :: "int32 \<Rightarrow> int32 \<Rightarrow> string" where
  "fraction a b = (if a \<noteq> b then itoa (sint a) @ ''/'' @ itoa (sint b) else itoa (sint a))"

definition uptodate :: "('f, 'q) AppInstance \<Rightarrow> string" where
  "uptodate app =
     (let st = is_AppStatus (app_Status app) in
      if is_Namespace (app_Status app) = [] then ''-'' else if at_Stopped st then ''-''
      else fraction (sum_list (map (us_UpToDateReplicaCount \<circ> snd) (at_Containers st)))
             (sum_list (map (us_RunningReplicaCount \<circ> snd) (at_Containers st))))"

definition healthy :: "('f, 'q) AppInstance \<Rightarrow> string" where
  "healthy app =
     (let st = is_AppStatus (app_Status app) in
      if at_Stopped st then ''stopped'' else if is_Namespace (app_Status app) = [] then ''creating''
      else fraction (sum_list (map (us_ReadyReplicaCount \<circ> snd) (at_Containers st)))
             (sum_list (map (us_DesiredReplicaCount \<circ> snd) (at_Containers st))))"

text \<open>\<open>strings.Cut\<close> at \<open>://\<close>.\<close>

fun cutScheme :: "string \<Rightarrow> string \<times> string \<times> bool" where
  "cutScheme [] = ([], [], False)"
| "cutScheme (c # s) =
     (if str_has_prefix (c # s) ''://'' then ([], drop 3 (c # s), True)
      else case cutScheme s of (a, b, found) \<Rightarrow> (c # a, b, found))"

definition endpointText :: "string list \<Rightarrow> Endpoint \<Rightarrow> string" where
  "endpointText tlsHosts endpoint =
     (let scheme =
            (if ep_Protocol endpoint = ProtocolHTTP then
               (if \<not> str_has_prefix (ep_Address endpoint) ''http'' then
                  (case cutScheme (ep_Address endpoint) of (a, b, ok) \<Rightarrow>
                     let host = fst (str_cut (CHR '':'') (if ok then b else a))
                     in if host \<in> set tlsHosts then ''https://'' else ''http://'')
                else [])
             else str_to_lower (ep_Protocol endpoint) @ ''://'')
      in scheme @ (if ep_Pending endpoint then
                     (if ep_Protocol endpoint = ''http'' then ''<Pending Ingress>'' else ''<Pending Load Balancer>'')
                   else ep_Address endpoint))"

definition endpointTargets :: "Endpoint list \<Rightarrow> (string, Endpoint list) gomap" where
  "endpointTargets eps =
     foldl (\<lambda>m ep. let target = ep_Target ep @ '':'' @ itoa (sint (ep_TargetPort ep)) in gm_set m target (gm_get_or [] m target @ [ep])) [] eps"

definition cliEndpoints :: "('e, 'f, 'q) status_reads \<Rightarrow> ('f, 'q) AppInstance \<Rightarrow> 'e status_error + string" where
  "cliEndpoints R app =
     bind_err (ingressTLSHosts R app) (\<lambda>tlsHosts.
       Inr (str_join '', '' (map (\<lambda>(target, eps). str_join '' | '' (map (endpointText tlsHosts) eps) @ '' => '' @ target)
              (typed_Sorted (endpointTargets (at_Endpoints (is_AppStatus (app_Status app))))))))"

definition CLIStatus :: "('e, 'f, 'q) status_reads \<Rightarrow> ('f, 'q) AppInstance \<Rightarrow> ('f, 'q) AppInstance \<times> 'e status_error option" where
  "CLIStatus R app =
     (let eps = cliEndpoints R app;
          columns = \<lparr>co_Healthy = healthy app, co_UpToDate = uptodate app, co_Message = cliMessage app,
            co_Endpoints = (case eps of Inl _ \<Rightarrow> [] | Inr s \<Rightarrow> s)\<rparr>;
          err = (case eps of Inl e \<Rightarrow> Some e | Inr _ \<Rightarrow> None);
          name = publicname_Get (app_Meta app);
          completed = CHR ''.'' \<in> set name \<and> is_Ready (app_Status app) \<and> co_Healthy columns = ''0'' \<and> co_UpToDate columns = ''0'' \<and>
            co_Message columns = ''OK'' \<and> co_Endpoints columns = [];
          put = (\<lambda>b. app\<lparr>app_Status := (app_Status app)\<lparr>is_Columns := columns, is_AppStatus := (is_AppStatus (app_Status app))\<lparr>at_Completed := b\<rparr>\<rparr>\<rparr>)
      in if completed then
           (case rd_app R (om_Namespace (app_Meta app)) (fst (publicname_Split name)) of
              Inl e \<Rightarrow> (put True, Some (StatusRead e))
            | Inr None \<Rightarrow> (put False, err)
            | Inr (Some _) \<Rightarrow> (put True, err))
         else (put False, err))"

subsection \<open>Dependencies\<close>

text \<open>\<open>getDependencyAnnotations\<close> of \<open>pkg/controller/appdefinition/depends.go\<close>; the two annotations tell the apply engine of baaah
  not to create or update the object.\<close>

definition AnnotationCreate :: string where "AnnotationCreate = ''apply.acorn.io/create''"
definition AnnotationUpdate :: string where "AnnotationUpdate = ''apply.acorn.io/update''"

definition dependencyStatus :: "('f, 'q) AppInstance \<Rightarrow> string \<Rightarrow> DependencyStatus" where
  "dependencyStatus app target =
     (let spec = is_AppSpec (app_Status app); st = is_AppStatus (app_Status app)
      in if gm_has (as_Services spec) target then
           \<lparr>de_Ready = us_Ready (gm_get_or zero_ServiceStatus (at_Services st) target), de_Missing = False, de_DependencyType = DependencyService\<rparr>
         else if gm_has (as_Jobs spec) target then
           \<lparr>de_Ready = us_Ready (gm_get_or zero_JobStatus (at_Jobs st) target), de_Missing = False, de_DependencyType = DependencyJob\<rparr>
         else if gm_has (as_Containers spec) target then
           \<lparr>de_Ready = us_Ready (gm_get_or zero_ContainerStatus (at_Containers st) target), de_Missing = False, de_DependencyType = DependencyContainer\<rparr>
         else \<lparr>de_Ready = False, de_Missing = True, de_DependencyType = []\<rparr>)"

definition depStatus :: "('f, 'q) AppInstance \<Rightarrow> Dependency list \<Rightarrow> (string, DependencyStatus) gomap" where
  "depStatus app deps = foldl (\<lambda>m dep. gm_set m (dp_TargetName dep) (dependencyStatus app (dp_TargetName dep))) [] deps"

definition putDependencies :: "('f, 'q) AppInstance \<Rightarrow> string \<Rightarrow> (string, DependencyStatus) gomap \<Rightarrow> ('f, 'q) AppInstance" where
  "putDependencies app name deps =
     (let spec = is_AppSpec (app_Status app); st = is_AppStatus (app_Status app)
      in if gm_has (as_Containers spec) name then
           putAppStatus app (st\<lparr>at_Containers := gm_set (at_Containers st) name
             ((gm_get_or zero_ContainerStatus (at_Containers st) name)\<lparr>us_Dependencies := deps\<rparr>)\<rparr>)
         else if gm_has (as_Jobs spec) name then
           putAppStatus app (st\<lparr>at_Jobs := gm_set (at_Jobs st) name ((gm_get_or zero_JobStatus (at_Jobs st) name)\<lparr>us_JobDependencies := deps\<rparr>)\<rparr>)
         else app)"

definition getDependencyAnnotations :: "('f, 'q) AppInstance \<Rightarrow> string \<Rightarrow> Dependency list \<Rightarrow> (string, string) gomap \<times> ('f, 'q) AppInstance" where
  "getDependencyAnnotations app containerOrJobName deps =
     (let result = (if om_Generation (app_Meta app) > 0 then [(AcornAppGeneration, itoa (om_Generation (app_Meta app)))] else [])
      in if deps = [] then (result, app)
         else let status = depStatus app deps;
                  allReady = list_all (\<lambda>(_, dep). de_Ready dep) status
           in (if allReady then result
               else let result = gm_set result AnnotationCreate ''false''
                 in if GetStopped app then result else gm_set result AnnotationUpdate ''false'',
               putDependencies app containerOrJobName status))"

text \<open>\<open>UpdateObservedFields\<close> of \<open>pkg/controller/appdefinition/generation.go\<close>, the last step of a pass over an app.\<close>

definition impliedAutoUpgrade :: "'f AppInstanceSpec \<Rightarrow> bool" where
  "impliedAutoUpgrade appSpec \<longleftrightarrow> ai_AutoUpgrade appSpec = Some True \<or> ImpliedAutoUpgrade (ai_AutoUpgradeInterval appSpec) (ai_Image appSpec)"

definition UpdateObservedFields :: "('f, 'q) AppInstance \<Rightarrow> ('f, 'q) AppInstance" where
  "UpdateObservedFields app = app\<lparr>app_Status := (app_Status app)\<lparr>is_ObservedImageDigest := ig_Digest (is_AppImage (app_Status app)),
     is_ObservedGeneration := om_Generation (app_Meta app), is_ObservedAutoUpgrade := impliedAutoUpgrade (app_Spec app)\<rparr>\<rparr>"

subsection \<open>Messages and readiness of a part\<close>

lemma status_add_simps [simp]:
  "us_Ready (addError msg s) = us_Ready s" "us_Ready (addTransitioning msg s) = us_Ready s"
  "us_ErrorMessages (addTransitioning msg s) = us_ErrorMessages s"
  by (simp_all add: addError_def addTransitioning_def)

lemma expressionError_step_ready [simp]: "\<not> us_Ready (fst (expressionError_step ee st))"
  by (cases st) (simp add: expressionError_step_def Let_def split: option.splits)

lemma expressionErrors_ready:
  "us_Ready (fst (fold expressionError_step ees st)) \<longleftrightarrow> us_Ready (fst st) \<and> ees = []"
  by (induction ees arbitrary: st) simp_all

lemma fold_missing_ready: "us_Ready (fold (\<lambda>(name, ty). addTransitioning (g name ty)) ms t) = us_Ready t"
  by (induction ms arbitrary: t) (simp_all add: case_prod_beta)

lemma addExpressionErrors_ready [simp]: "us_Ready (addExpressionErrors ees s) \<longleftrightarrow> us_Ready s \<and> ees = []"
proof (cases "fold expressionError_step ees (s, [])")
  case (Pair s' missing)
  then have "us_Ready s' \<longleftrightarrow> us_Ready s \<and> ees = []" using expressionErrors_ready [of ees "(s, [])"] by simp
  then show ?thesis by (simp add: addExpressionErrors_def Pair fold_missing_ready)
qed

lemma dependencies_ready [simp]:
  "us_Ready (fold dependency_step ds s) \<longleftrightarrow> us_Ready s \<and> (\<forall>(name, dep)\<in>set ds. de_Ready dep)"
  by (induction ds arbitrary: s) (auto simp: dependency_step_def split: if_splits)

lemma putAppStatus_simps:
  "is_AppSpec (app_Status (putAppStatus app st)) = is_AppSpec (app_Status app)" "is_AppStatus (app_Status (putAppStatus app st)) = st"
  by (simp_all add: putAppStatus_def)

text \<open>A part that is reported without a message.\<close>

definition part_ready :: "bool \<Rightarrow> 'a CommonStatus_scheme \<Rightarrow> bool" where
  "part_ready deleting s \<longleftrightarrow> us_ErrorMessages s = [] \<and> us_TransitioningMessages s = [] \<and>
     (deleting \<or> us_Defined s \<and> us_UpToDate s \<and> us_Ready s)"

lemma partMessages_quiet: "partMessages deleting (name, GetCommonStatus s) = ([], []) \<longleftrightarrow> part_ready deleting s"
  by (auto simp: partMessages_def part_ready_def GetCommonStatus_def CommonStatus.defs)

lemma partsCondition_success: "cn_Success (partsCondition deleting m) \<longleftrightarrow> (\<forall>(name, s)\<in>set m. part_ready deleting s)"
proof -
  let ?parts = "map (\<lambda>(name, s). partMessages deleting (name, GetCommonStatus s)) (typed_Sorted m)"
  have "cn_Success (partsCondition deleting m) \<longleftrightarrow> concat (map fst ?parts) = [] \<and> concat (map snd ?parts) = []"
  proof -
    have "cn_Success (if e \<noteq> [] then errorCondition (Some x) else if t \<noteq> [] then unknownCondition y else successCondition) \<longleftrightarrow> e = [] \<and> t = []"
      for e t :: "string list" and x y
      by (simp add: errorCondition_def unknownCondition_def successCondition_def zero_Condition_def)
    then show ?thesis by (simp only: partsCondition_def Let_def)
  qed
  also have "concat (map fst ps) = [] \<and> concat (map snd ps) = [] \<longleftrightarrow> (\<forall>p\<in>set ps. p = ([], []))" for ps :: "(string list \<times> string list) list"
    by (induction ps) (auto simp: prod_eq_iff)
  also have "(\<forall>p\<in>set ?parts. p = ([], [])) \<longleftrightarrow> (\<forall>(name, s)\<in>set m. partMessages deleting (name, GetCommonStatus s) = ([], []))" by (simp add: case_prod_beta)
  finally show ?thesis by (simp add: partMessages_quiet)
qed

subsection \<open>The conditions of the parts\<close>

lemma setPartsCondition_Inr:
  assumes "setPartsCondition now name m app = Inr app'"
  shows "sameState (findCondition (is_Conditions (app_Status app')) name) (partsCondition (om_DeletionTimestamp (app_Meta app) \<noteq> None) m)"
    "cn_Type (findCondition (is_Conditions (app_Status app')) name) = name"
    "k \<noteq> name \<Longrightarrow> findCondition (is_Conditions (app_Status app')) k = findCondition (is_Conditions (app_Status app)) k"
    "\<exists>cs. app' = app\<lparr>app_Status := (app_Status app)\<lparr>is_Conditions := cs\<rparr>\<rparr>"
proof -
  let ?cond = "partsCondition (om_DeletionTimestamp (app_Meta app) \<noteq> None) m"
  obtain added where set_: "Callback_Set AppInstance_Conditions name now ?cond app = Inr (app', added)"
    using assms by (auto simp: setPartsCondition_def map_sum_def split: sum.splits)
  from app.set_reports [OF set_] show "sameState (findCondition (is_Conditions (app_Status app')) name) ?cond"
    "cn_Type (findCondition (is_Conditions (app_Status app')) name) = name"
    "k \<noteq> name \<Longrightarrow> findCondition (is_Conditions (app_Status app')) k = findCondition (is_Conditions (app_Status app)) k"
    by (simp_all add: AppInstance_Conditions_def)
  show "\<exists>cs. app' = app\<lparr>app_Status := (app_Status app)\<lparr>is_Conditions := cs\<rparr>\<rparr>"
    using set_ by (auto simp: Callback_Set_def bind_err_Inr AppInstance_Conditions_def)
qed

lemmas condition_names =
  AppInstanceConditionContainers_def AppInstanceConditionJobs_def AppInstanceConditionVolumes_def AppInstanceConditionServices_def
  AppInstanceConditionSecrets_def AppInstanceConditionAcorns_def AppInstanceConditionReady_def

text \<open>What a condition of the app says about a group of its parts.\<close>

definition reports :: "('f, 'q) AppInstance \<Rightarrow> string \<Rightarrow> (string, 'a CommonStatus_scheme) gomap \<Rightarrow> bool" where
  "reports app name m \<longleftrightarrow> cn_Type (findCondition (is_Conditions (app_Status app)) name) = name \<and>
     (cn_Success (findCondition (is_Conditions (app_Status app)) name) \<longleftrightarrow>
      (\<forall>(_, s)\<in>set m. part_ready (om_DeletionTimestamp (app_Meta app) \<noteq> None) s))"

lemma setPartsCondition_reports:
  assumes "setPartsCondition now name m app = Inr app'"
  shows "reports app' name m" "k \<noteq> name \<Longrightarrow> reports app k m' \<Longrightarrow> reports app' k m'"
  using setPartsCondition_Inr [OF assms] by (auto simp: reports_def sameState_def partsCondition_success)

lemma SetStatus_reports:
  assumes "SetStatus R now app = Inr app'" "AppStatus_Get R app = Inr st"
  shows "is_AppStatus (app_Status app') = st \<and> app_Meta app' = app_Meta app \<and> app_Spec app' = app_Spec app \<and>
    is_AppImage (app_Status app') = is_AppImage (app_Status app) \<and> is_AppSpec (app_Status app') = is_AppSpec (app_Status app) \<and>
    is_ObservedGeneration (app_Status app') = is_ObservedGeneration (app_Status app) \<and>
    is_Namespace (app_Status app') = is_Namespace (app_Status app) \<and>
    reports app' ''containers'' (at_Containers st) \<and> reports app' ''jobs'' (at_Jobs st) \<and> reports app' ''volumes'' (at_Volumes st) \<and>
    reports app' ''services'' (at_Services st) \<and> reports app' ''secrets'' (at_Secrets st) \<and> reports app' ''acorns'' (at_Acorns st)"
proof -
  obtain a1 a2 a3 a4 a5 a6 where
    s: "setPartsCondition now ''containers'' (at_Containers st) app = Inr a1" "setPartsCondition now ''jobs'' (at_Jobs st) a1 = Inr a2"
    "setPartsCondition now ''volumes'' (at_Volumes st) a2 = Inr a3" "setPartsCondition now ''services'' (at_Services st) a3 = Inr a4"
    "setPartsCondition now ''secrets'' (at_Secrets st) a4 = Inr a5" "setPartsCondition now ''acorns'' (at_Acorns st) a5 = Inr a6"
    and app': "app' = putAppStatus a6 st"
    using assms by (auto simp: SetStatus_def map_sum_Inr bind_err_Inr condition_names)
  have put: "reports (putAppStatus a6 st) k m = reports a6 k m" for k and m :: "(string, 'x CommonStatus_scheme) gomap"
    by (simp add: reports_def putAppStatus_def)
  note r = setPartsCondition_reports
  have "reports app' ''containers'' (at_Containers st)"
    unfolding app' put by (intro r(2) [OF s(6)] r(2) [OF s(5)] r(2) [OF s(4)] r(2) [OF s(3)] r(2) [OF s(2)] r(1) [OF s(1)]) simp_all
  moreover have "reports app' ''jobs'' (at_Jobs st)"
    unfolding app' put by (intro r(2) [OF s(6)] r(2) [OF s(5)] r(2) [OF s(4)] r(2) [OF s(3)] r(1) [OF s(2)]) simp_all
  moreover have "reports app' ''volumes'' (at_Volumes st)"
    unfolding app' put by (intro r(2) [OF s(6)] r(2) [OF s(5)] r(2) [OF s(4)] r(1) [OF s(3)]) simp_all
  moreover have "reports app' ''services'' (at_Services st)"
    unfolding app' put by (intro r(2) [OF s(6)] r(2) [OF s(5)] r(1) [OF s(4)]) simp_all
  moreover have "reports app' ''secrets'' (at_Secrets st)"
    unfolding app' put by (intro r(2) [OF s(6)] r(1) [OF s(5)]) simp_all
  moreover have "reports app' ''acorns'' (at_Acorns st)"
    unfolding app' put by (rule r(1) [OF s(6)])
  moreover have "\<exists>cs. a6 = app\<lparr>app_Status := (app_Status app)\<lparr>is_Conditions := cs\<rparr>\<rparr>"
    using setPartsCondition_Inr(4) [OF s(1)] setPartsCondition_Inr(4) [OF s(2)] setPartsCondition_Inr(4) [OF s(3)]
      setPartsCondition_Inr(4) [OF s(4)] setPartsCondition_Inr(4) [OF s(5)] setPartsCondition_Inr(4) [OF s(6)] by auto
  ultimately show ?thesis by (auto simp: app' putAppStatus_def)
qed

lemma findCondition_member: "cn_Type (findCondition cs name) = name \<Longrightarrow> name \<noteq> [] \<Longrightarrow> findCondition cs name \<in> set cs"
  by (induction cs) (auto simp: zero_Condition_def)

lemma otherConditions_member:
  "cn_Type (findCondition (is_Conditions (app_Status app)) name) = name \<Longrightarrow> name \<noteq> [] \<Longrightarrow> name \<noteq> ''Ready'' \<Longrightarrow>
     findCondition (is_Conditions (app_Status app)) name \<in> set (otherConditions app)"
  by (auto simp: otherConditions_def condition_names dest: findCondition_member)

subsection \<open>What makes an app ready\<close>

definition quiet :: "Condition \<Rightarrow> bool" where
  "quiet c \<longleftrightarrow> cn_Success c \<and> cn_Status c \<noteq> ''False'' \<and> (cn_Status c = ''Unknown'' \<longrightarrow> cn_Message c = [])"

lemma readyCondition_iff:
  assumes "readyCondition mergeErrors app = (cond, ready)"
  shows "ready \<longleftrightarrow> ig_ID (is_AppImage (app_Status app)) \<noteq> [] \<and> om_Generation (app_Meta app) = is_ObservedGeneration (app_Status app) \<and>
      list_all quiet (otherConditions app)"
    and "cn_Success cond \<longleftrightarrow> ready"
proof -
  define errs where "errs = map cn_Message (filter (\<lambda>c. cn_Status c = ''False'') (otherConditions app))"
  define waiting where "waiting = sort (remdups (map cn_Message (filter (\<lambda>c. cn_Status c = ''Unknown'' \<and> cn_Message c \<noteq> []) (otherConditions app))))"
  have "sort (remdups (map cn_Message cs)) = [] \<longleftrightarrow> cs = []" for cs
    using set_sort [of "\<lambda>x. x" "remdups (map cn_Message cs)"] by (cases cs) (auto simp del: set_sort)
  then have "waiting = [] \<longleftrightarrow> filter (\<lambda>c. cn_Status c = ''Unknown'' \<and> cn_Message c \<noteq> []) (otherConditions app) = []"
    unfolding waiting_def .
  then have quiet: "list_all quiet (otherConditions app) \<longleftrightarrow> errs = [] \<and> waiting = [] \<and> list_all cn_Success (otherConditions app)"
    by (auto simp: errs_def quiet_def list_all_iff filter_empty_conv)
  note conditions = errorCondition_def unknownCondition_def successCondition_def zero_Condition_def
  have "(cond, ready) = (if errs \<noteq> [] then (errorCondition (Some (mergeErrors (errs @ (if waiting \<noteq> [] then [str_join '', '' waiting] else [])))), False)
      else if waiting \<noteq> [] then (unknownCondition (str_join '', '' waiting), False)
      else if ig_ID (is_AppImage (app_Status app)) \<noteq> [] \<and> om_Generation (app_Meta app) = is_ObservedGeneration (app_Status app) \<and>
          list_all cn_Success (otherConditions app) then (successCondition, True)
      else (unknownCondition ''Not ready'', False))"
    unfolding assms [symmetric] readyCondition_def Let_def errs_def waiting_def by (rule refl)
  then show "ready \<longleftrightarrow> ig_ID (is_AppImage (app_Status app)) \<noteq> [] \<and> om_Generation (app_Meta app) = is_ObservedGeneration (app_Status app) \<and>
      list_all quiet (otherConditions app)" "cn_Success cond \<longleftrightarrow> ready"
    unfolding quiet by (simp_all add: conditions split: if_splits)
qed

lemma ReadyStatus_Inr:
  assumes "ReadyStatus mergeErrors now app = Inr (app', added)"
  shows "is_Ready (app_Status app') \<longleftrightarrow>
      ig_ID (is_AppImage (app_Status app)) \<noteq> [] \<and> om_Generation (app_Meta app) = is_ObservedGeneration (app_Status app) \<and>
      list_all quiet (otherConditions app)"
    and "cn_Success (findCondition (is_Conditions (app_Status app')) ''Ready'') \<longleftrightarrow> is_Ready (app_Status app')"
    and "k \<noteq> ''Ready'' \<Longrightarrow> findCondition (is_Conditions (app_Status app')) k = findCondition (is_Conditions (app_Status app)) k"
    and "app_Meta app' = app_Meta app" "is_AppStatus (app_Status app') = is_AppStatus (app_Status app)"
proof -
  obtain cond ready where c: "readyCondition mergeErrors app = (cond, ready)" by fastforce
  then have set_: "Callback_Set AppInstance_Conditions ''Ready'' now cond (setReady ready app) = Inr (app', added)"
    using assms by (simp add: ReadyStatus_def condition_names)
  then have app': "is_Ready (app_Status app') = ready" "app_Meta app' = app_Meta app"
      "is_AppStatus (app_Status app') = is_AppStatus (app_Status app)"
    by (auto simp: Callback_Set_def bind_err_Inr AppInstance_Conditions_def setReady_def)
  then show "is_Ready (app_Status app') \<longleftrightarrow>
      ig_ID (is_AppImage (app_Status app)) \<noteq> [] \<and> om_Generation (app_Meta app) = is_ObservedGeneration (app_Status app) \<and>
      list_all quiet (otherConditions app)" "app_Meta app' = app_Meta app" "is_AppStatus (app_Status app') = is_AppStatus (app_Status app)"
    using readyCondition_iff [OF c] by simp_all
  from app.set_reports [OF set_] readyCondition_iff(2) [OF c] app'(1)
  show "cn_Success (findCondition (is_Conditions (app_Status app')) ''Ready'') \<longleftrightarrow> is_Ready (app_Status app')"
    "k \<noteq> ''Ready'' \<Longrightarrow> findCondition (is_Conditions (app_Status app')) k = findCondition (is_Conditions (app_Status app)) k"
    by (simp_all add: AppInstance_Conditions_def sameState_def setReady_def)
qed

lemma ready_reports:
  assumes "list_all quiet (otherConditions app)" "reports app name m" "name \<noteq> []" "name \<noteq> ''Ready''"
  shows "\<forall>(_, s)\<in>set m. part_ready (om_DeletionTimestamp (app_Meta app) \<noteq> None) s"
proof -
  have "quiet (findCondition (is_Conditions (app_Status app)) name)"
    using assms otherConditions_member [of app name] by (auto simp: list_all_iff reports_def)
  then show ?thesis using assms(2) by (simp add: reports_def quiet_def)
qed

subsection \<open>Reading the status\<close>

lemma readAll_Inr:
  "readAll read defs = Inr ss \<longleftrightarrow> list_all2 (\<lambda>(name, d) (name', s). name' = name \<and> read name d = Inr s) defs ss"
  by (auto simp: readAll_def map_err_Inr_iff bind_err_Inr case_prod_beta prod_eq_iff elim!: list_all2_mono)

lemma readAll_keys: "readAll read defs = Inr ss \<Longrightarrow> map fst ss = map fst defs"
  unfolding readAll_Inr by (induction defs ss rule: list_all2_induct) auto

lemma readAll_member: "readAll read defs = Inr ss \<Longrightarrow> (name, s) \<in> set ss \<Longrightarrow> \<exists>d. (name, d) \<in> set defs \<and> read name d = Inr s"
  unfolding readAll_Inr by (induction defs ss rule: list_all2_induct) auto

lemma readContainers_Inr:
  assumes "readContainers R app = Inr app'"
  obtains summaries where "getReplicasSummary R app AcornContainerName = Inr summaries"
    "map fst (at_Containers (is_AppStatus (app_Status app'))) = map fst (as_Containers (is_AppSpec (app_Status app)))"
    "\<And>name cs. (name, cs) \<in> set (at_Containers (is_AppStatus (app_Status app'))) \<Longrightarrow> \<exists>t. readContainer R app summaries name = Inr (cs, t)"
proof -
  obtain summaries ss where s: "getReplicasSummary R app AcornContainerName = Inr summaries"
    "readAll (\<lambda>name _. readContainer R app summaries name) (as_Containers (is_AppSpec (app_Status app))) = Inr ss"
    "at_Containers (is_AppStatus (app_Status app')) = map (\<lambda>(name, cs, _). (name, cs)) ss"
    using assms by (auto simp: readContainers_def bind_err_Inr Let_def putAppStatus_def)
  show thesis
  proof (rule that [OF s(1)])
    show "map fst (at_Containers (is_AppStatus (app_Status app'))) = map fst (as_Containers (is_AppSpec (app_Status app)))"
      using readAll_keys [OF s(2)] by (simp add: s(3) case_prod_beta comp_def)
    show "\<exists>t. readContainer R app summaries name = Inr (cs, t)" if "(name, cs) \<in> set (at_Containers (is_AppStatus (app_Status app')))" for name cs
      using that readAll_member [OF s(2), of name] by (auto simp: s(3))
  qed
qed

text \<open>The later readers keep what the earlier ones wrote.\<close>

lemma reader_frames:
  "readJobs R app = Inr app' \<Longrightarrow> \<exists>x. app' = putAppStatus app ((is_AppStatus (app_Status app))\<lparr>at_Jobs := x\<rparr>)"
  "readVolumes R app = Inr app' \<Longrightarrow> \<exists>x. app' = putAppStatus app ((is_AppStatus (app_Status app))\<lparr>at_Volumes := x\<rparr>)"
  "readServices R app = Inr app' \<Longrightarrow> \<exists>x. app' = putAppStatus app ((is_AppStatus (app_Status app))\<lparr>at_Services := x\<rparr>)"
  "readSecrets R app = Inr app' \<Longrightarrow> \<exists>x. app' = putAppStatus app ((is_AppStatus (app_Status app))\<lparr>at_Secrets := x\<rparr>)"
  "readAcorns R app = Inr app' \<Longrightarrow> \<exists>x. app' = putAppStatus app ((is_AppStatus (app_Status app))\<lparr>at_Acorns := x\<rparr>)"
  "readRouter R app = Inr app' \<Longrightarrow> \<exists>x. app' = putAppStatus app ((is_AppStatus (app_Status app))\<lparr>at_Routers := x\<rparr>)"
  "readEndpoints R app = Inr app' \<Longrightarrow> \<exists>x. app' = putAppStatus app ((is_AppStatus (app_Status app))\<lparr>at_Endpoints := x\<rparr>)"
  by (auto simp: readJobs_def readVolumes_def readServices_def readSecrets_def readAcorns_def readRouter_def readEndpoints_def
      bind_err_Inr Let_def split: if_splits)

lemma AppStatus_Get_containers:
  assumes "AppStatus_Get R app = Inr st"
  shows "\<exists>app'. readContainers R app = Inr app' \<and> at_Containers st = at_Containers (is_AppStatus (app_Status app'))"
proof -
  obtain a1 a2 a3 a4 a5 a6 a7 a8 where run: "readContainers R app = Inr a1" "readJobs R a1 = Inr a2" "readVolumes R a2 = Inr a3"
    "readServices R a3 = Inr a4" "readSecrets R a4 = Inr a5" "readAcorns R a5 = Inr a6" "readRouter R a6 = Inr a7" "readEndpoints R a7 = Inr a8"
    "st = is_AppStatus (app_Status a8)"
    using assms by (auto simp: AppStatus_Get_def bind_err_Inr)
  then have "at_Containers st = at_Containers (is_AppStatus (app_Status a1))"
    using reader_frames(1) [OF run(2)] reader_frames(2) [OF run(3)] reader_frames(3) [OF run(4)] reader_frames(4) [OF run(5)]
      reader_frames(5) [OF run(6)] reader_frames(6) [OF run(7)] reader_frames(7) [OF run(8)] by (auto simp: putAppStatus_def)
  then show ?thesis using run(1) by blast
qed

subsection \<open>When a container is ready\<close>

definition rolledOut :: "('e, 'f, 'q) status_reads \<Rightarrow> ('f, 'q) AppInstance \<Rightarrow> string \<Rightarrow> bool" where
  "rolledOut R app name \<longleftrightarrow> (\<exists>dep. rd_deployment R (is_Namespace (app_Status app)) name = Inr (Some dep) \<and>
     currentGeneration app (dl_Meta dep) \<and> dl_ReadyReplicas dep = replicas (dl_Replicas dep) \<and> isDepReady R app dep)"

definition statusOf :: "('f, 'q) AppInstance \<Rightarrow> string \<Rightarrow> ContainerStatus" where
  "statusOf app name = gm_get_or zero_ContainerStatus (at_Containers (is_AppStatus (app_Status app))) name"

lemma readContainer_ready:
  assumes "readContainer R app summaries name = Inr (cs, t)" "LinkService (ai_Links (app_Spec app)) name = []"
  shows "us_Ready cs \<longleftrightarrow> rolledOut R app name \<and> us_ExpressionErrors (statusOf app name) = [] \<and>
    (\<forall>(_, dep)\<in>set (us_Dependencies (statusOf app name)). de_Ready dep)"
proof -
  let ?cs0 = "initialContainer app summaries name"
  have cs0 [simp]: "us_LinkOverride ?cs0 = []" "\<not> us_Ready ?cs0" "us_ExpressionErrors ?cs0 = us_ExpressionErrors (statusOf app name)"
    "us_Dependencies ?cs0 = us_Dependencies (statusOf app name)"
    by (simp_all add: initialContainer_def statusOf_def assms(2) Let_def) (simp add: zero_status_defs)
  obtain dep where dep: "rd_deployment R (is_Namespace (app_Status app)) name = Inr dep"
    using assms(1) by (auto simp: readContainer_def bind_err_Inr lift_read_def map_sum_Inr Let_def)
  define cs1 where "cs1 = (case dep of None \<Rightarrow> ?cs0 | Some dep \<Rightarrow> deploymentStatus R app dep ?cs0)"
  have cs1: "us_LinkOverride cs1 = []" "us_ExpressionErrors cs1 = us_ExpressionErrors (statusOf app name)"
    "us_Dependencies cs1 = us_Dependencies (statusOf app name)"
    "us_Ready cs1 \<and> us_ExpressionErrors (statusOf app name) = [] \<longleftrightarrow> rolledOut R app name \<and> us_ExpressionErrors (statusOf app name) = []"
    by (simp_all add: cs1_def deploymentStatus_def rolledOut_def dep Let_def split: option.splits)
  have "linkStatus R app name cs1 = Inr cs1" by (simp add: linkStatus_def cs1)
  moreover have "bind_err (linkStatus R app name cs1) (\<lambda>cs. Inr (addExpressionErrors (us_ExpressionErrors cs)
      (fold dependency_step (typed_Sorted (us_Dependencies cs)) cs), us_TransitioningMessages cs \<noteq> [])) = Inr (cs, t)"
    using assms(1) dep by (simp add: readContainer_def lift_read_def Let_def cs1_def)
  ultimately show ?thesis using cs1(2-4) by auto
qed

subsection \<open>Chains of external names\<close>

text \<open>The service that a managed service with an external name in the cluster stands for.\<close>

definition external :: "('e, 'f, 'q) status_reads \<Rightarrow> string \<times> string \<Rightarrow> (string \<times> string) option" where
  "external R key =
     (case getKService R (fst key) (snd key) of
        Inr (Some svcDep) \<Rightarrow>
          if objectLabel (ks_Meta svcDep) AcornManaged = ''true'' \<and> ks_ExternalName svcDep \<noteq> [] then
            (case rd_clusterDomain R of Inl _ \<Rightarrow> None | Inr domain \<Rightarrow> internalName domain svcDep)
          else None
      | _ \<Rightarrow> None)"

definition hops :: "('e, 'f, 'q) status_reads \<Rightarrow> nat \<Rightarrow> string \<times> string \<Rightarrow> (string \<times> string) option" where
  "hops R n key = ((\<lambda>o'. Option.bind o' (external R)) ^^ n) (Some key)"

lemma hops_simps [simp]: "hops R 0 key = Some key" "hops R (Suc n) key = Option.bind (hops R n key) (external R)"
  by (simp_all add: hops_def)

lemma hops_Suc': "hops R (Suc n) key = Option.bind (external R key) (hops R n)"
proof -
  have none: "((\<lambda>o'. Option.bind o' (external R)) ^^ n) None = None" for n by (induction n) auto
  show ?thesis unfolding hops_def funpow_Suc_right by (cases "external R key") (simp_all add: none)
qed

lemma hops_closed:
  assumes "\<forall>k\<in>S. \<exists>k'\<in>S. external R k = Some k'" "key \<in> S"
  shows "\<exists>k\<in>S. hops R n key = Some k"
  using assms by (induction n) fastforce+

definition circularError :: "'e status_error + 'a \<Rightarrow> bool" where
  "circularError r \<longleftrightarrow> (\<exists>ns svc. r = Inl (CircularService ns svc))"

lemma circularError_simps [simp]:
  "circularError (Inl (CircularService ns svc))" "\<not> circularError (Inl (StatusRead e))" "\<not> circularError (Inr x)"
  by (simp_all add: circularError_def)

lemma isServiceReadyByNamespace_step:
  assumes "(ns, svc) \<notin> set seen"
  shows "external R (ns, svc) = Some (ns', svc') \<Longrightarrow>
      isServiceReadyByNamespace R seen ns svc = isServiceReadyByNamespace R (seen @ [(ns, svc)]) ns' svc'"
    and "external R (ns, svc) = None \<Longrightarrow> \<not> circularError (isServiceReadyByNamespace R seen ns svc)"
  using assms by (auto simp: isServiceReadyByNamespace.simps [of R seen] external_def split: sum.splits option.splits if_splits)

lemma isServiceReady_circular:
  assumes "\<forall>k\<in>set seen. \<exists>k'\<in>insert (ns, svc) (set seen). external R k = Some k'"
  shows "circularError (isServiceReadyByNamespace R seen ns svc) \<longleftrightarrow> (\<forall>n. hops R n (ns, svc) \<noteq> None)"
  using assms
proof (induction R seen ns svc rule: isServiceReadyByNamespace.induct)
  case (1 R seen ns svc)
  show ?case
  proof (cases "(ns, svc) \<in> set seen")
    case True
    then have "\<forall>k\<in>set seen. \<exists>k'\<in>set seen. external R k = Some k'" using "1.prems" by (auto simp: insert_absorb)
    from hops_closed [OF this True] have "\<forall>n. hops R n (ns, svc) \<noteq> None" by (metis option.distinct(1))
    then show ?thesis using True by (simp add: isServiceReadyByNamespace.simps [of R seen])
  next
    case False
    show ?thesis
    proof (cases "external R (ns, svc)")
      case None
      then have "hops R 1 (ns, svc) = None" by simp
      then show ?thesis using isServiceReadyByNamespace_step(2) [OF False None] by blast
    next
      case (Some k')
      obtain ns' svc' where k': "k' = (ns', svc')" by (cases k')
      note step = isServiceReadyByNamespace_step(1) [OF False Some [unfolded k']]
      have closed: "\<forall>k\<in>set (seen @ [(ns, svc)]). \<exists>k'\<in>insert (ns', svc') (set (seen @ [(ns, svc)])). external R k = Some k'"
        using "1.prems" Some k' by auto
      obtain svcDep domain where dep: "getKService R ns svc = Inr (Some svcDep)" "objectLabel (ks_Meta svcDep) AcornManaged = ''true''"
        "ks_ExternalName svcDep \<noteq> []" "rd_clusterDomain R = Inr domain" "internalName domain svcDep = Some (ns', svc')"
        using Some k' by (auto simp: external_def split: sum.splits option.splits if_splits)
      have "circularError (isServiceReadyByNamespace R (seen @ [(ns, svc)]) ns' svc') \<longleftrightarrow> (\<forall>n. hops R n (ns', svc') \<noteq> None)"
        by (rule "1.IH" [OF False dep(1) refl _ dep(3,4,5) refl closed]) (simp add: dep(2))
      moreover have "(\<forall>n. hops R n (ns, svc) \<noteq> None) \<longleftrightarrow> (\<forall>n. hops R n (ns', svc') \<noteq> None)"
      proof -
        have "hops R (Suc n) (ns, svc) = hops R n (ns', svc')" for n using Some k' by (simp only: hops_Suc' bind.bind_lunit)
        then show ?thesis by (metis hops_simps(1) not0_implies_Suc option.distinct(1))
      qed
      ultimately show ?thesis by (simp add: step)
    qed
  qed
qed

subsection \<open>Dependencies\<close>

lemma depStatus_get: "gm_get (depStatus app deps) k = (if k \<in> dp_TargetName ` set deps then Some (dependencyStatus app k) else None)"
  unfolding depStatus_def by (induction deps rule: rev_induct) (auto simp: go_map)

lemma depStatus_ok: "gm_ok (depStatus app deps)"
  unfolding depStatus_def by (induction deps rule: rev_induct) auto

lemma depStatus_ready:
  "(\<forall>(_, dep)\<in>set (depStatus app deps). de_Ready dep) \<longleftrightarrow> (\<forall>d\<in>set deps. de_Ready (dependencyStatus app (dp_TargetName d)))"
proof -
  have "(k, v) \<in> set (depStatus app deps) \<longleftrightarrow> k \<in> dp_TargetName ` set deps \<and> v = dependencyStatus app k" for k v
    using gm_get_in_set [OF depStatus_ok, of app deps k v] by (auto simp: depStatus_get split: if_splits)
  then show ?thesis by fastforce
qed

definition mayCreate :: "('f, 'q) AppInstance \<Rightarrow> string \<Rightarrow> Dependency list \<Rightarrow> bool" where
  "mayCreate app name deps \<longleftrightarrow> gm_get (fst (getDependencyAnnotations app name deps)) AnnotationCreate = None"

lemma mayCreate_iff: "mayCreate app name deps \<longleftrightarrow> (\<forall>d\<in>set deps. de_Ready (dependencyStatus app (dp_TargetName d)))"
proof (cases "deps = []")
  case True
  then show ?thesis
    by (simp add: mayCreate_def getDependencyAnnotations_def gm_get_def AnnotationCreate_def AcornAppGeneration_def Prefix_def)
next
  case False
  have "mayCreate app name deps \<longleftrightarrow> list_all (\<lambda>(_, dep). de_Ready dep) (depStatus app deps)"
    using False by (simp add: mayCreate_def getDependencyAnnotations_def Let_def go_map)
      (simp add: gm_get_def AnnotationCreate_def AnnotationUpdate_def AcornAppGeneration_def Prefix_def)
  then show ?thesis using depStatus_ready [of app deps] by (simp add: list_all_iff)
qed

text \<open>Recording the dependencies of the containers, as \<open>ToDeployments\<close> does while it goes over them.\<close>

definition record_step :: "string \<times> Container \<Rightarrow> ('f, 'q) AppInstance \<Rightarrow> ('f, 'q) AppInstance" where
  "record_step entry app =
     (case entry of (name, c) \<Rightarrow>
        if IsLinked (ai_Links (app_Spec app)) name then app
        else snd (getDependencyAnnotations app name (c_Dependencies (c_fields c))))"

definition recordDependencies :: "('f, 'q) AppInstance \<Rightarrow> ('f, 'q) AppInstance" where
  "recordDependencies app = fold record_step (typed_Sorted (as_Containers (is_AppSpec (app_Status app)))) app"

text \<open>What recording leaves alone.\<close>

definition same_but_dependencies :: "('f, 'q) AppInstance \<Rightarrow> ('f, 'q) AppInstance \<Rightarrow> bool" where
  "same_but_dependencies app app' \<longleftrightarrow> app_Meta app' = app_Meta app \<and> app_Spec app' = app_Spec app \<and>
     is_AppSpec (app_Status app') = is_AppSpec (app_Status app) \<and> is_Namespace (app_Status app') = is_Namespace (app_Status app) \<and>
     is_ObservedGeneration (app_Status app') = is_ObservedGeneration (app_Status app) \<and>
     at_Services (is_AppStatus (app_Status app')) = at_Services (is_AppStatus (app_Status app)) \<and>
     (\<forall>n. us_Ready (gm_get_or zero_JobStatus (at_Jobs (is_AppStatus (app_Status app'))) n) =
        us_Ready (gm_get_or zero_JobStatus (at_Jobs (is_AppStatus (app_Status app))) n)) \<and>
     (\<forall>n. us_Ready (statusOf app' n) = us_Ready (statusOf app n) \<and> us_ExpressionErrors (statusOf app' n) = us_ExpressionErrors (statusOf app n))"

lemma same_refl: "same_but_dependencies app app"
  by (simp add: same_but_dependencies_def)

lemma same_trans: "same_but_dependencies a b \<Longrightarrow> same_but_dependencies b c \<Longrightarrow> same_but_dependencies a c"
  by (simp add: same_but_dependencies_def)

lemma putDependencies_same: "same_but_dependencies app (putDependencies app name deps)"
  by (auto simp: same_but_dependencies_def putDependencies_def putAppStatus_def statusOf_def go_map Let_def gm_get_or_def split: option.splits)

lemma same_dependencyStatus: "same_but_dependencies app app' \<Longrightarrow> dependencyStatus app' target = dependencyStatus app target"
  by (auto simp: same_but_dependencies_def dependencyStatus_def statusOf_def Let_def)

lemma same_depStatus: "same_but_dependencies app app' \<Longrightarrow> depStatus app' deps = depStatus app deps"
  by (simp add: depStatus_def same_dependencyStatus)

lemma record_step_same: "same_but_dependencies app (record_step entry app)"
  by (auto simp: record_step_def getDependencyAnnotations_def Let_def putDependencies_same same_refl split: prod.splits)

lemma record_step_dependencies:
  assumes "gm_has (as_Containers (is_AppSpec (app_Status app))) name" "\<not> IsLinked (ai_Links (app_Spec app)) name"
  shows "us_Dependencies (statusOf (record_step (name, c) app) n) =
    (if n = name \<and> c_Dependencies (c_fields c) \<noteq> [] then depStatus app (c_Dependencies (c_fields c)) else us_Dependencies (statusOf app n))"
  using assms by (auto simp: record_step_def getDependencyAnnotations_def putDependencies_def putAppStatus_def statusOf_def go_map Let_def)

lemma gm_ok_Sorted: "gm_ok (typed_Sorted m) = gm_ok m"
proof -
  have "mset (map fst (typed_Sorted m)) = mset (map fst m)" by (simp add: typed_Sorted_def)
  then show ?thesis unfolding gm_ok_def by (rule mset_eq_imp_distinct_iff)
qed

lemma recordDependencies_dependencies:
  assumes "gm_ok (as_Containers (is_AppSpec (app_Status app)))" "gm_get (as_Containers (is_AppSpec (app_Status app))) name = Some c"
    "\<forall>n\<in>fst ` set (as_Containers (is_AppSpec (app_Status app))). \<not> IsLinked (ai_Links (app_Spec app)) n"
    "us_Dependencies (statusOf app name) = []"
  shows "us_Dependencies (statusOf (recordDependencies app) name) = depStatus app (c_Dependencies (c_fields c))"
    and "same_but_dependencies app (recordDependencies app)"
proof -
  let ?cs = "as_Containers (is_AppSpec (app_Status app))"
  have fold_: "same_but_dependencies app (fold record_step xs app) \<and>
      us_Dependencies (statusOf (fold record_step xs app) name) = (case map_of xs name of None \<Rightarrow> [] | Some c \<Rightarrow> depStatus app (c_Dependencies (c_fields c)))"
    if "distinct (map fst xs)" "set xs \<subseteq> set ?cs" for xs
    using that
  proof (induction xs rule: rev_induct)
    case Nil
    then show ?case by (simp add: same_refl assms(4))
  next
    case (snoc x xs)
    obtain n d where x: "x = (n, d)" by (cases x)
    let ?app = "fold record_step xs app"
    have IH: "same_but_dependencies app ?app"
      "us_Dependencies (statusOf ?app name) = (case map_of xs name of None \<Rightarrow> [] | Some c \<Rightarrow> depStatus app (c_Dependencies (c_fields c)))"
      using snoc by auto
    have n: "(n, d) \<in> set ?cs" "map_of xs n = None" using snoc.prems x by (auto simp: map_of_eq_None_iff)
    then have "gm_has (as_Containers (is_AppSpec (app_Status ?app))) n" "\<not> IsLinked (ai_Links (app_Spec ?app)) n"
      using IH(1) assms(3) by (force simp: same_but_dependencies_def gm_has_def)+
    from record_step_dependencies [OF this, of d name] IH same_depStatus [OF IH(1)] n(2)
    have "us_Dependencies (statusOf (record_step x ?app) name) =
        (case map_of (xs @ [x]) name of None \<Rightarrow> [] | Some c \<Rightarrow> depStatus app (c_Dependencies (c_fields c)))"
      by (auto simp: x map_add_def depStatus_def split: option.splits)
    then show ?case using same_trans [OF IH(1) record_step_same, of x] by simp
  qed
  have "gm_ok (typed_Sorted ?cs)" "gm_get (typed_Sorted ?cs) name = Some c"
    using assms(1,2) gm_get_in_set [of "typed_Sorted ?cs" name c] gm_get_in_set [of ?cs name c] by (simp_all add: gm_ok_Sorted)
  then show "us_Dependencies (statusOf (recordDependencies app) name) = depStatus app (c_Dependencies (c_fields c))"
    "same_but_dependencies app (recordDependencies app)"
    using fold_ [of "typed_Sorted ?cs"] by (simp_all add: recordDependencies_def gm_ok_def gm_get_def)
qed

subsection \<open>Passes over an app\<close>

definition pass :: "('e, 'f, 'q) status_reads \<Rightarrow> Time \<Rightarrow> ('f, 'q) AppInstance \<Rightarrow> ('f, 'q) AppInstance \<Rightarrow> bool" where
  "pass R now app app' \<longleftrightarrow> SetStatus R now (recordDependencies (PrepareStatus app)) = Inr app'"

lemma gm_get_mapValues: "gm_get (mapValues f m) k = map_option f (gm_get m k)"
  by (induction m) (auto simp: mapValues_def gm_get_def)

lemma PrepareStatus_status:
  "us_ExpressionErrors (statusOf (PrepareStatus app) n) = []" "us_Dependencies (statusOf (PrepareStatus app) n) = []"
  "om_Generation (app_Meta app) = is_ObservedGeneration (app_Status app) \<Longrightarrow> us_Ready (statusOf (PrepareStatus app) n) = us_Ready (statusOf app n)"
  by (simp_all add: PrepareStatus_def statusOf_def gm_get_or_def gm_get_mapValues prepareContainer_def Let_def split: option.splits)
    (simp_all add: zero_status_defs)

lemma PrepareStatus_frame [simp]:
  "app_Meta (PrepareStatus app) = app_Meta app" "app_Spec (PrepareStatus app) = app_Spec app"
  "is_AppSpec (app_Status (PrepareStatus app)) = is_AppSpec (app_Status app)"
  "is_Namespace (app_Status (PrepareStatus app)) = is_Namespace (app_Status app)"
  "is_ObservedGeneration (app_Status (PrepareStatus app)) = is_ObservedGeneration (app_Status app)"
  by (simp_all add: PrepareStatus_def Let_def)

lemma rolledOut_cong:
  "app_Meta a = app_Meta b \<Longrightarrow> is_Namespace (app_Status a) = is_Namespace (app_Status b) \<Longrightarrow> rolledOut R a name = rolledOut R b name"
proof -
  assume eq: "app_Meta a = app_Meta b" "is_Namespace (app_Status a) = is_Namespace (app_Status b)"
  then have current: "currentGeneration a = currentGeneration b" by (intro ext) (simp add: currentGeneration_def)
  show ?thesis by (simp only: rolledOut_def isDepReady_def eq current)
qed

lemma not_linked: "\<not> IsLinked links name \<Longrightarrow> LinkService links name = []"
  by (auto simp: IsLinked_def LinkService_def list_ex_iff find_Some_iff split: option.splits if_splits)

text \<open>An app whose containers depend on containers only, none of them replaced by a link.\<close>

definition containers_only :: "('f, 'q) AppInstance \<Rightarrow> bool" where
  "containers_only app \<longleftrightarrow>
     (let spec = is_AppSpec (app_Status app) in
      gm_ok (as_Containers spec) \<and> (\<forall>n\<in>fst ` set (as_Containers spec). \<not> IsLinked (ai_Links (app_Spec app)) n) \<and>
      (\<forall>(_, c)\<in>set (as_Containers spec). \<forall>d\<in>set (c_Dependencies (c_fields c)).
         gm_has (as_Containers spec) (dp_TargetName d) \<and> \<not> gm_has (as_Jobs spec) (dp_TargetName d) \<and> \<not> gm_has (as_Services spec) (dp_TargetName d)))"

lemma containers_only_dependency:
  assumes "containers_only app" "gm_get (as_Containers (is_AppSpec (app_Status app))) name = Some c" "d \<in> set (c_Dependencies (c_fields c))"
  shows "de_Ready (dependencyStatus app (dp_TargetName d)) = us_Ready (statusOf app (dp_TargetName d))"
    "gm_has (as_Containers (is_AppSpec (app_Status app))) (dp_TargetName d)"
proof -
  have "(name, c) \<in> set (as_Containers (is_AppSpec (app_Status app)))" using assms(2) by (auto simp: gm_get_def dest: map_of_SomeD)
  then show "de_Ready (dependencyStatus app (dp_TargetName d)) = us_Ready (statusOf app (dp_TargetName d))"
    "gm_has (as_Containers (is_AppSpec (app_Status app))) (dp_TargetName d)"
    using assms(1,3) by (force simp: containers_only_def Let_def dependencyStatus_def statusOf_def)+
qed

lemma containers_only_cong:
  "app_Spec a = app_Spec b \<Longrightarrow> is_AppSpec (app_Status a) = is_AppSpec (app_Status b) \<Longrightarrow> containers_only a = containers_only b"
  by (simp add: containers_only_def)

lemma record_fold_same: "same_but_dependencies app (fold record_step xs app)"
  by (induction xs rule: rev_induct) (auto intro: same_refl same_trans record_step_same)

lemma pass_frame:
  assumes "pass R now app app'"
  shows "app_Meta app' = app_Meta app" "app_Spec app' = app_Spec app" "is_AppSpec (app_Status app') = is_AppSpec (app_Status app)"
    "is_Namespace (app_Status app') = is_Namespace (app_Status app)"
    "is_ObservedGeneration (app_Status app') = is_ObservedGeneration (app_Status app)"
proof -
  let ?q = "recordDependencies (PrepareStatus app)"
  obtain st where st: "AppStatus_Get R ?q = Inr st"
    using assms by (auto simp: pass_def SetStatus_def bind_err_Inr map_sum_Inr)
  have same: "same_but_dependencies (PrepareStatus app) ?q"
    unfolding recordDependencies_def by (rule record_fold_same)
  from SetStatus_reports [OF assms [unfolded pass_def] st] same
  show "app_Meta app' = app_Meta app" "app_Spec app' = app_Spec app" "is_AppSpec (app_Status app') = is_AppSpec (app_Status app)"
    "is_Namespace (app_Status app') = is_Namespace (app_Status app)"
    "is_ObservedGeneration (app_Status app') = is_ObservedGeneration (app_Status app)"
    by (simp_all add: same_but_dependencies_def)
qed

lemma pass_ready:
  assumes pass: "pass R now app app'" and only: "containers_only app"
    and observed: "om_Generation (app_Meta app) = is_ObservedGeneration (app_Status app)"
    and c: "gm_get (as_Containers (is_AppSpec (app_Status app))) name = Some c"
  shows "us_Ready (statusOf app' name) \<longleftrightarrow> rolledOut R app name \<and>
    (\<forall>d\<in>set (c_Dependencies (c_fields c)). us_Ready (statusOf app (dp_TargetName d)))"
proof -
  let ?p = "PrepareStatus app" and ?deps = "c_Dependencies (c_fields c)"
  let ?q = "recordDependencies ?p"
  have q: "us_Dependencies (statusOf ?q name) = depStatus ?p ?deps" "same_but_dependencies ?p ?q"
    using recordDependencies_dependencies [of ?p name c] only c by (simp_all add: containers_only_def PrepareStatus_status Let_def)
  then have q_eq: "app_Meta ?q = app_Meta app" "app_Spec ?q = app_Spec app" "is_AppSpec (app_Status ?q) = is_AppSpec (app_Status app)"
    "is_Namespace (app_Status ?q) = is_Namespace (app_Status app)" "us_ExpressionErrors (statusOf ?q name) = []"
    by (simp_all add: same_but_dependencies_def PrepareStatus_status)
  obtain st where st: "AppStatus_Get R ?q = Inr st"
    using pass by (auto simp: pass_def SetStatus_def bind_err_Inr map_sum_Inr)
  from AppStatus_Get_containers [OF st] obtain a1 where a1: "readContainers R ?q = Inr a1"
    "at_Containers st = at_Containers (is_AppStatus (app_Status a1))" by blast
  from readContainers_Inr [OF a1(1)] obtain summaries where summaries:
    "map fst (at_Containers st) = map fst (as_Containers (is_AppSpec (app_Status app)))"
    "\<And>name cs. (name, cs) \<in> set (at_Containers st) \<Longrightarrow> \<exists>t. readContainer R ?q summaries name = Inr (cs, t)"
    using a1(2) q_eq(3) by metis
  have "name \<in> fst ` set (at_Containers st)"
    using summaries(1) c by (metis gm_get_def list.set_map map_of_eq_None_iff option.distinct(1))
  then obtain cs where cs: "gm_get (at_Containers st) name = Some cs" "(name, cs) \<in> set (at_Containers st)"
    by (metis gm_get_def map_of_SomeD map_of_eq_None_iff not_None_eq)
  have "statusOf app' name = cs"
    using SetStatus_reports [OF pass [unfolded pass_def] st] cs(1) by (simp add: statusOf_def gm_get_or_def)
  moreover obtain t where "readContainer R ?q summaries name = Inr (cs, t)" using summaries(2) cs(2) by blast
  moreover have "\<not> IsLinked (ai_Links (app_Spec app)) name"
    using only c by (auto simp: containers_only_def Let_def gm_get_def dest!: map_of_SomeD)
  ultimately have "us_Ready (statusOf app' name) \<longleftrightarrow> rolledOut R ?q name \<and> (\<forall>(_, dep)\<in>set (depStatus ?p ?deps). de_Ready dep)"
    using readContainer_ready [of R ?q summaries name cs t] q(1) q_eq by (simp add: not_linked)
  also have "rolledOut R ?q name = rolledOut R app name" using q_eq by (intro rolledOut_cong) simp_all
  also have "(\<forall>(_, dep)\<in>set (depStatus ?p ?deps). de_Ready dep) \<longleftrightarrow> (\<forall>d\<in>set ?deps. us_Ready (statusOf app (dp_TargetName d)))"
  proof -
    have "containers_only ?p" using only containers_only_cong [of ?p app] by simp
    then have "de_Ready (dependencyStatus ?p (dp_TargetName d)) = us_Ready (statusOf app (dp_TargetName d))" if "d \<in> set ?deps" for d
      using containers_only_dependency(1) [of ?p name c d] that c observed by (simp add: PrepareStatus_status)
    then show ?thesis by (simp add: depStatus_ready)
  qed
  finally show ?thesis .
qed

text \<open>A run: passes one after the other, over an app whose generation has been observed.\<close>

definition rollout :: "(nat \<Rightarrow> ('f, 'q) AppInstance) \<Rightarrow> (nat \<Rightarrow> ('e, 'f, 'q) status_reads) \<Rightarrow> (nat \<Rightarrow> Time) \<Rightarrow> bool" where
  "rollout apps reads now \<longleftrightarrow> (\<forall>i. pass (reads i) (now i) (apps i) (apps (Suc i))) \<and> containers_only (apps 0) \<and>
     om_Generation (app_Meta (apps 0)) = is_ObservedGeneration (app_Status (apps 0))"

lemma rollout_stable:
  assumes "rollout apps reads now"
  shows "app_Meta (apps i) = app_Meta (apps 0) \<and> app_Spec (apps i) = app_Spec (apps 0) \<and>
   is_AppSpec (app_Status (apps i)) = is_AppSpec (app_Status (apps 0)) \<and>
   is_ObservedGeneration (app_Status (apps i)) = is_ObservedGeneration (app_Status (apps 0))"
proof (induction i)
  case (Suc i)
  have "pass (reads i) (now i) (apps i) (apps (Suc i))" using assms by (simp add: rollout_def)
  from pass_frame [OF this] Suc show ?case by simp
qed simp

lemma rollout_only: "rollout apps reads now \<Longrightarrow> containers_only (apps i)"
  using rollout_stable [of apps reads now i] containers_only_cong [of "apps i" "apps 0"] by (simp add: rollout_def)

lemma rollout_next:
  assumes run: "rollout apps reads now" and c: "gm_get (as_Containers (is_AppSpec (app_Status (apps 0)))) name = Some c"
  shows "us_Ready (statusOf (apps (Suc i)) name) \<longleftrightarrow> rolledOut (reads i) (apps i) name \<and>
    (\<forall>d\<in>set (c_Dependencies (c_fields c)). us_Ready (statusOf (apps i) (dp_TargetName d)))"
  using pass_ready [of "reads i" "now i" "apps i" "apps (Suc i)" name c] rollout_stable [OF run, of i] rollout_only [OF run, of i] run c
  by (simp add: rollout_def)

lemma rollout_mayCreate:
  assumes run: "rollout apps reads now" and c: "gm_get (as_Containers (is_AppSpec (app_Status (apps 0)))) name = Some c"
  shows "mayCreate (PrepareStatus (apps i)) name (c_Dependencies (c_fields c)) \<longleftrightarrow>
    (\<forall>d\<in>set (c_Dependencies (c_fields c)). us_Ready (statusOf (apps i) (dp_TargetName d)))"
proof -
  have "containers_only (PrepareStatus (apps i))" using rollout_only [OF run, of i] containers_only_cong [of "PrepareStatus (apps i)" "apps i"] by simp
  then show ?thesis
    using containers_only_dependency(1) [of "PrepareStatus (apps i)" name c] run c rollout_stable [OF run, of i]
    by (simp add: mayCreate_iff PrepareStatus_status rollout_def)
qed

lemma rollout_eventually_ready:
  assumes run: "rollout apps reads now" and rank: "\<And>name c d. gm_get (as_Containers (is_AppSpec (app_Status (apps 0)))) name = Some c \<Longrightarrow>
      d \<in> set (c_Dependencies (c_fields c)) \<Longrightarrow> rank (dp_TargetName d) < (rank name :: nat)"
    and fair: "\<And>name c i. gm_get (as_Containers (is_AppSpec (app_Status (apps 0)))) name = Some c \<Longrightarrow>
      (\<And>j. i \<le> j \<Longrightarrow> mayCreate (PrepareStatus (apps j)) name (c_Dependencies (c_fields c))) \<Longrightarrow>
      \<exists>k. \<forall>j\<ge>k. rolledOut (reads j) (apps j) name"
  shows "gm_get (as_Containers (is_AppSpec (app_Status (apps 0)))) name = Some c \<Longrightarrow> \<exists>k. \<forall>j\<ge>k. us_Ready (statusOf (apps j) name)"
proof (induction "rank name" arbitrary: name c rule: less_induct)
  case less
  let ?deps = "set (c_Dependencies (c_fields c))"
  have "\<exists>k. \<forall>j\<ge>k. us_Ready (statusOf (apps j) (dp_TargetName d))" if "d \<in> ?deps" for d
  proof -
    have "gm_has (as_Containers (is_AppSpec (app_Status (apps 0)))) (dp_TargetName d)"
      by (rule containers_only_dependency(2) [OF rollout_only [OF run] less.prems that])
    then obtain c' where "gm_get (as_Containers (is_AppSpec (app_Status (apps 0)))) (dp_TargetName d) = Some c'" by (auto simp: gm_has_iff)
    from less.hyps [OF rank [OF less.prems that] this] show ?thesis .
  qed
  then obtain k where k: "\<And>d j. d \<in> ?deps \<Longrightarrow> k d \<le> j \<Longrightarrow> us_Ready (statusOf (apps j) (dp_TargetName d))" by metis
  define m where "m = Max (insert 0 (k ` ?deps))"
  have "k d \<le> m" if "d \<in> ?deps" for d using that by (auto simp: m_def intro!: Max_ge)
  then have deps: "us_Ready (statusOf (apps j) (dp_TargetName d))" if "d \<in> ?deps" "m \<le> j" for d j using k that le_trans by blast
  then have "\<And>j. m \<le> j \<Longrightarrow> mayCreate (PrepareStatus (apps j)) name (c_Dependencies (c_fields c))"
    by (simp add: rollout_mayCreate [OF run less.prems])
  from fair [OF less.prems this] obtain k' where k': "\<And>j. k' \<le> j \<Longrightarrow> rolledOut (reads j) (apps j) name" by blast
  have "us_Ready (statusOf (apps j) name)" if j: "Suc (max m k') \<le> j" for j
  proof -
    obtain i where "j = Suc i" "max m k' \<le> i" using j by (cases j) auto
    then show ?thesis using rollout_next [OF run less.prems] deps k' by simp
  qed
  then show ?case by blast
qed

lemma rollout_circle:
  assumes run: "rollout apps reads now" and "\<And>name. name \<in> S \<Longrightarrow> \<exists>c d. gm_get (as_Containers (is_AppSpec (app_Status (apps 0)))) name = Some c \<and>
      d \<in> set (c_Dependencies (c_fields c)) \<and> dp_TargetName d \<in> S"
    "\<And>name. name \<in> S \<Longrightarrow> \<not> us_Ready (statusOf (apps 0) name)"
  shows "name \<in> S \<Longrightarrow> \<not> us_Ready (statusOf (apps i) name)"
proof (induction i arbitrary: name)
  case (Suc i)
  obtain c d where "gm_get (as_Containers (is_AppSpec (app_Status (apps 0)))) name = Some c"
    "d \<in> set (c_Dependencies (c_fields c))" "dp_TargetName d \<in> S" using assms(2) [OF Suc.prems] by blast
  then show ?case using rollout_next [OF run] Suc.IH by blast
qed (use assms(3) in simp)

subsection \<open>Jobs and volumes\<close>

lemma readJob_create_kept:
  assumes "readJob R app summaries name = Inr c" "us_CreateEventSucceeded (gm_get_or zero_JobStatus (at_Jobs (is_AppStatus (app_Status app))) name)"
  shows "us_CreateEventSucceeded c"
proof -
  have keep: "us_CreateEventSucceeded (fold dependency_step ds s) = us_CreateEventSucceeded s" for ds and s :: JobStatus
    by (induction ds arbitrary: s) (simp_all add: dependency_step_def addTransitioning_def case_prod_beta)
  have errs: "us_CreateEventSucceeded (fst (fold expressionError_step ees st)) = us_CreateEventSucceeded (fst st)"
    for ees and st :: "JobStatus \<times> (string, DependencyType) gomap"
    by (induction ees arbitrary: st) (simp_all add: expressionError_step_def addError_def Let_def case_prod_beta split: option.splits)
  have missing: "us_CreateEventSucceeded (fold (\<lambda>(n, ty). addTransitioning (g n ty)) ms s) = us_CreateEventSucceeded s" for g ms and s :: JobStatus
    by (induction ms arbitrary: s) (simp_all add: addTransitioning_def case_prod_beta)
  have keep': "us_CreateEventSucceeded (addExpressionErrors ees s) = us_CreateEventSucceeded s" for ees and s :: JobStatus
    using errs [of ees "(s, [])"] by (cases "fold expressionError_step ees (s, [])") (simp add: addExpressionErrors_def missing)
  have link: "us_CreateEventSucceeded c2" if "linkStatus R app name c1 = Inr c2" "us_CreateEventSucceeded c1" for c1 c2 :: JobStatus
    using that by (auto simp: linkStatus_def bind_err_Inr split: if_splits)
  have job: "us_CreateEventSucceeded c2" if "readKJob R app name c1 = Inr c2" "us_CreateEventSucceeded c1" for c1 c2
    using that by (auto simp: readKJob_def bind_err_Inr kjobStatus_def cronJobStatus_def Let_def split: option.splits if_splits)
  have start: "us_CreateEventSucceeded (initialJob app summaries name)" using assms(2) by (simp add: initialJob_def Let_def)
  show ?thesis
  proof (cases "us_Skipped (initialJob app summaries name)")
    case True
    then show ?thesis using assms(1) start by (auto simp: readJob_def Let_def)
  next
    case False
    then obtain c1 c2 where run: "readKJob R app name (initialJob app summaries name) = Inr c1" "linkStatus R app name (countMessages c1) = Inr c2"
      "c = addExpressionErrors (us_JobErrors c2) (fold dependency_step (typed_Sorted (us_JobDependencies c2)) (linkedJob c2))"
      using assms(1) by (auto simp: readJob_def Let_def bind_err_Inr)
    have "us_CreateEventSucceeded (countMessages c1)"
      using job [OF run(1) start] by (simp add: countMessages_def addTransitioning_def addError_def)
    from link [OF run(2) this] show ?thesis by (simp add: run(3) keep keep' linkedJob_def)
  qed
qed

text \<open>A volume that no container mounts and that is not bound blocks the app.\<close>

lemma unmounted_volume_blocks:
  assumes "pv_Phase pvc \<noteq> ''Bound''" "\<not> volumeIsUsed app (objectLabel (pv_Meta pvc) AcornVolumeName)" "\<not> us_Ready v"
    "(name, claimStatus app storageClassNames pvc v) \<in> set m"
  shows "\<not> cn_Success (partsCondition False m)"
  using assms by (auto simp: partsCondition_success part_ready_def claimStatus_def Let_def)

subsection \<open>A sample cluster\<close>

definition sample_deployment :: Deployment where
  "sample_deployment = \<lparr>dl_Meta = zero_ObjectMeta\<lparr>om_Annotations := [(AcornAppGeneration, ''1'')], om_Generation := 1\<rparr>, dl_Replicas = None,
     dl_StatusReplicas = 1, dl_ReadyReplicas = 1, dl_UpdatedReplicas = 1, dl_ObservedGeneration = 1, dl_Conditions = [(''Available'', ''True'')]\<rparr>"

definition sample_replicaSet :: ReplicaSet where
  "sample_replicaSet = \<lparr>rp_Meta = zero_ObjectMeta\<lparr>om_Annotations := [(AcornAppGeneration, ''1'')], om_Generation := 1\<rparr>,
     rp_ObservedGeneration = 1, rp_Replicas = 1, rp_ReadyReplicas = 1, rp_AvailableReplicas = 1\<rparr>"

definition sample_reads :: "(unit, unit, unit) status_reads" where
  "sample_reads = \<lparr>rd_pods = (\<lambda>_ _ _. Inr []), rd_deployment = (\<lambda>_ _. Inr (Some sample_deployment)),
     rd_replicaSets = (\<lambda>_ _ _ _. Inr [sample_replicaSet]), rd_job = (\<lambda>_ _. Inr None), rd_cronJob = (\<lambda>_ _. Inr None),
     rd_services = [], rd_serviceError = (\<lambda>_ _. None), rd_endpoints = (\<lambda>_ _. Inr None), rd_clusterDomain = Inr ''cluster.local'',
     rd_pvcs = (\<lambda>_ _. Inr []), rd_listProjectVC = (\<lambda>_. Inr []), rd_listClusterVC = Inr [], rd_pv = (\<lambda>_. Inr None),
     rd_app = (\<lambda>_ _. Inr None), rd_lookupService = (\<lambda>_ _. Inr None), rd_serviceInstance = (\<lambda>_ _. Inr None),
     rd_lookupSecret = (\<lambda>_ _. Inr None), rd_secret = (\<lambda>_ _. Inr None), rd_ingress = (\<lambda>_ _. Inr None),
     rd_publishedServices = (\<lambda>_. Inr []), rd_ingresses = (\<lambda>_. Inr []), rd_appIngresses = (\<lambda>_ _. Inr []), rd_parseTargets = (\<lambda>_. Inr []),
     rd_sortPods = (\<lambda>_ xs. xs), rd_sortPVCs = (\<lambda>_ xs. xs), rd_sortEndpoints = (\<lambda>_ xs. xs),
     rd_safeHashConcatName = (\<lambda>a b. a @ ''-'' @ b), rd_sprint = (\<lambda>_. [])\<rparr>"

definition sample_app :: "(unit, unit) AppInstance" where
  "sample_app = zero_AppInstance\<lparr>app_Meta := zero_ObjectMeta\<lparr>om_Name := ''shop'', om_Generation := 1\<rparr>,
     app_Status := zero_AppInstanceStatus\<lparr>is_ObservedGeneration := 1, is_Namespace := ''shop-ns'', is_AppImage := zero_AppImage\<lparr>ig_ID := ''img''\<rparr>,
       is_AppSpec := zero_AppSpec\<lparr>as_Containers := [(''db'', Container zero_container_fields []),
         (''web'', Container (zero_container_fields\<lparr>c_Dependencies := [\<lparr>dp_TargetName = ''db''\<rparr>]\<rparr>) [])]\<rparr>\<rparr>\<rparr>"

definition sample_next :: "(unit, unit) AppInstance \<Rightarrow> (unit, unit) AppInstance" where
  "sample_next app = (case SetStatus sample_reads 0 (recordDependencies (PrepareStatus app)) of Inr app' \<Rightarrow> app' | Inl _ \<Rightarrow> app)"


lemma sample_next_pass:
  "is_ok (SetStatus sample_reads 0 (recordDependencies (PrepareStatus app))) \<Longrightarrow> pass sample_reads 0 app (sample_next app)"
  by (auto simp: pass_def sample_next_def is_ok_iff)

definition sample_run :: "nat \<Rightarrow> (unit, unit) AppInstance" where
  "sample_run i = (sample_next ^^ i) sample_app"

lemma sample_passes:
  "is_ok (SetStatus sample_reads 0 (recordDependencies (PrepareStatus sample_app)))"
  "is_ok (SetStatus sample_reads 0 (recordDependencies (PrepareStatus (sample_next sample_app))))"
  "is_ok (SetStatus sample_reads 0 (recordDependencies (PrepareStatus (sample_next (sample_next sample_app)))))"
  "sample_next (sample_next (sample_next sample_app)) = sample_next (sample_next sample_app)"
  by code_simp+

lemma sample_run_cases: "sample_run i \<in> {sample_app, sample_next sample_app, sample_next (sample_next sample_app)}"
  by (induction i) (auto simp: sample_run_def sample_passes(4))

lemma sample_rollout: "rollout sample_run (\<lambda>_. sample_reads) (\<lambda>_. 0)"
proof -
  have "pass sample_reads 0 (sample_run i) (sample_run (Suc i))" for i
  proof -
    have "pass sample_reads 0 (sample_run i) (sample_next (sample_run i))"
      using sample_run_cases [of i] sample_passes(1-3) by (intro sample_next_pass) (metis insert_iff singletonD)
    then show ?thesis by (simp add: sample_run_def)
  qed
  moreover have "containers_only sample_app \<and> om_Generation (app_Meta sample_app) = is_ObservedGeneration (app_Status sample_app)"
    by code_simp
  ultimately show ?thesis by (simp add: rollout_def sample_run_def)
qed

lemma sample_rolledOut: "rolledOut sample_reads (sample_run i) name"
proof -
  have "app_Meta (sample_run i) = app_Meta sample_app" using rollout_stable [OF sample_rollout, of i] by (simp add: sample_run_def)
  moreover have "currentGeneration sample_app (dl_Meta sample_deployment) \<and> currentGeneration sample_app (rp_Meta sample_replicaSet)" by code_simp
  ultimately show ?thesis
    by (auto simp: rolledOut_def isDepReady_def currentGeneration_def sample_reads_def replicas_def
        sample_deployment_def [THEN arg_cong, of dl_Conditions] sample_deployment_def [THEN arg_cong, of dl_ReadyReplicas]
        sample_deployment_def [THEN arg_cong, of dl_StatusReplicas] sample_deployment_def [THEN arg_cong, of dl_UpdatedReplicas]
        sample_deployment_def [THEN arg_cong, of dl_ObservedGeneration] sample_deployment_def [THEN arg_cong, of "\<lambda>d. om_Generation (dl_Meta d)"]
        sample_deployment_def [THEN arg_cong, of dl_Replicas] sample_replicaSet_def [THEN arg_cong, of rp_Replicas]
        sample_replicaSet_def [THEN arg_cong, of rp_ReadyReplicas] sample_replicaSet_def [THEN arg_cong, of rp_AvailableReplicas]
        sample_replicaSet_def [THEN arg_cong, of rp_ObservedGeneration] sample_replicaSet_def [THEN arg_cong, of "\<lambda>d. om_Generation (rp_Meta d)"])
qed

text \<open>Two containers that wait for each other.\<close>

definition waits_for :: "string \<Rightarrow> Container" where
  "waits_for name = Container (zero_container_fields\<lparr>c_Dependencies := [\<lparr>dp_TargetName = name\<rparr>]\<rparr>) []"

definition circle_app :: "(unit, unit) AppInstance" where
  "circle_app = zero_AppInstance\<lparr>app_Status := zero_AppInstanceStatus\<lparr>is_AppSpec :=
     zero_AppSpec\<lparr>as_Containers := [(''a'', waits_for ''b''), (''b'', waits_for ''a'')]\<rparr>\<rparr>\<rparr>"

definition circle_run :: "nat \<Rightarrow> (unit, unit) AppInstance" where
  "circle_run i = (sample_next ^^ i) circle_app"

lemma circle_passes:
  "is_ok (SetStatus sample_reads 0 (recordDependencies (PrepareStatus circle_app)))"
  "is_ok (SetStatus sample_reads 0 (recordDependencies (PrepareStatus (sample_next circle_app))))"
  "sample_next (sample_next circle_app) = sample_next circle_app"
  by code_simp+

lemma circle_rollout: "rollout circle_run (\<lambda>_. sample_reads) (\<lambda>_. 0)"
proof -
  have "circle_run i \<in> {circle_app, sample_next circle_app}" for i
    by (induction i) (auto simp: circle_run_def circle_passes(3))
  then have "pass sample_reads 0 (circle_run i) (sample_next (circle_run i))" for i
    using circle_passes(1,2) by (intro sample_next_pass) (metis insert_iff singletonD)
  then have "pass sample_reads 0 (circle_run i) (circle_run (Suc i))" for i by (simp add: circle_run_def)
  moreover have "containers_only circle_app \<and> om_Generation (app_Meta circle_app) = is_ObservedGeneration (app_Status circle_app)"
    by code_simp
  ultimately show ?thesis by (simp add: rollout_def circle_run_def)
qed

subsection \<open>Properties\<close>

lemma AppStatus_Get_keys:
  assumes "AppStatus_Get R app = Inr st"
  shows "fst ` set (at_Containers st) = fst ` set (as_Containers (is_AppSpec (app_Status app)))"
    "fst ` set (at_Jobs st) = fst ` set (as_Jobs (is_AppSpec (app_Status app)))"
    "fst ` set (at_Services st) = fst ` set (as_Services (is_AppSpec (app_Status app)))"
    "fst ` set (at_Secrets st) = fst ` set (as_Secrets (is_AppSpec (app_Status app)))"
    "fst ` set (at_Acorns st) = fst ` set (as_Acorns (is_AppSpec (app_Status app)))"
proof -
  have keys: "fst ` set ss = fst ` set ds" if "readAll rd ds = Inr ss" for rd :: "string \<Rightarrow> 'd \<Rightarrow> 'x + 's" and ds ss
    using readAll_keys [OF that] by (metis list.set_map)
  obtain a1 a2 a3 a4 a5 a6 a7 a8 where run: "readContainers R app = Inr a1" "readJobs R a1 = Inr a2" "readVolumes R a2 = Inr a3"
    "readServices R a3 = Inr a4" "readSecrets R a4 = Inr a5" "readAcorns R a5 = Inr a6" "readRouter R a6 = Inr a7" "readEndpoints R a7 = Inr a8"
    and st: "st = is_AppStatus (app_Status a8)"
    using assms by (auto simp: AppStatus_Get_def bind_err_Inr)
  obtain x1 where a1: "a1 = putAppStatus app x1" using run(1) by (auto simp: readContainers_def bind_err_Inr Let_def)
  obtain x2 where a2: "a2 = putAppStatus a1 ((is_AppStatus (app_Status a1))\<lparr>at_Jobs := x2\<rparr>)"
    "fst ` set x2 = fst ` set (as_Jobs (is_AppSpec (app_Status a1)))"
    using run(2) by (auto simp: readJobs_def bind_err_Inr dest: keys)
  obtain x3 where a3: "a3 = putAppStatus a2 ((is_AppStatus (app_Status a2))\<lparr>at_Volumes := x3\<rparr>)" using reader_frames(2) [OF run(3)] by blast
  obtain x4 where a4: "a4 = putAppStatus a3 ((is_AppStatus (app_Status a3))\<lparr>at_Services := x4\<rparr>)"
    "fst ` set x4 = fst ` set (as_Services (is_AppSpec (app_Status a3)))"
    using run(4) by (auto simp: readServices_def bind_err_Inr dest: keys)
  obtain x5 where a5: "a5 = putAppStatus a4 ((is_AppStatus (app_Status a4))\<lparr>at_Secrets := x5\<rparr>)"
    "fst ` set x5 = fst ` set (as_Secrets (is_AppSpec (app_Status a4)))"
    using run(5) by (auto simp: readSecrets_def bind_err_Inr dest: keys)
  obtain x6 where a6: "a6 = putAppStatus a5 ((is_AppStatus (app_Status a5))\<lparr>at_Acorns := x6\<rparr>)"
    "fst ` set x6 = fst ` set (as_Acorns (is_AppSpec (app_Status a5)))"
    using run(6) by (auto simp: readAcorns_def bind_err_Inr dest: keys)
  obtain x7 x8 where a8: "a8 = putAppStatus a7 ((is_AppStatus (app_Status a7))\<lparr>at_Endpoints := x8\<rparr>)"
    "a7 = putAppStatus a6 ((is_AppStatus (app_Status a6))\<lparr>at_Routers := x7\<rparr>)"
    using reader_frames(6) [OF run(7)] reader_frames(7) [OF run(8)] by blast
  show "fst ` set (at_Jobs st) = fst ` set (as_Jobs (is_AppSpec (app_Status app)))"
    "fst ` set (at_Services st) = fst ` set (as_Services (is_AppSpec (app_Status app)))"
    "fst ` set (at_Secrets st) = fst ` set (as_Secrets (is_AppSpec (app_Status app)))"
    "fst ` set (at_Acorns st) = fst ` set (as_Acorns (is_AppSpec (app_Status app)))"
    using a2(2) a4(2) a5(2) a6(2) by (simp_all add: st a8 a6(1) a5(1) a4(1) a3 a2(1) a1 putAppStatus_simps)
  show "fst ` set (at_Containers st) = fst ` set (as_Containers (is_AppSpec (app_Status app)))"
    using AppStatus_Get_containers [OF assms] readContainers_Inr by (metis list.set_map)
qed



text \<open>What decides whether an app is ready: the image, the observed generation, and that every condition other than
  \<open>Ready\<close> is a success, is not false and does not wait for something. The condition \<open>Ready\<close> then says the same.\<close>

theorem ReadyStatus_iff:
  assumes "ReadyStatus mergeErrors now app = Inr (app', added)"
  shows "(is_Ready (app_Status app') \<longleftrightarrow>
      ig_ID (is_AppImage (app_Status app)) \<noteq> [] \<and> om_Generation (app_Meta app) = is_ObservedGeneration (app_Status app) \<and>
      list_all (\<lambda>c. cn_Success c \<and> cn_Status c \<noteq> ''False'' \<and> (cn_Status c = ''Unknown'' \<longrightarrow> cn_Message c = []))
        (filter (\<lambda>c. cn_Type c \<noteq> ''Ready'') (is_Conditions (app_Status app)))) \<and>
    (cn_Success (AppInstanceStatus_Condition (app_Status app') ''Ready'') \<longleftrightarrow> is_Ready (app_Status app'))"
  using ReadyStatus_Inr(1,2) [OF assms]
  by (simp add: quiet_def [abs_def] otherConditions_def AppInstanceStatus_Condition_def condition_names)

theorem ReadyStatus_iff_witness: "\<exists>app' added. ReadyStatus concat 0 sample_app = Inr (app', added) \<and> is_Ready (app_Status app')"
proof -
  obtain app' added where run: "ReadyStatus concat 0 sample_app = Inr (app', added)"
    using app.set_ok [of "''Ready''"] by (fastforce simp: ReadyStatus_def condition_names is_ok_iff split: prod.splits)
  from ReadyStatus_iff [OF this] have "is_Ready (app_Status app')"
    by (simp add: sample_app_def zero_AppInstance_def zero_AppInstanceStatus_def)
  with run show ?thesis by blast
qed

lemma readContainers_statusOf:
  assumes "readContainers R app = Inr app'" "gm_get (as_Containers (is_AppSpec (app_Status app))) name = Some c"
    "\<not> IsLinked (ai_Links (app_Spec app)) name"
  shows "us_Ready (statusOf app' name) \<longleftrightarrow>
    (\<exists>dep. rd_deployment R (is_Namespace (app_Status app)) name = Inr (Some dep) \<and> currentGeneration app (dl_Meta dep) \<and>
       dl_ReadyReplicas dep = replicas (dl_Replicas dep) \<and> isDepReady R app dep) \<and>
    us_ExpressionErrors (statusOf app name) = [] \<and> (\<forall>(_, dep)\<in>set (us_Dependencies (statusOf app name)). de_Ready dep)"
proof -
  from readContainers_Inr [OF assms(1)] obtain summaries where s:
    "map fst (at_Containers (is_AppStatus (app_Status app'))) = map fst (as_Containers (is_AppSpec (app_Status app)))"
    "\<And>name cs. (name, cs) \<in> set (at_Containers (is_AppStatus (app_Status app'))) \<Longrightarrow> \<exists>t. readContainer R app summaries name = Inr (cs, t)"
    by metis
  have "name \<in> fst ` set (at_Containers (is_AppStatus (app_Status app')))"
    using s(1) assms(2) by (metis gm_get_def list.set_map map_of_eq_None_iff option.distinct(1))
  then obtain cs where cs: "gm_get (at_Containers (is_AppStatus (app_Status app'))) name = Some cs"
    "(name, cs) \<in> set (at_Containers (is_AppStatus (app_Status app')))"
    by (metis gm_get_def map_of_SomeD map_of_eq_None_iff not_None_eq)
  from s(2) [OF cs(2)] obtain t where "readContainer R app summaries name = Inr (cs, t)" by blast
  from readContainer_ready [OF this not_linked [OF assms(3)]] cs(1) show ?thesis by (simp add: statusOf_def [of app'] gm_get_or_def rolledOut_def)
qed

text \<open>A container that no link replaces is reported ready exactly when its deployment is rolled out for the current generation,
  no expression of it failed, and all of its dependencies were ready when the app was last applied.\<close>

theorem readContainers_ready:
  assumes "readContainers R app = Inr app'" "gm_get (as_Containers (is_AppSpec (app_Status app))) name = Some c"
    "\<not> IsLinked (ai_Links (app_Spec app)) name"
  shows "us_Ready (statusOf app' name) \<longleftrightarrow>
    (\<exists>dep. rd_deployment R (is_Namespace (app_Status app)) name = Inr (Some dep) \<and> currentGeneration app (dl_Meta dep) \<and>
       dl_ReadyReplicas dep = replicas (dl_Replicas dep) \<and> isDepReady R app dep) \<and>
    us_ExpressionErrors (statusOf app name) = [] \<and> (\<forall>(_, dep)\<in>set (us_Dependencies (statusOf app name)). de_Ready dep)"
  using assms by (rule readContainers_statusOf)

theorem readContainers_ready_witness: "\<exists>app'. readContainers sample_reads sample_app = Inr app' \<and> us_Ready (statusOf app' ''db'')"
proof -
  have "is_ok (readContainers sample_reads sample_app) \<and> gm_has (as_Containers (is_AppSpec (app_Status sample_app))) ''db'' \<and>
      \<not> IsLinked (ai_Links (app_Spec sample_app)) ''db'' \<and> us_ExpressionErrors (statusOf sample_app ''db'') = [] \<and>
      us_Dependencies (statusOf sample_app ''db'') = []"
    by code_simp
  then obtain app' c where run: "readContainers sample_reads sample_app = Inr app'"
    "gm_get (as_Containers (is_AppSpec (app_Status sample_app))) ''db'' = Some c" "\<not> IsLinked (ai_Links (app_Spec sample_app)) ''db''"
    "us_ExpressionErrors (statusOf sample_app ''db'') = []" "us_Dependencies (statusOf sample_app ''db'') = []"
    by (auto simp: is_ok_iff gm_has_iff)
  have "us_Ready (statusOf app' ''db'')"
    using readContainers_ready [OF run(1-3)] run(4,5) sample_rolledOut [of 0 "''db''"] by (simp add: rolledOut_def sample_run_def)
  with run(1) show ?thesis by blast
qed

text \<open>Asking whether a service is ready always ends. It reports a circular dependency exactly when the chain of external names
  that leads from service to service in the cluster has no end.\<close>

theorem isServiceReady_ends:
  "(\<exists>ns name. isServiceReady R app svc = Inl (CircularService ns name)) \<longleftrightarrow>
   (\<forall>n. hops R n (is_Namespace (app_Status app), svc) \<noteq> None)"
  using isServiceReady_circular [of "[]" "is_Namespace (app_Status app)" svc R] by (simp add: isServiceReady_def circularError_def)

text \<open>C4: Containers come up in the order of their dependencies. In passes over an app whose containers depend on each other without
  a circle, where the cluster eventually rolls out every deployment that may be created from some pass on, each
  container is eventually ready and stays so.\<close>

theorem containers_eventually_ready:
  assumes "rollout apps reads now"
    "\<forall>name c. gm_get (as_Containers (is_AppSpec (app_Status (apps 0)))) name = Some c \<longrightarrow>
       (\<forall>d\<in>set (c_Dependencies (c_fields c)). rank (dp_TargetName d) < (rank name :: nat)) \<and>
       (\<forall>i. (\<forall>j\<ge>i. gm_get (fst (getDependencyAnnotations (PrepareStatus (apps j)) name (c_Dependencies (c_fields c)))) AnnotationCreate = None) \<longrightarrow>
          (\<exists>k. \<forall>j\<ge>k. rolledOut (reads j) (apps j) name))"
    "gm_get (as_Containers (is_AppSpec (app_Status (apps 0)))) name = Some c"
  shows "\<exists>k. \<forall>j\<ge>k. us_Ready (statusOf (apps j) name)"
proof (rule rollout_eventually_ready [OF assms(1) _ _ assms(3), of rank])
  fix name c i
  assume c: "gm_get (as_Containers (is_AppSpec (app_Status (apps 0)))) name = Some c"
  show "rank (dp_TargetName d) < rank name" if "d \<in> set (c_Dependencies (c_fields c))" for d using assms(2) c that by blast
  assume "\<And>j. i \<le> j \<Longrightarrow> mayCreate (PrepareStatus (apps j)) name (c_Dependencies (c_fields c))"
  then show "\<exists>k. \<forall>j\<ge>k. rolledOut (reads j) (apps j) name" using assms(2) [rule_format, OF c, THEN conjunct2, rule_format, of i]
    unfolding mayCreate_def by blast
qed

theorem containers_eventually_ready_witness: "\<exists>k. \<forall>j\<ge>k. us_Ready (statusOf (sample_run j) ''web'')"
proof -
  have containers: "gm_get (as_Containers (is_AppSpec (app_Status (sample_run 0)))) name =
      (if name = ''db'' then Some (Container zero_container_fields [])
       else if name = ''web'' then Some (Container (zero_container_fields\<lparr>c_Dependencies := [\<lparr>dp_TargetName = ''db''\<rparr>]\<rparr>) []) else None)" for name
    by (simp add: sample_run_def sample_app_def gm_get_def)
  show ?thesis
    by (rule containers_eventually_ready [OF sample_rollout, of "\<lambda>n. if n = ''web'' then 1 else 0"])
      (auto simp: containers sample_rolledOut zero_container_fields_def split: if_splits)
qed

text \<open>Containers that wait for each other in a circle, none of them ready at first, are never ready, and none of them may be
  created.\<close>

theorem circular_containers_wait:
  assumes "rollout apps reads now" "name \<in> S"
    "\<forall>name\<in>S. \<not> us_Ready (statusOf (apps 0) name) \<and>
       (\<exists>c d. gm_get (as_Containers (is_AppSpec (app_Status (apps 0)))) name = Some c \<and> d \<in> set (c_Dependencies (c_fields c)) \<and> dp_TargetName d \<in> S)"
  shows "\<not> us_Ready (statusOf (apps i) name) \<and>
    (\<exists>c. gm_get (as_Containers (is_AppSpec (app_Status (apps 0)))) name = Some c \<and>
       gm_get (fst (getDependencyAnnotations (PrepareStatus (apps i)) name (c_Dependencies (c_fields c)))) AnnotationCreate \<noteq> None)"
proof -
  have never: "\<not> us_Ready (statusOf (apps i) name)" if "name \<in> S" for name
    by (rule rollout_circle [OF assms(1) _ _ that]) (use assms(3) in auto)
  obtain c d where c: "gm_get (as_Containers (is_AppSpec (app_Status (apps 0)))) name = Some c" "d \<in> set (c_Dependencies (c_fields c))" "dp_TargetName d \<in> S"
    using assms(2,3) by blast
  then have "\<not> mayCreate (PrepareStatus (apps i)) name (c_Dependencies (c_fields c))"
    using rollout_mayCreate [OF assms(1) c(1)] never by blast
  then show ?thesis using c(1) never [OF assms(2)] by (auto simp: mayCreate_def)
qed

theorem circular_containers_wait_witness: "\<not> us_Ready (statusOf (circle_run 5) ''a'')"
proof -
  have start: "circle_run 0 = circle_app" by (simp add: circle_run_def)
  have "\<not> us_Ready (statusOf circle_app ''a'') \<and> \<not> us_Ready (statusOf circle_app ''b'')" by code_simp
  moreover have "gm_get (as_Containers (is_AppSpec (app_Status circle_app))) ''a'' = Some (waits_for ''b'')"
    "gm_get (as_Containers (is_AppSpec (app_Status circle_app))) ''b'' = Some (waits_for ''a'')"
    by (simp_all add: circle_app_def gm_get_def)
  moreover have "\<lparr>dp_TargetName = n\<rparr> \<in> set (c_Dependencies (c_fields (waits_for n)))" for n by (simp add: waits_for_def)
  ultimately show ?thesis
    using circular_containers_wait [OF circle_rollout, of "''a''" "{''a'', ''b''}" 5] unfolding start by fastforce
qed

text \<open>A job for the event \<open>create\<close> runs at least once: as long as the app is neither deleted nor stopped, its event is \<open>create\<close> and it
  is run until it has succeeded; that it has succeeded is never forgotten, and then updates do not count as a creation.\<close>

theorem create_job_runs:
  assumes "gm_get (as_Jobs (is_AppSpec (app_Status app))) name = Some job" "''create'' \<in> set (c_Events (c_fields job))"
    "om_DeletionTimestamp (app_Meta app) = None" "ai_Stop (app_Spec app) \<noteq> Some True"
    "succeeded = us_CreateEventSucceeded (gm_get_or zero_JobStatus (at_Jobs (is_AppStatus (app_Status app))) name)"
  shows "(\<not> succeeded \<longrightarrow> GetEvent name app = ''create'' \<and> ShouldRun name app) \<and>
    (succeeded \<and> om_Generation (app_Meta app) > 1 \<longrightarrow> GetEvent name app = ''update'') \<and>
    (\<forall>R summaries c. succeeded \<and> readJob R app summaries name = Inr c \<longrightarrow> us_CreateEventSucceeded c)"
  using assms readJob_create_kept [of _ app _ name] by (auto simp: GetEvent_def ShouldRun_def ShouldRunForEvent_def)

theorem create_job_runs_witness:
  "let app = zero_AppInstance\<lparr>app_Status := zero_AppInstanceStatus\<lparr>is_AppSpec := zero_AppSpec\<lparr>as_Jobs :=
       [(''init'', Container (zero_container_fields\<lparr>c_Events := [''create'']\<rparr>) [])]\<rparr>\<rparr>\<rparr> :: (unit, unit) AppInstance
   in ShouldRun ''init'' app"
proof -
  let ?job = "Container (zero_container_fields\<lparr>c_Events := [''create'']\<rparr>) []"
  let ?app = "zero_AppInstance\<lparr>app_Status := zero_AppInstanceStatus\<lparr>is_AppSpec := zero_AppSpec\<lparr>as_Jobs := [(''init'', ?job)]\<rparr>\<rparr>\<rparr> :: (unit, unit) AppInstance"
  have "gm_get (as_Jobs (is_AppSpec (app_Status ?app))) ''init'' = Some ?job" "''create'' \<in> set (c_Events (c_fields ?job))"
    "om_DeletionTimestamp (app_Meta ?app) = None" "ai_Stop (app_Spec ?app) \<noteq> Some True"
    "\<not> us_CreateEventSucceeded (gm_get_or zero_JobStatus (at_Jobs (is_AppStatus (app_Status ?app))) ''init'')"
    by (simp_all add: gm_get_def gm_get_or_def zero_AppInstance_def zero_ObjectMeta_def zero_AppInstanceSpec_def zero_AppInstanceStatus_def
        zero_AppStatus_def zero_status_defs)
  from create_job_runs [OF this(1-4) refl] this(5) show ?thesis by (simp add: Let_def)
qed

text \<open>An ingress of another app without targets in the namespace hides the endpoints of all the others.\<close>

lemma ingress_without_targets:
  assumes "ingressLoop R ingresses [] = Inr eps" "annotation (ig_Meta ingress) AcornTargets = []"
  shows "ingressLoop R (ingresses @ ingress # others) [] = Inr []"
proof -
  have "ingressLoop R ingresses acc = Inr eps \<Longrightarrow> ingressLoop R (ingresses @ ingress # others) acc = Inr []" for acc eps
    using assms(2) by (induction ingresses arbitrary: acc) (auto simp: Let_def bind_err_Inr split: if_splits)
  from this [OF assms(1)] show ?thesis .
qed

end
