(* ===== verification/ImageAllowRules.thy ===== *)
theory ImageAllowRules
  imports AutoUpgrade
begin

text \<open>
  Image allow rules: \<open>pkg/imageallowrules/imageallowrules.go\<close>, \<open>util/helpers.go\<close>, the validator of the rules and the
  parts of \<open>pkg/cosign/cosign.go\<close> that decide: \<open>EnsureReferences\<close>, \<open>ensureSignatureArtifact\<close>, \<open>VerifySignature\<close>,
  \<open>verifySignatures\<close>, \<open>checkAnnotations\<close> and \<open>generateVariations\<close>. The registry, the signature library and the label
  selectors are arguments. Between two rules only the references of \<open>VerifyOpts\<close> are kept: the annotations
  and the key are set before each use.
\<close>

subsection \<open>Rules\<close>

record SignatureAnnotations =
  sa_Match :: "(string, string) gomap"
  sa_Expressions :: "(string \<times> string \<times> string list) list"

record SignatureRules =
  sr_AnyOf :: "string list"
  sr_AllOf :: "string list"
  sr_Annotations :: SignatureAnnotations

record ImageAllowRuleInstance =
  ir_Images :: "string list"
  ir_Rules :: "SignatureRules list"

text \<open>The errors of the validator: no scope and no signatures, or the index of a rule without a signer.\<close>

datatype rule_error = NothingSpecified | SignedByEmpty nat

definition validateSignatureRules :: "SignatureRules list \<Rightarrow> rule_error list" where
  "validateSignatureRules rules =
     concat (map (\<lambda>(i, rule). if sr_AnyOf rule = [] \<and> sr_AllOf rule = [] then [SignedByEmpty i] else []) (enumerate 0 rules))"

definition Rule_Validate :: "ImageAllowRuleInstance \<Rightarrow> rule_error list" where
  "Rule_Validate aiar =
     (if ir_Images aiar = [] \<and> ir_Rules aiar = [] then [NothingSpecified] else validateSignatureRules (ir_Rules aiar))"

subsection \<open>The scope of a rule\<close>

text \<open>What the code reads of a parsed reference besides its registry and identifier.\<close>

record NameRef = Reference +
  nr_Name :: string
  nr_Context :: string
  nr_RepositoryStr :: string
  nr_DigestName :: "string \<Rightarrow> string"

definition matchPattern :: "(string \<Rightarrow> 'e + regexp) \<Rightarrow> string \<Rightarrow> string \<Rightarrow> bool" where
  "matchPattern compile pattern s =
     (case NewMatcher compile pattern of Inl _ \<Rightarrow> False | Inr (re, _) \<Rightarrow> re_Submatch re s \<noteq> None)"

definition tagPatternOf :: "string \<Rightarrow> string" where
  "tagPatternOf pattern =
     (let parts = str_split CHR '':'' pattern
      in if 1 < length parts \<and> \<not> str_contains (last parts) ''/'' then last parts else [])"

definition patternCovers :: "(string \<Rightarrow> 'e + regexp) \<Rightarrow> NameRef \<Rightarrow> string \<Rightarrow> string \<Rightarrow> bool" where
  "patternCovers compile img digest pattern =
     (if str_trim_space pattern = [] then False
      else if \<not> IsImagePattern pattern then str_trim_suffix (nr_Name img) '':'' = pattern \<or> digest = pattern
      else matchPattern compile (hd (str_split CHR '':'' pattern)) (nr_Context img) \<and>
        (tagPatternOf pattern \<noteq> [] \<longrightarrow> matchPattern compile (tagPatternOf pattern) (rf_Identifier img)))"

definition imageCovered :: "(string \<Rightarrow> 'e + regexp) \<Rightarrow> NameRef \<Rightarrow> string \<Rightarrow> ImageAllowRuleInstance \<Rightarrow> bool" where
  "imageCovered compile img digest iar = list_ex (patternCovers compile img digest) (ir_Images iar)"

subsection \<open>Annotations\<close>

text \<open>
  \<open>range input\<close> is run once for every variation, and Go may visit the entries in another order each time:
  \<open>orders i\<close> is the order of run \<open>i\<close>.
\<close>

definition variationCount :: "(string, string list) gomap \<Rightarrow> nat" where
  "variationCount input = prod_list (map (length \<circ> snd) input)"

fun variation :: "nat \<Rightarrow> nat \<Rightarrow> (string, string list) gomap \<Rightarrow> (string, string) gomap \<Rightarrow> (string, string) gomap" where
  "variation i j [] out = out"
| "variation i j ((key, vs) # input) out =
     variation i (j * length vs) input (gm_set out key (vs ! ((i div j) mod length vs)))"

definition generateVariations :: "(nat \<Rightarrow> (string, string list) gomap) \<Rightarrow> (string, string list) gomap \<Rightarrow> (string, string) gomap list" where
  "generateVariations orders input = map (\<lambda>i. variation i 1 (orders i) []) [0 ..< variationCount input]"

text \<open>The values that the payloads of the signatures hold for each key; a \<open>nil\<close> value is left out.\<close>

definition kvLists :: "(string, string option) gomap list \<Rightarrow> (string, string list) gomap" where
  "kvLists payloads =
     foldl (\<lambda>m (k, v). case v of None \<Rightarrow> m | Some s \<Rightarrow> gm_set m k (gm_get_or [] m k @ [s])) [] (concat payloads)"

text \<open>
  Only an unwrapped \<open>VerificationError\<close> is recognised as a failed verification; that no signature matches
  is reported with the error wrapped.
\<close>

datatype 'e verify_error = VerificationError | NoMatchingSignatures | VerifyOther 'e

record selector =
  sl_Empty :: bool
  sl_Matches :: "(string, string) gomap \<Rightarrow> bool"

definition checkAnnotations :: "(SignatureAnnotations \<Rightarrow> 'e + selector) \<Rightarrow> ((string, string list) gomap \<Rightarrow> nat \<Rightarrow> (string, string list) gomap) \<Rightarrow>
    (string, string option) gomap list \<Rightarrow> SignatureAnnotations \<Rightarrow> 'e verify_error option" where
  "checkAnnotations asSelector ranges payloads rule =
     (case asSelector rule of
        Inl e \<Rightarrow> Some (VerifyOther e)
      | Inr sel \<Rightarrow>
          if sl_Empty sel then None
          else if list_ex (sl_Matches sel) (generateVariations (ranges (kvLists payloads)) (kvLists payloads)) then None
          else Some VerificationError)"
subsection \<open>Signatures\<close>

datatype 'e head_error = NotFound | HeadError 'e

text \<open>An image reference that names a digest, or its name with the way to put a digest in it.\<close>

datatype ImgRef = DigestRef string | TagRef string "string \<Rightarrow> string"

record ('e, 's, 'g, 'v) cosignLib =
  cl_ParseReference :: "string \<Rightarrow> 'e + ImgRef"
  cl_Identifier :: "string \<Rightarrow> string"
  cl_Digest :: "string \<Rightarrow> 'e head_error + string"
  cl_SignatureTag :: "string \<Rightarrow> 'e + string"
  cl_SimpleDigest :: "string \<Rightarrow> 'e head_error + string"
  cl_ParseWeak :: "string \<Rightarrow> 'e + string"
  cl_InternalRepo :: "string \<Rightarrow> 'e + string"
  cl_Copy :: "string \<Rightarrow> string \<Rightarrow> 'e option"
  cl_Signatures :: "string \<Rightarrow> 'e + 's"
  cl_Get :: "'s \<Rightarrow> 'e + 'g list"
  cl_NewHash :: "string \<Rightarrow> 'e + string"
  cl_decodePEM :: "string \<Rightarrow> string \<Rightarrow> 'e + 'v"
  cl_PublicKeyFromKeyRef :: "string \<Rightarrow> 'e + 'v"
  cl_StaticCopy :: "'g \<Rightarrow> 'e + 'g"
  cl_VerifyImageSignature :: "'g \<Rightarrow> string \<Rightarrow> 'v option \<Rightarrow> 'e + bool"
  cl_Payload :: "'g \<Rightarrow> 'e + string"
  cl_UnmarshalPayload :: "string \<Rightarrow> 'e + (string, string option) gomap"
  cl_AsSelector :: "SignatureAnnotations \<Rightarrow> 'e + selector"
  cl_ranges :: "(string, string list) gomap \<Rightarrow> nat \<Rightarrow> (string, string list) gomap"

record VerifyOpts =
  vo_ImageRef :: "string option"
  vo_SignatureRef :: "string option"
  vo_Namespace :: string
  vo_AnnotationRules :: SignatureAnnotations
  vo_Key :: string
  vo_SignatureAlgorithm :: string
  vo_NoCache :: bool

definition other :: "'e + 'a \<Rightarrow> 'e verify_error + 'a" where
  "other r = map_sum VerifyOther id r"

definition ensureSignatureArtifact :: "('e, 's, 'g, 'v) cosignLib \<Rightarrow> string \<Rightarrow> string \<Rightarrow> bool \<Rightarrow> ('e head_error) verify_error + string" where
  "ensureSignatureArtifact L namespace img noCache =
     bind_err (map_sum (VerifyOther \<circ> HeadError) id (cl_SignatureTag L img)) (\<lambda>sigTag.
     bind_err (case cl_SimpleDigest L sigTag of
                 Inl NotFound \<Rightarrow> Inl VerificationError
               | Inl e \<Rightarrow> Inl (VerifyOther e)
               | Inr sigDigest \<Rightarrow> Inr sigDigest) (\<lambda>sigDigest.
     bind_err (map_sum (VerifyOther \<circ> HeadError) id (cl_ParseWeak L sigTag)) (\<lambda>sigRefToUse.
       if noCache then Inr sigRefToUse
       else
         bind_err (map_sum (VerifyOther \<circ> HeadError) id (cl_InternalRepo L namespace)) (\<lambda>internalRepo.
         let localSignatureArtifact = internalRepo @ '':'' @ cl_Identifier L sigTag in
         bind_err (case cl_Digest L localSignatureArtifact of
                     Inl NotFound \<Rightarrow> Inr True
                   | Inl e \<Rightarrow> Inl (VerifyOther e)
                   | Inr localSigSHA \<Rightarrow> Inr (localSigSHA \<noteq> sigDigest)) (\<lambda>mustPull.
         bind_err (if mustPull
                   then (case cl_Copy L sigTag localSignatureArtifact of None \<Rightarrow> Inr () | Some e \<Rightarrow> Inl (VerifyOther (HeadError e)))
                   else Inr ()) (\<lambda>_.
           map_sum (VerifyOther \<circ> HeadError) id (cl_ParseWeak L localSignatureArtifact)))))))"

text \<open>\<open>Identifier\<close> of a reference that is not set yet is empty.\<close>

definition noIdentifier :: "('e, 's, 'g, 'v) cosignLib \<Rightarrow> string option \<Rightarrow> bool" where
  "noIdentifier L ref = (case ref of None \<Rightarrow> True | Some r \<Rightarrow> cl_Identifier L r = [])"

definition resolveImage :: "('e, 's, 'g, 'v) cosignLib \<Rightarrow> string \<Rightarrow> ('e head_error) verify_error + string" where
  "resolveImage L img =
     bind_err (map_sum (VerifyOther \<circ> HeadError) id (cl_ParseReference L img)) (\<lambda>imgRef.
       case imgRef of
         DigestRef imgDigest \<Rightarrow> Inr imgDigest
       | TagRef name withDigest \<Rightarrow> map_sum VerifyOther withDigest (cl_Digest L name))"

definition EnsureReferences :: "('e, 's, 'g, 'v) cosignLib \<Rightarrow> string \<Rightarrow> VerifyOpts \<Rightarrow> ('e head_error) verify_error + VerifyOpts" where
  "EnsureReferences L img opts =
     bind_err (if noIdentifier L (vo_ImageRef opts)
               then bind_err (resolveImage L img) (\<lambda>ref. Inr (opts\<lparr>vo_ImageRef := Some ref\<rparr>))
               else Inr opts) (\<lambda>opts.
       if noIdentifier L (vo_SignatureRef opts)
       then bind_err (ensureSignatureArtifact L (vo_Namespace opts) (the (vo_ImageRef opts)) (vo_NoCache opts)) (\<lambda>signatureRef.
              Inr (opts\<lparr>vo_SignatureRef := Some signatureRef\<rparr>))
       else Inr opts)"

definition LoadKey :: "('e, 's, 'g, 'v) cosignLib \<Rightarrow> string \<Rightarrow> string \<Rightarrow> 'e + 'v" where
  "LoadKey L keyRef algorithm =
     (if str_has_prefix (str_trim_space keyRef) ''-----BEGIN PUBLIC KEY-----'' then cl_decodePEM L keyRef algorithm
      else cl_PublicKeyFromKeyRef L keyRef)"

text \<open>The signatures that the library accepts, in order.\<close>

definition checkedSignatures :: "('e, 's, 'g, 'v) cosignLib \<Rightarrow> 'g list \<Rightarrow> string \<Rightarrow> 'v option \<Rightarrow> 'g list" where
  "checkedSignatures L sl h key =
     concat (map (\<lambda>sig. case cl_StaticCopy L sig of
                          Inl _ \<Rightarrow> []
                        | Inr sig \<Rightarrow> (case cl_VerifyImageSignature L sig h key of Inl _ \<Rightarrow> [] | Inr _ \<Rightarrow> [sig])) sl)"

definition verifySignatures :: "('e, 's, 'g, 'v) cosignLib \<Rightarrow> 's \<Rightarrow> string \<Rightarrow> 'v option \<Rightarrow> 'e verify_error + 'g list" where
  "verifySignatures L sigs h key =
     bind_err (other (cl_Get L sigs)) (\<lambda>sl.
       if checkedSignatures L sl h key = [] then Inl NoMatchingSignatures else Inr (checkedSignatures L sl h key))"

definition extractPayload :: "('e, 's, 'g, 'v) cosignLib \<Rightarrow> 'g list \<Rightarrow> 'e + (string, string option) gomap list" where
  "extractPayload L verified = map_err (\<lambda>sig. bind_err (cl_Payload L sig) (cl_UnmarshalPayload L)) verified"

text \<open>No error means that the image is signed with the key and the annotations match.\<close>

definition VerifySignature :: "('e, 's, 'g, 'v) cosignLib \<Rightarrow> VerifyOpts \<Rightarrow> 'e verify_error option" where
  "VerifySignature L opts =
     (case (bind_err (other (cl_Signatures L (the (vo_SignatureRef opts)))) (\<lambda>sigs.
            bind_err (other (cl_NewHash L (the (vo_ImageRef opts)))) (\<lambda>imgDigestHash.
            bind_err (if vo_Key opts \<noteq> [] then map_sum id Some (other (LoadKey L (vo_Key opts) (vo_SignatureAlgorithm opts))) else Inr None) (\<lambda>key.
            bind_err (verifySignatures L sigs imgDigestHash key) (\<lambda>signatures. other (extractPayload L signatures)))))) of
        Inl e \<Rightarrow> Some e
      | Inr payloads \<Rightarrow> checkAnnotations (cl_AsSelector L) (cl_ranges L) payloads (vo_AnnotationRules opts))"

subsection \<open>Checking an image\<close>

definition signedBy :: "('e, 's, 'g, 'v) cosignLib \<Rightarrow> VerifyOpts \<Rightarrow> SignatureRules \<Rightarrow> bool" where
  "signedBy L opts rule =
     (list_all (\<lambda>signer. VerifySignature L (opts\<lparr>vo_Key := signer\<rparr>) = None) (sr_AllOf rule) \<and>
      (sr_AnyOf rule \<noteq> [] \<longrightarrow> list_ex (\<lambda>signer. VerifySignature L (opts\<lparr>vo_Key := signer\<rparr>) = None) (sr_AnyOf rule)))"

text \<open>The signature rules of one image allow rule: an error ends the check, otherwise they hold or fail.\<close>

fun signatureRules :: "('e, 's, 'g, 'v) cosignLib \<Rightarrow> string \<Rightarrow> SignatureRules list \<Rightarrow> VerifyOpts \<Rightarrow>
    ('e head_error) verify_error + bool \<times> VerifyOpts" where
  "signatureRules L img [] opts = Inr (True, opts)"
| "signatureRules L img (rule # rules) opts =
     bind_err (EnsureReferences L img opts) (\<lambda>opts.
       let opts = opts\<lparr>vo_AnnotationRules := sr_Annotations rule\<rparr>
       in if signedBy L opts rule then signatureRules L img rules opts else Inr (False, opts))"

datatype 'e check_error = ImageNotAllowed string | ReferenceFailed "('e head_error) verify_error" | CheckFailed 'e

fun iarLoop :: "(string \<Rightarrow> 'e + regexp) \<Rightarrow> ('e, 's, 'g, 'v) cosignLib \<Rightarrow> string \<Rightarrow> NameRef \<Rightarrow> string \<Rightarrow> ImageAllowRuleInstance list \<Rightarrow>
    VerifyOpts \<Rightarrow> 'e check_error option" where
  "iarLoop compile L img ref digest [] opts = Some (ImageNotAllowed img)"
| "iarLoop compile L img ref digest (iar # iars) opts =
     (if \<not> imageCovered compile ref digest iar then iarLoop compile L img ref digest iars opts
      else (case signatureRules L img (ir_Rules iar) opts of
              Inl e \<Rightarrow> Some (ReferenceFailed e)
            | Inr (ok, opts) \<Rightarrow> if ok then None else iarLoop compile L img ref digest iars opts))"

definition SHAPattern :: "string \<Rightarrow> bool" where
  "SHAPattern s = (length s = 64 \<and> list_all (\<lambda>c. c \<in> set ''0123456789abcdef'') s)"

definition checkDigest :: "NameRef \<Rightarrow> string \<Rightarrow> string \<Rightarrow> string" where
  "checkDigest ref img digest =
     (if rf_Identifier ref = [] \<and> SHAPattern img then (if digest = [] then img else digest)
      else if nr_Context ref \<noteq> [] then nr_DigestName ref digest else digest)"

definition FeatureImageAllowRules :: string where "FeatureImageAllowRules = ''image-allow-rules''"

definition initialOpts :: "string \<Rightarrow> VerifyOpts" where
  "initialOpts namespace =
     \<lparr>vo_ImageRef = None, vo_SignatureRef = None, vo_Namespace = namespace, vo_AnnotationRules = \<lparr>sa_Match = [], sa_Expressions = []\<rparr>,
      vo_Key = [], vo_SignatureAlgorithm = ''sha256'', vo_NoCache = False\<rparr>"

definition CheckImageAgainstRules :: "(string \<Rightarrow> 'e + regexp) \<Rightarrow> ('e, 's, 'g, 'v) cosignLib \<Rightarrow> 'e + (string, bool) gomap \<Rightarrow> (string \<Rightarrow> 'e + NameRef) \<Rightarrow>
    string \<Rightarrow> string \<Rightarrow> string \<Rightarrow> ImageAllowRuleInstance list \<Rightarrow> 'e check_error option" where
  "CheckImageAgainstRules compile L features parseReference namespace img digest rules =
     (case features of
        Inl e \<Rightarrow> Some (CheckFailed e)
      | Inr features \<Rightarrow>
          if \<not> gm_get_or False features FeatureImageAllowRules then None
          else if rules = [] then Some (ImageNotAllowed img)
          else (case parseReference img of
                  Inl e \<Rightarrow> Some (CheckFailed e)
                | Inr ref \<Rightarrow> iarLoop compile L img ref (checkDigest ref img digest) rules (initialOpts namespace)))"

definition CheckImageAllowed :: "'e + ImageAllowRuleInstance list \<Rightarrow> 'e option \<Rightarrow> 'e option \<Rightarrow>
    (ImageAllowRuleInstance list \<Rightarrow> 'e check_error option) \<Rightarrow> 'e check_error option" where
  "CheckImageAllowed listRules remoteOptions keychain check =
     (case listRules of
        Inl e \<Rightarrow> Some (CheckFailed e)
      | Inr rules \<Rightarrow>
          (case remoteOptions of Some e \<Rightarrow> Some (CheckFailed e)
           | None \<Rightarrow> (case keychain of Some e \<Rightarrow> Some (CheckFailed e) | None \<Rightarrow> check rules)))"

subsection \<open>Simple rules\<close>

datatype scope_error = InvalidScope string | ParseFailed

definition buildImageScope :: "NameRef \<Rightarrow> string \<Rightarrow> string \<Rightarrow> scope_error + string" where
  "buildImageScope img scope tagPattern =
     (if scope = ''registry'' then Inr (rf_RegistryStr img @ ''/**'')
      else if scope = ''repository'' then Inr (rf_RegistryStr img @ ''/'' @ nr_RepositoryStr img @ '':**'')
      else if scope = ''exact'' then
        Inr (if tagPattern \<noteq> [] then rf_TagName img tagPattern else str_trim_suffix (nr_Name img) '':'')
      else if scope = ''all'' then Inr ''**''
      else Inl (InvalidScope scope))"

text \<open>\<open>strings.TrimRight\<close> removes every trailing character of a set.\<close>

definition str_trim_right :: "string \<Rightarrow> string \<Rightarrow> string" where
  "str_trim_right s cutset = rev (dropWhile (\<lambda>c. c \<in> set cutset) (rev s))"

definition GenerateSimpleAllowRule :: "(string \<Rightarrow> 'e + NameRef) \<Rightarrow> string \<Rightarrow> string \<Rightarrow> scope_error + ImageAllowRuleInstance" where
  "GenerateSimpleAllowRule parseReference img scope =
     (case AutoUpgradePattern img of (pattern, isPattern) \<Rightarrow>
       (case parseReference (if isPattern then str_trim_right img ('':'' @ pattern) else img) of
          Inl _ \<Rightarrow> Inl ParseFailed
        | Inr ref \<Rightarrow> bind_err (buildImageScope ref scope pattern) (\<lambda>is. Inr \<lparr>ir_Images = [is], ir_Rules = []\<rparr>)))"
subsection \<open>The references are resolved once\<close>

lemma bind_if_Inr:
  "bind_err (if b then r else Inr x) k = Inr y \<longleftrightarrow> (\<exists>z. (if b then r = Inr z else z = x) \<and> k z = Inr y)"
  by (auto simp: bind_err_Inr)

lemma image_unchanged: "opts\<lparr>vo_ImageRef := ref\<rparr> = opts \<Longrightarrow> ref = vo_ImageRef opts"
  by (metis VerifyOpts.select_convs(1) VerifyOpts.surjective VerifyOpts.update_convs(1))

lemma EnsureReferences_result:
  assumes "EnsureReferences L img opts = Inr o'"
  shows "noIdentifier L (vo_ImageRef o') \<longrightarrow> map_sum id Some (resolveImage L img) = Inr (vo_ImageRef o')"
    and "noIdentifier L (vo_SignatureRef o') \<longrightarrow>
      map_sum id Some (ensureSignatureArtifact L (vo_Namespace o') (the (vo_ImageRef o')) (vo_NoCache o')) = Inr (vo_SignatureRef o')"
  using assms unfolding EnsureReferences_def bind_if_Inr
  by (auto simp: bind_err_Inr dest: image_unchanged split: if_splits)

lemma map_sum_Some: "map_sum id Some r = Inr y \<longleftrightarrow> (\<exists>x. r = Inr x \<and> y = Some x)"
  by (cases r) auto

lemma EnsureReferences_again:
  assumes "EnsureReferences L img opts = Inr o'"
  shows "EnsureReferences L img (o'\<lparr>vo_AnnotationRules := a\<rparr>) = Inr (o'\<lparr>vo_AnnotationRules := a\<rparr>)"
proof -
  have image_: "o'\<lparr>vo_AnnotationRules := a, vo_ImageRef := vo_ImageRef o'\<rparr> = o'\<lparr>vo_AnnotationRules := a\<rparr>"
    and sig_: "o'\<lparr>vo_AnnotationRules := a, vo_SignatureRef := vo_SignatureRef o'\<rparr> = o'\<lparr>vo_AnnotationRules := a\<rparr>"
    by simp_all
  show ?thesis
    using EnsureReferences_result [OF assms] image_ sig_
    by (cases "noIdentifier L (vo_ImageRef o')"; cases "noIdentifier L (vo_SignatureRef o')")
      (auto simp: EnsureReferences_def map_sum_Some)
qed

text \<open>
  The signature rules of an image allow rule, once the references are known to be \<open>o'\<close>: they are checked
  one by one with the annotations of each.
\<close>

definition signaturesHold :: "('e, 's, 'g, 'v) cosignLib \<Rightarrow> VerifyOpts \<Rightarrow> ImageAllowRuleInstance \<Rightarrow> bool" where
  "signaturesHold L o' iar = list_all (\<lambda>rule. signedBy L (o'\<lparr>vo_AnnotationRules := sr_Annotations rule\<rparr>) rule) (ir_Rules iar)"

definition verified :: "('e, 's, 'g, 'v) cosignLib \<Rightarrow> VerifyOpts \<Rightarrow> SignatureRules \<Rightarrow> string \<Rightarrow> bool" where
  "verified L o' rule signer \<longleftrightarrow> VerifySignature L (o'\<lparr>vo_AnnotationRules := sr_Annotations rule, vo_Key := signer\<rparr>) = None"

lemma signaturesHold_iff:
  "signaturesHold L o' iar \<longleftrightarrow>
     (\<forall>rule\<in>set (ir_Rules iar). (\<forall>signer\<in>set (sr_AllOf rule). verified L o' rule signer) \<and>
        (sr_AnyOf rule = [] \<or> (\<exists>signer\<in>set (sr_AnyOf rule). verified L o' rule signer)))"
  unfolding signaturesHold_def signedBy_def verified_def list_all_iff list_ex_iff by blast

definition resolvesTo :: "('e, 's, 'g, 'v) cosignLib \<Rightarrow> string \<Rightarrow> VerifyOpts \<Rightarrow> VerifyOpts \<Rightarrow> bool" where
  "resolvesTo L img o' opts \<longleftrightarrow> (\<exists>a. EnsureReferences L img opts = Inr (o'\<lparr>vo_AnnotationRules := a\<rparr>))"

lemma resolvesTo_self: "EnsureReferences L img opts = Inr o' \<Longrightarrow> resolvesTo L img o' opts"
  unfolding resolvesTo_def by (metis VerifyOpts.surjective VerifyOpts.update_convs(4))

lemma resolvesTo_again: "resolvesTo L img o' opts \<Longrightarrow> resolvesTo L img o' (o'\<lparr>vo_AnnotationRules := a\<rparr>)"
proof -
  assume "resolvesTo L img o' opts"
  then obtain b where "EnsureReferences L img opts = Inr (o'\<lparr>vo_AnnotationRules := b\<rparr>)" by (auto simp: resolvesTo_def)
  from EnsureReferences_again [OF this, of a] show ?thesis by (auto simp: resolvesTo_def)
qed

lemma signatureRules_resolved:
  assumes "resolvesTo L img o' opts"
  shows "\<exists>opts'. signatureRules L img rules opts =
      Inr (list_all (\<lambda>rule. signedBy L (o'\<lparr>vo_AnnotationRules := sr_Annotations rule\<rparr>) rule) rules, opts') \<and> resolvesTo L img o' opts'"
  using assms
proof (induction rules arbitrary: opts)
  case Nil
  then show ?case by simp
next
  case (Cons rule rules)
  then obtain a where "EnsureReferences L img opts = Inr (o'\<lparr>vo_AnnotationRules := a\<rparr>)" by (auto simp: resolvesTo_def)
  then show ?case
    using Cons.IH [OF resolvesTo_again [OF Cons.prems]] resolvesTo_again [OF Cons.prems] by (auto simp: Let_def)
qed

lemma iarLoop_resolved:
  assumes "resolvesTo L img o' opts"
  shows "iarLoop compile L img ref digest rules opts =
    (if \<exists>iar\<in>set rules. imageCovered compile ref digest iar \<and> signaturesHold L o' iar then None else Some (ImageNotAllowed img))"
  using assms
proof (induction rules arbitrary: opts)
  case Nil
  then show ?case by simp
next
  case (Cons iar rules)
  obtain opts' where "signatureRules L img (ir_Rules iar) opts = Inr (signaturesHold L o' iar, opts')" "resolvesTo L img o' opts'"
    using signatureRules_resolved [OF Cons.prems] by (auto simp: signaturesHold_def)
  then show ?case using Cons.IH [of opts] Cons.IH [of opts'] Cons.prems by auto
qed

lemma iarLoop_unresolved:
  assumes "EnsureReferences L img opts = Inl e" "imageCovered compile ref digest iar" "ir_Rules iar \<noteq> []"
  shows "iarLoop compile L img ref digest (iar # iars) opts = Some (ReferenceFailed e)"
  using assms by (cases "ir_Rules iar") auto

subsection \<open>All variations\<close>

lemma digit_bound: "n < b \<Longrightarrow> q < p \<Longrightarrow> n + b * q < b * (p :: nat)"
proof -
  assume "n < b" "q < p"
  then have "b * Suc q \<le> b * p" by (intro mult_le_mono2) simp
  then show ?thesis using \<open>n < b\<close> by simp
qed

lemma variation_choice:
  assumes "\<forall>(k, vs)\<in>set order. c k \<in> set vs"
  shows "\<exists>q < prod_list (map (length \<circ> snd) order). \<forall>j r out. r < j \<longrightarrow>
    variation (r + j * q) j order out = foldl (\<lambda>m (k, _). gm_set m k (c k)) out order"
  using assms
proof (induction order)
  case Nil
  show ?case by (auto intro!: exI [of _ 0])
next
  case (Cons e order)
  obtain k vs where e: "e = (k, vs)" by (cases e)
  then obtain n where n: "n < length vs" "vs ! n = c k" using Cons.prems by (auto simp: in_set_conv_nth)
  obtain q where q: "q < prod_list (map (length \<circ> snd) order)"
    and step: "\<And>j r out. r < j \<Longrightarrow> variation (r + j * q) j order out = foldl (\<lambda>m (k, _). gm_set m k (c k)) out order"
    using Cons.IH Cons.prems by (metis (no_types, lifting) list.set_intros(2))
  have "n + length vs * q < length vs * prod_list (map (length \<circ> snd) order)"
    using n(1) q by (rule digit_bound)
  moreover have "variation (r + j * (n + length vs * q)) j (e # order) out = foldl (\<lambda>m (k, _). gm_set m k (c k)) out (e # order)"
    if r: "r < j" for j r out
  proof -
    have "(r + j * (n + length vs * q)) div j = n + length vs * q" using r by simp
    then have "((r + j * (n + length vs * q)) div j) mod length vs = n" using n(1) by simp
    moreover have "r + j * n < j * length vs" "r + j * (n + length vs * q) = (r + j * n) + (j * length vs) * q"
      using digit_bound [OF r n(1)] by (simp_all add: algebra_simps)
    ultimately show ?thesis using step [of "r + j * n" "j * length vs"] n(2) by (simp add: e add.assoc)
  qed
  ultimately show ?case by (intro exI [of _ "n + length vs * q"]) (simp add: e comp_def)
qed

lemma foldl_choice:
  "gm_get (foldl (\<lambda>m (k, _). gm_set m k (c k)) out order) k' = (if gm_has order k' then Some (c k') else gm_get out k')"
  by (induction order arbitrary: out) (auto simp: gm_has_def go_map)

lemma variationCount_order: "mset order = mset input \<Longrightarrow> variationCount order = variationCount input"
  unfolding variationCount_def by (metis mset_map prod_mset_prod_list)

lemma gm_has_order: "mset order = mset input \<Longrightarrow> gm_has order k = gm_has input k"
  by (metis gm_has_def set_mset_mset)

subsection \<open>Properties\<close>


definition sample_cosign :: "(unit, unit, string, string) cosignLib" where
  "sample_cosign =
     \<lparr>cl_ParseReference = (\<lambda>s. Inr (DigestRef s)), cl_Identifier = (\<lambda>s. s), cl_Digest = (\<lambda>_. Inr ''sha''), cl_SignatureTag = (\<lambda>s. Inr ''sig''),
      cl_SimpleDigest = (\<lambda>_. Inr ''sha''), cl_ParseWeak = (\<lambda>s. Inr s), cl_InternalRepo = (\<lambda>_. Inr ''repo''), cl_Copy = (\<lambda>_ _. None),
      cl_Signatures = (\<lambda>_. Inr ()), cl_Get = (\<lambda>_. Inr [''alice'']), cl_NewHash = (\<lambda>s. Inr s), cl_decodePEM = (\<lambda>s _. Inr s),
      cl_PublicKeyFromKeyRef = (\<lambda>s. Inr s), cl_StaticCopy = (\<lambda>s. Inr s),
      cl_VerifyImageSignature = (\<lambda>s _ key. if key = Some s then Inr True else Inl ()), cl_Payload = (\<lambda>s. Inr s),
      cl_UnmarshalPayload = (\<lambda>_. Inr []), cl_AsSelector = (\<lambda>_. Inr \<lparr>sl_Empty = True, sl_Matches = (\<lambda>_. False)\<rparr>),
      cl_ranges = (\<lambda>m _. m)\<rparr>"

definition sample_name :: NameRef where
  "sample_name = \<lparr>rf_RegistryStr = [], rf_Identifier = [], rf_TagName = (\<lambda>t. ''app:'' @ t), nr_Name = ''app:'', nr_Context = ''app'',
     nr_RepositoryStr = ''app'', nr_DigestName = (\<lambda>d. ''app@'' @ d)\<rparr>"

definition sample_rule :: "string \<Rightarrow> ImageAllowRuleInstance" where
  "sample_rule signer = \<lparr>ir_Images = [''app''], ir_Rules =
     [\<lparr>sr_AnyOf = [''bob'', signer], sr_AllOf = [], sr_Annotations = \<lparr>sa_Match = [], sa_Expressions = []\<rparr>\<rparr>]\<rparr>"

lemma sample_resolved:
  "EnsureReferences sample_cosign ''app'' (initialOpts ''ns'') =
     Inr ((initialOpts ''ns'')\<lparr>vo_ImageRef := Some ''app'', vo_SignatureRef := Some ''repo:sig''\<rparr>)"
  by (simp add: EnsureReferences_def noIdentifier_def initialOpts_def resolveImage_def ensureSignatureArtifact_def sample_cosign_def)


text \<open>if every run over the map visits the entries in the same order, the variations contain every
  choice of one value for each key, so a selector that matches some choice accepts the signatures.
\<close>

theorem generateVariations_complete:
  assumes "mset order = mset input" "\<forall>(k, vs)\<in>set input. c k \<in> set vs"
  shows "\<exists>m\<in>set (generateVariations (\<lambda>_. order) input). \<forall>k. gm_get m k = (if gm_has input k then Some (c k) else None)"
proof -
  have "\<forall>(k, vs)\<in>set order. c k \<in> set vs" using assms by (metis set_mset_mset)
  then obtain q where q: "q < variationCount order"
    and all: "\<forall>j r out. r < j \<longrightarrow> variation (r + j * q) j order out = foldl (\<lambda>m (k, _). gm_set m k (c k)) out order"
    unfolding variationCount_def using variation_choice [of order c] by blast
  have step: "variation q 1 order [] = foldl (\<lambda>m (k, _). gm_set m k (c k)) [] order" using all [rule_format, of 0 1 "[]"] by simp
  have "variation q 1 order [] \<in> set (generateVariations (\<lambda>_. order) input)"
    using q by (auto simp: generateVariations_def variationCount_order [OF assms(1)])
  then show ?thesis
    by (rule bexI [rotated]) (simp add: step [simplified] foldl_choice gm_has_order [OF assms(1)])
qed

theorem generateVariations_complete_witness:
  "\<exists>m\<in>set (generateVariations (\<lambda>_. [(''b'', [''1'', ''2'']), (''a'', [''1'', ''2''])]) [(''a'', [''1'', ''2'']), (''b'', [''1'', ''2''])]).
     \<forall>k. gm_get m k = (if gm_has [(''a'', [''1'', ''2'']), (''b'', [''1'', ''2''])] k then Some (if k = ''a'' then ''1'' else ''2'') else None)"
  by (rule generateVariations_complete) auto

text \<open>Go may visit a map in another order each time: then a choice can be missing.\<close>

lemma generateVariations_orders:
  "\<not> list_ex (\<lambda>m. gm_get m ''a'' = Some ''1'' \<and> gm_get m ''b'' = Some ''2'')
     (generateVariations (\<lambda>i. if i = 2 then [(''b'', [''1'', ''2'']), (''a'', [''1'', ''2''])] else [(''a'', [''1'', ''2'']), (''b'', [''1'', ''2''])])
       [(''a'', [''1'', ''2'']), (''b'', [''1'', ''2''])])"
  by code_simp

text \<open>\<open>GenerateSimpleAllowRule\<close> cuts more than the tag pattern off the image: a rule for \<open>dev:v#\<close> is one for \<open>de\<close>.\<close>

lemma GenerateSimpleAllowRule_trims: "str_trim_right ''dev:v#'' ('':'' @ fst (AutoUpgradePattern ''dev:v#'')) = ''de''"
  by code_simp

text \<open>
  A pattern with a port is matched against the image by the text in front of the first colon only.
\<close>

lemma patternCovers_port:
  "patternCovers compile img digest (''localhost:5000/**'') = matchPattern compile ''localhost'' (nr_Context img)"
proof -
  have "str_trim_space ''localhost:5000/**'' \<noteq> []" by code_simp
  then show ?thesis by (simp add: patternCovers_def IsImagePattern_def str_contains_any_def tagPatternOf_def str_has_prefix_def)
qed

end
