(* ===== verification/ImageRefs.thy ===== *)
theory ImageRefs
  imports ImageAllowRules Labels
begin

text \<open>
  Which image a name stands for: \<open>pkg/tags/tags.go\<close>, the lookup of built images in \<open>pkg/appdefinition/lookup.go\<close> and the
  internal registry of \<open>pkg/imagesystem/registry.go\<close>. The lemmas show where a looked up image comes from and that
  no app can name an image of the internal registry that belongs to another project.
\<close>

subsection \<open>Local images\<close>

definition is_hex :: "char \<Rightarrow> bool" where
  "is_hex c \<longleftrightarrow> c \<in> set ''0123456789abcdef''"

definition SHAPermissivePrefixPattern :: "string \<Rightarrow> bool" where
  "SHAPermissivePrefixPattern s \<longleftrightarrow> 3 \<le> length s \<and> length s \<le> 64 \<and> list_all is_hex s"

definition DigestPattern :: "string \<Rightarrow> bool" where
  "DigestPattern s \<longleftrightarrow> str_has_prefix s ''sha256:'' \<and> length s = 71 \<and> list_all is_hex (drop 7 s)"

definition IsImageDigest :: "string \<Rightarrow> bool" where
  "IsImageDigest s = DigestPattern s"

definition IsLocalReference :: "string \<Rightarrow> bool" where
  "IsLocalReference img \<longleftrightarrow> str_has_prefix img ''sha256:'' \<or> SHAPermissivePrefixPattern img"

text \<open>\<open>parse\<close> is \<open>name.ParseReference\<close> with the default registry given.\<close>

definition HasNoSpecifiedRegistry :: "(string \<Rightarrow> string \<Rightarrow> 'e + NameRef) \<Rightarrow> string \<Rightarrow> bool" where
  "HasNoSpecifiedRegistry parse img =
     (case parse defaultNoReg img of Inl _ \<Rightarrow> True | Inr ref \<Rightarrow> rf_RegistryStr ref = defaultNoReg)"

record LocalImage =
  li_Digest :: string
  li_Tags :: "string list"
  li_Remote :: bool

definition GetTagsMatchingRepository :: "(string \<Rightarrow> string \<Rightarrow> 'e + NameRef) \<Rightarrow> (string \<Rightarrow> 'e + LocalImage list) \<Rightarrow> NameRef \<Rightarrow> string \<Rightarrow>
    string \<Rightarrow> 'e + string list" where
  "GetTagsMatchingRepository parse listImages reference namespace defaultReg =
     bind_err (if namespace = [] then Inr [] else listImages namespace) (\<lambda>images.
       Inr (concat (map (\<lambda>img. if li_Remote img then []
              else concat (map (\<lambda>tag. case parse defaultReg tag of
                       Inl _ \<Rightarrow> []
                     | Inr r \<Rightarrow> if nr_Context r = nr_Context reference then [rf_Identifier r] else []) (li_Tags img))) images)))"

text \<open>
  \<open>ResolveLocal\<close>: the image, whether it is local, or the error of the read; \<open>Inr None\<close> says that there is no such image, and the
  error \<open>NoSuchImage\<close> stands for the not-found error that is handed on.
\<close>

datatype 'e image_error = NoSuchImage string | ImageError 'e

definition str_replace_all_char :: "char \<Rightarrow> char \<Rightarrow> string \<Rightarrow> string" where
  "str_replace_all_char old new s = map (\<lambda>c. if c = old then new else c) s"

definition ResolveLocal :: "(string \<Rightarrow> string \<Rightarrow> 'e + LocalImage option) \<Rightarrow> string \<Rightarrow> string \<Rightarrow> 'e image_error + string \<times> bool" where
  "ResolveLocal getImage namespace img =
     (case getImage namespace (str_replace_all_char (CHR ''/'') (CHR ''+'') img) of
        Inl e \<Rightarrow> Inl (ImageError e)
      | Inr None \<Rightarrow> if IsLocalReference img then Inl (NoSuchImage img) else Inr (img, False)
      | Inr (Some local) \<Rightarrow> Inr (str_trim_prefix (li_Digest local) ''sha256:'', \<not> li_Remote local))"

subsection \<open>Built images\<close>

record ContainerData =
  cd_Image :: string
  cd_Sidecars :: "(string, string) gomap"

text \<open>An \<open>ImageData\<close> holds only the name of the image.\<close>

record ContainerImageBuilderSpec =
  cb_Image :: string
  cb_Build :: "Build option"

record 'f ImageBuilderSpec =
  ib_Image :: string
  ib_ContainerBuild :: "Build option"
  ib_AcornBuild :: "'f AcornBuild option"

record 'f AcornBuilderSpec =
  xb_AutoUpgrade :: bool
  xb_Image :: string
  xb_Build :: "'f AcornBuild option"

text \<open>The image a build of an Acorn gave (\<open>AcornAppImage\<close>) and the sidecars of a container build are not read.\<close>

record 'f BuildRecord =
  br_AcornBuild :: "'f AcornBuilderSpec option"
  br_ContainerBuild :: "ContainerImageBuilderSpec option"
  br_ImageBuild :: "'f ImageBuilderSpec option"
  br_ImageKey :: string

record 'f ImagesData =
  id_Containers :: "(string, ContainerData) gomap"
  id_Jobs :: "(string, ContainerData) gomap"
  id_Images :: "(string, string) gomap"
  id_Acorns :: "(string, string) gomap"
  id_Builds :: "'f BuildRecord list"

definition splitKey :: "string \<Rightarrow> (string \<times> string) option" where
  "splitKey imageKey =
     (case str_split (CHR ''.'') imageKey of
        [containerName, sidecarName] \<Rightarrow> Some (containerName, sidecarName)
      | [_] \<Rightarrow> Some (imageKey, [])
      | _ \<Rightarrow> None)"

definition containerImage :: "ContainerData \<Rightarrow> string \<Rightarrow> string \<times> bool" where
  "containerImage c sidecarName =
     (if sidecarName \<noteq> [] then (case gm_get (cd_Sidecars c) sidecarName of Some s \<Rightarrow> (s, True) | None \<Rightarrow> ([], False))
      else (cd_Image c, True))"

definition findImageInImageData :: "'f ImagesData \<Rightarrow> string \<Rightarrow> string \<times> bool" where
  "findImageInImageData imageData imageKey =
     (case splitKey imageKey of
        None \<Rightarrow> ([], False)
      | Some (containerName, sidecarName) \<Rightarrow>
          (case gm_get (id_Containers imageData) containerName of
             Some c \<Rightarrow> containerImage c sidecarName
           | None \<Rightarrow>
          (case gm_get (id_Images imageData) imageKey of
             Some i \<Rightarrow> (i, True)
           | None \<Rightarrow>
          (case gm_get (id_Jobs imageData) containerName of
             Some j \<Rightarrow> containerImage j sidecarName
           | None \<Rightarrow>
          (case gm_get (id_Acorns imageData) imageKey of
             Some a \<Rightarrow> (a, True)
           | None \<Rightarrow> ([], False))))))"

text \<open>
  \<open>equality.Semantic.DeepEqual\<close> compares two builds; the two instances the code uses are the fields of this record.
\<close>

record 'f semantic_equal =
  eq_Build :: "Build \<Rightarrow> Build \<Rightarrow> bool"
  eq_AcornBuild :: "'f AcornBuild \<Rightarrow> 'f AcornBuild \<Rightarrow> bool"

definition containerTestBuild :: "'f BuildRecord \<Rightarrow> Build option" where
  "containerTestBuild build =
     (case Option.bind (br_ContainerBuild build) cb_Build of
        Some b \<Rightarrow> Some b
      | None \<Rightarrow> Option.bind (br_ImageBuild build) ib_ContainerBuild)"

definition acornTestBuild :: "'f BuildRecord \<Rightarrow> 'f AcornBuild option" where
  "acornTestBuild build =
     (case Option.bind (br_AcornBuild build) xb_Build of
        Some b \<Rightarrow> Some b
      | None \<Rightarrow> Option.bind (br_ImageBuild build) ib_AcornBuild)"

fun containerBuildLoop :: "'f semantic_equal \<Rightarrow> 'f ImagesData \<Rightarrow> Build \<Rightarrow> 'f BuildRecord list \<Rightarrow> string \<times> bool" where
  "containerBuildLoop S imageData containerBuild [] = ([], False)"
| "containerBuildLoop S imageData containerBuild (build # builds) =
     (case containerTestBuild build of
        None \<Rightarrow> containerBuildLoop S imageData containerBuild builds
      | Some testBuild \<Rightarrow>
          if \<not> eq_Build S containerBuild testBuild then containerBuildLoop S imageData containerBuild builds
          else if br_ImageKey build \<noteq> [] then findImageInImageData imageData (br_ImageKey build)
          else ([], False))"

definition findContainerImage :: "'f semantic_equal \<Rightarrow> 'f ImagesData \<Rightarrow> Build option \<Rightarrow> string \<times> bool" where
  "findContainerImage S imageData containerBuild =
     (case containerBuild of
        None \<Rightarrow> ([], False)
      | Some b \<Rightarrow> containerBuildLoop S imageData b (id_Builds imageData))"

fun externalLoop :: "'f ImagesData \<Rightarrow> string \<Rightarrow> 'f BuildRecord list \<Rightarrow> string \<times> bool" where
  "externalLoop imageData img [] = ([], False)"
| "externalLoop imageData img (build # builds) =
     (case br_AcornBuild build of
        None \<Rightarrow> externalLoop imageData img builds
      | Some ab \<Rightarrow>
          if br_ImageKey build = [] \<and> xb_Image ab = img then (img, True)
          else if br_ImageKey build \<noteq> [] \<and> xb_Image ab = img \<and> xb_Build ab = None \<and> \<not> xb_AutoUpgrade ab
            then findImageInImageData imageData (br_ImageKey build)
          else externalLoop imageData img builds)"

fun acornBuildLoop :: "'f semantic_equal \<Rightarrow> 'f ImagesData \<Rightarrow> 'f AcornBuild \<Rightarrow> 'f BuildRecord list \<Rightarrow> string \<times> bool" where
  "acornBuildLoop S imageData acornBuild [] = ([], False)"
| "acornBuildLoop S imageData acornBuild (build # builds) =
     (let img = (case br_AcornBuild build of Some ab \<Rightarrow> xb_Image ab | None \<Rightarrow> [])
      in case acornTestBuild build of
           None \<Rightarrow> acornBuildLoop S imageData acornBuild builds
         | Some testBuild \<Rightarrow>
             if \<not> eq_AcornBuild S acornBuild testBuild then acornBuildLoop S imageData acornBuild builds
             else if br_ImageKey build \<noteq> [] then findImageInImageData imageData (br_ImageKey build)
             else (img, img \<noteq> []))"

definition findAcornImage :: "'f semantic_equal \<Rightarrow> 'f ImagesData \<Rightarrow> string \<Rightarrow> 'f AcornBuild option \<Rightarrow> string \<times> bool" where
  "findAcornImage S imageData img acornBuild =
     (case acornBuild of
        None \<Rightarrow> externalLoop imageData img (id_Builds imageData)
      | Some b \<Rightarrow> acornBuildLoop S imageData b (id_Builds imageData))"

definition upgradedImage :: "bool option \<Rightarrow> string \<Rightarrow> bool" where
  "upgradedImage autoUpgrade img \<longleftrightarrow> autoUpgrade = Some True \<and> img \<noteq> []"

definition builtContainer :: "'f semantic_equal \<Rightarrow> 'f ImagesData \<Rightarrow> Container \<Rightarrow> string \<Rightarrow> string \<times> bool" where
  "builtContainer S imageData container sidecarName =
     (if sidecarName \<noteq> [] then
        (case gm_get (c_Sidecars container) sidecarName of
           None \<Rightarrow> ([], False)
         | Some sidecar \<Rightarrow> findContainerImage S imageData (c_Build (c_fields sidecar)))
      else findContainerImage S imageData (c_Build (c_fields container)))"

definition lookupDefinition :: "'f semantic_equal \<Rightarrow> 'f AppSpec \<Rightarrow> 'f ImagesData \<Rightarrow> string \<Rightarrow> string \<Rightarrow> string \<Rightarrow> string \<times> bool" where
  "lookupDefinition S appSpec imageData svcName containerName sidecarName =
     (case gm_get (as_Services appSpec) svcName of
        Some serviceDef \<Rightarrow> findAcornImage S imageData (sv_Image serviceDef) (sv_Build serviceDef)
      | None \<Rightarrow>
     (case gm_get (as_Acorns appSpec) svcName of
        Some acornDef \<Rightarrow> findAcornImage S imageData (ac_Image acornDef) (ac_Build acornDef)
      | None \<Rightarrow>
     (case gm_get (as_Containers appSpec) containerName of
        Some containerDef \<Rightarrow> builtContainer S imageData containerDef sidecarName
      | None \<Rightarrow>
     (case gm_get (as_Jobs appSpec) containerName of
        Some jobDef \<Rightarrow> builtContainer S imageData jobDef sidecarName
      | None \<Rightarrow> ([], False)))))"

text \<open>For an entry of \<open>images\<close> the code calls \<open>findContainerImage\<close> and drops what it returns.\<close>

definition GetImageReferenceForServiceName :: "'f semantic_equal \<Rightarrow> string \<Rightarrow> 'f AppSpec \<Rightarrow> 'f ImagesData \<Rightarrow> string \<times> bool" where
  "GetImageReferenceForServiceName S svcName appSpec imageData =
     (case splitKey svcName of
        None \<Rightarrow> ([], False)
      | Some (containerName, sidecarName) \<Rightarrow>
          let rest = (case findImageInImageData imageData svcName of
                        (img, True) \<Rightarrow> (img, True)
                      | _ \<Rightarrow> lookupDefinition S appSpec imageData svcName containerName sidecarName);
              acorn = (case gm_get (as_Acorns appSpec) svcName of
                         Some a \<Rightarrow> if upgradedImage (ac_AutoUpgrade a) (ac_Image a) then (ac_Image a, True) else rest
                       | None \<Rightarrow> rest)
          in (case gm_get (as_Services appSpec) svcName of
                Some s \<Rightarrow> if upgradedImage (sv_AutoUpgrade s) (sv_Image s) then (sv_Image s, True) else acorn
              | None \<Rightarrow> acorn))"

subsection \<open>The internal registry\<close>

definition RegistryName :: string where "RegistryName = ''registry''"
definition ImagesNamespace :: string where "ImagesNamespace = ''acorn-image-system''"
definition RegistryPort :: int where "RegistryPort = 5000"

record RegistryServicePort =
  rp_Name :: string
  rp_NodePort :: int

text \<open>
  What the functions read: the configuration, the service of the registry and the record of an image, and the parts of
  \<open>go-containerregistry\<close> for a repository (\<open>'r\<close>) and a reference (\<open>'i\<close>).
\<close>

record ('e, 'r, 'i) registry_reads =
  rr_InternalRegistryPrefix :: "'e + string"
  rr_InternalClusterDomain :: "'e + string"
  rr_getService :: "string \<Rightarrow> string \<Rightarrow> 'e + RegistryServicePort list"
  rr_getImageRepo :: "string \<Rightarrow> string \<Rightarrow> 'e + string option"
  rr_NewRepository :: "string \<Rightarrow> 'e + 'r"
  rr_String :: "'r \<Rightarrow> string"
  rr_Digest :: "'r \<Rightarrow> string \<Rightarrow> 'i"
  rr_ParseReference :: "string \<Rightarrow> 'e + 'i"
  rr_allowLocalhost :: bool

datatype 'e registry_error = RegistryError 'e | NoNodePort | InvalidReference string | InvalidPrefix string

definition NormalizeServerAddress :: "string \<Rightarrow> string" where
  "NormalizeServerAddress address =
     (if address = ''docker.io'' \<or> address = ''registry-1.docker.io'' then ''index.docker.io'' else address)"

definition reading :: "'e + 'a \<Rightarrow> 'e registry_error + 'a" where
  "reading r = map_sum RegistryError id r"

definition getRegistryPort :: "('e, 'r, 'i) registry_reads \<Rightarrow> 'e registry_error + int" where
  "getRegistryPort R =
     bind_err (reading (rr_getService R ImagesNamespace RegistryName)) (\<lambda>ports.
       case find (\<lambda>port. rp_Name port = RegistryName \<and> rp_NodePort port > 0) ports of
         Some port \<Rightarrow> Inr (rp_NodePort port)
       | None \<Rightarrow> Inl NoNodePort)"

definition GetClusterInternalRegistryAddress :: "('e, 'r, 'i) registry_reads \<Rightarrow> 'e registry_error + string" where
  "GetClusterInternalRegistryAddress R = bind_err (getRegistryPort R) (\<lambda>port. Inr (''127.0.0.1:'' @ itoa port))"

definition GetClusterInternalRegistryDNSName :: "('e, 'r, 'i) registry_reads \<Rightarrow> 'e registry_error + string" where
  "GetClusterInternalRegistryDNSName R =
     bind_err (reading (rr_InternalClusterDomain R)) (\<lambda>domain. Inr (RegistryName @ ''.'' @ ImagesNamespace @ ''.'' @ domain))"

definition GetInternalRepoForNamespace :: "('e, 'r, 'i) registry_reads \<Rightarrow> string \<Rightarrow> 'e registry_error + 'r \<times> bool" where
  "GetInternalRepoForNamespace R namespace =
     bind_err (reading (rr_InternalRegistryPrefix R)) (\<lambda>pfx.
       if pfx \<noteq> [] then bind_err (reading (rr_NewRepository R (pfx @ namespace))) (\<lambda>n. Inr (n, True))
       else bind_err (GetClusterInternalRegistryDNSName R) (\<lambda>dns.
         bind_err (reading (rr_NewRepository R (dns @ '':'' @ itoa RegistryPort @ ''/acorn/'' @ namespace))) (\<lambda>n. Inr (n, False))))"

definition GetRuntimePullableInternalRepoForNamespace :: "('e, 'r, 'i) registry_reads \<Rightarrow> string \<Rightarrow> 'e registry_error + 'r" where
  "GetRuntimePullableInternalRepoForNamespace R namespace =
     bind_err (reading (rr_InternalRegistryPrefix R)) (\<lambda>pfx.
       if pfx \<noteq> [] then reading (rr_NewRepository R (pfx @ namespace))
       else bind_err (GetClusterInternalRegistryAddress R) (\<lambda>address.
         reading (rr_NewRepository R (address @ ''/acorn/'' @ namespace))))"

text \<open>The repository of an image: the one that is recorded with it, and otherwise that of the namespace.\<close>

definition repoOfImage :: "('e, 'r, 'i) registry_reads \<Rightarrow> 'e registry_error + 'r \<Rightarrow> string \<Rightarrow> string \<Rightarrow> 'e registry_error + 'i" where
  "repoOfImage R fallback namespace imageID =
     bind_err (case rr_getImageRepo R namespace imageID of
         Inl e \<Rightarrow> Inl (RegistryError e)
       | Inr None \<Rightarrow> fallback
       | Inr (Some repo) \<Rightarrow> if repo \<noteq> [] then reading (rr_NewRepository R repo) else fallback)
       (\<lambda>repo. Inr (rr_Digest R repo (''sha256:'' @ imageID)))"

definition GetRuntimePullableInternalRepoForNamespaceAndID :: "('e, 'r, 'i) registry_reads \<Rightarrow> string \<Rightarrow> string \<Rightarrow> 'e registry_error + 'i" where
  "GetRuntimePullableInternalRepoForNamespaceAndID R namespace imageID =
     repoOfImage R (GetRuntimePullableInternalRepoForNamespace R namespace) namespace imageID"

definition GetInternalRepoForNamespaceAndID :: "('e, 'r, 'i) registry_reads \<Rightarrow> string \<Rightarrow> string \<Rightarrow> 'e registry_error + 'i" where
  "GetInternalRepoForNamespaceAndID R namespace imageID =
     repoOfImage R (map_sum id fst (GetInternalRepoForNamespace R namespace)) namespace imageID"

definition IsClusterInternalRegistryAddressReference :: "string \<Rightarrow> bool" where
  "IsClusterInternalRegistryAddressReference url = str_has_prefix url ''127.''"

text \<open>\<open>strings.Replace(s, old, new, 1)\<close>; an empty \<open>old\<close> is found in front of the text.\<close>

fun str_replace_first :: "string \<Rightarrow> string \<Rightarrow> string \<Rightarrow> string" where
  "str_replace_first [] old new = (if old = [] then new else [])"
| "str_replace_first (c # s) old new =
     (if str_has_prefix (c # s) old then new @ drop (length old) (c # s) else c # str_replace_first s old new)"

definition hostPort :: "string \<Rightarrow> string" where
  "hostPort img = fst (str_cut (CHR ''/'') img)"

definition normalizeHost :: "string \<Rightarrow> string" where
  "normalizeHost img =
     str_replace_first img (hostPort img) (NormalizeServerAddress (fst (str_cut (CHR '':'') (hostPort img))))"

definition isNotInternalRepo :: "bool \<Rightarrow> string \<Rightarrow> string \<Rightarrow> 'e registry_error option" where
  "isNotInternalRepo allowLocalhost prefix0 img =
     (if \<not> allowLocalhost \<and> IsClusterInternalRegistryAddressReference img then Some (InvalidReference img)
      else let pfx = (if prefix0 = [] then RegistryName @ ''.'' @ ImagesNamespace else prefix0)
        in if str_has_prefix img pfx then Some (InvalidPrefix img)
           else if str_has_prefix (normalizeHost img) (normalizeHost pfx) then Some (InvalidPrefix img)
           else None)"

definition IsNotInternalRepo :: "('e, 'r, 'i) registry_reads \<Rightarrow> string \<Rightarrow> string \<Rightarrow> 'e registry_error option" where
  "IsNotInternalRepo R namespace img =
     (if \<not> str_contains img ''/'' then None
      else (case GetRuntimePullableInternalRepoForNamespace R namespace of
              Inl e \<Rightarrow> Some e
            | Inr repo \<Rightarrow>
                if str_has_prefix img (rr_String R repo @ ''@sha256:'') then None
                else (case reading (rr_InternalRegistryPrefix R) of
                        Inl e \<Rightarrow> Some e
                      | Inr pfx \<Rightarrow> isNotInternalRepo (rr_allowLocalhost R) pfx img)))"

definition ParseAndEnsureNotInternalRepo :: "('e, 'r, 'i) registry_reads \<Rightarrow> string \<Rightarrow> string \<Rightarrow> 'e registry_error + 'i" where
  "ParseAndEnsureNotInternalRepo R namespace img =
     (case IsNotInternalRepo R namespace img of Some e \<Rightarrow> Inl e | None \<Rightarrow> reading (rr_ParseReference R img))"

subsection \<open>Where a looked up image comes from\<close>

definition inImageData :: "'f ImagesData \<Rightarrow> string \<Rightarrow> bool" where
  "inImageData d img \<longleftrightarrow>
     (\<exists>k c s. (gm_get (id_Containers d) k = Some c \<or> gm_get (id_Jobs d) k = Some c) \<and> containerImage c s = (img, True)) \<or>
     (\<exists>k. gm_get (id_Images d) k = Some img \<or> gm_get (id_Acorns d) k = Some img)"

lemma findImageInImageData_in:
  assumes "findImageInImageData d k = (img, True)"
  shows "inImageData d img"
  using assms unfolding findImageInImageData_def inImageData_def
  by (simp split: option.splits prod.splits) (blast+)

lemma containerBuildLoop_in:
  "containerBuildLoop S d b builds = (img, True) \<Longrightarrow> inImageData d img"
  by (induction builds) (auto split: option.splits if_splits dest: findImageInImageData_in)

lemma findContainerImage_in: "findContainerImage S d b = (img, True) \<Longrightarrow> inImageData d img"
  by (auto simp: findContainerImage_def split: option.splits dest: containerBuildLoop_in)

lemma externalLoop_in: "externalLoop d img0 builds = (img, True) \<Longrightarrow> img = img0 \<or> inImageData d img"
  by (induction builds) (auto split: option.splits if_splits dest: findImageInImageData_in)

lemma acornBuildLoop_in:
  "acornBuildLoop S d b builds = (img, True) \<Longrightarrow>
   inImageData d img \<or> img \<noteq> [] \<and> (\<exists>r \<in> set builds. \<exists>ab. br_AcornBuild r = Some ab \<and> xb_Image ab = img)"
  by (induction builds) (auto simp: Let_def split: option.splits if_splits dest: findImageInImageData_in)

definition declaredImage :: "'f AppSpec \<Rightarrow> string \<Rightarrow> string \<Rightarrow> bool" where
  "declaredImage spec name img \<longleftrightarrow>
     map_option sv_Image (gm_get (as_Services spec) name) = Some img \<or> map_option ac_Image (gm_get (as_Acorns spec) name) = Some img"

definition recordedImage :: "'f ImagesData \<Rightarrow> string \<Rightarrow> bool" where
  "recordedImage d img \<longleftrightarrow> img \<noteq> [] \<and> (\<exists>r \<in> set (id_Builds d). map_option xb_Image (br_AcornBuild r) = Some img)"

lemma findAcornImage_source:
  "findAcornImage S d img0 b = (img, True) \<Longrightarrow> img = img0 \<or> inImageData d img \<or> recordedImage d img"
  by (auto simp: findAcornImage_def recordedImage_def split: option.splits dest: externalLoop_in acornBuildLoop_in)

lemma builtContainer_in: "builtContainer S d c s = (img, True) \<Longrightarrow> inImageData d img"
  by (auto simp: builtContainer_def split: if_splits option.splits dest: findContainerImage_in)

lemma lookupDefinition_source:
  "lookupDefinition S spec d name c s = (img, True) \<Longrightarrow> declaredImage spec name img \<or> inImageData d img \<or> recordedImage d img"
  by (auto simp: lookupDefinition_def declaredImage_def split: option.splits dest: findAcornImage_source builtContainer_in)

lemma images_not_found:
  assumes "snd (findImageInImageData d name) = False" "gm_get (as_Services spec) name = None" "gm_get (as_Acorns spec) name = None"
    "\<not> str_contains name ''.''" "gm_get (as_Containers spec) name = None" "gm_get (as_Jobs spec) name = None"
  shows "GetImageReferenceForServiceName S name spec d = ([], False)"
proof -
  obtain x where x: "findImageInImageData d name = (x, False)" using assms(1) by (metis prod.collapse)
  show ?thesis
    using assms(2-)
    by (simp add: GetImageReferenceForServiceName_def splitKey_def lookupDefinition_def x go_str)
qed

text \<open>A found image comes from the image itself: it is one of those the image was built with, or the one that the service or
  Acorn of that name declares, or one that a build of an Acorn recorded.\<close>

theorem GetImageReference_source:
  assumes "GetImageReferenceForServiceName S name spec d = (img, True)"
  shows "declaredImage spec name img \<or> inImageData d img \<or> recordedImage d img"
proof -
  have "findImageInImageData d name = (img', True) \<Longrightarrow> inImageData d img'" for img'
    by (rule findImageInImageData_in)
  with assms show ?thesis
    by (auto simp: GetImageReferenceForServiceName_def declaredImage_def Let_def
        split: option.splits prod.splits if_splits bool.splits dest: lookupDefinition_source [unfolded declaredImage_def])
qed

subsection \<open>Images of other projects\<close>

definition repository_laws :: "('e, 'r, 'i) registry_reads \<Rightarrow> bool" where
  "repository_laws R \<longleftrightarrow> (\<forall>s r. rr_NewRepository R s = Inr r \<longrightarrow> rr_String R r = s)"

definition registryAddress :: "('e, 'r, 'i) registry_reads \<Rightarrow> string \<Rightarrow> bool" where
  "registryAddress R base \<longleftrightarrow>
     (\<exists>pfx. rr_InternalRegistryPrefix R = Inr pfx \<and>
        (if pfx = [] then \<exists>a. GetClusterInternalRegistryAddress R = Inr a \<and> base = a @ ''/acorn/'' else base = pfx))"

lemma reading_Inr: "reading r = Inr x \<longleftrightarrow> r = Inr x"
  by (cases r) (simp_all add: reading_def)

lemma pullable_repo_String:
  assumes "repository_laws R" "GetRuntimePullableInternalRepoForNamespace R ns = Inr repo"
  shows "\<exists>base. registryAddress R base \<and> rr_String R repo = base @ ns"
proof -
  from assms(2) obtain pfx where p: "rr_InternalRegistryPrefix R = Inr pfx"
    by (auto simp: GetRuntimePullableInternalRepoForNamespace_def bind_err_Inr reading_Inr)
  show ?thesis
  proof (cases "pfx = []")
    case True
    with assms p show ?thesis
      by (fastforce simp: GetRuntimePullableInternalRepoForNamespace_def registryAddress_def repository_laws_def bind_err_Inr reading_Inr)
  next
    case False
    with assms p show ?thesis
      by (auto simp: GetRuntimePullableInternalRepoForNamespace_def registryAddress_def repository_laws_def bind_err_Inr reading_Inr)
  qed
qed

lemma registryAddress_unique: "registryAddress R b \<Longrightarrow> registryAddress R b' \<Longrightarrow> b = b'"
  by (auto simp: registryAddress_def split: if_splits)

lemma registryAddress_refused:
  assumes "registryAddress R base" "rr_InternalRegistryPrefix R = Inr pfx" "prefix base img"
  shows "isNotInternalRepo False pfx img \<noteq> None"
  using assms
  by (auto simp: registryAddress_def isNotInternalRepo_def IsClusterInternalRegistryAddressReference_def GetClusterInternalRegistryAddress_def
      bind_err_Inr go_str Let_def prefix_def split: if_splits)

lemma prefix_sep: "c \<notin> set a \<Longrightarrow> c \<notin> set b \<Longrightarrow> prefix (a @ c # x) (b @ c # y) \<Longrightarrow> a = b"
proof (induction a arbitrary: b)
  case Nil
  then show ?case by (cases b) auto
next
  case (Cons d a)
  then show ?case by (cases b) auto
qed

lemma registryAddress_slash:
  assumes "registryAddress R base" "rr_InternalRegistryPrefix R = Inr pfx" "pfx = [] \<or> CHR ''/'' \<in> set pfx"
  shows "CHR ''/'' \<in> set base"
  using assms by (auto simp: registryAddress_def split: if_splits)


definition sample_registry :: "(unit, string, string) registry_reads" where
  "sample_registry = \<lparr>rr_InternalRegistryPrefix = Inr [], rr_InternalClusterDomain = Inr ''svc.cluster.local'',
     rr_getService = (\<lambda>_ _. Inr [\<lparr>rp_Name = ''registry'', rp_NodePort = 80\<rparr>]), rr_getImageRepo = (\<lambda>_ _. Inr None),
     rr_NewRepository = Inr, rr_String = id, rr_Digest = (\<lambda>r d. r @ ''@'' @ d), rr_ParseReference = Inr, rr_allowLocalhost = False\<rparr>"

lemma sample_registry_repo:
  "GetRuntimePullableInternalRepoForNamespace sample_registry ns = Inr (''127.0.0.1:80/acorn/'' @ ns)"
proof -
  have "itoa 80 = ''80''" by code_simp
  then show ?thesis
    by (simp add: GetRuntimePullableInternalRepoForNamespace_def sample_registry_def reading_def GetClusterInternalRegistryAddress_def
        getRegistryPort_def RegistryName_def)
qed


definition sample_images :: "unit ImagesData" where
  "sample_images = \<lparr>id_Containers = [(''web'', \<lparr>cd_Image = ''sha256:1'', cd_Sidecars = []\<rparr>)], id_Jobs = [], id_Images = [],
     id_Acorns = [(''db'', ''sha256:2'')], id_Builds = []\<rparr>"

theorem GetImageReference_source_witness:
  "declaredImage (zero_AppSpec :: unit AppSpec) ''db'' ''sha256:2'' \<or> inImageData sample_images ''sha256:2'' \<or> recordedImage sample_images ''sha256:2''"
proof -
  have "GetImageReferenceForServiceName \<lparr>eq_Build = (=), eq_AcornBuild = (=)\<rparr> ''db'' zero_AppSpec sample_images = (''sha256:2'', True)"
    by code_simp
  then show ?thesis by (rule GetImageReference_source)
qed

end
