(* ===== verification/Workloads.thy ===== *)
theory Workloads
  imports Classes BindingSyntax
begin

text \<open>
  What a workload gets: the defaults (\<open>pkg/controller/defaults\<close>) and the scheduling (\<open>pkg/controller/scheduling\<close>) of an app,
  and \<open>CopyVolumeDefaults\<close> of \<open>pkg/volume\<close>. The handlers write to the status of the app as they go: on an
  error the object keeps what was written before, so an operation returns the object and the error. The
  reads from the cluster and \<open>resource.Quantity\<close> are the fields of \<open>cluster\<close>.
\<close>

subsection \<open>Operations that write as they go\<close>

definition and_then :: "'a \<times> 'e option \<Rightarrow> ('a \<Rightarrow> 'a \<times> 'e option) \<Rightarrow> 'a \<times> 'e option" where
  "and_then r k = (case snd r of None \<Rightarrow> k (fst r) | Some _ \<Rightarrow> r)"

fun each :: "('x \<Rightarrow> 'a \<Rightarrow> 'a \<times> 'e option) \<Rightarrow> 'x list \<Rightarrow> 'a \<Rightarrow> 'a \<times> 'e option" where
  "each f [] st = (st, None)"
| "each f (x # xs) st = and_then (f x st) (each f xs)"

lemma and_then_ok: "and_then r k = (y, None) \<longleftrightarrow> snd r = None \<and> k (fst r) = (y, None)"
  by (cases r) (auto simp: and_then_def split: option.splits)

lemma and_then_simps [simp]: "and_then (st, None) k = k st" "and_then (st, Some e) k = (st, Some e)"
  by (simp_all add: and_then_def)

lemma each_induct_ok:
  assumes "each f xs st = (st', None)" "\<And>x st st'. x \<in> set xs \<Longrightarrow> I st \<Longrightarrow> f x st = (st', None) \<Longrightarrow> I st'" "I st"
  shows "I st'"
  using assms by (induction xs arbitrary: st) (auto simp: and_then_ok, metis list.set_intros prod.collapse)

subsection \<open>The cluster\<close>

record ('e, 'fl, 'q) cluster =
  ku_memoryDefault :: "'e + int option"
  ku_memoryMaximum :: "'e + int option"
  ku_projectRegion :: "string \<Rightarrow> 'e + string"
  ku_sort :: "'fl class_sort"
  ku_listProjectCC :: "string \<Rightarrow> 'e + 'fl ProjectComputeClassInstance list"
  ku_listClusterCC :: "'e + 'fl ProjectComputeClassInstance list"
  ku_getProjectCC :: "string \<Rightarrow> string \<Rightarrow> 'e + 'fl ProjectComputeClassInstance option"
  ku_getClusterCC :: "string \<Rightarrow> 'e + 'fl ProjectComputeClassInstance option"
  ku_listProjectVC :: "string \<Rightarrow> 'e + VolumeClass list"
  ku_listClusterVC :: "'e + VolumeClass list"
  ku_getPriorityClass :: "string \<Rightarrow> 'e option"
  ku_ParseQuantity :: "string \<Rightarrow> 'e + 'q"
  ku_NewQuantity :: "int \<Rightarrow> 'q"
  ku_NewMilliQuantity :: "int \<Rightarrow> 'q"
  ku_Value :: "'q \<Rightarrow> int"
  ku_cpuMillis :: "'fl \<Rightarrow> 'q \<Rightarrow> int"

datatype 'e workload_error =
    ReadError 'e
  | ClassError "'e get_error"
  | DefaultClassError "'e default_error"
  | MemoryError memory_error
  | CPUError "'e class_error"
  | TwoVolumeDefaults string string
  | NilVolumeClass

definition classForWorkload :: "('e, 'fl, 'q) cluster \<Rightarrow> ComputeClassMap \<Rightarrow> Container \<Rightarrow> string \<Rightarrow> string \<Rightarrow>
    'e workload_error + 'fl ProjectComputeClassInstance option" where
  "classForWorkload K computeClasses container workload namespace =
     map_sum ClassError id
       (GetClassForWorkload (ku_sort K) (ku_listProjectCC K) (ku_listClusterCC K) (ku_getProjectCC K) (ku_getClusterCC K)
          computeClasses container workload namespace)"

subsection \<open>Defaults\<close>

definition AddDefaultRegion :: "('e, 'fl, 'q) cluster \<Rightarrow> ('f, 'q) AppInstance \<Rightarrow> ('f, 'q) AppInstance \<times> 'e workload_error option" where
  "AddDefaultRegion K app =
     (if GetRegion app = [] then
        (case ku_projectRegion K (om_Namespace (app_Meta app)) of
           Inl e \<Rightarrow> (app, Some (ReadError e))
         | Inr region \<Rightarrow> (SetDefaultRegion app region, None))
      else (app, None))"

definition CopyVolumeDefaults :: "VolumeRequest \<Rightarrow> VolumeBinding \<Rightarrow> VolumeDefault \<Rightarrow> VolumeRequest" where
  "CopyVolumeDefaults volumeRequest volumeBinding volumeDefaults =
     (let bind = vb_Volume volumeBinding \<noteq> [];
          r1 = (if vb_Class volumeBinding \<noteq> [] then volumeRequest\<lparr>vr_Class := vb_Class volumeBinding\<rparr>
                else if \<not> bind \<and> vr_Class volumeRequest = [] then volumeRequest\<lparr>vr_Class := vd_Class volumeDefaults\<rparr>
                else volumeRequest);
          r2 = (if vb_Size volumeBinding \<noteq> [] then r1\<lparr>vr_Size := vb_Size volumeBinding\<rparr>
                else if \<not> bind \<and> vr_Size r1 = [] then r1\<lparr>vr_Size := vd_Size volumeDefaults\<rparr>
                else r1)
      in if vb_AccessModes volumeBinding \<noteq> [] then r2\<lparr>vr_AccessModes := vb_AccessModes volumeBinding\<rparr>
         else if vr_AccessModes r2 = [] then r2\<lparr>vr_AccessModes := vd_AccessModes volumeDefaults\<rparr>
         else r2)"

definition zero_VolumeDefault :: VolumeDefault where
  "zero_VolumeDefault = \<lparr>vd_Class = [], vd_Size = [], vd_AccessModes = []\<rparr>"

text \<open>The default size and access modes of a class; a missing class has none.\<close>

definition classSize :: "(string, VolumeClass) gomap \<Rightarrow> string \<Rightarrow> Quantity" where
  "classSize classes name = (case gm_get classes name of None \<Rightarrow> [] | Some vc \<Rightarrow> vc_SizeDefault vc)"

definition classModes :: "(string, VolumeClass) gomap \<Rightarrow> string \<Rightarrow> AccessMode list" where
  "classModes classes name = (case gm_get classes name of None \<Rightarrow> [] | Some vc \<Rightarrow> vc_AllowedAccessModes vc)"

definition volumeDefault :: "(string, VolumeClass) gomap \<Rightarrow> VolumeClass option \<Rightarrow> VolumeBinding \<Rightarrow> VolumeRequest \<Rightarrow> VolumeDefault" where
  "volumeDefault classes defaultClass binding vol0 =
     (let vol = CopyVolumeDefaults vol0 binding zero_VolumeDefault;
          d1 = (case defaultClass of
                  Some dc \<Rightarrow> if vr_Class vol = [] then zero_VolumeDefault\<lparr>vd_Class := vc_Name dc\<rparr> else zero_VolumeDefault
                | None \<Rightarrow> zero_VolumeDefault);
          class = (if vr_Class vol = [] then vd_Class d1 else vr_Class vol);
          d2 = (if vr_Size vol = [] then d1\<lparr>vd_Size := classSize classes class\<rparr> else d1)
      in if vr_AccessModes vol = [] then d2\<lparr>vd_AccessModes := classModes classes class\<rparr> else d2)"

text \<open>The first class in the order of the names that is another default; a nil default class is a panic.\<close>

definition otherDefault :: "VolumeClass option \<Rightarrow> (string, VolumeClass) gomap \<Rightarrow> 'e workload_error option" where
  "otherDefault defaultClass classes =
     (case find (\<lambda>(_, vc). vc_Default vc \<and> (case defaultClass of None \<Rightarrow> True | Some d \<Rightarrow> vc_Name vc \<noteq> vc_Name d)) (sort_key fst classes) of
        None \<Rightarrow> None
      | Some (_, vc) \<Rightarrow> (case defaultClass of None \<Rightarrow> Some NilVolumeClass | Some d \<Rightarrow> Some (TwoVolumeDefaults (vc_Name d) (vc_Name vc))))"

definition putVolumeDefaults :: "(string, VolumeDefault) gomap \<Rightarrow> ('f, 'q) AppInstance \<Rightarrow> ('f, 'q) AppInstance" where
  "putVolumeDefaults m app = app\<lparr>app_Status := (app_Status app)\<lparr>is_Defaults := (is_Defaults (app_Status app))\<lparr>df_Volumes := m\<rparr>\<rparr>\<rparr>"

definition putMemory :: "MemoryMap \<Rightarrow> ('f, 'q) AppInstance \<Rightarrow> ('f, 'q) AppInstance" where
  "putMemory m app = app\<lparr>app_Status := (app_Status app)\<lparr>is_Defaults := (is_Defaults (app_Status app))\<lparr>df_Memory := m\<rparr>\<rparr>\<rparr>"

definition addVolumeClassDefaults :: "('e, 'fl, 'q) cluster \<Rightarrow> ('f, 'q) AppInstance \<Rightarrow> ('f, 'q) AppInstance \<times> 'e workload_error option" where
  "addVolumeClassDefaults K app =
     (if as_Volumes (is_AppSpec (app_Status app)) = [] then (app, None)
      else (case GetVolumeClassInstances (ku_listProjectVC K) (ku_listClusterVC K) (om_Namespace (app_Meta app)) of
              Inl e \<Rightarrow> (app, Some (ReadError e))
            | Inr (classes, defaultClass) \<Rightarrow>
                (case otherDefault defaultClass classes of
                   Some e \<Rightarrow> (app, Some e)
                 | None \<Rightarrow>
                     let bindings = SliceToMap vb_Target (ai_Volumes (app_Spec app)) in
                     (putVolumeDefaults
                        (foldl (\<lambda>m (name, vol). gm_set m name (volumeDefault classes defaultClass (gm_get_or zero_VolumeBinding bindings name) vol))
                           (df_Volumes (is_Defaults (app_Status app))) (as_Volumes (is_AppSpec (app_Status app)))) app, None))))"

text \<open>The memory of the class of a workload, or else of the configuration, for the workload and its sidecars.\<close>

definition workloadMemory :: "('e, 'fl, 'q) cluster \<Rightarrow> ComputeClassMap \<Rightarrow> string \<Rightarrow> int option \<Rightarrow> string \<Rightarrow> Container \<Rightarrow>
    'e workload_error + int option" where
  "workloadMemory K computeClasses namespace configDefault name container =
     bind_err (classForWorkload K computeClasses container name namespace) (\<lambda>computeClass.
       case computeClass of
         None \<Rightarrow> Inr configDefault
       | Some cc \<Rightarrow> bind_err (map_sum ReadError id (ParseComputeClassMemory (ku_ParseQuantity K) (ku_Value K) (cc_Memory cc)))
           (\<lambda>parsedMemory. Inr (Some (mq_Def parsedMemory))))"

definition addWorkloadMemoryDefault :: "('e, 'fl, 'q) cluster \<Rightarrow> ComputeClassMap \<Rightarrow> string \<Rightarrow> int option \<Rightarrow> (string \<times> Container) list \<Rightarrow>
    MemoryMap \<Rightarrow> MemoryMap \<times> 'e workload_error option" where
  "addWorkloadMemoryDefault K computeClasses namespace configDefault =
     each (\<lambda>(name, container) m.
       case workloadMemory K computeClasses namespace configDefault name container of
         Inl e \<Rightarrow> (m, Some e)
       | Inr memory \<Rightarrow> (foldl (\<lambda>m sidecarName. gm_set m sidecarName memory) (gm_set m name memory) (map fst (c_Sidecars container)), None))"

definition classMemory :: "('e, 'fl, 'q) cluster \<Rightarrow> string \<Rightarrow> string \<Rightarrow> 'e workload_error + int option" where
  "classMemory K namespace defaultCC =
     bind_err (case GetAsProjectComputeClassInstance (ku_getProjectCC K) (ku_getClusterCC K) namespace defaultCC of
                 Inl Classes.NotFound \<Rightarrow> Inr None
               | Inl e \<Rightarrow> Inl (ClassError e)
               | Inr cc \<Rightarrow> Inr cc) (\<lambda>cc.
       case cc of
         None \<Rightarrow> Inr None
       | Some cc \<Rightarrow> bind_err (map_sum ReadError id (ParseComputeClassMemory (ku_ParseQuantity K) (ku_Value K) (cc_Memory cc)))
           (\<lambda>parsedMemory. Inr (Some (mq_Def parsedMemory))))"

text \<open>The class that is the default of the app is looked up in the namespace of its status.\<close>

definition addDefaultMemory :: "('e, 'fl, 'q) cluster \<Rightarrow> int option \<Rightarrow> ('f, 'q) AppInstance \<Rightarrow> ('f, 'q) AppInstance \<times> 'e workload_error option" where
  "addDefaultMemory K configDefault app =
     (let namespace = om_Namespace (app_Meta app); spec = is_AppSpec (app_Status app);
          mem = df_Memory (is_Defaults (app_Status app))
      in case (case gm_get (ai_ComputeClasses (app_Spec app)) [] of
                 Some cc \<Rightarrow> Inr cc
               | None \<Rightarrow> map_sum DefaultClassError id (GetDefaultComputeClass (ku_sort K) (ku_listProjectCC K) (ku_listClusterCC K) namespace)) of
           Inl e \<Rightarrow> (app, Some e)
         | Inr defaultCC \<Rightarrow>
             (case classMemory K (is_Namespace (app_Status app)) defaultCC of
                Inl e \<Rightarrow> (putMemory (gm_set mem [] configDefault) app, Some e)
              | Inr memory \<Rightarrow>
                  (case and_then
                     (addWorkloadMemoryDefault K (ai_ComputeClasses (app_Spec app)) namespace configDefault (as_Containers spec)
                        (gm_set mem [] (case memory of None \<Rightarrow> configDefault | Some m \<Rightarrow> Some m)))
                     (addWorkloadMemoryDefault K (ai_ComputeClasses (app_Spec app)) namespace configDefault (as_Jobs spec)) of
                     (m, err) \<Rightarrow> (putMemory m app, err))))"

definition calculateDefaults :: "('e, 'fl, 'q) cluster \<Rightarrow> ('f, 'q) AppInstance \<Rightarrow> ('f, 'q) AppInstance \<times> 'e workload_error option" where
  "calculateDefaults K app =
     (case ku_memoryDefault K of
        Inl e \<Rightarrow> (app, Some (ReadError e))
      | Inr configDefault \<Rightarrow>
          and_then (and_then (AddDefaultRegion K app) (addVolumeClassDefaults K)) (addDefaultMemory K configDefault))"

definition AppInstanceConditionDefaults :: string where "AppInstanceConditionDefaults = ''defaults''"
definition AppInstanceConditionScheduling :: string where "AppInstanceConditionScheduling = ''scheduling''"

text \<open>The condition that a run ends with; the error is not returned, and pruning is disabled.\<close>

definition report :: "('e workload_error \<Rightarrow> string) \<Rightarrow> Time \<Rightarrow> string \<Rightarrow> ('f, 'q) AppInstance \<times> 'e workload_error option \<Rightarrow>
    panic + ('f, 'q) AppInstance \<times> bool" where
  "report errorText now name r =
     bind_err (Callback_Set AppInstance_Conditions name now (errorCondition (map_option errorText (snd r))) (fst r))
       (\<lambda>(app, _). Inr (app, snd r \<noteq> None))"

definition CalculateDefaults :: "('e, 'fl, 'q) cluster \<Rightarrow> ('e workload_error \<Rightarrow> string) \<Rightarrow> Time \<Rightarrow> ('f, 'q) AppInstance \<Rightarrow>
    panic + ('f, 'q) AppInstance \<times> bool" where
  "CalculateDefaults K errorText now app =
     report errorText now AppInstanceConditionDefaults
       (if om_Generation (app_Meta app) \<noteq> is_ObservedGeneration (app_Status app) then calculateDefaults K app else (app, None))"

subsection \<open>Scheduling\<close>

definition Nodes :: "'fl ProjectComputeClassInstance option \<Rightarrow> Affinity option \<times> Toleration list" where
  "Nodes computeClass = (case computeClass of None \<Rightarrow> (None, []) | Some cc \<Rightarrow> (cc_Affinity cc, cc_Tolerations cc))"

definition PriorityClassName :: "('e, 'fl, 'q) cluster \<Rightarrow> 'fl ProjectComputeClassInstance option \<Rightarrow> 'e workload_error + string" where
  "PriorityClassName K computeClass =
     (case computeClass of
        None \<Rightarrow> Inr []
      | Some cc \<Rightarrow>
          if cc_PriorityClassName cc = [] then Inr []
          else (case ku_getPriorityClass K (cc_PriorityClassName cc) of
                  Some e \<Rightarrow> Inl (ReadError e) | None \<Rightarrow> Inr (cc_PriorityClassName cc)))"

definition memoryDefaultFor :: "MemoryMap \<Rightarrow> string \<Rightarrow> int option" where
  "memoryDefaultFor mem containerName =
     (case gm_get_or None mem containerName of Some v \<Rightarrow> Some v | None \<Rightarrow> gm_get_or None mem [])"

definition memoryMaximumFor :: "('e, 'fl, 'q) cluster \<Rightarrow> int option \<Rightarrow> 'fl ProjectComputeClassInstance option \<Rightarrow> 'e workload_error + int option" where
  "memoryMaximumFor K configMaximum computeClass =
     (case computeClass of
        None \<Rightarrow> Inr configMaximum
      | Some cc \<Rightarrow>
          if cm_Max (cc_Memory cc) \<noteq> [] \<and> cm_Max (cc_Memory cc) \<noteq> ''0''
          then bind_err (map_sum ReadError id (ku_ParseQuantity K (cm_Max (cc_Memory cc)))) (\<lambda>q. Inr (Some (ku_Value K q)))
          else Inr (Some 0))"

text \<open>The requests and the limits of a container.\<close>

definition ResourceRequirements :: "('e, 'fl, 'q) cluster \<Rightarrow> ('f, 'q) AppInstance \<Rightarrow> string \<Rightarrow> Container \<Rightarrow>
    'fl ProjectComputeClassInstance option \<Rightarrow> 'e workload_error + (string, 'q) gomap \<times> (string, 'q) gomap" where
  "ResourceRequirements K app containerName container computeClass =
     bind_err (map_sum ReadError id (ku_memoryMaximum K)) (\<lambda>configMaximum.
     let memDefault = memoryDefaultFor (df_Memory (is_Defaults (app_Status app))) containerName in
     bind_err (memoryMaximumFor K configMaximum computeClass) (\<lambda>memMax.
     case ValidateMemory (ai_Memory (app_Spec app)) containerName container memDefault memMax of
       (_, Some e) \<Rightarrow> Inl (MemoryError e)
     | (memBytes, None) \<Rightarrow>
         let memoryQuantity = ku_NewQuantity K memBytes;
             memory = (if ku_Value K memoryQuantity \<noteq> 0 then [(''memory'', memoryQuantity)] else [])
         in (case computeClass of
               None \<Rightarrow> Inr (memory, memory)
             | Some cc \<Rightarrow>
                 bind_err (map_sum CPUError id (CalculateCPU (ku_ParseQuantity K) (ku_Value K) (ku_cpuMillis K) cc memDefault memoryQuantity)) (\<lambda>millis.
                   let cpuQuantity = ku_NewMilliQuantity K millis
                   in Inr (if ku_Value K cpuQuantity \<noteq> 0 then memory @ [(''cpu'', cpuQuantity)] else memory, memory)))))"

definition workloadToleration :: Toleration where
  "workloadToleration = \<lparr>tn_Key = ''taints.acorn.io/workload'', tn_Operator = ''Exists'', tn_Value = [], tn_Effect = [], tn_Seconds = None\<rparr>"

definition schedulingOf :: "(string, 'q) gomap \<times> (string, 'q) gomap \<Rightarrow> Affinity option \<Rightarrow> Toleration list \<Rightarrow> string \<Rightarrow> 'q Scheduling" where
  "schedulingOf r affinity tolerations priority =
     \<lparr>sg_Requests = fst r, sg_Limits = snd r, sg_Affinity = affinity, sg_Tolerations = tolerations, sg_PriorityClassName = priority\<rparr>"

definition scheduleSidecar :: "('e, 'fl, 'q) cluster \<Rightarrow> ('f, 'q) AppInstance \<Rightarrow> 'fl ProjectComputeClassInstance option \<Rightarrow> string \<times> Container \<Rightarrow>
    (string, 'q Scheduling) gomap \<Rightarrow> (string, 'q Scheduling) gomap \<times> 'e workload_error option" where
  "scheduleSidecar K app computeClass sidecar m =
     (case ResourceRequirements K app (fst sidecar) (snd sidecar) computeClass of
        Inl e \<Rightarrow> (m, Some e)
      | Inr r \<Rightarrow> (gm_set m (fst sidecar) (schedulingOf r None [] []), None))"

definition scheduleWorkload :: "('e, 'fl, 'q) cluster \<Rightarrow> ('f, 'q) AppInstance \<Rightarrow> string \<times> Container \<Rightarrow>
    (string, 'q Scheduling) gomap \<Rightarrow> (string, 'q Scheduling) gomap \<times> 'e workload_error option" where
  "scheduleWorkload K app workload m =
     (case workload of (name, container) \<Rightarrow>
       case classForWorkload K (ai_ComputeClasses (app_Spec app)) container name (om_Namespace (app_Meta app)) of
         Inl e \<Rightarrow> (m, Some e)
       | Inr computeClass \<Rightarrow>
           (case ResourceRequirements K app name container computeClass of
              Inl e \<Rightarrow> (m, Some e)
            | Inr requirements \<Rightarrow>
                and_then (each (scheduleSidecar K app computeClass) (c_Sidecars container) m) (\<lambda>m.
                  case Nodes computeClass of (affinity, tolerations) \<Rightarrow>
                    (case PriorityClassName K computeClass of
                       Inl e \<Rightarrow> (m, Some e)
                     | Inr priority \<Rightarrow>
                         (gm_set m name (schedulingOf requirements affinity
                            (if tolerations = [] then [workloadToleration] else tolerations) priority), None)))))"

definition addScheduling :: "('e, 'fl, 'q) cluster \<Rightarrow> ('f, 'q) AppInstance \<Rightarrow> (string \<times> Container) list \<Rightarrow>
    (string, 'q Scheduling) gomap \<Rightarrow> (string, 'q Scheduling) gomap \<times> 'e workload_error option" where
  "addScheduling K app = each (scheduleWorkload K app)"

definition calculateScheduling :: "('e, 'fl, 'q) cluster \<Rightarrow> ('f, 'q) AppInstance \<Rightarrow> ('f, 'q) AppInstance \<times> 'e workload_error option" where
  "calculateScheduling K app =
     (case and_then (addScheduling K app (as_Containers (is_AppSpec (app_Status app))) (is_Scheduling (app_Status app)))
             (addScheduling K app (as_Jobs (is_AppSpec (app_Status app)))) of
        (m, err) \<Rightarrow> (app\<lparr>app_Status := (app_Status app)\<lparr>is_Scheduling := m\<rparr>\<rparr>, err))"

definition CalculateScheduling :: "('e, 'fl, 'q) cluster \<Rightarrow> ('e workload_error \<Rightarrow> string) \<Rightarrow> Time \<Rightarrow> ('f, 'q) AppInstance \<Rightarrow>
    panic + ('f, 'q) AppInstance \<times> bool" where
  "CalculateScheduling K errorText now app =
     report errorText now AppInstanceConditionScheduling
       (if om_Generation (app_Meta app) \<noteq> is_ObservedGeneration (app_Status app) \<or>
           ig_Digest (is_AppImage (app_Status app)) \<noteq> is_ObservedImageDigest (app_Status app)
        then calculateScheduling K app else (app, None))"

subsection \<open>Volume defaults\<close>

lemma set_SliceToMap: "(k, x) \<in> set (SliceToMap key xs) \<Longrightarrow> x \<in> set xs \<and> k = key x"
proof -
  have "(k, x) \<in> set (fold (\<lambda>obj m. gm_set m (key obj) obj) xs m) \<Longrightarrow> (k, x) \<in> set m \<or> x \<in> set xs \<and> k = key x" for m
    by (induction xs arbitrary: m) (auto dest: set_gm_set)
  from this [of "[]"] show "(k, x) \<in> set (SliceToMap key xs) \<Longrightarrow> x \<in> set xs \<and> k = key x" by (simp add: SliceToMap_def)
qed

lemma no_default_class:
  assumes "GetVolumeClassInstances listProject listCluster namespace = Inr (classes, None)" "(k, vc) \<in> set classes"
  shows "\<not> vc_Default vc"
proof -
  obtain ps cs where eq: "volumeClasses ps cs = (fst (volumeClasses ps cs), None)"
    and classes: "classes = SliceToMap vc_Name (fst (volumeClasses ps cs))"
  proof -
    obtain ps cs where "listProject namespace = Inr ps" "listCluster = Inr cs"
      using assms(1) by (auto simp: GetVolumeClassInstances_def bind_err_Inr)
    then show thesis using assms(1) that [of ps cs]
      by (cases "volumeClasses ps cs") (simp add: GetVolumeClassInstances_def)
  qed
  have "fold betterDefault (filter vc_Default (fst (volumeClasses ps cs))) None = None"
    using volumeClasses_default [of ps cs] eq by (metis snd_conv)
  then have "filter vc_Default (fst (volumeClasses ps cs)) = []"
    using fold_betterDefault [of "filter vc_Default (fst (volumeClasses ps cs))" None] by simp
  then show ?thesis using set_SliceToMap assms(2) classes by (fastforce simp: filter_empty_conv)
qed

lemma otherDefault_no_panic:
  assumes "GetVolumeClassInstances listProject listCluster namespace = Inr (classes, defaultClass)"
  shows "otherDefault defaultClass classes \<noteq> Some NilVolumeClass"
proof (cases defaultClass)
  case None
  then have "find (\<lambda>(_, vc). vc_Default vc) (sort_key fst classes) = None"
    using no_default_class [of listProject listCluster namespace classes] assms by (auto simp: find_None_iff)
  then show ?thesis by (simp add: otherDefault_def None)
qed (auto simp: otherDefault_def split: option.splits)

text \<open>The first of some texts that is not empty.\<close>

definition firstOf :: "'a list list \<Rightarrow> 'a list" where
  "firstOf xs = (case find (\<lambda>x. x \<noteq> []) xs of None \<Rightarrow> [] | Some x \<Rightarrow> x)"

lemma firstOf_simps [simp]: "firstOf [] = []" "firstOf (x # xs) = (if x \<noteq> [] then x else firstOf xs)"
  by (simp_all add: firstOf_def)

lemma CopyVolumeDefaults_firstOf:
  assumes "vb_Volume b = []"
  shows "vr_Class (CopyVolumeDefaults v b d) = firstOf [vb_Class b, vr_Class v, vd_Class d]"
    "vr_Size (CopyVolumeDefaults v b d) = firstOf [vb_Size b, vr_Size v, vd_Size d]"
    "vr_AccessModes (CopyVolumeDefaults v b d) = firstOf [vb_AccessModes b, vr_AccessModes v, vd_AccessModes d]"
  using assms by (simp_all add: CopyVolumeDefaults_def Let_def)

lemma volumeDefault_simps:
  assumes "vb_Volume b = []"
  shows "vd_Class (volumeDefault classes defaultClass b v) =
      (if firstOf [vb_Class b, vr_Class v] = [] then case defaultClass of None \<Rightarrow> [] | Some d \<Rightarrow> vc_Name d else [])"
    "vd_Size (volumeDefault classes defaultClass b v) =
      (if firstOf [vb_Size b, vr_Size v] = []
       then classSize classes (firstOf [vb_Class b, vr_Class v, case defaultClass of None \<Rightarrow> [] | Some d \<Rightarrow> vc_Name d]) else [])"
    "vd_AccessModes (volumeDefault classes defaultClass b v) =
      (if firstOf [vb_AccessModes b, vr_AccessModes v] = []
       then classModes classes (firstOf [vb_Class b, vr_Class v, case defaultClass of None \<Rightarrow> [] | Some d \<Rightarrow> vc_Name d]) else [])"
  unfolding volumeDefault_def Let_def CopyVolumeDefaults_firstOf [OF assms]
  by (cases defaultClass; simp add: zero_VolumeDefault_def)+

lemma CopyVolumeDefaults_volumeDefault:
  assumes "vb_Volume b = []" and v'_def: "v' = CopyVolumeDefaults v b (volumeDefault classes defaultClass b v)"
  shows "vr_Class v' = firstOf [vb_Class b, vr_Class v, case defaultClass of None \<Rightarrow> [] | Some d \<Rightarrow> vc_Name d]"
    "vr_Size v' = firstOf [vb_Size b, vr_Size v, classSize classes (vr_Class v')]"
    "vr_AccessModes v' = firstOf [vb_AccessModes b, vr_AccessModes v, classModes classes (vr_Class v')]"
proof -
  show c: "vr_Class v' = firstOf [vb_Class b, vr_Class v, case defaultClass of None \<Rightarrow> [] | Some d \<Rightarrow> vc_Name d]"
    by (simp add: v'_def CopyVolumeDefaults_firstOf assms(1) volumeDefault_simps)
  show "vr_Size v' = firstOf [vb_Size b, vr_Size v, classSize classes (vr_Class v')]"
    unfolding c by (simp add: v'_def CopyVolumeDefaults_firstOf assms(1) volumeDefault_simps)
  show "vr_AccessModes v' = firstOf [vb_AccessModes b, vr_AccessModes v, classModes classes (vr_Class v')]"
    unfolding c by (simp add: v'_def CopyVolumeDefaults_firstOf assms(1) volumeDefault_simps)
qed

subsection \<open>Requirements and scheduling\<close>

lemma each_establish:
  assumes "each f xs st = (st', None)"
    "\<And>x st st'. x \<in> set xs \<Longrightarrow> f x st = (st', None) \<Longrightarrow> Q x st'"
    "\<And>x y st st'. y \<in> set xs \<Longrightarrow> f y st = (st', None) \<Longrightarrow> Q x st \<Longrightarrow> Q x st'"
  shows "\<forall>x\<in>set xs. Q x st'"
  using assms
proof (induction xs arbitrary: st)
  case Nil
  then show ?case by simp
next
  case (Cons a xs)
  obtain st1 where step: "f a st = (st1, None)" "each f xs st1 = (st', None)"
    using Cons.prems(1) by (cases "f a st") (auto simp: and_then_ok)
  have "Q a st1" by (rule Cons.prems(2) [OF list.set_intros(1) step(1)])
  then have "Q a st'" using each_induct_ok [OF step(2), of "Q a"] Cons.prems(3) [OF list.set_intros(2)] by blast
  moreover have "\<forall>x\<in>set xs. Q x st'"
  proof (rule Cons.IH [OF step(2)])
    show "Q x s'" if "x \<in> set xs" "f x s = (s', None)" for x s s' using Cons.prems(2) [of x s s'] that by simp
    show "Q x s'" if "y \<in> set xs" "f y s = (s', None)" "Q x s" for x y s s' using Cons.prems(3) [of y s s' x] that by simp
  qed
  ultimately show ?case by simp
qed

definition memory_fixed :: "'q Scheduling \<Rightarrow> bool" where
  "memory_fixed s \<longleftrightarrow> gm_get (sg_Requests s) ''memory'' = gm_get (sg_Limits s) ''memory'' \<and> gm_get (sg_Limits s) ''cpu'' = None"

definition scheduled :: "(string, 'q Scheduling) gomap \<Rightarrow> string \<Rightarrow> bool" where
  "scheduled m k \<longleftrightarrow> (\<exists>s. gm_get m k = Some s \<and> memory_fixed s)"

lemma scheduled_set: "memory_fixed s \<Longrightarrow> scheduled (gm_set m k s) k' \<longleftrightarrow> k' = k \<or> scheduled m k'"
  by (auto simp: scheduled_def go_map)

text \<open>What a successful computation of the requirements went through.\<close>

lemma ResourceRequirements_run:
  assumes "ResourceRequirements K app name c cc = Inr (reqs, lims)"
  obtains configMaximum memMax memBytes where
    "ku_memoryMaximum K = Inr configMaximum" "memoryMaximumFor K configMaximum cc = Inr memMax"
    "ValidateMemory (ai_Memory (app_Spec app)) name c (memoryDefaultFor (df_Memory (is_Defaults (app_Status app))) name) memMax = (memBytes, None)"
    "lims = (if ku_Value K (ku_NewQuantity K memBytes) \<noteq> 0 then [(''memory'', ku_NewQuantity K memBytes)] else [])"
    "reqs = lims \<or> (\<exists>q. reqs = lims @ [(''cpu'', q)])"
    "\<And>class. cc = Some class \<Longrightarrow> ValidateProjectComputeClass (ku_ParseQuantity K) (ku_Value K) class (ku_NewQuantity K memBytes)
       (memoryDefaultFor (df_Memory (is_Defaults (app_Status app))) name) = Inr ()"
proof -
  obtain configMaximum memMax where max_: "ku_memoryMaximum K = Inr configMaximum" "memoryMaximumFor K configMaximum cc = Inr memMax"
    using assms by (auto simp: ResourceRequirements_def bind_err_Inr map_sum_Inr Let_def)
  let ?v = "ValidateMemory (ai_Memory (app_Spec app)) name c (memoryDefaultFor (df_Memory (is_Defaults (app_Status app))) name) memMax"
  obtain memBytes where v: "?v = (memBytes, None)"
    using assms max_ by (cases ?v) (auto simp: ResourceRequirements_def Let_def split: option.splits)
  show thesis
    by (rule that [OF max_ v])
      (use assms max_ v in \<open>auto simp: ResourceRequirements_def CalculateCPU_def bind_err_Inr map_sum_Inr Let_def split: option.splits if_splits\<close>)
qed

lemma ResourceRequirements_fixed:
  assumes "ResourceRequirements K app name c cc = Inr r"
  shows "memory_fixed (schedulingOf r a t p)"
proof -
  obtain reqs lims where r: "r = (reqs, lims)" by (cases r)
  from assms [unfolded r] show ?thesis
    by (elim ResourceRequirements_run) (auto simp: r memory_fixed_def schedulingOf_def gm_get_def)
qed

lemma scheduleSidecar_ok:
  "scheduleSidecar K app cc w m = (m', None) \<Longrightarrow> scheduled m' k \<longleftrightarrow> k = fst w \<or> scheduled m k"
  by (auto simp: scheduleSidecar_def scheduled_set ResourceRequirements_fixed split: sum.splits)

lemma sidecars_scheduled:
  assumes "each (scheduleSidecar K app cc) ws m = (m', None)"
  shows "scheduled m k \<or> k \<in> fst ` set ws \<Longrightarrow> scheduled m' k"
  using each_establish [OF assms, of "\<lambda>w m. scheduled m (fst w)"] each_induct_ok [OF assms, of "\<lambda>m. scheduled m k"]
    scheduleSidecar_ok by blast

lemma scheduleWorkload_ok:
  assumes "scheduleWorkload K app (name, c) m = (m', None)" "k = name \<or> k \<in> fst ` set (c_Sidecars c) \<or> scheduled m k"
  shows "scheduled m' k"
proof -
  obtain computeClass requirements m1 affinity tolerations priority where
    sidecars: "each (scheduleSidecar K app computeClass) (c_Sidecars c) m = (m1, None)"
    and r: "ResourceRequirements K app name c computeClass = Inr requirements"
    and m': "m' = gm_set m1 name (schedulingOf requirements affinity tolerations priority)"
  proof -
    obtain cc requirements where *: "classForWorkload K (ai_ComputeClasses (app_Spec app)) c name (om_Namespace (app_Meta app)) = Inr cc"
      "ResourceRequirements K app name c cc = Inr requirements"
      using assms(1) by (auto simp: scheduleWorkload_def split: sum.splits)
    obtain m1 e1 where **: "each (scheduleSidecar K app cc) (c_Sidecars c) m = (m1, e1)" by (cases "each (scheduleSidecar K app cc) (c_Sidecars c) m")
    show thesis using assms(1) that [of cc m1 requirements] * **
      by (cases e1; cases "PriorityClassName K cc"; cases "Nodes cc") (auto simp: scheduleWorkload_def)
  qed
  have "scheduled m1 k \<or> k = name" using sidecars_scheduled [OF sidecars, of k] assms(2) by blast
  then show ?thesis by (auto simp: m' scheduled_set ResourceRequirements_fixed [OF r])
qed

lemma workloads_scheduled:
  assumes "each (scheduleWorkload K app) ws m = (m', None)"
  shows "scheduled m k \<Longrightarrow> scheduled m' k"
    and "(name, c) \<in> set ws \<Longrightarrow> k = name \<or> k \<in> fst ` set (c_Sidecars c) \<Longrightarrow> scheduled m' k"
proof -
  have keep: "scheduled m1 k \<Longrightarrow> scheduleWorkload K app w m1 = (m2, None) \<Longrightarrow> scheduled m2 k" for w m1 m2 k
    using scheduleWorkload_ok [of K app "fst w" "snd w" m1 m2 k] by simp
  show "scheduled m k \<Longrightarrow> scheduled m' k" by (rule each_induct_ok [OF assms, of "\<lambda>m. scheduled m k"]) (auto intro: keep)
  have "\<forall>w\<in>set ws. \<forall>k. k = fst w \<or> k \<in> fst ` set (c_Sidecars (snd w)) \<longrightarrow> scheduled m' k"
  proof (rule each_establish [OF assms])
    show "\<forall>k. k = fst w \<or> k \<in> fst ` set (c_Sidecars (snd w)) \<longrightarrow> scheduled m2 k"
      if "scheduleWorkload K app w m1 = (m2, None)" for w m1 m2
    proof (intro allI impI)
      fix k
      assume "k = fst w \<or> k \<in> fst ` set (c_Sidecars (snd w))"
      then show "scheduled m2 k" using scheduleWorkload_ok [of K app "fst w" "snd w" m1 m2 k] that unfolding prod.collapse by blast
    qed
  next
    show "\<forall>k. k = fst w \<or> k \<in> fst ` set (c_Sidecars (snd w)) \<longrightarrow> scheduled m2 k"
      if "scheduleWorkload K app y m1 = (m2, None)" "\<forall>k. k = fst w \<or> k \<in> fst ` set (c_Sidecars (snd w)) \<longrightarrow> scheduled m1 k" for w y m1 m2
      using that keep by blast
  qed
  from bspec [OF this, of "(name, c)"]
  show "(name, c) \<in> set ws \<Longrightarrow> k = name \<or> k \<in> fst ` set (c_Sidecars c) \<Longrightarrow> scheduled m' k" unfolding fst_conv snd_conv by blast
qed

subsection \<open>A sample cluster\<close>

text \<open>A cluster with one default volume class and no compute classes, and an app with one container and one volume.\<close>

definition sample_vc :: VolumeClass where
  "sample_vc = \<lparr>vc_Name = ''fast'', vc_StorageClassName = ''ssd'', vc_Description = [], vc_Default = True, vc_AllowedAccessModes = [],
     vc_SizeDefault = ''5Gi'', vc_SizeMin = [], vc_SizeMax = [], vc_Inactive = False, vc_SupportedRegions = []\<rparr>"

definition sample_cluster :: "(unit, unit, int) cluster" where
  "sample_cluster =
     \<lparr>ku_memoryDefault = Inr (Some 64), ku_memoryMaximum = Inr (Some 128), ku_projectRegion = (\<lambda>_. Inr ''local''), ku_sort = (\<lambda>_ xs. xs),
      ku_listProjectCC = (\<lambda>_. Inr []), ku_listClusterCC = Inr [], ku_getProjectCC = (\<lambda>_ _. Inr None), ku_getClusterCC = (\<lambda>_. Inr None),
      ku_listProjectVC = (\<lambda>_. Inr []), ku_listClusterVC = Inr [sample_vc], ku_getPriorityClass = (\<lambda>_. None),
      ku_ParseQuantity = (\<lambda>_. Inl ()), ku_NewQuantity = (\<lambda>n. n), ku_NewMilliQuantity = (\<lambda>n. n), ku_Value = (\<lambda>n. n), ku_cpuMillis = (\<lambda>_ _. 0)\<rparr>"

definition sample_workload :: "(unit, int) AppInstance" where
  "sample_workload = zero_AppInstance\<lparr>app_Status := zero_AppInstanceStatus\<lparr>is_AppSpec := zero_AppSpec\<lparr>
     as_Containers := [(''web'', Container zero_container_fields [])], as_Volumes := [(''data'', zero_VolumeRequest)]\<rparr>,
     is_Defaults := \<lparr>df_Volumes = [], df_Memory = [(''web'', Some 64)], df_Region = []\<rparr>\<rparr>\<rparr>"

lemma sample_app_simps:
  "as_Volumes (is_AppSpec (app_Status sample_workload)) = [(''data'', zero_VolumeRequest)]"
  "df_Volumes (is_Defaults (app_Status sample_workload)) = []"
  "ai_Volumes (app_Spec sample_workload) = []" "om_Namespace (app_Meta sample_workload) = []"
  by (simp_all add: sample_workload_def zero_AppInstance_def zero_ObjectMeta_def zero_AppInstanceSpec_def)

lemma sample_requirements:
  "ResourceRequirements sample_cluster sample_workload ''web'' (Container zero_container_fields []) None =
     Inr ([(''memory'', 64)], [(''memory'', 64)])"
  by (simp add: ResourceRequirements_def sample_cluster_def sample_workload_def memoryDefaultFor_def memoryMaximumFor_def ValidateMemory_def
      gm_get_or_def gm_get_def zero_AppInstance_def zero_AppInstanceSpec_def zero_container_fields_def Let_def)

lemma sample_classForWorkload:
  "classForWorkload sample_cluster [] (Container zero_container_fields []) n ns = Inr None"
  by (simp add: classForWorkload_def GetClassForWorkload_def GetComputeClassNameForWorkload_def GetDefaultComputeClass_def
      getCurrentComputeClassDefault_def sample_cluster_def gm_get_def zero_container_fields_def Let_def)

subsection \<open>Properties\<close>

text \<open>The defaults of the volumes are complete: computing them never dereferences a nil default class, and when
  it succeeds every volume that is not bound to an existing one ends up with the class of its binding,
  else of the Acornfile, else the default class, and with the size and access modes of its binding, else of the
  Acornfile, else of that class.\<close>

theorem addVolumeClassDefaults_complete:
  assumes "addVolumeClassDefaults K app = (app', err)"
  shows "err \<noteq> Some NilVolumeClass \<and>
    (\<forall>classes defaultClass name vol b v.
       err = None \<and> GetVolumeClassInstances (ku_listProjectVC K) (ku_listClusterVC K) (om_Namespace (app_Meta app)) = Inr (classes, defaultClass) \<and>
       gm_ok (as_Volumes (is_AppSpec (app_Status app))) \<and> gm_get (as_Volumes (is_AppSpec (app_Status app))) name = Some vol \<and>
       b = gm_get_or zero_VolumeBinding (SliceToMap vb_Target (ai_Volumes (app_Spec app))) name \<and> vb_Volume b = [] \<and>
       v = CopyVolumeDefaults vol b (gm_get_or zero_VolumeDefault (df_Volumes (is_Defaults (app_Status app'))) name) \<longrightarrow>
       vr_Class v = firstOf [vb_Class b, vr_Class vol, case defaultClass of None \<Rightarrow> [] | Some d \<Rightarrow> vc_Name d] \<and>
       vr_Size v = firstOf [vb_Size b, vr_Size vol, classSize classes (vr_Class v)] \<and>
       vr_AccessModes v = firstOf [vb_AccessModes b, vr_AccessModes vol, classModes classes (vr_Class v)])"
proof (intro conjI allI impI)
  show "err \<noteq> Some NilVolumeClass"
    using assms otherDefault_no_panic [of "ku_listProjectVC K" "ku_listClusterVC K" "om_Namespace (app_Meta app)"]
    by (auto simp: addVolumeClassDefaults_def Let_def split: if_splits sum.splits option.splits)
next
  fix classes defaultClass name vol b v
  let ?vols = "as_Volumes (is_AppSpec (app_Status app))"
  assume *: "err = None \<and> GetVolumeClassInstances (ku_listProjectVC K) (ku_listClusterVC K) (om_Namespace (app_Meta app)) = Inr (classes, defaultClass) \<and>
       gm_ok ?vols \<and> gm_get ?vols name = Some vol \<and>
       b = gm_get_or zero_VolumeBinding (SliceToMap vb_Target (ai_Volumes (app_Spec app))) name \<and> vb_Volume b = [] \<and>
       v = CopyVolumeDefaults vol b (gm_get_or zero_VolumeDefault (df_Volumes (is_Defaults (app_Status app'))) name)"
  then have "gm_get (df_Volumes (is_Defaults (app_Status app'))) name = Some (volumeDefault classes defaultClass b vol)"
    using assms
    by (auto simp: addVolumeClassDefaults_def Let_def putVolumeDefaults_def foldl_gm_set gm_ok_def gm_get_def [of ?vols] split: if_splits option.splits)
  then have "v = CopyVolumeDefaults vol b (volumeDefault classes defaultClass b vol)" using * by (simp add: gm_get_or_def)
  then show "vr_Class v = firstOf [vb_Class b, vr_Class vol, case defaultClass of None \<Rightarrow> [] | Some d \<Rightarrow> vc_Name d]"
    "vr_Size v = firstOf [vb_Size b, vr_Size vol, classSize classes (vr_Class v)]"
    "vr_AccessModes v = firstOf [vb_AccessModes b, vr_AccessModes vol, classModes classes (vr_Class v)]"
    using * CopyVolumeDefaults_volumeDefault [of b v] by blast+
qed

theorem addVolumeClassDefaults_complete_witness:
  "let b = zero_VolumeBinding; v = CopyVolumeDefaults zero_VolumeRequest b \<lparr>vd_Class = ''fast'', vd_Size = ''5Gi'', vd_AccessModes = []\<rparr>
   in vr_Class v = firstOf [vb_Class b, vr_Class zero_VolumeRequest, ''fast''] \<and>
      vr_Size v = firstOf [vb_Size b, vr_Size zero_VolumeRequest, classSize [(''fast'', sample_vc)] (vr_Class v)]"
proof -
  let ?d = "\<lparr>vd_Class = ''fast'', vd_Size = ''5Gi'', vd_AccessModes = []\<rparr>"
  have classes: "GetVolumeClassInstances (ku_listProjectVC sample_cluster) (ku_listClusterVC sample_cluster) [] =
      (Inr ([(''fast'', sample_vc)], Some sample_vc) :: unit + _)"
    by code_simp
  have "volumeDefault [(''fast'', sample_vc)] (Some sample_vc) zero_VolumeBinding zero_VolumeRequest = ?d" by code_simp
  moreover have "otherDefault (Some sample_vc) [(''fast'', sample_vc)] = (None :: unit workload_error option)"
    by (simp add: otherDefault_def)
  ultimately have run: "addVolumeClassDefaults sample_cluster sample_workload = (putVolumeDefaults [(''data'', ?d)] sample_workload, None)"
    using classes by (simp add: addVolumeClassDefaults_def sample_app_simps gm_get_or_def gm_get_def gm_set_def SliceToMap_def)
  from addVolumeClassDefaults_complete [OF run, THEN conjunct2, THEN spec, of "[(''fast'', sample_vc)]", THEN spec, of "Some sample_vc",
      THEN spec, of "''data''", THEN spec, of zero_VolumeRequest, THEN spec, of zero_VolumeBinding, THEN spec,
      of "CopyVolumeDefaults zero_VolumeRequest zero_VolumeBinding ?d"] classes
  show ?thesis
    by (simp add: sample_app_simps putVolumeDefaults_def gm_ok_def gm_get_def gm_get_or_def SliceToMap_def
        zero_VolumeBinding_def [THEN arg_cong, of vb_Volume] sample_vc_def [THEN arg_cong, of vc_Name] Let_def del: firstOf_simps)
qed



text \<open>When the scheduling of an app succeeds, every container, job and sidecar of the app has its scheduling, with
  the requested memory as the limit.\<close>

theorem calculateScheduling_complete:
  assumes "calculateScheduling K app = (app', None)"
    "(name, c) \<in> set (as_Containers (is_AppSpec (app_Status app)) @ as_Jobs (is_AppSpec (app_Status app)))"
    "k = name \<or> k \<in> fst ` set (c_Sidecars c)"
  shows "\<exists>s. gm_get (is_Scheduling (app_Status app')) k = Some s \<and>
    gm_get (sg_Requests s) ''memory'' = gm_get (sg_Limits s) ''memory''"
proof -
  let ?containers = "as_Containers (is_AppSpec (app_Status app))" and ?jobs = "as_Jobs (is_AppSpec (app_Status app))"
  obtain m1 m2 where run: "each (scheduleWorkload K app) ?containers (is_Scheduling (app_Status app)) = (m1, None)"
    "each (scheduleWorkload K app) ?jobs m1 = (m2, None)" and m2: "is_Scheduling (app_Status app') = m2"
    using assms(1) by (cases "each (scheduleWorkload K app) ?containers (is_Scheduling (app_Status app))")
      (auto simp: calculateScheduling_def addScheduling_def and_then_ok split: prod.splits)
  have "scheduled m2 k"
    using workloads_scheduled [OF run(1)] workloads_scheduled [OF run(2)] assms(2,3) unfolding set_append Un_iff by blast
  then show ?thesis by (auto simp: m2 scheduled_def memory_fixed_def)
qed

theorem calculateScheduling_complete_witness:
  "\<exists>s. gm_get [(''web'', schedulingOf ([(''memory'', 64 :: int)], [(''memory'', 64)]) None [workloadToleration] [])] ''web'' = Some s \<and>
    gm_get (sg_Requests s) ''memory'' = gm_get (sg_Limits s) ''memory''"
proof -
  let ?m = "[(''web'', schedulingOf ([(''memory'', 64 :: int)], [(''memory'', 64)]) None [workloadToleration] [])]"
  have "scheduleWorkload sample_cluster sample_workload (''web'', Container zero_container_fields []) [] = (?m, None)"
    using sample_requirements sample_classForWorkload
    by (simp add: scheduleWorkload_def Nodes_def PriorityClassName_def gm_set_def sample_workload_def zero_AppInstance_def zero_AppInstanceSpec_def)
  then have run: "calculateScheduling sample_cluster sample_workload =
      (sample_workload\<lparr>app_Status := (app_Status sample_workload)\<lparr>is_Scheduling := ?m\<rparr>\<rparr>, None)"
    by (simp add: calculateScheduling_def addScheduling_def) (simp add: sample_workload_def zero_AppInstanceStatus_def zero_AppSpec_def)
  have "(''web'', Container zero_container_fields []) \<in>
      set (as_Containers (is_AppSpec (app_Status sample_workload)) @ as_Jobs (is_AppSpec (app_Status sample_workload)))"
    by (simp add: sample_workload_def)
  from calculateScheduling_complete [OF run this] show ?thesis by simp
qed

end
