(* ===== verification/AppValidation.thy ===== *)
theory AppValidation
  imports ImageRefs Workloads AutoUpgrade
begin

text \<open>
  The validation of an app when it is created or updated, \<open>pkg/server/registry/apigroups/acorn/apps/validator.go\<close>: the name and
  the region, the image and whether it may run, memory and classes of the workloads, classes of the volumes, and the
  permissions, which must cover what the image asks for and must not exceed those of the user. What the validator reads is
  a record of functions; the error of a check is a path into the app and a cause, without the text of the message.
\<close>

subsection \<open>Errors and panics\<close>

datatype validator_panic = NilQuantity | QuantityPanic string

datatype sar_error = EmptyVerbs | EmptyAPIGroups | URLsAndAPIGroups

datatype 'e cause =
    NameRequired
  | NoDefaultRegion
  | RegionNotSupported string
  | ReadFailed 'e
  | InternalImage "'e registry_error"
  | LatestTagFailed "'e latest_error"
  | ImageLookup "'e image_error"
  | NoRegistry
  | PullFailed 'e
  | ParseFailure string
  | NotAllowedToRun "'e check_error"
  | NotAllowedLookup "'e image_error"
  | UnknownWorkload string
  | ComputeClassNotFound string
  | ComputeClassRegion string
  | MemoryInvalid memory_error
  | ComputeClassRefuses "'e class_error"
  | VolumeClassInvalid string
  | VolumeClassMissing string
  | SizeBelowMinimum string
  | SizeAboveMaximum string
  | AccessModeNotAllowed string
  | NestedImageMissing string
  | RulesNeeded "Permissions list"
  | NotAuthorized PolicyRule
  | RuleErrors "sar_error list"
  | NoActiveUser
  | NestedUpdate
  | DevSessionLock
  | RegionFixed

datatype 'e field_error =
    Invalid "string list" "'e cause"
  | Forbidden "string list" "'e cause"
  | FieldNotFound "string list" "'e cause"
  | InternalError "string list" "'e cause"

text \<open>A check that is not passed: the errors that are returned, or a panic.\<close>

datatype 'e stop = Rejected "'e field_error list" | Panicked validator_panic

definition reject :: "string list \<Rightarrow> 'e cause \<Rightarrow> 'e stop" where
  "reject path c = Rejected [Invalid path c]"

subsection \<open>What is read\<close>

record UserInfo =
  ui_Name :: string
  ui_Groups :: "string list"
  ui_UID :: string
  ui_Extra :: "(string, string list) gomap"

record ResourceAttributes =
  ra_Namespace :: string
  ra_Verb :: string
  ra_Group :: string
  ra_Version :: string
  ra_Resource :: string
  ra_Subresource :: string
  ra_Name :: string

record NonResourceAttributes =
  na_Path :: string
  na_Verb :: string

record SubjectAccessReview =
  sa_User :: string
  sa_Groups :: "string list"
  sa_Extra :: "(string, string list) gomap"
  sa_UID :: string
  sa_Resource :: "ResourceAttributes option"
  sa_NonResource :: "NonResourceAttributes option"

record sarRequest =
  sq_SAR :: SubjectAccessReview
  sq_Rule :: PolicyRule

record apiComputeClass =
  kc_Name :: string
  kc_Memory :: ComputeClassMemory
  kc_Default :: bool
  kc_SupportedRegions :: "string list"

record 'f ImageDetails =
  dt_AppImage :: "'f AppImage"
  dt_ImageData :: "'f ImagesData"
  dt_AppSpec :: "'f AppSpec"
  dt_ParseError :: string

text \<open>
  \<open>va_finish\<close> is the order in which the access reviews that run at the same time end. \<open>va_review\<close> creates a review and reads whether
  it is allowed.
\<close>

record ('e, 'f, 'q, 'r, 'i) validator =
  va_getProject :: "string \<Rightarrow> 'e + ProjectInstance"
  va_registry :: "('e, 'r, 'i) registry_reads"
  va_compile :: "string \<Rightarrow> 'e + regexp"
  va_parseNoDefault :: "string \<Rightarrow> 'e + Reference"
  va_listTags :: "string \<Rightarrow> string \<Rightarrow> string list"
  va_localTags :: "string \<Rightarrow> Reference \<Rightarrow> string list"
  va_tagAllowed :: "string \<Rightarrow> string \<Rightarrow> 'e allow_error option"
  va_ImageGet :: "string \<Rightarrow> string \<Rightarrow> 'e + string option"
  va_keychain :: "string \<Rightarrow> 'e option"
  va_ParseReference :: "string \<Rightarrow> 'e option"
  va_Head :: "string \<Rightarrow> string \<Rightarrow> 'e option"
  va_ImageDetails :: "string \<Rightarrow> string \<Rightarrow> string \<Rightarrow> string list \<Rightarrow> 'f GenericMap \<Rightarrow> 'e + 'f ImageDetails"
  va_imageAllowed :: "string \<Rightarrow> string \<Rightarrow> string \<Rightarrow> 'e check_error option"
  va_memoryConfig :: "'e + int option \<times> int option"
  va_computeClasses :: "string \<Rightarrow> 'e + apiComputeClass list"
  va_volumeClasses :: "string \<Rightarrow> 'e + VolumeClass list"
  va_user :: "UserInfo option"
  va_namespace :: string
  va_review :: "SubjectAccessReview \<Rightarrow> 'e + bool"
  va_finish :: "sarRequest list \<Rightarrow> sarRequest list"
  va_ParseQuantity :: "string \<Rightarrow> 'e + 'q"
  va_NewQuantity :: "int \<Rightarrow> 'q"
  va_Value :: "'q \<Rightarrow> int"
  va_Cmp :: "'q \<Rightarrow> 'q \<Rightarrow> int"
  va_semantic :: "'f semantic_equal"

subsection \<open>Name, region and image\<close>

definition validateName :: "('f, 'q) AppInstance \<Rightarrow> 'e cause option" where
  "validateName app = (if om_Name (app_Meta app) = [] then Some NameRequired else None)"

definition validateRegion :: "('f, 'q) AppInstance \<Rightarrow> ProjectInstance \<Rightarrow> 'e cause option" where
  "validateRegion app project =
     (if ai_Region (app_Spec app) = [] then
        (if pj_SpecDefaultRegion project = [] \<and> pj_DefaultRegion project = [] then Some NoDefaultRegion else None)
      else if \<not> Project_HasRegion project (ai_Region (app_Spec app)) then Some (RegionNotSupported (ai_Region (app_Spec app)))
      else None)"

definition checkRemoteAccess :: "('e, 'f, 'q, 'r, 'i) validator \<Rightarrow> string \<Rightarrow> string \<Rightarrow> 'e cause option" where
  "checkRemoteAccess K namespace img =
     (case va_keychain K namespace of
        Some e \<Rightarrow> Some (ReadFailed e)
      | None \<Rightarrow> (case va_ParseReference K img of
          Some e \<Rightarrow> Some (ReadFailed e)
        | None \<Rightarrow> (case va_Head K namespace img of Some e \<Rightarrow> Some (PullFailed e) | None \<Rightarrow> None)))"

definition resolveLocalImage :: "('e, 'f, 'q, 'r, 'i) validator \<Rightarrow> string \<Rightarrow> string \<Rightarrow> 'e image_error + string \<times> bool" where
  "resolveLocalImage K namespace img =
     (case va_ImageGet K namespace img of
        Inl e \<Rightarrow> Inl (ImageError e)
      | Inr None \<Rightarrow> if IsLocalReference img then Inl (NoSuchImage img) else Inr (img, False)
      | Inr (Some digest) \<Rightarrow> Inr (str_trim_prefix digest ''sha256:'', True))"

definition getImageDetails :: "('e, 'f, 'q, 'r, 'i) validator \<Rightarrow> string \<Rightarrow> string list \<Rightarrow> 'f GenericMap \<Rightarrow> string \<Rightarrow> string \<Rightarrow>
    'e cause + 'f ImageDetails" where
  "getImageDetails K namespace profiles args img nested =
     (case va_ImageDetails K namespace img nested profiles args of
        Inl e \<Rightarrow> Inl (ReadFailed e)
      | Inr details \<Rightarrow> if dt_ParseError details \<noteq> [] then Inl (ParseFailure (dt_ParseError details)) else Inr details)"

definition checkImageAllowed :: "('e, 'f, 'q, 'r, 'i) validator \<Rightarrow> string \<Rightarrow> string \<Rightarrow> 'e cause option" where
  "checkImageAllowed K namespace img =
     (case resolveLocalImage K namespace img of
        Inl e \<Rightarrow> Some (NotAllowedLookup e)
      | Inr (digest, _) \<Rightarrow> map_option NotAllowedToRun (va_imageAllowed K namespace img digest))"

definition FindLatestTagForImageWithPattern :: "('e, 'f, 'q, 'r, 'i) validator \<Rightarrow> string \<Rightarrow> string \<Rightarrow> string \<Rightarrow> string \<Rightarrow>
    'e latest_error + string \<times> bool" where
  "FindLatestTagForImageWithPattern K current namespace img pattern =
     findLatestTagForImageWithPattern (va_compile K) (va_parseNoDefault K) (va_listTags K namespace) (va_localTags K namespace)
       (va_tagAllowed K namespace) current img pattern"

text \<open>The image that is checked: for a pattern the latest tag, or none when no tag matches.\<close>

definition imageToCheck :: "('e, 'f, 'q, 'r, 'i) validator \<Rightarrow> ('f, 'q) AppInstance \<Rightarrow> 'e stop + string" where
  "imageToCheck K app =
     (let img = ai_Image (app_Spec app); (tagPattern, isPattern) = AutoUpgradePattern img
      in if \<not> isPattern then Inr img
         else case FindLatestTagForImageWithPattern K [] (om_Namespace (app_Meta app)) img tagPattern of
                Inl e \<Rightarrow> Inl (reject [''spec'', ''image''] (LatestTagFailed e))
              | Inr (latestImage, found) \<Rightarrow> Inr (if found then latestImage else []))"

subsection \<open>Access reviews\<close>

definition sarCheck :: "('e, 'f, 'q, 'r, 'i) validator \<Rightarrow> sarRequest \<Rightarrow> 'e cause option" where
  "sarCheck K request =
     (case va_review K (sq_SAR request) of
        Inl e \<Rightarrow> Some (ReadFailed e)
      | Inr allowed \<Rightarrow> if allowed then None else Some (NotAuthorized (sq_Rule request)))"

text \<open>\<open>Wait\<close> of the error group returns the first error in the order in which the checks end.\<close>

fun firstError :: "('a \<Rightarrow> 'e option) \<Rightarrow> 'a list \<Rightarrow> 'e option" where
  "firstError f [] = None"
| "firstError f (x # xs) = (case f x of Some e \<Rightarrow> Some e | None \<Rightarrow> firstError f xs)"

definition checkSARs :: "('e, 'f, 'q, 'r, 'i) validator \<Rightarrow> sarRequest list \<Rightarrow> 'e cause option" where
  "checkSARs K sars = firstError (sarCheck K) (va_finish K sars)"

definition getSARNonResourceRole :: "SubjectAccessReview \<Rightarrow> PolicyRule \<Rightarrow> sar_error + sarRequest list" where
  "getSARNonResourceRole sar rule =
     (if pr_Verbs rule = [] then Inl EmptyVerbs
      else if pr_APIGroups rule \<noteq> [] then Inl URLsAndAPIGroups
      else Inr [\<lparr>sq_SAR = sar\<lparr>sa_NonResource := Some \<lparr>na_Path = url, na_Verb = verb\<rparr>\<rparr>, sq_Rule = rule\<rparr>.
                url \<leftarrow> pr_NonResourceURLs rule, verb \<leftarrow> pr_Verbs rule])"

definition resourceRequest :: "SubjectAccessReview \<Rightarrow> PolicyRule \<Rightarrow> string \<Rightarrow> string \<Rightarrow> string \<Rightarrow> string \<Rightarrow> string \<Rightarrow> sarRequest" where
  "resourceRequest sar rule namespace verb apiGroup resource resourceName =
     (case str_cut (CHR ''/'') resource of (resource, subResource, _) \<Rightarrow>
        \<lparr>sq_SAR = sar\<lparr>sa_Resource := Some \<lparr>ra_Namespace = namespace, ra_Verb = verb, ra_Group = apiGroup, ra_Version = ''*'',
            ra_Resource = resource, ra_Subresource = subResource, ra_Name = resourceName\<rparr>\<rparr>, sq_Rule = rule\<rparr>)"

definition getSARResourceRole :: "SubjectAccessReview \<Rightarrow> PolicyRule \<Rightarrow> string \<Rightarrow> sar_error + sarRequest list" where
  "getSARResourceRole sar rule0 namespace =
     (if pr_APIGroups rule0 = [] then Inl EmptyAPIGroups
      else if pr_Verbs rule0 = [] then Inl EmptyVerbs
      else let rule = (if pr_Resources rule0 = [] then rule0\<lparr>pr_Resources := [''*'']\<rparr> else rule0)
        in Inr [resourceRequest sar rule namespace verb apiGroup resource resourceName.
                verb \<leftarrow> pr_Verbs rule, apiGroup \<leftarrow> pr_APIGroups rule, resource \<leftarrow> pr_Resources rule,
                resourceName \<leftarrow> (if pr_ResourceNames rule = [] then [[]] else pr_ResourceNames rule)])"

definition ruleRequests :: "SubjectAccessReview \<Rightarrow> string \<Rightarrow> PolicyRule \<Rightarrow> (sar_error + sarRequest list) list" where
  "ruleRequests sar currentNamespace rule =
     (if pr_NonResourceURLs rule \<noteq> [] then [getSARNonResourceRole sar rule]
      else map (getSARResourceRole sar rule) (ResolveNamespaces rule currentNamespace))"

text \<open>The requests of all rules, and the errors of those that are malformed, joined by \<open>merr.NewErrors\<close>.\<close>

definition lefts :: "('a + 'b) list \<Rightarrow> 'a list" where
  "lefts rs = concat (map (\<lambda>r. case r of Inl e \<Rightarrow> [e] | Inr _ \<Rightarrow> []) rs)"

definition rights :: "('a + 'b) list \<Rightarrow> 'b list" where
  "rights rs = concat (map (\<lambda>r. case r of Inl _ \<Rightarrow> [] | Inr x \<Rightarrow> [x]) rs)"

definition getSARs :: "SubjectAccessReview \<Rightarrow> PolicyRule list \<Rightarrow> string \<Rightarrow> sar_error list + sarRequest list" where
  "getSARs sar rules currentNamespace =
     (let rs = concat (map (ruleRequests sar currentNamespace) rules)
      in if lefts rs \<noteq> [] then Inl (lefts rs) else Inr (concat (rights rs)))"

definition permissionRequests :: "SubjectAccessReview \<Rightarrow> Permissions list \<Rightarrow> string \<Rightarrow> sar_error list + sarRequest list" where
  "permissionRequests sar perms namespace =
     bind_err (map_err (\<lambda>perm. getSARs sar (GetRules perm) namespace) perms) (\<lambda>rs. Inr (concat rs))"

definition checkRequestedPermsSatisfyImagePerms :: "string \<Rightarrow> Permissions list \<Rightarrow> Permissions list \<Rightarrow> Permissions list \<Rightarrow> 'e cause option" where
  "checkRequestedPermsSatisfyImagePerms currentNamespace requestedPerms grantedUserPerms grantedImagePerms =
     (let grantedPermsByService = GroupByServiceName (grantedUserPerms @ grantedImagePerms)
      in firstError (\<lambda>(serviceName, requestedPerm).
           if snd (Grants (gm_get_or zero_Permissions grantedPermsByService serviceName) currentNamespace requestedPerm) then None
           else Some (RulesNeeded requestedPerms)) (GroupByServiceName requestedPerms))"

definition copyExtra :: "(string, string list) gomap \<Rightarrow> (string, string list) gomap" where
  "copyExtra extra = foldl (\<lambda>m (k, v). gm_set m k v) [] extra"

definition userReview :: "UserInfo \<Rightarrow> SubjectAccessReview" where
  "userReview user =
     \<lparr>sa_User = ui_Name user, sa_Groups = ui_Groups user, sa_Extra = copyExtra (ui_Extra user), sa_UID = ui_UID user,
      sa_Resource = None, sa_NonResource = None\<rparr>"

definition checkPermissionsForPrivilegeEscalation :: "('e, 'f, 'q, 'r, 'i) validator \<Rightarrow> Permissions list \<Rightarrow> 'e cause option" where
  "checkPermissionsForPrivilegeEscalation K requestedPerms =
     (case va_user K of
        None \<Rightarrow> Some NoActiveUser
      | Some user \<Rightarrow>
          (case permissionRequests (userReview user) requestedPerms (va_namespace K) of
             Inl es \<Rightarrow> Some (RuleErrors es)
           | Inr sars \<Rightarrow> checkSARs K sars))"

definition imageReview :: "'f AppImage \<Rightarrow> SubjectAccessReview" where
  "imageReview img =
     \<lparr>sa_User = ''image://'' @ ig_Name img, sa_Groups = [], sa_Extra = [(''digest'', [ig_Digest img])], sa_UID = [],
      sa_Resource = None, sa_NonResource = None\<rparr>"

text \<open>The errors of missing rules and of a refused review count as an answer; after that the code returns false in every case.\<close>

definition imageGrants :: "('e, 'f, 'q, 'r, 'i) validator \<Rightarrow> 'f ImageDetails \<Rightarrow> Permissions list \<Rightarrow> 'e cause + bool" where
  "imageGrants K details perms =
     bind_err (map_sum RuleErrors id (permissionRequests (imageReview (dt_AppImage details)) perms (va_namespace K))) (\<lambda>sars.
       case checkSARs K sars of
         Some (RulesNeeded _) \<Rightarrow> Inr False
       | Some (NotAuthorized _) \<Rightarrow> Inr False
       | Some e \<Rightarrow> Inl e
       | None \<Rightarrow> Inr False)"

subsection \<open>Memory, compute classes and volume classes\<close>

definition getWorkloads :: "'f ImageDetails \<Rightarrow> (string, Container) gomap" where
  "getWorkloads details =
     (let withContainers = foldl (\<lambda>m (workload, container).
            foldl (\<lambda>m (sidecarWorkload, sidecar). gm_set m sidecarWorkload sidecar) (gm_set m workload container) (c_Sidecars container))
            [] (as_Containers (dt_AppSpec details))
      in foldl (\<lambda>m (workload, container). gm_set m workload container) withContainers (as_Jobs (dt_AppSpec details)))"

definition getClassForWorkload :: "apiComputeClass list \<Rightarrow> ComputeClassMap \<Rightarrow> Container \<Rightarrow> string \<Rightarrow> string + apiComputeClass option" where
  "getClassForWorkload computeClassList computeClasses container workload =
     (let ccName = GetComputeClassNameForWorkload workload container computeClasses
      in case find (\<lambda>cc. kc_Name cc = ccName \<or> (ccName = [] \<and> kc_Default cc)) computeClassList of
           Some cc \<Rightarrow> Inr (Some cc)
         | None \<Rightarrow> if ccName = [] then Inr None else Inl ccName)"

definition validateMemoryRunFlags :: "MemoryMap \<Rightarrow> (string, Container) gomap \<Rightarrow> 'e field_error list" where
  "validateMemoryRunFlags memory workloads =
     map (\<lambda>(key, _). Invalid [''spec'', ''memory''] (UnknownWorkload key))
       (filter (\<lambda>(key, _). key \<noteq> [] \<and> \<not> gm_has workloads key) memory)"

definition memoryPath :: "string \<Rightarrow> memory_source \<Rightarrow> string list" where
  "memoryPath workload src =
     (case src of
        ErrInvalidAcornMemory \<Rightarrow> [''spec'', ''image'']
      | ErrInvalidSetMemory \<Rightarrow> [''spec'', ''memory'', workload]
      | ErrInvalidDefaultMemory \<Rightarrow> [''config'', ''workloadMemoryDefault''])"

definition memorySource :: "memory_error \<Rightarrow> memory_source" where
  "memorySource e = (case e of ExceedsMaximum src _ _ _ \<Rightarrow> src | DefaultExceedsMaximum src _ _ \<Rightarrow> src)"

definition memoryErrors :: "string \<Rightarrow> memory_error option \<Rightarrow> 'e field_error list" where
  "memoryErrors workload err =
     (case err of None \<Rightarrow> [] | Some e \<Rightarrow> [Invalid (memoryPath workload (memorySource e)) (MemoryInvalid e)])"

definition classErrors :: "'e class_error + unit \<Rightarrow> 'e field_error list" where
  "classErrors r =
     (case r of
        Inr _ \<Rightarrow> []
      | Inl (InvalidClass e) \<Rightarrow> [Invalid [''computeclass''] (ComputeClassRefuses (InvalidClass e))]
      | Inl e \<Rightarrow> [Invalid [''memory''] (ComputeClassRefuses e)])"

text \<open>
  One workload. The state is the default memory, which the class of a workload replaces and which stays replaced for the workloads
  that follow, and the errors so far. An error of \<open>ParseComputeClassMemory\<close> is never an \<open>ErrInvalidClass\<close>: it is dropped, and the
  missing default is then dereferenced.
\<close>

definition scheduling_step :: "('e, 'f, 'q, 'r, 'i) validator \<Rightarrow> apiComputeClass list \<Rightarrow> 'f AppInstanceSpec \<Rightarrow> string \<Rightarrow> int option \<Rightarrow>
    string \<times> Container \<Rightarrow> int option \<times> 'e field_error list \<Rightarrow> validator_panic + int option \<times> 'e field_error list" where
  "scheduling_step K classes spec defaultRegion specMemMaximum entry st =
     (case (entry, st) of ((workload, container), (specMemDefault, errs)) \<Rightarrow>
       (case getClassForWorkload classes (ai_ComputeClasses spec) container workload of
          Inl ccName \<Rightarrow>
            Inr (specMemDefault, errs @ [FieldNotFound [''computeclass''] (ComputeClassNotFound ccName)] @
                 memoryErrors workload (snd (ValidateMemory (ai_Memory spec) workload container specMemDefault specMemMaximum)))
        | Inr None \<Rightarrow>
            Inr (specMemDefault,
                 errs @ memoryErrors workload (snd (ValidateMemory (ai_Memory spec) workload container specMemDefault specMemMaximum)))
        | Inr (Some cc) \<Rightarrow>
            if ai_Region spec \<notin> set (kc_SupportedRegions cc) \<and> defaultRegion \<notin> set (kc_SupportedRegions cc) then
              Inr (specMemDefault, errs @ [Invalid [''computeclass''] (ComputeClassRegion (kc_Name cc))])
            else (case ParseComputeClassMemory (va_ParseQuantity K) (va_Value K) (kc_Memory cc) of
                    Inl _ \<Rightarrow> Inl NilQuantity
                  | Inr wcMemory \<Rightarrow>
                      let memDefault = Some (mq_Def wcMemory);
                          (memBytes, err) = ValidateMemory (ai_Memory spec) workload container memDefault specMemMaximum;
                          checked = Validate (va_ParseQuantity K) (va_Value K) (kc_Memory cc) (va_NewQuantity K memBytes) memDefault
                      in Inr (memDefault, errs @ memoryErrors workload err @ classErrors checked))))"

fun each_err :: "('x \<Rightarrow> 'a \<Rightarrow> 'e + 'a) \<Rightarrow> 'x list \<Rightarrow> 'a \<Rightarrow> 'e + 'a" where
  "each_err f [] st = Inr st"
| "each_err f (x # xs) st = bind_err (f x st) (each_err f xs)"

definition checkScheduling :: "('e, 'f, 'q, 'r, 'i) validator \<Rightarrow> ('f, 'q) AppInstance \<Rightarrow> ProjectInstance \<Rightarrow> (string, Container) gomap \<Rightarrow>
    int option \<Rightarrow> int option \<Rightarrow> validator_panic + 'e field_error list" where
  "checkScheduling K params project workloads specMemDefault specMemMaximum =
     (case va_computeClasses K (om_Namespace (app_Meta params)) of
        Inl e \<Rightarrow> Inr [Invalid [''spec'', ''image''] (ReadFailed e)]
      | Inr classes \<Rightarrow>
          map_sum id snd (each_err
            (scheduling_step K classes (app_Spec params) (Project_GetRegion project) specMemMaximum)
            workloads (specMemDefault, validateMemoryRunFlags (ai_Memory (app_Spec params)) workloads)))"

definition MustParseResourceQuantity :: "('e, 'f, 'q, 'r, 'i) validator \<Rightarrow> Quantity \<Rightarrow> 'e stop + 'q" where
  "MustParseResourceQuantity K s = (case va_ParseQuantity K s of Inl _ \<Rightarrow> Inl (Panicked (QuantityPanic s)) | Inr q \<Rightarrow> Inr q)"

definition defaultVolumeClass :: "VolumeClass list \<Rightarrow> VolumeClass option" where
  "defaultVolumeClass classes = foldl (\<lambda>def vc. if vc_Default vc then Some vc else def) None classes"

definition zero_VolumeClass :: VolumeClass where
  "zero_VolumeClass = \<lparr>vc_Name = [], vc_StorageClassName = [], vc_Description = [], vc_Default = False, vc_AllowedAccessModes = [],
     vc_SizeDefault = [], vc_SizeMin = [], vc_SizeMax = [], vc_Inactive = False, vc_SupportedRegions = []\<rparr>"

definition bindingClassOk :: "(string, VolumeClass) gomap \<Rightarrow> string \<Rightarrow> string \<Rightarrow> VolumeBinding \<Rightarrow> bool" where
  "bindingClassOk byName defaultRegion region vol \<longleftrightarrow>
     vb_Class vol = [] \<or>
     (case gm_get byName (vb_Class vol) of
        None \<Rightarrow> False
      | Some vc \<Rightarrow> \<not> vc_Inactive vc \<and>
          (vc_SupportedRegions vc = [] \<or> defaultRegion \<in> set (vc_SupportedRegions vc) \<or> region \<in> set (vc_SupportedRegions vc)))"

definition validateBindings :: "(string, VolumeClass) gomap \<Rightarrow> string \<Rightarrow> 'f AppInstanceSpec \<Rightarrow> 'e stop + (string, VolumeBinding) gomap" where
  "validateBindings byName defaultRegion spec =
     (case find (\<lambda>(i, vol). \<not> bindingClassOk byName defaultRegion (ai_Region spec) vol) (enumerate 0 (ai_Volumes spec)) of
        Some (i, vol) \<Rightarrow> Inl (reject [''spec'', ''volumes'', itoa (int i)] (VolumeClassInvalid (vb_Class vol)))
      | None \<Rightarrow> Inr (foldl (\<lambda>m vol. gm_set m (vb_Target vol) vol) [] (ai_Volumes spec)))"

definition validateSize :: "('e, 'f, 'q, 'r, 'i) validator \<Rightarrow> VolumeClass \<Rightarrow> string \<Rightarrow> VolumeRequest \<Rightarrow> 'e stop + unit" where
  "validateSize K volClass volName request =
     (if vr_Size request = [] then Inr ()
      else bind_err (MustParseResourceQuantity K (vr_Size request)) (\<lambda>q.
        bind_err (if vc_SizeMin volClass = [] then Inr ()
                  else bind_err (MustParseResourceQuantity K (vc_SizeMin volClass)) (\<lambda>m.
                    if va_Cmp K q m < 0 then Inl (reject [''spec'', ''volumes'', volName, ''size''] (SizeBelowMinimum volName)) else Inr ())) (\<lambda>_.
        if vc_SizeMax volClass = [] then Inr ()
        else bind_err (MustParseResourceQuantity K (vc_SizeMax volClass)) (\<lambda>m.
          if va_Cmp K q m > 0 then Inl (reject [''spec'', ''volumes'', volName, ''size''] (SizeAboveMaximum volName)) else Inr ()))))"

definition volumeClassFor :: "(string, VolumeClass) gomap \<Rightarrow> VolumeClass option \<Rightarrow> string \<Rightarrow> VolumeClass option" where
  "volumeClassFor byName def cls = (if cls \<noteq> [] then Some (gm_get_or zero_VolumeClass byName cls) else def)"

definition validateVolume :: "('e, 'f, 'q, 'r, 'i) validator \<Rightarrow> (string, VolumeClass) gomap \<Rightarrow> VolumeClass option \<Rightarrow> string \<Rightarrow> string \<Rightarrow>
    (string, VolumeBinding) gomap \<Rightarrow> string \<times> VolumeRequest \<Rightarrow> unit \<Rightarrow> 'e stop + unit" where
  "validateVolume K byName def defaultRegion region volumeBindings entry u =
     (case entry of (volName, vol) \<Rightarrow>
        let request = CopyVolumeDefaults vol (gm_get_or zero_VolumeBinding volumeBindings volName) zero_VolumeDefault
        in case volumeClassFor byName def (vr_Class request) of
             None \<Rightarrow> Inl (reject [''spec'', ''image''] (VolumeClassMissing volName))
           | Some volClass \<Rightarrow>
               if vc_Inactive volClass \<or> (defaultRegion \<notin> set (vc_SupportedRegions volClass) \<and> region \<notin> set (vc_SupportedRegions volClass))
               then Inl (reject [''spec'', ''image''] (VolumeClassInvalid (vc_Name volClass)))
               else bind_err (validateSize K volClass volName request) (\<lambda>_.
                 if vc_AllowedAccessModes volClass = [] then Inr ()
                 else (case find (\<lambda>am. am \<notin> set (vc_AllowedAccessModes volClass)) (vr_AccessModes request) of
                         Some am \<Rightarrow> Inl (reject [''spec'', ''volumes'', volName, ''accessModes''] (AccessModeNotAllowed am))
                       | None \<Rightarrow> Inr ())))"

definition validateVolumeClasses :: "('e, 'f, 'q, 'r, 'i) validator \<Rightarrow> string \<Rightarrow> 'f AppInstanceSpec \<Rightarrow> 'f AppSpec \<Rightarrow> ProjectInstance \<Rightarrow>
    'e stop + unit" where
  "validateVolumeClasses K namespace spec appSpec project =
     (if ai_Volumes spec = [] \<and> as_Volumes appSpec = [] then Inr ()
      else (case va_volumeClasses K namespace of
              Inl e \<Rightarrow> Inl (reject [''spec'', ''image''] (ReadFailed e))
            | Inr classes \<Rightarrow>
                let byName = foldl (\<lambda>m vc. gm_set m (vc_Name vc) vc) [] classes
                in bind_err (validateBindings byName (Project_GetRegion project) spec) (\<lambda>volumeBindings.
                     each_err (validateVolume K byName (defaultVolumeClass classes) (Project_GetRegion project) (ai_Region spec) volumeBindings)
                       (as_Volumes appSpec) ())))"

subsection \<open>Permissions an image asks for\<close>

definition buildPermissionsFrom :: "string \<Rightarrow> (string, Container) gomap \<Rightarrow> Permissions list" where
  "buildPermissionsFrom servicePrefix containers =
     filter (\<lambda>p. GetRules p \<noteq> []) (map (\<lambda>(name, container).
       zero_Permissions\<lparr>pm_ServiceName := servicePrefix @ name,
         pm_Rules := GetRules (Permissions_Get (c_Permissions (c_fields container))) @
           concat (map (\<lambda>(_, sidecar). GetRules (Permissions_Get (c_Permissions (c_fields sidecar)))) (typed_Sorted (c_Sidecars container)))\<rparr>)
       (typed_Sorted containers))"

fun addRules :: "string \<Rightarrow> PolicyRule list \<Rightarrow> Permissions list \<Rightarrow> Permissions list" where
  "addRules serviceName rules [] = [zero_Permissions\<lparr>pm_ServiceName := serviceName, pm_Rules := rules\<rparr>]"
| "addRules serviceName rules (p # ps) =
     (if pm_ServiceName p = serviceName then p\<lparr>pm_Rules := pm_Rules p @ rules\<rparr> # ps else p # addRules serviceName rules ps)"

definition mergeInRules :: "string \<Rightarrow> Permissions list \<Rightarrow> (string, Permissions) gomap \<Rightarrow> Permissions list" where
  "mergeInRules servicePrefix existing newRules =
     foldl (\<lambda>result (serviceName, permissions).
       if \<not> HasRules (Some permissions) then result
       else addRules (servicePrefix @ serviceName) (GetRules permissions) result) existing (typed_Sorted newRules)"

text \<open>
  \<open>getPermissions\<close>, \<open>buildNestedImagePermissions\<close> and \<open>getImageRequestedPermissions\<close> call each other. The latter two take the first as an
  argument, and \<open>each_o\<close> is the loop over the nested images: \<open>None\<close> says that a call does not return.
\<close>

definition bind_o :: "('e + 'a) option \<Rightarrow> ('a \<Rightarrow> ('e + 'b) option) \<Rightarrow> ('e + 'b) option" where
  "bind_o m f = Option.bind m (\<lambda>r. case r of Inl e \<Rightarrow> Some (Inl e) | Inr x \<Rightarrow> f x)"

fun each_o :: "('x \<Rightarrow> 'a \<Rightarrow> ('e + 'a) option) \<Rightarrow> 'x list \<Rightarrow> 'a \<Rightarrow> ('e + 'a) option" where
  "each_o f [] st = Some (Inr st)"
| "each_o f (x # xs) st = bind_o (f x st) (each_o f xs)"

type_synonym permission_lists = "Permissions list \<times> Permissions list"

type_synonym ('e, 'f) get_permissions = "string \<Rightarrow> string \<Rightarrow> 'f ImageDetails \<Rightarrow> ('e cause + permission_lists) option"

definition getImageRequestedPermissions :: "('e, 'f) get_permissions \<Rightarrow> ('e, 'f, 'q, 'r, 'i) validator \<Rightarrow> string \<Rightarrow> string list \<Rightarrow>
    'f GenericMap \<Rightarrow> string \<Rightarrow> string \<Rightarrow> string \<Rightarrow> string \<Rightarrow> ('e cause + permission_lists) option" where
  "getImageRequestedPermissions rec K servicePrefix profiles args namespace img nestedName nestedDigest =
     (case getImageDetails K namespace profiles args img nestedDigest of
        Inl e \<Rightarrow> Some (Inl e)
      | Inr details \<Rightarrow>
          rec servicePrefix img
            (details\<lparr>dt_AppImage := (dt_AppImage details)\<lparr>ig_Name := if nestedName = [] then img else nestedName\<rparr>\<rparr>))"

definition nestedPermissions :: "('e, 'f) get_permissions \<Rightarrow> ('e, 'f, 'q, 'r, 'i) validator \<Rightarrow> string \<Rightarrow> string \<Rightarrow> string \<Rightarrow> string \<Rightarrow>
    string list \<Rightarrow> 'f GenericMap \<Rightarrow> string \<Rightarrow> string \<Rightarrow> (string, Permissions) gomap \<Rightarrow> permission_lists \<Rightarrow> ('e cause + permission_lists) option" where
  "nestedPermissions rec K servicePrefix namespace img name profiles args originalImage acornImage permissions st =
     bind_o (if IsImageDigest acornImage
             then getImageRequestedPermissions rec K (servicePrefix @ name @ ''.'') profiles args namespace img originalImage acornImage
             else getImageRequestedPermissions rec K (servicePrefix @ name @ ''.'') profiles args namespace acornImage [] [])
       (\<lambda>(subRequested, subGranted).
          Some (Inr (mergeInRules (servicePrefix @ name @ ''.'') (fst st @ subRequested) permissions, snd st @ subGranted)))"

definition acornPermissions :: "('e, 'f) get_permissions \<Rightarrow> ('e, 'f, 'q, 'r, 'i) validator \<Rightarrow> string \<Rightarrow> 'f AppSpec \<Rightarrow> string \<Rightarrow> string \<Rightarrow>
    'f ImagesData \<Rightarrow> string \<times> 'f Acorn \<Rightarrow> permission_lists \<Rightarrow> ('e cause + permission_lists) option" where
  "acornPermissions rec K servicePrefix app namespace img imageData entry st =
     (case entry of (acornName, acorn) \<Rightarrow>
        (case GetImageReferenceForServiceName (va_semantic K) acornName app imageData of
           (acornImage, False) \<Rightarrow> Some (Inl (NestedImageMissing acornName))
         | (acornImage, True) \<Rightarrow>
             nestedPermissions rec K servicePrefix namespace img acornName (ac_Profiles acorn) (ac_DeployArgs acorn)
               (Acorn_GetOriginalImage acorn) acornImage (ac_Permissions acorn) st))"

definition servicePermissions :: "('e, 'f) get_permissions \<Rightarrow> ('e, 'f, 'q, 'r, 'i) validator \<Rightarrow> string \<Rightarrow> 'f AppSpec \<Rightarrow> string \<Rightarrow> string \<Rightarrow>
    'f ImagesData \<Rightarrow> string \<times> 'f Service \<Rightarrow> permission_lists \<Rightarrow> ('e cause + permission_lists) option" where
  "servicePermissions rec K servicePrefix app namespace img imageData entry st =
     (case entry of (serviceName, service) \<Rightarrow>
        (case GetImageReferenceForServiceName (va_semantic K) serviceName app imageData of
           (acornImage, False) \<Rightarrow> Some (Inr st)
         | (acornImage, True) \<Rightarrow>
             nestedPermissions rec K servicePrefix namespace img serviceName [] (sv_ServiceArgs service)
               (Service_GetOriginalImage service) acornImage (sv_Permissions service) st))"

definition buildNestedImagePermissions :: "('e, 'f) get_permissions \<Rightarrow> ('e, 'f, 'q, 'r, 'i) validator \<Rightarrow> string \<Rightarrow> 'f AppSpec \<Rightarrow> string \<Rightarrow> string \<Rightarrow>
    'f ImagesData \<Rightarrow> ('e cause + permission_lists) option" where
  "buildNestedImagePermissions rec K servicePrefix app namespace img imageData =
     bind_o (each_o (acornPermissions rec K servicePrefix app namespace img imageData) (typed_Sorted (as_Acorns app)) ([], []))
       (each_o (servicePermissions rec K servicePrefix app namespace img imageData) (typed_Sorted (as_Services app)))"

lemma bind_o_mono [partial_function_mono]:
  assumes "mono_option m" "\<And>x. mono_option (\<lambda>f. F f x)"
  shows "mono_option (\<lambda>f. bind_o (m f) (F f))"
proof -
  have "mono_option (\<lambda>f. case r of Inl e \<Rightarrow> Some (Inl e) | Inr x \<Rightarrow> F f x)" for r
    by (cases r) (simp_all add: assms partial_function_mono)
  then show ?thesis
    unfolding bind_o_def by (intro partial_function_mono assms)
qed

lemma each_o_mono [partial_function_mono]:
  "(\<And>x st. mono_option (\<lambda>f. F f x st)) \<Longrightarrow> mono_option (\<lambda>f. each_o (F f) xs st)"
  by (induction xs arbitrary: st) (simp_all add: partial_function_mono bind_o_mono)

lemma requested_mono [partial_function_mono]:
  assumes "\<And>p i d. mono_option (\<lambda>f. R f p i d)"
  shows "mono_option (\<lambda>f. getImageRequestedPermissions (R f) K pfx profiles args ns img name digest)"
  unfolding getImageRequestedPermissions_def
  by (cases "getImageDetails K ns profiles args img digest") (simp_all add: assms partial_function_mono)

lemma nested_mono [partial_function_mono]:
  "(\<And>p i d. mono_option (\<lambda>f. R f p i d)) \<Longrightarrow>
   mono_option (\<lambda>f. nestedPermissions (R f) K pfx ns img name profiles args orig acornImage permissions st)"
  unfolding nestedPermissions_def by (intro partial_function_mono)

lemma acornPermissions_mono [partial_function_mono]:
  assumes "\<And>p i d. mono_option (\<lambda>f. R f p i d)"
  shows "mono_option (\<lambda>f. acornPermissions (R f) K pfx app ns img imageData entry st)"
  unfolding acornPermissions_def
  by (cases entry, cases "GetImageReferenceForServiceName (va_semantic K) (fst entry) app imageData", cases "snd (GetImageReferenceForServiceName (va_semantic K) (fst entry) app imageData)")
    (simp_all add: assms partial_function_mono)

lemma servicePermissions_mono [partial_function_mono]:
  assumes "\<And>p i d. mono_option (\<lambda>f. R f p i d)"
  shows "mono_option (\<lambda>f. servicePermissions (R f) K pfx app ns img imageData entry st)"
  unfolding servicePermissions_def
  by (cases entry, cases "GetImageReferenceForServiceName (va_semantic K) (fst entry) app imageData", cases "snd (GetImageReferenceForServiceName (va_semantic K) (fst entry) app imageData)")
    (simp_all add: assms partial_function_mono)

lemma buildNestedImagePermissions_mono [partial_function_mono]:
  "(\<And>p i d. mono_option (\<lambda>f. R f p i d)) \<Longrightarrow> mono_option (\<lambda>f. buildNestedImagePermissions (R f) K pfx app ns img imageData)"
  unfolding buildNestedImagePermissions_def by (intro partial_function_mono)

partial_function (option) getPermissions :: "('e, 'f, 'q, 'r, 'i) validator \<Rightarrow> string \<Rightarrow> string \<Rightarrow> string \<Rightarrow> 'f ImageDetails \<Rightarrow>
    ('e cause + permission_lists) option" where
  "getPermissions K namespace servicePrefix img details =
     (let imagePermissions = buildPermissionsFrom servicePrefix (as_Containers (dt_AppSpec details)) @
            buildPermissionsFrom servicePrefix (as_Jobs (dt_AppSpec details))
      in case imageGrants K details imagePermissions of
           Inl e \<Rightarrow> Some (Inl e)
         | Inr isGranted \<Rightarrow>
             bind_o (buildNestedImagePermissions (getPermissions K namespace) K servicePrefix (dt_AppSpec details) namespace img (dt_ImageData details))
               (\<lambda>(subResults, subGranted).
                  Some (Inr ((if isGranted then [] else imagePermissions) @ subResults, (if isGranted then imagePermissions else []) @ subGranted))))"

declare getPermissions.simps [code]

subsection \<open>The validation\<close>

definition ofOption :: "string list \<Rightarrow> 'e cause option \<Rightarrow> 'e stop + unit" where
  "ofOption path r = (case r of None \<Rightarrow> Inr () | Some c \<Rightarrow> Inl (reject path c))"

definition ofResult :: "string list \<Rightarrow> 'e cause + 'a \<Rightarrow> 'e stop + 'a" where
  "ofResult path r = map_sum (reject path) id r"

definition checkRemoteImage :: "('e, 'f, 'q, 'r, 'i) validator \<Rightarrow> ('f, 'q) AppInstance \<Rightarrow> string \<Rightarrow> string \<Rightarrow> bool \<Rightarrow> 'e stop + unit" where
  "checkRemoteImage K app checkImage img local =
     (if local then Inr ()
      else bind_err (if \<not> snd (Mode (app_Spec app)) then Inr ()
          else (case va_parseNoDefault K checkImage of
                  Inl e \<Rightarrow> Inl (Rejected [InternalError [''spec'', ''image''] (ReadFailed e)])
                | Inr ref \<Rightarrow> if rf_RegistryStr ref = defaultNoReg then Inl (reject [''spec'', ''image''] NoRegistry) else Inr ()))
        (\<lambda>_. ofOption [''spec'', ''image''] (checkRemoteAccess K (om_Namespace (app_Meta app)) img)))"

definition checkAllowed :: "('e, 'f, 'q, 'r, 'i) validator \<Rightarrow> ('f, 'q) AppInstance \<Rightarrow> string \<Rightarrow> 'e stop + unit" where
  "checkAllowed K app checkImage =
     (if ai_Stop (app_Spec app) = Some True then Inr ()
      else (case checkImageAllowed K (om_Namespace (app_Meta app)) checkImage of
              None \<Rightarrow> Inr ()
            | Some c \<Rightarrow> Inl (Rejected [Forbidden [''spec'', ''image''] c])))"

definition checkWorkloads :: "('e, 'f, 'q, 'r, 'i) validator \<Rightarrow> ('f, 'q) AppInstance \<Rightarrow> ProjectInstance \<Rightarrow> 'f ImageDetails \<Rightarrow> 'e stop + unit" where
  "checkWorkloads K app project details =
     (case va_memoryConfig K of
        Inl e \<Rightarrow> Inl (reject [''config''] (ReadFailed e))
      | Inr (memDefault, memMaximum) \<Rightarrow>
          (case checkScheduling K app project (getWorkloads details) memDefault memMaximum of
             Inl p \<Rightarrow> Inl (Panicked p)
           | Inr errs \<Rightarrow> if errs \<noteq> [] then Inl (Rejected errs) else Inr ()))"

text \<open>The checks of an image; the result are the permissions the image is granted by itself.\<close>

definition imageChecks :: "('e, 'f, 'q, 'r, 'i) validator \<Rightarrow> ('f, 'q) AppInstance \<Rightarrow> ProjectInstance \<Rightarrow> string \<Rightarrow> 'e stop + string \<times> 'f ImageDetails" where
  "imageChecks K app project checkImage =
     (let ns = om_Namespace (app_Meta app); path = [''spec'', ''image'']
      in bind_err (ofResult path (map_sum ImageLookup id (resolveLocalImage K ns checkImage))) (\<lambda>(img, local).
         bind_err (checkRemoteImage K app checkImage img local) (\<lambda>_.
         bind_err (ofResult path (getImageDetails K ns (ai_Profiles (app_Spec app)) (ai_DeployArgs (app_Spec app)) img [])) (\<lambda>details.
         bind_err (checkAllowed K app checkImage) (\<lambda>_.
         bind_err (checkWorkloads K app project details) (\<lambda>_.
         bind_err (validateVolumeClasses K ns (app_Spec app) (dt_AppSpec details) project) (\<lambda>_. Inr (img, details))))))))"

definition validateImage :: "('e, 'f, 'q, 'r, 'i) validator \<Rightarrow> ('f, 'q) AppInstance \<Rightarrow> ProjectInstance \<Rightarrow> string \<Rightarrow>
    ('e stop + Permissions list) option" where
  "validateImage K app project checkImage =
     (case imageChecks K app project checkImage of
        Inl s \<Rightarrow> Some (Inl s)
      | Inr (img, details) \<Rightarrow>
          bind_o (map_option (ofResult [''spec'', ''permissions'']) (getPermissions K (om_Namespace (app_Meta app)) [] img details)) (\<lambda>(requested, granted).
            Some (bind_err (ofOption [''spec'', ''permissions'']
                (checkRequestedPermsSatisfyImagePerms (om_Namespace (app_Meta app)) requested (ai_Permissions (app_Spec app)) granted)) (\<lambda>_.
              Inr granted))))"

definition appChecks :: "('e, 'f, 'q, 'r, 'i) validator \<Rightarrow> ('f, 'q) AppInstance \<Rightarrow> 'e stop + ProjectInstance \<times> string" where
  "appChecks K app =
     bind_err (ofOption [''metadata'', ''name''] (validateName app)) (\<lambda>_.
     bind_err (ofResult [''spec'', ''images''] (map_sum ReadFailed id (va_getProject K (om_Namespace (app_Meta app))))) (\<lambda>project.
     bind_err (ofOption [''spec'', ''region''] (validateRegion app project)) (\<lambda>_.
     bind_err (ofOption [''spec'', ''image'']
       (map_option InternalImage (IsNotInternalRepo (va_registry K) (om_Namespace (app_Meta app)) (ai_Image (app_Spec app))))) (\<lambda>_.
     bind_err (imageToCheck K app) (\<lambda>checkImage. Inr (project, checkImage))))))"

definition grantedPermissions :: "('e, 'f, 'q, 'r, 'i) validator \<Rightarrow> ('f, 'q) AppInstance \<Rightarrow> ('e stop + Permissions list) option" where
  "grantedPermissions K app =
     (case appChecks K app of
        Inl s \<Rightarrow> Some (Inl s)
      | Inr (project, checkImage) \<Rightarrow> if checkImage = [] then Some (Inr []) else validateImage K app project checkImage)"

definition setGranted :: "Permissions list \<Rightarrow> ('f, 'q) AppInstance \<Rightarrow> ('f, 'q) AppInstance" where
  "setGranted granted app = app\<lparr>app_Spec := (app_Spec app)\<lparr>ai_ImageGrantedPermissions := granted\<rparr>\<rparr>"

text \<open>
  The errors and the app, in which the granted permissions are set; a panic; or no result, when the images of the app are nested
  without end.
\<close>

definition App_Validate :: "('e, 'f, 'q, 'r, 'i) validator \<Rightarrow> ('f, 'q) AppInstance \<Rightarrow>
    (validator_panic + 'e field_error list \<times> ('f, 'q) AppInstance) option" where
  "App_Validate K app =
     (case grantedPermissions K app of
        None \<Rightarrow> None
      | Some (Inl (Panicked p)) \<Rightarrow> Some (Inl p)
      | Some (Inl (Rejected errs)) \<Rightarrow> Some (Inr (errs, app))
      | Some (Inr granted) \<Rightarrow>
          Some (Inr ((case checkPermissionsForPrivilegeEscalation K (ai_Permissions (app_Spec app)) of
                        None \<Rightarrow> []
                      | Some c \<Rightarrow> [Invalid [''spec'', ''permissions''] c]), setGranted granted app)))"

definition isNestedUpdate :: "('f, 'q) AppInstance \<Rightarrow> ('f, 'q) AppInstance \<Rightarrow> bool" where
  "isNestedUpdate new old \<longleftrightarrow>
     length (str_split (CHR ''.'') (om_Name (app_Meta new))) = 2 \<and> om_Name (app_Meta new) = om_Name (app_Meta old) \<and>
     gm_get_or [] (om_Labels (app_Meta new)) AcornParentAcornName \<noteq> []"

definition App_ValidateUpdate :: "('e, 'f, 'q, 'r, 'i) validator \<Rightarrow> bool \<Rightarrow> ('f, 'q) AppInstance \<Rightarrow> ('f, 'q) AppInstance \<Rightarrow>
    (validator_panic + 'e field_error list \<times> ('f, 'q) AppInstance) option" where
  "App_ValidateUpdate K allowNestedUpdate new old =
     (if \<not> allowNestedUpdate \<and> isNestedUpdate new old then Some (Inr ([Invalid [''metadata'', ''name''] NestedUpdate], new))
      else if GetDevMode (app_Status old) then Some (Inr ([Invalid [''status'', ''devSession''] DevSessionLock], new))
      else if ai_Region (app_Spec new) \<noteq> ai_Region (app_Spec old) \<and> ai_Region (app_Spec new) \<noteq> df_Region (is_Defaults (app_Status old)) then
        Some (Inr ([Invalid [''spec'', ''region''] RegionFixed], new))
      else App_Validate K new)"

end
