(* ===== verification/Admission.thy ===== *)
theory Admission
  imports AppValidation
begin

text \<open>
  What the validation of \<open>AppValidation\<close> guarantees: a user cannot give an app rights the user does not have, the permissions of
  an app cover all that its image and the images nested in it ask for, memory and volumes stay within their classes, and
  which images make the validation run forever.
\<close>

subsection \<open>Access reviews\<close>

lemma firstError_None: "firstError f xs = None \<longleftrightarrow> (\<forall>x \<in> set xs. f x = None)"
  by (induction xs) (auto split: option.splits)

text \<open>Every review that is started ends.\<close>

definition reviews_end :: "('e, 'f, 'q, 'r, 'i) validator \<Rightarrow> bool" where
  "reviews_end K \<longleftrightarrow> (\<forall>sars. mset (va_finish K sars) = mset sars)"

lemma sarCheck_None: "sarCheck K request = None \<longleftrightarrow> va_review K (sq_SAR request) = Inr True"
  by (cases "va_review K (sq_SAR request)") (auto simp: sarCheck_def)

lemma checkSARs_None:
  assumes "reviews_end K"
  shows "checkSARs K sars = None \<longleftrightarrow> (\<forall>request \<in> set sars. va_review K (sq_SAR request) = Inr True)"
proof -
  have "set (va_finish K sars) = set sars"
    using assms unfolding reviews_end_def by (metis mset_eq_setD)
  then show ?thesis by (simp add: checkSARs_def firstError_None sarCheck_None)
qed

lemma lefts_Nil: "lefts rs = [] \<longleftrightarrow> (\<forall>r \<in> set rs. is_ok r)"
  by (induction rs) (auto simp: lefts_def split: sum.splits)

lemma set_rights: "set (rights rs) = {x. Inr x \<in> set rs}"
  by (induction rs) (auto simp: rights_def split: sum.splits)

lemma Inr_image_UN: "(\<Union>x \<in> {x. Inr x \<in> f ` A}. g x) = (\<Union>a \<in> A. \<Union>x \<in> {x. f a = Inr x}. g x)"
  by (auto simp: image_iff) (metis+)

text \<open>The reviews a rule stands for.\<close>

definition resourceReviews :: "SubjectAccessReview \<Rightarrow> PolicyRule \<Rightarrow> string \<Rightarrow> SubjectAccessReview set" where
  "resourceReviews sar rule namespace =
     {sar\<lparr>sa_Resource := Some \<lparr>ra_Namespace = namespace, ra_Verb = verb, ra_Group = apiGroup, ra_Version = ''*'',
        ra_Resource = fst (str_cut (CHR ''/'') resource), ra_Subresource = fst (snd (str_cut (CHR ''/'') resource)), ra_Name = name\<rparr>\<rparr>
      | verb apiGroup resource name.
        verb \<in> set (pr_Verbs rule) \<and> apiGroup \<in> set (pr_APIGroups rule) \<and>
        (resource \<in> set (pr_Resources rule) \<or> pr_Resources rule = [] \<and> resource = ''*'') \<and>
        (name \<in> set (pr_ResourceNames rule) \<or> pr_ResourceNames rule = [] \<and> name = [])}"

definition ruleReviews :: "SubjectAccessReview \<Rightarrow> string \<Rightarrow> PolicyRule \<Rightarrow> SubjectAccessReview set" where
  "ruleReviews sar cur rule =
     (if pr_NonResourceURLs rule \<noteq> [] then
        {sar\<lparr>sa_NonResource := Some \<lparr>na_Path = url, na_Verb = verb\<rparr>\<rparr> | url verb.
           url \<in> set (pr_NonResourceURLs rule) \<and> verb \<in> set (pr_Verbs rule)}
      else (\<Union>namespace \<in> resolved rule cur. resourceReviews sar rule namespace))"

definition wellformed :: "string \<Rightarrow> PolicyRule \<Rightarrow> bool" where
  "wellformed cur rule \<longleftrightarrow>
     (if pr_NonResourceURLs rule \<noteq> [] then pr_Verbs rule \<noteq> [] \<and> pr_APIGroups rule = []
      else resolved rule cur = {} \<or> pr_APIGroups rule \<noteq> [] \<and> pr_Verbs rule \<noteq> [])"

lemma resourceRequest_SAR:
  "sq_SAR (resourceRequest sar rule ns verb g res name) =
     sar\<lparr>sa_Resource := Some \<lparr>ra_Namespace = ns, ra_Verb = verb, ra_Group = g, ra_Version = ''*'',
        ra_Resource = fst (str_cut (CHR ''/'') res), ra_Subresource = fst (snd (str_cut (CHR ''/'') res)), ra_Name = name\<rparr>\<rparr>"
  by (simp add: resourceRequest_def split: prod.splits)

lemma getSARResourceRole_reviews:
  assumes "getSARResourceRole sar rule ns = Inr reqs"
  shows "sq_SAR ` set reqs = resourceReviews sar rule ns"
proof -
  let ?rule = "if pr_Resources rule = [] then rule\<lparr>pr_Resources := [''*'']\<rparr> else rule"
  let ?names = "if pr_ResourceNames ?rule = [] then [[]] else pr_ResourceNames ?rule"
  have "reqs = [resourceRequest sar ?rule ns verb g res name. verb \<leftarrow> pr_Verbs ?rule, g \<leftarrow> pr_APIGroups ?rule,
      res \<leftarrow> pr_Resources ?rule, name \<leftarrow> ?names]"
    using assms unfolding getSARResourceRole_def Let_def by (simp split: if_splits)
  then have "sq_SAR ` set reqs = {sq_SAR (resourceRequest sar ?rule ns verb g res name) | verb g res name.
      verb \<in> set (pr_Verbs ?rule) \<and> g \<in> set (pr_APIGroups ?rule) \<and> res \<in> set (pr_Resources ?rule) \<and> name \<in> set ?names}"
    by (auto simp del: if_image_distrib) blast+
  also have "\<dots> = resourceReviews sar rule ns"
    unfolding resourceReviews_def resourceRequest_SAR by (intro Collect_cong) auto
  finally show ?thesis .
qed

lemma getSARNonResourceRole_reviews:
  assumes "getSARNonResourceRole sar rule = Inr reqs"
  shows "sq_SAR ` set reqs = {sar\<lparr>sa_NonResource := Some \<lparr>na_Path = url, na_Verb = verb\<rparr>\<rparr> | url verb.
           url \<in> set (pr_NonResourceURLs rule) \<and> verb \<in> set (pr_Verbs rule)}"
  using assms by (auto simp: getSARNonResourceRole_def split: if_splits) force+

lemma ruleRequests_ok: "(\<forall>r \<in> set (ruleRequests sar cur rule). is_ok r) \<longleftrightarrow> wellformed cur rule"
  by (auto simp: ruleRequests_def wellformed_def getSARNonResourceRole_def getSARResourceRole_def Let_def
      ResolveNamespaces_set [symmetric])

lemma ruleRequests_reviews:
  assumes "wellformed cur rule"
  shows "(\<Union>reqs \<in> {reqs. Inr reqs \<in> set (ruleRequests sar cur rule)}. sq_SAR ` set reqs) = ruleReviews sar cur rule"
proof (cases "pr_NonResourceURLs rule \<noteq> []")
  case True
  with assms obtain reqs where "getSARNonResourceRole sar rule = Inr reqs"
    by (auto simp: getSARNonResourceRole_def wellformed_def)
  with True show ?thesis
    using getSARNonResourceRole_reviews [of sar rule reqs] by (simp add: ruleRequests_def ruleReviews_def)
next
  case False
  then have "set (ruleRequests sar cur rule) = getSARResourceRole sar rule ` resolved rule cur"
    by (simp add: ruleRequests_def ResolveNamespaces_set)
  then have "(\<Union>reqs \<in> {reqs. Inr reqs \<in> set (ruleRequests sar cur rule)}. sq_SAR ` set reqs) =
      (\<Union>ns \<in> resolved rule cur. \<Union>reqs \<in> {reqs. getSARResourceRole sar rule ns = Inr reqs}. sq_SAR ` set reqs)"
    by (simp add: Inr_image_UN)
  also have "\<dots> = (\<Union>ns \<in> resolved rule cur. resourceReviews sar rule ns)"
  proof (rule SUP_cong [OF refl])
    fix ns assume "ns \<in> resolved rule cur"
    with assms False obtain reqs where "getSARResourceRole sar rule ns = Inr reqs"
      by (auto simp: wellformed_def getSARResourceRole_def Let_def)
    then show "(\<Union>reqs \<in> {reqs. getSARResourceRole sar rule ns = Inr reqs}. sq_SAR ` set reqs) = resourceReviews sar rule ns"
      by (simp add: getSARResourceRole_reviews)
  qed
  finally show ?thesis using False by (simp add: ruleReviews_def)
qed

lemma getSARs_ok: "is_ok (getSARs sar rules cur) \<longleftrightarrow> (\<forall>rule \<in> set rules. wellformed cur rule)"
proof -
  have "is_ok (getSARs sar rules cur) \<longleftrightarrow> (\<forall>rule \<in> set rules. \<forall>r \<in> set (ruleRequests sar cur rule). is_ok r)"
    by (auto simp: getSARs_def Let_def lefts_Nil)
  then show ?thesis by (simp add: ruleRequests_ok)
qed

lemma getSARs_reviews:
  assumes "getSARs sar rules cur = Inr reqs"
  shows "sq_SAR ` set reqs = (\<Union>rule \<in> set rules. ruleReviews sar cur rule)"
proof -
  have wf: "wellformed cur rule" if "rule \<in> set rules" for rule
    using assms getSARs_ok [of sar rules cur] that by simp
  have "set reqs = (\<Union>rule \<in> set rules. \<Union>rs \<in> {rs. Inr rs \<in> set (ruleRequests sar cur rule)}. set rs)"
  proof -
    have "reqs = concat (rights (concat (map (ruleRequests sar cur) rules)))"
      using assms by (simp add: getSARs_def Let_def split: if_splits)
    then show ?thesis by (simp add: set_rights) blast
  qed
  then have "sq_SAR ` set reqs = (\<Union>rule \<in> set rules. \<Union>rs \<in> {rs. Inr rs \<in> set (ruleRequests sar cur rule)}. sq_SAR ` set rs)"
    by (simp add: image_UN)
  also have "\<dots> = (\<Union>rule \<in> set rules. ruleReviews sar cur rule)"
    by (rule SUP_cong [OF refl]) (rule ruleRequests_reviews [OF wf])
  finally show ?thesis .
qed

lemma permissionRequests_reviews:
  assumes "permissionRequests sar perms ns = Inr reqs"
  shows "sq_SAR ` set reqs = (\<Union>perm \<in> set perms. \<Union>rule \<in> set (GetRules perm). ruleReviews sar ns rule)"
proof -
  obtain rs where rs: "map_err (\<lambda>perm. getSARs sar (GetRules perm) ns) perms = Inr rs" "reqs = concat rs"
    using assms by (auto simp: permissionRequests_def bind_err_Inr)
  from rs(1) have "(\<Union>r \<in> set rs. sq_SAR ` set r) = (\<Union>perm \<in> set perms. \<Union>rule \<in> set (GetRules perm). ruleReviews sar ns rule)"
  proof (induction perms arbitrary: rs)
    case (Cons perm perms)
    then obtain r rs' where r: "getSARs sar (GetRules perm) ns = Inr r" "rs = r # rs'"
        "map_err (\<lambda>perm. getSARs sar (GetRules perm) ns) perms = Inr rs'"
      by (auto simp: bind_err_Inr)
    show ?case using Cons.IH [OF r(3)] getSARs_reviews [OF r(1)] by (simp add: r(2))
  qed simp
  then show ?thesis by (simp add: rs(2) image_UN)
qed

lemma escalation_None:
  assumes "reviews_end K" "checkPermissionsForPrivilegeEscalation K perms = None"
  shows "\<exists>user. va_user K = Some user \<and>
    (\<forall>perm \<in> set perms. \<forall>rule \<in> set (GetRules perm). \<forall>review \<in> ruleReviews (userReview user) (va_namespace K) rule.
       va_review K review = Inr True)"
proof -
  from assms(2) obtain user sars where u: "va_user K = Some user"
      and s: "permissionRequests (userReview user) perms (va_namespace K) = Inr sars" and c: "checkSARs K sars = None"
    by (auto simp: checkPermissionsForPrivilegeEscalation_def split: option.splits sum.splits)
  have "\<forall>review \<in> sq_SAR ` set sars. va_review K review = Inr True"
    using c checkSARs_None [OF assms(1)] by simp
  with u show ?thesis
    unfolding permissionRequests_reviews [OF s] by blast
qed

subsection \<open>Permissions that cover requests\<close>

definition rulesOf :: "Permissions list \<Rightarrow> string \<Rightarrow> PolicyRule set" where
  "rulesOf perms s = {r. \<exists>p \<in> set perms. pm_ServiceName p = s \<and> r \<in> set (pm_Rules p)}"

lemma rulesOf_simps [simp]:
  "rulesOf [] s = {}"
  "rulesOf (p # ps) s = (if pm_ServiceName p = s then set (pm_Rules p) else {}) \<union> rulesOf ps s"
  "rulesOf (ps @ qs) s = rulesOf ps s \<union> rulesOf qs s"
  by (auto simp: rulesOf_def)

lemma group_entry_rules: "group_entry s perms = Some q \<Longrightarrow> pm_ServiceName q = s \<and> set (pm_Rules q) = rulesOf perms s \<and> pm_ClusterRules q = []"
  by (auto simp: group_entry_def rulesOf_def split: if_splits)

lemma rulesOf_group: "r \<in> rulesOf perms s \<Longrightarrow> \<exists>q. group_entry s perms = Some q"
  by (force simp: group_entry_def rulesOf_def)

lemma grouped_rules:
  "set (GetRules (gm_get_or zero_Permissions (GroupByServiceName perms) s)) = rulesOf perms s"
  "rulesOf perms s \<noteq> {} \<Longrightarrow> pm_ServiceName (gm_get_or zero_Permissions (GroupByServiceName perms) s) = s"
  by (auto simp: gm_get_or_def GroupByServiceName_get group_entry_def rulesOf_def GetRules_def zero_Permissions_def)

lemma grouped_Grants:
  assumes "group_entry s req = Some q"
  shows "snd (Grants (gm_get_or zero_Permissions (GroupByServiceName perms) s) cur q) \<longleftrightarrow>
    (\<forall>r \<in> rulesOf req s. \<exists>g \<in> rulesOf perms s. PolicyRule_Grants g cur r)"
proof -
  let ?g = "gm_get_or zero_Permissions (GroupByServiceName perms) s"
  have "snd (Grants ?g cur q) \<longleftrightarrow> (\<forall>r \<in> set (pm_Rules q). Permissions_Grants ?g cur (pm_ServiceName q) r)"
    by (simp add: Grants_eq Let_def filter_empty_conv)
  also have "\<dots> \<longleftrightarrow> (\<forall>r \<in> rulesOf req s. pm_ServiceName ?g = s \<and> (\<exists>g \<in> rulesOf perms s. PolicyRule_Grants g cur r))"
    using group_entry_rules [OF assms] by (auto simp: Permissions_Grants_def list_ex_iff grouped_rules(1))
  also have "\<dots> \<longleftrightarrow> (\<forall>r \<in> rulesOf req s. \<exists>g \<in> rulesOf perms s. PolicyRule_Grants g cur r)"
    using grouped_rules(2) [of perms s] by blast
  finally show ?thesis .
qed

lemma checkRequested_None:
  "checkRequestedPermsSatisfyImagePerms cur req user img = None \<longleftrightarrow>
     (\<forall>s. \<forall>r \<in> rulesOf req s. \<exists>g \<in> rulesOf (user @ img) s. PolicyRule_Grants g cur r)"
proof -
  have entries: "(s, q) \<in> set (GroupByServiceName req) \<longleftrightarrow> group_entry s req = Some q" for s q
    using gm_get_in_set [OF GroupByServiceName_ok] GroupByServiceName_get by metis
  have "checkRequestedPermsSatisfyImagePerms cur req user img = None \<longleftrightarrow>
      (\<forall>s q. group_entry s req = Some q \<longrightarrow>
         snd (Grants (gm_get_or zero_Permissions (GroupByServiceName (user @ img)) s) cur q))"
    unfolding checkRequestedPermsSatisfyImagePerms_def Let_def firstError_None entries [symmetric] by (auto split: if_splits)
  also have "\<dots> \<longleftrightarrow> (\<forall>s q. group_entry s req = Some q \<longrightarrow>
      (\<forall>r \<in> rulesOf req s. \<exists>g \<in> rulesOf (user @ img) s. PolicyRule_Grants g cur r))"
    using grouped_Grants by blast
  also have "\<dots> \<longleftrightarrow> (\<forall>s. \<forall>r \<in> rulesOf req s. \<exists>g \<in> rulesOf (user @ img) s. PolicyRule_Grants g cur r)"
    using rulesOf_group by blast
  finally show ?thesis .
qed

subsection \<open>What an image asks for\<close>

definition containerRules :: "Container \<Rightarrow> PolicyRule set" where
  "containerRules c = (\<Union>c' \<in> insert c (snd ` set (c_Sidecars c)). set (GetRules (Permissions_Get (c_Permissions (c_fields c')))))"

lemma rulesOf_filter: "rulesOf (filter (\<lambda>p. GetRules p \<noteq> []) ps) s = rulesOf ps s"
  by (induction ps) (simp_all add: GetRules_def)

definition containerPermissions :: "string \<Rightarrow> string \<times> Container \<Rightarrow> Permissions" where
  "containerPermissions pfx entry =
     zero_Permissions\<lparr>pm_ServiceName := pfx @ fst entry,
       pm_Rules := GetRules (Permissions_Get (c_Permissions (c_fields (snd entry)))) @
         concat (map (\<lambda>(_, sidecar). GetRules (Permissions_Get (c_Permissions (c_fields sidecar)))) (typed_Sorted (c_Sidecars (snd entry))))\<rparr>"

lemma containerPermissions_simps:
  "pm_ServiceName (containerPermissions pfx (name, c)) = pfx @ name"
  "set (pm_Rules (containerPermissions pfx (name, c))) = containerRules c"
  by (simp_all add: containerPermissions_def containerRules_def case_prod_beta)

lemma rulesOf_buildPermissionsFrom:
  "rulesOf (buildPermissionsFrom pfx containers) s = {r. \<exists>name c. (name, c) \<in> set containers \<and> s = pfx @ name \<and> r \<in> containerRules c}"
proof -
  have "rulesOf (map (containerPermissions pfx) xs) s = {r. \<exists>name c. (name, c) \<in> set xs \<and> s = pfx @ name \<and> r \<in> containerRules c}" for xs
  proof (induction xs)
    case (Cons x xs)
    obtain name c where x: "x = (name, c)" by fastforce
    show ?case unfolding x list.map rulesOf_simps Cons.IH containerPermissions_simps by (cases "pfx @ name = s") (simp_all, blast+)
  qed simp
  moreover have "buildPermissionsFrom pfx containers = filter (\<lambda>p. GetRules p \<noteq> []) (map (containerPermissions pfx) (typed_Sorted containers))"
    by (simp add: buildPermissionsFrom_def containerPermissions_def [abs_def] case_prod_unfold)
  ultimately show ?thesis by (simp only: rulesOf_filter set_typed_Sorted)
qed

lemma rulesOf_addRules: "rulesOf (addRules s0 rules ps) s = rulesOf ps s \<union> (if s = s0 then set rules else {})"
proof (induction ps)
  case Nil
  then show ?case by simp
next
  case (Cons p ps)
  then show ?case by (cases "pm_ServiceName p = s0"; cases "s = s0") (simp_all add: Un_ac)
qed

lemma HasRules_GetRules: "HasRules (Some p) \<longleftrightarrow> GetRules p \<noteq> []"
  by (auto simp: HasRules_def GetRules_def)

lemma rulesOf_mergeInRules:
  "rulesOf (mergeInRules pfx existing newRules) s =
     rulesOf existing s \<union> {r. \<exists>svc p. (svc, p) \<in> set newRules \<and> s = pfx @ svc \<and> r \<in> set (GetRules p)}"
proof -
  have "rulesOf (foldl (\<lambda>result (svc, p). if \<not> HasRules (Some p) then result else addRules (pfx @ svc) (GetRules p) result) existing entries) s =
      rulesOf existing s \<union> {r. \<exists>svc p. (svc, p) \<in> set entries \<and> s = pfx @ svc \<and> r \<in> set (GetRules p)}" for entries
  proof (induction entries arbitrary: existing)
    case (Cons e entries)
    obtain svc p where e: "e = (svc, p)" by fastforce
    show ?case using Cons.IH by (auto simp: e rulesOf_addRules HasRules_GetRules)
  qed simp
  then show ?thesis by (simp add: mergeInRules_def)
qed

subsection \<open>Nested images\<close>

text \<open>
  An image \<open>img'\<close> with the details \<open>d'\<close> is nested under a name in the image \<open>img\<close>, and the app gives it the permissions \<open>perms\<close>.
\<close>

definition nestedCall :: "('e, 'f, 'q, 'r, 'i) validator \<Rightarrow> string \<Rightarrow> string \<Rightarrow> string list \<Rightarrow> 'f GenericMap \<Rightarrow> string \<Rightarrow> string \<Rightarrow>
    (string \<times> 'f ImageDetails) option" where
  "nestedCall K ns img profiles args originalImage acornImage =
     (let (img', name, digest) = (if IsImageDigest acornImage then (img, originalImage, acornImage) else (acornImage, [], []))
      in case getImageDetails K ns profiles args img' digest of
           Inl _ \<Rightarrow> None
         | Inr d \<Rightarrow> Some (img', d\<lparr>dt_AppImage := (dt_AppImage d)\<lparr>ig_Name := if name = [] then img' else name\<rparr>\<rparr>))"

definition nestedIn :: "('e, 'f, 'q, 'r, 'i) validator \<Rightarrow> string \<Rightarrow> string \<Rightarrow> 'f ImageDetails \<Rightarrow> string \<Rightarrow> (string, Permissions) gomap \<Rightarrow>
    string \<Rightarrow> 'f ImageDetails \<Rightarrow> bool" where
  "nestedIn K ns img d name perms img' d' \<longleftrightarrow>
     (\<exists>acornImage. GetImageReferenceForServiceName (va_semantic K) name (dt_AppSpec d) (dt_ImageData d) = (acornImage, True) \<and>
        ((\<exists>a. (name, a) \<in> set (as_Acorns (dt_AppSpec d)) \<and> perms = ac_Permissions a \<and>
              nestedCall K ns img (ac_Profiles a) (ac_DeployArgs a) (Acorn_GetOriginalImage a) acornImage = Some (img', d')) \<or>
         (\<exists>s. (name, s) \<in> set (as_Services (dt_AppSpec d)) \<and> perms = sv_Permissions s \<and>
              nestedCall K ns img [] (sv_ServiceArgs s) (Service_GetOriginalImage s) acornImage = Some (img', d'))))"

inductive asks :: "('e, 'f, 'q, 'r, 'i) validator \<Rightarrow> string \<Rightarrow> string \<Rightarrow> string \<Rightarrow> 'f ImageDetails \<Rightarrow> string \<Rightarrow> PolicyRule \<Rightarrow> bool"
  for K :: "('e, 'f, 'q, 'r, 'i) validator" and ns :: string where
  own: "(name, c) \<in> set (as_Containers (dt_AppSpec d)) \<union> set (as_Jobs (dt_AppSpec d)) \<Longrightarrow> r \<in> containerRules c \<Longrightarrow>
    asks K ns pfx img d (pfx @ name) r"
| given: "nestedIn K ns img d name perms img' d' \<Longrightarrow> (svc, p) \<in> set perms \<Longrightarrow> r \<in> set (GetRules p) \<Longrightarrow>
    asks K ns pfx img d (pfx @ name @ ''.'' @ svc) r"
| below: "nestedIn K ns img d name perms img' d' \<Longrightarrow> asks K ns (pfx @ name @ ''.'') img' d' s r \<Longrightarrow> asks K ns pfx img d s r"

lemma nestedPermissions_eq:
  "nestedPermissions rec K pfx ns img name profiles args orig acornImage perms st =
     (case nestedCall K ns img profiles args orig acornImage of
        None \<Rightarrow> (let (img', digest) = (if IsImageDigest acornImage then (img, acornImage) else (acornImage, []))
                 in Some (map_sum id (\<lambda>_. st) (getImageDetails K ns profiles args img' digest)))
      | Some (img', d') \<Rightarrow>
          bind_o (rec (pfx @ name @ ''.'') img' d') (\<lambda>(req, gr).
            Some (Inr (mergeInRules (pfx @ name @ ''.'') (fst st @ req) perms, snd st @ gr))))"
  by (auto simp: nestedPermissions_def nestedCall_def getImageRequestedPermissions_def bind_o_def Let_def
      split: sum.splits if_splits)

lemma bind_o_simps [simp]:
  "bind_o None k = None" "bind_o (Some (Inl e)) k = Some (Inl e)" "bind_o (Some (Inr x)) k = k x"
  by (simp_all add: bind_o_def)

lemma bind_o_Inr: "bind_o m k = Some (Inr y) \<longleftrightarrow> (\<exists>x. m = Some (Inr x) \<and> k x = Some (Inr y))"
  by (cases m) (auto simp: bind_o_def split: sum.splits)

lemma bind_o_None: "bind_o m k = None \<longleftrightarrow> m = None \<or> (\<exists>x. m = Some (Inr x) \<and> k x = None)"
  by (cases m) (auto simp: bind_o_def split: sum.splits)

lemma nestedPermissions_Inr:
  "nestedPermissions rec K pfx ns img name profiles args orig acornImage perms st = Some (Inr st') \<longleftrightarrow>
     (\<exists>img' d' req gr. nestedCall K ns img profiles args orig acornImage = Some (img', d') \<and>
        rec (pfx @ name @ ''.'') img' d' = Some (Inr (req, gr)) \<and>
        st' = (mergeInRules (pfx @ name @ ''.'') (fst st @ req) perms, snd st @ gr))"
proof (cases "nestedCall K ns img profiles args orig acornImage")
  case None
  then have "nestedPermissions rec K pfx ns img name profiles args orig acornImage perms st \<noteq> Some (Inr st')"
    by (auto simp: nestedPermissions_def getImageRequestedPermissions_def nestedCall_def bind_o_Inr Let_def split: sum.splits if_splits)
  with None show ?thesis by simp
next
  case (Some r)
  then show ?thesis by (cases r) (auto simp: nestedPermissions_eq bind_o_Inr)
qed


lemma each_o_inv:
  assumes "each_o f xs st = Some (Inr st')" "I st" "\<And>x a b. x \<in> set xs \<Longrightarrow> I a \<Longrightarrow> f x a = Some (Inr b) \<Longrightarrow> I b"
  shows "I st'"
  using assms by (induction xs arbitrary: st) (auto simp: bind_o_Inr)

lemma each_o_visits:
  assumes "each_o f xs st = Some (Inr st')" "x \<in> set xs" "\<And>y a b. f y a = Some (Inr b) \<Longrightarrow> L a \<subseteq> L b"
  shows "\<exists>a b. f x a = Some (Inr b) \<and> L b \<subseteq> (L st' :: 'z set)"
  using assms
proof (induction xs arbitrary: st)
  case (Cons y xs)
  then obtain a where a: "f y st = Some (Inr a)" "each_o f xs a = Some (Inr st')" by (auto simp: bind_o_Inr)
  have "L a \<subseteq> L st'"
    by (rule each_o_inv [OF a(2), of "\<lambda>b. L a \<subseteq> L b"]) (use Cons.prems(3) in blast)+
  show ?case
  proof (cases "x = y")
    case False
    then show ?thesis using Cons.IH [OF a(2)] Cons.prems(2,3) by simp
  qed (use a \<open>L a \<subseteq> L st'\<close> in blast)
qed simp

lemma each_o_mono_set:
  assumes "each_o f xs st = Some (Inr st')" "\<And>y a b. f y a = Some (Inr b) \<Longrightarrow> L a \<subseteq> L b"
  shows "L st \<subseteq> (L st' :: 'z set)"
  by (rule each_o_inv [OF assms(1), of "\<lambda>b. L st \<subseteq> L b"]) (use assms(2) in blast)+

definition addedFor :: "string \<Rightarrow> string \<Rightarrow> (string, Permissions) gomap \<Rightarrow> Permissions list \<Rightarrow> string \<Rightarrow> PolicyRule set" where
  "addedFor pfx name perms req s =
     rulesOf req s \<union> {r. \<exists>svc p. (svc, p) \<in> set perms \<and> s = pfx @ name @ ''.'' @ svc \<and> r \<in> set (GetRules p)}"

lemma merged_rules: "rulesOf (mergeInRules (pfx @ name @ ''.'') (old @ req) perms) s = rulesOf old s \<union> addedFor pfx name perms req s"
  by (simp add: rulesOf_mergeInRules addedFor_def Un_assoc)

lemma acornPermissions_Inr:
  "acornPermissions rec K pfx app ns img data (name, a) st = Some (Inr st') \<longleftrightarrow>
     (\<exists>acornImage. GetImageReferenceForServiceName (va_semantic K) name app data = (acornImage, True) \<and>
        nestedPermissions rec K pfx ns img name (ac_Profiles a) (ac_DeployArgs a) (Acorn_GetOriginalImage a) acornImage (ac_Permissions a) st = Some (Inr st'))"
  by (auto simp: acornPermissions_def split: prod.splits bool.splits)

lemma servicePermissions_Inr:
  "servicePermissions rec K pfx app ns img data (name, sv) st = Some (Inr st') \<longleftrightarrow>
     snd (GetImageReferenceForServiceName (va_semantic K) name app data) = False \<and> st' = st \<or>
     (\<exists>acornImage. GetImageReferenceForServiceName (va_semantic K) name app data = (acornImage, True) \<and>
        nestedPermissions rec K pfx ns img name [] (sv_ServiceArgs sv) (Service_GetOriginalImage sv) acornImage (sv_Permissions sv) st = Some (Inr st'))"
  by (auto simp: servicePermissions_def split: prod.splits bool.splits)

lemmas nested_steps = acornPermissions_Inr servicePermissions_Inr nestedPermissions_Inr

lemma acorn_step_grows:
  "acornPermissions rec K pfx app ns img data e st = Some (Inr st') \<Longrightarrow> rulesOf (fst st) s \<subseteq> rulesOf (fst st') s"
  by (cases e) (auto simp: nested_steps merged_rules)

lemma service_step_grows:
  "servicePermissions rec K pfx app ns img data e st = Some (Inr st') \<Longrightarrow> rulesOf (fst st) s \<subseteq> rulesOf (fst st') s"
  by (cases e) (auto simp: nested_steps merged_rules)

lemma buildNested_Inr:
  "buildNestedImagePermissions rec K pfx app ns img data = Some (Inr st') \<longleftrightarrow>
     (\<exists>st. each_o (acornPermissions rec K pfx app ns img data) (typed_Sorted (as_Acorns app)) ([], []) = Some (Inr st) \<and>
           each_o (servicePermissions rec K pfx app ns img data) (typed_Sorted (as_Services app)) st = Some (Inr st'))"
  by (auto simp: buildNestedImagePermissions_def bind_o_Inr)

text \<open>Everything in the result was added for a nested image, and everything a nested image adds is in the result.\<close>

definition contributes :: "('e, 'f) get_permissions \<Rightarrow> ('e, 'f, 'q, 'r, 'i) validator \<Rightarrow> string \<Rightarrow> string \<Rightarrow> string \<Rightarrow> 'f ImageDetails \<Rightarrow> string \<Rightarrow> PolicyRule \<Rightarrow> bool" where
  "contributes rec K ns pfx img d s r \<longleftrightarrow>
     (\<exists>name perms img' d' req gr. nestedIn K ns img d name perms img' d' \<and> rec (pfx @ name @ ''.'') img' d' = Some (Inr (req, gr)) \<and>
        r \<in> addedFor pfx name perms req s)"

lemma nested_step_sound:
  assumes "acornPermissions rec K pfx (dt_AppSpec d) ns img (dt_ImageData d) e st = Some (Inr st')" "e \<in> set (as_Acorns (dt_AppSpec d))"
  shows "rulesOf (fst st') s \<subseteq> rulesOf (fst st) s \<union> {r. contributes rec K ns pfx img d s r}"
proof -
  obtain name a where e: "e = (name, a)" by fastforce
  obtain ref img' d' req gr where *: "GetImageReferenceForServiceName (va_semantic K) name (dt_AppSpec d) (dt_ImageData d) = (ref, True)"
      "nestedCall K ns img (ac_Profiles a) (ac_DeployArgs a) (Acorn_GetOriginalImage a) ref = Some (img', d')"
      "rec (pfx @ name @ ''.'') img' d' = Some (Inr (req, gr))"
      "st' = (mergeInRules (pfx @ name @ ''.'') (fst st @ req) (ac_Permissions a), snd st @ gr)"
    using assms(1) unfolding e acornPermissions_Inr nestedPermissions_Inr by blast
  have "nestedIn K ns img d name (ac_Permissions a) img' d'"
    using assms(2) * unfolding e nestedIn_def by blast
  then show ?thesis
    using *(3) unfolding *(4) fst_conv merged_rules contributes_def by blast
qed

lemma nested_step_sound_service:
  assumes "servicePermissions rec K pfx (dt_AppSpec d) ns img (dt_ImageData d) e st = Some (Inr st')" "e \<in> set (as_Services (dt_AppSpec d))"
  shows "rulesOf (fst st') s \<subseteq> rulesOf (fst st) s \<union> {r. contributes rec K ns pfx img d s r}"
proof -
  obtain name sv where e: "e = (name, sv)" by fastforce
  consider "st' = st"
    | ref img' d' req gr where "GetImageReferenceForServiceName (va_semantic K) name (dt_AppSpec d) (dt_ImageData d) = (ref, True)"
      "nestedCall K ns img [] (sv_ServiceArgs sv) (Service_GetOriginalImage sv) ref = Some (img', d')"
      "rec (pfx @ name @ ''.'') img' d' = Some (Inr (req, gr))"
      "st' = (mergeInRules (pfx @ name @ ''.'') (fst st @ req) (sv_Permissions sv), snd st @ gr)"
    using assms(1) unfolding e servicePermissions_Inr nestedPermissions_Inr by blast
  then show ?thesis
  proof cases
    case 2
    then have "nestedIn K ns img d name (sv_Permissions sv) img' d'"
      using assms(2) unfolding e nestedIn_def by blast
    then show ?thesis
      using 2(3) unfolding 2(4) fst_conv merged_rules contributes_def by blast
  qed simp
qed

lemma buildNested_sound:
  assumes "buildNestedImagePermissions rec K pfx (dt_AppSpec d) ns img (dt_ImageData d) = Some (Inr st')"
  shows "rulesOf (fst st') s \<subseteq> {r. contributes rec K ns pfx img d s r}"
proof -
  obtain st where st: "each_o (acornPermissions rec K pfx (dt_AppSpec d) ns img (dt_ImageData d)) (typed_Sorted (as_Acorns (dt_AppSpec d))) ([], []) = Some (Inr st)"
      "each_o (servicePermissions rec K pfx (dt_AppSpec d) ns img (dt_ImageData d)) (typed_Sorted (as_Services (dt_AppSpec d))) st = Some (Inr st')"
    using assms unfolding buildNested_Inr by blast
  have "rulesOf (fst st) s \<subseteq> {r. contributes rec K ns pfx img d s r}"
    by (rule each_o_inv [OF st(1), of "\<lambda>a. rulesOf (fst a) s \<subseteq> _"]) (simp, use nested_step_sound set_typed_Sorted in blast)
  then show ?thesis
    by (rule each_o_inv [OF st(2), of "\<lambda>a. rulesOf (fst a) s \<subseteq> _"]) (use nested_step_sound_service set_typed_Sorted in blast)
qed

lemma buildNested_complete:
  assumes "buildNestedImagePermissions rec K pfx (dt_AppSpec d) ns img (dt_ImageData d) = Some (Inr st')"
    and "nestedIn K ns img d name perms img' d'"
  shows "\<exists>req gr. rec (pfx @ name @ ''.'') img' d' = Some (Inr (req, gr)) \<and> addedFor pfx name perms req s \<subseteq> rulesOf (fst st') s"
proof -
  let ?app = "dt_AppSpec d" and ?data = "dt_ImageData d"
  obtain st where st: "each_o (acornPermissions rec K pfx ?app ns img ?data) (typed_Sorted (as_Acorns ?app)) ([], []) = Some (Inr st)"
      "each_o (servicePermissions rec K pfx ?app ns img ?data) (typed_Sorted (as_Services ?app)) st = Some (Inr st')"
    using assms(1) unfolding buildNested_Inr by blast
  have grows: "rulesOf (fst st) s \<subseteq> rulesOf (fst st') s"
    by (rule each_o_mono_set [OF st(2), of "\<lambda>a. rulesOf (fst a) s"]) (rule service_step_grows)
  obtain ref where ref: "GetImageReferenceForServiceName (va_semantic K) name ?app ?data = (ref, True)"
    and kind: "(\<exists>a. (name, a) \<in> set (as_Acorns ?app) \<and> perms = ac_Permissions a \<and>
        nestedCall K ns img (ac_Profiles a) (ac_DeployArgs a) (Acorn_GetOriginalImage a) ref = Some (img', d')) \<or>
      (\<exists>sv. (name, sv) \<in> set (as_Services ?app) \<and> perms = sv_Permissions sv \<and>
        nestedCall K ns img [] (sv_ServiceArgs sv) (Service_GetOriginalImage sv) ref = Some (img', d'))"
    using assms(2) unfolding nestedIn_def by blast
  from kind show ?thesis
  proof (elim disjE exE conjE)
    fix a assume a: "(name, a) \<in> set (as_Acorns ?app)" "perms = ac_Permissions a"
      "nestedCall K ns img (ac_Profiles a) (ac_DeployArgs a) (Acorn_GetOriginalImage a) ref = Some (img', d')"
    have "\<exists>x y. acornPermissions rec K pfx ?app ns img ?data (name, a) x = Some (Inr y) \<and> rulesOf (fst y) s \<subseteq> rulesOf (fst st) s"
      by (rule each_o_visits [OF st(1)]) (use a(1) in simp, rule acorn_step_grows)
    then show ?thesis
      using grows a(2,3) ref by (fastforce simp: acornPermissions_Inr nestedPermissions_Inr merged_rules)
  next
    fix sv assume a: "(name, sv) \<in> set (as_Services ?app)" "perms = sv_Permissions sv"
      "nestedCall K ns img [] (sv_ServiceArgs sv) (Service_GetOriginalImage sv) ref = Some (img', d')"
    have "\<exists>x y. servicePermissions rec K pfx ?app ns img ?data (name, sv) x = Some (Inr y) \<and> rulesOf (fst y) s \<subseteq> rulesOf (fst st') s"
      by (rule each_o_visits [OF st(2)]) (use a(1) in simp, rule service_step_grows)
    then show ?thesis
      using a(2,3) ref by (fastforce simp: servicePermissions_Inr nestedPermissions_Inr merged_rules)
  qed
qed

lemma imageGrants_False: "imageGrants K d perms = Inr b \<Longrightarrow> b = False"
  unfolding imageGrants_def bind_err_Inr by (elim exE conjE) (simp split: option.splits cause.splits)

definition getPermissionsBody :: "('e, 'f) get_permissions \<Rightarrow> ('e, 'f, 'q, 'r, 'i) validator \<Rightarrow> string \<Rightarrow> string \<Rightarrow> string \<Rightarrow> 'f ImageDetails \<Rightarrow>
    Permissions list \<Rightarrow> Permissions list \<Rightarrow> bool" where
  "getPermissionsBody rec K ns pfx img d req gr \<longleftrightarrow>
     (\<exists>sub. buildNestedImagePermissions rec K pfx (dt_AppSpec d) ns img (dt_ImageData d) = Some (Inr sub) \<and>
        req = buildPermissionsFrom pfx (as_Containers (dt_AppSpec d)) @ buildPermissionsFrom pfx (as_Jobs (dt_AppSpec d)) @ fst sub \<and>
        gr = snd sub)"

lemma getPermissions_body:
  assumes "(let own = buildPermissionsFrom pfx (as_Containers (dt_AppSpec d)) @ buildPermissionsFrom pfx (as_Jobs (dt_AppSpec d))
      in case imageGrants K d own of
           Inl e \<Rightarrow> Some (Inl e)
         | Inr isGranted \<Rightarrow>
             bind_o (buildNestedImagePermissions rec K pfx (dt_AppSpec d) ns img (dt_ImageData d)) (\<lambda>(sub, subGranted).
               Some (Inr ((if isGranted then [] else own) @ sub, (if isGranted then own else []) @ subGranted)))) = Some (Inr (req, gr))"
  shows "getPermissionsBody rec K ns pfx img d req gr"
  using assms
  by (auto simp: getPermissionsBody_def Let_def bind_o_Inr split: sum.splits dest: imageGrants_False)

lemma getPermissions_Inr:
  "getPermissions K ns pfx img d = Some (Inr (req, gr)) \<Longrightarrow> getPermissionsBody (getPermissions K ns) K ns pfx img d req gr"
  by (subst (asm) getPermissions.simps) (rule getPermissions_body)

lemma body_rules:
  assumes "getPermissionsBody rec K ns pfx img d req gr"
  obtains sub where "buildNestedImagePermissions rec K pfx (dt_AppSpec d) ns img (dt_ImageData d) = Some (Inr sub)" "gr = snd sub"
    "\<And>s. rulesOf req s = {r. \<exists>name c. (name, c) \<in> set (as_Containers (dt_AppSpec d)) \<union> set (as_Jobs (dt_AppSpec d)) \<and> s = pfx @ name \<and>
        r \<in> containerRules c} \<union> rulesOf (fst sub) s"
  using assms unfolding getPermissionsBody_def
  by (elim exE conjE, intro that) (auto simp: rulesOf_buildPermissionsFrom)

lemma buildNested_granted:
  assumes "buildNestedImagePermissions rec K pfx app ns img data = Some (Inr st')" "\<And>p i d req gr. rec p i d = Some (Inr (req, gr)) \<Longrightarrow> gr = []"
  shows "snd st' = []"
proof -
  have a: "snd y = []" if "acornPermissions rec K pfx app ns img data e x = Some (Inr y)" "snd x = []" for e x y
    using that assms(2) by (cases e) (auto simp: nested_steps)
  have s: "snd y = []" if "servicePermissions rec K pfx app ns img data e x = Some (Inr y)" "snd x = []" for e x y
    using that assms(2) by (cases e) (auto simp: nested_steps)
  obtain st where st: "each_o (acornPermissions rec K pfx app ns img data) (typed_Sorted (as_Acorns app)) ([], []) = Some (Inr st)"
      "each_o (servicePermissions rec K pfx app ns img data) (typed_Sorted (as_Services app)) st = Some (Inr st')"
    using assms(1) unfolding buildNested_Inr by blast
  have "snd st = []" by (rule each_o_inv [OF st(1), of "\<lambda>x. snd x = []"]) (use a in auto)
  then show ?thesis by (rule each_o_inv [OF st(2), of "\<lambda>x. snd x = []"]) (use s in auto)
qed

lemma getPermissions_sound:
  "getPermissions K ns pfx img d = Some y \<Longrightarrow> y = Inr (req, gr) \<Longrightarrow> gr = [] \<and> (\<forall>s. rulesOf req s \<subseteq> {r. asks K ns pfx img d s r})"
proof (induction K ns pfx img d y arbitrary: req gr rule: getPermissions.raw_induct [rotated, consumes 1])
  case (1 rec K ns pfx img d y)
  have IH: "gr = [] \<and> (\<forall>s. rulesOf req s \<subseteq> {r. asks K ns p i d' s r})" if "rec K ns p i d' = Some (Inr (req, gr))" for p i d' req gr
    using 1(1) [OF that] by simp
  obtain sub where sub: "buildNestedImagePermissions (rec K ns) K pfx (dt_AppSpec d) ns img (dt_ImageData d) = Some (Inr sub)" "gr = snd sub"
    "\<And>s. rulesOf req s = {r. \<exists>name c. (name, c) \<in> set (as_Containers (dt_AppSpec d)) \<union> set (as_Jobs (dt_AppSpec d)) \<and> s = pfx @ name \<and>
        r \<in> containerRules c} \<union> rulesOf (fst sub) s"
    using 1(2,3) by (auto elim!: body_rules [OF getPermissions_body])
  have "contributes (rec K ns) K ns pfx img d s r \<Longrightarrow> asks K ns pfx img d s r" for s r
    using IH unfolding contributes_def addedFor_def by (fastforce intro: asks.given asks.below)
  with buildNested_sound [OF sub(1)] have "rulesOf (fst sub) s \<subseteq> {r. asks K ns pfx img d s r}" for s
    by blast
  moreover have "gr = []" using buildNested_granted [OF sub(1)] IH sub(2) by blast
  ultimately show ?case unfolding sub(3) by (blast intro: asks.own)
qed

lemma getPermissions_complete:
  "asks K ns pfx img d s r \<Longrightarrow> getPermissions K ns pfx img d = Some (Inr (req, gr)) \<Longrightarrow> r \<in> rulesOf req s"
proof (induction arbitrary: req gr rule: asks.induct)
  case (own name c d r pfx img)
  then show ?case by (auto elim!: body_rules [OF getPermissions_Inr])
next
  case (given img d name perms img' d' svc p r pfx)
  from given.prems obtain sub where sub: "buildNestedImagePermissions (getPermissions K ns) K pfx (dt_AppSpec d) ns img (dt_ImageData d) = Some (Inr sub)"
      "rulesOf (fst sub) (pfx @ name @ ''.'' @ svc) \<subseteq> rulesOf req (pfx @ name @ ''.'' @ svc)"
    by (auto elim!: body_rules [OF getPermissions_Inr])
  from buildNested_complete [OF sub(1) given.hyps(1), of "pfx @ name @ ''.'' @ svc"] sub(2) given.hyps(2,3)
  show ?case by (auto simp: addedFor_def)
next
  case (below img d name perms img' d' pfx s r)
  from below.prems obtain sub where sub: "buildNestedImagePermissions (getPermissions K ns) K pfx (dt_AppSpec d) ns img (dt_ImageData d) = Some (Inr sub)"
      "rulesOf (fst sub) s \<subseteq> rulesOf req s"
    by (auto elim!: body_rules [OF getPermissions_Inr])
  from buildNested_complete [OF sub(1) below.hyps(1), of s] sub(2) below.IH
  show ?case unfolding addedFor_def by blast
qed

subsection \<open>Termination\<close>

definition nesting :: "('e, 'f, 'q, 'r, 'i) validator \<Rightarrow> string \<Rightarrow> ((string \<times> 'f ImageDetails) \<times> (string \<times> 'f ImageDetails)) set" where
  "nesting K ns = {((img', d'), (img, d)). \<exists>name perms. nestedIn K ns img d name perms img' d'}"

lemma each_o_returns: "(\<And>x st. x \<in> set xs \<Longrightarrow> f x st \<noteq> None) \<Longrightarrow> each_o f xs st \<noteq> None"
  by (induction xs arbitrary: st) (simp_all add: bind_o_None)

lemma nestedPermissions_None:
  "nestedPermissions rec K pfx ns img name profiles args orig ref perms st = None \<Longrightarrow>
   \<exists>img' d'. nestedCall K ns img profiles args orig ref = Some (img', d') \<and> rec (pfx @ name @ ''.'') img' d' = None"
  by (auto simp: nestedPermissions_def nestedCall_def getImageRequestedPermissions_def bind_o_None Let_def split: sum.splits if_splits)

lemma nestedIn_acorn:
  "GetImageReferenceForServiceName (va_semantic K) name (dt_AppSpec d) (dt_ImageData d) = (ref, True) \<Longrightarrow>
   (name, a) \<in> set (as_Acorns (dt_AppSpec d)) \<Longrightarrow>
   nestedCall K ns img (ac_Profiles a) (ac_DeployArgs a) (Acorn_GetOriginalImage a) ref = Some (img', d') \<Longrightarrow>
   nestedIn K ns img d name (ac_Permissions a) img' d'"
  unfolding nestedIn_def by blast

lemma nestedIn_service:
  "GetImageReferenceForServiceName (va_semantic K) name (dt_AppSpec d) (dt_ImageData d) = (ref, True) \<Longrightarrow>
   (name, sv) \<in> set (as_Services (dt_AppSpec d)) \<Longrightarrow>
   nestedCall K ns img [] (sv_ServiceArgs sv) (Service_GetOriginalImage sv) ref = Some (img', d') \<Longrightarrow>
   nestedIn K ns img d name (sv_Permissions sv) img' d'"
  unfolding nestedIn_def by blast

lemma buildNested_returns:
  assumes "\<And>name perms img' d'. nestedIn K ns img d name perms img' d' \<Longrightarrow> rec (pfx @ name @ ''.'') img' d' \<noteq> None"
  shows "buildNestedImagePermissions rec K pfx (dt_AppSpec d) ns img (dt_ImageData d) \<noteq> None"
proof -
  have "acornPermissions rec K pfx (dt_AppSpec d) ns img (dt_ImageData d) e st \<noteq> None" if "e \<in> set (typed_Sorted (as_Acorns (dt_AppSpec d)))" for e st
  proof
    assume none: "acornPermissions rec K pfx (dt_AppSpec d) ns img (dt_ImageData d) e st = None"
    obtain name a where e: "e = (name, a)" by fastforce
    from none obtain ref where ref: "GetImageReferenceForServiceName (va_semantic K) name (dt_AppSpec d) (dt_ImageData d) = (ref, True)"
        and n: "nestedPermissions rec K pfx ns img name (ac_Profiles a) (ac_DeployArgs a) (Acorn_GetOriginalImage a) ref (ac_Permissions a) st = None"
      by (auto simp: e acornPermissions_def split: prod.splits bool.splits)
    from nestedPermissions_None [OF n] ref that assms show False unfolding e set_typed_Sorted by (blast intro: nestedIn_acorn)
  qed
  moreover have "servicePermissions rec K pfx (dt_AppSpec d) ns img (dt_ImageData d) e st \<noteq> None"
    if "e \<in> set (typed_Sorted (as_Services (dt_AppSpec d)))" for e st
  proof
    assume none: "servicePermissions rec K pfx (dt_AppSpec d) ns img (dt_ImageData d) e st = None"
    obtain name sv where e: "e = (name, sv)" by fastforce
    from none obtain ref where ref: "GetImageReferenceForServiceName (va_semantic K) name (dt_AppSpec d) (dt_ImageData d) = (ref, True)"
        and n: "nestedPermissions rec K pfx ns img name [] (sv_ServiceArgs sv) (Service_GetOriginalImage sv) ref (sv_Permissions sv) st = None"
      by (auto simp: e servicePermissions_def split: prod.splits bool.splits)
    from nestedPermissions_None [OF n] ref that assms show False unfolding e set_typed_Sorted by (blast intro: nestedIn_service)
  qed
  ultimately show ?thesis
    unfolding buildNestedImagePermissions_def bind_o_None de_Morgan_disj not_ex de_Morgan_conj
    by (intro conjI allI disjI2 each_o_returns)
qed

lemma getPermissions_returns:
  assumes "wf (nesting K ns)"
  shows "getPermissions K ns pfx img d \<noteq> None"
  using assms
proof (induction "(img, d)" arbitrary: img d pfx rule: wf_induct_rule)
  case less
  have "buildNestedImagePermissions (getPermissions K ns) K pfx (dt_AppSpec d) ns img (dt_ImageData d) \<noteq> None"
    by (rule buildNested_returns) (rule less, auto simp: nesting_def)
  then show ?case
    by (subst getPermissions.simps) (simp add: Let_def bind_o_None case_prod_beta del: not_None_eq split: sum.splits)
qed

subsection \<open>Accepted apps\<close>

lemma Validate_accepted:
  assumes "App_Validate K app = Some (Inr ([], app'))"
  obtains granted where "grantedPermissions K app = Some (Inr granted)" "app' = setGranted granted app"
      "checkPermissionsForPrivilegeEscalation K (ai_Permissions (app_Spec app)) = None"
    | "grantedPermissions K app = Some (Inl (Rejected []))"
  using assms by (auto simp: App_Validate_def split: option.splits sum.splits stop.splits)

definition rejects :: "'e stop + 'a \<Rightarrow> bool" where
  "rejects r \<longleftrightarrow> (\<forall>errs. r = Inl (Rejected errs) \<longrightarrow> errs \<noteq> [])"

lemma rejects_bind: "rejects r \<Longrightarrow> (\<And>x. r = Inr x \<Longrightarrow> rejects (k x)) \<Longrightarrow> rejects (bind_err r k)"
  by (cases r) (auto simp: rejects_def)

lemma rejects_simps [simp]:
  "rejects (Inr x)" "rejects (ofOption path r)" "rejects (ofResult path r')" "rejects (Inl (reject path c))" "rejects (Inl (Panicked p))"
  "rejects (Inl (Rejected (e # es)))"
  by (auto simp: rejects_def ofOption_def ofResult_def reject_def split: option.splits) (cases r'; simp add: reject_def)

lemma rejects_each: "(\<And>x st. rejects (f x st)) \<Longrightarrow> rejects (each_err f xs st)"
  by (induction xs arbitrary: st) (simp_all add: rejects_bind)

lemma rejects_MustParse [simp]: "rejects (MustParseResourceQuantity K s)"
  by (simp add: MustParseResourceQuantity_def split: sum.splits)

lemma rejects_validateSize [simp]: "rejects (validateSize K vc name req)"
  by (simp add: validateSize_def rejects_bind)

lemma rejects_validateVolume [simp]: "rejects (validateVolume K byName def r0 r1 bindings entry u)"
  by (simp add: validateVolume_def rejects_bind Let_def split: prod.splits option.splits)

lemma rejects_validateVolumeClasses [simp]: "rejects (validateVolumeClasses K ns spec appSpec project)"
  by (simp add: validateVolumeClasses_def validateBindings_def rejects_bind rejects_each Let_def split: sum.splits option.splits prod.splits)

lemma rejects_checkRemoteImage [simp]: "rejects (checkRemoteImage K app img0 img local)"
  by (simp add: checkRemoteImage_def rejects_bind split: sum.splits)

lemma rejects_checkAllowed [simp]: "rejects (checkAllowed K app img0)"
  by (simp add: checkAllowed_def split: option.splits)

lemma rejects_checkWorkloads [simp]: "rejects (checkWorkloads K app project d)"
  by (auto simp: checkWorkloads_def rejects_def reject_def split: sum.splits prod.splits if_splits)

lemma rejects_imageToCheck [simp]: "rejects (imageToCheck K app)"
  by (simp add: imageToCheck_def Let_def split: prod.splits sum.splits)

lemma rejects_imageChecks [simp]: "rejects (imageChecks K app project img)"
  unfolding imageChecks_def Let_def by (intro rejects_bind) (auto simp: rejects_bind split: prod.splits)

lemma rejects_appChecks [simp]: "rejects (appChecks K app)"
  unfolding appChecks_def by (intro rejects_bind) simp_all

lemma granted_cases:
  assumes "grantedPermissions K app = Some (Inr granted)"
  obtains project where "appChecks K app = Inr (project, [])" "granted = []"
    | project img0 where "appChecks K app = Inr (project, img0)" "img0 \<noteq> []" "validateImage K app project img0 = Some (Inr granted)"
  using assms by (auto simp: grantedPermissions_def split: sum.splits prod.splits if_splits)

lemma granted_not_empty_rejection: "grantedPermissions K app \<noteq> Some (Inl (Rejected []))"
proof
  assume *: "grantedPermissions K app = Some (Inl (Rejected []))"
  have "appChecks K app \<noteq> Inl (Rejected [])"
    using rejects_appChecks [of K app] by (auto simp: rejects_def)
  with * obtain project img0 where v: "validateImage K app project img0 = Some (Inl (Rejected []))"
    by (auto simp: grantedPermissions_def split: sum.splits prod.splits if_splits)
  have "imageChecks K app project img0 \<noteq> Inl (Rejected [])"
    using rejects_imageChecks [of K app project img0] by (auto simp: rejects_def)
  with v obtain img d where g: "bind_o (map_option (ofResult [''spec'', ''permissions'']) (getPermissions K (om_Namespace (app_Meta app)) [] img d))
      (\<lambda>(requested, granted). Some (bind_err (ofOption [''spec'', ''permissions'']
         (checkRequestedPermsSatisfyImagePerms (om_Namespace (app_Meta app)) requested (ai_Permissions (app_Spec app)) granted)) (\<lambda>_. Inr granted))) =
      Some (Inl (Rejected []))"
    by (auto simp: validateImage_def split: sum.splits prod.splits)
  show False
  proof (cases "getPermissions K (om_Namespace (app_Meta app)) [] img d")
    case (Some r)
    with g show False by (cases r) (auto simp: ofResult_def ofOption_def reject_def bind_err_Inl split: prod.splits option.splits)
  qed (use g in simp)
qed

lemma accepted_cases:
  assumes "App_Validate K app = Some (Inr ([], app'))"
  obtains granted where "grantedPermissions K app = Some (Inr granted)" "app' = setGranted granted app"
      "checkPermissionsForPrivilegeEscalation K (ai_Permissions (app_Spec app)) = None"
  using assms by (rule Validate_accepted) (use that granted_not_empty_rejection in blast)+

lemma validateImage_Inr:
  fixes K :: "('e, 'f, 'q, 'r, 'i) validator"
  assumes "validateImage K app project img0 = Some (Inr granted)"
  obtains img d req where "imageChecks K app project img0 = Inr (img, d)"
    "getPermissions K (om_Namespace (app_Meta app)) [] img d = Some (Inr (req, granted))"
    "checkRequestedPermsSatisfyImagePerms (om_Namespace (app_Meta app)) req (ai_Permissions (app_Spec app)) granted = (None :: 'e cause option)"
proof -
  from assms obtain img d where i: "imageChecks K app project img0 = Inr (img, d)"
    and g: "bind_o (map_option (ofResult [''spec'', ''permissions'']) (getPermissions K (om_Namespace (app_Meta app)) [] img d))
      (\<lambda>(requested, granted). Some (bind_err (ofOption [''spec'', ''permissions'']
         (checkRequestedPermsSatisfyImagePerms (om_Namespace (app_Meta app)) requested (ai_Permissions (app_Spec app)) granted)) (\<lambda>_. Inr granted))) =
      Some (Inr granted)"
    by (auto simp: validateImage_def split: sum.splits prod.splits)
  from g obtain req gr where r: "map_option (ofResult [''spec'', ''permissions'']) (getPermissions K (om_Namespace (app_Meta app)) [] img d) = Some (Inr (req, gr))"
    and o: "ofOption [''spec'', ''permissions''] (checkRequestedPermsSatisfyImagePerms (om_Namespace (app_Meta app)) req (ai_Permissions (app_Spec app)) gr :: 'e cause option) = Inr ()"
      "gr = granted"
    by (auto simp: bind_o_Inr bind_err_Inr)
  from r obtain x where "getPermissions K (om_Namespace (app_Meta app)) [] img d = Some x" "ofResult [''spec'', ''permissions''] x = Inr (req, gr)"
    by (cases "getPermissions K (om_Namespace (app_Meta app)) [] img d") auto
  moreover from this have "x = Inr (req, gr)" by (cases x) (simp_all add: ofResult_def)
  moreover from o have "checkRequestedPermsSatisfyImagePerms (om_Namespace (app_Meta app)) req (ai_Permissions (app_Spec app)) granted = (None :: 'e cause option)"
    by (simp add: ofOption_def split: option.splits)
  ultimately show ?thesis using that i o(2) by blast
qed

lemma imageChecks_Inr:
  assumes "imageChecks K app project img0 = Inr (img, d)"
  shows "\<exists>local. resolveLocalImage K (om_Namespace (app_Meta app)) img0 = Inr (img, local)"
    and "getImageDetails K (om_Namespace (app_Meta app)) (ai_Profiles (app_Spec app)) (ai_DeployArgs (app_Spec app)) img [] = Inr d"
    and "ai_Stop (app_Spec app) = Some True \<or> checkImageAllowed K (om_Namespace (app_Meta app)) img0 = None"
    and "checkWorkloads K app project d = Inr ()"
    and "validateVolumeClasses K (om_Namespace (app_Meta app)) (app_Spec app) (dt_AppSpec d) project = Inr ()"
proof -
  have res: "ofResult path r = Inr x \<longleftrightarrow> r = Inr x" for path and r :: "'z cause + 'w" and x
    by (cases r) (simp_all add: ofResult_def)
  have ms: "map_sum ImageLookup id r = Inr x \<longleftrightarrow> r = Inr x" for r :: "'z image_error + 'w" and x
    by (cases r) simp_all
  note * = assms [unfolded imageChecks_def Let_def bind_err_Inr]
  from * show "\<exists>local. resolveLocalImage K (om_Namespace (app_Meta app)) img0 = Inr (img, local)"
    by (auto simp: bind_err_Inr res ms)
  from * show "getImageDetails K (om_Namespace (app_Meta app)) (ai_Profiles (app_Spec app)) (ai_DeployArgs (app_Spec app)) img [] = Inr d"
    by (auto simp: bind_err_Inr res)
  from * have "checkAllowed K app img0 = Inr ()" by (auto simp: bind_err_Inr)
  then show "ai_Stop (app_Spec app) = Some True \<or> checkImageAllowed K (om_Namespace (app_Meta app)) img0 = None"
    by (simp add: checkAllowed_def split: if_splits option.splits)
  from * show "checkWorkloads K app project d = Inr ()" by (auto simp: bind_err_Inr)
  from * show "validateVolumeClasses K (om_Namespace (app_Meta app)) (app_Spec app) (dt_AppSpec d) project = Inr ()" by (auto simp: bind_err_Inr)
qed

lemma appChecks_imageToCheck: "appChecks K app = Inr (project, img0) \<Longrightarrow> imageToCheck K app = Inr img0"
  by (auto simp: appChecks_def bind_err_Inr)

text \<open>The image of an accepted app, its details and what was checked about them.\<close>

lemma accepted_image:
  fixes K :: "('e, 'f, 'q, 'r, 'i) validator"
  assumes "App_Validate K app = Some (Inr ([], app'))" "imageToCheck K app = Inr img0" "img0 \<noteq> []"
  obtains project img d req granted where "appChecks K app = Inr (project, img0)" "imageChecks K app project img0 = Inr (img, d)"
    "getPermissions K (om_Namespace (app_Meta app)) [] img d = Some (Inr (req, granted))"
    "checkRequestedPermsSatisfyImagePerms (om_Namespace (app_Meta app)) req (ai_Permissions (app_Spec app)) granted = (None :: 'e cause option)"
    "app' = setGranted granted app"
proof -
  obtain granted where g: "grantedPermissions K app = Some (Inr granted)" "app' = setGranted granted app"
    using assms(1) by (rule accepted_cases)
  from g(1) obtain project where p: "appChecks K app = Inr (project, img0)" "validateImage K app project img0 = Some (Inr granted)"
    using assms(2,3) by (cases rule: granted_cases) (auto dest: appChecks_imageToCheck)
  from p(2) obtain img d req where "imageChecks K app project img0 = Inr (img, d)"
    "getPermissions K (om_Namespace (app_Meta app)) [] img d = Some (Inr (req, granted))"
    "checkRequestedPermsSatisfyImagePerms (om_Namespace (app_Meta app)) req (ai_Permissions (app_Spec app)) granted = (None :: 'e cause option)"
    by (rule validateImage_Inr)
  then show ?thesis by (rule that [OF p(1) _ _ _ g(2)])
qed

subsection \<open>Memory and volumes of accepted apps\<close>

definition memoryOk :: "('e, 'f, 'q, 'r, 'i) validator \<Rightarrow> apiComputeClass list \<Rightarrow> 'f AppInstanceSpec \<Rightarrow> string \<Rightarrow> int option \<Rightarrow> string \<times> Container \<Rightarrow> bool" where
  "memoryOk K classes spec defaultRegion specMemMaximum entry \<longleftrightarrow>
     (case getClassForWorkload classes (ai_ComputeClasses spec) (snd entry) (fst entry) of
        Inl _ \<Rightarrow> False
      | Inr None \<Rightarrow> \<exists>memDefault. snd (ValidateMemory (ai_Memory spec) (fst entry) (snd entry) memDefault specMemMaximum) = None
      | Inr (Some cc) \<Rightarrow>
          (ai_Region spec \<in> set (kc_SupportedRegions cc) \<or> defaultRegion \<in> set (kc_SupportedRegions cc)) \<and>
          (\<exists>wc memBytes. ParseComputeClassMemory (va_ParseQuantity K) (va_Value K) (kc_Memory cc) = Inr wc \<and>
             ValidateMemory (ai_Memory spec) (fst entry) (snd entry) (Some (mq_Def wc)) specMemMaximum = (memBytes, None) \<and>
             Validate (va_ParseQuantity K) (va_Value K) (kc_Memory cc) (va_NewQuantity K memBytes) (Some (mq_Def wc)) = Inr ()))"

lemma memoryErrors_Nil: "memoryErrors w err = [] \<longleftrightarrow> err = None"
  by (simp add: memoryErrors_def split: option.splits)

lemma classErrors_Nil: "classErrors r = [] \<longleftrightarrow> r = Inr ()"
  by (simp add: classErrors_def split: sum.splits class_error.splits)

lemma scheduling_step_ok:
  assumes "scheduling_step K classes spec region m entry (def, errs) = Inr (def', [])"
  shows "errs = [] \<and> memoryOk K classes spec region m entry"
proof -
  obtain w c where e: "entry = (w, c)" by fastforce
  show ?thesis
  proof (cases "getClassForWorkload classes (ai_ComputeClasses spec) c w")
    case (Inr r)
    then show ?thesis
      using assms
      by (cases r) (auto simp: e scheduling_step_def memoryOk_def memoryErrors_Nil classErrors_Nil Let_def split: if_splits sum.splits prod.splits)
  qed (use assms in \<open>simp add: e scheduling_step_def\<close>)
qed

lemma scheduling_ok:
  "each_err (scheduling_step K classes spec region m) ws (def, errs) = Inr (def', []) \<Longrightarrow>
   errs = [] \<and> (\<forall>entry \<in> set ws. memoryOk K classes spec region m entry)"
proof (induction ws arbitrary: "def" errs)
  case (Cons entry ws)
  then obtain d1 e1 where s: "scheduling_step K classes spec region m entry (def, errs) = Inr (d1, e1)"
      "each_err (scheduling_step K classes spec region m) ws (d1, e1) = Inr (def', [])"
    by (auto simp: bind_err_Inr)
  from Cons.IH [OF s(2)] s(1) show ?case using scheduling_step_ok by (metis set_ConsD)
qed simp

lemma each_err_all: "each_err f xs (u :: unit) = Inr v \<Longrightarrow> x \<in> set xs \<Longrightarrow> f x () = Inr ()"
  by (induction xs) (auto simp: bind_err_Inr)

definition volumeOk :: "('e, 'f, 'q, 'r, 'i) validator \<Rightarrow> VolumeClass \<Rightarrow> string \<Rightarrow> string \<Rightarrow> VolumeRequest \<Rightarrow> bool" where
  "volumeOk K vc defaultRegion region request \<longleftrightarrow>
     \<not> vc_Inactive vc \<and> (defaultRegion \<in> set (vc_SupportedRegions vc) \<or> region \<in> set (vc_SupportedRegions vc)) \<and>
     (vr_Size request \<noteq> [] \<longrightarrow> (\<exists>q. va_ParseQuantity K (vr_Size request) = Inr q \<and>
        (vc_SizeMin vc \<noteq> [] \<longrightarrow> (\<exists>m. va_ParseQuantity K (vc_SizeMin vc) = Inr m \<and> 0 \<le> va_Cmp K q m)) \<and>
        (vc_SizeMax vc \<noteq> [] \<longrightarrow> (\<exists>m. va_ParseQuantity K (vc_SizeMax vc) = Inr m \<and> va_Cmp K q m \<le> 0)))) \<and>
     (vc_AllowedAccessModes vc \<noteq> [] \<longrightarrow> set (vr_AccessModes request) \<subseteq> set (vc_AllowedAccessModes vc))"

lemma MustParse_Inr: "MustParseResourceQuantity K s = Inr q \<longleftrightarrow> va_ParseQuantity K s = Inr q"
  by (simp add: MustParseResourceQuantity_def split: sum.splits)

lemma validateSize_ok:
  "validateSize K vc name request = Inr () \<Longrightarrow> vr_Size request \<noteq> [] \<Longrightarrow>
   \<exists>q. va_ParseQuantity K (vr_Size request) = Inr q \<and>
     (vc_SizeMin vc \<noteq> [] \<longrightarrow> (\<exists>m. va_ParseQuantity K (vc_SizeMin vc) = Inr m \<and> 0 \<le> va_Cmp K q m)) \<and>
     (vc_SizeMax vc \<noteq> [] \<longrightarrow> (\<exists>m. va_ParseQuantity K (vc_SizeMax vc) = Inr m \<and> va_Cmp K q m \<le> 0))"
  by (auto simp: validateSize_def bind_err_Inr MustParse_Inr not_less split: if_splits)

lemma validateVolume_ok:
  assumes "validateVolume K byName def r0 r1 bindings (name, vol) () = Inr ()"
  shows "\<exists>vc. volumeClassFor byName def (vr_Class (CopyVolumeDefaults vol (gm_get_or zero_VolumeBinding bindings name) zero_VolumeDefault)) = Some vc \<and>
    volumeOk K vc r0 r1 (CopyVolumeDefaults vol (gm_get_or zero_VolumeBinding bindings name) zero_VolumeDefault)"
proof -
  let ?request = "CopyVolumeDefaults vol (gm_get_or zero_VolumeBinding bindings name) zero_VolumeDefault"
  from assms obtain vc where vc: "volumeClassFor byName def (vr_Class ?request) = Some vc"
    by (auto simp: validateVolume_def Let_def split: option.splits)
  with assms have "\<not> vc_Inactive vc \<and> (r0 \<in> set (vc_SupportedRegions vc) \<or> r1 \<in> set (vc_SupportedRegions vc))"
      "validateSize K vc name ?request = Inr ()"
      "vc_AllowedAccessModes vc \<noteq> [] \<longrightarrow> set (vr_AccessModes ?request) \<subseteq> set (vc_AllowedAccessModes vc)"
    by (auto simp: validateVolume_def Let_def bind_err_Inr find_None_iff split: if_splits option.splits)
  with vc show ?thesis
    unfolding volumeOk_def using validateSize_ok [of K vc name ?request] by blast
qed

subsection \<open>A sample\<close>

definition demo_rule :: PolicyRule where
  "demo_rule = zero_PolicyRule\<lparr>pr_Verbs := [''get''], pr_APIGroups := [''api.acorn.io''], pr_Resources := [''secrets'']\<rparr>"

definition demo_perms :: "string \<Rightarrow> Permissions" where
  "demo_perms service = \<lparr>pm_ServiceName = service, pm_Rules = [demo_rule], pm_ClusterRules = []\<rparr>"

definition demo_container :: Container where
  "demo_container = Container (zero_container_fields\<lparr>c_Permissions := Some (demo_perms [])\<rparr>) []"

definition demo_details :: "unit AppSpec \<Rightarrow> unit ImageDetails" where
  "demo_details spec = \<lparr>dt_AppImage = zero_AppImage,
     dt_ImageData = \<lparr>id_Containers = [], id_Jobs = [], id_Images = [], id_Acorns = [], id_Builds = []\<rparr>, dt_AppSpec = spec, dt_ParseError = []\<rparr>"

definition demo_spec :: "unit AppSpec" where
  "demo_spec = zero_AppSpec\<lparr>as_Containers := [(''web'', demo_container)],
     as_Volumes := [(''data'', zero_VolumeRequest\<lparr>vr_Size := ''5''\<rparr>)]\<rparr>"

definition loop_acorn :: "unit Acorn" where
  "loop_acorn = \<lparr>ac_Labels = [], ac_Annotations = [], ac_Image = ''example.io/me:latest'', ac_Build = None, ac_Profiles = [], ac_DeployArgs = [],
     ac_Publish = [], ac_PublishMode = [], ac_Environment = [], ac_Secrets = [], ac_Volumes = [], ac_Links = [], ac_AutoUpgrade = Some True,
     ac_NotifyUpgrade = None, ac_AutoUpgradeInterval = [], ac_Memory = [], ac_ComputeClasses = [], ac_Permissions = []\<rparr>"

definition loop_spec :: "unit AppSpec" where
  "loop_spec = zero_AppSpec\<lparr>as_Acorns := [(''me'', loop_acorn)]\<rparr>"

definition parseNat :: "string \<Rightarrow> unit + int" where
  "parseNat s = (case atoi s of Inl _ \<Rightarrow> Inl () | Inr i \<Rightarrow> Inr i)"

definition sample_validator :: "unit AppSpec \<Rightarrow> (unit, unit, int, string, string) validator" where
  "sample_validator spec = \<lparr>
     va_getProject = (\<lambda>_. Inr \<lparr>pj_SpecDefaultRegion = [], pj_SpecSupportedRegions = [], pj_DefaultRegion = ''local'', pj_SupportedRegions = [''local'']\<rparr>),
     va_registry = sample_registry, va_compile = (\<lambda>_. Inl ()), va_parseNoDefault = (\<lambda>_. Inl ()), va_listTags = (\<lambda>_ _. []), va_localTags = (\<lambda>_ _. []),
     va_tagAllowed = (\<lambda>_ _. None), va_ImageGet = (\<lambda>_ _. Inr None), va_keychain = (\<lambda>_. None), va_ParseReference = (\<lambda>_. None), va_Head = (\<lambda>_ _. None),
     va_ImageDetails = (\<lambda>_ _ _ _ _. Inr (demo_details spec)), va_imageAllowed = (\<lambda>_ _ _. None), va_memoryConfig = Inr (None, None),
     va_computeClasses = (\<lambda>_. Inr []),
     va_volumeClasses = (\<lambda>_. Inr [zero_VolumeClass\<lparr>vc_Name := ''fast'', vc_Default := True, vc_SizeMax := ''9'', vc_SupportedRegions := [''local'']\<rparr>]),
     va_user = Some \<lparr>ui_Name = ''me'', ui_Groups = [], ui_UID = [], ui_Extra = []\<rparr>, va_namespace = ''proj'',
     va_review = (\<lambda>sar. Inr (sa_User sar = ''me'')), va_finish = (\<lambda>sars. sars),
     va_ParseQuantity = parseNat, va_NewQuantity = (\<lambda>i. i), va_Value = (\<lambda>i. i), va_Cmp = (\<lambda>a b. if a < b then -1 else if a = b then 0 else 1),
     va_semantic = \<lparr>eq_Build = (=), eq_AcornBuild = (=)\<rparr>\<rparr>"

definition demo_app :: "(unit, int) AppInstance" where
  "demo_app = zero_AppInstance\<lparr>app_Meta := zero_ObjectMeta\<lparr>om_Name := ''app'', om_Namespace := ''proj''\<rparr>,
     app_Spec := zero_AppInstanceSpec\<lparr>ai_Image := ''example.io/me:latest'', ai_Permissions := [demo_perms ''web'']\<rparr>\<rparr>"

lemma demo_accepted: "App_Validate (sample_validator demo_spec) demo_app = Some (Inr ([], demo_app))"
  by code_simp

lemma demo_reviews_end: "reviews_end (sample_validator spec)"
  by (simp add: reviews_end_def sample_validator_def)

text \<open>C1: No privilege escalation: when an app is accepted, an access review was made and allowed, for the user who sends it, for every
  combination of namespace, verb, API group, resource and name, and for every URL and verb, of every rule the app asks for.\<close>

theorem accepted_no_escalation:
  assumes "App_Validate K app = Some (Inr ([], app'))" "reviews_end K"
  shows "ai_Permissions (app_Spec app') = ai_Permissions (app_Spec app) \<and>
    (\<exists>user. va_user K = Some user \<and>
      (\<forall>perm \<in> set (ai_Permissions (app_Spec app')). \<forall>rule \<in> set (GetRules perm).
         \<forall>review \<in> ruleReviews (userReview user) (va_namespace K) rule. va_review K review = Inr True))"
proof -
  obtain granted where "app' = setGranted granted app" "checkPermissionsForPrivilegeEscalation K (ai_Permissions (app_Spec app)) = None"
    using assms(1) by (rule accepted_cases)
  with escalation_None [OF assms(2)] show ?thesis by (simp add: setGranted_def)
qed

definition demo_review :: SubjectAccessReview where
  "demo_review = (userReview \<lparr>ui_Name = ''me'', ui_Groups = [], ui_UID = [], ui_Extra = []\<rparr>)\<lparr>sa_Resource := Some
     \<lparr>ra_Namespace = ''proj'', ra_Verb = ''get'', ra_Group = ''api.acorn.io'', ra_Version = ''*'', ra_Resource = ''secrets'', ra_Subresource = [], ra_Name = []\<rparr>\<rparr>"

lemma demo_review_of_rule:
  "demo_review \<in> ruleReviews (userReview \<lparr>ui_Name = ''me'', ui_Groups = [], ui_UID = [], ui_Extra = []\<rparr>) ''proj'' demo_rule"
proof -
  have "''proj'' \<in> resolved demo_rule ''proj''" by (simp add: resolved_def demo_rule_def zero_PolicyRule_def ResolveNamespaces_def Namespaces_def IsProjectScoped_def)
  moreover have "demo_review \<in> resourceReviews (userReview \<lparr>ui_Name = ''me'', ui_Groups = [], ui_UID = [], ui_Extra = []\<rparr>) demo_rule ''proj''"
    unfolding resourceReviews_def
    by (rule CollectI, rule exI [of _ "''get''"], rule exI [of _ "''api.acorn.io''"], rule exI [of _ "''secrets''"], rule exI [of _ "[]"])
      (simp add: demo_review_def demo_rule_def zero_PolicyRule_def)
  ultimately show ?thesis by (auto simp: ruleReviews_def demo_rule_def zero_PolicyRule_def)
qed

theorem accepted_no_escalation_witness: "va_review (sample_validator demo_spec) demo_review = Inr True"
proof -
  have p: "ai_Permissions (app_Spec demo_app) = [demo_perms ''web'']" "GetRules (demo_perms ''web'') = [demo_rule]"
    "va_user (sample_validator demo_spec) = Some \<lparr>ui_Name = ''me'', ui_Groups = [], ui_UID = [], ui_Extra = []\<rparr>"
    "va_namespace (sample_validator demo_spec) = ''proj''"
    by (simp_all add: demo_app_def demo_perms_def GetRules_def sample_validator_def)
  show ?thesis
    using accepted_no_escalation [OF demo_accepted demo_reviews_end] demo_review_of_rule by (simp add: p)
qed

text \<open>C2: The permissions of an accepted app cover its image: every rule that a container, job or sidecar of the image asks for, that the app
  gives to a nested image, or that a nested image asks for at any depth, is granted by a rule the app itself has for that service.\<close>

theorem accepted_covers_image:
  assumes "App_Validate K app = Some (Inr ([], app'))" "imageToCheck K app = Inr img0" "img0 \<noteq> []"
  shows "\<exists>img local d. resolveLocalImage K (om_Namespace (app_Meta app)) img0 = Inr (img, local) \<and>
    getImageDetails K (om_Namespace (app_Meta app)) (ai_Profiles (app_Spec app)) (ai_DeployArgs (app_Spec app)) img [] = Inr d \<and>
    (\<forall>s r. asks K (om_Namespace (app_Meta app)) [] img d s r \<longrightarrow>
       (\<exists>g \<in> rulesOf (ai_Permissions (app_Spec app)) s. PolicyRule_Grants g (om_Namespace (app_Meta app)) r))"
proof -
  let ?ns = "om_Namespace (app_Meta app)"
  obtain project img d req granted where a: "imageChecks K app project img0 = Inr (img, d)"
    "getPermissions K ?ns [] img d = Some (Inr (req, granted))"
    "checkRequestedPermsSatisfyImagePerms ?ns req (ai_Permissions (app_Spec app)) granted = (None :: 'a cause option)"
    using assms by (rule accepted_image)
  have g: "granted = []" using getPermissions_sound [OF a(2) refl] by simp
  have "\<forall>s r. asks K ?ns [] img d s r \<longrightarrow> (\<exists>g \<in> rulesOf (ai_Permissions (app_Spec app)) s. PolicyRule_Grants g ?ns r)"
    using a(3) getPermissions_complete [OF _ a(2)] unfolding checkRequested_None g by simp
  with imageChecks_Inr(1,2) [OF a(1)] show ?thesis by blast
qed

theorem accepted_covers_image_witness: "PolicyRule_Grants demo_rule ''proj'' demo_rule"
proof -
  have i: "imageToCheck (sample_validator demo_spec) demo_app = Inr ''example.io/me:latest''" by code_simp
  have p: "om_Namespace (app_Meta demo_app) = ''proj''" "ai_Permissions (app_Spec demo_app) = [demo_perms ''web'']"
    "ai_Profiles (app_Spec demo_app) = []" "ai_DeployArgs (app_Spec demo_app) = []"
    by (simp_all add: demo_app_def zero_AppInstanceSpec_def)
  have l: "resolveLocalImage (sample_validator demo_spec) ''proj'' ''example.io/me:latest'' = Inr (''example.io/me:latest'', False)"
    "getImageDetails (sample_validator demo_spec) ''proj'' [] [] ''example.io/me:latest'' [] = Inr (demo_details demo_spec)"
    "getPermissions (sample_validator demo_spec) ''proj'' [] ''example.io/me:latest'' (demo_details demo_spec) = Some (Inr ([demo_perms ''web''], []))"
    by code_simp+
  have "asks (sample_validator demo_spec) ''proj'' [] ''example.io/me:latest'' (demo_details demo_spec) ''web'' demo_rule"
  proof -
    have "demo_rule \<in> rulesOf [demo_perms ''web''] ''web''" by (simp add: demo_perms_def GetRules_def)
    with getPermissions_sound [OF l(3) refl] show ?thesis by blast
  qed
  with accepted_covers_image [OF demo_accepted i list.distinct(2)] have "\<exists>g \<in> rulesOf [demo_perms ''web''] ''web''. PolicyRule_Grants g ''proj'' demo_rule"
    unfolding p by (auto simp only: l sum.inject prod.inject)
  then show ?thesis by (simp add: demo_perms_def GetRules_def)
qed

text \<open>C19: The permissions an image asks for are computed exactly: for every service, the requested rules are those that the image asks
  for, directly or through nested images, and nothing is ever granted to an image by itself.\<close>

theorem getPermissions_exact:
  assumes "getPermissions K ns pfx img d = Some (Inr (req, granted))"
  shows "granted = [] \<and> (\<forall>s. rulesOf req s = {r. asks K ns pfx img d s r})"
  using getPermissions_sound [OF assms refl] getPermissions_complete [OF _ assms] by blast

theorem getPermissions_exact_witness:
  "{r. asks (sample_validator demo_spec) ''proj'' [] ''img'' (demo_details demo_spec) ''web'' r} = {demo_rule}"
proof -
  have "getPermissions (sample_validator demo_spec) ''proj'' [] ''img'' (demo_details demo_spec) = Some (Inr ([demo_perms ''web''], []))"
    by code_simp
  from getPermissions_exact [OF this] have "rulesOf [demo_perms ''web''] ''web'' = {r. asks (sample_validator demo_spec) ''proj'' [] ''img'' (demo_details demo_spec) ''web'' r}"
    by simp
  then show ?thesis by (simp add: demo_perms_def)
qed

lemma loop_permissions:
  "getPermissions K ns pfx img d = Some y \<Longrightarrow> K = sample_validator loop_spec \<Longrightarrow> d = (demo_details loop_spec)\<lparr>dt_AppImage := ai\<rparr> \<Longrightarrow> False"
proof (induction K ns pfx img d y arbitrary: ai rule: getPermissions.raw_induct [rotated, consumes 1])
  case (1 rec K ns pfx img d y)
  have spec: "dt_AppSpec d = loop_spec" "dt_ImageData d = dt_ImageData (demo_details loop_spec)"
    by (simp_all add: 1(4) demo_details_def)
  have none: "imageGrants K d [] = Inr False"
    by (simp add: 1(3) imageGrants_def permissionRequests_def checkSARs_def sample_validator_def)
  have own: "buildPermissionsFrom pfx (as_Containers loop_spec) = []" "buildPermissionsFrom pfx (as_Jobs loop_spec) = []"
    by (simp_all add: buildPermissionsFrom_def loop_spec_def zero_AppSpec_def typed_Sorted_def)
  have ref: "GetImageReferenceForServiceName (va_semantic K) ''me'' loop_spec (dt_ImageData (demo_details loop_spec)) = (''example.io/me:latest'', True)"
    unfolding 1(3) by code_simp
  have digest: "\<not> IsImageDigest ''example.io/me:latest''" by code_simp
  have sorted: "typed_Sorted (as_Acorns loop_spec) = [(''me'', loop_acorn)]"
    by (simp add: loop_spec_def typed_Sorted_def)
  have det: "getImageDetails K ns profiles args i dg = Inr (demo_details loop_spec)" for profiles args i dg
    by (simp add: 1(3) getImageDetails_def sample_validator_def) (simp add: demo_details_def)
  have "rec K ns (pfx @ ''me.'') ''example.io/me:latest''
      ((demo_details loop_spec)\<lparr>dt_AppImage := (dt_AppImage (demo_details loop_spec))\<lparr>ig_Name := ''example.io/me:latest''\<rparr>\<rparr>) = None"
    using 1(1) [OF _ 1(3) refl] by (metis option.exhaust)
  then have "buildNestedImagePermissions (rec K ns) K pfx loop_spec ns img (dt_ImageData (demo_details loop_spec)) = None"
    by (simp add: buildNestedImagePermissions_def sorted acornPermissions_def ref nestedPermissions_def digest getImageRequestedPermissions_def det)
  with 1(2) show False by (simp add: Let_def spec own none)
qed

text \<open>C20: The validation ends when no image is nested in itself, directly or through others; for an image that names itself as a nested Acorn with
  automatic upgrades it never returns.\<close>

theorem Validate_terminates:
  "(wf (nesting K (om_Namespace (app_Meta app))) \<longrightarrow> (\<exists>result. App_Validate K app = Some result)) \<and>
   App_Validate (sample_validator loop_spec) demo_app = None"
proof (intro conjI impI)
  assume wf: "wf (nesting K (om_Namespace (app_Meta app)))"
  have "grantedPermissions K app \<noteq> None"
    using getPermissions_returns [OF wf]
    by (auto simp: grantedPermissions_def validateImage_def bind_o_None simp del: not_None_eq split: sum.splits prod.splits)
  then show "\<exists>result. App_Validate K app = Some result"
    by (auto simp: App_Validate_def split: option.splits sum.splits stop.splits)
next
  have c: "appChecks (sample_validator loop_spec) demo_app =
      Inr (\<lparr>pj_SpecDefaultRegion = [], pj_SpecSupportedRegions = [], pj_DefaultRegion = ''local'', pj_SupportedRegions = [''local'']\<rparr>, ''example.io/me:latest'')"
    by code_simp
  have i: "imageChecks (sample_validator loop_spec) demo_app
      \<lparr>pj_SpecDefaultRegion = [], pj_SpecSupportedRegions = [], pj_DefaultRegion = ''local'', pj_SupportedRegions = [''local'']\<rparr> ''example.io/me:latest'' =
      Inr (''example.io/me:latest'', demo_details loop_spec)"
    by code_simp
  have "getPermissions (sample_validator loop_spec) ns [] img (demo_details loop_spec) = None" for ns img
    using loop_permissions [OF _ refl, of ns "[]" img "demo_details loop_spec" _ "dt_AppImage (demo_details loop_spec)"]
    by (cases "getPermissions (sample_validator loop_spec) ns [] img (demo_details loop_spec)") auto
  then show "App_Validate (sample_validator loop_spec) demo_app = None"
    by (simp add: App_Validate_def grantedPermissions_def c validateImage_def i)
qed

theorem Validate_terminates_witness:
  "(\<exists>result. App_Validate (sample_validator demo_spec) demo_app = Some result) \<and> App_Validate (sample_validator loop_spec) demo_app = None"
proof -
  have "nestedIn (sample_validator demo_spec) ns img d name perms img' d' \<Longrightarrow> dt_AppSpec d' = demo_spec" for ns img d name perms img' d'
    by (auto simp: nestedIn_def nestedCall_def getImageDetails_def sample_validator_def demo_details_def Let_def split: if_splits prod.splits)
  moreover have "\<not> nestedIn (sample_validator demo_spec) ns img d name perms img' d'" if "dt_AppSpec d = demo_spec" for ns img d name perms img' d'
    by (simp add: nestedIn_def that demo_spec_def zero_AppSpec_def)
  ultimately have "nesting (sample_validator demo_spec) ns O nesting (sample_validator demo_spec) ns = {}" for ns
    unfolding nesting_def by blast
  then have "wf (nesting (sample_validator demo_spec) ns)" for ns
    by (subst wf_comp_self) (simp add: wf_def)
  then show ?thesis using Validate_terminates [of "sample_validator demo_spec" demo_app] by blast
qed

definition bindingsOf :: "'f AppInstanceSpec \<Rightarrow> (string, VolumeBinding) gomap" where
  "bindingsOf spec = foldl (\<lambda>m b. gm_set m (vb_Target b) b) [] (ai_Volumes spec)"

definition requestOf :: "'f AppInstanceSpec \<Rightarrow> string \<Rightarrow> VolumeRequest \<Rightarrow> VolumeRequest" where
  "requestOf spec name vol = CopyVolumeDefaults vol (gm_get_or zero_VolumeBinding (bindingsOf spec) name) zero_VolumeDefault"

lemma map_sum_snd_Inr: "map_sum id snd r = Inr y \<longleftrightarrow> (\<exists>x. r = Inr (x, y))"
  by (cases r) auto

lemma validateVolumeClasses_ok:
  assumes "validateVolumeClasses K ns spec appSpec project = Inr ()" "(name, vol) \<in> set (as_Volumes appSpec)"
  shows "\<exists>classes vc. va_volumeClasses K ns = Inr classes \<and>
    volumeClassFor (foldl (\<lambda>m vc. gm_set m (vc_Name vc) vc) [] classes) (defaultVolumeClass classes) (vr_Class (requestOf spec name vol)) = Some vc \<and>
    volumeOk K vc (Project_GetRegion project) (ai_Region spec) (requestOf spec name vol)"
proof -
  from assms obtain classes where c: "va_volumeClasses K ns = Inr classes"
      "each_err (validateVolume K (foldl (\<lambda>m vc. gm_set m (vc_Name vc) vc) [] classes) (defaultVolumeClass classes) (Project_GetRegion project)
         (ai_Region spec) (bindingsOf spec)) (as_Volumes appSpec) () = Inr ()"
    by (auto simp: validateVolumeClasses_def validateBindings_def bindingsOf_def Let_def bind_err_Inr split: if_splits sum.splits option.splits prod.splits)
  from validateVolume_ok [OF each_err_all [OF c(2) assms(2)]] c(1) show ?thesis
    unfolding requestOf_def by blast
qed



text \<open>When an image passes the checks, each workload has a memory that its compute class accepts, in a class that supports the region, and
  memory is set for workloads only.\<close>

theorem imageChecks_memory:
  assumes "imageChecks K app project img0 = Inr (img, d)"
  shows "\<exists>classes memDefault memMaximum. va_computeClasses K (om_Namespace (app_Meta app)) = Inr classes \<and> va_memoryConfig K = Inr (memDefault, memMaximum) \<and>
      (\<forall>entry \<in> set (getWorkloads d). memoryOk K classes (app_Spec app) (Project_GetRegion project) memMaximum entry) \<and>
      (\<forall>(key, _) \<in> set (ai_Memory (app_Spec app)). key = [] \<or> gm_has (getWorkloads d) key)"
proof -
  from imageChecks_Inr(4) [OF assms] obtain memDefault memMaximum where m: "va_memoryConfig K = Inr (memDefault, memMaximum)"
      "checkScheduling K app project (getWorkloads d) memDefault memMaximum = Inr []"
    by (auto simp: checkWorkloads_def split: sum.splits prod.splits if_splits)
  from m(2) obtain classes def' where c: "va_computeClasses K (om_Namespace (app_Meta app)) = Inr classes"
      "each_err (scheduling_step K classes (app_Spec app) (Project_GetRegion project) memMaximum) (getWorkloads d)
         (memDefault, validateMemoryRunFlags (ai_Memory (app_Spec app)) (getWorkloads d)) = Inr (def', [])"
    by (auto simp: checkScheduling_def map_sum_snd_Inr split: sum.splits)
  have "\<forall>(key, _) \<in> set (ai_Memory (app_Spec app)). key = [] \<or> gm_has (getWorkloads d) key"
    using scheduling_ok [OF c(2)] by (auto simp: validateMemoryRunFlags_def filter_empty_conv)
  with scheduling_ok [OF c(2)] c(1) m(1) show ?thesis by blast
qed

theorem imageChecks_memory_witness: "memoryOk (sample_validator demo_spec) [] (app_Spec demo_app) ''local'' None (''web'', demo_container)"
proof -
  let ?p = "\<lparr>pj_SpecDefaultRegion = [], pj_SpecSupportedRegions = [], pj_DefaultRegion = ''local'', pj_SupportedRegions = [''local'']\<rparr>"
  have c: "imageChecks (sample_validator demo_spec) demo_app ?p ''example.io/me:latest'' = Inr (''example.io/me:latest'', demo_details demo_spec)"
    by code_simp
  have w: "getWorkloads (demo_details demo_spec) = [(''web'', demo_container)]" by code_simp
  from imageChecks_memory [OF c] show ?thesis
    unfolding w by (simp add: sample_validator_def [of demo_spec] Project_GetRegion_def)
qed

text \<open>An update is refused for an app that a development session locks and for a nested app, and the region of an app can only be changed to
  the default region it already runs in; any other update is validated like a new app.\<close>

theorem ValidateUpdate_accepted:
  assumes "App_ValidateUpdate K allowNestedUpdate new old = Some (Inr ([], new'))"
  shows "\<not> GetDevMode (app_Status old) \<and> (allowNestedUpdate \<or> \<not> isNestedUpdate new old) \<and>
    ai_Region (app_Spec new) \<in> {ai_Region (app_Spec old), df_Region (is_Defaults (app_Status old))} \<and> App_Validate K new = Some (Inr ([], new'))"
  using assms by (auto simp: App_ValidateUpdate_def split: if_splits)

theorem ValidateUpdate_accepted_witness: "\<not> isNestedUpdate demo_app demo_app"
proof -
  have "App_ValidateUpdate (sample_validator demo_spec) False demo_app demo_app = Some (Inr ([], demo_app))" by code_simp
  from ValidateUpdate_accepted [OF this] show ?thesis by simp
qed

subsection \<open>Order of the workloads\<close>

text \<open>
  The memory default of a class stays in force for the workloads that are visited after it, so that the answer depends on the
  order in which Go visits the map.
\<close>

definition order_validator :: "(unit, unit, int, string, string) validator" where
  "order_validator = (sample_validator demo_spec)\<lparr>va_computeClasses := (\<lambda>_. Inr [\<lparr>kc_Name = ''big'',
     kc_Memory = \<lparr>cm_Min = [], cm_Max = [], cm_Default = ''8'', cm_Values = []\<rparr>, kc_Default = False, kc_SupportedRegions = [''local'']\<rparr>])\<rparr>"

definition order_app :: "(unit, int) AppInstance" where
  "order_app = demo_app\<lparr>app_Spec := (app_Spec demo_app)\<lparr>ai_ComputeClasses := [(''a'', ''big'')], ai_Memory := [(''a'', Some 3)]\<rparr>\<rparr>"

lemma scheduling_depends_on_order:
  "checkScheduling order_validator order_app \<lparr>pj_SpecDefaultRegion = [], pj_SpecSupportedRegions = [], pj_DefaultRegion = ''local'', pj_SupportedRegions = []\<rparr>
     [(''b'', demo_container), (''a'', demo_container)] None (Some 5) = Inr [] \<and>
   checkScheduling order_validator order_app \<lparr>pj_SpecDefaultRegion = [], pj_SpecSupportedRegions = [], pj_DefaultRegion = ''local'', pj_SupportedRegions = []\<rparr>
     [(''a'', demo_container), (''b'', demo_container)] None (Some 5) \<noteq> Inr []"
  by code_simp

lemma invalid_class_panics:
  "checkScheduling ((sample_validator demo_spec)\<lparr>va_computeClasses := (\<lambda>_. Inr [\<lparr>kc_Name = ''bad'',
       kc_Memory = \<lparr>cm_Min = ''x'', cm_Max = [], cm_Default = [], cm_Values = []\<rparr>, kc_Default = True, kc_SupportedRegions = [''local'']\<rparr>])\<rparr>) demo_app
     \<lparr>pj_SpecDefaultRegion = [], pj_SpecSupportedRegions = [], pj_DefaultRegion = ''local'', pj_SupportedRegions = []\<rparr>
     [(''a'', demo_container)] None None = Inl NilQuantity"
  by code_simp

lemma job_sidecar_memory_refused:
  assumes "as_Containers (dt_AppSpec d) = []" "as_Jobs (dt_AppSpec d) = [(''job'', Container f [(''side'', c)])]"
  shows "validateMemoryRunFlags [(''side'', m)] (getWorkloads d) \<noteq> []"
  using assms by (simp add: validateMemoryRunFlags_def getWorkloads_def go_map gm_has_iff)

end
