(* ===== verification/Encryption.thy ===== *)
theory Encryption
  imports Refs AppSpecDecode
begin

text \<open>
  Encrypted secrets: \<open>pkg/encryption/nacl\<close>. Every project has a key pair, kept in a secret of the system namespace; a value is
  encrypted for one or more public keys and written as text that starts with \<open>ACORNENC:\<close>. The boxes of \<open>golang.org/x/crypto\<close>
  and the text of JSON maps are parameters (\<open>nacl_lib\<close>); \<open>base64.RawURLEncoding\<close> is defined here. The secrets of the cluster are a
  state that is passed on (\<open>kube\<close>), and every call of the API may fail (\<open>faults\<close>). The lemmas show that a value can be decrypted
  exactly with the keys it was encrypted for, and that the key of a project is created once and then stays.
\<close>

subsection \<open>RawURLEncoding\<close>

text \<open>The encoding of \<open>StdEncoding\<close> with two other characters and no padding.\<close>

definition url_of :: "char \<Rightarrow> char" where
  "url_of c = (if c = CHR ''+'' then CHR ''-'' else if c = CHR ''/'' then CHR ''_'' else c)"

definition std_of :: "char \<Rightarrow> char" where
  "std_of c = (if c = CHR ''-'' then CHR ''+'' else if c = CHR ''_'' then CHR ''/'' else c)"

definition rawurl_encode :: "string \<Rightarrow> string" where
  "rawurl_encode s = map url_of (filter (\<lambda>c. c \<noteq> CHR ''='') (base64_encode s))"

definition rawurl_padding :: "nat \<Rightarrow> string" where
  "rawurl_padding n = (if n mod 4 = 2 then ''=='' else if n mod 4 = 3 then ''='' else [])"

definition rawurl_decode :: "string \<Rightarrow> string option" where
  "rawurl_decode s =
     (let t = filter (\<lambda>c. c \<noteq> CHR 0x0A \<and> c \<noteq> CHR 0x0D) s
      in if list_all (\<lambda>c. c \<in> url_of ` set base64_alphabet) t \<and> length t mod 4 \<noteq> 1 then base64_quads (map std_of t @ rawurl_padding (length t)) else None)"

subsection \<open>The secrets of the cluster\<close>

record kube =
  ku_namespaces :: "(string, ObjectMeta) gomap"
  ku_secrets :: "(string \<times> string, KSecret) gomap"

datatype kube_call = CallGetNamespace string | CallGetSecret string string | CallCreateSecret string string | CallUpdateSecret string string
  | CallListSecrets string

type_synonym 'e faults = "kube_call \<Rightarrow> 'e option"

datatype 'e kube_error = NotFoundError string | AlreadyExists string | ApiError 'e

definition kube_key :: "KSecret \<Rightarrow> string \<times> string" where
  "kube_key secret = (om_Namespace (kx_Meta secret), om_Name (kx_Meta secret))"

definition kube_getNamespace :: "'e faults \<Rightarrow> kube \<Rightarrow> string \<Rightarrow> 'e kube_error + ObjectMeta" where
  "kube_getNamespace F st name =
     (case F (CallGetNamespace name) of
        Some e \<Rightarrow> Inl (ApiError e)
      | None \<Rightarrow> (case gm_get (ku_namespaces st) name of None \<Rightarrow> Inl (NotFoundError name) | Some ns \<Rightarrow> Inr ns))"

definition kube_getSecret :: "'e faults \<Rightarrow> kube \<Rightarrow> string \<Rightarrow> string \<Rightarrow> 'e kube_error + KSecret" where
  "kube_getSecret F st namespace name =
     (case F (CallGetSecret namespace name) of
        Some e \<Rightarrow> Inl (ApiError e)
      | None \<Rightarrow> (case gm_get (ku_secrets st) (namespace, name) of None \<Rightarrow> Inl (NotFoundError name) | Some s \<Rightarrow> Inr s))"

definition kube_createSecret :: "'e faults \<Rightarrow> kube \<Rightarrow> KSecret \<Rightarrow> 'e kube_error + kube" where
  "kube_createSecret F st secret =
     (case F (CallCreateSecret (fst (kube_key secret)) (snd (kube_key secret))) of
        Some e \<Rightarrow> Inl (ApiError e)
      | None \<Rightarrow> if gm_has (ku_secrets st) (kube_key secret) then Inl (AlreadyExists (snd (kube_key secret)))
                else Inr (st\<lparr>ku_secrets := gm_set (ku_secrets st) (kube_key secret) secret\<rparr>))"

definition kube_updateSecret :: "'e faults \<Rightarrow> kube \<Rightarrow> KSecret \<Rightarrow> 'e kube_error + kube" where
  "kube_updateSecret F st secret =
     (case F (CallUpdateSecret (fst (kube_key secret)) (snd (kube_key secret))) of
        Some e \<Rightarrow> Inl (ApiError e)
      | None \<Rightarrow> if \<not> gm_has (ku_secrets st) (kube_key secret) then Inl (NotFoundError (snd (kube_key secret)))
                else Inr (st\<lparr>ku_secrets := gm_set (ku_secrets st) (kube_key secret) secret\<rparr>))"

subsection \<open>Keys\<close>

text \<open>
  A key of 32 bytes is a text. A pointer that may be nil is an option. \<open>nl_Seal\<close> takes the number of the draw from the random source,
  so that two boxes with the same content can differ.
\<close>

record NaclKey =
  nk_AcornNamespace :: string
  nk_Primary :: "bool option"
  nk_PublicKey :: string
  nk_acornNamespaceUID :: string
  nk_privateKey :: "string option"

record naclStoredKey =
  ns_AcornNamespace :: string
  ns_Primary :: "bool option"
  ns_AcornNamespaceUID :: string
  ns_PrivateKey :: "string option"
  ns_PublicKey :: "string option"

record 'e nacl_lib =
  nl_GenerateKey :: "nat \<Rightarrow> 'e + string \<times> string"
  nl_Seal :: "nat \<Rightarrow> string \<Rightarrow> string \<Rightarrow> 'e + string"
  nl_Open :: "string \<Rightarrow> string \<Rightarrow> string \<Rightarrow> string option"
  nl_marshalMap :: "(string, string) gomap \<Rightarrow> string"
  nl_unmarshalMap :: "string \<Rightarrow> 'e + (string, string) gomap"
  nl_marshalStore :: "(string, naclStoredKey) gomap \<Rightarrow> string"
  nl_unmarshalStore :: "string \<Rightarrow> 'e + (string, naclStoredKey) gomap"

datatype 'e nacl_error =
    KeyNotFound bool
  | UnableToDecrypt "(string \<times> 'e nacl_error) list"
  | DecryptionKeyNotAvailable
  | BadBase64
  | NaclError 'e
  | NaclKube "'e kube_error"
  | UIDNotFound string
  | NilDereference

definition naclStoreKey :: string where "naclStoreKey = ''nacl-keys''"
definition naclNSUID :: string where "naclNSUID = ''ns-uid''"
definition system_Namespace :: string where "system_Namespace = ''acorn-system''"
definition AcornSecretGenerated :: string where "AcornSecretGenerated = Prefix @ ''secret-generated''"

definition of_base64 :: "string \<Rightarrow> 'e nacl_error + string" where
  "of_base64 s = (case rawurl_decode s of None \<Rightarrow> Inl BadBase64 | Some b \<Rightarrow> Inr b)"

definition keyToBytes :: "string \<Rightarrow> 'e nacl_error + string" where
  "keyToBytes key = bind_err (of_base64 key) (\<lambda>bytes. Inr (take 32 (bytes @ replicate 32 (CHR 0x00))))"

definition KeyBytesToB64String :: "string \<Rightarrow> string" where
  "KeyBytesToB64String key = rawurl_encode key"

definition secretNameGen :: "string \<Rightarrow> string \<Rightarrow> string" where
  "secretNameGen namespace uid = namespace @ ''-'' @ (if length uid > 11 then take 12 uid else uid) @ ''-enc-keys''"

definition naclSecretName :: "'e faults \<Rightarrow> kube \<Rightarrow> string \<Rightarrow> 'e kube_error + string" where
  "naclSecretName F st namespace = bind_err (kube_getNamespace F st namespace) (\<lambda>ns. Inr (secretNameGen namespace (om_UID ns)))"

definition getExistingSecret :: "'e faults \<Rightarrow> kube \<Rightarrow> string \<Rightarrow> 'e kube_error + KSecret" where
  "getExistingSecret F st namespace = bind_err (naclSecretName F st namespace) (kube_getSecret F st system_Namespace)"

text \<open>One stored key: its public key is read from the name it is stored under, and a missing \<open>Primary\<close> is dereferenced.\<close>

definition storedKey :: "string \<Rightarrow> string \<times> naclStoredKey \<Rightarrow> (string, NaclKey) gomap \<Rightarrow> 'e nacl_error + (string, NaclKey) gomap" where
  "storedKey uid = (\<lambda>(pubKeyString, keyInfo) keys.
     bind_err (keyToBytes pubKeyString) (\<lambda>pubKey.
       let key = \<lparr>nk_AcornNamespace = ns_AcornNamespace keyInfo, nk_Primary = ns_Primary keyInfo, nk_PublicKey = pubKey,
                  nk_acornNamespaceUID = uid, nk_privateKey = ns_PrivateKey keyInfo\<rparr>;
           keys = gm_set keys pubKeyString key
       in case ns_Primary keyInfo of None \<Rightarrow> Inl NilDereference
          | Some p \<Rightarrow> Inr (if p then gm_set keys ''primary'' key else keys)))"

fun storedKeys :: "string \<Rightarrow> (string, naclStoredKey) gomap \<Rightarrow> (string, NaclKey) gomap \<Rightarrow> 'e nacl_error + (string, NaclKey) gomap" where
  "storedKeys uid [] keys = Inr keys"
| "storedKeys uid (entry # store) keys = bind_err (storedKey uid entry keys) (storedKeys uid store)"

definition secretToNaclKeys :: "'e nacl_lib \<Rightarrow> KSecret \<Rightarrow> string \<Rightarrow> 'e nacl_error + (string, NaclKey) gomap" where
  "secretToNaclKeys L secret namespace =
     (case gm_get (kx_Data secret) naclStoreKey of
        None \<Rightarrow> Inl (KeyNotFound True)
      | Some keystore \<Rightarrow>
          (case gm_get (kx_Data secret) naclNSUID of
             None \<Rightarrow> Inl (UIDNotFound namespace)
           | Some uid \<Rightarrow>
               bind_err (map_sum NaclError id (nl_unmarshalStore L keystore)) (\<lambda>store.
                 if store = [] then Inl (KeyNotFound False) else storedKeys uid store [])))"

definition toSecretData :: "'e nacl_lib \<Rightarrow> NaclKey \<Rightarrow> (string, string) gomap option \<Rightarrow> 'e nacl_error + (string, string) gomap" where
  "toSecretData L k existingData =
     bind_err (case Option.bind existingData (\<lambda>d. gm_get d naclStoreKey) of
                 None \<Rightarrow> Inr []
               | Some keydata \<Rightarrow> map_sum NaclError id (nl_unmarshalStore L keydata)) (\<lambda>store.
       let stored = \<lparr>ns_AcornNamespace = nk_AcornNamespace k, ns_Primary = nk_Primary k, ns_AcornNamespaceUID = nk_acornNamespaceUID k,
                     ns_PrivateKey = nk_privateKey k, ns_PublicKey = Some (nk_PublicKey k)\<rparr>
       in Inr [(naclNSUID, nk_acornNamespaceUID k), (naclStoreKey, nl_marshalStore L (gm_set store (KeyBytesToB64String (nk_PublicKey k)) stored))])"

definition createOrUpdateNaclKeySecret :: "'e nacl_lib \<Rightarrow> 'e faults \<Rightarrow> kube \<Rightarrow> NaclKey \<Rightarrow> KSecret option \<Rightarrow> 'e nacl_error + kube" where
  "createOrUpdateNaclKeySecret L F st key existing =
     (case existing of
        None \<Rightarrow>
          bind_err (toSecretData L key None) (\<lambda>keyData.
            map_sum NaclKube id (kube_createSecret F st
              \<lparr>kx_Meta = zero_ObjectMeta\<lparr>om_Namespace := system_Namespace, om_Name := secretNameGen (nk_AcornNamespace key) (nk_acornNamespaceUID key),
                 om_Labels := [(AcornSecretGenerated, ''true''), (AcornManaged, ''true'')]\<rparr>,
               kx_Type = ''Opaque'', kx_Data = keyData\<rparr>))
      | Some existing \<Rightarrow>
          bind_err (toSecretData L key (Some (kx_Data existing))) (\<lambda>keyData.
            map_sum NaclKube id (kube_updateSecret F st (existing\<lparr>kx_Data := keyData\<rparr>))))"

definition generateNewKeys :: "'e nacl_lib \<Rightarrow> 'e faults \<Rightarrow> nat \<Rightarrow> kube \<Rightarrow> string \<Rightarrow> KSecret option \<Rightarrow> 'e nacl_error + NaclKey \<times> kube" where
  "generateNewKeys L F draw st namespace existing =
     bind_err (map_sum NaclError id (nl_GenerateKey L draw)) (\<lambda>(publicKey, privateKey).
     bind_err (map_sum NaclKube id (kube_getNamespace F st namespace)) (\<lambda>ns.
       let key = \<lparr>nk_AcornNamespace = namespace, nk_Primary = (if existing = None then Some True else None), nk_PublicKey = publicKey,
                  nk_acornNamespaceUID = om_UID ns, nk_privateKey = Some privateKey\<rparr>
       in bind_err (createOrUpdateNaclKeySecret L F st key existing) (\<lambda>st'. Inr (key, st'))))"

text \<open>There may be no primary key: the map then gives nil.\<close>

definition GetOrCreatePrimaryNaclKey :: "'e nacl_lib \<Rightarrow> 'e faults \<Rightarrow> nat \<Rightarrow> kube \<Rightarrow> string \<Rightarrow> 'e nacl_error + NaclKey option \<times> kube" where
  "GetOrCreatePrimaryNaclKey L F draw st namespace =
     (case getExistingSecret F st namespace of
        Inl (NotFoundError _) \<Rightarrow> map_sum id (map_prod Some id) (generateNewKeys L F draw st namespace None)
      | Inl e \<Rightarrow> Inl (NaclKube e)
      | Inr existing \<Rightarrow> bind_err (secretToNaclKeys L existing namespace) (\<lambda>keys. Inr (gm_get keys ''primary'', st)))"

definition GetAllNaclKeys :: "'e nacl_lib \<Rightarrow> 'e faults \<Rightarrow> kube \<Rightarrow> string \<Rightarrow> 'e nacl_error + (string, NaclKey) gomap" where
  "GetAllNaclKeys L F st namespace =
     (case getExistingSecret F st namespace of
        Inl (NotFoundError _) \<Rightarrow> Inl (KeyNotFound False)
      | Inl e \<Rightarrow> Inl (NaclKube e)
      | Inr existing \<Rightarrow> secretToNaclKeys L existing namespace)"

definition GetPrimaryNaclKey :: "'e nacl_lib \<Rightarrow> 'e faults \<Rightarrow> kube \<Rightarrow> string \<Rightarrow> string \<Rightarrow> 'e nacl_error + NaclKey option" where
  "GetPrimaryNaclKey L F st publicKey namespace =
     bind_err (GetAllNaclKeys L F st namespace) (\<lambda>keys.
       if publicKey \<noteq> [] then (case gm_get keys publicKey of Some key \<Rightarrow> Inr (Some key) | None \<Rightarrow> Inl (KeyNotFound False))
       else Inr (gm_get keys ''primary''))"

definition GetPublicKey :: "'e nacl_lib \<Rightarrow> 'e faults \<Rightarrow> kube \<Rightarrow> string \<Rightarrow> 'e nacl_error + string" where
  "GetPublicKey L F st namespace =
     bind_err (GetPrimaryNaclKey L F st [] namespace) (\<lambda>key. Inr (case key of None \<Rightarrow> [] | Some k \<Rightarrow> KeyBytesToB64String (nk_PublicKey k)))"

subsection \<open>Encryption and decryption\<close>

definition EncPrefix :: string where "EncPrefix = ''ACORNENC:''"
definition EncSuffix :: string where "EncSuffix = ''::''"

definition IsAcornEncryptedData :: "string \<Rightarrow> bool" where
  "IsAcornEncryptedData data = str_has_prefix data EncPrefix"

record EncryptedData =
  ed_PublicKey :: string
  ed_EncryptedContent :: string

definition Encrypt :: "'e nacl_lib \<Rightarrow> nat \<Rightarrow> string \<Rightarrow> string \<Rightarrow> 'e nacl_error + EncryptedData" where
  "Encrypt L draw msg recipientPublicKey =
     bind_err (keyToBytes recipientPublicKey) (\<lambda>key.
     bind_err (map_sum NaclError id (nl_Seal L draw msg key)) (\<lambda>encryptedBytes.
       Inr \<lparr>ed_PublicKey = recipientPublicKey, ed_EncryptedContent = rawurl_encode encryptedBytes\<rparr>))"

fun multipleLoop :: "'e nacl_lib \<Rightarrow> nat \<Rightarrow> string \<Rightarrow> string list \<Rightarrow> (string, string) gomap \<Rightarrow> 'e nacl_error + (string, string) gomap" where
  "multipleLoop L draw msg [] outputData = Inr outputData"
| "multipleLoop L draw msg (pubKey # keys) outputData =
     bind_err (Encrypt L draw msg pubKey) (\<lambda>encData.
       multipleLoop L (Suc draw) msg keys (gm_set outputData pubKey (ed_EncryptedContent encData)))"

definition MultipleKeyEncrypt :: "'e nacl_lib \<Rightarrow> nat \<Rightarrow> string \<Rightarrow> string list \<Rightarrow> 'e nacl_error + (string, string) gomap" where
  "MultipleKeyEncrypt L draw msg keys = multipleLoop L draw msg keys []"

definition MultiEncryptedData_Marshal :: "'e nacl_lib \<Rightarrow> (string, string) gomap \<Rightarrow> string" where
  "MultiEncryptedData_Marshal L f = str_join '':'' [''ACORNENC'', rawurl_encode (nl_marshalMap L f), '':'']"

definition EncryptedData_Marshal :: "'e nacl_lib \<Rightarrow> EncryptedData \<Rightarrow> string" where
  "EncryptedData_Marshal L f =
     str_join '':'' [''ACORNENC'', rawurl_encode (nl_marshalMap L [(ed_PublicKey f, ed_EncryptedContent f)]), '':'']"

definition unwrapForDecryption :: "'e nacl_lib \<Rightarrow> string \<Rightarrow> 'e nacl_error + (string, string) gomap" where
  "unwrapForDecryption L data =
     bind_err (of_base64 (str_trim_suffix (str_trim_prefix data EncPrefix) EncSuffix)) (\<lambda>data.
     bind_err (map_sum NaclError id (nl_unmarshalMap L data)) (map_err (\<lambda>(k, v). bind_err (of_base64 v) (\<lambda>b. Inr (k, b)))))"

text \<open>A missing private key is dereferenced by the box.\<close>

definition NaclKey_Decrypt :: "'e nacl_lib \<Rightarrow> NaclKey \<Rightarrow> string \<Rightarrow> 'e nacl_error + string" where
  "NaclKey_Decrypt L k encData =
     bind_err (unwrapForDecryption L encData) (\<lambda>preppedData.
       case gm_get preppedData (KeyBytesToB64String (nk_PublicKey k)) of
         None \<Rightarrow> Inl DecryptionKeyNotAvailable
       | Some encryptedData \<Rightarrow>
           (case nk_privateKey k of
              None \<Rightarrow> Inl NilDereference
            | Some privateKey \<Rightarrow>
                (case nl_Open L encryptedData (nk_PublicKey k) privateKey of
                   None \<Rightarrow> Inl (UnableToDecrypt [])
                 | Some decryptedBytes \<Rightarrow> Inr decryptedBytes)))"

fun decryptLoop :: "'e nacl_lib \<Rightarrow> string \<Rightarrow> (string, NaclKey) gomap \<Rightarrow> (string \<times> 'e nacl_error) list \<Rightarrow> 'e nacl_error + string" where
  "decryptLoop L data [] errs = Inl (UnableToDecrypt errs)"
| "decryptLoop L data ((_, key) # keys) errs =
     (case NaclKey_Decrypt L key data of
        Inr decrypted \<Rightarrow> Inr decrypted
      | Inl NilDereference \<Rightarrow> Inl NilDereference
      | Inl e \<Rightarrow> decryptLoop L data keys (errs @ [(KeyBytesToB64String (nk_PublicKey key), e)]))"

definition DecryptNamespacedData :: "'e nacl_lib \<Rightarrow> 'e faults \<Rightarrow> kube \<Rightarrow> string \<Rightarrow> string \<Rightarrow> 'e nacl_error + string" where
  "DecryptNamespacedData L F st data namespace =
     bind_err (GetAllNaclKeys L F st namespace) (\<lambda>keys. decryptLoop L data keys [])"

definition DecryptNamespacedDataMap :: "'e nacl_lib \<Rightarrow> 'e faults \<Rightarrow> kube \<Rightarrow> (string, string) gomap \<Rightarrow> string \<Rightarrow> 'e nacl_error + (string, string) gomap" where
  "DecryptNamespacedDataMap L F st data ownerNamespace =
     map_err (\<lambda>(k, v). if IsAcornEncryptedData v then bind_err (DecryptNamespacedData L F st v ownerNamespace) (\<lambda>d. Inr (k, d)) else Inr (k, v)) data"

subsection \<open>Round trip of RawURLEncoding\<close>

lemma base64_encode_digits:
  "\<exists>ds. list_all (\<lambda>d. d < 64) ds \<and> length ds mod 4 \<noteq> 1 \<and> base64_encode s = map base64_char ds @ rawurl_padding (length ds)"
proof (induction s rule: base64_encode.induct)
  case (2 a)
  let ?n = "of_char a * (16 :: nat)"
  show ?case using byte_bounds(1) [of "of_char a"]
    by (intro exI [of _ "[?n div 64, ?n mod 64]"]) (simp add: Let_def rawurl_padding_def)
next
  case (3 a b)
  let ?n = "(of_char a * 256 + of_char b) * (4 :: nat)"
  show ?case using byte_bounds(2) [of "of_char a" "of_char b"]
    by (intro exI [of _ "[?n div 4096, ?n div 64 mod 64, ?n mod 64]"]) (simp add: Let_def rawurl_padding_def)
next
  case (4 a b c rest)
  let ?n = "of_char a * 65536 + of_char b * 256 + (of_char c :: nat)"
  obtain ds where "list_all (\<lambda>d. d < 64) ds" "length ds mod 4 \<noteq> 1" "base64_encode rest = map base64_char ds @ rawurl_padding (length ds)"
    using 4 by blast
  then show ?case using byte_bounds(3) [of "of_char a" "of_char b" "of_char c"]
    by (intro exI [of _ "[?n div 262144, ?n div 4096 mod 64, ?n div 64 mod 64, ?n mod 64] @ ds"]) (simp add: Let_def rawurl_padding_def)
qed (simp add: rawurl_padding_def)

lemma base64_char_url:
  assumes "n < 64"
  shows "base64_char n \<noteq> CHR ''=''" "std_of (url_of (base64_char n)) = base64_char n"
    "url_of (base64_char n) \<noteq> CHR 0x0A \<and> url_of (base64_char n) \<noteq> CHR 0x0D" "url_of (base64_char n) \<in> url_of ` set base64_alphabet"
proof -
  have "list_all (\<lambda>c. c \<noteq> CHR ''='' \<and> std_of (url_of c) = c \<and> url_of c \<noteq> CHR 0x0A \<and> url_of c \<noteq> CHR 0x0D) base64_alphabet"
    by code_simp
  with base64_char_in [OF assms] show "base64_char n \<noteq> CHR ''=''" "std_of (url_of (base64_char n)) = base64_char n"
    "url_of (base64_char n) \<noteq> CHR 0x0A \<and> url_of (base64_char n) \<noteq> CHR 0x0D" "url_of (base64_char n) \<in> url_of ` set base64_alphabet"
    by (auto simp: list_all_iff)
qed

lemma rawurl_encode_digits:
  obtains ds where "list_all (\<lambda>d. d < 64) ds" "length ds mod 4 \<noteq> 1" "rawurl_encode s = map (url_of \<circ> base64_char) ds"
    "base64_encode s = map base64_char ds @ rawurl_padding (length ds)"
proof -
  obtain ds where ds: "list_all (\<lambda>d. d < 64) ds" "length ds mod 4 \<noteq> 1" "base64_encode s = map base64_char ds @ rawurl_padding (length ds)"
    using base64_encode_digits by blast
  have "filter (\<lambda>c. c \<noteq> CHR ''='') (map base64_char ds) = map base64_char ds"
    using ds(1) by (auto simp: filter_id_conv list_all_iff base64_char_url)
  moreover have "filter (\<lambda>c. c \<noteq> CHR ''='') (rawurl_padding n) = []" for n by (simp add: rawurl_padding_def)
  ultimately have "rawurl_encode s = map (url_of \<circ> base64_char) ds" by (simp add: rawurl_encode_def ds(3))
  with ds show ?thesis using that by blast
qed

lemma rawurl_decode_encode [simp]: "rawurl_decode (rawurl_encode s) = Some s"
proof -
  obtain ds where ds: "list_all (\<lambda>d. d < 64) ds" "length ds mod 4 \<noteq> 1" "rawurl_encode s = map (url_of \<circ> base64_char) ds"
    "base64_encode s = map base64_char ds @ rawurl_padding (length ds)" by (rule rawurl_encode_digits)
  have "filter (\<lambda>c. c \<noteq> CHR 0x0A \<and> c \<noteq> CHR 0x0D) (rawurl_encode s) = rawurl_encode s"
    using ds(1) by (auto simp: filter_id_conv list_all_iff base64_char_url ds(3))
  moreover have "list_all (\<lambda>c. c \<in> url_of ` set base64_alphabet) (rawurl_encode s)"
    using ds(1) by (simp add: list_all_iff base64_char_url ds(3))
  moreover have "map std_of (rawurl_encode s) @ rawurl_padding (length (rawurl_encode s)) = base64_encode s"
    using ds(1) by (auto simp: list_all_iff base64_char_url ds(3) ds(4))
  ultimately show ?thesis using ds(2,3) by (simp add: rawurl_decode_def Let_def base64_quads_encode)
qed

lemma of_base64_encode [simp]: "of_base64 (rawurl_encode s) = Inr s"
  by (simp add: of_base64_def)

lemma keyToBytes_B64 [simp]: "length key = 32 \<Longrightarrow> keyToBytes (KeyBytesToB64String key) = Inr key"
  by (simp add: keyToBytes_def KeyBytesToB64String_def)

subsection \<open>Who can decrypt\<close>

text \<open>A key whose private half opens what is sealed with the public one, as the boxes promise.\<close>

definition key_ok :: "'e nacl_lib \<Rightarrow> NaclKey \<Rightarrow> bool" where
  "key_ok L k \<longleftrightarrow> length (nk_PublicKey k) = 32 \<and>
     (\<exists>priv. nk_privateKey k = Some priv \<and>
       (\<forall>draw msg c. nl_Seal L draw msg (nk_PublicKey k) = Inr c \<longrightarrow> nl_Open L c (nk_PublicKey k) priv = Some msg))"

lemma multipleLoop_get:
  fixes L :: "'e nacl_lib"
  shows "multipleLoop L draw msg keys out = Inr data \<Longrightarrow>
   (if pub \<in> set keys then \<exists>d key c. keyToBytes pub = (Inr key :: 'e nacl_error + string) \<and> nl_Seal L d msg key = Inr c \<and> gm_get data pub = Some (rawurl_encode c)
    else gm_get data pub = gm_get out pub)"
proof (induction L draw msg keys out rule: multipleLoop.induct)
  case (2 L draw msg pubKey keys out)
  then obtain key c where k: "keyToBytes pubKey = (Inr key :: 'e nacl_error + string)" "nl_Seal L draw msg key = Inr c"
      "Encrypt L draw msg pubKey = Inr \<lparr>ed_PublicKey = pubKey, ed_EncryptedContent = rawurl_encode c\<rparr>"
      "multipleLoop L (Suc draw) msg keys (gm_set out pubKey (rawurl_encode c)) = Inr data"
    by (auto simp: bind_err_Inr Encrypt_def map_sum_Inr)
  from 2(1) [OF k(3)] k(1,2,4) show ?case
    by (fastforce simp: go_map split: if_splits)
qed simp

definition decoded :: "(string, string) gomap \<Rightarrow> (string, string) gomap" where
  "decoded data = map (\<lambda>(k, v). (k, the (rawurl_decode v))) data"

lemma gm_get_decoded: "gm_get (decoded data) k = map_option (\<lambda>v. the (rawurl_decode v)) (gm_get data k)"
  by (simp add: gm_get_def decoded_def map_of_map)

lemma multipleLoop_values:
  "multipleLoop L draw msg keys out = Inr data \<Longrightarrow> gm_ok out \<Longrightarrow> \<forall>(k, v) \<in> set out. \<exists>c. v = rawurl_encode c \<Longrightarrow>
   \<forall>(k, v) \<in> set data. \<exists>c. v = rawurl_encode c"
proof (induction L draw msg keys out rule: multipleLoop.induct)
  case (2 L draw msg pubKey keys out)
  then obtain e c where e: "Encrypt L draw msg pubKey = Inr e" "ed_EncryptedContent e = rawurl_encode c"
      "multipleLoop L (Suc draw) msg keys (gm_set out pubKey (ed_EncryptedContent e)) = Inr data"
    by (auto simp: bind_err_Inr Encrypt_def)
  have "\<forall>(k, v) \<in> set (gm_set out pubKey (ed_EncryptedContent e)). \<exists>c. v = rawurl_encode c"
    using 2(4) e(2) by (auto dest!: set_gm_set)
  with 2(1) [OF e(1,3)] 2(3) show ?case by simp
qed simp

lemma unwrap_Marshal:
  assumes "MultipleKeyEncrypt L draw msg recipients = Inr data" "nl_unmarshalMap L (nl_marshalMap L data) = Inr data"
  shows "unwrapForDecryption L (MultiEncryptedData_Marshal L data) = Inr (decoded data)"
proof -
  have m: "MultiEncryptedData_Marshal L data = EncPrefix @ rawurl_encode (nl_marshalMap L data) @ EncSuffix"
    by (simp add: MultiEncryptedData_Marshal_def EncPrefix_def EncSuffix_def)
  have "\<forall>(k, v) \<in> set data. \<exists>c. v = rawurl_encode c"
    using multipleLoop_values [of L draw msg recipients "[]" data] assms(1) by (simp add: MultipleKeyEncrypt_def)
  then have "map_err (\<lambda>(k, v). bind_err (of_base64 v) (\<lambda>b. Inr (k, b))) data = Inr (decoded data)"
    unfolding decoded_def by (intro map_err_all) auto
  then show ?thesis by (simp add: unwrapForDecryption_def m assms(2))
qed

lemma Decrypt_recipient:
  fixes L :: "'e nacl_lib"
  assumes "key_ok L k" "MultipleKeyEncrypt L draw msg recipients = Inr data" "nl_unmarshalMap L (nl_marshalMap L data) = Inr data"
  shows "NaclKey_Decrypt L k (MultiEncryptedData_Marshal L data) =
    (if KeyBytesToB64String (nk_PublicKey k) \<in> set recipients then Inr msg else Inl DecryptionKeyNotAvailable)"
proof -
  let ?pub = "KeyBytesToB64String (nk_PublicKey k)"
  obtain priv where k: "length (nk_PublicKey k) = 32" "nk_privateKey k = Some priv"
      "\<And>draw msg c. nl_Seal L draw msg (nk_PublicKey k) = Inr c \<Longrightarrow> nl_Open L c (nk_PublicKey k) priv = Some msg"
    using assms(1) by (auto simp: key_ok_def)
  note g = multipleLoop_get [OF assms(2) [unfolded MultipleKeyEncrypt_def], of ?pub]
  show ?thesis
  proof (cases "?pub \<in> set recipients")
    case True
    with g k(1) obtain d c where "nl_Seal L d msg (nk_PublicKey k) = Inr c" "gm_get data ?pub = Some (rawurl_encode c)" by auto
    then show ?thesis using True k(2,3) by (simp add: NaclKey_Decrypt_def unwrap_Marshal [OF assms(2,3)] gm_get_decoded)
  next
    case False
    with g show ?thesis by (simp add: NaclKey_Decrypt_def unwrap_Marshal [OF assms(2,3)] gm_get_decoded)
  qed
qed

lemma decryptLoop_recipient:
  assumes "MultipleKeyEncrypt L draw msg recipients = Inr data" "nl_unmarshalMap L (nl_marshalMap L data) = Inr data"
  shows "\<forall>(_, k) \<in> set keys. key_ok L k \<Longrightarrow>
   decryptLoop L (MultiEncryptedData_Marshal L data) keys errs =
     (if \<exists>(_, k) \<in> set keys. KeyBytesToB64String (nk_PublicKey k) \<in> set recipients then Inr msg
      else Inl (UnableToDecrypt (errs @ map (\<lambda>(_, k). (KeyBytesToB64String (nk_PublicKey k), DecryptionKeyNotAvailable)) keys)))"
proof (induction keys arbitrary: errs)
  case (Cons e keys)
  obtain n k where e: "e = (n, k)" by (cases e)
  show ?case using Cons by (simp add: e Decrypt_recipient [OF _ assms])
qed simp

subsection \<open>The key of a project\<close>

lemma storedKeys_single:
  assumes "length (nk_PublicKey key) = 32" "nk_Primary key = Some True"
  shows "storedKeys (nk_acornNamespaceUID key) [(KeyBytesToB64String (nk_PublicKey key),
      \<lparr>ns_AcornNamespace = nk_AcornNamespace key, ns_Primary = nk_Primary key, ns_AcornNamespaceUID = nk_acornNamespaceUID key,
       ns_PrivateKey = nk_privateKey key, ns_PublicKey = Some (nk_PublicKey key)\<rparr>)] [] =
    Inr (gm_set [(KeyBytesToB64String (nk_PublicKey key), key)] ''primary'' key)"
  using assms by (cases key) (simp add: storedKey_def Let_def gm_set_def)

text \<open>What the library promises: a generated pair has 32 bytes and opens what it seals, and the text of a store with one key is read back.\<close>

definition nacl_laws :: "'e nacl_lib \<Rightarrow> bool" where
  "nacl_laws L \<longleftrightarrow>
     (\<forall>draw pub priv. nl_GenerateKey L draw = Inr (pub, priv) \<longrightarrow> length pub = 32 \<and> length priv = 32 \<and>
        (\<forall>d msg c. nl_Seal L d msg pub = Inr c \<longrightarrow> nl_Open L c pub priv = Some msg)) \<and>
     (\<forall>k v. nl_unmarshalStore L (nl_marshalStore L [(k, v)]) = Inr [(k, v)])"

lemma map_sum_id_Inr: "map_sum id f r = Inr y \<longleftrightarrow> (\<exists>x. r = Inr x \<and> y = f x)"
  by (cases r) auto

lemma created_key:
  assumes laws: "nacl_laws L" and created: "getExistingSecret F st ns = Inl (NotFoundError n)"
    "GetOrCreatePrimaryNaclKey L F draw st ns = Inr (key, st')"
  obtains k where "key = Some k" "key_ok L k"
    "GetAllNaclKeys L F st' ns = Inr (gm_set [(KeyBytesToB64String (nk_PublicKey k), k)] ''primary'' k)"
    "GetOrCreatePrimaryNaclKey L F draw' st' ns = Inr (Some k, st')"
proof -
  from created obtain pub priv meta st1 where g: "nl_GenerateKey L draw = Inr (pub, priv)" "kube_getNamespace F st ns = Inr meta"
    and k: "key = Some \<lparr>nk_AcornNamespace = ns, nk_Primary = Some True, nk_PublicKey = pub, nk_acornNamespaceUID = om_UID meta, nk_privateKey = Some priv\<rparr>"
      "createOrUpdateNaclKeySecret L F st \<lparr>nk_AcornNamespace = ns, nk_Primary = Some True, nk_PublicKey = pub,
         nk_acornNamespaceUID = om_UID meta, nk_privateKey = Some priv\<rparr> None = Inr st'"
    by (auto simp: GetOrCreatePrimaryNaclKey_def generateNewKeys_def Let_def bind_err_Inr map_sum_Inr map_sum_id_Inr split: sum.splits)
  let ?k = "\<lparr>nk_AcornNamespace = ns, nk_Primary = Some True, nk_PublicKey = pub, nk_acornNamespaceUID = om_UID meta, nk_privateKey = Some priv\<rparr>"
  let ?name = "secretNameGen ns (om_UID meta)"
  obtain data where d: "toSecretData L ?k None = Inr data" by (simp add: toSecretData_def)
  from k(2) d have st': "ku_namespaces st' = ku_namespaces st" "gm_get (ku_secrets st') (system_Namespace, ?name) = Some
      \<lparr>kx_Meta = zero_ObjectMeta\<lparr>om_Namespace := system_Namespace, om_Name := ?name, om_Labels := [(AcornSecretGenerated, ''true''), (AcornManaged, ''true'')]\<rparr>,
       kx_Type = ''Opaque'', kx_Data = data\<rparr>"
    by (auto simp: createOrUpdateNaclKeySecret_def kube_createSecret_def kube_key_def go_map map_sum_Inr split: option.splits if_splits)
  have name: "naclSecretName F st ns = Inr ?name" by (simp add: naclSecretName_def g(2))
  have "naclSecretName F st' ns = naclSecretName F st ns"
    unfolding naclSecretName_def kube_getNamespace_def st'(1) ..
  moreover have "F (CallGetSecret system_Namespace ?name) = None"
    using created(1) by (simp add: getExistingSecret_def name kube_getSecret_def split: option.splits)
  ultimately obtain secret where existing: "getExistingSecret F st' ns = Inr secret" "kx_Data secret = data"
    by (simp add: getExistingSecret_def name kube_getSecret_def st'(2))
  from laws g(1) have l: "length pub = 32" "key_ok L ?k"
    by (auto simp: nacl_laws_def key_ok_def)
  have "secretToNaclKeys L secret ns = Inr (gm_set [(KeyBytesToB64String pub, ?k)] ''primary'' ?k)"
    using d laws storedKeys_single [of ?k] l(1)
    by (auto simp: secretToNaclKeys_def existing(2) toSecretData_def Let_def gm_get_def naclStoreKey_def naclNSUID_def gm_set_def nacl_laws_def)
  then show ?thesis
    using that [OF k(1) l(2)] existing(1)
    by (simp add: GetAllNaclKeys_def GetOrCreatePrimaryNaclKey_def go_map)
qed

subsection \<open>Properties\<close>

text \<open>C23: A value encrypted for several public keys is decrypted by a project exactly when one of the keys of the project is among them, and the
  result is the value itself; otherwise the error names every key of the project that was tried.\<close>

theorem decrypts_iff_recipient:
  assumes "GetAllNaclKeys L F st namespace = Inr keys" "\<forall>(_, k) \<in> set keys. key_ok L k"
    and "MultipleKeyEncrypt L draw msg recipients = Inr data" "nl_unmarshalMap L (nl_marshalMap L data) = Inr data"
  shows "DecryptNamespacedData L F st (MultiEncryptedData_Marshal L data) namespace =
     (if \<exists>(_, k) \<in> set keys. KeyBytesToB64String (nk_PublicKey k) \<in> set recipients then Inr msg
      else Inl (UnableToDecrypt (map (\<lambda>(_, k). (KeyBytesToB64String (nk_PublicKey k), DecryptionKeyNotAvailable)) keys)))"
  using decryptLoop_recipient [OF assms(3,4,2), of "[]"] by (simp add: DecryptNamespacedData_def assms(1))

text \<open>C24: The key pair of a project is made once: after it was created every further request gives the same key and leaves the cluster as it
  is, the public key handed out is that of the pair, and what is encrypted for it can be decrypted in the project.\<close>

theorem project_key_stable:
  assumes "nacl_laws L" "getExistingSecret F st namespace = Inl (NotFoundError n)"
    and "GetOrCreatePrimaryNaclKey L F draw st namespace = Inr (key, st')"
    and "MultipleKeyEncrypt L draw2 msg recipients = Inr data" "nl_unmarshalMap L (nl_marshalMap L data) = Inr data"
    and "GetPublicKey L F st' namespace = Inr public" "public \<in> set recipients"
  shows "GetOrCreatePrimaryNaclKey L F draw' st' namespace = Inr (key, st') \<and> key \<noteq> None \<and>
    public = KeyBytesToB64String (nk_PublicKey (the key)) \<and>
    DecryptNamespacedData L F st' (MultiEncryptedData_Marshal L data) namespace = Inr msg"
proof -
  obtain k where k: "key = Some k" "key_ok L k" "GetAllNaclKeys L F st' namespace = Inr (gm_set [(KeyBytesToB64String (nk_PublicKey k), k)] ''primary'' k)"
    "GetOrCreatePrimaryNaclKey L F draw' st' namespace = Inr (Some k, st')"
    using assms(1-3) by (rule created_key)
  have public: "public = KeyBytesToB64String (nk_PublicKey k)"
    using assms(6) by (simp add: GetPublicKey_def GetPrimaryNaclKey_def k(3) go_map)
  have "\<forall>(_, k') \<in> set (gm_set [(KeyBytesToB64String (nk_PublicKey k), k)] ''primary'' k). k' = k" by (auto dest!: set_gm_set)
  moreover have "gm_set [(KeyBytesToB64String (nk_PublicKey k), k)] ''primary'' k \<noteq> []" by (simp add: gm_set_def)
  ultimately have "decryptLoop L (MultiEncryptedData_Marshal L data) (gm_set [(KeyBytesToB64String (nk_PublicKey k), k)] ''primary'' k) [] = Inr msg"
    using decryptLoop_recipient [OF assms(4,5), of _ "[]"] k(2) assms(7) public by (fastforce simp: neq_Nil_conv)
  then show ?thesis by (simp add: k public DecryptNamespacedData_def)
qed

text \<open>A library with one key for each draw, a box that shows its public key, and a text of escaped fields.\<close>

definition sample_fields :: "string list \<Rightarrow> string" where
  "sample_fields fs = concat (map (\<lambda>f. concat (map (\<lambda>c. [CHR ''x'', c]) f) @ ''.'') fs)"

fun nacl_sample_parse :: "string \<Rightarrow> string \<Rightarrow> string list" where
  "nacl_sample_parse acc [] = []"
| "nacl_sample_parse acc [c] = [acc]"
| "nacl_sample_parse acc (c # d # r) = (if c = CHR ''x'' then nacl_sample_parse (acc @ [d]) r else acc # nacl_sample_parse [] (d # r))"

definition sample_flag :: "bool option \<Rightarrow> string" where
  "sample_flag b = (case b of None \<Rightarrow> ''-'' | Some b \<Rightarrow> if b then ''t'' else ''f'')"

definition sample_option :: "string option \<Rightarrow> string" where
  "sample_option t = (case t of None \<Rightarrow> [] | Some t \<Rightarrow> CHR ''s'' # t)"

definition sample_nacl :: "unit nacl_lib" where
  "sample_nacl = \<lparr>
     nl_GenerateKey = (\<lambda>n. let k = take 32 (itoa (int n) @ replicate 32 (CHR ''k'')) in Inr (k, k)),
     nl_Seal = (\<lambda>_ msg pub. Inr (pub @ msg)),
     nl_Open = (\<lambda>c pub priv. if take 32 c = priv then Some (drop 32 c) else None),
     nl_marshalMap = (\<lambda>m. sample_fields (concat (map (\<lambda>(k, v). [k, v]) m))),
     nl_unmarshalMap = (\<lambda>t. case nacl_sample_parse [] t of [k, v] \<Rightarrow> Inr [(k, v)] | _ \<Rightarrow> Inl ()),
     nl_marshalStore = (\<lambda>m. sample_fields (concat (map (\<lambda>(k, v). [k, ns_AcornNamespace v, sample_flag (ns_Primary v), ns_AcornNamespaceUID v,
        sample_option (ns_PrivateKey v), sample_option (ns_PublicKey v)]) m))),
     nl_unmarshalStore = (\<lambda>t. case nacl_sample_parse [] t of
        [k, ns, p, uid, priv, pub] \<Rightarrow> Inr [(k, \<lparr>ns_AcornNamespace = ns, ns_Primary = (if p = ''-'' then None else Some (p = ''t'')), ns_AcornNamespaceUID = uid,
          ns_PrivateKey = (if priv = [] then None else Some (tl priv)), ns_PublicKey = (if pub = [] then None else Some (tl pub))\<rparr>)]
      | _ \<Rightarrow> Inl ())\<rparr>"

lemma nacl_sample_parse_field: "nacl_sample_parse acc (concat (map (\<lambda>c. [CHR ''x'', c]) f) @ CHR ''.'' # r) = (acc @ f) # nacl_sample_parse [] r"
  by (induction f arbitrary: acc) (cases r, auto)

lemma nacl_sample_parse_fields: "nacl_sample_parse [] (sample_fields fs) = fs"
  by (induction fs) (simp_all add: sample_fields_def nacl_sample_parse_field)

lemma sample_nacl_laws: "nacl_laws sample_nacl"
  by (simp add: nacl_laws_def sample_nacl_def Let_def nacl_sample_parse_fields sample_flag_def sample_option_def min_def split: option.splits)

definition sample_kube :: kube where
  "sample_kube = \<lparr>ku_namespaces = [(''p'', zero_ObjectMeta\<lparr>om_Name := ''p'', om_UID := ''uid''\<rparr>)], ku_secrets = []\<rparr>"

definition sample_public :: string where
  "sample_public = KeyBytesToB64String (''7'' @ replicate 31 (CHR ''k''))"

definition sample_created :: kube where
  "sample_created = snd (projr (GetOrCreatePrimaryNaclKey sample_nacl (\<lambda>_. None) 7 sample_kube ''p''))"

definition sample_pair :: NaclKey where
  "sample_pair = the (fst (projr (GetOrCreatePrimaryNaclKey sample_nacl (\<lambda>_. None) 7 sample_kube ''p'')))"

lemma sample_encrypted:
  "MultipleKeyEncrypt sample_nacl 0 ''hello'' [sample_public] =
     (Inr [(sample_public, rawurl_encode ((''7'' @ replicate 31 (CHR ''k'')) @ ''hello''))] :: unit nacl_error + (string, string) gomap)"
  by (simp add: MultipleKeyEncrypt_def Encrypt_def sample_public_def gm_set_def) (simp add: sample_nacl_def)

lemma sample_single: "nl_unmarshalMap sample_nacl (nl_marshalMap sample_nacl [(k, v)]) = Inr [(k, v)]"
  by (simp add: sample_nacl_def nacl_sample_parse_fields)

lemma sample_none: "getExistingSecret (\<lambda>_. None :: unit option) sample_kube ''p'' = Inl (NotFoundError ''p-uid-enc-keys'')"
  by code_simp

lemma sample_get_or_create:
  "GetOrCreatePrimaryNaclKey sample_nacl (\<lambda>_. None) 7 sample_kube ''p'' = Inr (Some sample_pair, sample_created) \<and>
   sample_pair = \<lparr>nk_AcornNamespace = ''p'', nk_Primary = Some True, nk_PublicKey = ''7'' @ replicate 31 (CHR ''k''), nk_acornNamespaceUID = ''uid'',
     nk_privateKey = Some (''7'' @ replicate 31 (CHR ''k''))\<rparr>"
proof -
  have "take 32 (itoa (int 7) @ replicate 32 (CHR ''k'')) = ''7'' @ replicate 31 (CHR ''k'')" by code_simp
  then have k: "nl_GenerateKey sample_nacl 7 = Inr (''7'' @ replicate 31 (CHR ''k''), ''7'' @ replicate 31 (CHR ''k''))"
    by (simp add: sample_nacl_def Let_def)
  have n: "kube_getNamespace (\<lambda>_. None :: unit option) sample_kube ''p'' = Inr (zero_ObjectMeta\<lparr>om_Name := ''p'', om_UID := ''uid''\<rparr>)" by code_simp
  have c: "\<exists>st'. createOrUpdateNaclKeySecret sample_nacl (\<lambda>_. None) sample_kube key None = Inr st'" for key
    by (simp add: createOrUpdateNaclKeySecret_def toSecretData_def kube_createSecret_def sample_kube_def gm_has_def Let_def)
  define g where "g = GetOrCreatePrimaryNaclKey sample_nacl (\<lambda>_. None) 7 sample_kube ''p''"
  let ?k = "\<lparr>nk_AcornNamespace = ''p'', nk_Primary = Some True, nk_PublicKey = ''7'' @ replicate 31 (CHR ''k''),
      nk_acornNamespaceUID = ''uid'', nk_privateKey = Some (''7'' @ replicate 31 (CHR ''k''))\<rparr>"
  obtain st' where "createOrUpdateNaclKeySecret sample_nacl (\<lambda>_. None) sample_kube ?k None = Inr st'" using c by blast
  then have "g = Inr (Some ?k, st')"
    by (simp add: g_def GetOrCreatePrimaryNaclKey_def sample_none generateNewKeys_def k n Let_def)
  then show ?thesis unfolding sample_pair_def sample_created_def g_def [symmetric] by simp
qed

lemma sample_keys:
  "key_ok sample_nacl sample_pair"
  "GetAllNaclKeys sample_nacl (\<lambda>_. None) sample_created ''p'' = Inr (gm_set [(sample_public, sample_pair)] ''primary'' sample_pair)"
proof -
  obtain k where "Some sample_pair = Some k" "key_ok sample_nacl k"
    "GetAllNaclKeys sample_nacl (\<lambda>_. None) sample_created ''p'' = Inr (gm_set [(KeyBytesToB64String (nk_PublicKey k), k)] ''primary'' k)"
    by (rule created_key [OF sample_nacl_laws sample_none conjunct1 [OF sample_get_or_create], where draw' = 0])
  moreover have "KeyBytesToB64String (nk_PublicKey sample_pair) = sample_public"
    unfolding conjunct2 [OF sample_get_or_create] by (simp add: sample_public_def)
  ultimately show "key_ok sample_nacl sample_pair"
    "GetAllNaclKeys sample_nacl (\<lambda>_. None) sample_created ''p'' = Inr (gm_set [(sample_public, sample_pair)] ''primary'' sample_pair)"
    by simp_all
qed

theorem project_key_stable_witness:
  "DecryptNamespacedData sample_nacl (\<lambda>_. None) sample_created
     (MultiEncryptedData_Marshal sample_nacl [(sample_public, rawurl_encode ((''7'' @ replicate 31 (CHR ''k'')) @ ''hello''))]) ''p'' = Inr ''hello''"
proof -
  note g = conjunct1 [OF sample_get_or_create]
  have "KeyBytesToB64String (nk_PublicKey sample_pair) = sample_public"
    unfolding conjunct2 [OF sample_get_or_create] by (simp add: sample_public_def)
  then have "GetPublicKey sample_nacl (\<lambda>_. None) sample_created ''p'' = Inr sample_public"
    by (simp add: GetPublicKey_def GetPrimaryNaclKey_def sample_keys(2) go_map)
  from project_key_stable [OF sample_nacl_laws sample_none g sample_encrypted sample_single this] show ?thesis by simp
qed

theorem decrypts_iff_recipient_witness:
  "DecryptNamespacedData sample_nacl (\<lambda>_. None) sample_created
     (MultiEncryptedData_Marshal sample_nacl [(sample_public, rawurl_encode ((''7'' @ replicate 31 (CHR ''k'')) @ ''hello''))]) ''p'' \<noteq> Inl BadBase64"
proof -
  have "\<forall>(_, k) \<in> set (gm_set [(sample_public, sample_pair)] ''primary'' sample_pair). key_ok sample_nacl k"
    using sample_keys(1) by (auto dest!: set_gm_set)
  from decrypts_iff_recipient [OF sample_keys(2) this sample_encrypted sample_single] show ?thesis by simp
qed

end
