(* ===== verification/Interpolation.thy ===== *)
theory Interpolation
  imports Encryption Readiness ImageRefs Classes
begin

text \<open>
  The interpolation of the texts of an app, \<open>pkg/secrets/interpolation.go\<close>: expressions such as \<open>secret.db.password\<close> in braces after an at sign, in environment variables
  and files are replaced, and what was interpolated is kept in one secret of the app, by digest. The copies an interpolator hands out for a
  container, job or service share the maps of the original: here they are one state that is passed on, and the names are a \<open>scope\<close>. A
  reference may lead around in a circle, so \<open>resolveToken\<close> is a partial function (\<open>Refs\<close>). The replacement of tokens, the
  interpolation of data, image tags, digests and the concatenation of names are libraries: parameters (\<open>interp_lib\<close>).
\<close>

subsection \<open>Text\<close>

text \<open>\<open>strings.Cut\<close> and \<open>strings.ReplaceAll\<close> for one character.\<close>

definition cut_text :: "string \<Rightarrow> string \<Rightarrow> string \<times> string \<times> bool" where
  "cut_text s sep = (case index_str sep s of None \<Rightarrow> (s, [], False) | Some n \<Rightarrow> (take n s, drop (n + length sep) s, True))"

definition replace_char :: "char \<Rightarrow> char \<Rightarrow> string \<Rightarrow> string" where
  "replace_char c d s = map (\<lambda>x. if x = c then d else x) s"

text \<open>\<open>%v\<close> of a list of texts.\<close>

definition list_text :: "string list \<Rightarrow> string" where
  "list_text xs = ''['' @ str_join '' '' xs @ '']''"

subsection \<open>Errors and what is read\<close>

datatype 'e interp_error =
    ErrInterpolation ExpressionError
  | Errorf string
  | ObjectNotFound string
  | CorruptBase64 string
  | DecryptFailed "'e nacl_error"
  | Foreign 'e
  | UIDTooShort

text \<open>\<open>UIDTooShort\<close> is the panic of a slice that is out of range; it stops the handler.\<close>

datatype interp_panic = SliceOutOfRange

record ('e, 'f, 'q) interp_lib =
  il_refs :: "('e, 'f, 'q) ref_cluster"
  il_clusterDomain :: "'e + string"
  il_Interpolate :: "'f GenericMap \<Rightarrow> string \<Rightarrow> 'e + string"
  il_TagDigest :: "string \<Rightarrow> string \<Rightarrow> 'e + string"
  il_SHA256 :: "string list \<Rightarrow> string"
  il_SafeConcatName :: "string list \<Rightarrow> string"
  il_Replace :: "string \<Rightarrow> string \<Rightarrow> string \<Rightarrow> (string \<Rightarrow> ('e interp_error + string \<times> bool) option) \<Rightarrow> ('e interp_error + string) option"
  il_Decrypt :: "string \<Rightarrow> string \<Rightarrow> 'e nacl_error + string"
  il_errorText :: "'e interp_error \<Rightarrow> string"

definition errorText :: "('e, 'f, 'q) interp_lib \<Rightarrow> 'e interp_error \<Rightarrow> string" where
  "errorText L err =
     (case err of ErrInterpolation e \<Rightarrow> ExpressionError_String e | Errorf s \<Rightarrow> s | e \<Rightarrow> il_errorText L e)"

definition serviceTokens :: "string list" where
  "serviceTokens = [''address'', ''data'', ''endpoint'', ''host'', ''hostname'', ''port'', ''ports'', ''secret'', ''secrets'']"

definition missingService :: "string \<Rightarrow> 'e interp_error" where
  "missingService name = ErrInterpolation \<lparr>ee_DependencyNotFound = Some \<lparr>nf_DependencyType = DependencyService, nf_Name = name\<rparr>, ee_Expression = [], ee_Error = []\<rparr>"

subsection \<open>The account and the project of an app\<close>

definition AcornAccountID :: string where "AcornAccountID = Prefix @ ''account-id''"
definition AcornProjectName :: string where "AcornProjectName = Prefix @ ''project-name''"

definition readNamespace :: "('e, 'f, 'q) interp_lib \<Rightarrow> string \<Rightarrow> 'e interp_error + ObjectMeta" where
  "readNamespace L name =
     (case rc_getNamespace (il_refs L) name of
        Inl e \<Rightarrow> Inl (Foreign e) | Inr None \<Rightarrow> Inl (ObjectNotFound name) | Inr (Some ns) \<Rightarrow> Inr ns)"

definition getAccountID :: "('e, 'f, 'q) interp_lib \<Rightarrow> ('f, 'q) AppInstance \<Rightarrow> 'e interp_error + string" where
  "getAccountID L app =
     bind_err (readNamespace L (om_Namespace (app_Meta app))) (\<lambda>ns.
       let name = gm_get_or [] (om_Labels ns) AcornAccountID
       in if name = [] then
            bind_err (readNamespace L ''kube-system'') (\<lambda>ns.
              if length (om_UID ns) < 8 then Inl UIDTooShort else Inr (''runtime-'' @ take 8 (om_UID ns)))
          else Inr name)"

definition getProjectName :: "('e, 'f, 'q) interp_lib \<Rightarrow> ('f, 'q) AppInstance \<Rightarrow> 'e interp_error + string" where
  "getProjectName L app =
     bind_err (readNamespace L (om_Namespace (app_Meta app))) (\<lambda>ns.
       let name = gm_get_or [] (om_Labels ns) AcornProjectName
       in Inr (if name = [] then om_Namespace (app_Meta app) else name))"

definition normalizeString :: "string \<Rightarrow> string" where
  "normalizeString s = replace_char (CHR ''/'') (CHR ''-'') (replace_char (CHR ''.'') (CHR ''-'') (str_to_lower s))"

definition ExternalID :: "('e, 'f, 'q) interp_lib \<Rightarrow> string \<Rightarrow> string \<Rightarrow> string \<Rightarrow> string" where
  "ExternalID L accountID projectName acornName =
     il_SafeConcatName L [''acorn'', normalizeString accountID, normalizeString projectName, normalizeString acornName,
       il_SHA256 L [accountID, projectName, acornName]]"

definition getExternalID :: "('e, 'f, 'q) interp_lib \<Rightarrow> ('f, 'q) AppInstance \<Rightarrow> 'e interp_error + string" where
  "getExternalID L app =
     bind_err (getAccountID L app) (\<lambda>accountID.
     bind_err (getProjectName L app) (\<lambda>projectName.
       Inr (ExternalID L accountID projectName (publicname_Get (app_Meta app)))))"

subsection \<open>Expressions\<close>

definition resolveApp :: "('e, 'f, 'q) interp_lib \<Rightarrow> ('f, 'q) AppInstance \<Rightarrow> string \<Rightarrow> 'e interp_error + string \<times> bool" where
  "resolveApp L app keyName =
     (let key = str_to_lower keyName; found = map_sum id (\<lambda>s. (s, True)); img = is_AppImage (app_Status app)
      in if key = ''name'' then Inr (publicname_Get (app_Meta app), True)
         else if key = ''account'' then found (getAccountID L app)
         else if key = ''project'' then found (getProjectName L app)
         else if key = ''namespace'' then Inr (is_Namespace (app_Status app), True)
         else if key = ''image'' then
           (if IsLocalReference (ig_ID img) \<or> str_contains (ig_ID img) ''sha256:'' then Inr (ig_ID img, True)
            else if ig_ID img \<noteq> [] \<and> ig_Digest img \<noteq> [] then map_sum Foreign (\<lambda>s. (s, True)) (il_TagDigest L (ig_ID img) (ig_Digest img))
            else Inr ([], False))
         else if key = ''imagename'' then Inr (ig_Name img, True)
         else if key = ''commitsha'' then Inr (vcs_Revision (ig_VCS img), True)
         else if key = ''externalid'' then found (getExternalID L app)
         else Inr ([], False))"

definition resolveImages :: "('f, 'q) AppInstance \<Rightarrow> string \<Rightarrow> string \<times> bool" where
  "resolveImages app imageName =
     (case gm_get (as_Images (is_AppSpec (app_Status app))) imageName of
        None \<Rightarrow> ([], False)
      | Some img \<Rightarrow> let result = str_trim_prefix (im_Image img) ''sha256:'' in (result, result \<noteq> []))"

text \<open>The value of a secret that a lookup found; a key that is missing gives the empty text.\<close>

definition secretValue :: "string \<Rightarrow> string \<Rightarrow> 'e ref_error + KSecret \<Rightarrow> 'e interp_error + string" where
  "secretValue shown keyName r =
     (case r of Inl (RefNotFound _) \<Rightarrow> Inl (missingService shown) | Inl (RefError e) \<Rightarrow> Inl (Foreign e)
      | Inr secret \<Rightarrow> Inr (gm_get_or [] (kx_Data secret) keyName))"

definition resolveSecrets :: "('e, 'f, 'q) interp_lib \<Rightarrow> ('f, 'q) AppInstance \<Rightarrow> string list \<Rightarrow> string \<Rightarrow> ('e interp_error + string \<times> bool) option" where
  "resolveSecrets L app secretName keyName =
     map_option (\<lambda>r. map_sum id (\<lambda>s. (s, True)) (secretValue (str_join ''.'' secretName) keyName r))
       (Lookup_Secret (il_refs L) (is_Namespace (app_Status app)) secretName)"

definition splitServiceProperty :: "string list \<Rightarrow> 'e interp_error + string list \<times> string list" where
  "splitServiceProperty parts =
     (if list_ex (\<lambda>part. part \<in> set serviceTokens) parts then
        Inr (takeWhile (\<lambda>part. part \<notin> set serviceTokens) parts, dropWhile (\<lambda>part. part \<notin> set serviceTokens) parts)
      else Inl (Errorf (''service lookup ['' @ str_join ''.'' parts @ ''] must include one service propery ['' @ str_join '','' serviceTokens @ '']'')))"

definition portProperty :: "'f ServiceInstance \<Rightarrow> string list \<Rightarrow> 'e interp_error + string" where
  "portProperty svc extra =
     (case extra of
        [number] \<Rightarrow>
          (case find (\<lambda>p. itoa (sint (pd_Port p)) = number) (map PortDef_Complete (si_Ports svc)) of
             Some p \<Rightarrow> Inr (itoa (sint (pd_TargetPort p)))
           | None \<Rightarrow> Inl (Errorf (''failed to find port ['' @ number @ ''] defined on service ['' @ om_Name (si_Meta svc) @ '']'')))
      | _ \<Rightarrow> Inl (Errorf (''can not lookup ports expecting single number, got ['' @ str_join ''.'' extra @ '']'')))"

definition addressProperty :: "('e, 'f, 'q) interp_lib \<Rightarrow> 'f ServiceInstance \<Rightarrow> 'e interp_error + string" where
  "addressProperty L svc =
     (if si_Address svc \<noteq> [] then Inr (si_Address svc)
      else map_sum Foreign (\<lambda>domain. om_Name (si_Meta svc) @ ''.'' @ om_Namespace (si_Meta svc) @ ''.'' @ domain) (il_clusterDomain L))"

definition endpointProperty :: "'f ServiceInstance \<Rightarrow> 'e interp_error + string" where
  "endpointProperty svc =
     (case si_Endpoints svc of
        ep # _ \<Rightarrow> Inr (ep_Address ep)
      | [] \<Rightarrow> Inl (ErrInterpolation \<lparr>ee_DependencyNotFound = None, ee_Expression = [],
          ee_Error = ''endpoint on service ['' @ om_Name (si_Meta svc) @ ''] undefined''\<rparr>))"

text \<open>The property before it is searched for nested expressions.\<close>

definition plainProperty :: "('e, 'f, 'q) interp_lib \<Rightarrow> 'f ServiceInstance \<Rightarrow> string \<Rightarrow> string list \<Rightarrow> ('e interp_error + string) option" where
  "plainProperty L svc prop extra =
     (let invalid = Errorf (''invalid property ['' @ prop @ ''] to lookup on service ['' @ om_Name (si_Meta svc) @ '']'')
      in if prop \<notin> set serviceTokens then Some (Inl invalid)
         else if prop = ''secret'' \<or> prop = ''secrets'' then
           (case extra of
              [name, key] \<Rightarrow> map_option (secretValue name key) (Lookup_Secret (il_refs L) (om_Namespace (si_Meta svc)) [name])
            | _ \<Rightarrow> Some (Inl (Errorf (''invalid secret lookup on service ['' @ om_Name (si_Meta svc) @ ''] key must be at least two parts, got '' @ list_text extra))))
         else if prop = ''endpoint'' then Some (endpointProperty svc)
         else if prop = ''address'' \<or> prop = ''host'' \<or> prop = ''hostname'' then Some (addressProperty L svc)
         else if prop = ''port'' \<or> prop = ''ports'' then Some (portProperty svc extra)
         else if prop = ''data'' then Some (map_sum Foreign id (il_Interpolate L (si_Data svc) ((CHR ''@'' # ''{'') @ str_join ''.'' extra @ ''}'')))
         else Some (Inl invalid))"

text \<open>
  \<open>resolve\<close> of another app is an argument of the functions that are called by it: \<open>rec\<close>. The expression that failed is written into the error on the way
  out.
\<close>

definition withExpression :: "string \<Rightarrow> 'e interp_error + 'a \<Rightarrow> 'e interp_error + 'a" where
  "withExpression token = map_sum (\<lambda>err. case err of ErrInterpolation e \<Rightarrow> ErrInterpolation (e\<lparr>ee_Expression := token\<rparr>) | e \<Rightarrow> e) id"

definition resolveNestedData :: "(('f, 'q) AppInstance \<Rightarrow> string \<Rightarrow> ('e interp_error + string \<times> bool) option) \<Rightarrow> ('e, 'f, 'q) interp_lib \<Rightarrow>
    'f ServiceInstance \<Rightarrow> string \<Rightarrow> ('e interp_error + string) option" where
  "resolveNestedData rec L svc val =
     (if \<not> str_contains val (CHR ''@'' # ''{'') then Some (Inr val)
      else let labels = om_Labels (si_Meta svc); appName = gm_get_or [] labels AcornAppName
        in case rc_getApp (il_refs L) (gm_get_or [] labels AcornAppNamespace) appName of
             Inl e \<Rightarrow> Some (Inl (Foreign e))
           | Inr None \<Rightarrow> Some (Inl (ObjectNotFound appName))
           | Inr (Some app) \<Rightarrow> Option.bind (rec app val) (\<lambda>r. Some (map_sum id fst r)))"

definition serviceProperty :: "(('f, 'q) AppInstance \<Rightarrow> string \<Rightarrow> ('e interp_error + string \<times> bool) option) \<Rightarrow> ('e, 'f, 'q) interp_lib \<Rightarrow>
    'f ServiceInstance \<Rightarrow> string \<Rightarrow> string list \<Rightarrow> ('e interp_error + string) option" where
  "serviceProperty rec L svc prop extra =
     Option.bind (plainProperty L svc prop extra) (\<lambda>r. case r of Inl e \<Rightarrow> Some (Inl e) | Inr val \<Rightarrow> resolveNestedData rec L svc val)"

definition resolveServices :: "(('f, 'q) AppInstance \<Rightarrow> string \<Rightarrow> ('e interp_error + string \<times> bool) option) \<Rightarrow> ('e, 'f, 'q) interp_lib \<Rightarrow>
    ('f, 'q) AppInstance \<Rightarrow> string list \<Rightarrow> ('e interp_error + string \<times> bool) option" where
  "resolveServices rec L app parts =
     (case splitServiceProperty parts of
        Inl e \<Rightarrow> Some (Inl e)
      | Inr (serviceName, properties) \<Rightarrow>
          Option.bind (Lookup_Service (il_refs L) (is_Namespace (app_Status app)) serviceName) (\<lambda>r.
            case r of
              Inl (RefNotFound _) \<Rightarrow> Some (Inl (missingService (str_join ''.'' serviceName)))
            | Inl (RefError e) \<Rightarrow> Some (Inl (Foreign e))
            | Inr svc \<Rightarrow> Option.bind (serviceProperty rec L svc (hd properties) (tl properties)) (\<lambda>r. Some (map_sum id (\<lambda>s. (s, True)) r))))"

definition invalidExpression :: "string \<Rightarrow> string \<Rightarrow> 'e interp_error" where
  "invalidExpression token need = Errorf (''invalid expression ['' @ token @ ''], must have '' @ need @ '' parts separated by \".\"'')"

text \<open>\<open>secret://name/key\<close>, the first form that is tried.\<close>

definition secretURL :: "string \<Rightarrow> (string \<times> string) option" where
  "secretURL token =
     (case cut_text token ''://'' of (scheme, tail, ok) \<Rightarrow>
        if ok \<and> (scheme = ''secret'' \<or> scheme = ''secrets'') then
          (case str_split (CHR ''/'') tail of [name, key] \<Rightarrow> Some (name, key) | _ \<Rightarrow> None)
        else None)"

definition resolveParts :: "(('f, 'q) AppInstance \<Rightarrow> string \<Rightarrow> ('e interp_error + string \<times> bool) option) \<Rightarrow> ('e, 'f, 'q) interp_lib \<Rightarrow>
    ('f, 'q) AppInstance \<Rightarrow> string \<Rightarrow> string list \<Rightarrow> ('e interp_error + string \<times> bool) option" where
  "resolveParts rec L app token parts =
     (if hd parts = ''service'' \<or> hd parts = ''services'' then
        (if length parts < 3 then Some (Inl (invalidExpression token ''at least three'')) else resolveServices rec L app (tl parts))
      else if hd parts = ''secret'' \<or> hd parts = ''secrets'' then
        (if length parts < 3 then Some (Inl (invalidExpression token ''at least three'')) else resolveSecrets L app (butlast (tl parts)) (last parts))
      else if hd parts = ''acorn'' \<or> hd parts = ''app'' then
        (if length parts \<noteq> 2 then Some (Inl (invalidExpression token ''two'')) else Some (resolveApp L app (parts ! 1)))
      else if hd parts = ''image'' \<or> hd parts = ''images'' then
        (if length parts \<noteq> 2 then Some (Inl (invalidExpression token ''two'')) else Some (Inr (resolveImages app (parts ! 1))))
      else Some (Inr ([], False)))"

lemma case_option_mono:
  assumes "mono_option A" "\<And>y. mono_option (\<lambda>f. B f y)"
  shows "mono_option (\<lambda>f. case a of None \<Rightarrow> A f | Some y \<Rightarrow> B f y)"
  using assms by (cases a) simp_all

lemma case_sum_mono:
  assumes "\<And>e. mono_option (\<lambda>f. A f e)" "\<And>x. mono_option (\<lambda>f. B f x)"
  shows "mono_option (\<lambda>f. case s of Inl e \<Rightarrow> A f e | Inr x \<Rightarrow> B f x)"
  using assms by (cases s) simp_all

lemma case_prod_mono:
  assumes "\<And>x y. mono_option (\<lambda>f. A f x y)"
  shows "mono_option (\<lambda>f. case p of (x, y) \<Rightarrow> A f x y)"
  using assms by (cases p) simp

lemma case_ref_error_mono:
  assumes "\<And>x. mono_option (\<lambda>f. A f x)" "\<And>x. mono_option (\<lambda>f. B f x)"
  shows "mono_option (\<lambda>f. case e of RefNotFound x \<Rightarrow> A f x | RefError x \<Rightarrow> B f x)"
  using assms by (cases e) simp_all

lemma resolveNestedData_mono [partial_function_mono]:
  assumes "\<And>app s. mono_option (\<lambda>f. R f app s)"
  shows "mono_option (\<lambda>f. resolveNestedData (R f) L svc val)"
  unfolding resolveNestedData_def Let_def
  by (intro partial_function_mono case_sum_mono case_option_mono assms)

lemma serviceProperty_mono [partial_function_mono]:
  assumes "\<And>app s. mono_option (\<lambda>f. R f app s)"
  shows "mono_option (\<lambda>f. serviceProperty (R f) L svc prop extra)"
  unfolding serviceProperty_def by (intro partial_function_mono case_sum_mono assms)

lemma resolveServices_mono [partial_function_mono]:
  assumes "\<And>app s. mono_option (\<lambda>f. R f app s)"
  shows "mono_option (\<lambda>f. resolveServices (R f) L app parts)"
  unfolding resolveServices_def
  by (intro partial_function_mono case_sum_mono case_prod_mono case_ref_error_mono assms)

lemma resolveParts_mono [partial_function_mono]:
  assumes "\<And>app s. mono_option (\<lambda>f. R f app s)"
  shows "mono_option (\<lambda>f. resolveParts (R f) L app token parts)"
  unfolding resolveParts_def by (intro partial_function_mono assms)

partial_function (option) resolveToken :: "('e, 'f, 'q) interp_lib \<Rightarrow> ('f, 'q) AppInstance \<Rightarrow> string \<Rightarrow> ('e interp_error + string \<times> bool) option" where
  "resolveToken L app token =
     Option.bind (case secretURL token of
         Some (name, key) \<Rightarrow> resolveSecrets L app [name] key
       | None \<Rightarrow> resolveParts (resolveToken L) L app token (str_split (CHR ''.'') (str_trim_space token)))
       (\<lambda>r. Some (withExpression token r))"

declare resolveToken.simps [code]

definition replaceText :: "('e, 'f, 'q) interp_lib \<Rightarrow> ('f, 'q) AppInstance \<Rightarrow> string \<Rightarrow> ('e interp_error + string) option" where
  "replaceText L app content =
     Option.bind (il_Replace L content (CHR ''@'' # ''{'') ''}'' (resolveToken L app)) (\<lambda>r.
       case r of Inl e \<Rightarrow> Some (Inl e)
       | Inr content \<Rightarrow> il_Replace L content EncPrefix EncSuffix (\<lambda>s.
           Some (map_sum DecryptFailed (\<lambda>data. (data, True)) (il_Decrypt L (EncPrefix @ s @ EncSuffix) (om_Namespace (app_Meta app))))))"

subsection \<open>The interpolator\<close>

record ('e, 'f, 'q) Interpolator =
  it_secretName :: string
  it_app :: "('f, 'q) AppInstance"
  it_data :: "(string, string) gomap"
  it_incomplete :: "(string, bool) gomap"
  it_errs :: "'e interp_error list"

record scope =
  sc_containerName :: string
  sc_jobName :: string
  sc_serviceName :: string

definition NewInterpolator :: "('f, 'q) AppInstance \<Rightarrow> ('e, 'f, 'q) Interpolator" where
  "NewInterpolator app = \<lparr>it_secretName = ''secrets-'' @ ShortID app, it_app = app, it_data = [], it_incomplete = [], it_errs = []\<rparr>"

definition unqualified :: scope where "unqualified = \<lparr>sc_containerName = [], sc_jobName = [], sc_serviceName = []\<rparr>"
definition ForJob :: "string \<Rightarrow> scope" where "ForJob jobName = \<lparr>sc_containerName = [], sc_jobName = jobName, sc_serviceName = []\<rparr>"
definition ForContainer :: "string \<Rightarrow> scope" where "ForContainer containerName = \<lparr>sc_containerName = containerName, sc_jobName = [], sc_serviceName = []\<rparr>"
definition ForService :: "string \<Rightarrow> scope" where "ForService serviceName = \<lparr>sc_containerName = [], sc_jobName = [], sc_serviceName = serviceName\<rparr>"

definition Incomplete :: "scope \<Rightarrow> ('e, 'f, 'q) Interpolator \<Rightarrow> bool" where
  "Incomplete sc i =
     (if sc_jobName sc \<noteq> [] then gm_get_or False (it_incomplete i) (sc_jobName sc)
      else if sc_containerName sc \<noteq> [] then gm_get_or False (it_incomplete i) (sc_containerName sc)
      else if sc_serviceName sc \<noteq> [] then gm_get_or False (it_incomplete i) (sc_serviceName sc)
      else it_incomplete i \<noteq> [])"

definition AddMissingAnnotations :: "scope \<Rightarrow> ('e, 'f, 'q) Interpolator \<Rightarrow> bool \<Rightarrow> (string, string) gomap \<Rightarrow> (string, string) gomap" where
  "AddMissingAnnotations sc i stopped annotations =
     (if Incomplete sc i then
        gm_set (if stopped then annotations else gm_set annotations AnnotationUpdate ''false'') AnnotationCreate ''false''
      else annotations)"

definition addContent :: "('e, 'f, 'q) interp_lib \<Rightarrow> string \<Rightarrow> ('e, 'f, 'q) Interpolator \<Rightarrow> string \<times> ('e, 'f, 'q) Interpolator" where
  "addContent L newValue i =
     (let dataKey = il_SHA256 L [newValue] in (dataKey, i\<lparr>it_data := gm_set (it_data i) dataKey newValue\<rparr>))"

definition expressionError :: "('e, 'f, 'q) interp_lib \<Rightarrow> 'e interp_error \<Rightarrow> ExpressionError" where
  "expressionError L err =
     (case err of
        ErrInterpolation e \<Rightarrow> if ee_Error e = [] then e\<lparr>ee_Error := ExpressionError_String e\<rparr> else e
      | _ \<Rightarrow> \<lparr>ee_DependencyNotFound = None, ee_Expression = [], ee_Error = errorText L err\<rparr>)"

definition modifyAppStatus :: "('f AppStatus \<Rightarrow> 'f AppStatus) \<Rightarrow> ('e, 'f, 'q) Interpolator \<Rightarrow> ('e, 'f, 'q) Interpolator" where
  "modifyAppStatus g i = i\<lparr>it_app := (it_app i)\<lparr>app_Status := (app_Status (it_app i))\<lparr>is_AppStatus := g (is_AppStatus (app_Status (it_app i)))\<rparr>\<rparr>\<rparr>"

definition markIncomplete :: "string \<Rightarrow> ('e, 'f, 'q) Interpolator \<Rightarrow> ('e, 'f, 'q) Interpolator" where
  "markIncomplete name i = i\<lparr>it_incomplete := gm_set (it_incomplete i) name True\<rparr>"

definition saveError :: "('e, 'f, 'q) interp_lib \<Rightarrow> scope \<Rightarrow> 'e interp_error \<Rightarrow> ('e, 'f, 'q) Interpolator \<Rightarrow> ('e, 'f, 'q) Interpolator" where
  "saveError L sc err i =
     (let exprError = expressionError L err
      in if sc_containerName sc \<noteq> [] then
           modifyAppStatus (\<lambda>st.
             let c = gm_get_or zero_ContainerStatus (at_Containers st) (sc_containerName sc)
             in st\<lparr>at_Containers := gm_set (at_Containers st) (sc_containerName sc) (c\<lparr>us_ExpressionErrors := us_ExpressionErrors c @ [exprError]\<rparr>)\<rparr>)
             (markIncomplete (sc_containerName sc) i)
         else if sc_jobName sc \<noteq> [] then
           modifyAppStatus (\<lambda>st.
             let c = gm_get_or zero_JobStatus (at_Jobs st) (sc_jobName sc)
             in st\<lparr>at_Jobs := gm_set (at_Jobs st) (sc_jobName sc) (c\<lparr>us_JobErrors := us_JobErrors c @ [exprError]\<rparr>)\<rparr>)
             (markIncomplete (sc_jobName sc) i)
         else if sc_serviceName sc \<noteq> [] then
           modifyAppStatus (\<lambda>st.
             let c = gm_get_or zero_ServiceStatus (at_Services st) (sc_serviceName sc)
             in st\<lparr>at_Services := gm_set (at_Services st) (sc_serviceName sc) (c\<lparr>us_ServiceErrors := us_ServiceErrors c @ [exprError]\<rparr>)\<rparr>)
             (markIncomplete (sc_serviceName sc) i)
         else (markIncomplete [] i)\<lparr>it_errs := it_errs i @ [err]\<rparr>)"

definition Err :: "('e, 'f, 'q) Interpolator \<Rightarrow> 'e interp_error list option" where
  "Err i = (if it_errs i = [] then None else Some (it_errs i))"

record KVolumeMount =
  km_Name :: string
  km_MountPath :: string
  km_SubPath :: string

definition zero_KVolumeMount :: KVolumeMount where
  "zero_KVolumeMount = \<lparr>km_Name = [], km_MountPath = [], km_SubPath = []\<rparr>"

text \<open>The outcome of an operation: it may not return, it may panic, or it gives a value and changes the interpolator.\<close>

type_synonym ('e, 'f, 'q, 'a) outcome = "(interp_panic + 'a \<times> ('e, 'f, 'q) Interpolator) option"

definition panics :: "'e interp_error \<Rightarrow> bool" where
  "panics err = (case err of UIDTooShort \<Rightarrow> True | _ \<Rightarrow> False)"

definition on_result :: "'e interp_error + 'a \<Rightarrow> ('e interp_error \<Rightarrow> 'b) \<Rightarrow> ('a \<Rightarrow> (interp_panic + 'b) option) \<Rightarrow> (interp_panic + 'b) option" where
  "on_result r failed ok =
     (case r of Inl err \<Rightarrow> Some (if panics err then Inl SliceOutOfRange else Inr (failed err)) | Inr x \<Rightarrow> ok x)"

definition ToVolumeMount :: "('e, 'f, 'q) interp_lib \<Rightarrow> scope \<Rightarrow> string \<Rightarrow> File \<Rightarrow> ('e, 'f, 'q) Interpolator \<Rightarrow> ('e, 'f, 'q, KVolumeMount) outcome" where
  "ToVolumeMount L sc filename file i =
     (case base64_decode (fl_Content file) of
        None \<Rightarrow> Some (Inr (zero_KVolumeMount, saveError L sc (CorruptBase64 (fl_Content file)) i))
      | Some data \<Rightarrow>
          Option.bind (replaceText L (it_app i) data) (\<lambda>r.
            on_result r (\<lambda>err. (zero_KVolumeMount, saveError L sc err i)) (\<lambda>newValue.
              let suffix = (if NormalizeMode (fl_Mode file) \<noteq> [] then CHR ''-'' # fl_Mode file else []);
                  (subPath, i') = addContent L newValue i
              in Some (Inr (\<lparr>km_Name = it_secretName i @ suffix, km_MountPath = filepath_Join [''/'', filename], km_SubPath = subPath\<rparr>, i')))))"

datatype EnvSource = EnvValue string | EnvSecretKey string string

record KEnvVar =
  ke_Name :: string
  ke_Source :: EnvSource

definition getContainerOrJobName :: "scope \<Rightarrow> string" where
  "getContainerOrJobName sc = (if sc_containerName sc \<noteq> [] then sc_containerName sc else sc_jobName sc)"

text \<open>The second part of the value says whether the variable belongs to the part itself and not to a sidecar.\<close>

definition ToEnv :: "('e, 'f, 'q) interp_lib \<Rightarrow> scope \<Rightarrow> string \<Rightarrow> string \<Rightarrow> ('e, 'f, 'q) Interpolator \<Rightarrow> ('e, 'f, 'q, KEnvVar \<times> bool) outcome" where
  "ToEnv L sc key0 value i =
     (let key = str_trim_prefix key0 (getContainerOrJobName sc @ ''.''); plain = (\<lambda>k. \<not> str_contains k ''.'')
      in Option.bind (replaceText L (it_app i) key) (\<lambda>r.
           on_result r (\<lambda>err. ((\<lparr>ke_Name = key, ke_Source = EnvValue value\<rparr>, plain key), saveError L sc err i)) (\<lambda>newKey.
             Option.bind (replaceText L (it_app i) value) (\<lambda>r.
               on_result r (\<lambda>err. ((\<lparr>ke_Name = newKey, ke_Source = EnvValue value\<rparr>, plain key), saveError L sc err i)) (\<lambda>newValue.
                 if value = newValue then Some (Inr ((\<lparr>ke_Name = newKey, ke_Source = EnvValue value\<rparr>, plain newKey), i))
                 else let (dataKey, i') = addContent L newValue i
                   in Some (Inr ((\<lparr>ke_Name = newKey, ke_Source = EnvSecretKey (it_secretName i) dataKey\<rparr>, plain newKey), i')))))))"

definition Interpolator_Objects :: "('e, 'f, 'q) Interpolator \<Rightarrow> KSecret list" where
  "Interpolator_Objects i =
     (if it_data i = [] then []
      else [\<lparr>kx_Meta = zero_ObjectMeta\<lparr>om_Name := it_secretName i, om_Namespace := is_Namespace (app_Status (it_app i)), om_Labels := Managed (it_app i) []\<rparr>,
             kx_Type = [], kx_Data = it_data i\<rparr>])"

subsection \<open>What an operation changes\<close>

lemma saveError_data [simp]: "it_data (saveError L sc err i) = it_data i" "it_secretName (saveError L sc err i) = it_secretName i"
  by (simp_all add: saveError_def modifyAppStatus_def markIncomplete_def Let_def)

lemma saveError_app [simp]:
  "app_Meta (it_app (saveError L sc err i)) = app_Meta (it_app i)" "app_Spec (it_app (saveError L sc err i)) = app_Spec (it_app i)"
  "is_Namespace (app_Status (it_app (saveError L sc err i))) = is_Namespace (app_Status (it_app i))"
  "is_AppSpec (app_Status (it_app (saveError L sc err i))) = is_AppSpec (app_Status (it_app i))"
  by (simp_all add: saveError_def modifyAppStatus_def markIncomplete_def Let_def)

lemma saveError_incomplete:
  "it_incomplete (saveError L sc err i) =
     gm_set (it_incomplete i) (if sc_containerName sc \<noteq> [] then sc_containerName sc else if sc_jobName sc \<noteq> [] then sc_jobName sc else sc_serviceName sc) True"
  by (simp add: saveError_def modifyAppStatus_def markIncomplete_def Let_def)

lemma addContent_simps:
  "fst (addContent L v i) = il_SHA256 L [v]" "it_data (snd (addContent L v i)) = gm_set (it_data i) (il_SHA256 L [v]) v"
  "it_secretName (snd (addContent L v i)) = it_secretName i" "it_app (snd (addContent L v i)) = it_app i"
  by (simp_all add: addContent_def Let_def)

lemma on_result_Inr:
  "on_result r failed ok = Some (Inr y) \<longleftrightarrow> (\<exists>err. r = Inl err \<and> \<not> panics err \<and> y = failed err) \<or> (\<exists>x. r = Inr x \<and> ok x = Some (Inr y))"
  by (auto simp: on_result_def split: sum.splits)

lemma ToEnv_cases:
  assumes "ToEnv L sc key value i = Some (Inr ((env, own), i'))"
  obtains (failed) err where "i' = saveError L sc err i" "ke_Source env = EnvValue value"
  | (plain) "i' = i" "ke_Source env = EnvValue value"
  | (kept) new where "replaceText L (it_app i) value = Some (Inr new)" "new \<noteq> value" "i' = snd (addContent L new i)"
      "ke_Source env = EnvSecretKey (it_secretName i) (il_SHA256 L [new])"
proof -
  have "(\<exists>err. i' = saveError L sc err i \<and> ke_Source env = EnvValue value) \<or> (i' = i \<and> ke_Source env = EnvValue value) \<or>
    (\<exists>new. replaceText L (it_app i) value = Some (Inr new) \<and> new \<noteq> value \<and> i' = snd (addContent L new i) \<and>
       ke_Source env = EnvSecretKey (it_secretName i) (il_SHA256 L [new]))"
    using assms unfolding ToEnv_def Let_def
    by (auto simp: bind_eq_Some_conv on_result_Inr addContent_def Let_def split: if_splits)
  then show ?thesis using failed plain kept by blast
qed

lemma ToVolumeMount_cases:
  assumes "ToVolumeMount L sc filename file i = Some (Inr (m, i'))"
  obtains (failed) err where "i' = saveError L sc err i" "m = zero_KVolumeMount"
  | (kept) data new where "base64_decode (fl_Content file) = Some data" "replaceText L (it_app i) data = Some (Inr new)" "i' = snd (addContent L new i)"
      "km_SubPath m = il_SHA256 L [new]"
proof -
  have "(\<exists>err. i' = saveError L sc err i \<and> m = zero_KVolumeMount) \<or>
    (\<exists>data new. base64_decode (fl_Content file) = Some data \<and> replaceText L (it_app i) data = Some (Inr new) \<and> i' = snd (addContent L new i) \<and>
       km_SubPath m = il_SHA256 L [new])"
    using assms unfolding ToVolumeMount_def Let_def
    by (auto simp: bind_eq_Some_conv on_result_Inr addContent_def Let_def split: option.splits)
  then show ?thesis using failed kept by blast
qed

subsection \<open>The secret of an app\<close>

text \<open>The use of an interpolator while an app is rendered, with the keys of the secret that were handed out.\<close>

definition envKeys :: "KEnvVar \<Rightarrow> string list" where
  "envKeys env = (case ke_Source env of EnvValue _ \<Rightarrow> [] | EnvSecretKey _ key \<Rightarrow> [key])"

definition mountKeys :: "KVolumeMount \<Rightarrow> string list" where
  "mountKeys m = (if m = zero_KVolumeMount then [] else [km_SubPath m])"

inductive rendering ::
    "('e, 'f, 'q) interp_lib \<Rightarrow> ('e, 'f, 'q) Interpolator \<Rightarrow> string list \<Rightarrow> ('e, 'f, 'q) Interpolator \<Rightarrow> bool" for L start where
  start: "rendering L start [] start"
| env: "rendering L start keys i \<Longrightarrow> ToEnv L sc key value i = Some (Inr ((env, own), i')) \<Longrightarrow> rendering L start (keys @ envKeys env) i'"
| mount: "rendering L start keys i \<Longrightarrow> ToVolumeMount L sc filename file i = Some (Inr (m, i')) \<Longrightarrow> rendering L start (keys @ mountKeys m) i'"
| error: "rendering L start keys i \<Longrightarrow> rendering L start keys (saveError L sc err i)"

definition addressed :: "('e, 'f, 'q) interp_lib \<Rightarrow> (string, string) gomap \<Rightarrow> bool" where
  "addressed L data \<longleftrightarrow> gm_ok data \<and> (\<forall>(key, v) \<in> set data. key = il_SHA256 L [v])"

lemma addressed_set [intro]: "addressed L data \<Longrightarrow> addressed L (gm_set data (il_SHA256 L [v]) v)"
  by (auto simp: addressed_def dest!: set_gm_set)

lemma rendering_invariant:
  "rendering L start keys i \<Longrightarrow> addressed L (it_data start) \<Longrightarrow>
   addressed L (it_data i) \<and> (\<forall>key \<in> set keys. gm_has (it_data i) key) \<and> it_secretName i = it_secretName start \<and>
   app_Meta (it_app i) = app_Meta (it_app start) \<and> is_Namespace (app_Status (it_app i)) = is_Namespace (app_Status (it_app start))"
proof (induction rule: rendering.induct)
  case (env keys i sc key val e own i')
  from env(2) show ?case
  proof (cases rule: ToEnv_cases)
    case (kept new)
    then show ?thesis using env(3,4) by (auto simp: addContent_simps go_map envKeys_def)
  qed (use env(3,4) in \<open>auto simp: envKeys_def\<close>)
next
  case (mount keys i sc name f m i')
  from mount(2) show ?case
  proof (cases rule: ToVolumeMount_cases)
    case (kept data new)
    then show ?thesis using mount(3,4) by (auto simp: addContent_simps go_map mountKeys_def)
  qed (use mount(3,4) in \<open>auto simp: mountKeys_def\<close>)
qed auto

subsection \<open>Properties\<close>

text \<open>C25: Every reference that was handed out while an app is rendered is served in the end: the app has one secret, in its own namespace, which
  has an entry under each key an environment variable or a mount refers to, and each entry of it is stored under its own digest, under one key only.\<close>

theorem references_served:
  assumes "rendering L (NewInterpolator app) keys i" "key \<in> set keys"
  shows "\<exists>secret v. Interpolator_Objects i = [secret] \<and> om_Name (kx_Meta secret) = ''secrets-'' @ ShortID app \<and>
    om_Namespace (kx_Meta secret) = is_Namespace (app_Status app) \<and> gm_get (kx_Data secret) key = Some v \<and> key = il_SHA256 L [v] \<and>
    addressed L (kx_Data secret)"
proof -
  have inv: "addressed L (it_data i)" "gm_has (it_data i) key" "it_secretName i = ''secrets-'' @ ShortID app"
    "is_Namespace (app_Status (it_app i)) = is_Namespace (app_Status app)"
    using rendering_invariant [OF assms(1)] assms(2) by (auto simp: NewInterpolator_def addressed_def)
  obtain v where "gm_get (it_data i) key = Some v" using inv(2) by (auto simp: gm_has_iff)
  moreover from this inv(1) have "key = il_SHA256 L [v]" by (auto simp: addressed_def gm_get_in_set)
  moreover have "it_data i \<noteq> []" using inv(2) by (auto simp: gm_has_iff)
  ultimately show ?thesis using inv by (simp add: Interpolator_Objects_def)
qed



subsection \<open>A sample\<close>

text \<open>An app with one secret \<open>db\<close>, and a replacement that handles one expression that spans the text.\<close>

definition interp_sample_replace :: "string \<Rightarrow> string \<Rightarrow> string \<Rightarrow> (string \<Rightarrow> (unit interp_error + string \<times> bool) option) \<Rightarrow> (unit interp_error + string) option" where
  "interp_sample_replace content open close f =
     (if str_has_prefix content open \<and> str_has_suffix content close then
        Option.bind (f (str_trim_suffix (str_trim_prefix content open) close)) (\<lambda>r.
          Some (map_sum id (\<lambda>(s, ok). if ok then s else content) r))
      else Some (Inr content))"

definition interp_sample_refs :: "(unit, unit, int) ref_cluster" where
  "interp_sample_refs = \<lparr>rc_getNamespace = (\<lambda>n. Inr (Some zero_ObjectMeta)), rc_getApp = (\<lambda>_ _. Inr None), rc_listChildApps = (\<lambda>_ _ _. Inr []),
     rc_getService = (\<lambda>_ _. Inr None), rc_listServices = (\<lambda>_. Inr []),
     rc_getSecret = (\<lambda>ns n. Inr (if n = ''db'' then Some (zero_KSecret\<lparr>kx_Data := [(''password'', ''s3cret'')]\<rparr>) else None)),
     rc_listSecretsByPublicName = (\<lambda>_ _. Inr [])\<rparr>"

definition interp_sample_lib :: "(unit, unit, int) interp_lib" where
  "interp_sample_lib = \<lparr>il_refs = interp_sample_refs, il_clusterDomain = Inr ''svc'', il_Interpolate = (\<lambda>_ _. Inl ()), il_TagDigest = (\<lambda>_ _. Inl ()),
     il_SHA256 = (\<lambda>xs. CHR ''h'' # concat xs), il_SafeConcatName = concat, il_Replace = interp_sample_replace, il_Decrypt = (\<lambda>_ _. Inl BadBase64),
     il_errorText = (\<lambda>_. ''error'')\<rparr>"

definition interp_sample_app :: "(unit, int) AppInstance" where
  "interp_sample_app = zero_AppInstance\<lparr>app_Meta := zero_ObjectMeta\<lparr>om_Name := ''app'', om_UID := ''0123456789abcdef''\<rparr>\<rparr>"

lemma interp_sample_secret: "replaceText interp_sample_lib interp_sample_app (CHR ''@'' # ''{secret://db/password}'') = Some (Inr ''s3cret'')"
  by code_simp

lemma interp_sample_env:
  "ToEnv interp_sample_lib (ForContainer ''web'') ''PASSWORD'' (CHR ''@'' # ''{secret://db/password}'') (NewInterpolator interp_sample_app) =
     Some (Inr ((\<lparr>ke_Name = ''PASSWORD'', ke_Source = EnvSecretKey (''secrets-'' @ ShortID interp_sample_app) ''hs3cret''\<rparr>, True),
       (NewInterpolator interp_sample_app)\<lparr>it_data := [(''hs3cret'', ''s3cret'')]\<rparr>))"
  by code_simp

theorem references_served_witness:
  "\<exists>secret v. Interpolator_Objects ((NewInterpolator interp_sample_app)\<lparr>it_data := [(''hs3cret'', ''s3cret'')]\<rparr> :: (unit, unit, int) Interpolator) = [secret] \<and>
     gm_get (kx_Data secret) ''hs3cret'' = Some v"
proof -
  from rendering.env [OF rendering.start interp_sample_env]
  have "rendering interp_sample_lib (NewInterpolator interp_sample_app) [''hs3cret''] ((NewInterpolator interp_sample_app)\<lparr>it_data := [(''hs3cret'', ''s3cret'')]\<rparr>)"
    by (simp add: envKeys_def)
  from references_served [OF this, of "''hs3cret''"] show ?thesis by simp blast
qed



subsection \<open>Nested expressions and missing secrets\<close>

text \<open>
  A property of a service that is itself an expression is handed to \<open>resolve\<close> with its brackets, as if it were a token: no case matches, the flag that
  says so is dropped, and the property becomes the empty text.
\<close>

lemma nested_expression_dropped:
  assumes "rc_getApp (il_refs L) (gm_get_or [] (om_Labels (si_Meta svc)) AcornAppNamespace) (gm_get_or [] (om_Labels (si_Meta svc)) AcornAppName) = Inr (Some app)"
  shows "resolveNestedData (resolveToken L) L svc (CHR ''@'' # ''{secret.db.password}'') = Some (Inr [])"
proof -
  have "str_split (CHR ''.'') (str_trim_space (CHR ''@'' # ''{secret.db.password}'')) = [(CHR ''@'' # ''{secret''), ''db'', ''password}'']"
    "secretURL (CHR ''@'' # ''{secret.db.password}'') = None" "str_contains (CHR ''@'' # ''{secret.db.password}'') (CHR ''@'' # ''{'')"
    by code_simp+
  then show ?thesis
    using assms by (simp add: resolveNestedData_def resolveToken.simps [of L app] resolveParts_def Let_def withExpression_def)
qed

text \<open>A secret that is not found is reported as a missing service.\<close>

lemma missing_secret_is_service:
  "Lookup_Secret (il_refs L) (is_Namespace (app_Status app)) [name] = Some (Inl (RefNotFound n)) \<Longrightarrow>
   resolveSecrets L app [name] key = Some (Inl (missingService name))"
  by (simp add: resolveSecrets_def secretValue_def)

end
