(* ===== verification/AppSecrets.thy ===== *)
theory AppSecrets
  imports Interpolation ImageAllowRules
begin

text \<open>
  The secrets of an app: \<open>pkg/secrets/secret.go\<close>, \<open>generateSecret.go\<close>, the output of jobs (\<open>pkg/jobs/jobs.go\<close>) and the controller that copies
  the secrets of an app into its namespace (\<open>pkg/controller/secrets/secret.go\<close>). A secret is bound, external, an alias, or generated from its
  definition; what is generated is kept in the project and found again by its labels. The calls work on a state, the secrets of the cluster, the
  draws from the random source and the secrets found so far, and they can fail after they have changed it: they are a monad of state, error and
  no return. A template may lead to other templates, so \<open>GetOrCreateSecret\<close> is a partial function.
\<close>

subsection \<open>State and errors\<close>

record secret_state =
  sst_kube :: kube
  sst_draw :: nat
  sst_secrets :: "(string, KSecret option) gomap"

datatype 'e secret_error =
    SecretMissing string
  | SecretKube "'e kube_error"
  | JobNotDone
  | JobNoOutput
  | SecretErrorf string
  | SecretForeign 'e
  | SecretNacl "'e nacl_error"
  | SecretInterp "'e interp_error"
  | SecretRegistry "'e registry_error"
  | SecretDecrypting string string "'e nacl_error"
  | SecretPanic

type_synonym ('e, 'a) secret_m = "secret_state \<Rightarrow> (('e secret_error + 'a) \<times> secret_state) option"

definition sm_return :: "'a \<Rightarrow> ('e, 'a) secret_m" where
  "sm_return a = (\<lambda>st. Some (Inr a, st))"

definition sm_result :: "'e secret_error + 'a \<Rightarrow> ('e, 'a) secret_m" where
  "sm_result r = (\<lambda>st. Some (r, st))"

definition sm_bind :: "('e, 'a) secret_m \<Rightarrow> ('a \<Rightarrow> ('e, 'b) secret_m) \<Rightarrow> ('e, 'b) secret_m" where
  "sm_bind m k = (\<lambda>st. Option.bind (m st) (\<lambda>(r, st'). case r of Inl e \<Rightarrow> Some (Inl e, st') | Inr a \<Rightarrow> k a st'))"

text \<open>The result as a value: the error handling of the callers.\<close>

definition sm_try :: "('e, 'a) secret_m \<Rightarrow> ('e secret_error + 'a \<Rightarrow> ('e, 'b) secret_m) \<Rightarrow> ('e, 'b) secret_m" where
  "sm_try m k = (\<lambda>st. Option.bind (m st) (\<lambda>(r, st'). if r = Inl SecretPanic then Some (Inl SecretPanic, st') else k r st'))"

definition sm_kube :: "(kube \<Rightarrow> 'e secret_error + 'a) \<Rightarrow> ('e, 'a) secret_m" where
  "sm_kube f = (\<lambda>st. Some (f (sst_kube st), st))"

text \<open>What the API says an error is: a status that something is missing, with the name in its details, or another status.\<close>

datatype api_status = StatusNotFound "string option" | StatusOther

text \<open>
  Parameters: the reads of the cluster (which depend on the secrets it holds), the conversions of the wrangler library, the join of errors of
  \<open>merr\<close>, the object as the API server completes it (name, UID), the random source, and the Acornfile and JSON of the output of a job.
  \<open>sl_Images\<close> are the images the app was built with.
\<close>

record ('e, 'f, 'q, 'r, 'i) secret_lib =
  sl_interp :: "kube \<Rightarrow> ('e, 'f, 'q) interp_lib"
  sl_nacl :: "'e nacl_lib"
  sl_faults :: "'e faults"
  sl_registry :: "('e, 'r, 'i) registry_reads"
  sl_contextDigest :: "'i \<Rightarrow> string \<Rightarrow> string"
  sl_Images :: "(string, string) gomap"
  sl_ToString :: "'f generic option \<Rightarrow> string"
  sl_ToNumber :: "'f generic option \<Rightarrow> 'e + int"
  sl_merr :: "'e secret_error list \<Rightarrow> 'e secret_error"
  sl_complete :: "kube \<Rightarrow> string \<Rightarrow> KSecret \<Rightarrow> KSecret"
  sl_rand :: "nat \<Rightarrow> nat \<Rightarrow> 'e + nat"
  sl_safeConcatName :: "string \<Rightarrow> string"
  sl_SafeHashConcatName :: "string list \<Rightarrow> string"
  sl_unmarshalSecret :: "string \<Rightarrow> 'e + 'f Secret"
  sl_appSpec :: "string \<Rightarrow> 'e + 'f AppSpec"
  sl_apiStatus :: "'e \<Rightarrow> api_status option"
  sl_errorText :: "'e secret_error \<Rightarrow> string"

definition secretErrorText :: "('e, 'f, 'q, 'r, 'i) secret_lib \<Rightarrow> 'e secret_error \<Rightarrow> string" where
  "secretErrorText L err =
     (case err of SecretErrorf s \<Rightarrow> s | JobNotDone \<Rightarrow> ''job not complete'' | JobNoOutput \<Rightarrow> ''job has no output'' | e \<Rightarrow> sl_errorText L e)"

definition ref_failure :: "'e ref_error + 'a \<Rightarrow> 'e secret_error + 'a" where
  "ref_failure r = map_sum (\<lambda>e. case e of RefNotFound n \<Rightarrow> SecretMissing n | RefError e \<Rightarrow> SecretForeign e) id r"

definition interp_failure :: "'e interp_error + 'a \<Rightarrow> 'e secret_error + 'a" where
  "interp_failure r = map_sum (\<lambda>e. case e of UIDTooShort \<Rightarrow> SecretPanic | e \<Rightarrow> SecretInterp e) id r"

text \<open>A nil pointer in a stored key is dereferenced.\<close>

definition nacl_failure :: "'e nacl_error + 'a \<Rightarrow> 'e secret_error + 'a" where
  "nacl_failure r = map_sum (\<lambda>e. case e of nacl_error.NilDereference \<Rightarrow> SecretPanic | e \<Rightarrow> SecretNacl e) id r"

subsection \<open>Random text\<close>

text \<open>\<open>rand.Int\<close> panics for an empty range.\<close>

fun drawLoop :: "('e, 'f, 'q, 'r, 'i) secret_lib \<Rightarrow> string \<Rightarrow> nat \<Rightarrow> ('e, string) secret_m" where
  "drawLoop L chars 0 = sm_return []"
| "drawLoop L chars (Suc n) =
     (if chars = [] then sm_result (Inl SecretPanic)
      else sm_bind (\<lambda>st. Some (map_sum SecretForeign id (sl_rand L (sst_draw st) (length chars)), st\<lparr>sst_draw := Suc (sst_draw st)\<rparr>)) (\<lambda>r.
        sm_bind (drawLoop L chars n) (\<lambda>rest. sm_return (chars ! r # rest))))"

definition generate :: "('e, 'f, 'q, 'r, 'i) secret_lib \<Rightarrow> string \<Rightarrow> int \<Rightarrow> ('e, string) secret_m" where
  "generate L characters tokenLength =
     (if tokenLength < 0 then sm_result (Inl SecretPanic) else drawLoop L characters (nat tokenLength))"

definition secretPool :: string where
  "secretPool = ''ABCDEFGHJKLMNPQRSTUVWXYZ'' @ ''abcdefghijkmnopqrstuvwxyz'' @ ''23456789'' @ ''!@#$%^&*_-=+''"

definition GenerateRandomSecret :: "('e, 'f, 'q, 'r, 'i) secret_lib \<Rightarrow> nat \<Rightarrow> ('e, string) secret_m" where
  "GenerateRandomSecret L n = drawLoop L secretPool n"

subsection \<open>Labels and data\<close>

definition AcornSecretName :: string where "AcornSecretName = Prefix @ ''secret-name''"
definition LabelTypeSecret :: string where "LabelTypeSecret = ''secret''"

definition acornLabelsForSecret :: "string \<Rightarrow> ('f, 'q) AppInstance \<Rightarrow> (string, string) gomap" where
  "acornLabelsForSecret secretName app =
     [(AcornAppName, om_Name (app_Meta app)), (AcornManaged, ''true''), (AcornSecretName, secretName), (AcornSecretGenerated, ''true'')]"

definition labelsForSecret :: "('e, 'f, 'q, 'r, 'i) secret_lib \<Rightarrow> string \<Rightarrow> ('f, 'q) AppInstance \<Rightarrow> 'f Secret \<Rightarrow> (string, string) gomap" where
  "labelsForSecret L secretName app secretRef =
     Merge (Merge (acornLabelsForSecret secretName app)
         (GatherScoped secretName LabelTypeSecret (as_Labels (is_AppSpec (app_Status app))) (st_Labels secretRef) (ai_Labels (app_Spec app))))
       [(AcornPublicName, ForChild (sl_safeConcatName L) (app_Meta app) secretName)]"

definition annotationsForSecret :: "string \<Rightarrow> ('f, 'q) AppInstance \<Rightarrow> 'f Secret \<Rightarrow> (string, string) gomap" where
  "annotationsForSecret secretName app secretRef =
     GatherScoped secretName LabelTypeSecret (as_Annotations (is_AppSpec (app_Status app))) (st_Annotations secretRef) (ai_Annotations (app_Spec app))"

definition seedData :: "KSecret option \<Rightarrow> (string, string) gomap \<Rightarrow> string list \<Rightarrow> (string, string) gomap" where
  "seedData existing from keys =
     fold (\<lambda>key to. case gm_get from key of
         None \<Rightarrow> to
       | Some v \<Rightarrow> if v \<noteq> [] \<or> gm_get_or [] to key = [] then gm_set to key v else to) keys
       (case existing of None \<Rightarrow> [] | Some e \<Rightarrow> fold (\<lambda>key to. gm_set to key (gm_get_or [] (kx_Data e) key)) keys [])"

definition gm_equal :: "('k, 'v) gomap \<Rightarrow> ('k, 'v) gomap \<Rightarrow> bool" where
  "gm_equal m m' \<longleftrightarrow> list_all (\<lambda>k. gm_get m k = gm_get m' k) (map fst m @ map fst m')"

text \<open>A secret as it is sent: the API server completes the name from the prefix.\<close>

definition newSecretFor :: "('e, 'f, 'q, 'r, 'i) secret_lib \<Rightarrow> string \<Rightarrow> ('f, 'q) AppInstance \<Rightarrow> 'f Secret \<Rightarrow> string \<Rightarrow> (string, string) gomap \<Rightarrow> KSecret" where
  "newSecretFor L secretName app secretRef ty data =
     \<lparr>kx_Meta = zero_ObjectMeta\<lparr>om_Namespace := om_Namespace (app_Meta app), om_Labels := labelsForSecret L secretName app secretRef,
        om_Annotations := annotationsForSecret secretName app secretRef\<rparr>, kx_Type = ty, kx_Data = data\<rparr>"

definition sm_write :: "(kube \<Rightarrow> 'e kube_error + kube) \<Rightarrow> ('e, unit) secret_m" where
  "sm_write f = (\<lambda>st. case f (sst_kube st) of
     Inl e \<Rightarrow> Some (Inl (SecretKube e), st) | Inr k \<Rightarrow> Some (Inr (), st\<lparr>sst_kube := k\<rparr>))"

definition decryptedSecret :: "('e, 'f, 'q, 'r, 'i) secret_lib \<Rightarrow> string \<Rightarrow> KSecret \<Rightarrow> ('e, KSecret) secret_m" where
  "decryptedSecret L namespace secret =
     sm_bind (sm_kube (\<lambda>k. nacl_failure (DecryptNamespacedDataMap (sl_nacl L) (sl_faults L) k (kx_Data secret) namespace)))
       (\<lambda>data. sm_return (secret\<lparr>kx_Data := data\<rparr>))"

text \<open>The write, the sent secret as the API server completed it, and the result.\<close>

definition writeSecret :: "('e, 'f, 'q, 'r, 'i) secret_lib \<Rightarrow> string \<Rightarrow> KSecret option \<Rightarrow> KSecret \<Rightarrow> ('e, KSecret \<times> KSecret) secret_m" where
  "writeSecret L secretName existing secret =
     (case existing of
        None \<Rightarrow> (\<lambda>st. let created = sl_complete L (sst_kube st) (secretName @ ''-'') secret
                   in sm_bind (sm_write (\<lambda>k. kube_createSecret (sl_faults L) k created)) (\<lambda>_. sm_return (created, created)) st)
      | Some e \<Rightarrow>
          if gm_equal (kx_Data e) (kx_Data secret) \<and> gm_equal (om_Labels (kx_Meta e)) (om_Labels (kx_Meta secret)) \<and>
             gm_equal (om_Annotations (kx_Meta e)) (om_Annotations (kx_Meta secret)) then sm_return (secret, e)
          else let new = e\<lparr>kx_Data := kx_Data secret, kx_Meta := (kx_Meta e)\<lparr>om_Annotations := om_Annotations (kx_Meta secret), om_Labels := om_Labels (kx_Meta secret)\<rparr>\<rparr>
            in sm_bind (sm_write (\<lambda>k. kube_updateSecret (sl_faults L) k new)) (\<lambda>_. sm_return (secret, new)))"

definition decrypting :: "KSecret \<Rightarrow> 'e nacl_error + 'a \<Rightarrow> 'e secret_error + 'a" where
  "decrypting sent r = map_sum (\<lambda>e. case e of nacl_error.NilDereference \<Rightarrow> SecretPanic
     | e \<Rightarrow> SecretDecrypting (om_Namespace (kx_Meta sent)) (om_Name (kx_Meta sent)) e) id r"

definition updateOrCreate :: "('e, 'f, 'q, 'r, 'i) secret_lib \<Rightarrow> string \<Rightarrow> KSecret option \<Rightarrow> KSecret \<Rightarrow> ('e, KSecret) secret_m" where
  "updateOrCreate L secretName existing secret =
     sm_bind (writeSecret L secretName existing secret) (\<lambda>(sent, result).
       sm_bind (sm_kube (\<lambda>k. decrypting sent (DecryptNamespacedDataMap (sl_nacl L) (sl_faults L) k (kx_Data result) (om_Namespace (kx_Meta result))))) (\<lambda>data.
       sm_return (result\<lparr>kx_Data := data\<rparr>)))"

subsection \<open>Output of jobs\<close>

definition jobOutput :: "('e, 'f, 'q, 'r, 'i) secret_lib \<Rightarrow> ('f, 'q) AppInstance \<Rightarrow> string \<Rightarrow> kube \<Rightarrow> 'e secret_error + string" where
  "jobOutput L app name k =
     (if \<not> gm_has (as_Jobs (is_AppSpec (app_Status app))) name then Inl (SecretErrorf (''generated output depends on undefined job ['' @ name @ '']''))
      else case kube_getSecret (sl_faults L) k (is_Namespace (app_Status app)) (sl_SafeHashConcatName L [name, ''output'', is_Namespace (app_Status app)]) of
             Inl (NotFoundError _) \<Rightarrow> Inl JobNotDone
           | Inl e \<Rightarrow> Inl (SecretKube e)
           | Inr secret \<Rightarrow>
               let err = gm_get_or [] (kx_Data secret) ''err''; out = gm_get_or [] (kx_Data secret) ''out''
               in if err \<noteq> [] then Inl (SecretErrorf err) else if out = [] then Inl JobNoOutput
                  else if IsAcornEncryptedData out then nacl_failure (DecryptNamespacedData (sl_nacl L) (sl_faults L) k out (om_Namespace (app_Meta app)))
                  else Inr out)"

definition outputOf :: "('e, 'f, 'q, 'r, 'i) secret_lib \<Rightarrow> ('f, 'q) AppInstance \<Rightarrow> string \<Rightarrow> kube \<Rightarrow> 'e secret_error + string" where
  "outputOf L app name k =
     bind_err (jobOutput L app name k) (\<lambda>data.
       if data = [] then Inl (SecretErrorf (''job ['' @ name @ ''] produced no output in /run/secrets/output'')) else Inr data)"

text \<open>\<open>GetOutputFor\<close> with a secret as the target; the texts of its two errors hold the number of bytes.\<close>

definition outputSecret :: "('e, 'f, 'q, 'r, 'i) secret_lib \<Rightarrow> ('f, 'q) AppInstance \<Rightarrow> string \<Rightarrow> string \<Rightarrow> kube \<Rightarrow> 'e secret_error + 'f Secret" where
  "outputSecret L app name serviceName k =
     bind_err (outputOf L app name k) (\<lambda>data.
       let fromSpec = (case sl_appSpec L data of
             Inl e \<Rightarrow> Inl (SecretErrorf (''failed to parse generated output for secret ['' @ serviceName @ ''] bytes ['' @ itoa (int (length data)) @ '']: '' @ sl_errorText L (SecretForeign e)))
           | Inr spec \<Rightarrow> (case gm_get (as_Secrets spec) serviceName of
               None \<Rightarrow> Inl (SecretErrorf (''generated output is missing secret ['' @ serviceName @ ''] bytes ['' @ itoa (int (length data)) @ '']: invalid input''))
             | Some s \<Rightarrow> Inr s))
       in case sl_unmarshalSecret L data of
            Inr v \<Rightarrow> if st_Type v \<noteq> [] \<or> st_Data v \<noteq> [] then Inr v else fromSpec
          | Inl _ \<Rightarrow> fromSpec)"

definition getJSONSecretData :: "('e, 'f, 'q, 'r, 'i) secret_lib \<Rightarrow> ('f, 'q) AppInstance \<Rightarrow> 'f Secret \<Rightarrow> string \<Rightarrow> kube \<Rightarrow> 'e secret_error + 'f Secret" where
  "getJSONSecretData L app secretRef secretName k = outputSecret L app (sl_ToString L (gm_get (st_Params secretRef) ''job'')) secretName k"

definition getTextSecretData :: "('e, 'f, 'q, 'r, 'i) secret_lib \<Rightarrow> ('f, 'q) AppInstance \<Rightarrow> 'f Secret \<Rightarrow> string \<Rightarrow> kube \<Rightarrow> 'e secret_error + 'f Secret" where
  "getTextSecretData L app secretRef secretName k =
     bind_err (outputOf L app (sl_ToString L (gm_get (st_Params secretRef) ''job'')) k) (\<lambda>output. Inr (zero_Secret\<lparr>st_Data := [(''content'', output)]\<rparr>))"

subsection \<open>Templates\<close>

text \<open>
  The two regular expressions of templates. A match starts at the first place where it can, the groups are as short as possible and hold
  no new line, so they end at the first slash and the first brace.
\<close>

datatype segment = Literal char | SecretKey string string | ImageName string

definition cut_line :: "char \<Rightarrow> string \<Rightarrow> (string \<times> string) option" where
  "cut_line c s = (case str_cut c s of (a, b, found) \<Rightarrow> if found \<and> CHR 0x0A \<notin> set a then Some (a, b) else None)"

definition match_secret :: "string \<Rightarrow> (segment \<times> string) option" where
  "match_secret s =
     (if \<not> str_has_prefix s ''${secret://'' then None
      else Option.bind (cut_line (CHR ''/'') (drop 11 s)) (\<lambda>(name, r). Option.bind (cut_line (CHR ''}'') r) (\<lambda>(key, r). Some (SecretKey name key, r))))"

definition match_image :: "string \<Rightarrow> (segment \<times> string) option" where
  "match_image s =
     (if \<not> str_has_prefix s ''${image://'' then None else Option.bind (cut_line (CHR ''}'') (drop 10 s)) (\<lambda>(name, r). Some (ImageName name, r)))"

lemma cut_line_length: "cut_line c s = Some (a, b) \<Longrightarrow> length b < length s"
  by (auto simp: cut_line_def str_cut_found split: prod.splits if_splits)

text \<open>\<open>ReplaceAllStringFunc\<close> sees the text in segments. The lengths fall, which is checked in place.\<close>

function segments :: "(string \<Rightarrow> (segment \<times> string) option) \<Rightarrow> string \<Rightarrow> segment list" where
  "segments match_at [] = []"
| "segments match_at (c # s) =
     (case match_at (c # s) of
        Some (seg, r) \<Rightarrow> if length r < length (c # s) then seg # segments match_at r else []
      | None \<Rightarrow> Literal c # segments match_at s)"
  by pat_completeness auto
termination by (relation "measure (length \<circ> snd)") auto

definition GetRuntimePullableImageReference :: "('e, 'r, 'i) registry_reads \<Rightarrow> string \<Rightarrow> string \<Rightarrow> 'e registry_error + 'i" where
  "GetRuntimePullableImageReference R namespace img =
     (if SHAPattern img then GetRuntimePullableInternalRepoForNamespaceAndID R namespace img else reading (rr_ParseReference R img))"

definition ResolveTag :: "('e, 'f, 'q, 'r, 'i) secret_lib \<Rightarrow> 'i \<Rightarrow> string \<Rightarrow> string" where
  "ResolveTag L tag img = (if DigestPattern img then sl_contextDigest L tag img else img)"

definition replaceImages :: "('e, 'f, 'q, 'r, 'i) secret_lib \<Rightarrow> 'i \<Rightarrow> string \<Rightarrow> string" where
  "replaceImages L tag template =
     concat (map (\<lambda>seg. case seg of
         Literal c \<Rightarrow> [c]
       | ImageName name \<Rightarrow> (case gm_get (sl_Images L) name of None \<Rightarrow> ''${image://'' @ name @ ''}'' | Some img \<Rightarrow> ResolveTag L tag img)
       | SecretKey name key \<Rightarrow> ''${secret://'' @ name @ ''/'' @ key @ ''}'') (segments match_image template))"

type_synonym 'e get_secret = "string \<Rightarrow> ('e, KSecret option) secret_m"

text \<open>One match: the value, or the error that is collected. A secret that is nil is dereferenced.\<close>

definition templateKey :: "'e get_secret \<Rightarrow> string \<Rightarrow> string \<Rightarrow> ('e, 'e secret_error + string) secret_m" where
  "templateKey rec name key =
     sm_try (rec name) (\<lambda>r.
       case r of
         Inl e \<Rightarrow> sm_return (Inl e)
       | Inr None \<Rightarrow> sm_result (Inl SecretPanic)
       | Inr (Some secret) \<Rightarrow>
           let val = gm_get_or [] (kx_Data secret) key
           in sm_return (if val = [] then Inl (SecretErrorf (''failed to find key '' @ key @ '' in secret '' @ name)) else Inr val))"

fun templateLoop :: "'e get_secret \<Rightarrow> segment list \<Rightarrow> ('e, 'e secret_error list \<times> string) secret_m" where
  "templateLoop rec [] = sm_return ([], [])"
| "templateLoop rec (Literal c # segs) = sm_bind (templateLoop rec segs) (\<lambda>(errs, text). sm_return (errs, c # text))"
| "templateLoop rec (ImageName name # segs) =
     sm_bind (templateLoop rec segs) (\<lambda>(errs, text). sm_return (errs, ''${image://'' @ name @ ''}'' @ text))"
| "templateLoop rec (SecretKey name key # segs) =
     sm_bind (templateKey rec name key) (\<lambda>r.
       sm_bind (templateLoop rec segs) (\<lambda>(errs, text).
         sm_return (case r of Inl e \<Rightarrow> (e # errs, text) | Inr val \<Rightarrow> (errs, val @ text))))"

definition templateValue :: "'e get_secret \<Rightarrow> ('e, 'f, 'q, 'r, 'i) secret_lib \<Rightarrow> ('f, 'q) AppInstance \<Rightarrow> 'i \<Rightarrow> string \<Rightarrow> ('e, string) secret_m" where
  "templateValue rec L app tag template =
     sm_bind (templateLoop rec (segments match_secret template)) (\<lambda>(errs, text).
       if errs \<noteq> [] then sm_result (Inl (sl_merr L errs))
       else (\<lambda>st. Option.bind (replaceText (sl_interp L (sst_kube st)) app (replaceImages L tag text)) (\<lambda>r. Some (interp_failure r, st))))"

fun templateData :: "'e get_secret \<Rightarrow> ('e, 'f, 'q, 'r, 'i) secret_lib \<Rightarrow> ('f, 'q) AppInstance \<Rightarrow> 'i \<Rightarrow> (string \<times> string) list \<Rightarrow>
    (string, string) gomap \<Rightarrow> ('e, (string, string) gomap) secret_m" where
  "templateData rec L app tag [] data = sm_return data"
| "templateData rec L app tag ((key, template) # entries) data =
     sm_bind (templateValue rec L app tag template) (\<lambda>text. templateData rec L app tag entries (gm_set data key text))"

subsection \<open>Generation\<close>

definition SecretTypeOpaque :: string where "SecretTypeOpaque = ''secrets.acorn.io/opaque''"
definition SecretTypeTemplate :: string where "SecretTypeTemplate = ''secrets.acorn.io/template''"
definition SecretTypeBasic :: string where "SecretTypeBasic = ''secrets.acorn.io/basic''"
definition SecretTypeToken :: string where "SecretTypeToken = ''secrets.acorn.io/token''"

definition SecretTypes :: "string list" where
  "SecretTypes = [SecretTypeOpaque, SecretTypeGenerated, SecretTypeTemplate, SecretTypeBasic, SecretTypeToken]"

definition generateTemplate :: "'e get_secret \<Rightarrow> ('e, 'f, 'q, 'r, 'i) secret_lib \<Rightarrow> ('f, 'q) AppInstance \<Rightarrow> string \<Rightarrow> 'f Secret \<Rightarrow> KSecret option \<Rightarrow>
    ('e, KSecret) secret_m" where
  "generateTemplate rec L app secretName secretRef existing =
     (let data = seedData existing (st_Data secretRef) (map fst (typed_Sorted (st_Data secretRef)))
      in sm_bind (sm_result (map_sum SecretRegistry id
             (GetRuntimePullableImageReference (sl_registry L) (om_Namespace (app_Meta app)) (ig_ID (is_AppImage (app_Status app)))))) (\<lambda>tag.
         sm_bind (templateData rec L app tag (typed_Sorted data) data) (\<lambda>data.
           updateOrCreate L secretName existing (newSecretFor L secretName app secretRef SecretTypeTemplate data))))"

definition generateToken :: "('e, 'f, 'q, 'r, 'i) secret_lib \<Rightarrow> ('f, 'q) AppInstance \<Rightarrow> string \<Rightarrow> 'f Secret \<Rightarrow> KSecret option \<Rightarrow> ('e, KSecret) secret_m" where
  "generateToken L app secretName secretRef existing =
     (let data = seedData existing (st_Data secretRef) [''token'']
      in sm_bind (if gm_get_or [] data ''token'' \<noteq> [] then sm_return data
             else sm_bind (sm_result (map_sum SecretForeign id (sl_ToNumber L (gm_get (st_Params secretRef) ''length'')))) (\<lambda>n.
               sm_bind (generate L (sl_ToString L (gm_get (st_Params secretRef) ''characters'')) n) (\<lambda>v. sm_return (gm_set data ''token'' v)))) (\<lambda>data.
           updateOrCreate L secretName existing (newSecretFor L secretName app secretRef SecretTypeToken data)))"

definition generateOpaque :: "('e, 'f, 'q, 'r, 'i) secret_lib \<Rightarrow> ('f, 'q) AppInstance \<Rightarrow> string \<Rightarrow> 'f Secret \<Rightarrow> KSecret option \<Rightarrow> ('e, KSecret) secret_m" where
  "generateOpaque L app secretName secretRef existing =
     updateOrCreate L secretName existing (newSecretFor L secretName app secretRef SecretTypeOpaque
       (seedData existing (st_Data secretRef) (map fst (st_Data secretRef))))"

text \<open>The random text is cut before the error is looked at: the empty text of a failure cannot be cut.\<close>

definition basicKey :: "('e, 'f, 'q, 'r, 'i) secret_lib \<Rightarrow> nat \<Rightarrow> string \<Rightarrow> (string, string) gomap \<Rightarrow> ('e, (string, string) gomap) secret_m" where
  "basicKey L n key data =
     (if gm_get_or [] data key \<noteq> [] then sm_return data
      else sm_try (GenerateRandomSecret L 54) (\<lambda>r.
        case r of Inl _ \<Rightarrow> sm_result (Inl SecretPanic) | Inr v \<Rightarrow> sm_return (gm_set data key (take n v))))"

definition generateBasic :: "('e, 'f, 'q, 'r, 'i) secret_lib \<Rightarrow> ('f, 'q) AppInstance \<Rightarrow> string \<Rightarrow> 'f Secret \<Rightarrow> KSecret option \<Rightarrow> ('e, KSecret) secret_m" where
  "generateBasic L app secretName secretRef existing =
     sm_bind (basicKey L 8 ''username'' (seedData existing (st_Data secretRef) [''username'', ''password''])) (\<lambda>data.
     sm_bind (basicKey L 16 ''password'' data) (\<lambda>data.
       updateOrCreate L secretName existing (newSecretFor L secretName app secretRef SecretTypeBasic data)))"

definition generatedData :: "('e, 'f, 'q, 'r, 'i) secret_lib \<Rightarrow> ('f, 'q) AppInstance \<Rightarrow> string \<Rightarrow> 'f Secret \<Rightarrow> kube \<Rightarrow> 'e secret_error + 'f Secret" where
  "generatedData L app secretName secretRef k =
     (let format = sl_ToString L (gm_get (st_Params secretRef) ''format'')
      in if format = [] then
           (case getJSONSecretData L app secretRef secretName k of
              Inl SecretPanic \<Rightarrow> Inl SecretPanic
            | Inl _ \<Rightarrow> getTextSecretData L app secretRef secretName k
            | Inr s \<Rightarrow> Inr s)
         else if format = ''text'' then getTextSecretData L app secretRef secretName k
         else if format = ''aml'' \<or> format = ''json'' then getJSONSecretData L app secretRef secretName k
         else Inl (SecretErrorf (''invalid generated secret format ['' @ format @ '']'')))"

definition generatedSecret :: "('e, 'f, 'q, 'r, 'i) secret_lib \<Rightarrow> ('f, 'q) AppInstance \<Rightarrow> string \<Rightarrow> 'f Secret \<Rightarrow> KSecret option \<Rightarrow> ('e, KSecret) secret_m" where
  "generatedSecret L app secretName secretRef existing =
     sm_bind (sm_kube (generatedData L app secretName secretRef)) (\<lambda>newSecret.
       let inType = ''secrets.acorn.io/'' @ st_Type newSecret;
           ty = (if st_Type newSecret \<noteq> [] \<and> inType \<in> set SecretTypes then inType else SecretTypeGenerated)
       in updateOrCreate L secretName existing
            (newSecretFor L secretName app secretRef ty (copyInto (seedData existing (st_Data secretRef) []) (st_Data newSecret))))"

text \<open>The secrets of the project that have the labels of the app and the name, by UID: the first one is taken.\<close>

definition labelledSecrets :: "('f, 'q) AppInstance \<Rightarrow> string \<Rightarrow> kube \<Rightarrow> KSecret list" where
  "labelledSecrets app name k =
     filter (\<lambda>s. om_Namespace (kx_Meta s) = om_Namespace (app_Meta app) \<and>
         list_all (\<lambda>(key, v). gm_get (om_Labels (kx_Meta s)) key = Some v) (acornLabelsForSecret name app)) (map snd (ku_secrets k))"

definition getAppSecret :: "('e, 'f, 'q, 'r, 'i) secret_lib \<Rightarrow> ('f, 'q) AppInstance \<Rightarrow> string \<Rightarrow> kube \<Rightarrow> 'e secret_error + KSecret" where
  "getAppSecret L app name k =
     (case sl_faults L (CallListSecrets (om_Namespace (app_Meta app))) of
        Some e \<Rightarrow> Inl (SecretForeign e)
      | None \<Rightarrow> (case sort_key (om_UID \<circ> kx_Meta) (labelledSecrets app name k) of [] \<Rightarrow> Inl (SecretMissing name) | s # _ \<Rightarrow> Inr s))"

text \<open>An unknown type gives the error of the search: none, and no secret, when there is one already.\<close>

definition generateOfType :: "'e get_secret \<Rightarrow> ('e, 'f, 'q, 'r, 'i) secret_lib \<Rightarrow> ('f, 'q) AppInstance \<Rightarrow> string \<Rightarrow> 'f Secret \<Rightarrow>
    'e secret_error + KSecret \<Rightarrow> ('e, KSecret option) secret_m" where
  "generateOfType rec L app secretName secretRef found =
     (let existing = (case found of Inl _ \<Rightarrow> None | Inr s \<Rightarrow> Some s)
      in if st_Type secretRef \<notin> {''opaque'', ''basic'', ''generated'', ''token'', ''template''} then
           (case found of Inl e \<Rightarrow> sm_result (Inl e) | Inr _ \<Rightarrow> sm_return None)
         else sm_bind
           (if st_Type secretRef = ''opaque'' then generateOpaque L app secretName secretRef existing
            else if st_Type secretRef = ''basic'' then generateBasic L app secretName secretRef existing
            else if st_Type secretRef = ''generated'' then generatedSecret L app secretName secretRef existing
            else if st_Type secretRef = ''token'' then generateToken L app secretName secretRef existing
            else generateTemplate rec L app secretName secretRef existing) (\<lambda>s. sm_return (Some s)))"

definition generateSecret :: "'e get_secret \<Rightarrow> ('e, 'f, 'q, 'r, 'i) secret_lib \<Rightarrow> ('f, 'q) AppInstance \<Rightarrow> string \<Rightarrow> ('e, KSecret option) secret_m" where
  "generateSecret rec L app secretName =
     sm_bind (\<lambda>st. Some (Inr (getAppSecret L app secretName (sst_kube st)), st)) (\<lambda>found.
       case found of
         Inl (SecretForeign e) \<Rightarrow> sm_result (Inl (SecretForeign e))
       | _ \<Rightarrow>
           (case gm_get (as_Secrets (is_AppSpec (app_Status app))) secretName of
              None \<Rightarrow> sm_result (Inl (SecretMissing secretName))
            | Some secretRef \<Rightarrow> generateOfType rec L app secretName secretRef found))"

subsection \<open>Getting a secret\<close>

text \<open>What a secret stands for: the reference and the namespace it is looked up in, or nothing when it is generated.\<close>

definition secretReferenceFor :: "('f, 'q) AppInstance \<Rightarrow> string \<Rightarrow> (string \<times> string) option" where
  "secretReferenceFor app secretName =
     (let bound = foldl (\<lambda>r b. if sc_Target b = secretName then sc_Secret b else r) [] (ai_Secrets (app_Spec app));
          def = gm_get_or zero_Secret (as_Secrets (is_AppSpec (app_Status app))) secretName
      in if bound \<noteq> [] then Some (bound, om_Namespace (app_Meta app))
         else if st_External def \<noteq> [] then Some (st_External def, om_Namespace (app_Meta app))
         else if st_Alias def \<noteq> [] then Some (st_Alias def, is_Namespace (app_Status app))
         else if str_contains secretName ''.'' then Some (secretName, is_Namespace (app_Status app))
         else None)"

definition SecretTypeContext :: string where "SecretTypeContext = ''acorn.io/context''"

definition contextSecret :: "('e, 'f, 'q, 'r, 'i) secret_lib \<Rightarrow> string \<Rightarrow> ('e, KSecret option) secret_m" where
  "contextSecret L secretRef =
     (let name = ''context-'' @ str_trim_prefix secretRef ''context://''
      in sm_bind (sm_kube (\<lambda>k. map_sum SecretKube id (kube_getSecret (sl_faults L) k system_Namespace name))) (\<lambda>s.
           if kx_Type s \<noteq> SecretTypeContext then
             sm_result (Inl (SecretErrorf (''found secrets '' @ system_Namespace @ ''/'' @ name @ '' but type is ['' @ kx_Type s @ ''] and not ['' @ SecretTypeContext @ '']'')))
           else sm_return (Some s)))"

definition sm_remember :: "string \<Rightarrow> KSecret option \<Rightarrow> ('e, KSecret option) secret_m" where
  "sm_remember secretName secret = (\<lambda>st. Some (Inr secret, st\<lparr>sst_secrets := gm_set (sst_secrets st) secretName secret\<rparr>))"

definition lookedUpSecret :: "('e, 'f, 'q, 'r, 'i) secret_lib \<Rightarrow> ('f, 'q) AppInstance \<Rightarrow> string \<Rightarrow> string \<Rightarrow> string \<Rightarrow> ('e, KSecret option) secret_m" where
  "lookedUpSecret L app secretName secretRef refNamespace =
     sm_bind (\<lambda>st. Option.bind (Lookup_Secret (il_refs (sl_interp L (sst_kube st))) refNamespace (str_split (CHR ''.'') secretRef))
         (\<lambda>r. Some (ref_failure r, st))) (\<lambda>existing.
     sm_bind (decryptedSecret L (om_Namespace (app_Meta app)) existing) (\<lambda>secret. sm_remember secretName (Some secret)))"

definition getOrCreateBody :: "'e get_secret \<Rightarrow> ('e, 'f, 'q, 'r, 'i) secret_lib \<Rightarrow> ('f, 'q) AppInstance \<Rightarrow> string \<Rightarrow> ('e, KSecret option) secret_m" where
  "getOrCreateBody rec L app secretName =
     (case secretReferenceFor app secretName of
        Some (secretRef, refNamespace) \<Rightarrow>
          if str_has_prefix secretRef ''context://'' then contextSecret L secretRef else lookedUpSecret L app secretName secretRef refNamespace
      | None \<Rightarrow> sm_bind (generateSecret rec L app secretName) (sm_remember secretName))"

lemma sm_bind_mono:
  assumes "\<And>st. mono_option (\<lambda>f. m f st)" "\<And>a st. mono_option (\<lambda>f. k f a st)"
  shows "mono_option (\<lambda>f. sm_bind (m f) (k f) st)"
  unfolding sm_bind_def by (intro partial_function_mono case_sum_mono case_prod_mono assms)

lemma sm_try_mono:
  assumes "\<And>st. mono_option (\<lambda>f. m f st)" "\<And>a st. mono_option (\<lambda>f. k f a st)"
  shows "mono_option (\<lambda>f. sm_try (m f) (k f) st)"
  unfolding sm_try_def by (intro partial_function_mono case_prod_mono assms)

lemma templateKey_mono:
  assumes "\<And>n st. mono_option (\<lambda>f. R f n st)"
  shows "mono_option (\<lambda>f. templateKey (R f) name key st)"
  unfolding templateKey_def by (intro partial_function_mono sm_try_mono assms)

lemma templateLoop_mono:
  assumes "\<And>n st. mono_option (\<lambda>f. R f n st)"
  shows "mono_option (\<lambda>f. templateLoop (R f) segs st)"
proof (induction segs arbitrary: st)
  case (Cons seg segs)
  then show ?case
    by (cases seg) (auto intro!: partial_function_mono sm_bind_mono templateKey_mono assms simp: case_prod_unfold)
qed (simp add: partial_function_mono)

lemma templateData_mono:
  assumes "\<And>n st. mono_option (\<lambda>f. R f n st)"
  shows "mono_option (\<lambda>f. templateData (R f) L app tag entries data st)"
proof (induction entries arbitrary: data st)
  case (Cons e entries)
  have "mono_option (\<lambda>f. templateValue (R f) L app tag t st)" for t st
    unfolding templateValue_def by (intro partial_function_mono sm_bind_mono templateLoop_mono case_prod_mono assms)
  with Cons show ?case by (cases e) (auto intro!: sm_bind_mono)
qed (simp add: partial_function_mono)

lemma generateTemplate_mono:
  assumes "\<And>n st. mono_option (\<lambda>f. R f n st)"
  shows "mono_option (\<lambda>f. generateTemplate (R f) L app secretName secretRef existing st)"
  unfolding generateTemplate_def Let_def
  by (intro sm_bind_mono templateData_mono assms) (simp_all add: partial_function_mono)

lemma generateOfType_mono:
  assumes "\<And>n st. mono_option (\<lambda>f. R f n st)"
  shows "mono_option (\<lambda>f. generateOfType (R f) L app secretName secretRef found st)"
proof (cases "st_Type secretRef \<in> {''opaque'', ''basic'', ''generated'', ''token''}")
  case True
  then show ?thesis by (auto simp: generateOfType_def Let_def partial_function_mono)
next
  case False
  then show ?thesis
    by (cases "st_Type secretRef = ''template''")
       (auto simp: generateOfType_def Let_def partial_function_mono intro!: sm_bind_mono generateTemplate_mono assms)
qed

lemma generateSecret_mono:
  fixes R :: "('b \<Rightarrow> 'c option) \<Rightarrow> 'e get_secret"
  assumes "\<And>n st. mono_option (\<lambda>f. R f n st)"
  shows "mono_option (\<lambda>f. generateSecret (R f) L app secretName st)"
proof -
  have o: "mono_option (\<lambda>f. (case gm_get (as_Secrets (is_AppSpec (app_Status app))) secretName of None \<Rightarrow> m
            | Some secretRef \<Rightarrow> generateOfType (R f) L app secretName secretRef found) st)" for m found st
    by (cases "gm_get (as_Secrets (is_AppSpec (app_Status app))) secretName") (simp_all add: generateOfType_mono assms partial_function_mono)
  have "mono_option (\<lambda>f. (case found of Inl (SecretForeign e) \<Rightarrow> sm_result (Inl (SecretForeign e))
       | _ \<Rightarrow> (case gm_get (as_Secrets (is_AppSpec (app_Status app))) secretName of
              None \<Rightarrow> sm_result (Inl (SecretMissing secretName))
            | Some secretRef \<Rightarrow> generateOfType (R f) L app secretName secretRef found)) st)" for found :: "'e secret_error + KSecret" and st
  proof (cases found)
    case (Inl e)
    then show ?thesis using o by (cases e) (simp_all add: partial_function_mono)
  qed (simp add: o)
  then show ?thesis unfolding generateSecret_def by (intro sm_bind_mono) (simp_all add: partial_function_mono)
qed

lemma getOrCreateBody_mono [partial_function_mono]:
  assumes "\<And>n st. mono_option (\<lambda>f. R f n st)"
  shows "mono_option (\<lambda>f. getOrCreateBody (R f) L app secretName st)"
  by (cases "secretReferenceFor app secretName")
     (auto simp: getOrCreateBody_def partial_function_mono intro!: sm_bind_mono generateSecret_mono assms)

partial_function (option) GetOrCreateSecret :: "('e, 'f, 'q, 'r, 'i) secret_lib \<Rightarrow> ('f, 'q) AppInstance \<Rightarrow> string \<Rightarrow> secret_state \<Rightarrow>
    (('e secret_error + KSecret option) \<times> secret_state) option" where
  "GetOrCreateSecret L app secretName st =
     (case gm_get (sst_secrets st) secretName of
        Some sec \<Rightarrow> Some (Inr sec, st)
      | None \<Rightarrow> getOrCreateBody (GetOrCreateSecret L app) L app secretName st)"

subsection \<open>The controller\<close>

definition secretsOrdered :: "('f, 'q) AppInstance \<Rightarrow> (string \<times> 'f Secret) list" where
  "secretsOrdered app =
     (let late = (\<lambda>(_, s). st_Type s = ''generated'' \<or> st_Type s = ''template''); entries = typed_Sorted (as_Secrets (is_AppSpec (app_Status app)))
      in filter (Not \<circ> late) entries @ filter late entries)"

definition modifySecretStatus :: "string \<Rightarrow> (SecretStatus \<Rightarrow> SecretStatus) \<Rightarrow> ('f, 'q) AppInstance \<Rightarrow> ('f, 'q) AppInstance" where
  "modifySecretStatus secretName f app =
     app\<lparr>app_Status := (app_Status app)\<lparr>is_AppStatus := (is_AppStatus (app_Status app))\<lparr>at_Secrets :=
       gm_set (at_Secrets (is_AppStatus (app_Status app))) secretName
         (f (gm_get_or zero_SecretStatus (at_Secrets (is_AppStatus (app_Status app))) secretName))\<rparr>\<rparr>\<rparr>"

definition addSecretTransitioning :: "string \<Rightarrow> string \<Rightarrow> string \<Rightarrow> ('f, 'q) AppInstance \<Rightarrow> ('f, 'q) AppInstance" where
  "addSecretTransitioning secretName title msg app =
     modifySecretStatus secretName (\<lambda>c. c\<lparr>us_LookupTransitioning := us_LookupTransitioning c @ [title @ '': ['' @ msg @ '']'']\<rparr>) app"

definition addSecretError :: "string \<Rightarrow> string \<Rightarrow> ('f, 'q) AppInstance \<Rightarrow> ('f, 'q) AppInstance" where
  "addSecretError secretName err app = modifySecretStatus secretName (\<lambda>c. c\<lparr>us_LookupErrors := us_LookupErrors c @ [err]\<rparr>) app"

fun kubeStatus :: "('e \<Rightarrow> api_status option) \<Rightarrow> 'e kube_error \<Rightarrow> api_status option" where
  "kubeStatus f (NotFoundError n) = Some (StatusNotFound (Some n))"
| "kubeStatus f (AlreadyExists _) = Some StatusOther"
| "kubeStatus f (ApiError e) = f e"

fun naclStatus :: "('e \<Rightarrow> api_status option) \<Rightarrow> 'e nacl_error \<Rightarrow> api_status option" where
  "naclStatus f (NaclKube e) = kubeStatus f e"
| "naclStatus f (NaclError e) = f e"
| "naclStatus f _ = None"

fun interpStatus :: "('e \<Rightarrow> api_status option) \<Rightarrow> 'e interp_error \<Rightarrow> api_status option" where
  "interpStatus f (ObjectNotFound n) = Some (StatusNotFound (Some n))"
| "interpStatus f (Foreign e) = f e"
| "interpStatus f (DecryptFailed e) = naclStatus f e"
| "interpStatus f _ = None"

fun apiStatus :: "('e \<Rightarrow> api_status option) \<Rightarrow> 'e secret_error \<Rightarrow> api_status option" where
  "apiStatus f (SecretMissing n) = Some (StatusNotFound (Some n))"
| "apiStatus f (SecretKube e) = kubeStatus f e"
| "apiStatus f (SecretForeign e) = f e"
| "apiStatus f (SecretNacl e) = naclStatus f e"
| "apiStatus f (SecretDecrypting _ _ e) = naclStatus f e"
| "apiStatus f (SecretInterp e) = interpStatus f e"
| "apiStatus f (SecretRegistry (RegistryError e)) = f e"
| "apiStatus f _ = None"

text \<open>What the controller does with an error: it notes it and goes on with the app, or it stops.\<close>

definition noteError :: "('e, 'f, 'q, 'r, 'i) secret_lib \<Rightarrow> string \<Rightarrow> 'e secret_error \<Rightarrow> ('f, 'q) AppInstance \<Rightarrow> ('f, 'q) AppInstance \<times> bool" where
  "noteError L secretName err app =
     (case apiStatus (sl_apiStatus L) err of
        Some (StatusNotFound (Some n)) \<Rightarrow> (if n \<noteq> [] then addSecretTransitioning secretName ''missing'' n app else app, True)
      | Some (StatusNotFound None) \<Rightarrow> (addSecretTransitioning secretName ''missing'' secretName app, True)
      | Some StatusOther \<Rightarrow> (addSecretError secretName (secretErrorText L err) app, False)
      | None \<Rightarrow>
          (if err = JobNotDone \<or> err = JobNoOutput \<or> str_has_prefix (secretErrorText L err) ''waiting''
           then addSecretTransitioning secretName ''waiting'' (secretErrorText L err) app
           else addSecretError secretName (secretErrorText L err) app, True))"

definition appSecretObject :: "('f, 'q) AppInstance \<Rightarrow> string \<Rightarrow> 'f Secret \<Rightarrow> KSecret \<Rightarrow> KSecret" where
  "appSecretObject app secretName def secret =
     (let scoped = (\<lambda>global own user. GatherScoped secretName LabelTypeSecret global own user); spec = is_AppSpec (app_Status app)
      in \<lparr>kx_Meta = zero_ObjectMeta\<lparr>om_Name := secretName, om_Namespace := is_Namespace (app_Status app),
            om_Labels := Merge [(AcornAppName, om_Name (app_Meta app)), (AcornAppNamespace, om_Namespace (app_Meta app)), (AcornManaged, ''true''),
                (AcornSecretName, secretName), (AcornSecretSourceName, om_Name (kx_Meta secret))]
              (scoped (as_Labels spec) (st_Labels def) (ai_Labels (app_Spec app))),
            om_Annotations := gm_set (scoped (as_Annotations spec) (st_Annotations def) (ai_Annotations (app_Spec app)))
              AcornAppGeneration (itoa (om_Generation (app_Meta app)))\<rparr>,
          kx_Type = kx_Type secret, kx_Data = kx_Data secret\<rparr>)"

fun createLoop :: "('e, 'f, 'q, 'r, 'i) secret_lib \<Rightarrow> ('f, 'q) AppInstance \<Rightarrow> (string \<times> 'f Secret) list \<Rightarrow> KSecret list \<Rightarrow>
    ('e, ('f, 'q) AppInstance \<times> KSecret list) secret_m" where
  "createLoop L app [] objs st = Some (Inr (app, objs), st)"
| "createLoop L app ((secretName, def) # entries) objs st =
     (case GetOrCreateSecret L app secretName st of
        None \<Rightarrow> None
      | Some (Inl err, st') \<Rightarrow>
          if err = SecretPanic then Some (Inl SecretPanic, st')
          else (case noteError L secretName err app of
                  (app', True) \<Rightarrow> createLoop L app' entries objs st'
                | (app', False) \<Rightarrow> Some (Inr (app', objs), st'))
      | Some (Inr None, st') \<Rightarrow> Some (Inl SecretPanic, st')
      | Some (Inr (Some secret), st') \<Rightarrow> createLoop L app entries (objs @ [appSecretObject app secretName def secret]) st')"

definition CreateSecrets :: "('e, 'f, 'q, 'r, 'i) secret_lib \<Rightarrow> ('f, 'q) AppInstance \<Rightarrow> ('e, ('f, 'q) AppInstance \<times> KSecret list) secret_m" where
  "CreateSecrets L app st = createLoop L app (secretsOrdered app) [] (st\<lparr>sst_secrets := []\<rparr>)"

end
