(* ===== verification/SecretPasses.thy ===== *)
theory SecretPasses
  imports AppSecrets
begin

text \<open>
  What a pass over the secrets of an app does (\<open>AppSecrets\<close>): it changes only the secrets that were made for the app, loses no declared secret, leaves
  generated secrets as they are once they were made, and ends unless templates lead around in a circle. The lemmas follow the monad: \<open>sm_own\<close> for what
  a computation may change and \<open>sm_total\<close> for its end are shown for its operations and carried through every function.
\<close>

subsection \<open>The labels of a secret\<close>

lemma acorn_keys [simp]:
  "str_contains AcornAppName ''acorn.io/''" "str_contains AcornManaged ''acorn.io/''"
  "str_contains AcornSecretName ''acorn.io/''" "str_contains AcornSecretGenerated ''acorn.io/''"
  by (simp_all add: str_contains_iff AcornAppName_def AcornManaged_def AcornSecretName_def AcornSecretGenerated_def Prefix_def)

lemma typed_Concat_ok: "gm_ok (typed_Concat ms)"
proof -
  have "gm_ok m \<Longrightarrow> gm_ok (foldl copyInto m ms)" for m by (induction ms arbitrary: m) (auto simp: copyInto_ok)
  then show ?thesis by (simp add: typed_Concat_def)
qed

lemma GatherScoped_acorn: "str_contains k ''acorn.io/'' \<Longrightarrow> gm_get (GatherScoped n t g r scoped) k = None"
  by (simp add: GatherScoped_def ExcludeAcornKey_get gather_fold_ok typed_Concat_ok)

lemma GatherScoped_ok: "gm_ok (GatherScoped n t g r scoped)"
  by (simp add: GatherScoped_def ExcludeAcornKey_copyInto copyInto_ok)

lemma secret_labels_distinct: "distinct [AcornAppName, AcornManaged, AcornSecretName, AcornSecretGenerated, AcornPublicName]"
  by (simp add: AcornAppName_def AcornManaged_def AcornSecretName_def AcornSecretGenerated_def AcornPublicName_def Prefix_def)

lemma gm_get_entry: "gm_get ((k', v) # m) k = (if k = k' then Some v else gm_get m k)"
  by (simp add: gm_get_def)

lemma gm_ok_single: "gm_ok [(k, v)]"
  by (simp add: gm_ok_def)

lemma acornLabels_get:
  assumes "(k, v) \<in> set (acornLabelsForSecret secretName app)"
  shows "gm_get (labelsForSecret L secretName app secretRef) k = Some v"
  using assms secret_labels_distinct
  by (auto simp: acornLabelsForSecret_def labelsForSecret_def Merge_def copyInto_get GatherScoped_ok GatherScoped_acorn gm_ok_single gm_get_entry)

subsection \<open>What an app writes\<close>

text \<open>A secret that was made for the app, and the changes to the cluster that concern no other secret.\<close>

definition made_for :: "('f, 'q) AppInstance \<Rightarrow> KSecret \<Rightarrow> bool" where
  "made_for app s \<longleftrightarrow> om_Namespace (kx_Meta s) = om_Namespace (app_Meta app) \<and>
     (\<exists>n. \<forall>(k, v)\<in>set (acornLabelsForSecret n app). gm_get (om_Labels (kx_Meta s)) k = Some v)"

definition kube_ok :: "kube \<Rightarrow> bool" where
  "kube_ok k \<longleftrightarrow> gm_ok (ku_secrets k) \<and> (\<forall>(key, s)\<in>set (ku_secrets k). key = kube_key s)"

definition own_changes :: "('f, 'q) AppInstance \<Rightarrow> kube \<Rightarrow> kube \<Rightarrow> bool" where
  "own_changes app k k' \<longleftrightarrow> ku_namespaces k' = ku_namespaces k \<and>
     (\<forall>key. gm_get (ku_secrets k') key = gm_get (ku_secrets k) key \<or>
        (\<exists>s. gm_get (ku_secrets k') key = Some s \<and> made_for app s) \<and> (\<forall>s. gm_get (ku_secrets k) key = Some s \<longrightarrow> made_for app s))"

definition completes :: "('e, 'f, 'q, 'r, 'i) secret_lib \<Rightarrow> bool" where
  "completes L \<longleftrightarrow> (\<forall>k pre s. let c = sl_complete L k pre s
     in om_Namespace (kx_Meta c) = om_Namespace (kx_Meta s) \<and> om_Labels (kx_Meta c) = om_Labels (kx_Meta s) \<and>
        om_Annotations (kx_Meta c) = om_Annotations (kx_Meta s) \<and> kx_Type c = kx_Type s \<and> kx_Data c = kx_Data s \<and>
        \<not> gm_has (ku_secrets k) (kube_key c))"

text \<open>A computation that changes only what was made for the app, from a cluster where the given keys hold such secrets.\<close>

definition made_at :: "('f, 'q) AppInstance \<Rightarrow> kube \<Rightarrow> string \<times> string \<Rightarrow> bool" where
  "made_at app k key \<longleftrightarrow> (\<exists>s. gm_get (ku_secrets k) key = Some s \<and> made_for app s)"

definition own_step :: "('f, 'q) AppInstance \<Rightarrow> (string \<times> string) set \<Rightarrow> kube \<Rightarrow> kube \<Rightarrow> bool" where
  "own_step app K k k' \<longleftrightarrow> (kube_ok k \<and> (\<forall>key\<in>K. made_at app k key) \<longrightarrow> kube_ok k' \<and> (\<forall>key\<in>K. made_at app k' key) \<and> own_changes app k k')"

definition sm_own :: "('f, 'q) AppInstance \<Rightarrow> (string \<times> string) set \<Rightarrow> ('e, 'a) secret_m \<Rightarrow> bool" where
  "sm_own app K m \<longleftrightarrow> (\<forall>st r st'. m st = Some (r, st') \<longrightarrow> own_step app K (sst_kube st) (sst_kube st'))"

lemma own_changes_refl [simp]: "own_changes app k k"
  by (simp add: own_changes_def)

lemma own_changes_trans: "own_changes app k k' \<Longrightarrow> own_changes app k' k'' \<Longrightarrow> own_changes app k k''"
  unfolding own_changes_def by (intro conjI allI) (simp, metis option.inject)

lemma own_changes_made: "own_changes app k k' \<Longrightarrow> made_at app k key \<Longrightarrow> made_at app k' key"
  unfolding own_changes_def made_at_def by metis

lemma own_step_refl [simp]: "own_step app K k k"
  by (simp add: own_step_def)

lemma own_step_trans: "own_step app K k k' \<Longrightarrow> own_step app K k' k'' \<Longrightarrow> own_step app K k k''"
  unfolding own_step_def by (blast intro: own_changes_trans)

lemma own_step_empty: "own_step app {} k k' \<Longrightarrow> own_step app K k k'"
  unfolding own_step_def by (blast intro: own_changes_made)

lemma sm_bind_Some:
  "sm_bind m k st = Some (r, st') \<longleftrightarrow>
     (\<exists>e. m st = Some (Inl e, st') \<and> r = Inl e) \<or> (\<exists>a s1. m st = Some (Inr a, s1) \<and> k a s1 = Some (r, st'))"
  by (cases "m st") (auto simp: sm_bind_def split: sum.splits)

lemma sm_try_Some:
  "sm_try m k st = Some (r, st') \<longleftrightarrow> (m st = Some (Inl SecretPanic, st') \<and> r = Inl SecretPanic) \<or>
     (\<exists>x s1. x \<noteq> Inl SecretPanic \<and> m st = Some (x, s1) \<and> k x s1 = Some (r, st'))"
  unfolding sm_try_def bind_eq_Some_conv by auto

lemma sm_simple_Some:
  "sm_return a st = Some (r', st') \<longleftrightarrow> r' = Inr a \<and> st' = st"
  "sm_result r st = Some (r', st') \<longleftrightarrow> r' = r \<and> st' = st"
  "sm_kube f st = Some (r', st') \<longleftrightarrow> r' = f (sst_kube st) \<and> st' = st"
  by (auto simp: sm_return_def sm_result_def sm_kube_def)

lemma sm_write_Some:
  "sm_write f st = Some (r, st') \<longleftrightarrow> (\<exists>e. f (sst_kube st) = Inl e \<and> r = Inl (SecretKube e) \<and> st' = st) \<or>
     (\<exists>k. f (sst_kube st) = Inr k \<and> r = Inr () \<and> st' = st\<lparr>sst_kube := k\<rparr>)"
  by (auto simp: sm_write_def split: sum.splits)

lemmas sm_Some = sm_bind_Some sm_try_Some sm_simple_Some sm_write_Some

lemma sm_own_same: "(\<And>st r st'. m st = Some (r, st') \<Longrightarrow> sst_kube st' = sst_kube st) \<Longrightarrow> sm_own app K m"
  by (auto simp: sm_own_def)

lemma sm_own_return [simp]: "sm_own app K (sm_return a)" 
  by (rule sm_own_same) (simp add: sm_simple_Some)

lemma sm_own_result [simp]: "sm_own app K (sm_result r)"
  by (rule sm_own_same) (simp add: sm_simple_Some)

lemma sm_own_kube [simp]: "sm_own app K (sm_kube f)"
  by (rule sm_own_same) (simp add: sm_simple_Some)

lemma sm_own_bind:
  assumes "sm_own app K m" "\<And>a. sm_own app K (k a)"
  shows "sm_own app K (sm_bind m k)"
  using assms unfolding sm_own_def sm_bind_Some by (blast intro: own_step_trans)

lemma sm_own_try:
  assumes "sm_own app K m" "\<And>a. sm_own app K (k a)"
  shows "sm_own app K (sm_try m k)"
  using assms unfolding sm_own_def sm_try_Some by (blast intro: own_step_trans)

lemma sm_own_empty: "sm_own app {} m \<Longrightarrow> sm_own app K m"
  unfolding sm_own_def by (blast intro: own_step_empty)

lemma made_for_new:
  assumes "om_Namespace (kx_Meta s) = om_Namespace (app_Meta app)" "om_Labels (kx_Meta s) = labelsForSecret L n app ref"
  shows "made_for app s"
  unfolding made_for_def assms by (intro conjI exI [of _ n]) (auto intro: acornLabels_get)

lemma own_step_put:
  assumes "made_for app s" "kube_key s = key" "gm_has (ku_secrets k) key \<Longrightarrow> key \<in> K"
  shows "own_step app K k (k\<lparr>ku_secrets := gm_set (ku_secrets k) key s\<rparr>)"
  unfolding own_step_def
proof (intro impI, elim conjE)
  assume k: "kube_ok k" "\<forall>key\<in>K. made_at app k key"
  have "own_changes app k (k\<lparr>ku_secrets := gm_set (ku_secrets k) key s\<rparr>)"
    using assms k(2) by (auto simp: own_changes_def made_at_def gm_get_set gm_has_iff) (metis option.inject)
  then show "kube_ok (k\<lparr>ku_secrets := gm_set (ku_secrets k) key s\<rparr>) \<and> (\<forall>key'\<in>K. made_at app (k\<lparr>ku_secrets := gm_set (ku_secrets k) key s\<rparr>) key') \<and>
      own_changes app k (k\<lparr>ku_secrets := gm_set (ku_secrets k) key s\<rparr>)"
    using k assms(2) by (auto simp: kube_ok_def dest: set_gm_set intro: own_changes_made)
qed

definition key_of :: "KSecret option \<Rightarrow> (string \<times> string) set" where
  "key_of existing = kube_key ` set_option existing"

lemma writeSecret_own:
  assumes "completes L" "kx_Meta secret = kx_Meta (newSecretFor L secretName app secretRef ty data)" 
    "\<And>e. existing = Some e \<Longrightarrow> om_Namespace (kx_Meta e) = om_Namespace (app_Meta app)"
  shows "sm_own app (key_of existing) (writeSecret L secretName existing secret)"
proof (cases existing)
  case None
  have c: "made_for app (sl_complete L k (secretName @ ''-'') secret)" for k
    using assms(1,2) by (intro made_for_new [where L = L and n = secretName and ref = secretRef]) (simp_all add: completes_def Let_def newSecretFor_def)
  have "kube_createSecret F k (sl_complete L k (secretName @ ''-'') secret) = Inr k' \<Longrightarrow> own_step app K k k'" for F k k' K
    using own_step_put [OF c refl] by (auto simp: kube_createSecret_def split: option.splits if_splits)
  then show ?thesis unfolding sm_own_def
    by (auto simp: None writeSecret_def Let_def sm_Some)
next
  case (Some e)
  let ?new = "e\<lparr>kx_Data := kx_Data secret, kx_Meta := (kx_Meta e)\<lparr>om_Annotations := om_Annotations (kx_Meta secret), om_Labels := om_Labels (kx_Meta secret)\<rparr>\<rparr>"
  have c: "made_for app ?new"
    using assms(2,3) Some by (intro made_for_new [where L = L and n = secretName and ref = secretRef]) (simp_all add: newSecretFor_def)
  have "kube_updateSecret F k ?new = Inr k' \<Longrightarrow> own_step app {kube_key e} k k'" for F k k'
    using own_step_put [OF c, of "kube_key e"] by (auto simp: kube_updateSecret_def kube_key_def split: option.splits if_splits)
  then show ?thesis unfolding sm_own_def
    by (auto simp: Some writeSecret_def Let_def sm_Some key_of_def)
qed

lemma updateOrCreate_own:
  assumes "completes L" "\<And>e. existing = Some e \<Longrightarrow> om_Namespace (kx_Meta e) = om_Namespace (app_Meta app)"
  shows "sm_own app (key_of existing) (updateOrCreate L secretName existing (newSecretFor L secretName app secretRef ty data))"
  unfolding updateOrCreate_def
  by (intro sm_own_bind writeSecret_own [OF assms(1) refl assms(2)]) (auto intro!: sm_own_bind)

lemma labelledSecrets_made: "s \<in> set (labelledSecrets app n k) \<Longrightarrow> made_for app s"
  unfolding labelledSecrets_def made_for_def list_all_iff set_filter mem_Collect_eq by blast

lemma getAppSecret_found:
  assumes "getAppSecret L app n k = Inr s"
  shows "s \<in> snd ` set (ku_secrets k)" "om_Namespace (kx_Meta s) = om_Namespace (app_Meta app)" "made_for app s"
proof -
  from assms(1) obtain r where "sort_key (om_UID \<circ> kx_Meta) (labelledSecrets app n k) = s # r"
    unfolding getAppSecret_def by (auto split: option.splits list.splits)
  then have s: "s \<in> set (labelledSecrets app n k)" by (metis list.set_intros(1) set_sort)
  then show "s \<in> snd ` set (ku_secrets k)" "om_Namespace (kx_Meta s) = om_Namespace (app_Meta app)" by (simp_all add: labelledSecrets_def)
  show "made_for app s" using s by (rule labelledSecrets_made)
qed

lemma getAppSecret_made:
  assumes "getAppSecret L app n k = Inr s" "kube_ok k"
  shows "made_at app k (kube_key s)"
  using getAppSecret_found [OF assms(1)] assms(2) by (force simp: made_at_def kube_ok_def gm_get_in_set)

lemma drawLoop_own [simp]: "sm_own app K (drawLoop L chars n)"
proof (induction n)
  case (Suc n)
  have "sm_own app K (\<lambda>st. Some (map_sum SecretForeign id (sl_rand L (sst_draw st) (length chars)), st\<lparr>sst_draw := Suc (sst_draw st)\<rparr>))"
    by (rule sm_own_same) auto
  with Suc show ?case by (auto intro!: sm_own_bind)
qed simp

lemma decryptedSecret_own [simp]: "sm_own app K (decryptedSecret L ns s)"
  unfolding decryptedSecret_def by (intro sm_own_bind) simp_all

lemma basicKey_own [simp]: "sm_own app K (basicKey L n key data)"
  unfolding basicKey_def GenerateRandomSecret_def by (auto intro!: sm_own_try split: sum.split)

lemma templateKey_own: 
  assumes "sm_own app {} (rec name)"
  shows "sm_own app K (templateKey rec name key)"
proof -
  have "sm_own app K (case r of Inl e \<Rightarrow> sm_return (f e) | Inr None \<Rightarrow> sm_result m | Inr (Some s) \<Rightarrow> sm_return (g s))" for r :: "'x + 'y option" and f m g
    by (cases r rule: sum.exhaust; simp split: option.split)
  then show ?thesis unfolding templateKey_def Let_def by (intro sm_own_try sm_own_empty [OF assms])
qed

lemma templateLoop_own: "(\<And>n. sm_own app {} (rec n)) \<Longrightarrow> sm_own app K (templateLoop rec segs)"
proof (induction segs)
  case (Cons seg segs)
  then have IH: "sm_own app K (templateLoop rec segs)" by blast
  have p: "sm_own app K (case x of (a, b) \<Rightarrow> sm_return (f a b))" for x :: "'x \<times> 'y" and f by (cases x) simp
  show ?case by (cases seg) (simp_all only: templateLoop.simps, (rule sm_own_bind IH p templateKey_own Cons.prems allI)+)
qed simp

lemma templateValue_own: "(\<And>n. sm_own app {} (rec n)) \<Longrightarrow> sm_own app K (templateValue rec L app' tag template)"
  unfolding templateValue_def
  by (intro sm_own_bind templateLoop_own) (auto intro!: sm_own_same simp: bind_eq_Some_conv sm_simple_Some split: if_splits)

lemma templateData_own: "(\<And>n. sm_own app {} (rec n)) \<Longrightarrow> sm_own app K (templateData rec L app' tag entries data)"
proof (induction entries arbitrary: data)
  case (Cons e entries)
  then show ?case by (cases e) (auto intro!: sm_own_bind templateValue_own)
qed simp

lemma generate_own:
  assumes "completes L" "\<And>e. existing = Some e \<Longrightarrow> om_Namespace (kx_Meta e) = om_Namespace (app_Meta app)" "\<And>n. sm_own app {} (rec n)"
  shows "sm_own app (key_of existing) (generateOpaque L app secretName secretRef existing)"
    "sm_own app (key_of existing) (generateBasic L app secretName secretRef existing)"
    "sm_own app (key_of existing) (generateToken L app secretName secretRef existing)"
    "sm_own app (key_of existing) (generatedSecret L app secretName secretRef existing)"
    "sm_own app (key_of existing) (generateTemplate rec L app secretName secretRef existing)"
proof -
  note own_write = updateOrCreate_own [OF assms(1,2)]
  show "sm_own app (key_of existing) (generateOpaque L app secretName secretRef existing)"
    unfolding generateOpaque_def by (rule own_write)
  show "sm_own app (key_of existing) (generateBasic L app secretName secretRef existing)"
    unfolding generateBasic_def by (intro sm_own_bind basicKey_own own_write)
  show "sm_own app (key_of existing) (generateToken L app secretName secretRef existing)"
    unfolding generateToken_def generate_def Let_def by (intro sm_own_bind own_write) (auto intro!: sm_own_bind)
  show "sm_own app (key_of existing) (generatedSecret L app secretName secretRef existing)"
    unfolding generatedSecret_def Let_def by (intro sm_own_bind own_write sm_own_kube)
  show "sm_own app (key_of existing) (generateTemplate rec L app secretName secretRef existing)"
    unfolding generateTemplate_def Let_def by (intro sm_own_bind own_write templateData_own assms(3) sm_own_result)
qed

lemma generateOfType_own:
  assumes "completes L" "\<And>e. found = Inr e \<Longrightarrow> om_Namespace (kx_Meta e) = om_Namespace (app_Meta app)" "\<And>n. sm_own app {} (rec n)"
  shows "sm_own app (key_of (case found of Inl _ \<Rightarrow> None | Inr s \<Rightarrow> Some s)) (generateOfType rec L app secretName secretRef found)"
proof (cases found)
  case (Inl e)
  note made = generate_own [where existing = "None" and secretName = secretName and secretRef = secretRef and rec = rec, OF assms(1) _ assms(3)]
  show ?thesis unfolding generateOfType_def Let_def Inl
    by simp (intro impI conjI sm_own_bind sm_own_return made, simp_all)
next
  case (Inr s)
  note made = generate_own [where existing = "Some s" and secretName = secretName and secretRef = secretRef and rec = rec, OF assms(1) _ assms(3)]
  show ?thesis unfolding generateOfType_def Let_def Inr
    by simp (intro impI conjI sm_own_bind sm_own_return made, insert assms(2) [OF Inr], simp_all)
qed

lemma generateSecret_own:
  assumes "completes L" "\<And>n. sm_own app {} (rec n)"
  shows "sm_own app {} (generateSecret rec L app secretName)"
  unfolding sm_own_def
proof (intro allI impI)
  fix st r st'
  assume run: "generateSecret rec L app secretName st = Some (r, st')"
  let ?found = "getAppSecret L app secretName (sst_kube st)"
  let ?K = "key_of (case ?found of Inl _ \<Rightarrow> None | Inr s \<Rightarrow> Some s)"
  have "sm_own app ?K (generateOfType rec L app secretName secretRef ?found)" for secretRef
    using assms by (intro generateOfType_own) (auto dest: getAppSecret_found)
  then have "own_step app ?K (sst_kube st) (sst_kube st')"
    using run by (auto simp: generateSecret_def sm_Some sm_own_def split: sum.splits secret_error.splits option.splits)
  moreover have "kube_ok (sst_kube st) \<Longrightarrow> \<forall>key\<in>?K. made_at app (sst_kube st) key"
    by (auto simp: key_of_def split: sum.splits intro: getAppSecret_made)
  ultimately show "own_step app {} (sst_kube st) (sst_kube st')"
    by (simp add: own_step_def)
qed

lemma contextSecret_kube: "contextSecret L ref st = Some (r, st') \<Longrightarrow> sst_kube st' = sst_kube st"
  by (auto simp: contextSecret_def Let_def sm_Some split: if_splits)

lemma lookedUpSecret_kube: "lookedUpSecret L app n ref ns st = Some (r, st') \<Longrightarrow> sst_kube st' = sst_kube st"
  by (auto simp: lookedUpSecret_def decryptedSecret_def sm_remember_def sm_Some bind_eq_Some_conv)

lemma getOrCreateBody_own:
  assumes "completes L" "\<And>n. sm_own app {} (rec n)"
  shows "sm_own app {} (getOrCreateBody rec L app secretName)"
proof -
  have "sm_own app {} (sm_remember secretName s)" for s by (rule sm_own_same) (auto simp: sm_remember_def)
  then have "sm_own app {} (sm_bind (generateSecret rec L app secretName) (sm_remember secretName))"
    by (intro sm_own_bind generateSecret_own assms)
  moreover have "sm_own app {} (contextSecret L ref)" "sm_own app {} (lookedUpSecret L app secretName ref ns)" for ref ns
    by (rule sm_own_same, erule contextSecret_kube lookedUpSecret_kube)+
  ultimately show ?thesis unfolding getOrCreateBody_def by (auto split: option.split)
qed

lemma GetOrCreateSecret_own:
  assumes "GetOrCreateSecret L app secretName st = Some y" "completes L"
  shows "own_step app {} (sst_kube st) (sst_kube (snd y))"
  using assms
proof (induction L app secretName st y rule: GetOrCreateSecret.raw_induct [rotated, consumes 1])
  case (1 f L app secretName st y)
  have "sm_own app {} (f L app n)" for n
    unfolding sm_own_def using 1(1,3) by force
  from getOrCreateBody_own [OF 1(3) this] show ?case
    using 1(2) by (cases y) (auto simp: sm_own_def split: option.splits)
qed

lemma noteError_unchanged:
  assumes "noteError L n err app = (app', b)"
  shows "app_Meta app' = app_Meta app" "app_Spec app' = app_Spec app" "is_AppSpec (app_Status app') = is_AppSpec (app_Status app)"
    "is_Namespace (app_Status app') = is_Namespace (app_Status app)"
  using assms
  by (auto simp: noteError_def addSecretTransitioning_def addSecretError_def modifySecretStatus_def split: option.splits api_status.splits if_splits)

lemma own_step_meta: "app_Meta app' = app_Meta app \<Longrightarrow> own_step app' K k k' = own_step app K k k'"
  by (simp add: own_step_def own_changes_def made_at_def made_for_def acornLabelsForSecret_def)

lemma createLoop_Cons_Some:
  assumes "createLoop L app ((n, def) # entries) objs st = Some (r, st')"
  obtains (panic) got where "GetOrCreateSecret L app n st = Some (got, st')" "r = Inl SecretPanic" "got = Inl SecretPanic \<or> got = Inr None"
  | (noted) err st1 app' where "GetOrCreateSecret L app n st = Some (Inl err, st1)" "err \<noteq> SecretPanic" "noteError L n err app = (app', True)"
      "createLoop L app' entries objs st1 = Some (r, st')"
  | (stopped) err app' where "GetOrCreateSecret L app n st = Some (Inl err, st')" "err \<noteq> SecretPanic" "noteError L n err app = (app', False)"
      "r = Inr (app', objs)"
  | (made) s st1 where "GetOrCreateSecret L app n st = Some (Inr (Some s), st1)"
      "createLoop L app entries (objs @ [appSecretObject app n def s]) st1 = Some (r, st')"
proof -
  obtain got st1 where g: "GetOrCreateSecret L app n st = Some (got, st1)"
    using assms by (cases "GetOrCreateSecret L app n st") auto
  show ?thesis
  proof (cases got)
    case (Inl err)
    obtain app' b where n: "noteError L n err app = (app', b)" by fastforce
    show ?thesis using assms g Inl n panic noted stopped by (cases b; cases "err = SecretPanic") auto
  next
    case (Inr x)
    then show ?thesis using assms g panic made by (cases x) auto
  qed
qed

lemma createLoop_own:
  "createLoop L app entries objs st = Some (r, st') \<Longrightarrow> completes L \<Longrightarrow> own_step app {} (sst_kube st) (sst_kube st')"
proof (induction entries arbitrary: app objs st)
  case (Cons e entries)
  obtain n def where e: "e = (n, def)" by fastforce
  from Cons(2)[unfolded e] show ?case
  proof (cases rule: createLoop_Cons_Some)
    case (panic got)
    then show ?thesis using GetOrCreateSecret_own Cons(3) by fastforce
  next
    case (noted err st1 app')
    have "own_step app {} (sst_kube st) (sst_kube st1)" using GetOrCreateSecret_own [OF noted(1) Cons(3)] by simp
    moreover have "own_step app' {} (sst_kube st1) (sst_kube st')" using Cons noted(4) by blast
    ultimately show ?thesis using own_step_meta [OF noteError_unchanged(1) [OF noted(3)]] own_step_trans by blast
  next
    case (stopped err app')
    then show ?thesis using GetOrCreateSecret_own Cons(3) by fastforce
  next
    case (made s st1)
    have "own_step app {} (sst_kube st) (sst_kube st1)" using GetOrCreateSecret_own [OF made(1) Cons(3)] by simp
    moreover have "own_step app {} (sst_kube st1) (sst_kube st')" using Cons made(2) by blast
    ultimately show ?thesis by (rule own_step_trans)
  qed
qed simp

subsection \<open>The data of a secret settles\<close>

lemma gm_equal_iff: "gm_equal m m' \<longleftrightarrow> gm_get m = gm_get m'"
proof
  assume eq: "gm_equal m m'"
  show "gm_get m = gm_get m'"
  proof
    fix k
    show "gm_get m k = gm_get m' k"
      using eq gm_has_iff [of m k] gm_has_iff [of m' k] by (cases "gm_has m k \<or> gm_has m' k") (auto simp: gm_equal_def list_all_iff gm_has_def)
  qed
qed (simp add: gm_equal_def list_all_iff)

definition seedStep :: "(string, string) gomap \<Rightarrow> string \<Rightarrow> string option \<Rightarrow> string option" where
  "seedStep from key old = (case gm_get from key of None \<Rightarrow> old | Some v \<Rightarrow> if v \<noteq> [] \<or> old = None \<or> old = Some [] then Some v else old)"

lemma seedStep_idem: "seedStep from key (seedStep from key old) = seedStep from key old"
  by (auto simp: seedStep_def split: option.splits)

lemma fold_touch:
  assumes "\<And>k m k'. gm_get (f k m) k' = (if k' = k then g k (gm_get m k) else gm_get m k')" "\<And>k x. g k (g k x) = g k x"
  shows "gm_get (fold f keys m) k = (if k \<in> set keys then g k (gm_get m k) else gm_get m k)"
proof (induction keys arbitrary: m)
  case (Cons a keys)
  then show ?case using assms by (cases "k = a") auto
qed simp

lemma seedData_get:
  "gm_get (seedData existing from keys) k =
     (if k \<in> set keys then seedStep from k (map_option (\<lambda>e. gm_get_or [] (kx_Data e) k) existing) else None)"
proof -
  let ?start = "case existing of None \<Rightarrow> [] | Some e \<Rightarrow> fold (\<lambda>key to. gm_set to key (gm_get_or [] (kx_Data e) key)) keys []"
  have start: "gm_get ?start k = (if k \<in> set keys then map_option (\<lambda>e. gm_get_or [] (kx_Data e) k) existing else None)"
  proof (cases existing)
    case (Some e)
    show ?thesis using fold_touch [of "\<lambda>key to. gm_set to key (gm_get_or [] (kx_Data e) key)" "\<lambda>k _. Some (gm_get_or [] (kx_Data e) k)" keys "[]" k]
      by (simp add: Some gm_get_set)
  qed simp
  have "gm_get (seedData existing from keys) k = (if k \<in> set keys then seedStep from k (gm_get ?start k) else gm_get ?start k)"
    unfolding seedData_def
  proof (rule fold_touch)
    fix k m k'
    show "gm_get (case gm_get from k of None \<Rightarrow> m | Some v \<Rightarrow> if v \<noteq> [] \<or> gm_get_or [] m k = [] then gm_set m k v else m) k' =
        (if k' = k then seedStep from k (gm_get m k) else gm_get m k')"
      by (auto simp: seedStep_def gm_get_set gm_get_or_def split: option.splits)
  qed (rule seedStep_idem)
  with start show ?thesis by simp
qed

text \<open>Data that has a value under each key, with the values the definition gives, is not changed when it is seeded again.\<close>

definition settled :: "(string, string) gomap \<Rightarrow> string list \<Rightarrow> (string, string) gomap \<Rightarrow> bool" where
  "settled from keys data \<longleftrightarrow> (\<forall>k. if k \<in> set keys then (\<exists>x. gm_get data k = Some x \<and> (\<forall>v. gm_get from k = Some v \<longrightarrow> v \<noteq> [] \<longrightarrow> x = v)) else gm_get data k = None)"

lemma settled_seed:
  assumes "settled from keys data" "gm_get (kx_Data e) = gm_get data"
  shows "gm_get (seedData (Some e) from keys) = gm_get data"
proof
  fix k
  show "gm_get (seedData (Some e) from keys) k = gm_get data k"
    using assms(1) [unfolded settled_def, rule_format, of k] assms(2)
    by (auto simp: seedData_get seedStep_def gm_get_or_def split: option.splits if_splits)
qed

lemma seed_settled:
  assumes "\<And>k. k \<in> set keys \<Longrightarrow> gm_get (seedData existing from keys) k \<noteq> None"
  shows "settled from keys (seedData existing from keys)"
  unfolding settled_def
proof
  fix k
  show "if k \<in> set keys then \<exists>x. gm_get (seedData existing from keys) k = Some x \<and> (\<forall>v. gm_get from k = Some v \<longrightarrow> v \<noteq> [] \<longrightarrow> x = v)
      else gm_get (seedData existing from keys) k = None"
    using assms [of k] by (auto simp: seedData_get seedStep_def split: option.splits if_splits)
qed

lemma settled_set:
  assumes "\<And>k. k \<notin> set keys \<Longrightarrow> gm_get data k = None" "key \<in> set keys" "gm_get_or [] from key = []"
    and "\<And>k. k \<in> set keys \<Longrightarrow> k \<noteq> key \<Longrightarrow> \<exists>x. gm_get data k = Some x \<and> (\<forall>v. gm_get from k = Some v \<longrightarrow> v \<noteq> [] \<longrightarrow> x = v)"
  shows "settled from keys (gm_set data key v)"
  using assms unfolding settled_def by (auto simp: gm_get_set gm_get_or_def)

subsection \<open>Random text has the length and the letters it should have\<close>

definition rand_ok :: "('e, 'f, 'q, 'r, 'i) secret_lib \<Rightarrow> bool" where
  "rand_ok L \<longleftrightarrow> (\<forall>draw bound r. sl_rand L draw bound = Inr r \<longrightarrow> r < bound)"

lemma drawLoop_text:
  "drawLoop L chars n st = Some (Inr v, st') \<Longrightarrow>
   length v = n \<and> sst_kube st' = sst_kube st \<and> sst_secrets st' = sst_secrets st \<and> (rand_ok L \<longrightarrow> set v \<subseteq> set chars)"
proof (induction n arbitrary: v st)
  case 0
  then show ?case by (simp add: sm_simple_Some)
next
  case (Suc n)
  then obtain r rest st1 where "sl_rand L (sst_draw st) (length chars) = Inr r" "v = chars ! r # rest" "chars \<noteq> []"
    "drawLoop L chars n (st\<lparr>sst_draw := Suc (sst_draw st)\<rparr>) = Some (Inr rest, st')"
    by (auto simp: sm_bind_Some sm_simple_Some map_sum_Inr split: if_splits)
  with Suc.IH [OF this(4)] show ?case by (auto simp: rand_ok_def)
qed

lemma basicKey_text:
  assumes "basicKey L n key data st = Some (Inr data', st')"
  obtains (kept) "gm_get_or [] data key \<noteq> []" "data' = data" "st' = st"
  | (made) v where "gm_get_or [] data key = []" "data' = gm_set data key (take n v)" "length v = 54" "rand_ok L \<longrightarrow> set v \<subseteq> set secretPool"
      "sst_kube st' = sst_kube st" "sst_secrets st' = sst_secrets st"
proof (cases "gm_get_or [] data key = []")
  case True
  obtain x s1 where x: "drawLoop L secretPool 54 st = Some (x, s1)"
    using assms True by (cases "drawLoop L secretPool 54 st") (auto simp: basicKey_def GenerateRandomSecret_def sm_try_def)
  then obtain v where "drawLoop L secretPool 54 st = Some (Inr v, st')" "data' = gm_set data key (take n v)"
    using assms True by (cases x) (auto simp: basicKey_def GenerateRandomSecret_def sm_try_def sm_simple_Some split: if_splits)
  with drawLoop_text [OF this(1)] made True show ?thesis by blast
next
  case False
  with assms kept show ?thesis by (simp add: basicKey_def sm_simple_Some)
qed

subsection \<open>A secret is found again\<close>

text \<open>The data an opaque, basic or token secret is given.\<close>

definition ownTypes :: "string list" where "ownTypes = [''opaque'', ''basic'', ''token'']"

definition keysFor :: "'f Secret \<Rightarrow> string list" where
  "keysFor ref = (if st_Type ref = ''opaque'' then map fst (st_Data ref) else if st_Type ref = ''basic'' then [''username'', ''password''] else [''token''])"

definition dataFor :: "('e, 'f, 'q, 'r, 'i) secret_lib \<Rightarrow> 'f Secret \<Rightarrow> KSecret option \<Rightarrow> ('e, (string, string) gomap) secret_m" where
  "dataFor L ref existing =
     (let data = seedData existing (st_Data ref) (keysFor ref)
      in if st_Type ref = ''opaque'' then sm_return data
         else if st_Type ref = ''basic'' then sm_bind (basicKey L 8 ''username'' data) (basicKey L 16 ''password'')
         else if gm_get_or [] data ''token'' \<noteq> [] then sm_return data
         else sm_bind (sm_result (map_sum SecretForeign id (sl_ToNumber L (gm_get (st_Params ref) ''length'')))) (\<lambda>n.
                sm_bind (generate L (sl_ToString L (gm_get (st_Params ref) ''characters'')) n) (\<lambda>v. sm_return (gm_set data ''token'' v))))"

definition typeFor :: "'f Secret \<Rightarrow> string" where
  "typeFor ref = ''secrets.acorn.io/'' @ st_Type ref"

lemma sm_bind_return: "sm_bind (sm_return a) k = k a"
  by (simp add: sm_bind_def sm_return_def)

lemma sm_bind_assoc: "sm_bind (sm_bind m k) h = sm_bind m (\<lambda>x. sm_bind (k x) h)"
  by (rule ext) (auto simp: sm_bind_def bind_eq_None_conv split: sum.split prod.split Option.bind_split)

lemma generateOfType_own_types:
  assumes "st_Type ref \<in> set ownTypes"
  shows "generateOfType rec L app n ref found =
    (let existing = (case found of Inl _ \<Rightarrow> None | Inr s \<Rightarrow> Some s)
     in sm_bind (dataFor L ref existing) (\<lambda>data.
          sm_bind (updateOrCreate L n existing (newSecretFor L n app ref (typeFor ref) data)) (\<lambda>s. sm_return (Some s))))"
  using assms
  by (auto simp: ownTypes_def generateOfType_def dataFor_def keysFor_def typeFor_def generateOpaque_def generateBasic_def generateToken_def
      SecretTypeOpaque_def SecretTypeBasic_def SecretTypeToken_def sm_bind_return sm_bind_assoc Let_def)

lemma Inr_map_sum: "Inr x = map_sum f id r \<longleftrightarrow> r = Inr x"
  by (cases r) auto

definition settles ::
    "('e, 'f, 'q, 'r, 'i) secret_lib \<Rightarrow> 'f Secret \<Rightarrow> (string, string) gomap \<Rightarrow> bool" where
  "settles L ref data \<longleftrightarrow> (\<forall>e st. gm_get (kx_Data e) = gm_get data \<longrightarrow>
     (\<exists>data'. dataFor L ref (Some e) st = Some (Inr data', st) \<and> gm_get data' = gm_get data))"

lemma opaque_settles:
  assumes "dataFor L ref existing st = Some (Inr data, st')" "st_Type ref = ''opaque''"
  shows "settles L ref data \<and> sst_kube st' = sst_kube st \<and> sst_secrets st' = sst_secrets st"
proof -
  have keys: "keysFor ref = map fst (st_Data ref)" using assms(2) by (simp add: keysFor_def)
  have d: "data = seedData existing (st_Data ref) (keysFor ref)" "st' = st"
    using assms by (simp_all add: dataFor_def Let_def sm_simple_Some)
  have "gm_get (st_Data ref) k \<noteq> None" if "k \<in> set (keysFor ref)" for k
    using that unfolding gm_has_iff [symmetric] by (simp add: keys gm_has_def)
  then have "settled (st_Data ref) (keysFor ref) data" unfolding d
    by (intro seed_settled) (fastforce simp: seedData_get seedStep_def split: option.splits)
  then show ?thesis using assms(2) d(2) settled_seed by (auto simp: settles_def dataFor_def Let_def sm_simple_Some)
qed

lemma token_settles:
  assumes "dataFor L ref existing st = Some (Inr data, st')" "st_Type ref = ''token''"
  shows "settles L ref data \<and> sst_kube st' = sst_kube st \<and> sst_secrets st' = sst_secrets st"
proof -
  have keys: "keysFor ref = [''token'']" using assms(2) by (simp add: keysFor_def)
  let ?seed = "seedData existing (st_Data ref) (keysFor ref)"
  let ?chars = "sl_ToString L (gm_get (st_Params ref) ''characters'')" and ?n = "sl_ToNumber L (gm_get (st_Params ref) ''length'')"
  show ?thesis
  proof (cases "gm_get_or [] ?seed ''token'' = []")
    case False
    then have d: "data = ?seed" "st' = st" using assms by (simp_all add: dataFor_def Let_def sm_simple_Some)
    have "settled (st_Data ref) (keysFor ref) data" unfolding d
      by (rule seed_settled) (use False in \<open>auto simp: keys gm_get_or_def split: option.splits\<close>)
    then have again: "gm_get (seedData (Some e) (st_Data ref) (keysFor ref)) = gm_get data" if "gm_get (kx_Data e) = gm_get data" for e
      using that by (rule settled_seed)
    then have "gm_get_or [] (seedData (Some e) (st_Data ref) (keysFor ref)) ''token'' \<noteq> []" if "gm_get (kx_Data e) = gm_get data" for e
      using that False by (simp add: gm_get_or_def d)
    with again show ?thesis using assms(2) d(2) by (simp add: settles_def dataFor_def Let_def sm_simple_Some)
  next
    case True
    then obtain n v where n: "?n = Inr n" and g: "generate L ?chars n st = Some (Inr v, st')" and d: "data = gm_set ?seed ''token'' v"
      using assms by (auto simp: dataFor_def Let_def sm_bind_Some sm_simple_Some Inr_map_sum)
    from g have n0: "\<not> n < 0" and g: "drawLoop L ?chars (nat n) st = Some (Inr v, st')"
      by (auto simp: generate_def sm_simple_Some split: if_splits)
    note drawn = drawLoop_text [OF g]
    have "gm_get_or [] (st_Data ref) ''token'' = []"
      using True by (auto simp: gm_get_or_def seedData_get keys seedStep_def split: option.splits if_splits)
    then have "settled (st_Data ref) (keysFor ref) data" unfolding d
      by (intro settled_set) (auto simp: keys seedData_get)
    then have again: "gm_get (seedData (Some e) (st_Data ref) (keysFor ref)) = gm_get data" if "gm_get (kx_Data e) = gm_get data" for e
      using that by (rule settled_seed)
    then have tok: "gm_get_or [] (seedData (Some e) (st_Data ref) (keysFor ref)) ''token'' = v" if "gm_get (kx_Data e) = gm_get data" for e
      using that by (simp add: gm_get_or_def d gm_get_set)
    show ?thesis
    proof (cases "v = []")
      case False
      then show ?thesis using assms(2) drawn again tok by (simp add: settles_def dataFor_def Let_def sm_simple_Some)
    next
      case True
      with drawn n0 have z: "n = 0" by simp
      have "dataFor L ref (Some e) st2 = Some (Inr (gm_set (seedData (Some e) (st_Data ref) (keysFor ref)) ''token'' []), st2)"
        if "gm_get (kx_Data e) = gm_get data" for e st2
        using assms(2) n tok [OF that] by (simp add: True z dataFor_def Let_def sm_bind_Some sm_simple_Some generate_def)
      moreover have "gm_get (gm_set (seedData (Some e) (st_Data ref) (keysFor ref)) ''token'' []) = gm_get data"
        if "gm_get (kx_Data e) = gm_get data" for e
        using again [OF that] by (auto simp: fun_eq_iff gm_get_set d True)
      ultimately show ?thesis using drawn by (simp add: settles_def)
    qed
  qed
qed

lemma basic_settles:
  assumes "dataFor L ref existing st = Some (Inr data, st')" "st_Type ref = ''basic''"
  shows "settles L ref data \<and> sst_kube st' = sst_kube st \<and> sst_secrets st' = sst_secrets st"
proof -
  have keys: "keysFor ref = [''username'', ''password'']" using assms(2) by (simp add: keysFor_def)
  let ?seed = "seedData existing (st_Data ref) (keysFor ref)"
  obtain d1 s1 where u: "basicKey L 8 ''username'' ?seed st = Some (Inr d1, s1)" and p: "basicKey L 16 ''password'' d1 s1 = Some (Inr data, st')"
    using assms by (auto simp: dataFor_def Let_def sm_bind_Some)
  have u': "gm_get_or [] d1 ''username'' \<noteq> [] \<and> (\<forall>k. (k = ''username'' \<longrightarrow> gm_get_or [] ?seed k = []) \<or> gm_get d1 k = gm_get ?seed k) \<and>
      (\<forall>k. k \<noteq> ''username'' \<longrightarrow> gm_get d1 k = gm_get ?seed k) \<and> sst_kube s1 = sst_kube st \<and> sst_secrets s1 = sst_secrets st"
    using u by (cases rule: basicKey_text) (auto simp: gm_get_or_def gm_get_set)
  have p': "gm_get_or [] data ''password'' \<noteq> [] \<and> (gm_get_or [] d1 ''password'' = [] \<or> gm_get data ''password'' = gm_get d1 ''password'') \<and>
      (\<forall>k. k \<noteq> ''password'' \<longrightarrow> gm_get data k = gm_get d1 k) \<and> sst_kube st' = sst_kube s1 \<and> sst_secrets st' = sst_secrets s1"
    using p by (cases rule: basicKey_text) (auto simp: gm_get_or_def gm_get_set)
  have both: "gm_get_or [] data ''username'' \<noteq> []" "gm_get_or [] data ''password'' \<noteq> []"
    using u' p' by (auto simp: gm_get_or_def)
  have "settled (st_Data ref) (keysFor ref) data"
    unfolding settled_def keys
  proof (intro allI)
    fix k
    show "if k \<in> set [''username'', ''password''] then \<exists>x. gm_get data k = Some x \<and> (\<forall>v. gm_get (st_Data ref) k = Some v \<longrightarrow> v \<noteq> [] \<longrightarrow> x = v)
      else gm_get data k = None"
    proof (cases "k \<in> set [''username'', ''password'']")
      case True
      then obtain x where x: "gm_get data k = Some x" using both by (auto simp: gm_get_or_def split: option.splits)
      have "x = v" if "gm_get (st_Data ref) k = Some v" "v \<noteq> []" for v
      proof -
        have "gm_get ?seed k = Some v" using True that by (auto simp: keys seedData_get seedStep_def)
        then show ?thesis using u' p' x True that(2) by (auto simp: gm_get_or_def)
      qed
      with x True show ?thesis by auto
    next
      case False
      then have "gm_get ?seed k = None" by (simp add: keys seedData_get)
      then show ?thesis using False u' p' by auto
    qed
  qed
  then have again: "gm_get (seedData (Some e) (st_Data ref) (keysFor ref)) = gm_get data" if "gm_get (kx_Data e) = gm_get data" for e
    using that by (rule settled_seed)
  then have "dataFor L ref (Some e) st2 = Some (Inr (seedData (Some e) (st_Data ref) (keysFor ref)), st2)" if "gm_get (kx_Data e) = gm_get data" for e st2
    using assms(2) both again [OF that] by (simp add: dataFor_def Let_def sm_bind_Some sm_simple_Some basicKey_def gm_get_or_def)
  then show ?thesis using again u' p' by (simp add: settles_def)
qed

lemma dataFor_settles:
  assumes "dataFor L ref existing st = Some (Inr data, st')" "st_Type ref \<in> set ownTypes"
  shows "settles L ref data" "sst_kube st' = sst_kube st" "sst_secrets st' = sst_secrets st"
  using assms opaque_settles [OF assms(1)] basic_settles [OF assms(1)] token_settles [OF assms(1)] by (auto simp: ownTypes_def)

lemma sort_key_map: "(\<And>x. x \<in> set xs \<Longrightarrow> f (g x) = f x) \<Longrightarrow> sort_key f (map g xs) = map g (sort_key f xs)"
proof (induction xs)
  case (Cons x xs)
  have "insort_key f (g x) (map g ys) = map g (insort_key f x ys)" if "\<forall>y \<in> set ys. f (g y) = f y" for ys
    using that Cons.prems by (induction ys) auto
  moreover have "\<forall>y \<in> set (sort_key f xs). f (g y) = f y" using Cons.prems by simp
  ultimately show ?case using Cons by simp
qed simp

lemma filter_map_same: "(\<And>x. x \<in> set xs \<Longrightarrow> P (g x) = P x) \<Longrightarrow> filter P (map g xs) = map g (filter P xs)"
  by (induction xs) auto

lemma gm_set_map: "gm_ok m \<Longrightarrow> gm_has m k \<Longrightarrow> gm_set m k v = map (\<lambda>(k', v'). if k' = k then (k, v) else (k', v')) m"
proof (induction m)
  case (Cons p m)
  have "gm_set m k v = m" if "False" using that by simp
  show ?case
  proof (cases "fst p = k")
    case True
    then have "k \<notin> fst ` set m" using Cons.prems(1) by (auto simp: gm_ok_def)
    then have "map (\<lambda>(k', v'). if k' = k then (k, v) else (k', v')) m = m" by (intro map_idI) force
    then show ?thesis using True by (cases p) (simp add: gm_set_def)
  next
    case False
    then show ?thesis using Cons by (cases p) (simp add: gm_set_def gm_ok_def gm_has_def)
  qed
qed (simp add: gm_has_def)

lemma labelled_replaced:
  assumes "kube_ok k" "e \<in> set (labelledSecrets app n k)" "kube_key new = kube_key e"
    and "om_Namespace (kx_Meta new) = om_Namespace (app_Meta app)" "\<forall>(key, v) \<in> set (acornLabelsForSecret n app). gm_get (om_Labels (kx_Meta new)) key = Some v"
  shows "labelledSecrets app n (k\<lparr>ku_secrets := gm_set (ku_secrets k) (kube_key new) new\<rparr>) =
    map (\<lambda>s. if kube_key s = kube_key e then new else s) (labelledSecrets app n k)"
proof -
  let ?P = "\<lambda>s. om_Namespace (kx_Meta s) = om_Namespace (app_Meta app) \<and>
         list_all (\<lambda>(key, v). gm_get (om_Labels (kx_Meta s)) key = Some v) (acornLabelsForSecret n app)"
  let ?g = "\<lambda>s. if kube_key s = kube_key e then new else s"
  have e: "?P e" "(kube_key e, e) \<in> set (ku_secrets k)" using assms(1,2) by (auto simp: labelledSecrets_def kube_ok_def)
  have new: "?P new" using assms(4,5) by (auto simp: list_all_iff)
  have same: "s = e" if "(key, s) \<in> set (ku_secrets k)" "kube_key s = kube_key e" for key s
    using that e(2) assms(1) by (auto simp: kube_ok_def gm_ok_def dest: eq_key_imp_eq_value)
  have "map snd (gm_set (ku_secrets k) (kube_key e) new) = map ?g (map snd (ku_secrets k))"
    using assms(1) e(2) by (subst gm_set_map) (force simp: kube_ok_def gm_has_def)+
  moreover have "?P (?g s) = ?P s" if "s \<in> set (map snd (ku_secrets k))" for s
  proof (cases "kube_key s = kube_key e")
    case True
    then have "s = e" using that same by auto
    with e(1) new True show ?thesis by (simp only: if_True simp_thms)
  qed simp
  then have "filter ?P (map ?g (map snd (ku_secrets k))) = map ?g (filter ?P (map snd (ku_secrets k)))"
    by (rule filter_map_same)
  ultimately show ?thesis unfolding labelledSecrets_def by (simp add: assms(3))
qed

lemma getAppSecret_replaced:
  assumes "getAppSecret L app n k = Inr e" "kube_ok k" "kube_key new = kube_key e" "om_UID (kx_Meta new) = om_UID (kx_Meta e)"
    and "om_Namespace (kx_Meta new) = om_Namespace (app_Meta app)" "\<forall>(key, v) \<in> set (acornLabelsForSecret n app). gm_get (om_Labels (kx_Meta new)) key = Some v"
  shows "getAppSecret L app n (k\<lparr>ku_secrets := gm_set (ku_secrets k) (kube_key new) new\<rparr>) = Inr new"
proof -
  let ?f = "om_UID \<circ> kx_Meta" and ?g = "\<lambda>s. if kube_key s = kube_key e then new else s"
  from assms(1) obtain r where r: "sort_key ?f (labelledSecrets app n k) = e # r" and nofault: "sl_faults L (CallListSecrets (om_Namespace (app_Meta app))) = None"
    unfolding getAppSecret_def by (auto split: option.splits list.splits)
  have mem: "e \<in> set (labelledSecrets app n k)" using r by (metis list.set_intros(1) set_sort)
  have "?f (?g s) = ?f s" if "s \<in> set (labelledSecrets app n k)" for s
  proof -
    have "(kube_key s, s) \<in> set (ku_secrets k)" "(kube_key e, e) \<in> set (ku_secrets k)"
      using that mem assms(2) by (auto simp: labelledSecrets_def kube_ok_def)
    then show ?thesis using assms(2,4) by (auto simp: kube_ok_def gm_ok_def dest: eq_key_imp_eq_value)
  qed
  then have "sort_key ?f (labelledSecrets app n (k\<lparr>ku_secrets := gm_set (ku_secrets k) (kube_key new) new\<rparr>)) = map ?g (e # r)"
    unfolding labelled_replaced [OF assms(2) mem assms(3,5,6)] r [symmetric] by (rule sort_key_map)
  then show ?thesis by (simp add: getAppSecret_def nofault)
qed

lemma getAppSecret_created:
  assumes "getAppSecret L app n k = Inl (SecretMissing m)" "sl_faults L (CallListSecrets (om_Namespace (app_Meta app))) = None" 
    and "\<not> gm_has (ku_secrets k) (kube_key new)"
    and "om_Namespace (kx_Meta new) = om_Namespace (app_Meta app)" "\<forall>(key, v) \<in> set (acornLabelsForSecret n app). gm_get (om_Labels (kx_Meta new)) key = Some v"
  shows "getAppSecret L app n (k\<lparr>ku_secrets := gm_set (ku_secrets k) (kube_key new) new\<rparr>) = Inr new"
proof -
  have "sort_key (om_UID \<circ> kx_Meta) (labelledSecrets app n k) = []"
    using assms(1,2) unfolding getAppSecret_def by (auto split: list.splits)
  then have none: "labelledSecrets app n k = []" by (metis set_empty set_sort)
  have "labelledSecrets app n (k\<lparr>ku_secrets := gm_set (ku_secrets k) (kube_key new) new\<rparr>) = [new]"
    using none assms(3-5) by (simp add: labelledSecrets_def gm_set_new gm_has_def list_all_iff)
  then show ?thesis by (simp add: getAppSecret_def assms(2))
qed

text \<open>After a write the secret that was sent is the one that is found, with the data, labels and annotations that were sent.\<close>

lemma writeSecret_found:
  assumes "writeSecret L n existing secret st = Some (Inr (sent, e), st')" "completes L" "kube_ok (sst_kube st)"
    and "secret = newSecretFor L n app ref ty data"
    and "getAppSecret L app n (sst_kube st) = (case existing of None \<Rightarrow> Inl (SecretMissing m) | Some e \<Rightarrow> Inr e)"
    and "sl_faults L (CallListSecrets (om_Namespace (app_Meta app))) = None"
  shows "getAppSecret L app n (sst_kube st') = Inr e \<and> gm_get (kx_Data e) = gm_get data \<and>
    gm_get (om_Labels (kx_Meta e)) = gm_get (labelsForSecret L n app ref) \<and>
    gm_get (om_Annotations (kx_Meta e)) = gm_get (annotationsForSecret n app ref) \<and> sst_secrets st' = sst_secrets st"
proof (cases existing)
  case None
  let ?c = "sl_complete L (sst_kube st) (n @ ''-'') secret"
  have c: "om_Namespace (kx_Meta ?c) = om_Namespace (app_Meta app)" "om_Labels (kx_Meta ?c) = labelsForSecret L n app ref"
    "om_Annotations (kx_Meta ?c) = annotationsForSecret n app ref" "kx_Data ?c = data" "\<not> gm_has (ku_secrets (sst_kube st)) (kube_key ?c)"
    using assms(2,4) by (simp_all add: completes_def Let_def newSecretFor_def)
  have run: "e = ?c" "st' = st\<lparr>sst_kube := (sst_kube st)\<lparr>ku_secrets := gm_set (ku_secrets (sst_kube st)) (kube_key ?c) ?c\<rparr>\<rparr>"
    using assms(1) None by (auto simp: writeSecret_def Let_def sm_Some kube_createSecret_def split: option.splits if_splits)
  have "getAppSecret L app n (sst_kube st') = Inr e"
    unfolding run using assms(5,6) None c acornLabels_get by (auto intro!: getAppSecret_created)
  then show ?thesis using c run by simp
next
  case (Some x)
  have x: "getAppSecret L app n (sst_kube st) = Inr x" using assms(5) Some by simp
  note found = getAppSecret_found [OF x]
  let ?new = "x\<lparr>kx_Data := kx_Data secret, kx_Meta := (kx_Meta x)\<lparr>om_Annotations := om_Annotations (kx_Meta secret), om_Labels := om_Labels (kx_Meta secret)\<rparr>\<rparr>"
  have "(e = x \<and> st' = st \<and> gm_equal (kx_Data x) (kx_Data secret) \<and> gm_equal (om_Labels (kx_Meta x)) (om_Labels (kx_Meta secret)) \<and>
       gm_equal (om_Annotations (kx_Meta x)) (om_Annotations (kx_Meta secret))) \<or>
    (e = ?new \<and> st' = st\<lparr>sst_kube := (sst_kube st)\<lparr>ku_secrets := gm_set (ku_secrets (sst_kube st)) (kube_key ?new) ?new\<rparr>\<rparr>)"
    using assms(1) Some by (auto simp: writeSecret_def Let_def sm_Some kube_updateSecret_def split: option.splits if_splits)
  then show ?thesis
  proof (elim disjE conjE)
    assume run: "e = ?new" "st' = st\<lparr>sst_kube := (sst_kube st)\<lparr>ku_secrets := gm_set (ku_secrets (sst_kube st)) (kube_key ?new) ?new\<rparr>\<rparr>"
    have new: "om_Namespace (kx_Meta ?new) = om_Namespace (app_Meta app)" "om_Labels (kx_Meta ?new) = labelsForSecret L n app ref"
      "kube_key ?new = kube_key x" "om_UID (kx_Meta ?new) = om_UID (kx_Meta x)" using found(2) assms(4) by (simp_all add: kube_key_def newSecretFor_def)
    have "getAppSecret L app n (sst_kube st') = Inr e"
      unfolding run by (simp, rule getAppSecret_replaced [OF x assms(3) new(3,4,1)]) (use new(2) acornLabels_get in auto)
    then show ?thesis using run assms(4) by (simp add: newSecretFor_def)
  qed (use x assms(4) in \<open>simp add: gm_equal_iff newSecretFor_def\<close>)
qed

lemma updateOrCreate_Inr:
  assumes "updateOrCreate L n existing secret st = Some (Inr s, st')"
  shows "\<exists>sent e d. writeSecret L n existing secret st = Some (Inr (sent, e), st') \<and>
    DecryptNamespacedDataMap (sl_nacl L) (sl_faults L) (sst_kube st') (kx_Data e) (om_Namespace (kx_Meta e)) = Inr d \<and> s = e\<lparr>kx_Data := d\<rparr>"
  using assms by (auto simp: updateOrCreate_def sm_bind_Some sm_simple_Some decrypting_def Inr_map_sum)

text \<open>C29: The secrets of an app settle: once an opaque, basic or token secret was generated, getting it again, in a later pass that has found no
  secret yet, gives the same secret and changes nothing: nothing is written to the cluster and no random text is drawn.\<close>

theorem generated_secret_settles:
  assumes laws: "completes L" "kube_ok (sst_kube st)"
    and first: "GetOrCreateSecret L app n st = Some (Inr (Some s), st1)" "gm_get (sst_secrets st) n = None"
    and plain: "secretReferenceFor app n = None" "gm_get (as_Secrets (is_AppSpec (app_Status app))) n = Some ref" "st_Type ref \<in> set ownTypes"
    and again: "sst_kube st2 = sst_kube st1" "gm_get (sst_secrets st2) n = None"
  shows "GetOrCreateSecret L app n st2 = Some (Inr (Some s), st2\<lparr>sst_secrets := gm_set (sst_secrets st2) n (Some s)\<rparr>)"
proof -
  let ?rec = "GetOrCreateSecret L app" and ?ty = "typeFor ref"
  let ?ex = "\<lambda>found. case found of Inl _ \<Rightarrow> None | Inr s \<Rightarrow> Some s"
  have body: "GetOrCreateSecret L app n st = sm_bind (generateSecret ?rec L app n) (sm_remember n) st" if "gm_get (sst_secrets st) n = None" for st
    using that plain(1) by (simp add: GetOrCreateSecret.simps [of L app n st] getOrCreateBody_def)
  have gen: "generateSecret ?rec L app n st = sm_bind (dataFor L ref (?ex found)) (\<lambda>data.
      sm_bind (updateOrCreate L n (?ex found) (newSecretFor L n app ref ?ty data)) (\<lambda>s. sm_return (Some s))) st"
    if "getAppSecret L app n (sst_kube st) = found" "\<And>e. found \<noteq> Inl (SecretForeign e)" for found st
    using that plain(2,3) by (auto simp: generateSecret_def sm_bind_def generateOfType_own_types Let_def split: sum.splits secret_error.splits)
  let ?found = "getAppSecret L app n (sst_kube st)"
  have nf: "?found = Inl err \<Longrightarrow> err = SecretMissing n \<or> (\<exists>e. err = SecretForeign e)" for err
    unfolding getAppSecret_def by (auto split: option.splits list.splits)
  obtain s0 where g: "generateSecret ?rec L app n st = Some (Inr (Some s), s0)" and st1: "st1 = s0\<lparr>sst_secrets := gm_set (sst_secrets s0) n (Some s)\<rparr>"
    using first(1) unfolding body [OF first(2)] by (auto simp: sm_bind_Some sm_remember_def)
  have foreign: "?found \<noteq> Inl (SecretForeign e)" for e
  proof
    assume "?found = Inl (SecretForeign e)"
    with g show False by (simp add: generateSecret_def sm_bind_def sm_result_def)
  qed
  obtain data sd where d: "dataFor L ref (?ex ?found) st = Some (Inr data, sd)"
    and u: "updateOrCreate L n (?ex ?found) (newSecretFor L n app ref ?ty data) sd = Some (Inr s, s0)"
    using g unfolding gen [OF refl foreign] by (auto simp: sm_bind_Some sm_simple_Some)
  note settle = dataFor_settles [OF d plain(3)]
  obtain sent e plaindata where w: "writeSecret L n (?ex ?found) (newSecretFor L n app ref ?ty data) sd = Some (Inr (sent, e), s0)"
    and dec: "DecryptNamespacedDataMap (sl_nacl L) (sl_faults L) (sst_kube s0) (kx_Data e) (om_Namespace (kx_Meta e)) = Inr plaindata" "s = e\<lparr>kx_Data := plaindata\<rparr>"
    using updateOrCreate_Inr [OF u] by blast
  have nofault: "sl_faults L (CallListSecrets (om_Namespace (app_Meta app))) = None"
    using foreign unfolding getAppSecret_def by (cases "sl_faults L (CallListSecrets (om_Namespace (app_Meta app)))") auto
  have "?found = (case ?ex ?found of None \<Rightarrow> Inl (SecretMissing n) | Some e \<Rightarrow> Inr e)"
    using nf foreign by (cases ?found) auto
  from writeSecret_found [OF w laws(1) _ refl _ nofault, of n] this laws(2) settle(2)
  have found: "getAppSecret L app n (sst_kube s0) = Inr e" "gm_get (kx_Data e) = gm_get data"
    "gm_get (om_Labels (kx_Meta e)) = gm_get (labelsForSecret L n app ref)" "gm_get (om_Annotations (kx_Meta e)) = gm_get (annotationsForSecret n app ref)"
    by auto
  have kube: "sst_kube st2 = sst_kube s0" using again(1) st1 by simp
  from settle(1) found(2) obtain data2 where d2: "dataFor L ref (Some e) st2 = Some (Inr data2, st2)" "gm_get data2 = gm_get data"
    unfolding settles_def by blast
  have "writeSecret L n (Some e) (newSecretFor L n app ref ?ty data2) st2 = Some (Inr (newSecretFor L n app ref ?ty data2, e), st2)"
    using found d2(2) by (simp add: writeSecret_def gm_equal_iff newSecretFor_def sm_simple_Some)
  then have "updateOrCreate L n (Some e) (newSecretFor L n app ref ?ty data2) st2 = Some (Inr s, st2)"
    using dec kube by (simp add: updateOrCreate_def sm_bind_Some sm_simple_Some decrypting_def)
  then have "generateSecret ?rec L app n st2 = Some (Inr (Some s), st2)"
    using d2(1) found(1) kube by (subst gen [of st2 "Inr e"]) (simp_all add: sm_bind_Some sm_simple_Some)
  then show ?thesis
    unfolding body [OF again(2)] by (simp add: sm_bind_Some sm_remember_def)
qed

subsection \<open>Templates that lead to other secrets\<close>

definition sm_total :: "('e, 'a) secret_m \<Rightarrow> bool" where
  "sm_total m \<longleftrightarrow> (\<forall>st. m st \<noteq> None)"

lemma sm_total_simps [simp]: "sm_total (sm_return a)" "sm_total (sm_result r)" "sm_total (sm_kube f)" "sm_total (sm_write g)"
  by (auto simp: sm_total_def sm_return_def sm_result_def sm_kube_def sm_write_def split: sum.split)

lemma sm_total_bind: "sm_total m \<Longrightarrow> (\<And>a. sm_total (k a)) \<Longrightarrow> sm_total (sm_bind m k)"
  by (auto simp: sm_total_def sm_bind_def bind_eq_None_conv split: sum.splits prod.splits)

lemma sm_total_try: "sm_total m \<Longrightarrow> (\<And>a. sm_total (k a)) \<Longrightarrow> sm_total (sm_try m k)"
  by (auto simp: sm_total_def sm_try_def bind_eq_None_conv split: prod.splits)

lemma drawLoop_total [simp]: "sm_total (drawLoop L chars n)"
proof (induction n)
  case (Suc n)
  have "sm_total (\<lambda>st. Some (map_sum SecretForeign id (sl_rand L (sst_draw st) (length chars)), st\<lparr>sst_draw := Suc (sst_draw st)\<rparr>))"
    by (simp add: sm_total_def)
  with Suc show ?case by (auto intro!: sm_total_bind)
qed simp

lemma updateOrCreate_total [simp]: "sm_total (updateOrCreate L n existing secret)"
proof -
  have "sm_total (writeSecret L n existing secret)"
  proof (cases existing)
    case None
    have w: "sm_bind (sm_write f) (\<lambda>_. sm_return x) st \<noteq> None" for f x st
      by (auto simp: sm_bind_def sm_write_def sm_return_def split: sum.split)
    show ?thesis unfolding sm_total_def None writeSecret_def Let_def option.case by (intro allI w)
  qed (auto simp: writeSecret_def Let_def intro!: sm_total_bind)
  then show ?thesis unfolding updateOrCreate_def by (auto intro!: sm_total_bind)
qed

lemma basicKey_total [simp]: "sm_total (basicKey L n key data)"
  unfolding basicKey_def GenerateRandomSecret_def by (auto intro!: sm_total_try split: sum.split)

lemma templateLoop_total:
  assumes "\<And>name key. SecretKey name key \<in> set segs \<Longrightarrow> sm_total (rec name)"
  shows "sm_total (templateLoop rec segs)"
  using assms
proof (induction segs)
  case (Cons seg segs)
  have IH: "sm_total (templateLoop rec segs)" using Cons by auto
  show ?case
  proof (cases seg)
    case (SecretKey name key)
    have "sm_total (case r of Inl e \<Rightarrow> sm_return (f e) | Inr None \<Rightarrow> sm_result m | Inr (Some s) \<Rightarrow> sm_return (g s))" for r :: "'x + 'y option" and f m g
      by (cases r rule: sum.exhaust; simp split: option.split)
    moreover have "sm_total (rec name)" using Cons.prems SecretKey by auto
    ultimately have "sm_total (templateKey rec name key)"
      unfolding templateKey_def Let_def by (intro sm_total_try)
    with IH show ?thesis by (auto simp: SecretKey intro!: sm_total_bind)
  qed (use IH in \<open>auto intro!: sm_total_bind\<close>)
qed simp

definition interpolates :: "('e, 'f, 'q, 'r, 'i) secret_lib \<Rightarrow> bool" where
  "interpolates L \<longleftrightarrow> (\<forall>k app s. replaceText (sl_interp L k) app s \<noteq> None)"

text \<open>The services of the cluster do not refer to each other in a circle.\<close>

definition no_circles :: "('e, 'f, 'q, 'r, 'i) secret_lib \<Rightarrow> bool" where
  "no_circles L \<longleftrightarrow> (\<forall>k. wf {(y, x). refers (il_refs (sl_interp L k)) x y})"

lemma Lookup_Secret_total: "no_circles L \<Longrightarrow> Lookup_Secret (il_refs (sl_interp L k)) ns parts \<noteq> None"
  using lookupSecret_returns [of "il_refs (sl_interp L k)" "str_join ''.'' parts" ns parts None] getService_returns [of "il_refs (sl_interp L k)"]
  by (auto simp: no_circles_def Lookup_Secret_def getService_def)

text \<open>The secrets a template names.\<close>

definition templateNames :: "string \<Rightarrow> string set" where
  "templateNames template = {name. \<exists>key. SecretKey name key \<in> set (segments match_secret template)}"

lemma templateData_total:
  assumes "interpolates L" "\<And>key t name. (key, t) \<in> set entries \<Longrightarrow> name \<in> templateNames t \<Longrightarrow> sm_total (rec name)"
  shows "sm_total (templateData rec L app tag entries data)"
  using assms(2)
proof (induction entries arbitrary: data)
  case (Cons e entries)
  obtain key t where e: "e = (key, t)" by fastforce
  have "sm_total (templateLoop rec (segments match_secret t))"
    by (rule templateLoop_total) (use Cons.prems e in \<open>auto simp: templateNames_def\<close>)
  moreover have "sm_total (\<lambda>st. Option.bind (replaceText (sl_interp L (sst_kube st)) app x) (\<lambda>r. Some (interp_failure r, st)))" for x
    using assms(1) by (auto simp: sm_total_def interpolates_def bind_eq_None_conv)
  ultimately have "sm_total (templateValue rec L app tag t)"
    unfolding templateValue_def by (intro sm_total_bind) (auto split: prod.split)
  then show ?case using Cons by (auto simp: e intro!: sm_total_bind)
qed simp

lemma seedData_ok: "gm_ok (seedData existing from keys)"
proof -
  have step: "gm_ok m \<Longrightarrow> gm_ok (fold (\<lambda>key to. case gm_get from key of None \<Rightarrow> to | Some v \<Rightarrow> if v \<noteq> [] \<or> gm_get_or [] to key = [] then gm_set to key v else to) ks m)" for m ks
    by (induction ks arbitrary: m) (auto split: option.split)
  have "gm_ok m \<Longrightarrow> gm_ok (fold (\<lambda>key to. gm_set to key (f key)) ks m)" for m ks and f :: "string \<Rightarrow> string"
    by (induction ks arbitrary: m) auto
  then show ?thesis unfolding seedData_def by (intro step) (auto split: option.split)
qed

lemma seedData_values:
  assumes "(key, t) \<in> set (seedData existing from keys)" "keys = map fst (typed_Sorted from)" "\<forall>(k, v) \<in> set from. v \<noteq> []"
  shows "(key, t) \<in> set from"
proof -
  have g: "gm_get (seedData existing from keys) key = Some t" using assms(1) by (simp add: gm_get_in_set seedData_ok)
  then have "key \<in> set keys" by (auto simp: seedData_get split: if_splits)
  then have "key \<in> fst ` set from" using assms(2) by simp
  then obtain v where v: "gm_get from key = Some v" by (metis gm_has_def gm_has_iff option.exhaust)
  then have m: "(key, v) \<in> set from" by (simp add: gm_get_def map_of_SomeD)
  with assms(3) have "v \<noteq> []" by blast
  with g v m \<open>key \<in> set keys\<close> show ?thesis by (simp add: seedData_get seedStep_def)
qed


text \<open>A template that names its own secret is rendered for ever.\<close>

definition self_template :: string where "self_template = ''${secret://t/k}''"

lemma segments_self: "segments match_secret self_template = [SecretKey ''t'' ''k'']"
  by code_simp

lemma self_template_recurses:
  assumes "secretReferenceFor app ''t'' = None" "gm_get (as_Secrets (is_AppSpec (app_Status app))) ''t'' = Some ref"
    and "st_Type ref = ''template''" "st_Data ref = [(''k'', self_template)]"
    and "GetRuntimePullableImageReference (sl_registry L) (om_Namespace (app_Meta app)) (ig_ID (is_AppImage (app_Status app))) = Inr tag"
    and "sl_faults L (CallListSecrets (om_Namespace (app_Meta app))) = None" "gm_get (sst_secrets st) ''t'' = None"
  shows "GetOrCreateSecret L app ''t'' st = None"
proof -
  have "GetOrCreateSecret K a n st = Some y \<Longrightarrow> K = L \<Longrightarrow> a = app \<Longrightarrow> n = ''t'' \<Longrightarrow> gm_get (sst_secrets st) ''t'' = None \<Longrightarrow> False" for K a n st y
  proof (induction K a n st y rule: GetOrCreateSecret.raw_induct [rotated, consumes 1])
    case (1 f K a n st y)
    have none: "f L app ''t'' st = None" using 1(1) [of L app "''t''" st] 1(6) by (cases "f L app ''t'' st") blast+
    have data: "seedData existing [(''k'', self_template)] [''k''] = [(''k'', self_template)]" for existing
      by (cases existing) (simp_all add: seedData_def self_template_def gm_set_def gm_get_def)
    have "templateValue (f L app) L app tag self_template st = None"
      by (simp add: templateValue_def segments_self templateKey_def sm_bind_def sm_try_def none)
    then have "generateTemplate (f L app) L app ''t'' ref existing st = None" for existing
      using assms(4,5) by (simp add: generateTemplate_def data typed_Sorted_def sm_bind_def sm_result_def Let_def)
    then have "generateOfType (f L app) L app ''t'' ref found st = None" for found
      using assms(3) by (simp add: generateOfType_def sm_bind_def Let_def)
    moreover have "getAppSecret L app ''t'' k \<noteq> Inl (SecretForeign e)" for k e
      unfolding getAppSecret_def using assms(6) by (auto split: list.split)
    ultimately have "generateSecret (f L app) L app ''t'' st = None"
      using assms(2) by (auto simp: generateSecret_def sm_bind_def split: sum.split secret_error.split)
    then show False using 1 assms(1) by (simp add: getOrCreateBody_def sm_bind_def)
  qed
  then show ?thesis using assms(7) by (cases "GetOrCreateSecret L app ''t'' st") blast+
qed

subsection \<open>The pass over the secrets of an app\<close>

text \<open>C28: A pass over the secrets of an app, whether it succeeds or fails, changes no secret of the cluster but those that were made for the app: every
  other secret is as it was, nothing is removed, and what is new or different carries the labels of the app.\<close>

theorem secrets_pass_own:
  assumes "CreateSecrets L app st = Some (r, st')" "completes L" "kube_ok (sst_kube st)"
  shows "kube_ok (sst_kube st') \<and> ku_namespaces (sst_kube st') = ku_namespaces (sst_kube st) \<and>
    (\<forall>key s. gm_get (ku_secrets (sst_kube st)) key = Some s \<and> \<not> made_for app s \<longrightarrow> gm_get (ku_secrets (sst_kube st')) key = Some s) \<and>
    (\<forall>key s. gm_get (ku_secrets (sst_kube st')) key = Some s \<and> gm_get (ku_secrets (sst_kube st)) key \<noteq> Some s \<longrightarrow> made_for app s) \<and>
    (\<forall>key. gm_has (ku_secrets (sst_kube st)) key \<longrightarrow> gm_has (ku_secrets (sst_kube st')) key)"
proof -
  have "own_step app {} (sst_kube st) (sst_kube st')"
    using createLoop_own [OF _ assms(2)] assms(1) unfolding CreateSecrets_def by fastforce
  then have ok: "kube_ok (sst_kube st')" and own: "own_changes app (sst_kube st) (sst_kube st')"
    using assms(3) by (simp_all add: own_step_def)
  have "gm_has (ku_secrets (sst_kube st)) key \<Longrightarrow> gm_has (ku_secrets (sst_kube st')) key" for key
    using own unfolding own_changes_def gm_has_iff by (metis option.distinct(1))
  with ok own show ?thesis unfolding own_changes_def by (metis option.inject)
qed

definition secretNoted :: "('f, 'q) AppInstance \<Rightarrow> string \<Rightarrow> bool" where
  "secretNoted app n \<longleftrightarrow> (\<exists>c. gm_get (at_Secrets (is_AppStatus (app_Status app))) n = Some c \<and> (us_LookupErrors c \<noteq> [] \<or> us_LookupTransitioning c \<noteq> []))"

definition secretFailed :: "('f, 'q) AppInstance \<Rightarrow> string \<Rightarrow> bool" where
  "secretFailed app n \<longleftrightarrow> (\<exists>c. gm_get (at_Secrets (is_AppStatus (app_Status app))) n = Some c \<and> us_LookupErrors c \<noteq> [])"

text \<open>The API says that something without a name is missing: nothing is noted.\<close>

definition nameless :: "('e, 'f, 'q, 'r, 'i) secret_lib \<Rightarrow> 'e secret_error \<Rightarrow> bool" where
  "nameless L err \<longleftrightarrow> apiStatus (sl_apiStatus L) err = Some (StatusNotFound (Some []))"

lemma noteError_reported:
  assumes "noteError L n err app = (app', b)"
  shows "secretNoted app m \<Longrightarrow> secretNoted app' m" "secretFailed app m \<Longrightarrow> secretFailed app' m" "\<not> nameless L err \<Longrightarrow> secretNoted app' n" "\<not> b \<Longrightarrow> secretFailed app' n"
  using assms
  by (auto simp: noteError_def addSecretTransitioning_def addSecretError_def modifySecretStatus_def secretNoted_def secretFailed_def nameless_def gm_get_set gm_get_or_def
      split: option.splits api_status.splits if_splits)

definition objectFor :: "('f, 'q) AppInstance \<Rightarrow> KSecret \<Rightarrow> string \<times> 'f Secret \<Rightarrow> bool" where
  "objectFor app ob entry \<longleftrightarrow> om_Name (kx_Meta ob) = fst entry \<and> om_Namespace (kx_Meta ob) = is_Namespace (app_Status app) \<and>
     gm_get (om_Annotations (kx_Meta ob)) AcornAppGeneration = Some (itoa (om_Generation (app_Meta app)))"

lemma createLoop_complete:
  assumes "createLoop L app entries objs st = Some (Inr (app', objs'), st')"
  shows "\<exists>made. objs' = objs @ made \<and>
    (\<exists>sub. list_all2 (objectFor app) made sub \<and> subseq sub entries) \<and> (\<forall>m. secretNoted app m \<longrightarrow> secretNoted app' m) \<and> (\<forall>m. secretFailed app m \<longrightarrow> secretFailed app' m) \<and>
    ((\<exists>n \<in> fst ` set entries. secretFailed app' n) \<or>
     (\<forall>n \<in> fst ` set entries. n \<in> (om_Name \<circ> kx_Meta) ` set made \<or> secretNoted app' n \<or>
        (\<exists>a st1 err st2. GetOrCreateSecret L a n st1 = Some (Inl err, st2) \<and> nameless L err)))"
  using assms
proof (induction entries arbitrary: app objs st)
  case Nil
  then show ?case by auto
next
  case (Cons e entries)
  obtain n def where e: "e = (n, def)" by fastforce
  from Cons(2)[unfolded e] show ?case
  proof (cases rule: createLoop_Cons_Some)
    case (noted err st1 app1)
    obtain made sub where IH: "objs' = objs @ made" "list_all2 (objectFor app1) made sub" "subseq sub entries"
      "\<forall>m. secretNoted app1 m \<longrightarrow> secretNoted app' m" "\<forall>m. secretFailed app1 m \<longrightarrow> secretFailed app' m"
      "(\<exists>n \<in> fst ` set entries. secretFailed app' n) \<or> (\<forall>n \<in> fst ` set entries. n \<in> (om_Name \<circ> kx_Meta) ` set made \<or> secretNoted app' n \<or>
        (\<exists>a st1 err st2. GetOrCreateSecret L a n st1 = Some (Inl err, st2) \<and> nameless L err))"
      using Cons.IH [OF noted(4)] by blast
    have "objectFor app1 = objectFor app"
      using noteError_unchanged [OF noted(3)] by (intro ext) (simp add: objectFor_def)
    moreover have "secretNoted app' n \<or> (\<exists>a st1 err st2. GetOrCreateSecret L a n st1 = Some (Inl err, st2) \<and> nameless L err)"
      using noteError_reported(3) [OF noted(3)] IH(4) noted(1) by blast
    ultimately show ?thesis
      using IH noteError_reported(1,2) [OF noted(3)] unfolding e
      by (intro exI [of _ made] conjI exI [of _ sub]) (auto intro: subseq_Cons')
  next
    case (stopped err app1)
    then show ?thesis using noteError_reported [OF stopped(3)] unfolding e by (intro exI [of _ "[]"] conjI exI [of _ "[]"]) auto
  next
    case (made s st1)
    let ?o = "appSecretObject app n def s"
    obtain rest sub where IH: "objs' = (objs @ [?o]) @ rest" "list_all2 (objectFor app) rest sub" "subseq sub entries"
      "\<forall>m. secretNoted app m \<longrightarrow> secretNoted app' m" "\<forall>m. secretFailed app m \<longrightarrow> secretFailed app' m"
      "(\<exists>n \<in> fst ` set entries. secretFailed app' n) \<or> (\<forall>n \<in> fst ` set entries. n \<in> (om_Name \<circ> kx_Meta) ` set rest \<or> secretNoted app' n \<or>
        (\<exists>a st1 err st2. GetOrCreateSecret L a n st1 = Some (Inl err, st2) \<and> nameless L err))"
      using Cons.IH [OF made(2)] by blast
    have o: "objectFor app ?o e" "om_Name (kx_Meta ?o) = n" by (simp_all add: e objectFor_def appSecretObject_def Let_def gm_get_set)
    show ?thesis
    proof (intro exI [of _ "?o # rest"] conjI exI [of _ "e # sub"])
      show "(\<exists>n \<in> fst ` set (e # entries). secretFailed app' n) \<or> (\<forall>n \<in> fst ` set (e # entries). n \<in> (om_Name \<circ> kx_Meta) ` set (?o # rest) \<or> secretNoted app' n \<or>
        (\<exists>a st1 err st2. GetOrCreateSecret L a n st1 = Some (Inl err, st2) \<and> nameless L err))"
        using IH(6) o(2) unfolding e by auto
    qed (use IH o in auto)
  qed auto
qed

lemma list_all2_in_set1: "list_all2 P xs ys \<Longrightarrow> x \<in> set xs \<Longrightarrow> \<exists>y \<in> set ys. P x y"
  by (induction rule: list_all2_induct) auto

lemma subseq_set_subset: "subseq xs ys \<Longrightarrow> set xs \<subseteq> set ys"
  by (metis subseq_conv_nths set_nths_subset)

lemma subseq_imp_distinct: "subseq xs ys \<Longrightarrow> distinct ys \<Longrightarrow> distinct xs"
  by (metis subseq_conv_nths distinct_nthsI)

lemma distinct_secretsOrdered:
  assumes "gm_ok (as_Secrets (is_AppSpec (app_Status app)))"
  shows "distinct (map fst (secretsOrdered app))"
proof -
  let ?late = "\<lambda>(_ :: string, s). st_Type s = ''generated'' \<or> st_Type s = ''template''" and ?m = "as_Secrets (is_AppSpec (app_Status app))"
  have part: "mset (filter (Not \<circ> P) xs @ filter P xs) = mset xs" for P and xs :: "'x list" by (induction xs) auto
  have "mset (secretsOrdered app) = mset ?m"
    unfolding secretsOrdered_def Let_def part typed_Sorted_def by simp
  then have "mset (map fst (secretsOrdered app)) = mset (map fst ?m)" by simp
  then show ?thesis using assms by (metis gm_ok_def mset_eq_imp_distinct_iff)
qed

lemma set_secretsOrdered: "set (secretsOrdered app) = set (as_Secrets (is_AppSpec (app_Status app)))"
  by (auto simp: secretsOrdered_def Let_def)


subsection \<open>Examples\<close>

declare GetOrCreateSecret.simps [code]

definition secret_sample_lib :: "(unit, unit, int, string, string) secret_lib" where
  "secret_sample_lib = \<lparr>sl_interp = (\<lambda>_. interp_sample_lib\<lparr>il_Replace := (\<lambda>s _ _ _. Some (Inr s))\<rparr>), sl_nacl = sample_nacl, sl_faults = (\<lambda>_. None),
     sl_registry = sample_registry\<lparr>rr_ParseReference := (\<lambda>s. Inr s)\<rparr>, sl_contextDigest = (\<lambda>_ s. s), sl_Images = [], sl_ToString = (\<lambda>_. ''ab''), sl_ToNumber = (\<lambda>_. Inr 3), sl_merr = hd,
     sl_complete = (\<lambda>k pre s. s\<lparr>kx_Meta := (kx_Meta s)\<lparr>om_Name := pre @ concat (map (snd \<circ> fst) (ku_secrets k)) @ ''x''\<rparr>\<rparr>),
     sl_rand = (\<lambda>draw bound. if draw < bound then Inr draw else Inr 0), sl_safeConcatName = id, sl_SafeHashConcatName = concat,
     sl_unmarshalSecret = (\<lambda>_. Inl ()), sl_appSpec = (\<lambda>_. Inl ()), sl_apiStatus = (\<lambda>_. None), sl_errorText = (\<lambda>_. ''error'')\<rparr>"

definition secret_sample_app :: "(unit, int) AppInstance" where
  "secret_sample_app = zero_AppInstance\<lparr>app_Meta := zero_ObjectMeta\<lparr>om_Name := ''app'', om_Namespace := ''p''\<rparr>,
     app_Status := (app_Status zero_AppInstance)\<lparr>is_Namespace := ''app-ns'', is_AppSpec := zero_AppSpec\<lparr>as_Secrets :=
       [(''key'', zero_Secret\<lparr>st_Type := ''token''\<rparr>), (''conf'', zero_Secret\<lparr>st_Type := ''template'', st_Data := [(''file'', ''k=${secret://key/token}'')]\<rparr>)]\<rparr>\<rparr>\<rparr>"

definition secret_sample_state :: secret_state where
  "secret_sample_state = \<lparr>sst_kube = \<lparr>ku_namespaces = [], ku_secrets = [((''p'', ''mine''), zero_KSecret\<lparr>kx_Meta := zero_ObjectMeta\<lparr>om_Name := ''mine'', om_Namespace := ''p''\<rparr>\<rparr>)]\<rparr>,
     sst_draw = 0, sst_secrets = []\<rparr>"

lemma secret_sample_completes: "completes secret_sample_lib"
proof -
  have "length n \<le> length (concat (map (snd \<circ> fst) m))" if "((ns, n), s) \<in> set m" for ns n s and m :: "(string \<times> string, KSecret) gomap"
    using that by (induction m) auto
  then have "((ns, pre @ concat (map (snd \<circ> fst) m) @ ''x''), s) \<notin> set m" for ns pre s and m :: "(string \<times> string, KSecret) gomap"
    by fastforce
  then show ?thesis by (auto simp: completes_def Let_def secret_sample_lib_def gm_has_def kube_key_def)
qed

lemma secret_sample_kube_ok: "kube_ok (sst_kube secret_sample_state)"
  by (simp add: kube_ok_def secret_sample_state_def gm_ok_def kube_key_def)

lemma secret_sample_first:
  "map_option (\<lambda>(r, st). (map_sum id (map_option kx_Data) r, sst_draw st)) (GetOrCreateSecret secret_sample_lib secret_sample_app ''key'' secret_sample_state) =
    Some (Inr (Some [(''token'', ''aba'')]), 3)"
  by code_simp

theorem generated_secret_settles_witness:
  "\<exists>s st1. GetOrCreateSecret secret_sample_lib secret_sample_app ''key'' secret_sample_state = Some (Inr (Some s), st1) \<and> kx_Data s = [(''token'', ''aba'')] \<and>
     GetOrCreateSecret secret_sample_lib secret_sample_app ''key'' (st1\<lparr>sst_secrets := []\<rparr>) = Some (Inr (Some s), st1\<lparr>sst_secrets := [(''key'', Some s)]\<rparr>)"
proof -
  obtain s st1 where first: "GetOrCreateSecret secret_sample_lib secret_sample_app ''key'' secret_sample_state = Some (Inr (Some s), st1)" "kx_Data s = [(''token'', ''aba'')]"
  proof -
    obtain x st1 where "GetOrCreateSecret secret_sample_lib secret_sample_app ''key'' secret_sample_state = Some (Inr x, st1)" "Some [(''token'', ''aba'')] = map_option kx_Data x"
      using secret_sample_first by (auto simp: map_sum_id_Inr)
    then show thesis using that by (cases x) auto
  qed
  have plain: "secretReferenceFor secret_sample_app ''key'' = None" "gm_get (sst_secrets secret_sample_state) ''key'' = None"
    "gm_get (as_Secrets (is_AppSpec (app_Status secret_sample_app))) ''key'' = Some (zero_Secret\<lparr>st_Type := ''token''\<rparr>)"
    "st_Type (zero_Secret\<lparr>st_Type := ''token''\<rparr> :: unit Secret) \<in> set ownTypes"
    by code_simp+
  have "sst_kube (st1\<lparr>sst_secrets := []\<rparr>) = sst_kube st1" "gm_get (sst_secrets (st1\<lparr>sst_secrets := []\<rparr>)) ''key'' = None" by simp_all
  from generated_secret_settles [OF secret_sample_completes secret_sample_kube_ok first(1) plain(2,1,3,4) this] first
  show ?thesis by (auto simp: gm_set_def)
qed


lemma secret_sample_pass:
  "map_option (\<lambda>(r, st). map_sum id (map (om_Name \<circ> kx_Meta) \<circ> snd) r) (CreateSecrets secret_sample_lib secret_sample_app secret_sample_state) =
    Some (Inr [''key'', ''conf''])"
  by code_simp

theorem secrets_pass_own_witness:
  "\<exists>r st'. CreateSecrets secret_sample_lib secret_sample_app secret_sample_state = Some (r, st') \<and>
     gm_get (ku_secrets (sst_kube st')) (''p'', ''mine'') = gm_get (ku_secrets (sst_kube secret_sample_state)) (''p'', ''mine'')"
proof -
  obtain r st' where run: "CreateSecrets secret_sample_lib secret_sample_app secret_sample_state = Some (r, st')"
    using secret_sample_pass by auto
  let ?s = "zero_KSecret\<lparr>kx_Meta := zero_ObjectMeta\<lparr>om_Name := ''mine'', om_Namespace := ''p''\<rparr>\<rparr>"
  have g: "gm_get (ku_secrets (sst_kube secret_sample_state)) (''p'', ''mine'') = Some ?s"
    by (simp add: secret_sample_state_def gm_get_def)
  have "\<not> made_for secret_sample_app ?s"
    by (auto simp: made_for_def acornLabelsForSecret_def zero_ObjectMeta_def)
  with secrets_pass_own [OF run secret_sample_completes secret_sample_kube_ok] g
  have "gm_get (ku_secrets (sst_kube st')) (''p'', ''mine'') = Some ?s" by blast
  with run g show ?thesis by simp
qed


subsection \<open>What goes wrong\<close>

text \<open>An unknown type gives no secret and no error when there is one with its labels, and the controller dereferences it.\<close>

lemma unknown_type_panics:
  assumes "gm_get (sst_secrets st) n = None" "secretReferenceFor app n = None"
    and "gm_get (as_Secrets (is_AppSpec (app_Status app))) n = Some ref" "st_Type ref \<notin> {''opaque'', ''basic'', ''generated'', ''token'', ''template''}"
    and "getAppSecret L app n (sst_kube st) = Inr s"
  shows "\<exists>st'. createLoop L app ((n, ref) # entries) objs st = Some (Inl SecretPanic, st')"
  using assms
  by (simp add: GetOrCreateSecret.simps [of L app n st] getOrCreateBody_def generateSecret_def sm_bind_def generateOfType_def sm_return_def sm_remember_def)

text \<open>The random source fails: the empty text is cut before the error is looked at.\<close>

lemma basic_random_failure_panics:
  assumes "gm_get_or [] data key = []" "sl_rand L (sst_draw st) (length secretPool) = Inl e"
  shows "\<exists>st'. basicKey L n key data st = Some (Inl SecretPanic, st')"
proof -
  have "secretPool \<noteq> []" by (simp add: secretPool_def)
  then have "drawLoop L secretPool (Suc 53) st = Some (Inl (SecretForeign e), st\<lparr>sst_draw := Suc (sst_draw st)\<rparr>)"
    unfolding drawLoop.simps using assms(2) by (simp add: sm_bind_def)
  then show ?thesis
    using assms(1) by (simp add: basicKey_def GenerateRandomSecret_def sm_try_def sm_result_def)
qed

end
