(* ===== verification/InstallConfig.thy ===== *)
theory InstallConfig
  imports Encryption Labels
begin

text \<open>
  The configuration of an installation: \<open>pkg/config/config.go\<close> and the profiles of \<open>pkg/profiles\<close>. It is kept as JSON in a config map of the system
  namespace, a new configuration is merged into the stored one, and what is read is completed from a profile, from the nodes and from the secret of
  the DNS service. JSON is a parameter (\<open>config_lib\<close>); the objects of the cluster are a state, and every call of the API may fail. The lemmas show
  that a completed configuration has no nil pointers, which values win, and that what an installation validates is what the cluster then has.
\<close>

subsection \<open>The configuration and its profiles\<close>

type_synonym int64 = "64 word"

record Config =
  cf_IngressClassName :: "string option"
  cf_ClusterDomains :: "string list"
  cf_LetsEncrypt :: "string option"
  cf_LetsEncryptEmail :: string
  cf_LetsEncryptTOSAgree :: "bool option"
  cf_SetPodSecurityEnforceProfile :: "bool option"
  cf_PodSecurityEnforceProfile :: string
  cf_HttpEndpointPattern :: "string option"
  cf_InternalClusterDomain :: string
  cf_AcornDNS :: "string option"
  cf_AcornDNSEndpoint :: "string option"
  cf_AutoUpgradeInterval :: "string option"
  cf_RecordBuilds :: "bool option"
  cf_PublishBuilders :: "bool option"
  cf_BuilderPerProject :: "bool option"
  cf_InternalRegistryPrefix :: "string option"
  cf_IgnoreUserLabelsAndAnnotations :: "bool option"
  cf_AllowUserLabels :: "string list"
  cf_AllowUserAnnotations :: "string list"
  cf_AllowUserMetadataNamespaces :: "string list"
  cf_WorkloadMemoryDefault :: "int64 option"
  cf_WorkloadMemoryMaximum :: "int64 option"
  cf_UseCustomCABundle :: "bool option"
  cf_PropagateProjectAnnotations :: "string list"
  cf_PropagateProjectLabels :: "string list"
  cf_ManageVolumeClasses :: "bool option"
  cf_NetworkPolicies :: "bool option"
  cf_IngressControllerNamespace :: "string option"
  cf_AllowTrafficFromNamespace :: "string list"
  cf_ServiceLBAnnotations :: "string list"
  cf_AWSIdentityProviderARN :: "string option"
  cf_EventTTL :: "string option"
  cf_Features :: "(string, bool) gomap option"
  cf_CertManagerIssuer :: "string option"
  cf_Profile :: "string option"
  cf_ControllerMemory :: "string option"
  cf_ControllerCPU :: "string option"
  cf_APIServerMemory :: "string option"
  cf_APIServerCPU :: "string option"
  cf_BuildkitdMemory :: "string option"
  cf_BuildkitdCPU :: "string option"
  cf_BuildkitdServiceMemory :: "string option"
  cf_BuildkitdServiceCPU :: "string option"
  cf_RegistryMemory :: "string option"
  cf_RegistryCPU :: "string option"

definition zero_Config :: Config where
  "zero_Config = \<lparr>
     cf_IngressClassName = None, cf_ClusterDomains = [], cf_LetsEncrypt = None, cf_LetsEncryptEmail = [], cf_LetsEncryptTOSAgree = None,
     cf_SetPodSecurityEnforceProfile = None, cf_PodSecurityEnforceProfile = [], cf_HttpEndpointPattern = None, cf_InternalClusterDomain = [],
     cf_AcornDNS = None, cf_AcornDNSEndpoint = None, cf_AutoUpgradeInterval = None, cf_RecordBuilds = None, cf_PublishBuilders = None,
     cf_BuilderPerProject = None, cf_InternalRegistryPrefix = None, cf_IgnoreUserLabelsAndAnnotations = None, cf_AllowUserLabels = [],
     cf_AllowUserAnnotations = [], cf_AllowUserMetadataNamespaces = [], cf_WorkloadMemoryDefault = None, cf_WorkloadMemoryMaximum = None,
     cf_UseCustomCABundle = None, cf_PropagateProjectAnnotations = [], cf_PropagateProjectLabels = [], cf_ManageVolumeClasses = None,
     cf_NetworkPolicies = None, cf_IngressControllerNamespace = None, cf_AllowTrafficFromNamespace = [], cf_ServiceLBAnnotations = [],
     cf_AWSIdentityProviderARN = None, cf_EventTTL = None, cf_Features = None, cf_CertManagerIssuer = None, cf_Profile = None,
     cf_ControllerMemory = None, cf_ControllerCPU = None, cf_APIServerMemory = None, cf_APIServerCPU = None, cf_BuildkitdMemory = None,
     cf_BuildkitdCPU = None, cf_BuildkitdServiceMemory = None, cf_BuildkitdServiceCPU = None, cf_RegistryMemory = None, cf_RegistryCPU = None\<rparr>"

definition ClusterDomainDefault :: string where "ClusterDomainDefault = ''.local.oss-acorn.io''"
definition InternalClusterDomainDefault :: string where "InternalClusterDomainDefault = ''svc.cluster.local''"
definition AcornDNSEndpointDefault :: string where "AcornDNSEndpointDefault = ''https://oss-dns.acrn.io/v1''"
definition AcornDNSStateDefault :: string where "AcornDNSStateDefault = ''auto''"
definition LetsEncryptOptionDefault :: string where "LetsEncryptOptionDefault = ''disabled''"
definition AutoUpgradeIntervalDefault :: string where "AutoUpgradeIntervalDefault = ''1m''"
definition HttpEndpointPatternDefault :: string where
  "HttpEndpointPatternDefault = ''{{hashConcat 8 .Container .App .Namespace | truncate}}.{{.ClusterDomain}}''"
definition ImageAllowRulesFeature :: string where "ImageAllowRulesFeature = ''image-allow-rules''"
definition FeatureDefaults :: "(string, bool) gomap" where "FeatureDefaults = [(ImageAllowRulesFeature, False)]"

text \<open>The fields which the profile does not name are zero.\<close>

definition defaultProfile :: Config where
  "defaultProfile = \<lparr>
     cf_IngressClassName = Some [], cf_ClusterDomains = [], cf_LetsEncrypt = Some LetsEncryptOptionDefault, cf_LetsEncryptEmail = [],
     cf_LetsEncryptTOSAgree = Some False, cf_SetPodSecurityEnforceProfile = Some True, cf_PodSecurityEnforceProfile = ''baseline'',
     cf_HttpEndpointPattern = Some HttpEndpointPatternDefault, cf_InternalClusterDomain = InternalClusterDomainDefault,
     cf_AcornDNS = Some AcornDNSStateDefault, cf_AcornDNSEndpoint = Some AcornDNSEndpointDefault,
     cf_AutoUpgradeInterval = Some AutoUpgradeIntervalDefault, cf_RecordBuilds = Some False, cf_PublishBuilders = Some False,
     cf_BuilderPerProject = Some False, cf_InternalRegistryPrefix = Some [], cf_IgnoreUserLabelsAndAnnotations = Some False, cf_AllowUserLabels = [],
     cf_AllowUserAnnotations = [], cf_AllowUserMetadataNamespaces = [], cf_WorkloadMemoryDefault = Some 0, cf_WorkloadMemoryMaximum = Some 0,
     cf_UseCustomCABundle = Some False, cf_PropagateProjectAnnotations = [], cf_PropagateProjectLabels = [], cf_ManageVolumeClasses = Some False,
     cf_NetworkPolicies = Some False, cf_IngressControllerNamespace = Some [], cf_AllowTrafficFromNamespace = [], cf_ServiceLBAnnotations = [],
     cf_AWSIdentityProviderARN = Some [], cf_EventTTL = Some [], cf_Features = Some FeatureDefaults, cf_CertManagerIssuer = Some [],
     cf_Profile = Some [], cf_ControllerMemory = Some [], cf_ControllerCPU = Some [], cf_APIServerMemory = Some [], cf_APIServerCPU = Some [],
     cf_BuildkitdMemory = Some [], cf_BuildkitdCPU = Some [], cf_BuildkitdServiceMemory = Some [], cf_BuildkitdServiceCPU = Some [],
     cf_RegistryMemory = Some [], cf_RegistryCPU = Some []\<rparr>"

definition productionProfile :: Config where
  "productionProfile = defaultProfile\<lparr>
     cf_AcornDNS := Some ''enabled'', cf_AllowTrafficFromNamespace := [''prometheus-operator''],
     cf_AWSIdentityProviderARN := Some ''{{ .Values.awsIdentityProviderArn | quote }}'', cf_BuilderPerProject := Some True,
     cf_CertManagerIssuer := Some ''letsencrypt-prod'', cf_IngressControllerNamespace := Some ''traefik'', cf_LetsEncrypt := Some ''enabled'',
     cf_ManageVolumeClasses := Some True, cf_NetworkPolicies := Some True, cf_PublishBuilders := Some True,
     cf_RegistryMemory := Some ''128Mi:512Mi'', cf_RegistryCPU := Some ''200m'', cf_BuildkitdMemory := Some ''256Mi:10Gi'',
     cf_BuildkitdCPU := Some ''800m'', cf_BuildkitdServiceMemory := Some ''128Mi:256Mi'', cf_BuildkitdServiceCPU := Some ''200m'',
     cf_ControllerMemory := Some ''256Mi'', cf_ControllerCPU := Some ''100m'', cf_APIServerMemory := Some ''256Mi'', cf_APIServerCPU := Some ''100m''\<rparr>"

definition profiles_Get :: "string option \<Rightarrow> Config" where
  "profiles_Get p = (case p of None \<Rightarrow> defaultProfile | Some prof \<Rightarrow> if prof = ''production'' \<or> prof = ''prod'' then productionProfile else defaultProfile)"

subsection \<open>Merging\<close>

text \<open>How a field of the new configuration is merged: a pointer, a text, a list whose empty first entry resets it, and a text that resets it.\<close>

definition mergePointer :: "'a option \<Rightarrow> 'a option \<Rightarrow> 'a option" where
  "mergePointer new old = (case new of None \<Rightarrow> old | Some _ \<Rightarrow> new)"

definition mergeText :: "string \<Rightarrow> string \<Rightarrow> string" where
  "mergeText new old = (if new \<noteq> [] then new else old)"

definition mergeList :: "string list \<Rightarrow> string list \<Rightarrow> string list" where
  "mergeList new old = (case new of [] \<Rightarrow> old | [] # _ \<Rightarrow> [] | _ \<Rightarrow> new)"

definition mergeNonEmpty :: "string option \<Rightarrow> string option \<Rightarrow> string option" where
  "mergeNonEmpty new old = (case new of None \<Rightarrow> old | Some s \<Rightarrow> if s = [] then None else new)"

text \<open>The loop writes the dots into the slice of the new configuration, which the merged one then shares.\<close>

definition dotted :: "string list \<Rightarrow> string list" where
  "dotted domains = (case domains of [] # _ \<Rightarrow> domains | _ \<Rightarrow> map (\<lambda>cd. if str_has_prefix cd ''.'' then cd else CHR ''.'' # cd) domains)"

definition mergeArgument :: "Config \<Rightarrow> Config" where
  "mergeArgument newConfig = newConfig\<lparr>cf_ClusterDomains := dotted (cf_ClusterDomains newConfig)\<rparr>"

definition mergeConfigs :: "Config \<Rightarrow> Config \<Rightarrow> Config" where
  "mergeConfigs oldConfig newConfig = oldConfig\<lparr>
     cf_IgnoreUserLabelsAndAnnotations := mergePointer (cf_IgnoreUserLabelsAndAnnotations newConfig) (cf_IgnoreUserLabelsAndAnnotations oldConfig),
     cf_ManageVolumeClasses := mergePointer (cf_ManageVolumeClasses newConfig) (cf_ManageVolumeClasses oldConfig),
     cf_Profile := mergePointer (cf_Profile newConfig) (cf_Profile oldConfig),
     cf_AllowUserAnnotations := mergeList (cf_AllowUserAnnotations newConfig) (cf_AllowUserAnnotations oldConfig),
     cf_AllowUserLabels := mergeList (cf_AllowUserLabels newConfig) (cf_AllowUserLabels oldConfig),
     cf_IngressClassName := mergeNonEmpty (cf_IngressClassName newConfig) (cf_IngressClassName oldConfig),
     cf_SetPodSecurityEnforceProfile := mergePointer (cf_SetPodSecurityEnforceProfile newConfig) (cf_SetPodSecurityEnforceProfile oldConfig),
     cf_PodSecurityEnforceProfile := mergeText (cf_PodSecurityEnforceProfile newConfig) (cf_PodSecurityEnforceProfile oldConfig),
     cf_InternalClusterDomain := mergeText (cf_InternalClusterDomain newConfig) (cf_InternalClusterDomain oldConfig),
     cf_ClusterDomains := mergeList (dotted (cf_ClusterDomains newConfig)) (cf_ClusterDomains oldConfig),
     cf_HttpEndpointPattern := mergePointer (cf_HttpEndpointPattern newConfig) (cf_HttpEndpointPattern oldConfig),
     cf_AcornDNS := mergePointer (cf_AcornDNS newConfig) (cf_AcornDNS oldConfig),
     cf_AcornDNSEndpoint := mergePointer (cf_AcornDNSEndpoint newConfig) (cf_AcornDNSEndpoint oldConfig),
     cf_LetsEncryptTOSAgree := mergePointer (cf_LetsEncryptTOSAgree newConfig) (cf_LetsEncryptTOSAgree oldConfig),
     cf_LetsEncrypt := mergePointer (cf_LetsEncrypt newConfig) (cf_LetsEncrypt oldConfig),
     cf_LetsEncryptEmail := mergeText (cf_LetsEncryptEmail newConfig) (cf_LetsEncryptEmail oldConfig),
     cf_AutoUpgradeInterval := mergePointer (cf_AutoUpgradeInterval newConfig) (cf_AutoUpgradeInterval oldConfig),
     cf_RecordBuilds := mergePointer (cf_RecordBuilds newConfig) (cf_RecordBuilds oldConfig),
     cf_PublishBuilders := mergePointer (cf_PublishBuilders newConfig) (cf_PublishBuilders oldConfig),
     cf_BuilderPerProject := mergePointer (cf_BuilderPerProject newConfig) (cf_BuilderPerProject oldConfig),
     cf_InternalRegistryPrefix := mergePointer (cf_InternalRegistryPrefix newConfig) (cf_InternalRegistryPrefix oldConfig),
     cf_WorkloadMemoryDefault := mergePointer (cf_WorkloadMemoryDefault newConfig) (cf_WorkloadMemoryDefault oldConfig),
     cf_WorkloadMemoryMaximum := mergePointer (cf_WorkloadMemoryMaximum newConfig) (cf_WorkloadMemoryMaximum oldConfig),
     cf_UseCustomCABundle := mergePointer (cf_UseCustomCABundle newConfig) (cf_UseCustomCABundle oldConfig),
     cf_NetworkPolicies := mergePointer (cf_NetworkPolicies newConfig) (cf_NetworkPolicies oldConfig),
     cf_IngressControllerNamespace := mergePointer (cf_IngressControllerNamespace newConfig) (cf_IngressControllerNamespace oldConfig),
     cf_AWSIdentityProviderARN := mergePointer (cf_AWSIdentityProviderARN newConfig) (cf_AWSIdentityProviderARN oldConfig),
     cf_EventTTL := mergePointer (cf_EventTTL newConfig) (cf_EventTTL oldConfig),
     cf_CertManagerIssuer := mergePointer (cf_CertManagerIssuer newConfig) (cf_CertManagerIssuer oldConfig),
     cf_Features := mergePointer (cf_Features newConfig) (cf_Features oldConfig),
     cf_PropagateProjectAnnotations := mergeList (cf_PropagateProjectAnnotations newConfig) (cf_PropagateProjectAnnotations oldConfig),
     cf_PropagateProjectLabels := mergeList (cf_PropagateProjectLabels newConfig) (cf_PropagateProjectLabels oldConfig),
     cf_AllowTrafficFromNamespace := mergeList (cf_AllowTrafficFromNamespace newConfig) (cf_AllowTrafficFromNamespace oldConfig),
     cf_ServiceLBAnnotations := mergeList (cf_ServiceLBAnnotations newConfig) (cf_ServiceLBAnnotations oldConfig),
     cf_RegistryMemory := mergePointer (cf_RegistryMemory newConfig) (cf_RegistryMemory oldConfig),
     cf_RegistryCPU := mergePointer (cf_RegistryCPU newConfig) (cf_RegistryCPU oldConfig),
     cf_BuildkitdMemory := mergePointer (cf_BuildkitdMemory newConfig) (cf_BuildkitdMemory oldConfig),
     cf_BuildkitdCPU := mergePointer (cf_BuildkitdCPU newConfig) (cf_BuildkitdCPU oldConfig),
     cf_BuildkitdServiceMemory := mergePointer (cf_BuildkitdServiceMemory newConfig) (cf_BuildkitdServiceMemory oldConfig),
     cf_BuildkitdServiceCPU := mergePointer (cf_BuildkitdServiceCPU newConfig) (cf_BuildkitdServiceCPU oldConfig),
     cf_ControllerMemory := mergePointer (cf_ControllerMemory newConfig) (cf_ControllerMemory oldConfig),
     cf_ControllerCPU := mergePointer (cf_ControllerCPU newConfig) (cf_ControllerCPU oldConfig),
     cf_APIServerMemory := mergePointer (cf_APIServerMemory newConfig) (cf_APIServerMemory oldConfig),
     cf_APIServerCPU := mergePointer (cf_APIServerCPU newConfig) (cf_APIServerCPU oldConfig)\<rparr>"

definition merge_config :: "Config option \<Rightarrow> Config option \<Rightarrow> Config" where
  "merge_config oldConfig newConfig =
     (let merged = (case oldConfig of None \<Rightarrow> zero_Config | Some c \<Rightarrow> c)
      in case newConfig of None \<Rightarrow> merged | Some new \<Rightarrow> mergeConfigs merged new)"

subsection \<open>The cluster\<close>

record config_node =
  cn_Name :: string
  cn_OSImage :: string
  cn_ProviderID :: string

record config_kube =
  ck_namespaces :: "string list"
  ck_configMaps :: "(string \<times> string, (string, string) gomap) gomap"
  ck_secrets :: "(string \<times> string, (string, string) gomap) gomap"
  ck_nodes :: "config_node list"

datatype config_call = GetConfigMap string string | CreateConfigMap string string | UpdateConfigMap string string | CreateNamespace string | GetDNSSecret | ListNodes

type_synonym 'e config_faults = "config_call \<Rightarrow> 'e option"

record 'e config_lib =
  cb_faults :: "'e config_faults"
  cb_isNoMatch :: "'e \<Rightarrow> bool"
  cb_marshal :: "Config \<Rightarrow> 'e + string"
  cb_unmarshal :: "string \<Rightarrow> 'e + Config"

datatype 'e config_error = ConfigKube "'e kube_error" | ConfigJSON 'e | NilPointer

definition ConfigName :: string where "ConfigName = ''acorn-config''"
definition DevConfigName :: string where "DevConfigName = ''acorn-config-dev''"
definition DNSSecretName :: string where "DNSSecretName = ''acorn-dns''"

definition calling :: "'e config_lib \<Rightarrow> config_call \<Rightarrow> 'e kube_error + 'a \<Rightarrow> 'e kube_error + 'a" where
  "calling L call r = (case cb_faults L call of Some e \<Rightarrow> Inl (ApiError e) | None \<Rightarrow> r)"

definition getConfigMap :: "'e config_lib \<Rightarrow> config_kube \<Rightarrow> string \<Rightarrow> 'e kube_error + (string, string) gomap" where
  "getConfigMap L k name = calling L (GetConfigMap system_Namespace name)
     (case gm_get (ck_configMaps k) (system_Namespace, name) of None \<Rightarrow> Inl (NotFoundError name) | Some data \<Rightarrow> Inr data)"

definition createConfigMap :: "'e config_lib \<Rightarrow> config_kube \<Rightarrow> string \<Rightarrow> (string, string) gomap \<Rightarrow> 'e kube_error + config_kube" where
  "createConfigMap L k name data = calling L (CreateConfigMap system_Namespace name)
     (if gm_has (ck_configMaps k) (system_Namespace, name) then Inl (AlreadyExists name)
      else Inr (k\<lparr>ck_configMaps := gm_set (ck_configMaps k) (system_Namespace, name) data\<rparr>))"

definition updateConfigMap :: "'e config_lib \<Rightarrow> config_kube \<Rightarrow> string \<Rightarrow> (string, string) gomap \<Rightarrow> 'e kube_error + config_kube" where
  "updateConfigMap L k name data = calling L (UpdateConfigMap system_Namespace name)
     (if \<not> gm_has (ck_configMaps k) (system_Namespace, name) then Inl (NotFoundError name)
      else Inr (k\<lparr>ck_configMaps := gm_set (ck_configMaps k) (system_Namespace, name) data\<rparr>))"

definition createNamespace :: "'e config_lib \<Rightarrow> config_kube \<Rightarrow> string \<Rightarrow> 'e kube_error + config_kube" where
  "createNamespace L k name = calling L (CreateNamespace name)
     (if name \<in> set (ck_namespaces k) then Inl (AlreadyExists name) else Inr (k\<lparr>ck_namespaces := name # ck_namespaces k\<rparr>))"

subsection \<open>Reading\<close>

definition unmarshal_config :: "'e config_lib \<Rightarrow> (string, string) gomap \<Rightarrow> 'e config_error + Config" where
  "unmarshal_config L data =
     (if gm_get_or [] data ''config'' = [] then Inr zero_Config else map_sum ConfigJSON id (cb_unmarshal L (gm_get_or [] data ''config'')))"

definition devConfig :: "'e config_lib \<Rightarrow> config_kube \<Rightarrow> Config \<Rightarrow> 'e config_error + Config" where
  "devConfig L k c =
     (case getConfigMap L k DevConfigName of
        Inl (NotFoundError _) \<Rightarrow> Inr c
      | Inl e \<Rightarrow> Inl (ConfigKube e)
      | Inr data \<Rightarrow> bind_err (unmarshal_config L data) (\<lambda>devCfg. Inr (merge_config (Some c) (Some devCfg))))"

definition useLocalWildcardDomain :: "'e config_lib \<Rightarrow> config_kube \<Rightarrow> 'e config_error + bool" where
  "useLocalWildcardDomain L k =
     (case calling L ListNodes (Inr (ck_nodes k)) of
        Inl (ApiError e) \<Rightarrow> if cb_isNoMatch L e then Inr False else Inl (ConfigKube (ApiError e))
      | Inl e \<Rightarrow> Inl (ConfigKube e)
      | Inr nodes \<Rightarrow>
          if (case nodes of [node] \<Rightarrow> str_contains (cn_Name node) ''rancher-desktop'' \<or> str_contains (cn_OSImage node) ''Rancher Desktop'' \<or>
                cn_Name node = ''docker-desktop'' \<or> str_contains (cn_Name node) ''minikube'' | _ \<Rightarrow> False) then Inr True
          else Inr (list_ex (\<lambda>node. str_has_prefix (cn_ProviderID node) ''k3s://k3d'') nodes))"

definition IsDockerDesktop :: "'e config_lib \<Rightarrow> config_kube \<Rightarrow> 'e config_error + bool" where
  "IsDockerDesktop L k = map_sum ConfigKube (\<lambda>nodes. case nodes of [node] \<Rightarrow> cn_Name node = ''docker-desktop'' | _ \<Rightarrow> False) (calling L ListNodes (Inr (ck_nodes k)))"

definition shouldLookupAcornDNSDomain :: "'e config_lib \<Rightarrow> config_kube \<Rightarrow> Config \<Rightarrow> 'e config_error + bool" where
  "shouldLookupAcornDNSDomain L k c =
     (case cf_AcornDNS c of
        None \<Rightarrow> Inl NilPointer
      | Some state \<Rightarrow>
          if EqualFold state ''enabled'' then Inr True
          else if \<not> EqualFold state ''auto'' then Inr False
          else if cf_ClusterDomains c \<noteq> [] then Inr False
          else bind_err (useLocalWildcardDomain L k) (\<lambda>useLocal. Inr (\<not> useLocal)))"

definition getDNSSecret :: "'e config_lib \<Rightarrow> config_kube \<Rightarrow> 'e config_error + (string, string) gomap" where
  "getDNSSecret L k =
     (case calling L GetDNSSecret (case gm_get (ck_secrets k) (system_Namespace, DNSSecretName) of None \<Rightarrow> Inl (NotFoundError DNSSecretName) | Some data \<Rightarrow> Inr data) of
        Inl (NotFoundError _) \<Rightarrow> Inr []
      | Inl e \<Rightarrow> Inl (ConfigKube e)
      | Inr data \<Rightarrow> Inr data)"

definition setClusterDomains :: "'e config_lib \<Rightarrow> config_kube \<Rightarrow> Config \<Rightarrow> 'e config_error + Config" where
  "setClusterDomains L k c =
     bind_err (shouldLookupAcornDNSDomain L k c) (\<lambda>lookup.
     bind_err (if \<not> lookup then Inr c
               else bind_err (getDNSSecret L k) (\<lambda>data.
                 let domain = gm_get_or [] data ''domain''
                 in Inr (if domain \<noteq> [] then c\<lparr>cf_ClusterDomains := cf_ClusterDomains c @ [domain]\<rparr> else c))) (\<lambda>c.
     case cf_AcornDNS c of
       None \<Rightarrow> Inl NilPointer
     | Some state \<Rightarrow> Inr (if cf_ClusterDomains c = [] \<and> \<not> EqualFold state ''disabled'' then c\<lparr>cf_ClusterDomains := [ClusterDomainDefault]\<rparr> else c)))"

text \<open>A text that is missing or empty is taken from the profile; the features of the configuration get the defaults they lack.\<close>

definition orText :: "string option \<Rightarrow> string option \<Rightarrow> string option" where
  "orText c profile = (if c = None \<or> c = Some [] then profile else c)"

definition completeFeatures :: "(string, bool) gomap option \<Rightarrow> (string, bool) gomap option \<Rightarrow> (string, bool) gomap option" where
  "completeFeatures profile features =
     (case features of
        None \<Rightarrow> profile
      | Some m \<Rightarrow> Some (foldl (\<lambda>m (k, v). if gm_has m k then m else gm_set m k v) m FeatureDefaults))"

definition completePodSecurity :: "Config \<Rightarrow> Config \<Rightarrow> 'e config_error + Config" where
  "completePodSecurity profile c =
     (let c = c\<lparr>cf_SetPodSecurityEnforceProfile := mergePointer (cf_SetPodSecurityEnforceProfile c) (cf_SetPodSecurityEnforceProfile profile)\<rparr>
      in if cf_PodSecurityEnforceProfile c \<noteq> [] then Inr c
         else case cf_SetPodSecurityEnforceProfile c of
             None \<Rightarrow> Inl NilPointer
           | Some enforce \<Rightarrow> Inr (if enforce then c\<lparr>cf_PodSecurityEnforceProfile := cf_PodSecurityEnforceProfile profile\<rparr> else c))"

definition completeRest :: "Config \<Rightarrow> Config \<Rightarrow> Config" where
  "completeRest profile c = c\<lparr>
     cf_InternalClusterDomain := mergeText (cf_InternalClusterDomain c) (cf_InternalClusterDomain profile),
     cf_LetsEncrypt := mergePointer (cf_LetsEncrypt c) (cf_LetsEncrypt profile),
     cf_LetsEncryptTOSAgree := mergePointer (cf_LetsEncryptTOSAgree c) (cf_LetsEncryptTOSAgree profile),
     cf_AutoUpgradeInterval := orText (cf_AutoUpgradeInterval c) (cf_AutoUpgradeInterval profile),
     cf_RecordBuilds := mergePointer (cf_RecordBuilds c) (cf_RecordBuilds profile),
     cf_PublishBuilders := mergePointer (cf_PublishBuilders c) (cf_PublishBuilders profile),
     cf_BuilderPerProject := mergePointer (cf_BuilderPerProject c) (cf_BuilderPerProject profile),
     cf_HttpEndpointPattern := orText (cf_HttpEndpointPattern c) (cf_HttpEndpointPattern profile),
     cf_WorkloadMemoryDefault := mergePointer (cf_WorkloadMemoryDefault c) (cf_WorkloadMemoryDefault profile),
     cf_WorkloadMemoryMaximum := mergePointer (cf_WorkloadMemoryMaximum c) (cf_WorkloadMemoryMaximum profile),
     cf_InternalRegistryPrefix := mergePointer (cf_InternalRegistryPrefix c) (cf_InternalRegistryPrefix profile),
     cf_IgnoreUserLabelsAndAnnotations := mergePointer (cf_IgnoreUserLabelsAndAnnotations c) (cf_IgnoreUserLabelsAndAnnotations profile),
     cf_ManageVolumeClasses := mergePointer (cf_ManageVolumeClasses c) (cf_ManageVolumeClasses profile),
     cf_UseCustomCABundle := mergePointer (cf_UseCustomCABundle c) (cf_UseCustomCABundle profile),
     cf_NetworkPolicies := mergePointer (cf_NetworkPolicies c) (cf_NetworkPolicies profile),
     cf_IngressControllerNamespace := mergePointer (cf_IngressControllerNamespace c) (cf_IngressControllerNamespace profile),
     cf_AWSIdentityProviderARN := mergePointer (cf_AWSIdentityProviderARN c) (cf_AWSIdentityProviderARN profile),
     cf_RegistryMemory := mergePointer (cf_RegistryMemory c) (cf_RegistryMemory profile),
     cf_RegistryCPU := mergePointer (cf_RegistryCPU c) (cf_RegistryCPU profile),
     cf_BuildkitdMemory := mergePointer (cf_BuildkitdMemory c) (cf_BuildkitdMemory profile),
     cf_BuildkitdCPU := mergePointer (cf_BuildkitdCPU c) (cf_BuildkitdCPU profile),
     cf_BuildkitdServiceMemory := mergePointer (cf_BuildkitdServiceMemory c) (cf_BuildkitdServiceMemory profile),
     cf_BuildkitdServiceCPU := mergePointer (cf_BuildkitdServiceCPU c) (cf_BuildkitdServiceCPU profile),
     cf_ControllerMemory := mergePointer (cf_ControllerMemory c) (cf_ControllerMemory profile),
     cf_ControllerCPU := mergePointer (cf_ControllerCPU c) (cf_ControllerCPU profile),
     cf_APIServerMemory := mergePointer (cf_APIServerMemory c) (cf_APIServerMemory profile),
     cf_APIServerCPU := mergePointer (cf_APIServerCPU c) (cf_APIServerCPU profile),
     cf_Features := completeFeatures (cf_Features profile) (cf_Features c),
     cf_CertManagerIssuer := mergePointer (cf_CertManagerIssuer c) (cf_CertManagerIssuer profile)\<rparr>"

definition complete_config :: "'e config_lib \<Rightarrow> config_kube \<Rightarrow> bool \<Rightarrow> Config \<Rightarrow> 'e config_error + Config" where
  "complete_config L k includeDev c0 =
     bind_err (if includeDev then devConfig L k c0 else Inr c0) (\<lambda>c.
       let profile = profiles_Get (cf_Profile c)
       in bind_err (completePodSecurity profile c) (\<lambda>c.
          bind_err (setClusterDomains L k (c\<lparr>cf_AcornDNS := mergePointer (cf_AcornDNS c) (cf_AcornDNS profile),
              cf_AcornDNSEndpoint := orText (cf_AcornDNSEndpoint c) (cf_AcornDNSEndpoint profile)\<rparr>)) (\<lambda>c.
          Inr (completeRest profile c))))"

definition config_Incomplete :: "'e config_lib \<Rightarrow> config_kube \<Rightarrow> 'e config_error + Config" where
  "config_Incomplete L k =
     (case getConfigMap L k ConfigName of
        Inl (NotFoundError _) \<Rightarrow> Inr zero_Config
      | Inl e \<Rightarrow> Inl (ConfigKube e)
      | Inr data \<Rightarrow> unmarshal_config L data)"

definition UnmarshalAndComplete :: "'e config_lib \<Rightarrow> config_kube \<Rightarrow> (string, string) gomap \<Rightarrow> 'e config_error + Config" where
  "UnmarshalAndComplete L k data = bind_err (unmarshal_config L data) (complete_config L k True)"

definition config_Get :: "'e config_lib \<Rightarrow> config_kube \<Rightarrow> 'e config_error + Config" where
  "config_Get L k = bind_err (config_Incomplete L k) (complete_config L k True)"

subsection \<open>Writing\<close>

definition Init :: "'e config_lib \<Rightarrow> config_kube \<Rightarrow> 'e config_error + config_kube" where
  "Init L k =
     (case getConfigMap L k ConfigName of
        Inl (NotFoundError _) \<Rightarrow> map_sum ConfigKube id (createConfigMap L k ConfigName [(''config'', ''{}'')])
      | Inl e \<Rightarrow> Inl (ConfigKube e)
      | Inr _ \<Rightarrow> Inr k)"

definition asConfigMap :: "'e config_lib \<Rightarrow> Config option \<Rightarrow> Config option \<Rightarrow> 'e config_error + (string, string) gomap" where
  "asConfigMap L existing cfg = bind_err (map_sum ConfigJSON id (cb_marshal L (merge_config existing cfg))) (\<lambda>configBytes. Inr [(''config'', configBytes)])"

definition AsConfigMap :: "'e config_lib \<Rightarrow> Config option \<Rightarrow> 'e config_error + (string, string) gomap" where
  "AsConfigMap L cfg = asConfigMap L None cfg"

definition ensureNamespace :: "'e config_lib \<Rightarrow> config_kube \<Rightarrow> 'e config_error + config_kube" where
  "ensureNamespace L k =
     (case createNamespace L k system_Namespace of
        Inr k \<Rightarrow> Inr k
      | Inl (AlreadyExists _) \<Rightarrow> Inr k
      | Inl (ApiError e) \<Rightarrow> if cb_isNoMatch L e then Inr k else Inl (ConfigKube (ApiError e))
      | Inl e \<Rightarrow> Inl (ConfigKube e))"

definition config_Set :: "'e config_lib \<Rightarrow> config_kube \<Rightarrow> Config option \<Rightarrow> 'e config_error + config_kube" where
  "config_Set L k0 cfg =
     bind_err (ensureNamespace L k0) (\<lambda>k.
     bind_err (config_Incomplete L k) (\<lambda>existing.
     bind_err (asConfigMap L (Some existing) cfg) (\<lambda>configMap.
     case updateConfigMap L k ConfigName configMap of
       Inl (NotFoundError _) \<Rightarrow> map_sum ConfigKube id (createConfigMap L k ConfigName configMap)
     | Inl e \<Rightarrow> Inl (ConfigKube e)
     | Inr k \<Rightarrow> Inr k)))"

text \<open>
  \<open>TestSetGet\<close> gives the completed configuration, and the configuration of the caller as it is afterwards: its domains have their dots, and its map of
  features, which the merged configuration shares, has the defaults.
\<close>

definition TestSetGet :: "'e config_lib \<Rightarrow> config_kube \<Rightarrow> Config \<Rightarrow> 'e config_error + Config \<times> Config" where
  "TestSetGet L k cfg =
     bind_err (config_Incomplete L k) (\<lambda>existing.
     bind_err (complete_config L k False (merge_config (Some existing) (Some cfg))) (\<lambda>newConfig.
     Inr (newConfig, (mergeArgument cfg)\<lparr>cf_Features := (case cf_Features cfg of None \<Rightarrow> None | Some m \<Rightarrow> completeFeatures None (Some m))\<rparr>)))"

subsection \<open>Lemmas\<close>

lemma mergePointer_simps [simp]:
  "mergePointer None p = p" "mergePointer (Some x) p = Some x" "mergePointer p None = p" "mergePointer p (mergePointer p q) = mergePointer p q"
  "mergePointer p q = None \<longleftrightarrow> p = None \<and> q = None"
  by (cases p; simp add: mergePointer_def)+

lemma mergeText_same [simp]: "mergeText s (mergeText s t) = mergeText s t"
  by (simp add: mergeText_def)

lemma mergeList_same [simp]: "mergeList l (mergeList l m) = mergeList l m"
  by (simp add: mergeList_def split: list.splits)

lemma mergeNonEmpty_same [simp]: "mergeNonEmpty s (mergeNonEmpty s t) = mergeNonEmpty s t"
  by (simp add: mergeNonEmpty_def split: option.splits)

lemma orText_set [simp]: "orText c (Some s) \<noteq> None"
  by (cases c) (auto simp: orText_def)

lemma orText_ex [simp]: "\<exists>y. orText c (Some s) = Some y"
  by (cases c) (auto simp: orText_def)

lemma dotted_head: "(\<exists>r. dotted l = [] # r) \<longleftrightarrow> (\<exists>r. l = [] # r)"
  by (auto simp: dotted_def split: list.splits if_splits)

lemma dotted_dotted [simp]: "dotted (dotted l) = dotted l"
proof (cases "\<exists>r. l = [] # r")
  case True
  then show ?thesis by (auto simp: dotted_def)
next
  case False
  define dot where "dot = (\<lambda>cd. if str_has_prefix cd ''.'' then cd else CHR ''.'' # cd)"
  have d: "dotted m = map dot m" if "\<not> (\<exists>r. m = [] # r)" for m
    using that by (auto simp: dotted_def dot_def split: list.splits)
  have "\<not> (\<exists>r. dotted l = [] # r)" using False dotted_head by blast
  then have "dotted (dotted l) = map dot (map dot l)" using d False by metis
  also have "\<dots> = map dot l" by (simp add: dot_def str_has_prefix_def)
  finally show ?thesis using d False by simp
qed

lemma completeFeatures_same [simp]: "completeFeatures p (completeFeatures q (Some m)) = completeFeatures q (Some m)"
  by (simp add: completeFeatures_def FeatureDefaults_def gm_has_set)

lemma completeFeatures_set: "\<exists>m'. completeFeatures q (Some m) = Some m'"
  by (simp add: completeFeatures_def)

lemma mergeConfigs_same: "mergeConfigs (mergeConfigs old new) new = mergeConfigs old new"
  by (simp add: mergeConfigs_def)

lemma mergeConfigs_metadataNamespaces [simp]: "cf_AllowUserMetadataNamespaces (mergeConfigs old new) = cf_AllowUserMetadataNamespaces old"
  by (simp add: mergeConfigs_def)

lemma profile_set:
  "profiles_Get p = defaultProfile \<or> profiles_Get p = productionProfile"
  by (simp add: profiles_Get_def split: option.splits)

lemma profile_pointers:
  assumes "P = profiles_Get p"
  shows "cf_SetPodSecurityEnforceProfile P = Some True" "cf_AcornDNS P \<noteq> None" "\<exists>s. cf_AcornDNSEndpoint P = Some s" "cf_LetsEncrypt P \<noteq> None"
    "cf_LetsEncryptTOSAgree P \<noteq> None" "\<exists>s. cf_AutoUpgradeInterval P = Some s" "cf_RecordBuilds P \<noteq> None" "cf_PublishBuilders P \<noteq> None" "cf_BuilderPerProject P \<noteq> None"
    "\<exists>s. cf_HttpEndpointPattern P = Some s" "cf_WorkloadMemoryDefault P \<noteq> None" "cf_WorkloadMemoryMaximum P \<noteq> None" "cf_InternalRegistryPrefix P \<noteq> None"
    "cf_IgnoreUserLabelsAndAnnotations P \<noteq> None" "cf_ManageVolumeClasses P \<noteq> None" "cf_UseCustomCABundle P \<noteq> None" "cf_NetworkPolicies P \<noteq> None"
    "cf_IngressControllerNamespace P \<noteq> None" "cf_AWSIdentityProviderARN P \<noteq> None" "cf_RegistryMemory P \<noteq> None" "cf_RegistryCPU P \<noteq> None"
    "cf_BuildkitdMemory P \<noteq> None" "cf_BuildkitdCPU P \<noteq> None" "cf_BuildkitdServiceMemory P \<noteq> None" "cf_BuildkitdServiceCPU P \<noteq> None"
    "cf_ControllerMemory P \<noteq> None" "cf_ControllerCPU P \<noteq> None" "cf_APIServerMemory P \<noteq> None" "cf_APIServerCPU P \<noteq> None" "cf_Features P = Some FeatureDefaults"
    "cf_CertManagerIssuer P \<noteq> None" "cf_InternalClusterDomain P \<noteq> []" "cf_PodSecurityEnforceProfile P \<noteq> []"
  by (rule disjE [OF profile_set [of p]]; simp add: assms defaultProfile_def productionProfile_def InternalClusterDomainDefault_def)+

text \<open>The fields which the handlers follow without a check.\<close>

definition noNilPointers :: "Config \<Rightarrow> bool" where
  "noNilPointers c \<longleftrightarrow> list_all (\<lambda>p. p \<noteq> None) [cf_AcornDNS c, cf_AcornDNSEndpoint c, cf_LetsEncrypt c, cf_AutoUpgradeInterval c, cf_HttpEndpointPattern c, cf_InternalRegistryPrefix c,
       cf_IngressControllerNamespace c, cf_AWSIdentityProviderARN c, cf_RegistryMemory c, cf_RegistryCPU c, cf_BuildkitdMemory c, cf_BuildkitdCPU c,
       cf_BuildkitdServiceMemory c, cf_BuildkitdServiceCPU c, cf_ControllerMemory c, cf_ControllerCPU c, cf_APIServerMemory c, cf_APIServerCPU c, cf_CertManagerIssuer c] \<and>
     list_all (\<lambda>p. p \<noteq> None) [cf_LetsEncryptTOSAgree c, cf_SetPodSecurityEnforceProfile c, cf_RecordBuilds c, cf_PublishBuilders c, cf_BuilderPerProject c,
       cf_IgnoreUserLabelsAndAnnotations c, cf_ManageVolumeClasses c, cf_UseCustomCABundle c, cf_NetworkPolicies c] \<and>
     list_all (\<lambda>p. p \<noteq> None) [cf_WorkloadMemoryDefault c, cf_WorkloadMemoryMaximum c] \<and> cf_Features c \<noteq> None \<and> cf_InternalClusterDomain c \<noteq> []"

lemma setClusterDomains_frame:
  assumes "setClusterDomains L k c = Inr c'"
  shows "c' = c\<lparr>cf_ClusterDomains := cf_ClusterDomains c'\<rparr>"
proof -
  have same: "c = c\<lparr>cf_ClusterDomains := cf_ClusterDomains c\<rparr>" by simp
  show ?thesis using assms same by (auto simp: setClusterDomains_def bind_err_Inr Let_def split: option.splits if_splits)
qed

lemma completePodSecurity_Inr:
  "completePodSecurity (profiles_Get p) c = Inr (c\<lparr>
     cf_SetPodSecurityEnforceProfile := mergePointer (cf_SetPodSecurityEnforceProfile c) (Some True),
     cf_PodSecurityEnforceProfile :=
       (if cf_PodSecurityEnforceProfile c = [] \<and> cf_SetPodSecurityEnforceProfile c \<noteq> Some False then cf_PodSecurityEnforceProfile (profiles_Get p)
        else cf_PodSecurityEnforceProfile c)\<rparr>)"
  using profile_pointers(1) [OF refl, of p]
  by (cases "cf_SetPodSecurityEnforceProfile c") (auto simp: completePodSecurity_def Let_def)

text \<open>The completion of a configuration, after the one of a developer.\<close>

definition prepared :: "Config \<Rightarrow> Config" where
  "prepared c = (let P = profiles_Get (cf_Profile c) in
     (projr (completePodSecurity P c :: unit config_error + Config))\<lparr>cf_AcornDNS := mergePointer (cf_AcornDNS c) (cf_AcornDNS P), cf_AcornDNSEndpoint := orText (cf_AcornDNSEndpoint c) (cf_AcornDNSEndpoint P)\<rparr>)"

lemma complete_config_Inr:
  "complete_config L k False c = bind_err (setClusterDomains L k (prepared c)) (\<lambda>c'. Inr (completeRest (profiles_Get (cf_Profile c)) c'))"
  by (simp add: complete_config_def prepared_def Let_def completePodSecurity_Inr)

lemma complete_config_dev: "complete_config L k True c = bind_err (devConfig L k c) (complete_config L k False)"
  by (cases "devConfig L k c") (simp_all add: complete_config_def)

lemma prepared_frame:
  "cf_ClusterDomains (prepared c) = cf_ClusterDomains c" "cf_InternalClusterDomain (prepared c) = cf_InternalClusterDomain c" "cf_AcornDNS (prepared c) \<noteq> None"
  "cf_AcornDNSEndpoint (prepared c) \<noteq> None" "cf_SetPodSecurityEnforceProfile (prepared c) \<noteq> None"
  "cf_AllowUserMetadataNamespaces (prepared c) = cf_AllowUserMetadataNamespaces c" "cf_AllowTrafficFromNamespace (prepared c) = cf_AllowTrafficFromNamespace c"
  using profile_pointers(1-3) [OF refl, of "cf_Profile c"]
  by (auto simp: prepared_def Let_def completePodSecurity_Inr)

lemma completeRest_pointers:
  assumes "cf_AcornDNS c \<noteq> None" "cf_AcornDNSEndpoint c \<noteq> None" "cf_SetPodSecurityEnforceProfile c \<noteq> None"
  shows "noNilPointers (completeRest (profiles_Get p) c)"
proof -
  note P = profile_pointers [OF refl, of p]
  have feat: "completeFeatures (cf_Features (profiles_Get p)) (cf_Features c) \<noteq> None"
    using P(30) by (auto simp: completeFeatures_def split: option.splits)
  have ot: "orText q r \<noteq> None" if "\<exists>s. r = Some s" for q r :: "string option"
    using that by auto
  have dom: "mergeText (cf_InternalClusterDomain c) (cf_InternalClusterDomain (profiles_Get p)) \<noteq> []"
    using P(32) by (simp add: mergeText_def)
  show ?thesis
    unfolding noNilPointers_def completeRest_def
    using assms P feat dom ot [OF P(6), of "cf_AutoUpgradeInterval c"] ot [OF P(10), of "cf_HttpEndpointPattern c"]
    by (simp del: not_None_eq)
qed

lemma completeRest_frame [simp]:
  "cf_ClusterDomains (completeRest P c) = cf_ClusterDomains c" "cf_AcornDNS (completeRest P c) = cf_AcornDNS c"
  "cf_AllowUserMetadataNamespaces (completeRest P c) = cf_AllowUserMetadataNamespaces c" "cf_AllowTrafficFromNamespace (completeRest P c) = cf_AllowTrafficFromNamespace c"
  by (simp_all add: completeRest_def)

lemma devConfig_metadata:
  assumes "devConfig L k c = Inr c'"
  shows "cf_AllowUserMetadataNamespaces c' = cf_AllowUserMetadataNamespaces c"
  using assms by (auto simp: devConfig_def merge_config_def bind_err_Inr split: sum.splits kube_error.splits)

lemma complete_parts:
  assumes "complete_config L k False c = Inr c'"
  obtains ds where "setClusterDomains L k (prepared c) = Inr ((prepared c)\<lparr>cf_ClusterDomains := ds\<rparr>)"
    "c' = completeRest (profiles_Get (cf_Profile c)) ((prepared c)\<lparr>cf_ClusterDomains := ds\<rparr>)"
proof -
  from assms obtain d where d: "setClusterDomains L k (prepared c) = Inr d" "c' = completeRest (profiles_Get (cf_Profile c)) d"
    by (auto simp: complete_config_Inr bind_err_Inr)
  with that [of "cf_ClusterDomains d"] setClusterDomains_frame [OF d(1)] show thesis by simp
qed

lemma setClusterDomains_ends:
  assumes "cf_AcornDNS c \<noteq> None"
  shows "setClusterDomains L k c \<noteq> Inl NilPointer"
  using assms
  by (auto simp: setClusterDomains_def shouldLookupAcornDNSDomain_def useLocalWildcardDomain_def getDNSSecret_def bind_err_def Let_def calling_def
    split: option.splits sum.splits kube_error.splits if_splits)

text \<open>The domains of a completed configuration.\<close>

lemma setClusterDomains_spec:
  assumes "setClusterDomains L k c = Inr c'" "cf_AcornDNS c = Some state"
  shows "(\<exists>domain. domain \<noteq> [] \<and> cf_ClusterDomains c' = cf_ClusterDomains c @ [domain] \<and> \<not> (cf_ClusterDomains c \<noteq> [] \<and> EqualFold state ''auto'')) \<or>
    cf_ClusterDomains c' = cf_ClusterDomains c \<and> (cf_ClusterDomains c = [] \<longrightarrow> EqualFold state ''disabled'')"
  using assms
  by (auto simp: setClusterDomains_def shouldLookupAcornDNSDomain_def bind_err_Inr Let_def ClusterDomainDefault_def EqualFold_def split: if_splits)

subsection \<open>Histories of a configuration\<close>

text \<open>
  What \<open>encoding/json\<close> promises of a configuration: what is written is not empty and reads back as it was, and the empty object has no value set.
  A history is any sequence of \<open>Init\<close>, \<open>Set\<close> with any faults, and changes of the cluster that leave the stored configuration alone.
\<close>

definition config_json :: "'e config_lib \<Rightarrow> bool" where
  "config_json L \<longleftrightarrow> (\<forall>c b. cb_marshal L c = Inr b \<longrightarrow> b \<noteq> [] \<and> cb_unmarshal L b = Inr c) \<and> cb_unmarshal L ''{}'' = Inr zero_Config"

definition storedConfig :: "config_kube \<Rightarrow> (string, string) gomap option" where
  "storedConfig k = gm_get (ck_configMaps k) (system_Namespace, ConfigName)"

inductive config_history :: "'e config_lib \<Rightarrow> config_kube \<Rightarrow> bool" for L where
  Fresh: "storedConfig k = None \<Longrightarrow> config_history L k"
| Initialized: "config_history L k \<Longrightarrow> Init (L\<lparr>cb_faults := F\<rparr>) k = Inr k' \<Longrightarrow> config_history L k'"
| Configured: "config_history L k \<Longrightarrow> config_Set (L\<lparr>cb_faults := F\<rparr>) k (Some cfg) = Inr k' \<Longrightarrow> config_history L k'"
| Elsewhere: "config_history L k \<Longrightarrow> storedConfig k' = storedConfig k \<Longrightarrow> config_history L k'"

lemma calling_Inr [simp]: "calling L call r = Inr x \<longleftrightarrow> cb_faults L call = None \<and> r = Inr x"
  by (simp add: calling_def split: option.splits)

lemma calling_NotFound [simp]: "calling L call r = Inl (NotFoundError n) \<longleftrightarrow> cb_faults L call = None \<and> r = Inl (NotFoundError n)"
  by (simp add: calling_def split: option.splits)

lemma ensureNamespace_frame:
  assumes "ensureNamespace L k = Inr k'"
  shows "ck_configMaps k' = ck_configMaps k" "ck_secrets k' = ck_secrets k" "ck_nodes k' = ck_nodes k"
  using assms by (auto simp: ensureNamespace_def createNamespace_def calling_def split: option.splits if_splits sum.splits kube_error.splits)

lemma config_Incomplete_Inr:
  "config_Incomplete L k = Inr c \<longleftrightarrow> cb_faults L (GetConfigMap system_Namespace ConfigName) = None \<and>
     (case storedConfig k of None \<Rightarrow> c = zero_Config | Some data \<Rightarrow> unmarshal_config L data = Inr c)"
  by (auto simp: config_Incomplete_def getConfigMap_def storedConfig_def calling_def split: option.splits)

lemma config_Set_Inr:
  assumes "config_Set L k (Some cfg) = Inr k'"
  obtains existing b where "config_Incomplete L k = Inr existing" "cb_marshal L (mergeConfigs existing cfg) = Inr b"
    "storedConfig k' = Some [(''config'', b)]" "ck_secrets k' = ck_secrets k" "ck_nodes k' = ck_nodes k"
proof -
  from assms obtain k1 existing b where e: "ensureNamespace L k = Inr k1" "config_Incomplete L k1 = Inr existing" "cb_marshal L (mergeConfigs existing cfg) = Inr b"
    and u: "(case updateConfigMap L k1 ConfigName [(''config'', b)] of
       Inl (NotFoundError _) \<Rightarrow> map_sum ConfigKube id (createConfigMap L k1 ConfigName [(''config'', b)])
     | Inl e \<Rightarrow> Inl (ConfigKube e) | Inr k \<Rightarrow> Inr k) = Inr k'"
    by (auto simp: config_Set_def asConfigMap_def merge_config_def bind_err_Inr map_sum_Inr)
  from u have "k' = k1\<lparr>ck_configMaps := gm_set (ck_configMaps k1) (system_Namespace, ConfigName) [(''config'', b)]\<rparr>"
    by (auto simp: updateConfigMap_def createConfigMap_def map_sum_Inr split: sum.splits kube_error.splits if_splits)
  moreover have "config_Incomplete L k = Inr existing"
    using e(2) ensureNamespace_frame(1) [OF e(1)] by (simp add: config_Incomplete_Inr storedConfig_def)
  ultimately show thesis
    using that [OF _ e(3)] ensureNamespace_frame(2,3) [OF e(1)] by (simp add: storedConfig_def gm_get_set)
qed

lemma Init_Inr:
  assumes "Init L k = Inr k'"
  shows "storedConfig k' = storedConfig k \<or> storedConfig k' = Some [(''config'', ''{}'')]"
  using assms
  by (auto simp: Init_def createConfigMap_def storedConfig_def gm_get_set map_sum_Inr split: sum.splits kube_error.splits if_splits)

lemma unmarshal_faults [simp]: "unmarshal_config (L\<lparr>cb_faults := F\<rparr>) data = unmarshal_config L data"
  by (simp add: unmarshal_config_def)

lemma unmarshal_stored: "b \<noteq> [] \<Longrightarrow> unmarshal_config L [(''config'', b)] = map_sum ConfigJSON id (cb_unmarshal L b)"
  by (simp add: unmarshal_config_def gm_get_or_def gm_get_def)

lemma zero_metadata [simp]: "cf_AllowUserMetadataNamespaces zero_Config = []"
  by (simp add: zero_Config_def)

lemma history_stored:
  assumes "config_history L k" "config_json L" "storedConfig k = Some data" "unmarshal_config L data = Inr c"
  shows "cf_AllowUserMetadataNamespaces c = []"
  using assms(1,3,4)
proof (induction arbitrary: data c)
  case (Initialized k F k')
  show ?case
  proof (cases "storedConfig k' = storedConfig k")
    case True
    with Initialized show ?thesis by metis
  next
    case False
    then have "data = [(''config'', ''{}'')]" using Init_Inr [OF Initialized.hyps(2)] Initialized.prems(1) by simp
    with Initialized.prems(2) assms(2) have "c = zero_Config" by (simp add: unmarshal_stored config_json_def)
    then show ?thesis by simp
  qed
next
  case (Configured k F cfg k')
  obtain existing b where e: "config_Incomplete (L\<lparr>cb_faults := F\<rparr>) k = Inr existing"
    "cb_marshal (L\<lparr>cb_faults := F\<rparr>) (mergeConfigs existing cfg) = Inr b" "storedConfig k' = Some [(''config'', b)]"
    by (rule config_Set_Inr [OF Configured.hyps(2)])
  have "cf_AllowUserMetadataNamespaces existing = []"
    using e(1) Configured.IH by (auto simp: config_Incomplete_Inr split: option.splits)
  moreover have "c = mergeConfigs existing cfg"
    using Configured.prems e(2,3) assms(2) by (auto simp: config_json_def unmarshal_stored)
  ultimately show ?case by simp
next
  case (Elsewhere k k')
  then show ?case by metis
qed simp_all

lemma complete_config_kube:
  assumes "ck_secrets k' = ck_secrets k" "ck_nodes k' = ck_nodes k"
  shows "complete_config L k' False = complete_config L k False"
proof -
  have "useLocalWildcardDomain L k' = useLocalWildcardDomain L k" "getDNSSecret L k' = getDNSSecret L k"
    by (simp_all add: useLocalWildcardDomain_def getDNSSecret_def assms)
  then have "setClusterDomains L k' c = setClusterDomains L k c" for c
    by (simp only: setClusterDomains_def shouldLookupAcornDNSDomain_def)
  then show ?thesis by (intro ext) (simp only: complete_config_Inr)
qed

lemma setClusterDomains_features:
  "setClusterDomains L k (c\<lparr>cf_Features := X\<rparr>) = map_sum id (\<lambda>c. c\<lparr>cf_Features := X\<rparr>) (setClusterDomains L k c)"
proof -
  have lookup: "shouldLookupAcornDNSDomain L k (c\<lparr>cf_Features := X\<rparr>) = shouldLookupAcornDNSDomain L k c"
    by (simp add: shouldLookupAcornDNSDomain_def)
  show ?thesis
    by (cases "shouldLookupAcornDNSDomain L k c"; cases "getDNSSecret L k"; cases "cf_AcornDNS c")
       (simp_all add: setClusterDomains_def lookup Let_def)
qed

lemma prepared_features: "prepared (c\<lparr>cf_Features := X\<rparr>) = (prepared c)\<lparr>cf_Features := X\<rparr>" "cf_Features (prepared c) = cf_Features c"
  by (simp_all add: prepared_def Let_def completePodSecurity_Inr)

lemma complete_config_features:
  assumes "\<And>p. completeFeatures p X = completeFeatures p (cf_Features c)"
  shows "complete_config L k False (c\<lparr>cf_Features := X\<rparr>) = complete_config L k False c"
proof (cases "setClusterDomains L k (prepared c)")
  case (Inl e)
  then show ?thesis by (simp add: complete_config_Inr prepared_features setClusterDomains_features)
next
  case (Inr c')
  have "cf_Features c' = cf_Features c"
    using arg_cong [OF setClusterDomains_frame [OF Inr], of cf_Features] prepared_features(2) [of c] by simp
  then show ?thesis
    using Inr assms by (simp add: complete_config_Inr prepared_features setClusterDomains_features completeRest_def)
qed

subsection \<open>An installation\<close>

lemma complete_disabled:
  assumes "cf_AcornDNS c = Some ''disabled''"
  shows "complete_config L k False c = Inr (completeRest (profiles_Get (cf_Profile c)) (prepared c))"
proof -
  have eq: "\<not> EqualFold ''disabled'' ''enabled''" "\<not> EqualFold ''disabled'' ''auto''" "EqualFold ''disabled'' ''disabled''" by code_simp+
  have "cf_AcornDNS (prepared c) = Some ''disabled''" using assms by (simp add: prepared_def Let_def completePodSecurity_Inr)
  then show ?thesis by (simp add: complete_config_Inr setClusterDomains_def shouldLookupAcornDNSDomain_def eq)
qed

definition install_config :: Config where
  "install_config = zero_Config\<lparr>cf_AcornDNS := Some ''disabled'', cf_ClusterDomains := [''example.com''], cf_AllowUserMetadataNamespaces := [''acorn''],
     cf_Features := Some [(''foo'', True)]\<rparr>"

definition installed_config :: Config where
  "installed_config = zero_Config\<lparr>cf_AcornDNS := Some ''disabled'', cf_ClusterDomains := [''.example.com''],
     cf_Features := Some [(''foo'', True), (ImageAllowRulesFeature, False)]\<rparr>"

definition install_lib :: "string config_lib" where
  "install_lib = \<lparr>cb_faults = (\<lambda>_. None), cb_isNoMatch = (\<lambda>_. False), cb_marshal = (\<lambda>c. if c = installed_config then Inr ''{*}'' else Inl ''unknown''),
     cb_unmarshal = (\<lambda>b. Inr (if b = ''{*}'' then installed_config else zero_Config))\<rparr>"

definition install_kube :: config_kube where
  "install_kube = \<lparr>ck_namespaces = [], ck_configMaps = [], ck_secrets = [], ck_nodes = []\<rparr>"

definition installed_kube :: config_kube where
  "installed_kube = \<lparr>ck_namespaces = [system_Namespace], ck_configMaps = [((system_Namespace, ConfigName), [(''config'', ''{*}'')])], ck_secrets = [], ck_nodes = []\<rparr>"

definition install_argument :: Config where
  "install_argument = (mergeArgument install_config)\<lparr>cf_Features := Some [(''foo'', True), (ImageAllowRulesFeature, False)]\<rparr>"

definition install_final :: Config where
  "install_final = completeRest defaultProfile (prepared installed_config)"

lemma install_json: "config_json install_lib"
  by (simp add: config_json_def install_lib_def)

lemma install_test: "TestSetGet install_lib install_kube install_config = Inr (install_final, install_argument)"
proof -
  have i: "config_Incomplete install_lib install_kube = Inr zero_Config" by (simp add: config_Incomplete_Inr install_lib_def install_kube_def storedConfig_def)
  define m where "m = mergeConfigs zero_Config install_config"
  have m: "m\<lparr>cf_Features := Some [(''foo'', True), (ImageAllowRulesFeature, False)]\<rparr> = installed_config" "cf_Features m = Some [(''foo'', True)]"
    "cf_AcornDNS m = Some ''disabled''"
    by (simp_all add: m_def mergeConfigs_def installed_config_def install_config_def zero_Config_def mergeText_def mergeList_def mergeNonEmpty_def dotted_def str_has_prefix_def)
  have "complete_config install_lib install_kube False m = complete_config install_lib install_kube False installed_config"
    unfolding m(1) [symmetric]
    by (rule complete_config_features [symmetric]) (simp add: m completeFeatures_def FeatureDefaults_def gm_has_def gm_set_def ImageAllowRulesFeature_def)
  moreover have "complete_config install_lib install_kube False installed_config = Inr install_final"
    by (subst complete_disabled) (simp_all add: installed_config_def install_final_def zero_Config_def profiles_Get_def)
  moreover have "completeFeatures None (Some [(''foo'', True)]) = Some [(''foo'', True), (ImageAllowRulesFeature, False)]"
    by (simp add: completeFeatures_def FeatureDefaults_def gm_has_def gm_set_def ImageAllowRulesFeature_def)
  ultimately show ?thesis
    using i m_def by (simp add: TestSetGet_def merge_config_def install_argument_def) (simp add: install_config_def)
qed

lemma install_set: "config_Set install_lib install_kube (Some install_argument) = Inr installed_kube"
proof -
  have "mergeConfigs zero_Config install_argument = installed_config"
    by (simp add: mergeConfigs_def install_argument_def mergeArgument_def installed_config_def install_config_def zero_Config_def mergeText_def mergeList_def mergeNonEmpty_def dotted_def str_has_prefix_def)
  then show ?thesis
    by (simp add: config_Set_def ensureNamespace_def createNamespace_def calling_def config_Incomplete_def getConfigMap_def asConfigMap_def merge_config_def
      updateConfigMap_def createConfigMap_def install_lib_def install_kube_def installed_kube_def gm_has_def gm_set_def)
qed

lemma installed_get: "config_Get install_lib installed_kube = Inr install_final"
proof -
  have "ConfigName \<noteq> DevConfigName" by (simp add: ConfigName_def DevConfigName_def)
  then have "devConfig install_lib installed_kube c = Inr c" for c
    by (simp add: devConfig_def getConfigMap_def calling_def install_lib_def installed_kube_def gm_get_def)
  moreover have "config_Incomplete install_lib installed_kube = Inr installed_config"
    by (simp add: config_Incomplete_Inr storedConfig_def installed_kube_def install_lib_def unmarshal_config_def gm_get_or_def gm_get_def)
  moreover have "complete_config install_lib installed_kube False installed_config = Inr install_final"
    by (subst complete_disabled) (simp_all add: installed_config_def install_final_def zero_Config_def profiles_Get_def)
  ultimately show ?thesis by (simp add: config_Get_def complete_config_dev)
qed

subsection \<open>Properties\<close>

lemma complete_config_completed:
  "case complete_config L k False c of Inl e \<Rightarrow> e \<noteq> NilPointer
   | Inr c \<Rightarrow> noNilPointers c \<and> (0 < length (cf_ClusterDomains c) \<or> EqualFold (the (cf_AcornDNS c)) ''disabled'')"
proof (cases "complete_config L k False c")
  case (Inl e)
  then have "e \<noteq> NilPointer"
    using setClusterDomains_ends [OF prepared_frame(3)] by (auto simp: complete_config_Inr bind_err_def split: sum.splits)
  with Inl show ?thesis by simp
next
  case (Inr c')
  from complete_parts [OF Inr] obtain ds where d: "setClusterDomains L k (prepared c) = Inr ((prepared c)\<lparr>cf_ClusterDomains := ds\<rparr>)"
    "c' = completeRest (profiles_Get (cf_Profile c)) ((prepared c)\<lparr>cf_ClusterDomains := ds\<rparr>)" by blast
  obtain state where state: "cf_AcornDNS (prepared c) = Some state" using prepared_frame(3) [of c] by auto
  have "ds \<noteq> [] \<or> EqualFold state ''disabled''" using setClusterDomains_spec [OF d(1) state] by auto
  then show ?thesis using Inr d(2) state completeRest_pointers prepared_frame(3-5) [of c] by simp
qed




text \<open>a setting without effect. The namespaces whose users may set labels and annotations are never merged: whatever was configured, from the first
  installation on, and whatever happened elsewhere in the cluster, the configuration that is read has none, so that the filter of labels never lets
  a namespace through.\<close>

theorem metadata_namespaces_ignored:
  assumes "config_history L k" "config_json L" "config_Get L k = Inr c"
  shows "cf_AllowUserMetadataNamespaces c = []"
proof -
  from assms(3) obtain c0 c1 where c: "config_Incomplete L k = Inr c0" "devConfig L k c0 = Inr c1" "complete_config L k False c1 = Inr c"
    by (auto simp: config_Get_def complete_config_dev bind_err_Inr)
  have "cf_AllowUserMetadataNamespaces c0 = []"
    using c(1) history_stored [OF assms(1,2)] by (auto simp: config_Incomplete_Inr split: option.splits)
  then have "cf_AllowUserMetadataNamespaces c1 = []" using devConfig_metadata [OF c(2)] by simp
  moreover obtain ds where "c = completeRest (profiles_Get (cf_Profile c1)) ((prepared c1)\<lparr>cf_ClusterDomains := ds\<rparr>)"
    by (rule complete_parts [OF c(3)])
  ultimately show ?thesis by (simp add: prepared_frame(6))
qed

theorem metadata_namespaces_ignored_witness:
  "cf_AllowUserMetadataNamespaces install_argument = [''acorn''] \<and> cf_AllowUserMetadataNamespaces install_final = []"
proof -
  have "config_history install_lib install_kube" by (rule Fresh) (simp add: storedConfig_def install_kube_def)
  then have "config_history install_lib installed_kube"
    by (rule Configured [where F = "cb_faults install_lib" and cfg = install_argument]) (simp add: install_set)
  then show ?thesis
    using metadata_namespaces_ignored [OF _ install_json installed_get] by (simp add: install_argument_def mergeArgument_def install_config_def)
qed

text \<open>The production profile allows the traffic of Prometheus, and that is never taken over; its identity provider is the text of a Helm template.\<close>

lemma profile_traffic_ignored:
  "cf_AllowTrafficFromNamespace productionProfile = [''prometheus-operator'']"
  "complete_config L k False c = Inr c' \<Longrightarrow> cf_AllowTrafficFromNamespace c' = cf_AllowTrafficFromNamespace c"
  by (simp add: productionProfile_def) (elim complete_parts, simp add: prepared_frame)

lemma production_provider: "cf_AWSIdentityProviderARN productionProfile = Some ''{{ .Values.awsIdentityProviderArn | quote }}''"
  by (simp add: productionProfile_def)

end
