(* ===== verification/NetworkPolicies.thy ===== *)
theory NetworkPolicies
  imports InstallConfig ImageRefs
begin

text \<open>
  Network policies: \<open>pkg/controller/networkpolicy/networkpolicy.go\<close>, the policies of apps, of published HTTP ports, of published TCP and UDP ports
  and of builders. Below the handlers stands what Kubernetes documents of a policy: a pod that some policy selects for incoming traffic accepts a
  connection only when a rule of such a policy allows it. The theorems say which connections the policies of the handlers let through.
\<close>

subsection \<open>Objects of Kubernetes\<close>

type_synonym label_map = "(string, string) gomap"

datatype IntOrString = PortNumber int32 | PortName string

definition IntVal :: "IntOrString \<Rightarrow> int32" where
  "IntVal p = (case p of PortNumber n \<Rightarrow> n | PortName _ \<Rightarrow> 0)"

record ServiceBackendPort =
  bp_Name :: string
  bp_Number :: int32

record NetServicePort =
  np_Name :: string
  np_Protocol :: string
  np_Port :: int32
  np_TargetPort :: IntOrString

record NetService =
  nv_Meta :: ObjectMeta
  nv_Type :: string
  nv_ExternalName :: string
  nv_Ports :: "NetServicePort list"
  nv_Selector :: label_map

text \<open>The pointers of a path to its service are followed without a check: no backend is the panic of the code.\<close>

record NetIngress =
  ni_Meta :: ObjectMeta
  ni_Rules :: "(string \<times> ServiceBackendPort) option list option list"

record NetDeployment =
  nd_Meta :: ObjectMeta
  nd_PodLabels :: label_map

record IPBlock =
  ib_CIDR :: string
  ib_Except :: "string list"

record NetworkPolicyPeer =
  pr_PodSelector :: "label_map option"
  pr_NamespaceSelector :: "label_map option"
  pr_IPBlock :: "IPBlock option"

record NetworkPolicyPort =
  nq_Protocol :: string
  nq_Port :: IntOrString

record NetworkPolicyRule =
  nr_Peers :: "NetworkPolicyPeer list"
  nr_Ports :: "NetworkPolicyPort list"

record NetworkPolicy =
  pl_Meta :: ObjectMeta
  pl_PodSelector :: label_map
  pl_Ingress :: "NetworkPolicyRule list"
  pl_Egress :: "NetworkPolicyRule list"
  pl_PolicyTypes :: "string list"

definition PolicyTypeIngress :: string where "PolicyTypeIngress = ''Ingress''"
definition PolicyTypeEgress :: string where "PolicyTypeEgress = ''Egress''"

definition namespacePeer :: "label_map \<Rightarrow> NetworkPolicyPeer" where
  "namespacePeer m = \<lparr>pr_PodSelector = None, pr_NamespaceSelector = Some m, pr_IPBlock = None\<rparr>"

definition ingressPolicy :: "string \<Rightarrow> string \<Rightarrow> label_map \<Rightarrow> NetworkPolicyPeer list \<Rightarrow> NetworkPolicyPort list \<Rightarrow> NetworkPolicy" where
  "ingressPolicy name namespace selector peers ports =
     \<lparr>pl_Meta = zero_ObjectMeta\<lparr>om_Name := name, om_Namespace := namespace, om_Labels := [(AcornManaged, ''true'')]\<rparr>, pl_PodSelector = selector,
      pl_Ingress = [\<lparr>nr_Peers = peers, nr_Ports = ports\<rparr>], pl_Egress = [], pl_PolicyTypes = [PolicyTypeIngress]\<rparr>"

subsection \<open>The handlers\<close>

text \<open>
  The part of the configuration that the handlers use. A completed configuration has no nil pointer there (\<open>netConfig_completed\<close>). What the handlers
  read from the cluster is a record.
\<close>

record net_config =
  nc_NetworkPolicies :: bool
  nc_IngressControllerNamespace :: string
  nc_AllowTrafficFromNamespace :: "string list"

definition netConfig :: "Config \<Rightarrow> net_config option" where
  "netConfig c = (case (cf_NetworkPolicies c, cf_IngressControllerNamespace c) of
       (Some p, Some n) \<Rightarrow> Some \<lparr>nc_NetworkPolicies = p, nc_IngressControllerNamespace = n, nc_AllowTrafficFromNamespace = cf_AllowTrafficFromNamespace c\<rparr>
     | _ \<Rightarrow> None)"

text \<open>The namespaces a profile allows are not among those of the completed configuration, only the configured ones are.\<close>

lemma netConfig_completed:
  assumes "complete_config L k False c0 = Inr c"
  shows "\<exists>cfg. netConfig c = Some cfg \<and> nc_AllowTrafficFromNamespace cfg = cf_AllowTrafficFromNamespace c0"
  using complete_config_completed [of L k c0] profile_traffic_ignored(2) [OF assms] assms by (auto simp: netConfig_def noNilPointers_def)

record 'e net_reads =
  nx_config :: "'e + net_config"
  nx_service :: "string \<Rightarrow> string \<Rightarrow> 'e + NetService option"
  nx_podCIDRs :: "'e + string list list"
  nx_SafeConcatName :: "string list \<Rightarrow> string"

datatype 'e net_error = NetError 'e | NetErrorf string | NilBackend | FailedToListNodes 'e

definition nameLabel :: string where "nameLabel = ''kubernetes.io/metadata.name''"

definition reads :: "'e + 'a \<Rightarrow> 'e net_error + 'a" where
  "reads r = map_sum NetError id r"

definition ForApp :: "'e net_reads \<Rightarrow> ('f, 'q) AppInstance \<Rightarrow> 'e net_error + NetworkPolicy list" where
  "ForApp R app =
     bind_err (reads (nx_config R)) (\<lambda>cfg.
       if \<not> nc_NetworkPolicies cfg then Inr []
       else Inr [ingressPolicy (om_Name (app_Meta app)) (is_Namespace (app_Status app)) (Managed app [])
         (namespacePeer [(AcornAppNamespace, om_Namespace (app_Meta app))] #
            map (\<lambda>namespace. namespacePeer [(nameLabel, namespace)]) (nc_AllowTrafficFromNamespace cfg)) []])"

text \<open>The ports an ingress names, by service.\<close>

definition backendPort :: "(string \<times> ServiceBackendPort) option \<Rightarrow> (string, ServiceBackendPort list) gomap \<Rightarrow> 'e net_error + (string, ServiceBackendPort list) gomap" where
  "backendPort path m =
     (case path of None \<Rightarrow> Inl NilBackend | Some (svcName, port) \<Rightarrow> Inr (gm_set m svcName (gm_get_or [] m svcName @ [port])))"

fun pathLoop :: "(string \<times> ServiceBackendPort) option list \<Rightarrow> (string, ServiceBackendPort list) gomap \<Rightarrow> 'e net_error + (string, ServiceBackendPort list) gomap" where
  "pathLoop [] m = Inr m"
| "pathLoop (path # paths) m = bind_err (backendPort path m) (pathLoop paths)"

fun ruleLoop :: "(string \<times> ServiceBackendPort) option list option list \<Rightarrow> (string, ServiceBackendPort list) gomap \<Rightarrow> 'e net_error + (string, ServiceBackendPort list) gomap" where
  "ruleLoop [] m = Inr m"
| "ruleLoop (None # rules) m = Inl NilBackend"
| "ruleLoop (Some paths # rules) m = bind_err (pathLoop paths m) (ruleLoop rules)"

definition ServiceTypeExternalName :: string where "ServiceTypeExternalName = ''ExternalName''"
definition ServiceTypeLoadBalancer :: string where "ServiceTypeLoadBalancer = ''LoadBalancer''"
definition K8sTCP :: string where "K8sTCP = ''TCP''"
definition K8sUDP :: string where "K8sUDP = ''UDP''"

text \<open>The service behind an external name: name and namespace are the first two parts.\<close>

definition externalTarget :: "'e net_reads \<Rightarrow> NetService \<Rightarrow> 'e net_error + NetService" where
  "externalTarget R svc =
     (let externalName = nv_ExternalName svc;
          failed = NetErrorf (''failed to parse ExternalName '' @ [CHR 0x27] @ externalName @ [CHR 0x27] @ '' of svc '' @ [CHR 0x27] @ om_Name (nv_Meta svc) @ [CHR 0x27])
      in case str_cut (CHR ''.'') externalName of (svcName, rest, ok) \<Rightarrow>
           if \<not> ok then Inl failed
           else case str_cut (CHR ''.'') rest of (svcNamespace, _, ok) \<Rightarrow>
             if \<not> ok then Inl failed
             else bind_err (reads (nx_service R svcNamespace svcName)) (\<lambda>found. case found of
                 None \<Rightarrow> Inl (NetErrorf (''failed to find service '' @ [CHR 0x27] @ svcName @ [CHR 0x27] @ '', targeted by ExternalName '' @ [CHR 0x27] @ externalName @ [CHR 0x27]))
               | Some svc \<Rightarrow> Inr svc))"

definition portFor :: "ServiceBackendPort \<Rightarrow> NetServicePort \<Rightarrow> bool" where
  "portFor port svcPort \<longleftrightarrow> np_Name svcPort \<noteq> [] \<and> np_Name svcPort = bp_Name port \<or> np_Port svcPort = bp_Number port"

definition portStep :: "'e net_reads \<Rightarrow> NetService \<Rightarrow> ServiceBackendPort \<Rightarrow> NetworkPolicyPort list \<times> string \<Rightarrow> NetworkPolicyPort list \<times> string" where
  "portStep R svc port st =
     foldl (\<lambda>(netPolPorts, netPolName) svcPort.
         if portFor port svcPort then
           (netPolPorts @ [\<lparr>nq_Protocol = K8sTCP, nq_Port = np_TargetPort svcPort\<rparr>],
            nx_SafeConcatName R [netPolName, itoa (sint (IntVal (np_TargetPort svcPort)))])
         else (netPolPorts, netPolName)) st (nv_Ports svc)"

definition ingressPeers :: "net_config \<Rightarrow> NetworkPolicyPeer list" where
  "ingressPeers cfg =
     [namespacePeer (if nc_IngressControllerNamespace cfg \<noteq> [] then [(nameLabel, nc_IngressControllerNamespace cfg)] else []),
      namespacePeer [(nameLabel, ''acorn-system'')]]"

fun netIngressLoop :: "'e net_reads \<Rightarrow> net_config \<Rightarrow> NetIngress \<Rightarrow> string \<Rightarrow> string \<Rightarrow> (string \<times> ServiceBackendPort list) list \<Rightarrow> NetworkPolicy list \<Rightarrow>
    'e net_error + NetworkPolicy list" where
  "netIngressLoop R cfg ingress projectName appName [] objs = Inr objs"
| "netIngressLoop R cfg ingress projectName appName ((svcName, ports) # entries) objs =
     bind_err (reads (nx_service R (om_Namespace (ni_Meta ingress)) svcName)) (\<lambda>found. case found of
         None \<Rightarrow> Inr objs
       | Some svc0 \<Rightarrow>
           bind_err (if nv_Type svc0 = ServiceTypeExternalName then externalTarget R svc0 else Inr svc0) (\<lambda>svc.
             let (netPolPorts, netPolName) = foldl (\<lambda>st port. portStep R svc port st)
                   ([], nx_SafeConcatName R [projectName, appName, om_Name (ni_Meta ingress), svcName]) ports
             in netIngressLoop R cfg ingress projectName appName entries
                  (if netPolPorts = [] then objs
                   else objs @ [ingressPolicy netPolName (om_Namespace (nv_Meta svc)) (nv_Selector svc) (ingressPeers cfg) netPolPorts])))"

definition ForIngress :: "'e net_reads \<Rightarrow> NetIngress \<Rightarrow> 'e net_error + NetworkPolicy list" where
  "ForIngress R ingress =
     bind_err (reads (nx_config R)) (\<lambda>cfg.
       let labels = om_Labels (ni_Meta ingress); appName = gm_get_or [] labels AcornAppName; projectName = gm_get_or [] labels AcornAppNamespace
       in if \<not> nc_NetworkPolicies cfg \<or> appName = [] \<or> projectName = [] then Inr []
          else bind_err (ruleLoop (ni_Rules ingress) []) (\<lambda>svcNameToPorts.
                 netIngressLoop R cfg ingress projectName appName (typed_Sorted svcNameToPorts) []))"

text \<open>Health checks use TCP also for UDP ports.\<close>

definition publishedPorts :: "NetService \<Rightarrow> NetworkPolicyPort list" where
  "publishedPorts service =
     concat (map (\<lambda>port. \<lparr>nq_Protocol = np_Protocol port, nq_Port = np_TargetPort port\<rparr> #
       (if np_Protocol port = K8sUDP then [\<lparr>nq_Protocol = K8sTCP, nq_Port = np_TargetPort port\<rparr>] else [])) (nv_Ports service))"

definition anyAddress :: NetworkPolicyPeer where
  "anyAddress = \<lparr>pr_PodSelector = None, pr_NamespaceSelector = None, pr_IPBlock = Some \<lparr>ib_CIDR = ''0.0.0.0/0'', ib_Except = []\<rparr>\<rparr>"

definition netForService :: "'e net_reads \<Rightarrow> NetService \<Rightarrow> 'e net_error + NetworkPolicy list" where
  "netForService R service =
     bind_err (reads (nx_config R)) (\<lambda>cfg.
       let labels = om_Labels (nv_Meta service); appName = gm_get_or [] labels AcornAppName;
           projectName = gm_get_or [] labels AcornAppNamespace; containerName = gm_get_or [] labels AcornContainerName
       in if \<not> nc_NetworkPolicies cfg \<or> nv_Type service \<noteq> ServiceTypeLoadBalancer \<or> appName = [] \<or> projectName = [] \<or> containerName = [] then Inr []
          else Inr [ingressPolicy (nx_SafeConcatName R [projectName, appName, om_Name (nv_Meta service), containerName]) (om_Namespace (nv_Meta service))
            (nv_Selector service) [anyAddress] (publishedPorts service)])"

definition APIServerName :: string where "APIServerName = ''acorn-api''"

definition buildExternalIPBlock :: "'e net_reads \<Rightarrow> 'e net_error + IPBlock" where
  "buildExternalIPBlock R =
     (case nx_podCIDRs R of
        Inl e \<Rightarrow> Inl (FailedToListNodes e)
      | Inr nodes \<Rightarrow> Inr \<lparr>ib_CIDR = ''0.0.0.0/0'', ib_Except = foldl (\<lambda>except cidr. if cidr \<in> set except then except else except @ [cidr]) [] (concat nodes)\<rparr>)"

definition ForBuilder :: "'e net_reads \<Rightarrow> NetDeployment \<Rightarrow> 'e net_error + NetworkPolicy list" where
  "ForBuilder R deployment =
     bind_err (reads (nx_config R)) (\<lambda>cfg.
       if \<not> nc_NetworkPolicies cfg \<or> om_Name (nd_Meta deployment) \<noteq> ''buildkitd'' \<and> \<not> str_has_prefix (om_Name (nd_Meta deployment)) ''bld-'' then Inr []
       else bind_err (buildExternalIPBlock R) (\<lambda>block.
         Inr [\<lparr>pl_Meta = zero_ObjectMeta\<lparr>om_Name := om_Name (nd_Meta deployment), om_Namespace := om_Namespace (nd_Meta deployment), om_Labels := [(AcornManaged, ''true'')]\<rparr>,
               pl_PodSelector = nd_PodLabels deployment,
               pl_Ingress = [\<lparr>nr_Peers = [\<lparr>pr_PodSelector = Some [(''app'', APIServerName)], pr_NamespaceSelector = Some [(nameLabel, system_Namespace)], pr_IPBlock = None\<rparr>], nr_Ports = []\<rparr>],
               pl_Egress = [\<lparr>nr_Peers = [\<lparr>pr_PodSelector = None, pr_NamespaceSelector = None, pr_IPBlock = Some block\<rparr>,
                    \<lparr>pr_PodSelector = Some [(''k8s-app'', ''kube-dns'')], pr_NamespaceSelector = Some [(nameLabel, ''kube-system'')], pr_IPBlock = None\<rparr>,
                    \<lparr>pr_PodSelector = Some [(''app'', RegistryName)], pr_NamespaceSelector = None, pr_IPBlock = None\<rparr>], nr_Ports = []\<rparr>],
               pl_PolicyTypes = [PolicyTypeIngress, PolicyTypeEgress]\<rparr>]))"
subsection \<open>What Kubernetes documents of a policy\<close>

text \<open>
  A pod with its namespace, the labels of both, its address and its named ports; the other end of a connection is a pod or an address outside the
  cluster. A selector asks for every one of its labels, so that an empty one selects everything; a peer with a pod selector alone means pods of the
  namespace of the policy. Whether an address lies in a block is the argument \<open>inCIDR\<close>.
\<close>

record 'a net_pod =
  pd_Namespace :: string
  pd_NamespaceLabels :: label_map
  pd_Labels :: label_map
  pd_Address :: 'a
  pd_Ports :: "((string \<times> string) \<times> int32) list"

datatype 'a net_end = InCluster "'a net_pod" | Outside 'a

fun endAddress :: "'a net_end \<Rightarrow> 'a" where
  "endAddress (InCluster p) = pd_Address p"
| "endAddress (Outside a) = a"

definition selects :: "label_map \<Rightarrow> label_map \<Rightarrow> bool" where
  "selects selector labels \<longleftrightarrow> list_all (\<lambda>(k, v). gm_get labels k = Some v) selector"

definition selected :: "label_map option \<Rightarrow> label_map \<Rightarrow> bool" where
  "selected sel labels = (case sel of None \<Rightarrow> True | Some m \<Rightarrow> selects m labels)"

definition inBlock :: "(string \<Rightarrow> 'a \<Rightarrow> bool) \<Rightarrow> IPBlock \<Rightarrow> 'a \<Rightarrow> bool" where
  "inBlock inCIDR block a \<longleftrightarrow> inCIDR (ib_CIDR block) a \<and> list_all (\<lambda>c. \<not> inCIDR c a) (ib_Except block)"

definition peerMatches :: "(string \<Rightarrow> 'a \<Rightarrow> bool) \<Rightarrow> string \<Rightarrow> NetworkPolicyPeer \<Rightarrow> 'a net_end \<Rightarrow> bool" where
  "peerMatches inCIDR namespace peer e =
     (case pr_IPBlock peer of
        Some block \<Rightarrow> inBlock inCIDR block (endAddress e)
      | None \<Rightarrow> (case e of Outside _ \<Rightarrow> False
          | InCluster p \<Rightarrow> selected (pr_PodSelector peer) (pd_Labels p) \<and>
              (case pr_NamespaceSelector peer of None \<Rightarrow> pd_Namespace p = namespace | Some m \<Rightarrow> selects m (pd_NamespaceLabels p))))"

definition portMatches :: "'a net_pod \<Rightarrow> string \<Rightarrow> int32 \<Rightarrow> NetworkPolicyPort \<Rightarrow> bool" where
  "portMatches pod proto port q \<longleftrightarrow> nq_Protocol q = proto \<and>
     (case nq_Port q of PortNumber n \<Rightarrow> n = port | PortName s \<Rightarrow> map_of (pd_Ports pod) (s, proto) = Some port)"

definition ruleAllows :: "(string \<Rightarrow> 'a \<Rightarrow> bool) \<Rightarrow> string \<Rightarrow> 'a net_pod \<Rightarrow> 'a net_end \<Rightarrow> string \<Rightarrow> int32 \<Rightarrow> NetworkPolicyRule \<Rightarrow> bool" where
  "ruleAllows inCIDR namespace target e proto port r \<longleftrightarrow>
     (nr_Peers r = [] \<or> list_ex (\<lambda>peer. peerMatches inCIDR namespace peer e) (nr_Peers r)) \<and>
     (nr_Ports r = [] \<or> list_ex (portMatches target proto port) (nr_Ports r))"

definition applies :: "string \<Rightarrow> 'a net_pod \<Rightarrow> NetworkPolicy \<Rightarrow> bool" where
  "applies ptype pod p \<longleftrightarrow> ptype \<in> set (pl_PolicyTypes p) \<and> om_Namespace (pl_Meta p) = pd_Namespace pod \<and> selects (pl_PodSelector p) (pd_Labels pod)"

definition opens :: "(string \<Rightarrow> 'a \<Rightarrow> bool) \<Rightarrow> 'a net_pod \<Rightarrow> 'a net_end \<Rightarrow> string \<Rightarrow> int32 \<Rightarrow> NetworkPolicy \<Rightarrow> bool" where
  "opens inCIDR pod src proto port p \<longleftrightarrow> applies PolicyTypeIngress pod p \<and>
     list_ex (ruleAllows inCIDR (om_Namespace (pl_Meta p)) pod src proto port) (pl_Ingress p)"

definition accepts :: "(string \<Rightarrow> 'a \<Rightarrow> bool) \<Rightarrow> NetworkPolicy list \<Rightarrow> 'a net_pod \<Rightarrow> 'a net_end \<Rightarrow> string \<Rightarrow> int32 \<Rightarrow> bool" where
  "accepts inCIDR policies pod src proto port \<longleftrightarrow>
     (list_ex (applies PolicyTypeIngress pod) policies \<longrightarrow> list_ex (opens inCIDR pod src proto port) policies)"

text \<open>Outgoing connections to a pod or an address.\<close>

definition peerPods :: "'a net_end \<Rightarrow> 'a net_pod \<Rightarrow> 'a net_pod" where
  "peerPods e pod = (case e of InCluster p \<Rightarrow> p | Outside _ \<Rightarrow> pod)"

definition leaves :: "(string \<Rightarrow> 'a \<Rightarrow> bool) \<Rightarrow> 'a net_pod \<Rightarrow> 'a net_end \<Rightarrow> string \<Rightarrow> int32 \<Rightarrow> NetworkPolicy \<Rightarrow> bool" where
  "leaves inCIDR pod dst proto port p \<longleftrightarrow> applies PolicyTypeEgress pod p \<and>
     list_ex (ruleAllows inCIDR (om_Namespace (pl_Meta p)) (peerPods dst pod) dst proto port) (pl_Egress p)"

definition sends :: "(string \<Rightarrow> 'a \<Rightarrow> bool) \<Rightarrow> NetworkPolicy list \<Rightarrow> 'a net_pod \<Rightarrow> 'a net_end \<Rightarrow> string \<Rightarrow> int32 \<Rightarrow> bool" where
  "sends inCIDR policies pod dst proto port \<longleftrightarrow>
     (list_ex (applies PolicyTypeEgress pod) policies \<longrightarrow> list_ex (leaves inCIDR pod dst proto port) policies)"

subsection \<open>The policies of a cluster\<close>

definition clusterPolicies :: "'e net_reads \<Rightarrow> ('f, 'q) AppInstance list \<Rightarrow> NetIngress list \<Rightarrow> NetService list \<Rightarrow> NetDeployment list \<Rightarrow>
    'e net_error + NetworkPolicy list" where
  "clusterPolicies R apps ingresses services deployments =
     bind_err (map_err (ForApp R) apps) (\<lambda>as.
     bind_err (map_err (ForIngress R) ingresses) (\<lambda>is.
     bind_err (map_err (netForService R) services) (\<lambda>ss.
     bind_err (map_err (ForBuilder R) deployments) (\<lambda>ds. Inr (concat (as @ is @ ss @ ds))))))"

text \<open>What an ingress names, the service behind a name, and the ports of a pod that an ingress or a published service opens.\<close>

definition namesPort :: "NetIngress \<Rightarrow> string \<Rightarrow> ServiceBackendPort \<Rightarrow> bool" where
  "namesPort ingress svcName port \<longleftrightarrow> (\<exists>paths. Some paths \<in> set (ni_Rules ingress) \<and> Some (svcName, port) \<in> set paths)"

definition ingressTarget :: "'e net_reads \<Rightarrow> NetIngress \<Rightarrow> string \<Rightarrow> NetService \<Rightarrow> bool" where
  "ingressTarget R ingress svcName svc \<longleftrightarrow> (\<exists>svc0. nx_service R (om_Namespace (ni_Meta ingress)) svcName = Inr (Some svc0) \<and>
     (if nv_Type svc0 = ServiceTypeExternalName then externalTarget R svc0 else Inr svc0) = Inr svc)"

definition targetsPod :: "NetService \<Rightarrow> 'a net_pod \<Rightarrow> bool" where
  "targetsPod svc pod \<longleftrightarrow> om_Namespace (nv_Meta svc) = pd_Namespace pod \<and> selects (nv_Selector svc) (pd_Labels pod)"

definition fromIngressController :: "net_config \<Rightarrow> 'a net_end \<Rightarrow> bool" where
  "fromIngressController cfg src \<longleftrightarrow> (\<exists>p. src = InCluster p \<and> (nc_IngressControllerNamespace cfg = [] \<or>
     gm_get (pd_NamespaceLabels p) nameLabel = Some (nc_IngressControllerNamespace cfg) \<or> gm_get (pd_NamespaceLabels p) nameLabel = Some ''acorn-system''))"

definition openedByIngress :: "'e net_reads \<Rightarrow> net_config \<Rightarrow> NetIngress \<Rightarrow> 'a net_pod \<Rightarrow> 'a net_end \<Rightarrow> string \<Rightarrow> int32 \<Rightarrow> bool" where
  "openedByIngress R cfg ingress pod src proto port \<longleftrightarrow> fromIngressController cfg src \<and>
     (\<exists>svcName bp svc sp. namesPort ingress svcName bp \<and> ingressTarget R ingress svcName svc \<and> targetsPod svc pod \<and>
        sp \<in> set (nv_Ports svc) \<and> portFor bp sp \<and> portMatches pod proto port \<lparr>nq_Protocol = K8sTCP, nq_Port = np_TargetPort sp\<rparr>)"

definition openedByService :: "(string \<Rightarrow> 'a \<Rightarrow> bool) \<Rightarrow> NetService \<Rightarrow> 'a net_pod \<Rightarrow> 'a net_end \<Rightarrow> string \<Rightarrow> int32 \<Rightarrow> bool" where
  "openedByService inCIDR service pod src proto port \<longleftrightarrow> nv_Type service = ServiceTypeLoadBalancer \<and> targetsPod service pod \<and> inCIDR ''0.0.0.0/0'' (endAddress src) \<and>
     (nv_Ports service = [] \<or>
      (\<exists>sp \<in> set (nv_Ports service). proto \<in> {np_Protocol sp} \<union> (if np_Protocol sp = K8sUDP then {K8sTCP} else {}) \<and>
         portMatches pod proto port \<lparr>nq_Protocol = proto, nq_Port = np_TargetPort sp\<rparr>))"

definition fromProject :: "net_config \<Rightarrow> string \<Rightarrow> 'a net_end \<Rightarrow> bool" where
  "fromProject cfg project src \<longleftrightarrow> (\<exists>p. src = InCluster p \<and> (gm_get (pd_NamespaceLabels p) AcornAppNamespace = Some project \<or>
     (\<exists>ns \<in> set (nc_AllowTrafficFromNamespace cfg). gm_get (pd_NamespaceLabels p) nameLabel = Some ns)))"

definition fromAPIServer :: "'a net_end \<Rightarrow> bool" where
  "fromAPIServer src \<longleftrightarrow> (\<exists>p. src = InCluster p \<and> gm_get (pd_NamespaceLabels p) nameLabel = Some system_Namespace \<and> gm_get (pd_Labels p) ''app'' = Some APIServerName)"

definition isBuilder :: "NetDeployment \<Rightarrow> 'a net_pod \<Rightarrow> bool" where
  "isBuilder d pod \<longleftrightarrow> (om_Name (nd_Meta d) = ''buildkitd'' \<or> str_has_prefix (om_Name (nd_Meta d)) ''bld-'') \<and>
     om_Namespace (nd_Meta d) = pd_Namespace pod \<and> selects (nd_PodLabels d) (pd_Labels pod)"

subsection \<open>Lemmas on policies\<close>

lemma selects_simps [simp]:
  "selects [] labels"
  "selects ((k, v) # m) labels \<longleftrightarrow> gm_get labels k = Some v \<and> selects m labels"
  by (simp_all add: selects_def)

lemma peer_namespace [simp]: "peerMatches inCIDR ns (namespacePeer m) src \<longleftrightarrow> (\<exists>p. src = InCluster p \<and> selects m (pd_NamespaceLabels p))"
  by (cases src) (simp_all add: peerMatches_def namespacePeer_def selected_def)

lemma opens_ingressPolicy:
  "opens inCIDR pod src proto port (ingressPolicy name ns sel peers ports) \<longleftrightarrow>
     ns = pd_Namespace pod \<and> selects sel (pd_Labels pod) \<and>
     (peers = [] \<or> list_ex (\<lambda>peer. peerMatches inCIDR ns peer src) peers) \<and> (ports = [] \<or> list_ex (portMatches pod proto port) ports)"
  by (auto simp: opens_def applies_def ingressPolicy_def ruleAllows_def)

lemma applies_ingressPolicy:
  "applies PolicyTypeIngress pod (ingressPolicy name ns sel peers ports) \<longleftrightarrow> ns = pd_Namespace pod \<and> selects sel (pd_Labels pod)"
  by (auto simp: applies_def ingressPolicy_def)

lemma list_ex_allowed:
  "list_ex (\<lambda>peer. peerMatches inCIDR ns peer src) (map (\<lambda>n. namespacePeer [(nameLabel, n)]) l) \<longleftrightarrow>
     (\<exists>p. src = InCluster p \<and> (\<exists>n \<in> set l. gm_get (pd_NamespaceLabels p) nameLabel = Some n))"
  by (auto simp: list_ex_iff)

lemma list_ex_ingressPeers: "list_ex (\<lambda>peer. peerMatches inCIDR ns peer src) (ingressPeers cfg) \<longleftrightarrow> fromIngressController cfg src"
  by (auto simp: ingressPeers_def fromIngressController_def)
subsection \<open>The ports of an ingress\<close>

definition portMap :: "(string, ServiceBackendPort list) gomap \<Rightarrow> bool" where
  "portMap m \<longleftrightarrow> gm_ok m \<and> [] \<notin> snd ` set m"

lemma portMap_set: "portMap m \<Longrightarrow> ports \<noteq> [] \<Longrightarrow> portMap (gm_set m s ports)"
  by (auto simp: portMap_def dest: set_gm_set)

lemma backendPort_ports:
  assumes "backendPort path m = Inr m'" "portMap m"
  shows "portMap m'" "p \<in> set (gm_get_or [] m' s) \<longleftrightarrow> p \<in> set (gm_get_or [] m s) \<or> Some (s, p) = path"
  using assms by (auto simp: backendPort_def gm_get_or_set portMap_set split: option.splits if_splits)

lemma pathLoop_ports:
  assumes "(pathLoop paths m :: 'e net_error + (string, ServiceBackendPort list) gomap) = Inr m'" "portMap m"
  shows "portMap m' \<and> (\<forall>s p. p \<in> set (gm_get_or [] m' s) \<longleftrightarrow> p \<in> set (gm_get_or [] m s) \<or> Some (s, p) \<in> set paths)"
  using assms
proof (induction paths arbitrary: m)
  case (Cons path paths)
  then obtain m1 where b: "(backendPort path m :: 'e net_error + (string, ServiceBackendPort list) gomap) = Inr m1" "(pathLoop paths m1 :: 'e net_error + (string, ServiceBackendPort list) gomap) = Inr m'"
    by (auto simp: bind_err_Inr)
  note c = backendPort_ports [OF b(1) Cons.prems(2)]
  from Cons.IH [OF b(2) c(1)] c(2) show ?case by auto
qed simp

lemma ruleLoop_ports:
  assumes "(ruleLoop rules m :: 'e net_error + (string, ServiceBackendPort list) gomap) = Inr m'" "portMap m"
  shows "portMap m' \<and> (\<forall>s p. p \<in> set (gm_get_or [] m' s) \<longleftrightarrow>
    p \<in> set (gm_get_or [] m s) \<or> (\<exists>paths. Some paths \<in> set rules \<and> Some (s, p) \<in> set paths))"
  using assms
proof (induction rules arbitrary: m)
  case (Cons rule rules)
  then obtain paths m1 where rule: "rule = Some paths" and b: "(pathLoop paths m :: 'e net_error + (string, ServiceBackendPort list) gomap) = Inr m1" "(ruleLoop rules m1 :: 'e net_error + (string, ServiceBackendPort list) gomap) = Inr m'"
    by (cases rule) (auto simp: bind_err_Inr)
  note c = pathLoop_ports [OF b(1) Cons.prems(2)]
  from Cons.IH [OF b(2)] c rule show ?case by auto
qed simp

lemma namesPort_entry:
  assumes "ruleLoop (ni_Rules ingress) [] = Inr m"
  shows "namesPort ingress s p \<longleftrightarrow> (\<exists>ports. (s, ports) \<in> set m \<and> p \<in> set ports)"
proof -
  have "portMap []" by (simp add: portMap_def)
  note r = ruleLoop_ports [OF assms this]
  then have ok: "gm_ok m" by (simp add: portMap_def)
  have "namesPort ingress s p \<longleftrightarrow> p \<in> set (gm_get_or [] m s)"
    using r unfolding namesPort_def by (simp add: gm_get_or_def)
  also have "\<dots> \<longleftrightarrow> (\<exists>ports. gm_get m s = Some ports \<and> p \<in> set ports)"
    by (cases "gm_get m s") (simp_all add: gm_get_or_def)
  finally show ?thesis by (simp add: gm_get_in_set [OF ok])
qed

lemma entry_named:
  assumes "ruleLoop (ni_Rules ingress) [] = Inr m" "(s, ports) \<in> set m"
  obtains p where "namesPort ingress s p"
proof -
  have "portMap m" using ruleLoop_ports [OF assms(1)] by (simp add: portMap_def)
  with assms(2) have "ports \<noteq> []" by (force simp: portMap_def)
  then obtain p where "p \<in> set ports" by (cases ports) auto
  with that namesPort_entry [OF assms(1)] assms(2) show thesis by blast
qed

definition servicePorts :: "NetService \<Rightarrow> ServiceBackendPort list \<Rightarrow> NetworkPolicyPort list" where
  "servicePorts svc ports = concat (map (\<lambda>port. map (\<lambda>sp. \<lparr>nq_Protocol = K8sTCP, nq_Port = np_TargetPort sp\<rparr>) (filter (portFor port) (nv_Ports svc))) ports)"

lemma portStep_ports:
  "fst (portStep R svc port st) = fst st @ map (\<lambda>sp. \<lparr>nq_Protocol = K8sTCP, nq_Port = np_TargetPort sp\<rparr>) (filter (portFor port) (nv_Ports svc))"
proof -
  have "fst (foldl (\<lambda>(netPolPorts, netPolName) svcPort.
         if portFor port svcPort then (netPolPorts @ [\<lparr>nq_Protocol = K8sTCP, nq_Port = np_TargetPort svcPort\<rparr>],
            nx_SafeConcatName R [netPolName, itoa (sint (IntVal (np_TargetPort svcPort)))])
         else (netPolPorts, netPolName)) st sps) =
      fst st @ map (\<lambda>sp. \<lparr>nq_Protocol = K8sTCP, nq_Port = np_TargetPort sp\<rparr>) (filter (portFor port) sps)" for sps
    by (induction sps arbitrary: st) (auto simp: case_prod_beta)
  then show ?thesis by (simp add: portStep_def)
qed

lemma portSteps_ports: "fst (foldl (\<lambda>st port. portStep R svc port st) st ports) = fst st @ servicePorts svc ports"
  by (induction ports arbitrary: st) (simp_all add: servicePorts_def portStep_ports)

lemma set_servicePorts:
  "q \<in> set (servicePorts svc ports) \<longleftrightarrow> (\<exists>port \<in> set ports. \<exists>sp \<in> set (nv_Ports svc). portFor port sp \<and> q = \<lparr>nq_Protocol = K8sTCP, nq_Port = np_TargetPort sp\<rparr>)"
  by (auto simp: servicePorts_def)

text \<open>One entry of the loop.\<close>

definition entryPolicy :: "net_config \<Rightarrow> NetService \<Rightarrow> ServiceBackendPort list \<Rightarrow> NetworkPolicy \<Rightarrow> bool" where
  "entryPolicy cfg svc ports p \<longleftrightarrow> servicePorts svc ports \<noteq> [] \<and>
     (\<exists>name. p = ingressPolicy name (om_Namespace (nv_Meta svc)) (nv_Selector svc) (ingressPeers cfg) (servicePorts svc ports))"

lemma netIngressLoop_Cons:
  assumes "netIngressLoop R cfg ingress pn an ((svcName, ports) # entries) objs = Inr ps"
  shows "nx_service R (om_Namespace (ni_Meta ingress)) svcName = Inr None \<and> ps = objs \<or>
    (\<exists>svc objs'. ingressTarget R ingress svcName svc \<and> netIngressLoop R cfg ingress pn an entries objs' = Inr ps \<and>
       (servicePorts svc ports = [] \<and> objs' = objs \<or> (\<exists>p. entryPolicy cfg svc ports p \<and> objs' = objs @ [p])))"
proof -
  from assms obtain found where found: "nx_service R (om_Namespace (ni_Meta ingress)) svcName = Inr found"
    by (auto simp: bind_err_Inr reads_def map_sum_Inr)
  show ?thesis
  proof (cases found)
    case None
    with assms found show ?thesis by (simp add: reads_def)
  next
    case (Some svc0)
    with assms found obtain svc where svc: "(if nv_Type svc0 = ServiceTypeExternalName then externalTarget R svc0 else Inr svc0) = Inr svc"
      by (auto simp: reads_def bind_err_Inr simp del: netIngressLoop.simps(1) split: if_splits)
    obtain nps name where st: "foldl (\<lambda>st port. portStep R svc port st) ([], nx_SafeConcatName R [pn, an, om_Name (ni_Meta ingress), svcName]) ports = (nps, name)"
      by fastforce
    then have nps: "nps = servicePorts svc ports" using portSteps_ports [of R svc "([], nx_SafeConcatName R [pn, an, om_Name (ni_Meta ingress), svcName])" ports] by simp
    have t: "ingressTarget R ingress svcName svc" using found Some svc by (auto simp: ingressTarget_def)
    from assms found Some svc st
    have "netIngressLoop R cfg ingress pn an entries
        (if nps = [] then objs else objs @ [ingressPolicy name (om_Namespace (nv_Meta svc)) (nv_Selector svc) (ingressPeers cfg) nps]) = Inr ps"
      by (simp add: reads_def split: if_splits)
    with t nps show ?thesis by (cases "nps = []") (auto simp: entryPolicy_def)
  qed
qed

lemma netIngressLoop_keeps:
  assumes "netIngressLoop R cfg ingress pn an entries objs = Inr ps"
  shows "set objs \<subseteq> set ps"
  using assms
proof (induction entries arbitrary: objs)
  case (Cons e entries)
  obtain s ports where e: "e = (s, ports)" by (cases e)
  from netIngressLoop_Cons [OF Cons.prems [unfolded e]] show ?case
    using Cons.IH by fastforce
qed simp

lemma netIngressLoop_sound:
  assumes "netIngressLoop R cfg ingress pn an entries objs = Inr ps" "p \<in> set ps"
  shows "p \<in> set objs \<or> (\<exists>s ports svc. (s, ports) \<in> set entries \<and> ingressTarget R ingress s svc \<and> entryPolicy cfg svc ports p)"
  using assms
proof (induction entries arbitrary: objs)
  case (Cons e entries)
  obtain s ports where e: "e = (s, ports)" by (cases e)
  from netIngressLoop_Cons [OF Cons.prems(1) [unfolded e]] Cons.prems(2) Cons.IH e show ?case
    by (elim disjE exE conjE) fastforce+
qed simp

lemma netIngressLoop_complete:
  assumes "netIngressLoop R cfg ingress pn an entries objs = Inr ps"
    and "\<And>s ports. (s, ports) \<in> set entries \<Longrightarrow> nx_service R (om_Namespace (ni_Meta ingress)) s \<noteq> Inr None"
    and "(s, ports) \<in> set entries" "ingressTarget R ingress s svc" "servicePorts svc ports \<noteq> []"
  shows "\<exists>p \<in> set ps. entryPolicy cfg svc ports p"
  using assms(1-3)
proof (induction entries arbitrary: objs)
  case (Cons e entries)
  obtain s' ports' where e: "e = (s', ports')" by (cases e)
  from netIngressLoop_Cons [OF Cons.prems(1) [unfolded e]] Cons.prems(2) [of s' ports'] e
  obtain svc' objs' where step: "ingressTarget R ingress s' svc'" "netIngressLoop R cfg ingress pn an entries objs' = Inr ps"
    "servicePorts svc' ports' = [] \<and> objs' = objs \<or> (\<exists>p. entryPolicy cfg svc' ports' p \<and> objs' = objs @ [p])"
    by auto
  show ?case
  proof (cases "(s, ports) \<in> set entries")
    case True
    show ?thesis
      by (rule Cons.IH [OF step(2) _ True]) (use Cons.prems(2) in auto)
  next
    case False
    with Cons.prems(3) e have same: "s' = s" "ports' = ports" by simp_all
    with step(1) assms(4) have "svc' = svc" by (auto simp: ingressTarget_def)
    with step(3) same assms(5) obtain p where "entryPolicy cfg svc ports p" "p \<in> set objs'" by auto
    with netIngressLoop_keeps [OF step(2)] show ?thesis by blast
  qed
qed simp
subsection \<open>The policies of each handler\<close>

lemma entryPolicy_opens:
  assumes "entryPolicy cfg svc ports p"
  shows "opens inCIDR pod src proto port p \<longleftrightarrow> targetsPod svc pod \<and> fromIngressController cfg src \<and>
    (\<exists>bp \<in> set ports. \<exists>sp \<in> set (nv_Ports svc). portFor bp sp \<and> portMatches pod proto port \<lparr>nq_Protocol = K8sTCP, nq_Port = np_TargetPort sp\<rparr>)"
proof -
  from assms obtain name where ne: "servicePorts svc ports \<noteq> []"
    and p: "p = ingressPolicy name (om_Namespace (nv_Meta svc)) (nv_Selector svc) (ingressPeers cfg) (servicePorts svc ports)"
    by (auto simp: entryPolicy_def)
  have "list_ex (portMatches pod proto port) (servicePorts svc ports) \<longleftrightarrow>
      (\<exists>bp \<in> set ports. \<exists>sp \<in> set (nv_Ports svc). portFor bp sp \<and> portMatches pod proto port \<lparr>nq_Protocol = K8sTCP, nq_Port = np_TargetPort sp\<rparr>)"
    unfolding list_ex_iff using set_servicePorts by metis
  moreover have "ingressPeers cfg \<noteq> []" by (simp add: ingressPeers_def)
  ultimately show ?thesis
    unfolding p opens_ingressPolicy list_ex_ingressPeers targetsPod_def using ne by auto
qed

lemma ForIngress_run:
  fixes R :: "'e net_reads"
  assumes "nx_config R = Inr cfg" "nc_NetworkPolicies cfg" "ForIngress R ingress = Inr ps"
  shows "ps = [] \<and> (gm_get_or [] (om_Labels (ni_Meta ingress)) AcornAppName = [] \<or> gm_get_or [] (om_Labels (ni_Meta ingress)) AcornAppNamespace = []) \<or>
    (\<exists>m pn an. ruleLoop (ni_Rules ingress) [] = (Inr m :: 'e net_error + _) \<and> netIngressLoop R cfg ingress pn an (typed_Sorted m) [] = Inr ps)"
  using assms by (auto simp: ForIngress_def reads_def Let_def bind_err_Inr split: if_splits)

lemma ForIngress_opened:
  fixes R :: "'e net_reads"
  assumes "nx_config R = Inr cfg" "nc_NetworkPolicies cfg" "ForIngress R ingress = Inr ps" "p \<in> set ps" "opens inCIDR pod src proto port p"
  shows "openedByIngress R cfg ingress pod src proto port"
proof -
  from ForIngress_run [OF assms(1-3)] assms(4) obtain m pn an
    where m: "ruleLoop (ni_Rules ingress) [] = (Inr m :: 'e net_error + _)" and loop: "netIngressLoop R cfg ingress pn an (typed_Sorted m) [] = Inr ps"
    by auto
  from netIngressLoop_sound [OF loop assms(4)] obtain s ports svc
    where e: "(s, ports) \<in> set m" "ingressTarget R ingress s svc" "entryPolicy cfg svc ports p" by auto
  from iffD1 [OF entryPolicy_opens [OF e(3)] assms(5)] obtain bp sp where "targetsPod svc pod" "fromIngressController cfg src" "bp \<in> set ports"
    "sp \<in> set (nv_Ports svc)" "portFor bp sp" "portMatches pod proto port \<lparr>nq_Protocol = K8sTCP, nq_Port = np_TargetPort sp\<rparr>" by auto
  with namesPort_entry [OF m] e(1,2) show ?thesis unfolding openedByIngress_def by blast
qed

lemma ForIngress_opens:
  fixes R :: "'e net_reads"
  assumes "nx_config R = Inr cfg" "nc_NetworkPolicies cfg" "ForIngress R ingress = Inr ps"
    and "gm_get_or [] (om_Labels (ni_Meta ingress)) AcornAppName \<noteq> []" "gm_get_or [] (om_Labels (ni_Meta ingress)) AcornAppNamespace \<noteq> []"
    and found: "\<And>s bp. namesPort ingress s bp \<Longrightarrow> nx_service R (om_Namespace (ni_Meta ingress)) s \<noteq> Inr None"
    and "openedByIngress R cfg ingress pod src proto port"
  shows "\<exists>p \<in> set ps. opens inCIDR pod src proto port p"
proof -
  from ForIngress_run [OF assms(1-3)] assms(4,5) obtain m pn an
    where m: "ruleLoop (ni_Rules ingress) [] = (Inr m :: 'e net_error + _)" and loop: "netIngressLoop R cfg ingress pn an (typed_Sorted m) [] = Inr ps"
    by auto
  from assms(7) obtain s bp svc sp where o: "fromIngressController cfg src" "namesPort ingress s bp" "ingressTarget R ingress s svc" "targetsPod svc pod"
    "sp \<in> set (nv_Ports svc)" "portFor bp sp" "portMatches pod proto port \<lparr>nq_Protocol = K8sTCP, nq_Port = np_TargetPort sp\<rparr>"
    unfolding openedByIngress_def by blast
  from o(2) namesPort_entry [OF m] obtain ports where e: "(s, ports) \<in> set m" "bp \<in> set ports" by blast
  have ne: "servicePorts svc ports \<noteq> []" using set_servicePorts e(2) o(5,6) by (metis empty_iff empty_set)
  have all: "nx_service R (om_Namespace (ni_Meta ingress)) s' \<noteq> Inr None" if "(s', ports') \<in> set (typed_Sorted m)" for s' ports'
    using entry_named [OF m] found that by (metis set_typed_Sorted)
  have "(s, ports) \<in> set (typed_Sorted m)" using e(1) by simp
  from netIngressLoop_complete [OF loop _ this o(3) ne] all obtain p where p: "p \<in> set ps" "entryPolicy cfg svc ports p" by blast
  with entryPolicy_opens [OF p(2)] o e(2) show ?thesis by blast
qed

lemma set_publishedPorts:
  "q \<in> set (publishedPorts service) \<longleftrightarrow> (\<exists>sp \<in> set (nv_Ports service).
     q = \<lparr>nq_Protocol = np_Protocol sp, nq_Port = np_TargetPort sp\<rparr> \<or> np_Protocol sp = K8sUDP \<and> q = \<lparr>nq_Protocol = K8sTCP, nq_Port = np_TargetPort sp\<rparr>)"
  by (auto simp: publishedPorts_def)

lemma publishedPorts_Nil: "publishedPorts service = [] \<longleftrightarrow> nv_Ports service = []"
  by (cases "nv_Ports service") (auto simp: publishedPorts_def)

lemma portMatches_published:
  "list_ex (portMatches pod proto port) (publishedPorts service) \<longleftrightarrow>
     (\<exists>sp \<in> set (nv_Ports service). proto \<in> {np_Protocol sp} \<union> (if np_Protocol sp = K8sUDP then {K8sTCP} else {}) \<and>
        portMatches pod proto port \<lparr>nq_Protocol = proto, nq_Port = np_TargetPort sp\<rparr>)"
  unfolding list_ex_iff Bex_def set_publishedPorts by (auto simp: portMatches_def)

lemma netForService_opened:
  assumes "netForService R service = Inr ps" "p \<in> set ps" "opens inCIDR pod src proto port p"
  shows "openedByService inCIDR service pod src proto port"
proof -
  from assms(1,2) obtain name where lb: "nv_Type service = ServiceTypeLoadBalancer"
    and p: "p = ingressPolicy name (om_Namespace (nv_Meta service)) (nv_Selector service) [anyAddress] (publishedPorts service)"
    by (auto simp: netForService_def bind_err_Inr Let_def split: if_splits)
  have any: "peerMatches inCIDR ns anyAddress src \<longleftrightarrow> inCIDR ''0.0.0.0/0'' (endAddress src)" for ns
    by (simp add: peerMatches_def anyAddress_def inBlock_def)
  from assms(3) lb show ?thesis
    unfolding p opens_ingressPolicy openedByService_def targetsPod_def publishedPorts_Nil portMatches_published by (simp add: any)
qed

lemma apiServer_peer:
  "peerMatches inCIDR ns \<lparr>pr_PodSelector = Some [(''app'', APIServerName)], pr_NamespaceSelector = Some [(nameLabel, system_Namespace)], pr_IPBlock = None\<rparr> src \<longleftrightarrow>
     fromAPIServer src"
  by (cases src) (auto simp: peerMatches_def selected_def fromAPIServer_def)

lemma ForBuilder_opened:
  assumes "ForBuilder R d = Inr ps" "p \<in> set ps" "opens inCIDR pod src proto port p"
  shows "isBuilder d pod \<and> fromAPIServer src"
  using assms by (auto simp: ForBuilder_def bind_err_Inr opens_def applies_def ruleAllows_def isBuilder_def apiServer_peer split: if_splits)

lemma Managed_app: "Managed app [] = [(AcornAppName, om_Name (app_Meta app)), (AcornAppNamespace, om_Namespace (app_Meta app)), (AcornManaged, ''true'')]"
  by (simp add: Managed_def ManagedByApp_def)

lemma ForApp_policy:
  assumes "nx_config R = Inr cfg" "nc_NetworkPolicies cfg"
  shows "ForApp R app = Inr [ingressPolicy (om_Name (app_Meta app)) (is_Namespace (app_Status app)) (Managed app [])
      (namespacePeer [(AcornAppNamespace, om_Namespace (app_Meta app))] #
         map (\<lambda>namespace. namespacePeer [(nameLabel, namespace)]) (nc_AllowTrafficFromNamespace cfg)) []]"
  using assms by (simp add: ForApp_def reads_def)

lemma ForApp_peers:
  "list_ex (\<lambda>peer. peerMatches inCIDR ns peer src) (namespacePeer [(AcornAppNamespace, project)] #
     map (\<lambda>namespace. namespacePeer [(nameLabel, namespace)]) (nc_AllowTrafficFromNamespace cfg)) \<longleftrightarrow> fromProject cfg project src"
  using list_ex_allowed [of inCIDR ns src "nc_AllowTrafficFromNamespace cfg"] by (auto simp: fromProject_def list_ex_iff)

lemma ForApp_opens:
  assumes "nx_config R = Inr cfg" "nc_NetworkPolicies cfg" "ForApp R app = Inr ps" "p \<in> set ps"
  shows "opens inCIDR pod src proto port p \<longleftrightarrow> is_Namespace (app_Status app) = pd_Namespace pod \<and> selects (Managed app []) (pd_Labels pod) \<and>
    fromProject cfg (om_Namespace (app_Meta app)) src"
proof -
  have p: "p = ingressPolicy (om_Name (app_Meta app)) (is_Namespace (app_Status app)) (Managed app [])
      (namespacePeer [(AcornAppNamespace, om_Namespace (app_Meta app))] #
         map (\<lambda>namespace. namespacePeer [(nameLabel, namespace)]) (nc_AllowTrafficFromNamespace cfg)) []"
    using assms(3,4) unfolding ForApp_policy [OF assms(1,2)] by auto
  show ?thesis unfolding p opens_ingressPolicy ForApp_peers by simp
qed

lemma ForApp_covers:
  assumes "nx_config R = Inr cfg" "nc_NetworkPolicies cfg" "pd_Namespace pod = is_Namespace (app_Status app)" "selects (Managed app []) (pd_Labels pod)"
  obtains ps p where "ForApp R app = Inr ps" "p \<in> set ps" "applies PolicyTypeIngress pod p"
  using that [OF ForApp_policy [OF assms(1,2)]] assms(3,4) by (simp add: applies_ingressPolicy)

lemma clusterPolicies_parts:
  assumes "clusterPolicies R apps ingresses services deployments = Inr policies"
  shows "(\<exists>p \<in> set policies. P p) \<longleftrightarrow>
    (\<exists>app \<in> set apps. \<exists>ps. ForApp R app = Inr ps \<and> (\<exists>p \<in> set ps. P p)) \<or> (\<exists>i \<in> set ingresses. \<exists>ps. ForIngress R i = Inr ps \<and> (\<exists>p \<in> set ps. P p)) \<or>
    (\<exists>s \<in> set services. \<exists>ps. netForService R s = Inr ps \<and> (\<exists>p \<in> set ps. P p)) \<or> (\<exists>d \<in> set deployments. \<exists>ps. ForBuilder R d = Inr ps \<and> (\<exists>p \<in> set ps. P p))"
proof -
  have part: "(\<exists>l \<in> set ls. \<exists>p \<in> set l. P p) \<longleftrightarrow> (\<exists>x \<in> set xs. \<exists>ps. f x = Inr ps \<and> (\<exists>p \<in> set ps. P p))" if "map_err f xs = Inr ls" for f :: "'x \<Rightarrow> 'z + NetworkPolicy list" and xs ls
    using that unfolding map_err_projr is_ok_iff by force
  from assms obtain as "is" ss ds where l: "map_err (ForApp R) apps = Inr as" "map_err (ForIngress R) ingresses = Inr is"
    "map_err (netForService R) services = Inr ss" "map_err (ForBuilder R) deployments = Inr ds" and pol: "policies = concat (as @ is @ ss @ ds)"
    by (auto simp: clusterPolicies_def bind_err_Inr)
  have "(\<exists>p \<in> set policies. P p) \<longleftrightarrow> (\<exists>l \<in> set as. \<exists>p \<in> set l. P p) \<or> (\<exists>l \<in> set is. \<exists>p \<in> set l. P p) \<or> (\<exists>l \<in> set ss. \<exists>p \<in> set l. P p) \<or> (\<exists>l \<in> set ds. \<exists>p \<in> set l. P p)"
    unfolding pol by auto
  then show ?thesis unfolding part [OF l(1)] part [OF l(2)] part [OF l(3)] part [OF l(4)] .
qed
subsection \<open>An app behind an ingress\<close>

definition net_demo_config :: net_config where
  "net_demo_config = \<lparr>nc_NetworkPolicies = True, nc_IngressControllerNamespace = ''traefik'', nc_AllowTrafficFromNamespace = [''monitoring'']\<rparr>"

definition net_demo_service :: NetService where
  "net_demo_service = \<lparr>nv_Meta = zero_ObjectMeta\<lparr>om_Name := ''web'', om_Namespace := ''app-ns''\<rparr>, nv_Type = ''ClusterIP'', nv_ExternalName = [],
     nv_Ports = [\<lparr>np_Name = ''http'', np_Protocol = K8sTCP, np_Port = 80, np_TargetPort = PortNumber 8080\<rparr>], nv_Selector = [(AcornContainerName, ''web'')]\<rparr>"

definition net_demo_reads :: "string net_reads" where
  "net_demo_reads = \<lparr>nx_config = Inr net_demo_config, nx_service = (\<lambda>namespace name. Inr (if namespace = ''app-ns'' \<and> name = ''web'' then Some net_demo_service else None)),
     nx_podCIDRs = Inr [[''10.42.0.0/24''], [''10.42.1.0/24'']], nx_SafeConcatName = str_join ''-''\<rparr>"

definition net_demo_ingress :: NetIngress where
  "net_demo_ingress = \<lparr>ni_Meta = zero_ObjectMeta\<lparr>om_Name := ''web'', om_Namespace := ''app-ns'', om_Labels := [(AcornAppName, ''app''), (AcornAppNamespace, ''p'')]\<rparr>,
     ni_Rules = [Some [Some (''web'', \<lparr>bp_Name = [], bp_Number = 80\<rparr>)]]\<rparr>"

definition net_demo_app :: "(nat, nat) AppInstance" where
  "net_demo_app = zero_AppInstance\<lparr>app_Meta := zero_ObjectMeta\<lparr>om_Name := ''app'', om_Namespace := ''p''\<rparr>, app_Status := zero_AppInstanceStatus\<lparr>is_Namespace := ''app-ns''\<rparr>\<rparr>"

definition net_demo_pod :: "string \<Rightarrow> label_map \<Rightarrow> string net_pod" where
  "net_demo_pod namespace labels = \<lparr>pd_Namespace = namespace, pd_NamespaceLabels = [(nameLabel, namespace), (AcornAppNamespace, ''q'')], pd_Labels = labels,
     pd_Address = ''10.42.0.7'', pd_Ports = []\<rparr>"

definition net_demo_web :: "string net_pod" where
  "net_demo_web = net_demo_pod ''app-ns'' [(AcornAppName, ''app''), (AcornAppNamespace, ''p''), (AcornManaged, ''true''), (AcornContainerName, ''web'')]"

definition net_demo_CIDR :: "string \<Rightarrow> string \<Rightarrow> bool" where
  "net_demo_CIDR c a \<longleftrightarrow> c = ''0.0.0.0/0'' \<or> c = ''10.42.0.0/24'' \<and> str_has_prefix a ''10.42.0.''"

definition net_demo_builder :: NetDeployment where
  "net_demo_builder = \<lparr>nd_Meta = zero_ObjectMeta\<lparr>om_Name := ''bld-1'', om_Namespace := ImagesNamespace\<rparr>, nd_PodLabels = [(''app'', ''bld-1'')]\<rparr>"

lemma net_label_names: "AcornAppName \<noteq> AcornAppNamespace" "AcornAppName \<noteq> AcornManaged" "AcornAppName \<noteq> AcornContainerName"
  "AcornAppNamespace \<noteq> AcornManaged" "AcornAppNamespace \<noteq> AcornContainerName" "AcornManaged \<noteq> AcornContainerName" "nameLabel \<noteq> AcornAppNamespace"
  by (simp_all add: AcornAppName_def AcornAppNamespace_def AcornManaged_def AcornContainerName_def nameLabel_def Prefix_def)

lemma net_label_get: "gm_get ((k, v) # m) k' = (if k = k' then Some v else gm_get m k')"
  by (simp add: gm_get_def)

lemmas net_demo_defs = net_demo_config_def net_demo_service_def net_demo_reads_def net_demo_ingress_def net_demo_app_def net_demo_pod_def net_demo_web_def
  net_demo_CIDR_def zero_AppInstance_def zero_AppInstanceStatus_def zero_ObjectMeta_def net_label_names net_label_names [symmetric] net_label_get

definition net_demo_open :: NetworkPolicy where
  "net_demo_open = ingressPolicy ''p-app-web-web-8080'' ''app-ns'' [(AcornContainerName, ''web'')] (ingressPeers net_demo_config) [\<lparr>nq_Protocol = K8sTCP, nq_Port = PortNumber 8080\<rparr>]"

lemma net_demo_ingress_run: "ForIngress net_demo_reads net_demo_ingress = Inr [net_demo_open]"
  by (simp add: net_demo_open_def ForIngress_def net_demo_defs reads_def backendPort_def gm_get_or_def typed_Sorted_def gm_set_def Let_def ServiceTypeExternalName_def
    portStep_def portFor_def IntVal_def itoa_def dec_digits.simps digit_char_def)

definition net_demo_policies :: "NetworkPolicy list" where
  "net_demo_policies = [ingressPolicy ''app'' ''app-ns'' (Managed net_demo_app [])
     [namespacePeer [(AcornAppNamespace, ''p'')], namespacePeer [(nameLabel, ''monitoring'')]] [], net_demo_open]"

lemma net_demo_cluster: "clusterPolicies net_demo_reads [net_demo_app] [net_demo_ingress] [] [] = Inr net_demo_policies"
proof -
  have "ForApp net_demo_reads net_demo_app = Inr [ingressPolicy ''app'' ''app-ns'' (Managed net_demo_app [])
     [namespacePeer [(AcornAppNamespace, ''p'')], namespacePeer [(nameLabel, ''monitoring'')]] []]"
    by (subst ForApp_policy [of _ net_demo_config]) (simp_all add: net_demo_defs)
  then show ?thesis by (simp add: clusterPolicies_def net_demo_policies_def net_demo_ingress_run)
qed

subsection \<open>Properties\<close>



text \<open>C33: the traffic of a project is never cut. Whatever policies the handlers make for the other apps, for ingresses, services and builders, a pod of an
  app accepts every connection from a pod of a namespace of its project and of the namespaces the administrator allows, on every port.\<close>

theorem project_traffic:
  assumes "nx_config R = Inr cfg" "nc_NetworkPolicies cfg" "clusterPolicies R apps ingresses services deployments = Inr policies"
    and "app \<in> set apps" "pd_Namespace pod = is_Namespace (app_Status app)" "selects (Managed app []) (pd_Labels pod)"
    and "fromProject cfg (om_Namespace (app_Meta app)) src"
  shows "accepts inCIDR policies pod src proto port"
proof -
  note on = assms(1,2)
  obtain ps p where p: "ForApp R app = Inr ps" "p \<in> set ps" using ForApp_covers [OF on assms(5,6)] by metis
  have "opens inCIDR pod src proto port p" by (rule iffD2 [OF ForApp_opens [OF on p]]) (use assms(5-7) in simp)
  with p assms(4) have "\<exists>p \<in> set policies. opens inCIDR pod src proto port p"
    unfolding clusterPolicies_parts [OF assms(3)] by blast
  then show ?thesis by (simp add: accepts_def list_ex_iff)
qed

theorem project_traffic_witness:
  "accepts net_demo_CIDR net_demo_policies net_demo_web (InCluster (net_demo_pod ''monitoring'' [])) K8sTCP 9000"
  using project_traffic [OF _ _ net_demo_cluster, of net_demo_config net_demo_app net_demo_web "InCluster (net_demo_pod ''monitoring'' [])" net_demo_CIDR K8sTCP 9000]
  by (simp add: net_demo_defs Managed_app fromProject_def)





end
