(* ===== verification/WorkloadRoles.thy ===== *)
theory WorkloadRoles
  imports Labels PermissionRules
begin

text \<open>
  The rights of workloads: \<open>pkg/controller/appdefinition/permissions.go\<close> and \<open>serviceaccount.go\<close>. Every container and job runs under a service account of
  its own; the rules an app grants to it become roles and bindings of Kubernetes, one per namespace the rules name. The lemmas say what a service
  account may do by these objects, in terms of what the app grants. Which request a single rule covers is an argument.
\<close>

subsection \<open>Objects\<close>

record RBACPolicyRule =
  rv_Verbs :: "string list"
  rv_APIGroups :: "string list"
  rv_Resources :: "string list"
  rv_ResourceNames :: "string list"
  rv_NonResourceURLs :: "string list"

record RBACSubject =
  rj_Kind :: string
  rj_Name :: string
  rj_Namespace :: string

record RoleRef =
  rf_APIGroup :: string
  rf_Kind :: string
  rf_Name :: string

datatype RBACObject =
    ClusterRole ObjectMeta "RBACPolicyRule list"
  | ClusterRoleBinding ObjectMeta "RBACSubject list" RoleRef
  | Role ObjectMeta "RBACPolicyRule list"
  | RoleBinding ObjectMeta "RBACSubject list" RoleRef

subsection \<open>Roles and bindings\<close>

type_synonym labels = "(string, string) gomap"

definition rbacRule :: "PolicyRule \<Rightarrow> RBACPolicyRule" where
  "rbacRule rule = \<lparr>rv_Verbs = pr_Verbs rule, rv_APIGroups = pr_APIGroups rule, rv_Resources = pr_Resources rule,
     rv_ResourceNames = pr_ResourceNames rule, rv_NonResourceURLs = pr_NonResourceURLs rule\<rparr>"

definition toRBACPolicyRules :: "PolicyRule list \<Rightarrow> RBACPolicyRule list" where
  "toRBACPolicyRules rules = map rbacRule rules"

definition rbacGroup :: string where "rbacGroup = ''rbac.authorization.k8s.io''"

definition roleMeta :: "string \<Rightarrow> string \<Rightarrow> labels \<Rightarrow> labels \<Rightarrow> ('f, 'q) AppInstance \<Rightarrow> ObjectMeta" where
  "roleMeta name namespace labelMap annotations appInstance =
     zero_ObjectMeta\<lparr>om_Name := name, om_Namespace := namespace, om_Labels := Merge (Managed appInstance []) labelMap, om_Annotations := annotations\<rparr>"

definition toRoleAndRoleBinding :: "string \<Rightarrow> string \<Rightarrow> string \<Rightarrow> string \<Rightarrow> RBACPolicyRule list \<Rightarrow> labels \<Rightarrow> labels \<Rightarrow> ('f, 'q) AppInstance \<Rightarrow> RBACObject list" where
  "toRoleAndRoleBinding roleName roleNamespace serviceAccountName serviceAccountNamespace rules labelMap annotations appInstance =
     [Role (roleMeta roleName roleNamespace labelMap annotations appInstance) rules,
      RoleBinding (roleMeta roleName roleNamespace labelMap annotations appInstance)
        [\<lparr>rj_Kind = ''ServiceAccount'', rj_Name = serviceAccountName, rj_Namespace = serviceAccountNamespace\<rparr>]
        \<lparr>rf_APIGroup = rbacGroup, rf_Kind = ''Role'', rf_Name = roleName\<rparr>]"

definition rulesByNamespace :: "PolicyRule list \<Rightarrow> string \<Rightarrow> (string, PolicyRule list) gomap" where
  "rulesByNamespace rules project =
     foldl (\<lambda>byNamespace rule. foldl (\<lambda>m ns. gm_set m ns (gm_get_or [] m ns @ [rule])) byNamespace (ResolveNamespaces rule project)) [] rules"

text \<open>Names are cut to what Kubernetes allows by \<open>name.SafeConcatName\<close>, an argument here.\<close>

definition roleName :: "(string list \<Rightarrow> string) \<Rightarrow> string \<Rightarrow> ('f, 'q) AppInstance \<Rightarrow> string \<Rightarrow> string" where
  "roleName SafeConcatName serviceName app namespace =
     SafeConcatName ([serviceName, om_Name (app_Meta app), om_Namespace (app_Meta app), ShortID app] @ (if namespace = [] then [] else [namespace]))"

definition clusterObjects :: "(string list \<Rightarrow> string) \<Rightarrow> Permissions \<Rightarrow> labels \<Rightarrow> labels \<Rightarrow> ('f, 'q) AppInstance \<Rightarrow> string \<Rightarrow> PolicyRule list \<Rightarrow> RBACObject list" where
  "clusterObjects SafeConcatName permissions labelMap annotations app namespace rules =
     (let name = roleName SafeConcatName (pm_ServiceName permissions) app namespace
      in if namespace = [] then
           [ClusterRole (roleMeta name [] labelMap annotations app) (toRBACPolicyRules rules),
            ClusterRoleBinding (roleMeta name [] labelMap annotations app)
              [\<lparr>rj_Kind = ''ServiceAccount'', rj_Name = pm_ServiceName permissions, rj_Namespace = is_Namespace (app_Status app)\<rparr>]
              \<lparr>rf_APIGroup = rbacGroup, rf_Kind = ''ClusterRole'', rf_Name = name\<rparr>]
         else toRoleAndRoleBinding name namespace (pm_ServiceName permissions) (is_Namespace (app_Status app)) (toRBACPolicyRules rules) labelMap annotations app)"

definition toClusterPermissions :: "(string list \<Rightarrow> string) \<Rightarrow> Permissions \<Rightarrow> labels \<Rightarrow> labels \<Rightarrow> ('f, 'q) AppInstance \<Rightarrow> RBACObject list" where
  "toClusterPermissions SafeConcatName permissions labelMap annotations app =
     concat (map (\<lambda>(namespace, rules). clusterObjects SafeConcatName permissions labelMap annotations app namespace rules)
       (typed_Sorted (rulesByNamespace (GetRules permissions) (om_Namespace (app_Meta app)))))"

text \<open>What is read for the objects: the project and its annotations, the annotations of AWS, and JSON. A project that is managed elsewhere gets no roles.\<close>

record ('e, 'f, 'q) role_reads =
  ry_SafeConcatName :: "string list \<Rightarrow> string"
  ry_namespace :: "string \<Rightarrow> 'e + ObjectMeta option"
  ry_awsAnnotations :: "('f, 'q) AppInstance \<Rightarrow> Permissions \<Rightarrow> string \<Rightarrow> 'e + labels"
  ry_marshal :: "Permissions \<Rightarrow> 'e + string"

definition AcornIdentityAccountServerURL :: string where "AcornIdentityAccountServerURL = ''identity.acorn.io/account-server-url''"
definition AcornPermissions :: string where "AcornPermissions = Prefix @ ''permissions''"

definition toPermissions :: "('e, 'f, 'q) role_reads \<Rightarrow> Permissions \<Rightarrow> labels \<Rightarrow> labels \<Rightarrow> ('f, 'q) AppInstance \<Rightarrow> 'e + RBACObject list" where
  "toPermissions R permissions labelMap annotations app =
     bind_err (ry_namespace R (om_Namespace (app_Meta app))) (\<lambda>ns.
       let nsAnnotations = (case ns of None \<Rightarrow> [] | Some meta \<Rightarrow> om_Annotations meta)
       in if gm_get_or [] nsAnnotations AcornIdentityAccountServerURL \<noteq> [] then Inr []
          else Inr (toClusterPermissions (ry_SafeConcatName R) permissions labelMap annotations app))"

definition awsPermissions :: "('f, 'q) AppInstance \<Rightarrow> string \<Rightarrow> Permissions" where
  "awsPermissions app saName =
     fold (\<lambda>perm perms. if pm_ServiceName perm = saName then perms\<lparr>pm_Rules := pm_Rules perms @ pm_Rules perm\<rparr> else perms)
       (GetPermissions (app_Spec app)) (zero_Permissions\<lparr>pm_ServiceName := saName\<rparr>)"

definition addAWS :: "('e, 'f, 'q) role_reads \<Rightarrow> ('f, 'q) AppInstance \<Rightarrow> ObjectMeta \<Rightarrow> 'e + ObjectMeta" where
  "addAWS R app sa =
     (let perms = awsPermissions app (om_Name sa)
      in bind_err (ry_awsAnnotations R app perms (om_Name sa)) (\<lambda>annotations.
         bind_err (if HasRules (Some perms) then bind_err (ry_marshal R perms) (\<lambda>data. Inr (gm_set annotations AcornPermissions data)) else Inr annotations) (\<lambda>annotations.
         Inr (sa\<lparr>om_Annotations := Merge (om_Annotations sa) annotations\<rparr>))))"

definition toServiceAccount :: "('e, 'f, 'q) role_reads \<Rightarrow> string \<Rightarrow> labels \<Rightarrow> labels \<Rightarrow> ('f, 'q) AppInstance \<Rightarrow> 'e + ObjectMeta" where
  "toServiceAccount R saName labelMap annotations app =
     addAWS R app (zero_ObjectMeta\<lparr>om_Name := saName, om_Namespace := is_Namespace (app_Status app), om_Labels := labelMap, om_Annotations := annotations\<rparr>)"

text \<open>The roles of one container or job.\<close>

definition workloadRoles :: "('e, 'f, 'q) role_reads \<Rightarrow> ('f, 'q) AppInstance \<Rightarrow> string \<Rightarrow> labels \<Rightarrow> labels \<Rightarrow> 'e + RBACObject list" where
  "workloadRoles R app name labelMap annotations =
     (let perms = FindPermission name (GetPermissions (app_Spec app))
      in if HasRules (Some perms) then toPermissions R perms labelMap annotations app else Inr [])"

subsection \<open>What Kubernetes documents of roles\<close>

text \<open>
  An account may make a request when a cluster binding, or a binding of the namespace of the request, has the account as a subject and refers to a role
  with a rule that covers the request. \<open>covers\<close> says which requests a rule covers.
\<close>

definition account :: "string \<Rightarrow> string \<Rightarrow> RBACSubject" where
  "account namespace name = \<lparr>rj_Kind = ''ServiceAccount'', rj_Name = name, rj_Namespace = namespace\<rparr>"

fun roleRules :: "RBACObject list \<Rightarrow> string \<Rightarrow> string \<Rightarrow> string \<Rightarrow> RBACPolicyRule list" where
  "roleRules [] kind namespace name = []"
| "roleRules (ClusterRole meta rules # objs) kind namespace name =
     (if kind = ''ClusterRole'' \<and> om_Name meta = name then rules else []) @ roleRules objs kind namespace name"
| "roleRules (Role meta rules # objs) kind namespace name =
     (if kind = ''Role'' \<and> om_Namespace meta = namespace \<and> om_Name meta = name then rules else []) @ roleRules objs kind namespace name"
| "roleRules (_ # objs) kind namespace name = roleRules objs kind namespace name"

definition binds :: "(RBACPolicyRule \<Rightarrow> 'r \<Rightarrow> bool) \<Rightarrow> RBACObject list \<Rightarrow> RBACSubject \<Rightarrow> string \<Rightarrow> 'r \<Rightarrow> RBACObject \<Rightarrow> bool" where
  "binds covers objs subject namespace req obj =
     (case obj of
        ClusterRoleBinding meta subjects ref \<Rightarrow> subject \<in> set subjects \<and> list_ex (\<lambda>rule. covers rule req) (roleRules objs (rf_Kind ref) [] (rf_Name ref))
      | RoleBinding meta subjects ref \<Rightarrow> om_Namespace meta = namespace \<and> subject \<in> set subjects \<and>
          list_ex (\<lambda>rule. covers rule req) (roleRules objs (rf_Kind ref) namespace (rf_Name ref))
      | _ \<Rightarrow> False)"

definition account_may :: "(RBACPolicyRule \<Rightarrow> 'r \<Rightarrow> bool) \<Rightarrow> RBACObject list \<Rightarrow> RBACSubject \<Rightarrow> string \<Rightarrow> 'r \<Rightarrow> bool" where
  "account_may covers objs subject namespace req \<longleftrightarrow> list_ex (binds covers objs subject namespace req) objs"

subsection \<open>Lemmas\<close>

lemma roleRules_append [simp]: "roleRules (xs @ ys) kind namespace name = roleRules xs kind namespace name @ roleRules ys kind namespace name"
  by (induction xs kind namespace name rule: roleRules.induct) simp_all

lemma set_roleRules_concat: "set (roleRules (concat xss) kind namespace name) = (\<Union>xs \<in> set xss. set (roleRules xs kind namespace name))"
  by (induction xss) auto

lemma addRule_get:
  "gm_get_or [] (foldl (\<lambda>m ns. gm_set m ns (gm_get_or [] m ns @ [rule])) m nss) n =
     gm_get_or [] m n @ replicate (count_list nss n) rule"
  by (induction nss arbitrary: m) (auto simp: gm_get_or_set simp flip: replicate_append_same)

lemma addRule_ok: "gm_ok m \<Longrightarrow> gm_ok (foldl (\<lambda>m ns. gm_set m ns (gm_get_or [] m ns @ [rule])) m nss)"
  by (induction nss arbitrary: m) simp_all

lemma rulesByNamespace_step:
  "set (gm_get_or [] (foldl (\<lambda>byNamespace rule. foldl (\<lambda>m ns. gm_set m ns (gm_get_or [] m ns @ [rule])) byNamespace (ResolveNamespaces rule project)) m rules) n) =
     set (gm_get_or [] m n) \<union> {rule \<in> set rules. n \<in> set (ResolveNamespaces rule project)}"
proof (induction rules arbitrary: m)
  case (Cons rule rules)
  have c: "count_list nss n = 0 \<longleftrightarrow> n \<notin> set nss" for nss :: "string list" by (simp add: count_list_0_iff)
  have "set (replicate (count_list (ResolveNamespaces rule project) n) rule) = (if n \<in> set (ResolveNamespaces rule project) then {rule} else {})"
    using c [of "ResolveNamespaces rule project"] by auto
  then show ?case by (auto simp: Cons.IH addRule_get)
qed simp

lemma rulesByNamespace_ok: "gm_ok (rulesByNamespace rules project)"
proof -
  have "gm_ok (foldl (\<lambda>byNamespace rule. foldl (\<lambda>m ns. gm_set m ns (gm_get_or [] m ns @ [rule])) byNamespace (ResolveNamespaces rule project)) m rules)" if "gm_ok m" for m
    using that by (induction rules arbitrary: m) (simp_all add: addRule_ok)
  then show ?thesis by (simp add: rulesByNamespace_def)
qed

lemma rulesByNamespace_rules:
  "(\<exists>rules. (n, rules) \<in> set (rulesByNamespace all project) \<and> rule \<in> set rules) \<longleftrightarrow> rule \<in> set all \<and> n \<in> set (ResolveNamespaces rule project)"
proof -
  have "rule \<in> set all \<and> n \<in> set (ResolveNamespaces rule project) \<longleftrightarrow> rule \<in> set (gm_get_or [] (rulesByNamespace all project) n)"
    by (simp add: rulesByNamespace_def rulesByNamespace_step) (simp add: gm_get_or_def)
  also have "\<dots> \<longleftrightarrow> (\<exists>rules. gm_get (rulesByNamespace all project) n = Some rules \<and> rule \<in> set rules)"
    by (cases "gm_get (rulesByNamespace all project) n") (simp_all add: gm_get_or_def)
  finally show ?thesis by (simp add: gm_get_in_set [OF rulesByNamespace_ok])
qed

lemma roleMeta_simps [simp]:
  "om_Name (roleMeta name namespace l a app) = name" "om_Namespace (roleMeta name namespace l a app) = namespace"
  by (simp_all add: roleMeta_def)

subsection \<open>The objects of an app\<close>

text \<open>The roles of all its containers and jobs, each with its labels and annotations.\<close>

definition appRoles :: "('e, 'f, 'q) role_reads \<Rightarrow> ('f, 'q) AppInstance \<Rightarrow> (string \<times> labels \<times> labels) list \<Rightarrow> 'e + RBACObject list" where
  "appRoles R app parts = bind_err (map_err (\<lambda>(name, labelMap, annotations). workloadRoles R app name labelMap annotations) parts) (\<lambda>objs. Inr (concat objs))"

definition grantedRules :: "('f, 'q) AppInstance \<Rightarrow> string \<Rightarrow> PolicyRule set" where
  "grantedRules app name = {rule. \<exists>perm \<in> set (GetPermissions (app_Spec app)). pm_ServiceName perm = name \<and> rule \<in> set (GetRules perm)}"

definition entries :: "('f, 'q) AppInstance \<Rightarrow> string \<Rightarrow> (string \<times> PolicyRule list) list" where
  "entries app name = typed_Sorted (rulesByNamespace (GetRules (FindPermission name (GetPermissions (app_Spec app)))) (om_Namespace (app_Meta app)))"

lemma FindPermission_granted: "set (GetRules (FindPermission name (GetPermissions (app_Spec app)))) = grantedRules app name"
  by (auto simp: FindPermission_eq GetRules_def grantedRules_def)

lemma FindPermission_name [simp]: "pm_ServiceName (FindPermission name perms) = name"
  by (simp add: FindPermission_eq)

lemma entries_rules:
  "(\<exists>rules. (n, rules) \<in> set (entries app name) \<and> rule \<in> set rules) \<longleftrightarrow> rule \<in> grantedRules app name \<and> n \<in> set (ResolveNamespaces rule (om_Namespace (app_Meta app)))"
  by (simp add: entries_def rulesByNamespace_rules FindPermission_granted)

lemma workloadRoles_objects:
  assumes "workloadRoles R app name l a = Inr objs"
  shows "objs = [] \<or> objs = concat (map (\<lambda>(n, rules). clusterObjects (ry_SafeConcatName R) (FindPermission name (GetPermissions (app_Spec app))) l a app n rules) (entries app name))"
  using assms by (auto simp: workloadRoles_def toPermissions_def toClusterPermissions_def entries_def bind_err_Inr Let_def split: if_splits)

lemma roleRules_clusterObjects:
  "set (roleRules (clusterObjects S p l a app n rules) kind ns name) =
     (if roleName S (pm_ServiceName p) app n = name \<and> (n = [] \<and> kind = ''ClusterRole'' \<or> n \<noteq> [] \<and> kind = ''Role'' \<and> n = ns) then rbacRule ` set rules else {})"
  by (auto simp: clusterObjects_def Let_def toRoleAndRoleBinding_def toRBACPolicyRules_def)

lemma binds_clusterObjects:
  "(\<exists>obj \<in> set (clusterObjects S p l a app n rules). binds covers objs subject ns req obj) \<longleftrightarrow>
     subject = account (is_Namespace (app_Status app)) (pm_ServiceName p) \<and> (n = [] \<or> n = ns) \<and>
     (\<exists>rule \<in> set (roleRules objs (if n = [] then ''ClusterRole'' else ''Role'') n (roleName S (pm_ServiceName p) app n)). covers rule req)"
  by (auto simp: clusterObjects_def Let_def toRoleAndRoleBinding_def binds_def account_def list_ex_iff)

lemma appRoles_objects:
  assumes "appRoles R app parts = Inr objs"
  obtains chosen where "set chosen \<subseteq> set parts"
    "\<And>obj. obj \<in> set objs \<longleftrightarrow> (\<exists>(name, l, a) \<in> set chosen. \<exists>(n, rules) \<in> set (entries app name).
       obj \<in> set (clusterObjects (ry_SafeConcatName R) (FindPermission name (GetPermissions (app_Spec app))) l a app n rules))"
    "\<And>kind ns name. set (roleRules objs kind ns name) = (\<Union>(s, l, a) \<in> set chosen. \<Union>(n, rules) \<in> set (entries app s).
       set (roleRules (clusterObjects (ry_SafeConcatName R) (FindPermission s (GetPermissions (app_Spec app))) l a app n rules) kind ns name))"
proof -
  let ?objs = "\<lambda>(name, l, a). concat (map (\<lambda>(n, rules). clusterObjects (ry_SafeConcatName R) (FindPermission name (GetPermissions (app_Spec app))) l a app n rules) (entries app name))"
  from assms obtain os where os: "map_err (\<lambda>(name, l, a). workloadRoles R app name l a) parts = Inr os" and objs: "objs = concat os"
    by (auto simp: appRoles_def bind_err_Inr)
  have "\<exists>chosen. set chosen \<subseteq> set parts \<and> concat os = concat (map ?objs chosen)"
    using os
  proof (induction parts arbitrary: os)
    case (Cons part parts)
    obtain name l a where p: "part = (name, l, a)" by (cases part)
    from Cons.prems p obtain o1 os' where o: "workloadRoles R app name l a = Inr o1" "map_err (\<lambda>(name, l, a). workloadRoles R app name l a) parts = Inr os'" "os = o1 # os'"
      by (auto simp: bind_err_Inr)
    from Cons.IH [OF o(2)] obtain chosen where c: "set chosen \<subseteq> set parts" "concat os' = concat (map ?objs chosen)" by blast
    show ?case
    proof (cases "o1 = []")
      case True
      with c o(3) show ?thesis by (intro exI [of _ chosen]) auto
    next
      case False
      with workloadRoles_objects [OF o(1)] have "o1 = ?objs (name, l, a)" by simp
      with c o(3) p show ?thesis by (intro exI [of _ "(name, l, a) # chosen"]) auto
    qed
  qed (auto intro: exI [of _ "[]"])
  then obtain chosen where c: "set chosen \<subseteq> set parts" "objs = concat (map ?objs chosen)" using objs by blast
  show thesis
  proof (rule that [OF c(1)])
    show "obj \<in> set objs \<longleftrightarrow> (\<exists>(name, l, a) \<in> set chosen. \<exists>(n, rules) \<in> set (entries app name).
       obj \<in> set (clusterObjects (ry_SafeConcatName R) (FindPermission name (GetPermissions (app_Spec app))) l a app n rules))" for obj
      unfolding c(2) by (auto simp: case_prod_beta)
    show "set (roleRules objs kind ns name) = (\<Union>(s, l, a) \<in> set chosen. \<Union>(n, rules) \<in> set (entries app s).
       set (roleRules (clusterObjects (ry_SafeConcatName R) (FindPermission s (GetPermissions (app_Spec app))) l a app n rules) kind ns name))" for kind ns name
      unfolding c(2) by (auto simp: set_roleRules_concat case_prod_beta)
  qed
qed

text \<open>Different parts have different role names.\<close>

definition roles_distinct :: "('e, 'f, 'q) role_reads \<Rightarrow> ('f, 'q) AppInstance \<Rightarrow> string set \<Rightarrow> bool" where
  "roles_distinct R app names \<longleftrightarrow> (\<forall>n. inj_on (\<lambda>s. roleName (ry_SafeConcatName R) s app n) names)"

lemma account_may_granted:
  assumes "appRoles R app parts = Inr objs" "roles_distinct R app (fst ` set parts)" "account_may covers objs subject ns req"
  shows "\<exists>name \<in> fst ` set parts. subject = account (is_Namespace (app_Status app)) name \<and>
    (\<exists>rule \<in> grantedRules app name. covers (rbacRule rule) req \<and> (\<exists>n \<in> set (ResolveNamespaces rule (om_Namespace (app_Meta app))). n = [] \<or> n = ns))"
proof -
  obtain chosen where c: "set chosen \<subseteq> set parts"
    "\<And>obj. obj \<in> set objs \<longleftrightarrow> (\<exists>(name, l, a) \<in> set chosen. \<exists>(n, rules) \<in> set (entries app name).
       obj \<in> set (clusterObjects (ry_SafeConcatName R) (FindPermission name (GetPermissions (app_Spec app))) l a app n rules))"
    "\<And>kind ns name. set (roleRules objs kind ns name) = (\<Union>(s, l, a) \<in> set chosen. \<Union>(n, rules) \<in> set (entries app s).
       set (roleRules (clusterObjects (ry_SafeConcatName R) (FindPermission s (GetPermissions (app_Spec app))) l a app n rules) kind ns name))"
    by (rule appRoles_objects [OF assms(1)]) blast
  from assms(3) obtain obj where obj: "obj \<in> set objs" "binds covers objs subject ns req obj" by (auto simp: account_may_def list_ex_iff)
  from obj(1) c(2) obtain name l a n rules where e: "(name, l, a) \<in> set chosen" "(n, rules) \<in> set (entries app name)"
    "obj \<in> set (clusterObjects (ry_SafeConcatName R) (FindPermission name (GetPermissions (app_Spec app))) l a app n rules)" by blast
  with obj(2) binds_clusterObjects [of "ry_SafeConcatName R" "FindPermission name (GetPermissions (app_Spec app))" l a app n rules covers objs subject ns req]
  obtain rule where b: "subject = account (is_Namespace (app_Status app)) name" "n = [] \<or> n = ns" "covers rule req"
    "rule \<in> set (roleRules objs (if n = [] then ''ClusterRole'' else ''Role'') n (roleName (ry_SafeConcatName R) name app n))" by auto
  from b(4) [unfolded c(3)] obtain s l' a' n' rules' where r: "(s, l', a') \<in> set chosen" "(n', rules') \<in> set (entries app s)"
    "rule \<in> set (roleRules (clusterObjects (ry_SafeConcatName R) (FindPermission s (GetPermissions (app_Spec app))) l' a' app n' rules')
       (if n = [] then ''ClusterRole'' else ''Role'') n (roleName (ry_SafeConcatName R) name app n))" by blast
  from r(3) have r': "n' = n" "roleName (ry_SafeConcatName R) s app n' = roleName (ry_SafeConcatName R) name app n" "rule \<in> rbacRule ` set rules'"
    unfolding roleRules_clusterObjects by (auto split: if_splits)
  have "s \<in> fst ` set parts" "name \<in> fst ` set parts" using r(1) e(1) c(1) by (force+)
  with assms(2) r'(1,2) have "s = name" by (auto simp: roles_distinct_def inj_on_def)
  from r'(3) obtain rule' where rule': "rule = rbacRule rule'" "rule' \<in> set rules'" by auto
  with r(2) \<open>s = name\<close> r'(1) entries_rules [of n app name rule'] have "rule' \<in> grantedRules app name" "n \<in> set (ResolveNamespaces rule' (om_Namespace (app_Meta app)))" by auto
  with b(1-3) rule'(1) \<open>name \<in> fst ` set parts\<close> show ?thesis by blast
qed

text \<open>In a project that is not managed elsewhere every granted rule is given.\<close>

lemma granted_account_may:
  assumes "workloadRoles R app name l a = Inr objs" "ry_namespace R (om_Namespace (app_Meta app)) = Inr meta"
    and "gm_get_or [] (case meta of None \<Rightarrow> [] | Some m \<Rightarrow> om_Annotations m) AcornIdentityAccountServerURL = []"
    and "rule \<in> grantedRules app name" "covers (rbacRule rule) req" "n \<in> set (ResolveNamespaces rule (om_Namespace (app_Meta app)))" "n = [] \<or> n = ns"
  shows "account_may covers objs (account (is_Namespace (app_Status app)) name) ns req"
proof -
  let ?p = "FindPermission name (GetPermissions (app_Spec app))"
  have "GetRules ?p \<noteq> []" using assms(4) FindPermission_granted [of name app] by (metis empty_iff list.set(1))
  then have "HasRules (Some ?p)" by (auto simp: HasRules_def GetRules_def)
  with assms(1-3) have objs: "objs = concat (map (\<lambda>(n, rules). clusterObjects (ry_SafeConcatName R) ?p l a app n rules) (entries app name))"
    by (simp add: workloadRoles_def toPermissions_def toClusterPermissions_def entries_def Let_def)
  from assms(4,6) entries_rules [of n app name rule] obtain rules where e: "(n, rules) \<in> set (entries app name)" "rule \<in> set rules" by blast
  let ?os = "clusterObjects (ry_SafeConcatName R) ?p l a app n rules"
  have sub: "set ?os \<subseteq> set objs" and roles: "set (roleRules ?os kind m x) \<subseteq> set (roleRules objs kind m x)" for kind m x
    unfolding objs using e(1) by (force simp: set_roleRules_concat)+
  have "rbacRule rule \<in> set (roleRules objs (if n = [] then ''ClusterRole'' else ''Role'') n (roleName (ry_SafeConcatName R) name app n))"
    by (rule subsetD [OF roles]) (use e(2) in \<open>simp add: roleRules_clusterObjects\<close>)
  then have "\<exists>obj \<in> set ?os. binds covers objs (account (is_Namespace (app_Status app)) name) ns req obj"
    unfolding binds_clusterObjects using assms(5,7) by auto
  with sub show ?thesis by (auto simp: account_may_def list_ex_iff)
qed

subsection \<open>Properties\<close>

text \<open>C40: the rights of a service account. By the roles and bindings made for a container or job, in a project that is not managed elsewhere, an account
  may make a request in a namespace exactly when it is the account of that container or job in the namespace of the app, and a rule that the app
  grants to it covers the request and resolves to that namespace or to the whole cluster.\<close>

theorem service_account_rights:
  assumes "workloadRoles R app name labelMap annotations = Inr objs" "ry_namespace R (om_Namespace (app_Meta app)) = Inr meta"
    and "gm_get_or [] (case meta of None \<Rightarrow> [] | Some m \<Rightarrow> om_Annotations m) AcornIdentityAccountServerURL = []"
  shows "account_may covers objs subject namespace req \<longleftrightarrow> subject = account (is_Namespace (app_Status app)) name \<and>
    (\<exists>rule \<in> grantedRules app name. covers (rbacRule rule) req \<and>
       (\<exists>n \<in> set (ResolveNamespaces rule (om_Namespace (app_Meta app))). n = [] \<or> n = namespace))"
proof
  have "appRoles R app [(name, labelMap, annotations)] = Inr objs" using assms(1) by (simp add: appRoles_def)
  moreover have "roles_distinct R app (fst ` set [(name, labelMap, annotations)])" by (simp add: roles_distinct_def)
  moreover assume "account_may covers objs subject namespace req"
  ultimately show "subject = account (is_Namespace (app_Status app)) name \<and>
    (\<exists>rule \<in> grantedRules app name. covers (rbacRule rule) req \<and>
       (\<exists>n \<in> set (ResolveNamespaces rule (om_Namespace (app_Meta app))). n = [] \<or> n = namespace))"
    using account_may_granted by fastforce
next
  assume "subject = account (is_Namespace (app_Status app)) name \<and>
    (\<exists>rule \<in> grantedRules app name. covers (rbacRule rule) req \<and>
       (\<exists>n \<in> set (ResolveNamespaces rule (om_Namespace (app_Meta app))). n = [] \<or> n = namespace))"
  then obtain rule n where o: "subject = account (is_Namespace (app_Status app)) name" "rule \<in> grantedRules app name" "covers (rbacRule rule) req"
    "n \<in> set (ResolveNamespaces rule (om_Namespace (app_Meta app)))" "n = [] \<or> n = namespace" by blast
  show "account_may covers objs subject namespace req" unfolding o(1) using granted_account_may [OF assms o(2), of covers req n namespace] o(3-5) by simp
qed

definition role_demo_rule :: PolicyRule where
  "role_demo_rule = zero_PolicyRule\<lparr>pr_Verbs := [''get''], pr_APIGroups := [''''], pr_Resources := [''secrets'']\<rparr>"

definition role_demo_app :: "(nat, nat) AppInstance" where
  "role_demo_app = zero_AppInstance\<lparr>app_Meta := zero_ObjectMeta\<lparr>om_Name := ''app'', om_Namespace := ''p''\<rparr>,
     app_Spec := zero_AppInstanceSpec\<lparr>ai_Permissions := [\<lparr>pm_ServiceName = ''web'', pm_Rules = [role_demo_rule], pm_ClusterRules = []\<rparr>]\<rparr>,
     app_Status := zero_AppInstanceStatus\<lparr>is_Namespace := ''app-ns''\<rparr>\<rparr>"

definition role_demo_reads :: "(string, nat, nat) role_reads" where
  "role_demo_reads = \<lparr>ry_SafeConcatName = str_join ''-'', ry_namespace = (\<lambda>_. Inr None), ry_awsAnnotations = (\<lambda>_ _ _. Inr []), ry_marshal = (\<lambda>_. Inr ''{}'')\<rparr>"

definition role_demo_covers :: "RBACPolicyRule \<Rightarrow> string \<times> string \<Rightarrow> bool" where
  "role_demo_covers rule = (\<lambda>(verb, resource). verb \<in> set (rv_Verbs rule) \<and> resource \<in> set (rv_Resources rule))"

theorem service_account_rights_witness:
  "case workloadRoles role_demo_reads role_demo_app ''web'' [] [] of Inl _ \<Rightarrow> False
   | Inr objs \<Rightarrow> account_may role_demo_covers objs (account ''app-ns'' ''web'') ''p'' (''get'', ''secrets'') \<and>
       \<not> account_may role_demo_covers objs (account ''app-ns'' ''web'') ''q'' (''get'', ''secrets'') \<and>
       \<not> account_may role_demo_covers objs (account ''app-ns'' ''other'') ''p'' (''get'', ''secrets'')"
proof -
  have "\<exists>objs. workloadRoles role_demo_reads role_demo_app ''web'' [] [] = Inr objs"
    by (auto simp: workloadRoles_def toPermissions_def role_demo_reads_def gm_get_or_def Let_def)
  then obtain objs where objs: "workloadRoles role_demo_reads role_demo_app ''web'' [] [] = Inr objs" by blast
  have g: "grantedRules role_demo_app ''web'' = {role_demo_rule}"
    by (auto simp: grantedRules_def GetPermissions_def role_demo_app_def zero_AppInstanceSpec_def GetRules_def)
  have r: "ResolveNamespaces role_demo_rule ''p'' = [''p'']"
    by (simp add: role_demo_rule_def zero_PolicyRule_def ResolveNamespaces_def Namespaces_def IsProjectScoped_def IsAccountScoped_def Let_def gm_set_def)
  have m: "om_Namespace (app_Meta role_demo_app) = ''p''" "is_Namespace (app_Status role_demo_app) = ''app-ns''"
    by (simp_all add: role_demo_app_def)
  have c: "role_demo_covers (rbacRule role_demo_rule) (''get'', ''secrets'')"
    by (simp add: role_demo_covers_def rbacRule_def role_demo_rule_def)
  have "account_may role_demo_covers objs subject namespace (''get'', ''secrets'') \<longleftrightarrow> subject = account ''app-ns'' ''web'' \<and> namespace = ''p''" for subject namespace
    using service_account_rights [OF objs, of None role_demo_covers subject namespace "(''get'', ''secrets'')"]
    by (simp add: g r m c role_demo_reads_def gm_get_or_def eq_commute [of namespace])
  then show ?thesis by (simp add: objs account_def)
qed

end
