(* ===== verification/PodTemplates.thy ===== *)
theory PodTemplates
  imports Interpolation NetworkPolicies WorkloadRoles
begin

text \<open>
  The pods of an app: the containers, volumes and labels which \<open>deploy.go\<close>, \<open>jobs.go\<close>, \<open>pullsecrets.go\<close> and \<open>volume.go\<close> of
  \<open>pkg/controller/appdefinition\<close> render, and \<open>pkg/pdb\<close>. The rendering uses the interpolator of the app and the pull secrets, which are its state; it may
  fail, panic or not return. Hashes, shortened names, images, JSON, the parser of ports and reads of the cluster are arguments (\<open>object_lib\<close>). The
  lemmas say that every mount of a pod has its volume, that a deployment selects its own pods and no others, and what a stopped app runs.
\<close>

subsection \<open>Objects of Kubernetes\<close>

datatype 'q KVolumeSource =
    SecretVolume string "int option"
  | ClaimVolume string
  | EmptyDirVolume "'q option" string

record 'q KVolume =
  kv_Name :: string
  kv_Source :: "'q KVolumeSource"

record KContainerPort =
  ko_ContainerPort :: int32
  ko_Protocol :: string

record KHTTPGet =
  kh_Scheme :: string
  kh_Host :: string
  kh_Port :: IntOrString
  kh_Path :: string
  kh_Headers :: "(string \<times> string) list"

record KProbeHandler =
  kn_TCPSocket :: "(string \<times> IntOrString) option"
  kn_Exec :: "string list option"
  kn_HTTPGet :: "KHTTPGet option"

record KProbe =
  kr_Handler :: KProbeHandler
  kr_InitialDelaySeconds :: int32
  kr_TimeoutSeconds :: int32
  kr_PeriodSeconds :: int32
  kr_SuccessThreshold :: int32
  kr_FailureThreshold :: int32

record 'q KContainer =
  kc_Name :: string
  kc_Image :: string
  kc_Command :: "string list"
  kc_Args :: "string list"
  kc_WorkingDir :: string
  kc_Env :: "KEnvVar list"
  kc_EnvFrom :: "(string \<times> string) list"
  kc_TTY :: bool
  kc_Stdin :: bool
  kc_Ports :: "KContainerPort list"
  kc_VolumeMounts :: "KVolumeMount list"
  kc_LivenessProbe :: "KProbe option"
  kc_StartupProbe :: "KProbe option"
  kc_ReadinessProbe :: "KProbe option"
  kc_Requests :: "(string, 'q) gomap"
  kc_Limits :: "(string, 'q) gomap"
  kc_ImagePullPolicy :: string

definition zero_KContainer :: "'q KContainer" where
  "zero_KContainer = \<lparr>kc_Name = [], kc_Image = [], kc_Command = [], kc_Args = [], kc_WorkingDir = [], kc_Env = [], kc_EnvFrom = [], kc_TTY = False,
     kc_Stdin = False, kc_Ports = [], kc_VolumeMounts = [], kc_LivenessProbe = None, kc_StartupProbe = None, kc_ReadinessProbe = None,
     kc_Requests = [], kc_Limits = [], kc_ImagePullPolicy = []\<rparr>"

record 'q KPodSpec =
  ps_Affinity :: "Affinity option"
  ps_Tolerations :: "Toleration list"
  ps_PriorityClassName :: string
  ps_TerminationGracePeriodSeconds :: "int option"
  ps_ImagePullSecrets :: "string list"
  ps_EnableServiceLinks :: "bool option"
  ps_RestartPolicy :: string
  ps_Containers :: "'q KContainer list"
  ps_InitContainers :: "'q KContainer list"
  ps_Volumes :: "'q KVolume list"
  ps_ServiceAccountName :: string
  ps_Hostname :: string

record 'q KPodTemplate =
  pt_Labels :: labels
  pt_Annotations :: labels
  pt_Spec :: "'q KPodSpec"

record 'q KDeployment =
  kd_Meta :: ObjectMeta
  kd_Replicas :: "int32 option"
  kd_MatchLabels :: labels
  kd_Template :: "'q KPodTemplate"
  kd_Strategy :: string

record PodDisruptionBudget =
  pb_Meta :: ObjectMeta
  pb_MatchLabels :: labels
  pb_MaxUnavailable :: IntOrString

datatype 'q KJobObject =
    PlainJob ObjectMeta "'q KPodTemplate" "int32 option"
  | CronJob ObjectMeta "'q KPodTemplate" string

subsection \<open>Computations\<close>

datatype 'e object_error = ObjectPanic | BadMode string | ObjectRead 'e

record ('e, 'f, 'q) object_state =
  os_interp :: "('e, 'f, 'q) Interpolator"
  os_pullObjects :: "KSecret list"
  os_pullErrs :: "'e list"

type_synonym ('e, 'f, 'q, 'a) drawing = "('e, 'f, 'q) object_state \<Rightarrow> (('e object_error + 'a) \<times> ('e, 'f, 'q) object_state) option"

definition dm_result :: "'e object_error + 'a \<Rightarrow> ('e, 'f, 'q, 'a) drawing" where
  "dm_result r = (\<lambda>s. Some (r, s))"

definition dm_return :: "'a \<Rightarrow> ('e, 'f, 'q, 'a) drawing" where
  "dm_return x = dm_result (Inr x)"

definition dm_bind :: "('e, 'f, 'q, 'a) drawing \<Rightarrow> ('a \<Rightarrow> ('e, 'f, 'q, 'b) drawing) \<Rightarrow> ('e, 'f, 'q, 'b) drawing" where
  "dm_bind m f = (\<lambda>s. Option.bind (m s) (\<lambda>(r, s'). case r of Inl e \<Rightarrow> Some (Inl e, s') | Inr x \<Rightarrow> f x s'))"

definition dm_gets :: "(('e, 'f, 'q) Interpolator \<Rightarrow> 'a) \<Rightarrow> ('e, 'f, 'q, 'a) drawing" where
  "dm_gets g = (\<lambda>s. Some (Inr (g (os_interp s)), s))"

definition dm_modify :: "(('e, 'f, 'q) Interpolator \<Rightarrow> ('e, 'f, 'q) Interpolator) \<Rightarrow> ('e, 'f, 'q, unit) drawing" where
  "dm_modify g = (\<lambda>s. Some (Inr (), s\<lparr>os_interp := g (os_interp s)\<rparr>))"

definition dm_interp :: "(('e, 'f, 'q) Interpolator \<Rightarrow> ('e, 'f, 'q, 'a) outcome) \<Rightarrow> ('e, 'f, 'q, 'a) drawing" where
  "dm_interp op = (\<lambda>s. case op (os_interp s) of
       None \<Rightarrow> None
     | Some (Inl _) \<Rightarrow> Some (Inl ObjectPanic, s)
     | Some (Inr (x, i)) \<Rightarrow> Some (Inr x, s\<lparr>os_interp := i\<rparr>))"

fun dm_map :: "('a \<Rightarrow> ('e, 'f, 'q, 'b) drawing) \<Rightarrow> 'a list \<Rightarrow> ('e, 'f, 'q, 'b list) drawing" where
  "dm_map f [] = dm_return []"
| "dm_map f (x # xs) = dm_bind (f x) (\<lambda>y. dm_bind (dm_map f xs) (\<lambda>ys. dm_return (y # ys)))"

text \<open>\<open>ol_parsePort\<close> is \<open>intstr.Parse\<close> with the \<open>IntValue\<close> of its result, \<open>ol_visit\<close> the order in which a map is visited.\<close>

record ('e, 'f, 'q) object_lib =
  ol_interp :: "('e, 'f, 'q) interp_lib"
  ol_contextDigest :: "string \<Rightarrow> string"
  ol_DefaultImage :: string
  ol_SHA256Hex :: "string \<Rightarrow> string"
  ol_SafeConcatName :: "string list \<Rightarrow> string"
  ol_encodeContainer :: "Container \<Rightarrow> string"
  ol_encodeImages :: "(string, string) gomap \<Rightarrow> string"
  ol_ParseQuantity :: "string \<Rightarrow> 'e + 'q"
  ol_oneMega :: 'q
  ol_parsePort :: "string \<Rightarrow> IntOrString \<times> int"
  ol_secretData :: "string \<Rightarrow> string \<Rightarrow> 'e + (string, string) gomap option"
  ol_forImages :: "string \<Rightarrow> string \<Rightarrow> string list \<Rightarrow> 'e + KSecret"
  ol_visit :: "(string \<times> string \<times> string) list \<Rightarrow> (string \<times> string \<times> string) list"
  ol_sortByName :: "'q KVolume list \<Rightarrow> 'q KVolume list"

subsection \<open>Environment\<close>

definition toEnvFrom :: "EnvVar list \<Rightarrow> (string \<times> string) list" where
  "toEnvFrom envs = map (\<lambda>env. (ev_Value env, sr_Name (ev_Secret env))) (filter (\<lambda>env. sr_Name (ev_Secret env) \<noteq> [] \<and> sr_Key (ev_Secret env) = []) envs)"

definition interpolatedEnv :: "('e, 'f, 'q) object_lib \<Rightarrow> scope \<Rightarrow> string \<Rightarrow> string \<Rightarrow> ('e, 'f, 'q, KEnvVar list) drawing" where
  "interpolatedEnv L sc name val = dm_bind (dm_interp (ToEnv (ol_interp L) sc name val)) (\<lambda>(env, ok). dm_return (if ok then [env] else []))"

definition envEntry :: "('e, 'f, 'q) object_lib \<Rightarrow> scope \<Rightarrow> string list \<Rightarrow> EnvVar \<Rightarrow> ('e, 'f, 'q, KEnvVar list) drawing" where
  "envEntry L sc appEnvNames env =
     (if sr_Name (ev_Secret env) = [] then
        (if ev_Name env \<in> set appEnvNames then dm_return [] else interpolatedEnv L sc (ev_Name env) (ev_Value env))
      else if sr_Key (ev_Secret env) = [] then dm_return []
      else if ev_Name env \<in> set appEnvNames then dm_return []
      else dm_return [\<lparr>ke_Name = ev_Name env, ke_Source = EnvSecretKey (sr_Name (ev_Secret env)) (sr_Key (ev_Secret env))\<rparr>])"

definition toEnv :: "('e, 'f, 'q) object_lib \<Rightarrow> scope \<Rightarrow> EnvVar list \<Rightarrow> NameValue list \<Rightarrow> ('e, 'f, 'q, KEnvVar list) drawing" where
  "toEnv L sc envs appEnvs =
     (let appEnvNames = filter (\<lambda>n. n \<noteq> []) (map nv_Name appEnvs)
      in dm_bind (dm_map (envEntry L sc appEnvNames) envs) (\<lambda>own.
         dm_bind (dm_map (\<lambda>appEnv. interpolatedEnv L sc (nv_Name appEnv) (nv_Value appEnv)) appEnvs) (\<lambda>given.
         dm_return (concat own @ concat given))))"

subsection \<open>Volumes and mounts\<close>

definition AcornHelper :: string where "AcornHelper = '' /acorn-helper''"
definition AcornHelperPath :: string where "AcornHelperPath = ''/.acorn''"

text \<open>The sidecars are only looked at inside the loop over the directories.\<close>

function hasContextDir :: "Container \<Rightarrow> bool" where
  "hasContextDir (Container c sidecars) =
     list_ex (\<lambda>(_, dir). vm_ContextDir dir \<noteq> [] \<or> list_ex (\<lambda>(_, sidecar). hasContextDir sidecar) sidecars) (c_Dirs c)"
  by pat_completeness auto

lemma size_sidecar: "(k, c) \<in> set sidecars \<Longrightarrow> size c < Suc (size_list (size_prod (\<lambda>_. 0) size) sidecars)"
  by (induction sidecars) auto

termination hasContextDir
  by (relation "measure size") (auto intro: size_sidecar)

definition pathHash :: "('e, 'f, 'q) object_lib \<Rightarrow> string list \<Rightarrow> string" where
  "pathHash L parts = take 12 (ol_SHA256Hex L (filepath_Join parts))"

definition sanitizeVolumeName :: "('e, 'f, 'q) object_lib \<Rightarrow> string \<Rightarrow> string" where
  "sanitizeVolumeName L name = (if str_contains name ''/'' then pathHash L [name] else name)"

definition secretPodVolName :: "('e, 'f, 'q) object_lib \<Rightarrow> string \<Rightarrow> string" where
  "secretPodVolName L secretName = replace_char (CHR ''.'') (CHR ''-'') (ol_SafeConcatName L [''secret-'', secretName])"

definition modeSuffix :: "string \<Rightarrow> string" where
  "modeSuffix mode = (if NormalizeMode mode \<noteq> [] then CHR ''-'' # mode else [])"

definition fileMount :: "('e, 'f, 'q) object_lib \<Rightarrow> scope \<Rightarrow> string \<times> File \<Rightarrow> ('e, 'f, 'q, KVolumeMount) drawing" where
  "fileMount L sc = (\<lambda>(key, f).
     if sr_Key (fl_Secret f) = [] \<or> sr_Name (fl_Secret f) = [] then dm_interp (ToVolumeMount (ol_interp L) sc key f)
     else dm_return \<lparr>km_Name = secretPodVolName L (sr_Name (fl_Secret f) @ modeSuffix (fl_Mode f)), km_MountPath = filepath_Join [''/'', key],
       km_SubPath = sr_Key (fl_Secret f)\<rparr>)"

definition helperMount :: "('e, 'f, 'q) object_lib \<Rightarrow> KVolumeMount" where
  "helperMount L = \<lparr>km_Name = sanitizeVolumeName L AcornHelper, km_MountPath = AcornHelperPath, km_SubPath = []\<rparr>"

fun dirMounts :: "('e, 'f, 'q) object_lib \<Rightarrow> bool \<Rightarrow> bool \<Rightarrow> (string \<times> VolumeMount) list \<Rightarrow> KVolumeMount list" where
  "dirMounts L devMode helperMounted [] = []"
| "dirMounts L devMode helperMounted ((mountPath, mount) # dirs) =
     (if vm_ContextDir mount \<noteq> [] then
        (if \<not> helperMounted \<and> devMode then helperMount L # dirMounts L devMode True dirs else dirMounts L devMode helperMounted dirs)
      else if vs_Name (vm_Secret mount) = [] then
        \<lparr>km_Name = sanitizeVolumeName L (vm_Volume mount), km_MountPath = filepath_Join [''/'', mountPath], km_SubPath = vm_SubPath mount\<rparr> # dirMounts L devMode helperMounted dirs
      else \<lparr>km_Name = secretPodVolName L (vs_Name (vm_Secret mount)), km_MountPath = filepath_Join [''/'', mountPath], km_SubPath = []\<rparr> # dirMounts L devMode helperMounted dirs)"

definition toMounts :: "('e, 'f, 'q) object_lib \<Rightarrow> scope \<Rightarrow> Container \<Rightarrow> ('e, 'f, 'q, KVolumeMount list) drawing" where
  "toMounts L sc container =
     dm_bind (dm_map (fileMount L sc) (typed_Sorted (c_Files (c_fields container)))) (\<lambda>files.
     dm_bind (dm_gets it_app) (\<lambda>app.
     dm_return (files @ dirMounts L (GetDevMode (app_Status app)) False (typed_Sorted (c_Dirs (c_fields container))))))"

subsection \<open>Ports and probes\<close>

fun portLoop :: "(int32 \<times> string) list \<Rightarrow> PortDef list \<Rightarrow> KContainerPort list" where
  "portLoop seen [] = []"
| "portLoop seen (port # ports) =
     (let protocol = (if pd_Protocol port = ProtocolUDP then K8sUDP else K8sTCP); key = (pd_TargetPort port, protocol)
      in if key \<in> set seen then portLoop seen ports
         else \<lparr>ko_ContainerPort = pd_TargetPort port, ko_Protocol = protocol\<rparr> # portLoop (key # seen) ports)"

definition toPorts :: "Container \<Rightarrow> KContainerPort list" where
  "toPorts container = portLoop [] (c_Ports (c_fields container))"

text \<open>\<open>Hostname\<close> and \<open>Port\<close> of a parsed URL.\<close>

definition splitHostPort :: "string \<Rightarrow> string \<times> string" where
  "splitHostPort authority =
     (let (host, port) = (case cut_last (CHR '':'') authority of
            None \<Rightarrow> (authority, [])
          | Some (h, p) \<Rightarrow> if validOptionalPort (CHR '':'' # p) then (h, p) else (authority, []))
      in (if str_has_prefix host ''['' \<and> str_has_suffix host '']'' then take (length host - 2) (drop 1 host) else host, port))"

text \<open>The scheme, host, port and path of a probe; the port of HTTPS is overwritten by the one of HTTP.\<close>

definition parseURLForProbe :: "('e, 'f, 'q) object_lib \<Rightarrow> string \<Rightarrow> (string \<times> string \<times> IntOrString \<times> string) option" where
  "parseURLForProbe L probeURL =
     (case url_Parse probeURL of
        Inl _ \<Rightarrow> None
      | Inr u \<Rightarrow>
          let scheme = (if u_Scheme u = ''https'' then ''HTTPS'' else []);
              parts = splitHostPort (u_Host u);
              host = (if fst parts = ''localhost'' \<or> fst parts = ''127.0.0.1'' then [] else fst parts);
              parsed = ol_parsePort L (snd parts);
              port = (if snd parsed = 0 then PortNumber 80 else fst parsed)
          in Some (scheme, host, port, u_Path u))"

definition toProbeHandler :: "('e, 'f, 'q) object_lib \<Rightarrow> Probe \<Rightarrow> KProbeHandler" where
  "toProbeHandler L probe =
     \<lparr>kn_TCPSocket = Option.bind (po_TCP probe) (\<lambda>url. map_option (\<lambda>(_, host, port, _). (host, port)) (parseURLForProbe L url)),
      kn_Exec = po_Exec probe,
      kn_HTTPGet = Option.bind (po_HTTP probe) (\<lambda>http. map_option (\<lambda>(scheme, host, port, path).
        \<lparr>kh_Scheme = scheme, kh_Host = host, kh_Port = port, kh_Path = path, kh_Headers = typed_Sorted (hp_Headers http)\<rparr>) (parseURLForProbe L (hp_URL http)))\<rparr>"

definition defaultProbe :: "PortDef \<Rightarrow> KProbe" where
  "defaultProbe port = \<lparr>kr_Handler = \<lparr>kn_TCPSocket = Some ([], PortNumber (pd_TargetPort port)), kn_Exec = None, kn_HTTPGet = None\<rparr>,
     kr_InitialDelaySeconds = 0, kr_TimeoutSeconds = 0, kr_PeriodSeconds = 0, kr_SuccessThreshold = 0, kr_FailureThreshold = 0\<rparr>"

definition toProbe :: "('e, 'f, 'q) object_lib \<Rightarrow> Container \<Rightarrow> string \<Rightarrow> KProbe option" where
  "toProbe L container probeType =
     (let probes = c_Probes (c_fields container)
      in case find (\<lambda>probe. po_Type probe = probeType) (case probes of None \<Rightarrow> [] | Some ps \<Rightarrow> ps) of
           Some probe \<Rightarrow> Some \<lparr>kr_Handler = toProbeHandler L probe, kr_InitialDelaySeconds = po_InitialDelaySeconds probe, kr_TimeoutSeconds = po_TimeoutSeconds probe,
             kr_PeriodSeconds = po_PeriodSeconds probe, kr_SuccessThreshold = po_SuccessThreshold probe, kr_FailureThreshold = po_FailureThreshold probe\<rparr>
         | None \<Rightarrow>
             if probeType = ReadinessProbeType \<and> probes = None then
               map_option defaultProbe (find (\<lambda>port. \<not> (pd_Protocol port = ProtocolUDP \<or> pd_Dev port)) (c_Ports (c_fields container)))
             else None)"

subsection \<open>Containers\<close>

definition resolveContainerImage :: "('e, 'f, 'q) object_lib \<Rightarrow> string \<Rightarrow> string" where
  "resolveContainerImage L img = (if DigestPattern img then ol_contextDigest L img else img)"

definition podScheduling :: "('f, 'q) AppInstance \<Rightarrow> string \<Rightarrow> 'q Scheduling" where
  "podScheduling app name = gm_get_or \<lparr>sg_Requests = [], sg_Limits = [], sg_Affinity = None, sg_Tolerations = [], sg_PriorityClassName = []\<rparr> (is_Scheduling (app_Status app)) name"

definition toContainer :: "('e, 'f, 'q) object_lib \<Rightarrow> scope \<Rightarrow> string \<Rightarrow> Container \<Rightarrow> ('e, 'f, 'q, 'q KContainer) drawing" where
  "toContainer L sc containerName container =
     dm_bind (dm_gets it_app) (\<lambda>app.
     dm_bind (toEnv L sc (c_Environment (c_fields container)) (ai_Environment (app_Spec app))) (\<lambda>env.
     dm_bind (toMounts L sc container) (\<lambda>mounts.
     dm_return \<lparr>kc_Name = containerName, kc_Image = resolveContainerImage L (c_Image (c_fields container)), kc_Command = c_Entrypoint (c_fields container),
       kc_Args = c_Command (c_fields container), kc_WorkingDir = c_WorkingDir (c_fields container), kc_Env = env,
       kc_EnvFrom = toEnvFrom (c_Environment (c_fields container)), kc_TTY = c_Interactive (c_fields container), kc_Stdin = c_Interactive (c_fields container),
       kc_Ports = toPorts container, kc_VolumeMounts = mounts, kc_LivenessProbe = toProbe L container LivenessProbeType,
       kc_StartupProbe = toProbe L container StartupProbeType, kc_ReadinessProbe = toProbe L container ReadinessProbeType,
       kc_Requests = sg_Requests (podScheduling app containerName), kc_Limits = sg_Limits (podScheduling app containerName), kc_ImagePullPolicy = []\<rparr>)))"

definition PullIfNotPresent :: string where "PullIfNotPresent = ''IfNotPresent''"

definition acornHelper :: "('e, 'f, 'q) object_lib \<Rightarrow> 'q KContainer" where
  "acornHelper L = zero_KContainer\<lparr>kc_Name := ''acorn-helper'', kc_Image := ol_DefaultImage L, kc_Command := [''acorn-helper-init''],
     kc_ImagePullPolicy := PullIfNotPresent, kc_VolumeMounts := [helperMount L]\<rparr>"

definition toContainers :: "('e, 'f, 'q) object_lib \<Rightarrow> scope \<Rightarrow> string \<Rightarrow> Container \<Rightarrow> ('e, 'f, 'q, 'q KContainer list \<times> 'q KContainer list) drawing" where
  "toContainers L sc name container =
     dm_bind (dm_gets it_app) (\<lambda>app.
     let helper = (if GetDevMode (app_Status app) \<and> hasContextDir container then [acornHelper L] else [])
     in dm_bind (toContainer L sc name container) (\<lambda>main.
        dm_bind (dm_map (\<lambda>(key, sidecar). dm_bind (toContainer L sc key sidecar) (\<lambda>c. dm_return (c_Init (c_fields sidecar), c))) (typed_Sorted (c_Sidecars container))) (\<lambda>sidecars.
        dm_return (main # map snd (filter (\<lambda>(init, _). \<not> init) sidecars), helper @ map snd (filter fst sidecars)))))"

subsection \<open>Labels and annotations\<close>

definition AcornAppPublicName :: string where "AcornAppPublicName = Prefix @ ''app-public-name''"
definition AcornContainerSpec :: string where "AcornContainerSpec = Prefix @ ''container-spec''"
definition AcornImageMapping :: string where "AcornImageMapping = Prefix @ ''image-mapping''"
definition AcornSecretRevPrefix :: string where "AcornSecretRevPrefix = ''secret-rev.'' @ Prefix"
definition PrometheusScrape :: string where "PrometheusScrape = ''prometheus.io/scrape''"
definition PrometheusPath :: string where "PrometheusPath = ''prometheus.io/path''"
definition PrometheusPort :: string where "PrometheusPort = ''prometheus.io/port''"
definition LabelTypeContainer :: string where "LabelTypeContainer = ''container''"
definition LabelTypeJob :: string where "LabelTypeJob = ''job''"

definition containerAnnotations :: "('f, 'q) AppInstance \<Rightarrow> Container \<Rightarrow> string \<Rightarrow> labels" where
  "containerAnnotations app container name =
     GatherScoped name LabelTypeContainer (as_Annotations (is_AppSpec (app_Status app))) (c_Annotations (c_fields container)) (ai_Annotations (app_Spec app))"

definition mergeConLabels :: "labels \<Rightarrow> ('f, 'q) AppInstance \<Rightarrow> string \<Rightarrow> string list \<Rightarrow> labels" where
  "mergeConLabels labelMap app name kv = Merge labelMap (Managed app ([AcornContainerName, name] @ kv))"

definition jobLabels :: "('f, 'q) AppInstance \<Rightarrow> Container \<Rightarrow> string \<Rightarrow> string list \<Rightarrow> labels" where
  "jobLabels app container name kv =
     mergeConLabels (GatherScoped name LabelTypeJob (as_Labels (is_AppSpec (app_Status app))) (c_Labels (c_fields container)) (ai_Labels (app_Spec app))) app name kv"

definition containerLabels :: "('f, 'q) AppInstance \<Rightarrow> Container \<Rightarrow> string \<Rightarrow> string list \<Rightarrow> labels" where
  "containerLabels app container name kv =
     mergeConLabels (GatherScoped name LabelTypeContainer (as_Labels (is_AppSpec (app_Status app))) (c_Labels (c_fields container)) (ai_Labels (app_Spec app))) app name
       ([AcornAppPublicName, publicname_Get (app_Meta app)] @ kv)"

definition selectorMatchLabels :: "('f, 'q) AppInstance \<Rightarrow> string \<Rightarrow> string list \<Rightarrow> labels" where
  "selectorMatchLabels app name kv = mergeConLabels [] app name kv"

definition addPrometheusAnnotations :: "labels \<Rightarrow> Container \<Rightarrow> labels" where
  "addPrometheusAnnotations annotations container =
     (let m = c_Metrics (c_fields container)
      in if md_Path m \<noteq> [] \<and> md_Port m \<noteq> 0 then
           gm_set (gm_set (gm_set annotations PrometheusScrape ''true'') PrometheusPath (md_Path m)) PrometheusPort (itoa (sint (md_Port m)))
         else annotations)"

function addImageAnnotations :: "labels \<Rightarrow> Container \<Rightarrow> labels" where
  "addImageAnnotations annotations (Container c sidecars) =
     fold (\<lambda>(_, sidecar) m. addImageAnnotations m sidecar) (typed_Sorted sidecars)
       (case c_Build c of None \<Rightarrow> annotations
        | Some b \<Rightarrow> if bd_BaseImage b \<noteq> [] then gm_set annotations (c_Image c) (bd_BaseImage b) else annotations)"
  by pat_completeness auto

termination addImageAnnotations
  by (relation "measure (size \<circ> snd)") (auto intro: size_sidecar)

definition podAnnotations :: "('e, 'f, 'q) object_lib \<Rightarrow> Container \<Rightarrow> labels" where
  "podAnnotations L container =
     (let annotations = addPrometheusAnnotations [(AcornContainerSpec, ol_encodeContainer L container)] container;
          images = addImageAnnotations [] container
      in if images = [] then annotations else gm_set annotations AcornImageMapping (ol_encodeImages L images))"

definition AccessModeReadWriteOnce :: string where "AccessModeReadWriteOnce = ''readWriteOnce''"

definition isStateful :: "('f, 'q) AppInstance \<Rightarrow> Container \<Rightarrow> bool" where
  "isStateful app container =
     list_ex (\<lambda>(_, dir). vs_Name (vm_Secret dir) = [] \<and>
       list_ex (\<lambda>(volName, vol). vr_Class vol \<noteq> ''ephemeral'' \<and> vm_Volume dir = volName \<and>
         (vr_AccessModes vol = [] \<or> vr_AccessModes vol = [AccessModeReadWriteOnce])) (as_Volumes (is_AppSpec (app_Status app))))
       (c_Dirs (c_fields container))"

text \<open>The revision of a secret is a digest of its data; a secret that is missing is noted as an error of the part, with revision zero.\<close>

definition getRevision :: "('e, 'f, 'q) object_lib \<Rightarrow> string \<Rightarrow> string \<Rightarrow> 'e + string option" where
  "getRevision L namespace secretName =
     map_sum id (map_option (\<lambda>data. ol_SHA256Hex L (concat (map (\<lambda>(k, v). k @ [CHR 0x00] @ v @ [CHR 0x00]) (typed_Sorted data)))))
       (ol_secretData L namespace secretName)"

definition redeploySecrets :: "Container \<Rightarrow> string list" where
  "redeploySecrets container =
     sort (remdups (
       map (\<lambda>env. sr_Name (ev_Secret env)) (filter (\<lambda>env. sr_OnChange (ev_Secret env) = ChangeTypeRedeploy) (c_Environment (c_fields container))) @
       map (\<lambda>(_, f). sr_Name (fl_Secret f)) (filter (\<lambda>(_, f). sr_OnChange (fl_Secret f) = ChangeTypeRedeploy) (c_Files (c_fields container))) @
       map (\<lambda>(_, dir). vs_Name (vm_Secret dir)) (filter (\<lambda>(_, dir). vs_OnChange (vm_Secret dir) = ChangeTypeRedeploy) (c_Dirs (c_fields container)))))"

definition missingSecret :: "string \<Rightarrow> 'e interp_error" where
  "missingSecret name = ErrInterpolation \<lparr>ee_DependencyNotFound = Some \<lparr>nf_DependencyType = DependencySecret, nf_Name = name\<rparr>, ee_Expression = [], ee_Error = []\<rparr>"

fun revisionLoop :: "('e, 'f, 'q) object_lib \<Rightarrow> scope \<Rightarrow> labels \<Rightarrow> string list \<Rightarrow> ('e, 'f, 'q, labels) drawing" where
  "revisionLoop L sc result [] = dm_return result"
| "revisionLoop L sc result (secret # secrets) =
     (if secret = [] then revisionLoop L sc result secrets
      else dm_bind (dm_gets it_app) (\<lambda>app.
        case getRevision L (is_Namespace (app_Status app)) secret of
          Inl e \<Rightarrow> dm_result (Inl (ObjectRead e))
        | Inr None \<Rightarrow> dm_bind (dm_modify (saveError (ol_interp L) sc (missingSecret secret))) (\<lambda>_.
            revisionLoop L sc (gm_set result (AcornSecretRevPrefix @ secret) ''0'') secrets)
        | Inr (Some revision) \<Rightarrow> revisionLoop L sc (gm_set result (AcornSecretRevPrefix @ secret) revision) secrets))"

definition getSecretAnnotations :: "('e, 'f, 'q) object_lib \<Rightarrow> scope \<Rightarrow> Container \<Rightarrow> ('e, 'f, 'q, labels) drawing" where
  "getSecretAnnotations L sc container = revisionLoop L sc [] (redeploySecrets container)"

subsection \<open>Volumes of a pod\<close>

definition isEphemeral :: "('f, 'q) AppInstance \<Rightarrow> string \<Rightarrow> VolumeRequest option" where
  "isEphemeral app volume =
     (if volume = AcornHelper \<and> GetDevMode (app_Status app) then Some (zero_VolumeRequest\<lparr>vr_Class := VolumeRequestTypeEphemeral\<rparr>)
      else map_option snd (find (\<lambda>(name, vr). name = volume \<and> EqualFold (vr_Class vr) VolumeRequestTypeEphemeral) (as_Volumes (is_AppSpec (app_Status app)))))"

definition isBind :: "('f, 'q) AppInstance \<Rightarrow> string \<Rightarrow> VolumeBinding \<times> bool" where
  "isBind app volume =
     (case find (\<lambda>v. vb_Target v = volume) (ai_Volumes (app_Spec app)) of None \<Rightarrow> (zero_VolumeBinding, False) | Some v \<Rightarrow> (v, vb_Volume v \<noteq> []))"

definition bindName :: "('e, 'f, 'q) object_lib \<Rightarrow> string \<Rightarrow> string" where
  "bindName L volume = ol_SafeConcatName L [volume, ''bind'']"

definition toVolumeName :: "('e, 'f, 'q) object_lib \<Rightarrow> ('f, 'q) AppInstance \<Rightarrow> string \<Rightarrow> string \<times> bool" where
  "toVolumeName L app volume = (if snd (isBind app volume) then (bindName L volume, True) else (volume, False))"

text \<open>A reference is a name, or a secret with a mode; the map of references is the list of its keys.\<close>

type_synonym volumeReference = "string \<times> string \<times> string"

definition addReference :: "volumeReference \<Rightarrow> (volumeReference, bool) gomap \<Rightarrow> (volumeReference, bool) gomap" where
  "addReference r refs = gm_set refs r True"

definition dirReference :: "('f, 'q) AppInstance \<Rightarrow> VolumeMount \<Rightarrow> volumeReference option" where
  "dirReference app volume =
     (if vm_ContextDir volume \<noteq> [] then (if GetDevMode (app_Status app) then Some (AcornHelper, [], []) else None)
      else if vs_Name (vm_Secret volume) = [] then Some (vm_Volume volume, [], [])
      else Some ([], vs_Name (vm_Secret volume), []))"

definition addVolumeReferencesForContainer :: "('f, 'q) AppInstance \<Rightarrow> Container \<Rightarrow> (volumeReference, bool) gomap \<Rightarrow> (volumeReference, bool) gomap" where
  "addVolumeReferencesForContainer app container refs =
     fold (\<lambda>(_, f) m. if sr_Name (fl_Secret f) \<noteq> [] then addReference ([], sr_Name (fl_Secret f), fl_Mode f) m else m) (typed_Sorted (c_Files (c_fields container)))
       (fold (\<lambda>(_, dir) m. case dirReference app dir of None \<Rightarrow> m | Some r \<Rightarrow> addReference r m) (typed_Sorted (c_Dirs (c_fields container))) refs)"

definition toMode :: "string \<Rightarrow> 'e object_error + int" where
  "toMode m = (case parse_octal32 m of Inl _ \<Rightarrow> Inl (BadMode m) | Inr i \<Rightarrow> Inr i)"

definition ParseMode :: "string \<Rightarrow> 'e object_error + int option" where
  "ParseMode mode = (if NormalizeMode mode = [] then Inr None else map_sum id Some (toMode mode))"

definition sizeLimit :: "('e, 'f, 'q) object_lib \<Rightarrow> string \<Rightarrow> 'e object_error + 'q option" where
  "sizeLimit L s = (if s = [] then Inr None else case ol_ParseQuantity L s of Inl _ \<Rightarrow> Inl ObjectPanic | Inr q \<Rightarrow> Inr (Some q))"

definition referencedVolume :: "('e, 'f, 'q) object_lib \<Rightarrow> ('f, 'q) AppInstance \<Rightarrow> volumeReference \<Rightarrow> 'e object_error + 'q KVolume" where
  "referencedVolume L app = (\<lambda>(name, secretName, mode).
     if secretName \<noteq> [] then
       bind_err (ParseMode mode) (\<lambda>m. Inr \<lparr>kv_Name = secretPodVolName L (secretName @ modeSuffix mode), kv_Source = SecretVolume secretName m\<rparr>)
     else
       let (claim, bind) = toVolumeName L app name
       in case (if bind then None else isEphemeral app name) of
            Some vr \<Rightarrow> bind_err (sizeLimit L (vr_Size vr)) (\<lambda>q. Inr \<lparr>kv_Name = sanitizeVolumeName L name, kv_Source = EmptyDirVolume q []\<rparr>)
          | None \<Rightarrow> Inr \<lparr>kv_Name = name, kv_Source = ClaimVolume claim\<rparr>)"

definition filesModes :: "(string \<times> File) list \<Rightarrow> (string, bool) gomap \<Rightarrow> (string, bool) gomap" where
  "filesModes files fileModes =
     fold (\<lambda>(_, f) m. if fl_Content f \<noteq> [] \<and> sr_Name (fl_Secret f) = [] then gm_set m (NormalizeMode (fl_Mode f)) True else m) files fileModes"

definition addFilesFileModesForContainer :: "Container \<Rightarrow> (string, bool) gomap \<Rightarrow> (string, bool) gomap" where
  "addFilesFileModesForContainer container fileModes =
     fold (\<lambda>(_, sidecar). filesModes (c_Files (c_fields sidecar))) (c_Sidecars container) (filesModes (c_Files (c_fields container)) fileModes)"

definition contentVolume :: "string \<Rightarrow> string \<Rightarrow> 'e object_error + 'q KVolume" where
  "contentVolume secretName mode =
     (if mode = [] then Inr \<lparr>kv_Name = secretName, kv_Source = SecretVolume secretName None\<rparr>
      else bind_err (toMode mode) (\<lambda>m. Inr \<lparr>kv_Name = secretName @ ''-'' @ mode, kv_Source = SecretVolume secretName (Some m)\<rparr>))"

definition volumeReferences :: "('f, 'q) AppInstance \<Rightarrow> Container \<Rightarrow> volumeReference list" where
  "volumeReferences app container =
     map fst (fold (\<lambda>(_, sidecar). addVolumeReferencesForContainer app sidecar) (typed_Sorted (c_Sidecars container)) (addVolumeReferencesForContainer app container []))"

definition toVolumes :: "('e, 'f, 'q) object_lib \<Rightarrow> ('e, 'f, 'q) Interpolator \<Rightarrow> Container \<Rightarrow> 'e object_error + 'q KVolume list" where
  "toVolumes L i container =
     bind_err (map_err (referencedVolume L (it_app i)) (ol_visit L (volumeReferences (it_app i) container))) (\<lambda>referenced.
     bind_err (map_err (contentVolume (it_secretName i)) (sort (map fst (addFilesFileModesForContainer container [])))) (\<lambda>content.
     Inr (ol_sortByName L (referenced @ content))))"

subsection \<open>Pull secrets\<close>

definition pullForContainer :: "('e, 'f, 'q) object_lib \<Rightarrow> string \<Rightarrow> 'q KContainer list \<Rightarrow> ('e, 'f, 'q, string list) drawing" where
  "pullForContainer L containerName containers = (\<lambda>s.
     let app = it_app (os_interp s); secretName = ol_SafeConcatName L [containerName, ''pull'', ShortID app]
     in case ol_forImages L secretName (is_Namespace (app_Status app)) (map kc_Image containers) of
          Inl e \<Rightarrow> Some (Inr [], s\<lparr>os_pullErrs := os_pullErrs s @ [e]\<rparr>)
        | Inr secret \<Rightarrow> Some (Inr [secretName], s\<lparr>os_pullObjects := os_pullObjects s @ [secret]\<rparr>))"

subsection \<open>Deployments\<close>

definition RecreateDeploymentStrategyType :: string where "RecreateDeploymentStrategyType = ''Recreate''"

definition setReplicas :: "('f, 'q) AppInstance \<Rightarrow> bool \<Rightarrow> scope \<Rightarrow> ('e, 'f, 'q) Interpolator \<Rightarrow> 'q KDeployment \<Rightarrow> 'q KDeployment" where
  "setReplicas app stateful sc i dep =
     (let named = (\<lambda>d. d\<lparr>kd_Template := (kd_Template d)\<lparr>pt_Spec := (pt_Spec (kd_Template d))\<lparr>ps_Hostname := om_Name (kd_Meta d)\<rparr>\<rparr>\<rparr>);
          d = (if stateful then (named dep)\<lparr>kd_Replicas := Some 1, kd_Strategy := RecreateDeploymentStrategyType\<rparr>
               else if kd_Replicas dep = None \<or> kd_Replicas dep = Some 1 then named dep else dep)
      in if ai_Stop (app_Spec app) = Some True then d\<lparr>kd_Replicas := Some 0\<rparr>
         else d\<lparr>kd_Meta := (kd_Meta d)\<lparr>om_Annotations := AddMissingAnnotations sc i (GetStopped app) (om_Annotations (kd_Meta d))\<rparr>\<rparr>)"

definition dm_dependencies :: "string \<Rightarrow> Dependency list \<Rightarrow> ('e, 'f, 'q, labels) drawing" where
  "dm_dependencies name deps = (\<lambda>s.
     let (annotations, app) = getDependencyAnnotations (it_app (os_interp s)) name deps
     in Some (Inr annotations, s\<lparr>os_interp := (os_interp s)\<lparr>it_app := app\<rparr>\<rparr>))"

definition podSpec :: "('f, 'q) AppInstance \<Rightarrow> string \<Rightarrow> string \<Rightarrow> string \<Rightarrow> string list \<Rightarrow> 'q KContainer list \<Rightarrow> 'q KContainer list \<Rightarrow> 'q KVolume list \<Rightarrow> 'q KPodSpec" where
  "podSpec app name priorityClass restart pull containers initContainers volumes =
     \<lparr>ps_Affinity = sg_Affinity (podScheduling app name), ps_Tolerations = sg_Tolerations (podScheduling app name), ps_PriorityClassName = priorityClass,
      ps_TerminationGracePeriodSeconds = Some 5, ps_ImagePullSecrets = pull, ps_EnableServiceLinks = Some False, ps_RestartPolicy = restart,
      ps_Containers = containers, ps_InitContainers = initContainers, ps_Volumes = volumes, ps_ServiceAccountName = name, ps_Hostname = []\<rparr>"

definition toDeployment :: "('e, 'f, 'q) object_lib \<Rightarrow> string \<Rightarrow> Container \<Rightarrow> ('e, 'f, 'q, 'q KDeployment) drawing" where
  "toDeployment L name container =
     (let sc = ForContainer name in
      dm_bind (dm_gets it_app) (\<lambda>app0.
      dm_bind (toContainers L sc name container) (\<lambda>(containers, initContainers).
      dm_bind (getSecretAnnotations L sc container) (\<lambda>secretAnnotations.
      dm_bind (dm_gets (\<lambda>i. toVolumes L i container)) (\<lambda>volumes.
      dm_bind (dm_result volumes) (\<lambda>volumes.
      dm_bind (dm_dependencies name (c_Dependencies (c_fields container))) (\<lambda>dependencyAnnotations.
      dm_bind (pullForContainer L name (containers @ initContainers)) (\<lambda>pull.
      dm_bind (dm_gets id) (\<lambda>i.
        let app = it_app i;
            podLabels = containerLabels app container name [];
            deploymentAnnotations = containerAnnotations app container name;
            dep = \<lparr>kd_Meta = zero_ObjectMeta\<lparr>om_Name := name, om_Namespace := is_Namespace (app_Status app), om_Labels := podLabels,
                     om_Annotations := typed_Concat [deploymentAnnotations, dependencyAnnotations, secretAnnotations]\<rparr>,
                   kd_Replicas = c_Scale (c_fields container),
                   kd_MatchLabels = selectorMatchLabels app name [],
                   kd_Template = \<lparr>pt_Labels = podLabels, pt_Annotations = typed_Concat [deploymentAnnotations, podAnnotations L container, secretAnnotations],
                     pt_Spec = podSpec app name (sg_PriorityClassName (podScheduling app name)) [] pull containers initContainers volumes\<rparr>,
                   kd_Strategy = []\<rparr>
        in dm_return (setReplicas app (isStateful app0 container) sc i dep))))))))))"

definition ToPodDisruptionBudget :: "'q KDeployment \<Rightarrow> PodDisruptionBudget" where
  "ToPodDisruptionBudget dep =
     \<lparr>pb_Meta = kd_Meta dep, pb_MatchLabels = kd_MatchLabels dep,
      pb_MaxUnavailable = (case kd_Replicas dep of
          None \<Rightarrow> PortName ''25%''
        | Some n \<Rightarrow> if sint n > 2 then PortNumber (word_of_int ((sint n - 1) div 2)) else PortNumber 1)\<rparr>"

datatype 'q object =
    ServiceAccount ObjectMeta
  | RBAC RBACObject
  | Deployed "'q KDeployment"
  | Budget PodDisruptionBudget
  | Job "'q KJobObject"

definition workloadObjects :: "('e, 'f, 'q) role_reads \<Rightarrow> ('f, 'q) AppInstance \<Rightarrow> string \<Rightarrow> labels \<Rightarrow> labels \<Rightarrow> 'e object_error + RBACObject list \<times> ObjectMeta" where
  "workloadObjects R app name labelMap annotations =
     map_sum ObjectRead id (bind_err (toServiceAccount R name labelMap annotations app) (\<lambda>sa.
       bind_err (workloadRoles R app name labelMap annotations) (\<lambda>perms. Inr (perms, sa))))"

definition deploymentObjects :: "('e, 'f, 'q) object_lib \<Rightarrow> ('e, 'f, 'q) role_reads \<Rightarrow> string \<times> Container \<Rightarrow> ('e, 'f, 'q, 'q object list) drawing" where
  "deploymentObjects L R = (\<lambda>(name, container).
     dm_bind (toDeployment L name container) (\<lambda>dep.
     dm_bind (dm_gets it_app) (\<lambda>app.
     dm_bind (dm_result (workloadObjects R app (om_Name (kd_Meta dep)) (om_Labels (kd_Meta dep)) (om_Annotations (kd_Meta dep)))) (\<lambda>(perms, sa).
     dm_return (map RBAC perms @ [ServiceAccount sa, Deployed dep, Budget (ToPodDisruptionBudget dep)])))))"

definition ToDeployments :: "('e, 'f, 'q) object_lib \<Rightarrow> ('e, 'f, 'q) role_reads \<Rightarrow> ('e, 'f, 'q, 'q object list) drawing" where
  "ToDeployments L R =
     dm_bind (dm_gets it_app) (\<lambda>app.
     dm_bind (dm_map (deploymentObjects L R) (filter (\<lambda>(name, _). \<not> IsLinked (ai_Links (app_Spec app)) name) (typed_Sorted (as_Containers (is_AppSpec (app_Status app)))))) (\<lambda>objs.
     dm_return (concat objs)))"

subsection \<open>Jobs\<close>

definition JobHelper :: string where "JobHelper = ''acorn-job-output-helper''"
definition AnnotationPrune :: string where "AnnotationPrune = ''apply.acorn.io/prune''"
definition StorageMediumMemory :: string where "StorageMediumMemory = ''Memory''"
definition RestartPolicyNever :: string where "RestartPolicyNever = ''Never''"

definition stripPruneAndUpdate :: "labels \<Rightarrow> labels" where
  "stripPruneAndUpdate annotations = foldl (\<lambda>result (k, v). if k = AnnotationPrune \<or> k = AnnotationUpdate then result else gm_set result k v) [] annotations"

definition setJobEventName :: "string \<Rightarrow> 'q KContainer list \<Rightarrow> 'q KContainer list" where
  "setJobEventName eventName containers = map (\<lambda>c. c\<lparr>kc_Env := kc_Env c @ [\<lparr>ke_Name = ''ACORN_EVENT'', ke_Source = EnvValue eventName\<rparr>]\<rparr>) containers"

definition setSecretOutputVolume :: "'q KContainer list \<Rightarrow> 'q KContainer list" where
  "setSecretOutputVolume containers =
     map (\<lambda>c. c\<lparr>kc_VolumeMounts := \<lparr>km_Name = JobHelper, km_MountPath = ''/run/secrets'', km_SubPath = []\<rparr> # kc_VolumeMounts c\<rparr>) containers"

definition jobHelper :: "('e, 'f, 'q) object_lib \<Rightarrow> 'q KContainer" where
  "jobHelper L = zero_KContainer\<lparr>kc_Name := JobHelper, kc_Image := ol_DefaultImage L, kc_Command := [''/usr/local/bin/acorn-job-helper-init''],
     kc_ImagePullPolicy := PullIfNotPresent\<rparr>"

definition jobVolume :: "('e, 'f, 'q) object_lib \<Rightarrow> 'q KVolume" where
  "jobVolume L = \<lparr>kv_Name = JobHelper, kv_Source = EmptyDirVolume (Some (ol_oneMega L)) StorageMediumMemory\<rparr>"

definition toCronJobSchedule :: "string \<Rightarrow> string" where
  "toCronJobSchedule schedule =
     (if str_trim_space schedule \<in> set [''year'', ''annually'', ''monthly'', ''weekly'', ''daily'', ''midnight'', ''hourly'']
      then CHR ''@'' # str_trim_space schedule else schedule)"

definition markSkipped :: "string \<Rightarrow> bool \<Rightarrow> ('e, 'f, 'q) Interpolator \<Rightarrow> ('e, 'f, 'q) Interpolator" where
  "markSkipped name skipped =
     modifyAppStatus (\<lambda>st. st\<lparr>at_Jobs := gm_set (at_Jobs st) name ((gm_get_or zero_JobStatus (at_Jobs st) name)\<lparr>us_Skipped := skipped\<rparr>)\<rparr>)"

definition jobPodLabels :: "('f, 'q) AppInstance \<Rightarrow> Container \<Rightarrow> string \<Rightarrow> labels" where
  "jobPodLabels app container name =
     jobLabels app container name [AcornManaged, ''true'', AcornAppPublicName, publicname_Get (app_Meta app), AcornJobName, name, AcornContainerName, []]"

definition jobAnnotations :: "('f, 'q) AppInstance \<Rightarrow> labels \<Rightarrow> labels \<Rightarrow> labels" where
  "jobAnnotations app dependencyAnnotations baseAnnotations =
     (let m = gm_set (Merge dependencyAnnotations baseAnnotations) AnnotationPrune ''false'';
          m = (if gm_get_or [] m AnnotationUpdate = [] then gm_set m AnnotationUpdate ''true'' else m)
      in gm_set m AcornAppGeneration (itoa (om_Generation (app_Meta app))))"

definition baseAnnotations :: "('f, 'q) AppInstance \<Rightarrow> string \<Rightarrow> Container \<Rightarrow> labels \<Rightarrow> labels" where
  "baseAnnotations app name container secretAnnotations =
     (let gathered = Merge secretAnnotations (GatherScoped name LabelTypeJob (as_Annotations (is_AppSpec (app_Status app))) (c_Annotations (c_fields container)) (ai_Annotations (app_Spec app)))
      in if om_Generation (app_Meta app) > 0 then gm_set gathered AcornAppGeneration (itoa (om_Generation (app_Meta app))) else gathered)"

definition jobPod :: "('e, 'f, 'q) object_lib \<Rightarrow> ('f, 'q) AppInstance \<Rightarrow> string \<Rightarrow> Container \<Rightarrow> labels \<Rightarrow> string list \<Rightarrow> 'q KContainer list \<Rightarrow> 'q KContainer list \<Rightarrow>
    'q KVolume list \<Rightarrow> 'q KPodTemplate" where
  "jobPod L app name container base pull containers initContainers volumes =
     \<lparr>pt_Labels = jobPodLabels app container name, pt_Annotations = Merge (podAnnotations L container) base,
      pt_Spec = podSpec app name [] RestartPolicyNever pull containers initContainers (volumes @ [jobVolume L])\<rparr>"

definition jobObject :: "('e, 'f, 'q) object_lib \<Rightarrow> ('e, 'f, 'q) Interpolator \<Rightarrow> string \<Rightarrow> Container \<Rightarrow> string \<Rightarrow> labels \<Rightarrow> string list \<Rightarrow> 'q KContainer list \<Rightarrow>
    'q KContainer list \<Rightarrow> 'q KVolume list \<Rightarrow> labels \<Rightarrow> 'q KJobObject" where
  "jobObject L i name container jobEventName secretAnnotations pull containers initContainers volumes dependencyAnnotations =
     (let app = it_app i; base = baseAnnotations app name container secretAnnotations;
          pod = (\<lambda>event. jobPod L app name container base pull (event (setSecretOutputVolume containers)) (event (setSecretOutputVolume initContainers)) volumes);
          marked = AddMissingAnnotations (ForJob name) i (GetStopped app) base;
          meta = zero_ObjectMeta\<lparr>om_Name := name, om_Namespace := is_Namespace (app_Status app), om_Labels := jobPodLabels app container name\<rparr>
      in if c_Schedule (c_fields container) = [] then
           PlainJob (meta\<lparr>om_Annotations := jobAnnotations app dependencyAnnotations marked\<rparr>) (pod (setJobEventName jobEventName)) (Some 1000)
         else CronJob (meta\<lparr>om_Annotations := gm_set (Merge dependencyAnnotations marked) AcornAppGeneration (itoa (om_Generation (app_Meta app)))\<rparr>)
           (pod id) (toCronJobSchedule (c_Schedule (c_fields container))))"

definition renderJob :: "('e, 'f, 'q) object_lib \<Rightarrow> string \<Rightarrow> Container \<Rightarrow> string \<Rightarrow> ('e, 'f, 'q, 'q KJobObject) drawing" where
  "renderJob L name container jobEventName =
     (let sc = ForJob name in
      dm_bind (toContainers L sc name container) (\<lambda>(containers0, initContainers).
      let containers = containers0 @ [jobHelper L] in
      dm_bind (getSecretAnnotations L sc container) (\<lambda>secretAnnotations.
      dm_bind (dm_gets (\<lambda>i. toVolumes L i container)) (\<lambda>volumes.
      dm_bind (dm_result volumes) (\<lambda>volumes.
      dm_bind (pullForContainer L name (containers @ initContainers)) (\<lambda>pull.
      dm_bind (dm_gets id) (\<lambda>i.
      dm_bind (dm_dependencies name (c_Dependencies (c_fields container))) (\<lambda>dependencyAnnotations.
      dm_return (jobObject L i name container jobEventName secretAnnotations pull containers initContainers volumes dependencyAnnotations)))))))))"

definition toJob :: "('e, 'f, 'q) object_lib \<Rightarrow> string \<Rightarrow> Container \<Rightarrow> ('e, 'f, 'q, 'q KJobObject option) drawing" where
  "toJob L name container =
     dm_bind (dm_gets it_app) (\<lambda>app.
     let jobEventName = GetEvent name app; skipped = (\<not> ShouldRunForEvent jobEventName container)
     in dm_bind (dm_modify (markSkipped name skipped)) (\<lambda>_.
        if skipped then dm_return None else dm_bind (renderJob L name container jobEventName) (\<lambda>job. dm_return (Some job))))"

definition jobMeta :: "'q KJobObject \<Rightarrow> ObjectMeta" where
  "jobMeta job = (case job of PlainJob m _ _ \<Rightarrow> m | CronJob m _ _ \<Rightarrow> m)"

definition jobTemplate :: "'q KJobObject \<Rightarrow> 'q KPodTemplate" where
  "jobTemplate job = (case job of PlainJob _ t _ \<Rightarrow> t | CronJob _ t _ \<Rightarrow> t)"

definition jobObjects :: "('e, 'f, 'q) object_lib \<Rightarrow> ('e, 'f, 'q) role_reads \<Rightarrow> string \<times> Container \<Rightarrow> ('e, 'f, 'q, 'q object list) drawing" where
  "jobObjects L R = (\<lambda>(name, container).
     dm_bind (toJob L name container) (\<lambda>found. case found of None \<Rightarrow> dm_return []
     | Some job \<Rightarrow>
         dm_bind (dm_gets it_app) (\<lambda>app.
         dm_bind (dm_result (workloadObjects R app (om_Name (jobMeta job)) (om_Labels (jobMeta job)) (stripPruneAndUpdate (om_Annotations (jobMeta job))))) (\<lambda>(perms, sa).
         dm_return (map RBAC perms @ [ServiceAccount sa, Job job])))))"

definition toJobs :: "('e, 'f, 'q) object_lib \<Rightarrow> ('e, 'f, 'q) role_reads \<Rightarrow> ('e, 'f, 'q, 'q object list) drawing" where
  "toJobs L R =
     dm_bind (dm_gets it_app) (\<lambda>app.
     dm_bind (dm_map (jobObjects L R) (typed_Sorted (as_Jobs (is_AppSpec (app_Status app))))) (\<lambda>objs.
     dm_return (concat objs)))"

end
