(* ===== verification/Deployments.thy ===== *)
theory Deployments
  imports PodTemplates
begin

text \<open>
  What the pods of \<open>PodTemplates\<close> guarantee: every mount has its volume, a deployment selects its own pods and no others, and a stopped app runs nothing
  but the jobs that are meant for it.
\<close>

subsection \<open>Computations\<close>

lemma dm_simps [simp]:
  "dm_return x s = Some (Inr y, s') \<longleftrightarrow> y = x \<and> s' = s"
  "dm_result r s = Some (Inr y, s') \<longleftrightarrow> r = Inr y \<and> s' = s"
  "dm_gets g s = Some (Inr y, s') \<longleftrightarrow> y = g (os_interp s) \<and> s' = s"
  "dm_modify h s = Some (Inr u, s') \<longleftrightarrow> s' = s\<lparr>os_interp := h (os_interp s)\<rparr>"
  by (auto simp: dm_return_def dm_result_def dm_gets_def dm_modify_def)

lemma dm_bind_Inr: "dm_bind m f s = Some (Inr y, s') \<longleftrightarrow> (\<exists>x t. m s = Some (Inr x, t) \<and> f x t = Some (Inr y, s'))"
  by (auto simp: dm_bind_def bind_eq_Some_conv split: sum.splits prod.splits) (metis sum.exhaust)

lemma dm_interp_Inr: "dm_interp op s = Some (Inr x, s') \<longleftrightarrow> (\<exists>i. op (os_interp s) = Some (Inr (x, i)) \<and> s' = s\<lparr>os_interp := i\<rparr>)"
  by (auto simp: dm_interp_def split: option.splits sum.splits)

text \<open>What is done while an app is rendered only adds errors and data.\<close>

definition same_app :: "('f, 'q) AppInstance \<Rightarrow> ('f, 'q) AppInstance \<Rightarrow> bool" where
  "same_app a b \<longleftrightarrow> app_Meta b = app_Meta a \<and> app_Spec b = app_Spec a \<and> is_Namespace (app_Status b) = is_Namespace (app_Status a) \<and>
     is_AppSpec (app_Status b) = is_AppSpec (app_Status a) \<and> is_DevSession (app_Status b) = is_DevSession (app_Status a)"

definition grows :: "('e, 'f, 'q) object_state \<Rightarrow> ('e, 'f, 'q) object_state \<Rightarrow> bool" where
  "grows s t \<longleftrightarrow> it_secretName (os_interp t) = it_secretName (os_interp s) \<and> same_app (it_app (os_interp s)) (it_app (os_interp t)) \<and>
     (\<forall>k. gm_get_or False (it_incomplete (os_interp s)) k \<longrightarrow> gm_get_or False (it_incomplete (os_interp t)) k)"

lemma grows_refl [simp]: "grows s s"
  by (simp add: grows_def same_app_def)

lemma grows_trans [trans]: "grows s t \<Longrightarrow> grows t u \<Longrightarrow> grows s u"
  by (simp add: grows_def same_app_def)

definition growing :: "('e, 'f, 'q, 'a) drawing \<Rightarrow> bool" where
  "growing m \<longleftrightarrow> (\<forall>s x s'. m s = Some (Inr x, s') \<longrightarrow> grows s s')"

named_theorems growing

lemma growing_D: "growing m \<Longrightarrow> m s = Some (Inr x, s') \<Longrightarrow> grows s s'"
  by (simp add: growing_def)

lemma growing_bind [growing]: "growing m \<Longrightarrow> (\<And>x. growing (f x)) \<Longrightarrow> growing (dm_bind m f)"
  unfolding growing_def dm_bind_Inr by (blast intro: grows_trans)

lemma growing_simps [growing]: "growing (dm_return x)" "growing (dm_result r)" "growing (dm_gets g)"
  by (simp_all add: growing_def)

lemma growing_map [growing]: "(\<And>x. growing (f x)) \<Longrightarrow> growing (dm_map f xs)"
  by (induction xs) (auto intro!: growing)

lemma same_app_status [simp]: "same_app a (a\<lparr>app_Status := (app_Status a)\<lparr>is_AppStatus := st\<rparr>\<rparr>)"
  by (simp add: same_app_def)

lemma grows_saveError [simp]: "grows s (s\<lparr>os_interp := saveError L sc err (os_interp s)\<rparr>)"
  by (simp add: grows_def same_app_def saveError_incomplete gm_get_or_set) (simp add: saveError_def modifyAppStatus_def markIncomplete_def Let_def)

lemma grows_addContent [simp]: "grows s (s\<lparr>os_interp := snd (addContent L v (os_interp s))\<rparr>)"
  by (simp add: grows_def same_app_def addContent_def Let_def)

lemma growing_modify [growing]: "growing (dm_modify (saveError L sc err))"
  by (auto simp: growing_def)

lemma growing_ToEnv [growing]: "growing (dm_interp (ToEnv L sc key v))"
  unfolding growing_def dm_interp_Inr by (auto elim!: ToEnv_cases)

lemma ToVolumeMount_name:
  assumes "ToVolumeMount L sc filename f i = Some (Inr (m, i'))"
  shows "(\<exists>err. i' = saveError L sc err i) \<or> (\<exists>v. i' = snd (addContent L v i)) \<and> km_Name m = it_secretName i @ modeSuffix (fl_Mode f)"
  using assms unfolding ToVolumeMount_def Let_def
  by (auto simp: bind_eq_Some_conv on_result_Inr addContent_def modeSuffix_def Let_def split: option.splits)

lemma growing_ToVolumeMount [growing]: "growing (dm_interp (ToVolumeMount L sc filename f))"
  unfolding growing_def dm_interp_Inr by (auto dest!: ToVolumeMount_name)

lemma growing_toEnv [growing]: "growing (toEnv L sc envs appEnvs)"
  unfolding toEnv_def Let_def envEntry_def interpolatedEnv_def by (intro growing | auto intro!: growing)+

lemma growing_fileMount [growing]: "growing (fileMount L sc f)"
  unfolding fileMount_def by (auto intro!: growing split: prod.splits)

lemma growing_toContainer [growing]: "growing (toContainer L sc name container)"
  unfolding toContainer_def toMounts_def by (intro growing)

lemma growing_toContainers [growing]: "growing (toContainers L sc name container)"
  unfolding toContainers_def Let_def by (auto intro!: growing split: prod.splits)

lemma growing_revisionLoop: "growing (revisionLoop L sc result names)"
  by (induction L sc result names rule: revisionLoop.induct) (auto intro!: growing split: sum.splits option.splits)

lemma growing_getSecretAnnotations [growing]: "growing (getSecretAnnotations L sc container)"
  by (simp add: getSecretAnnotations_def growing_revisionLoop)

lemma growing_pull [growing]: "growing (pullForContainer L name containers)"
  by (auto simp: growing_def pullForContainer_def Let_def grows_def same_app_def split: sum.splits)

lemma growing_dependencies [growing]: "growing (dm_dependencies name deps)"
  by (auto simp: growing_def dm_dependencies_def Let_def grows_def same_app_def getDependencyAnnotations_def putDependencies_def putAppStatus_def split: prod.splits if_splits)

subsection \<open>Mounts and volumes\<close>

text \<open>The libraries keep what they order.\<close>

definition orders_volumes :: "('e, 'f, 'q) object_lib \<Rightarrow> bool" where
  "orders_volumes L \<longleftrightarrow> (\<forall>rs. set (ol_visit L rs) = set rs) \<and> (\<forall>vs. set (ol_sortByName L vs) = set vs)"

definition allContainers :: "Container \<Rightarrow> Container list" where
  "allContainers container = container # map snd (c_Sidecars container)"

text \<open>The name under which a reference is mounted, and the one of the content of files.\<close>

definition mountName :: "('e, 'f, 'q) object_lib \<Rightarrow> volumeReference \<Rightarrow> string" where
  "mountName L = (\<lambda>(name, secretName, mode). if secretName \<noteq> [] then secretPodVolName L (secretName @ modeSuffix mode) else sanitizeVolumeName L name)"

definition contentName :: "string \<Rightarrow> string \<Rightarrow> string" where
  "contentName secretName mode = (if mode = [] then secretName else secretName @ ''-'' @ mode)"

definition mountNames :: "('e, 'f, 'q) object_lib \<Rightarrow> ('e, 'f, 'q) Interpolator \<Rightarrow> Container \<Rightarrow> string set" where
  "mountNames L i container = mountName L ` set (volumeReferences (it_app i) container) \<union>
     contentName (it_secretName i) ` fst ` set (addFilesFileModesForContainer container [])"

text \<open>What a pod needs: files have content or a key of a secret, volumes with a slash in their name are ephemeral, and sidecars have no sidecars.\<close>

definition fileGiven :: "File \<Rightarrow> bool" where
  "fileGiven f \<longleftrightarrow> (if sr_Name (fl_Secret f) = [] then fl_Content f \<noteq> [] else sr_Key (fl_Secret f) \<noteq> [])"

definition mountable :: "('f, 'q) AppInstance \<Rightarrow> volumeReference \<Rightarrow> bool" where
  "mountable app = (\<lambda>(name, secretName, _). secretName \<noteq> [] \<or> \<not> str_contains name ''/'' \<or> isEphemeral app name \<noteq> None \<and> \<not> snd (isBind app name))"

definition renderable :: "('f, 'q) AppInstance \<Rightarrow> Container \<Rightarrow> bool" where
  "renderable app container \<longleftrightarrow>
     list_all (\<lambda>c. list_all (\<lambda>(_, f). fileGiven f) (c_Files (c_fields c))) (allContainers container) \<and>
     list_all (\<lambda>(_, c). c_Sidecars c = []) (c_Sidecars container) \<and> list_all (mountable app) (volumeReferences app container)"

lemma NormalizeMode_simps [simp]: "NormalizeMode [] = []" "modeSuffix [] = []"
  by (simp_all add: NormalizeMode_def modeSuffix_def)

lemma modeSuffix_content: "secretName @ modeSuffix mode = contentName secretName (NormalizeMode mode)"
  by (auto simp: modeSuffix_def contentName_def NormalizeMode_def)

lemma keys_addReference [simp]: "fst ` set (addReference r m) = insert r (fst ` set m)"
  by (simp add: addReference_def gm_keys_set)

lemma fold_keys:
  assumes "\<And>x m. fst ` set (f x m) = g x \<union> fst ` set m"
  shows "fst ` set (fold f xs m) = (\<Union>x \<in> set xs. g x) \<union> fst ` set m"
  by (induction xs arbitrary: m) (auto simp: assms)

definition fileReference :: "File \<Rightarrow> volumeReference option" where
  "fileReference f = (if sr_Name (fl_Secret f) \<noteq> [] then Some ([], sr_Name (fl_Secret f), fl_Mode f) else None)"

definition referencesOf :: "('f, 'q) AppInstance \<Rightarrow> Container \<Rightarrow> volumeReference set" where
  "referencesOf app c = {r. \<exists>(_, dir) \<in> set (c_Dirs (c_fields c)). dirReference app dir = Some r} \<union>
     {r. \<exists>(_, f) \<in> set (c_Files (c_fields c)). fileReference f = Some r}"

lemma keys_addVolumeReferences:
  "fst ` set (addVolumeReferencesForContainer app container refs) = referencesOf app container \<union> fst ` set refs"
proof -
  have "fst ` set (fold (\<lambda>(_, dir) m. case dirReference app dir of None \<Rightarrow> m | Some r \<Rightarrow> addReference r m) xs m) =
      (\<Union>x \<in> set xs. set_option (dirReference app (snd x))) \<union> fst ` set m" for xs :: "(string \<times> VolumeMount) list" and m
    by (rule fold_keys) (simp add: case_prod_beta split: option.splits)
  moreover have "fst ` set (fold (\<lambda>(_, f) m. if sr_Name (fl_Secret f) \<noteq> [] then addReference ([], sr_Name (fl_Secret f), fl_Mode f) m else m) xs m) =
      (\<Union>x \<in> set xs. set_option (fileReference (snd x))) \<union> fst ` set m" for xs :: "(string \<times> File) list" and m
    by (rule fold_keys) (simp add: case_prod_beta fileReference_def)
  ultimately show ?thesis
    unfolding addVolumeReferencesForContainer_def referencesOf_def by (simp only: set_typed_Sorted) (auto simp: elem_set, force+)
qed

lemma set_volumeReferences: "set (volumeReferences app container) = (\<Union>c \<in> set (allContainers container). referencesOf app c)"
proof -
  have "fst ` set (fold (\<lambda>(_, sidecar). addVolumeReferencesForContainer app sidecar) xs m) = (\<Union>x \<in> set xs. referencesOf app (snd x)) \<union> fst ` set m"
    for xs :: "(string \<times> Container) list" and m
    by (rule fold_keys) (simp add: case_prod_beta keys_addVolumeReferences)
  then show ?thesis by (simp add: volumeReferences_def allContainers_def keys_addVolumeReferences Un_commute)
qed

definition contentModes :: "Container \<Rightarrow> string set" where
  "contentModes c = {NormalizeMode (fl_Mode f) | k f. (k, f) \<in> set (c_Files (c_fields c)) \<and> fl_Content f \<noteq> [] \<and> sr_Name (fl_Secret f) = []}"

lemma keys_filesModes: "fst ` set (filesModes (c_Files (c_fields c)) m) = contentModes c \<union> fst ` set m"
proof -
  have *: "fst ` set (filesModes files m) = (\<Union>x \<in> set files. if fl_Content (snd x) \<noteq> [] \<and> sr_Name (fl_Secret (snd x)) = [] then {NormalizeMode (fl_Mode (snd x))} else {}) \<union> fst ` set m"
    for files m unfolding filesModes_def by (rule fold_keys) (simp add: case_prod_beta gm_keys_set)
  have "(\<Union>x \<in> set (c_Files (c_fields c)). if fl_Content (snd x) \<noteq> [] \<and> sr_Name (fl_Secret (snd x)) = [] then {NormalizeMode (fl_Mode (snd x))} else {}) = contentModes c"
    by (force simp: contentModes_def split: if_splits)
  with * [of "c_Files (c_fields c)" m] show ?thesis by (simp only:)
qed

lemma keys_addFilesFileModes: "fst ` set (addFilesFileModesForContainer container []) = (\<Union>c \<in> set (allContainers container). contentModes c)"
proof -
  have "fst ` set (fold (\<lambda>(_, sidecar). filesModes (c_Files (c_fields sidecar))) xs m) = (\<Union>x \<in> set xs. contentModes (snd x)) \<union> fst ` set m"
    for xs :: "(string \<times> Container) list" and m
    by (rule fold_keys) (simp add: case_prod_beta keys_filesModes)
  then show ?thesis by (simp add: addFilesFileModesForContainer_def allContainers_def keys_filesModes Un_commute)
qed

subsubsection \<open>Volumes\<close>

lemma referencedVolume_name:
  assumes "referencedVolume L app r = Inr v" "mountable app r"
  shows "kv_Name v = mountName L r"
  using assms
  by (auto simp: referencedVolume_def mountName_def mountable_def toVolumeName_def sanitizeVolumeName_def bind_err_Inr Let_def
      split: prod.splits option.splits if_splits)

lemma contentVolume_name: "contentVolume secretName mode = Inr v \<Longrightarrow> kv_Name v = contentName secretName mode"
  by (auto simp: contentVolume_def contentName_def bind_err_Inr split: if_splits)

lemma map_err_image:
  assumes "map_err f xs = Inr ys" "\<And>x y. x \<in> set xs \<Longrightarrow> f x = Inr y \<Longrightarrow> n y = g x"
  shows "n ` set ys = g ` set xs"
  using assms
proof (induction xs arbitrary: ys)
  case (Cons x xs)
  from Cons.prems(1) obtain y ys' where "f x = Inr y" "map_err f xs = Inr ys'" "ys = y # ys'" by (auto simp: bind_err_Inr)
  then have "n y = g x" using Cons.prems(2) by simp
  moreover have "n ` set ys' = g ` set xs" using Cons.IH [OF \<open>map_err f xs = Inr ys'\<close>] Cons.prems(2) by simp
  ultimately show ?case by (simp add: \<open>ys = y # ys'\<close>)
qed simp

lemma toVolumes_names:
  fixes L :: "('e, 'f, 'q) object_lib"
  assumes "orders_volumes L" "toVolumes L i container = Inr vs" "list_all (mountable (it_app i)) (volumeReferences (it_app i) container)"
  shows "kv_Name ` set vs = mountNames L i container"
proof -
  from assms(2) obtain as bs where v: "map_err (referencedVolume L (it_app i)) (ol_visit L (volumeReferences (it_app i) container)) = Inr as"
    "map_err (contentVolume (it_secretName i) :: _ \<Rightarrow> 'e object_error + 'q KVolume) (sort (map fst (addFilesFileModesForContainer container []))) = Inr bs" "vs = ol_sortByName L (as @ bs)"
    by (auto simp: toVolumes_def bind_err_Inr)
  have o: "set (ol_visit L rs) = set rs" "set (ol_sortByName L us) = set us" for rs us using assms(1) by (simp_all add: orders_volumes_def)
  have "kv_Name ` set as = mountName L ` set (ol_visit L (volumeReferences (it_app i) container))"
    by (rule map_err_image [OF v(1)]) (use assms(3) in \<open>simp add: referencedVolume_name list_all_iff o\<close>)
  moreover have "kv_Name ` set bs = contentName (it_secretName i) ` set (sort (map fst (addFilesFileModesForContainer container [])))"
    by (rule map_err_image [OF v(2)]) (rule contentVolume_name)
  ultimately show ?thesis by (simp add: v(3) o mountNames_def image_Un)
qed

subsubsection \<open>Mounts\<close>

lemma dm_map_Inr:
  assumes "dm_map f xs s = Some (Inr ys, s')" "\<And>x. growing (f x)" "y \<in> set ys"
  obtains x t u where "x \<in> set xs" "f x t = Some (Inr y, u)" "grows s t" "grows u s'"
  using assms(1,3)
proof (induction xs arbitrary: s ys thesis)
  case (Cons x xs)
  from Cons.prems(2) obtain y0 t ys' where h: "f x s = Some (Inr y0, t)" "dm_map f xs t = Some (Inr ys', s')" "ys = y0 # ys'"
    by (auto simp: dm_bind_Inr)
  show ?case
  proof (cases "y = y0")
    case True
    then show ?thesis using Cons.prems(1) [of x s t] h growing_D [OF growing_map [OF assms(2)] h(2)] by simp
  next
    case False
    with Cons.prems(3) h(3) have "y \<in> set ys'" by simp
    from Cons.IH [OF _ h(2) this] obtain z t' u where "z \<in> set xs" "f z t' = Some (Inr y, u)" "grows t t'" "grows u s'" by blast
    then show ?thesis using Cons.prems(1) [of z t' u] grows_trans [OF growing_D [OF assms(2) h(1)], of t'] by simp
  qed
qed simp

text \<open>The part is noted as incomplete.\<close>

definition partScope :: "scope \<Rightarrow> bool" where
  "partScope sc \<longleftrightarrow> sc_jobName sc \<noteq> [] \<and> sc_containerName sc = [] \<or> sc_containerName sc \<noteq> [] \<and> sc_jobName sc = []"

lemma Incomplete_saveError: "partScope sc \<Longrightarrow> Incomplete sc (saveError L sc err i)"
  by (auto simp: partScope_def Incomplete_def saveError_incomplete gm_get_or_set)

lemma Incomplete_grows: "partScope sc \<Longrightarrow> grows s t \<Longrightarrow> Incomplete sc (os_interp s) \<Longrightarrow> Incomplete sc (os_interp t)"
  by (auto simp: partScope_def Incomplete_def grows_def)

lemma fileMount_name:
  assumes "fileMount L sc (key, f) s = Some (Inr m, s')" "partScope sc" "fileGiven f"
  shows "Incomplete sc (os_interp s') \<or> (\<exists>r. fileReference f = Some r \<and> km_Name m = mountName L r) \<or>
    fl_Content f \<noteq> [] \<and> sr_Name (fl_Secret f) = [] \<and> km_Name m = contentName (it_secretName (os_interp s)) (NormalizeMode (fl_Mode f))"
proof (cases "sr_Name (fl_Secret f) = []")
  case True
  with assms(1) obtain i where i: "ToVolumeMount (ol_interp L) sc key f (os_interp s) = Some (Inr (m, i))" "os_interp s' = i"
    by (auto simp: fileMount_def dm_interp_Inr)
  from ToVolumeMount_name [OF i(1)] show ?thesis
    using i(2) True assms(2,3) by (auto simp: Incomplete_saveError modeSuffix_content fileGiven_def)
next
  case False
  with assms(3) have "sr_Key (fl_Secret f) \<noteq> []" by (simp add: fileGiven_def)
  with False assms(1) show ?thesis by (auto simp: fileMount_def fileReference_def mountName_def)
qed

lemma dirMounts_name: "m \<in> set (dirMounts L (GetDevMode (app_Status app)) b dirs) \<Longrightarrow> \<exists>(p, dir) \<in> set dirs. \<exists>r. dirReference app dir = Some r \<and> km_Name m = mountName L r"
  by (induction L "GetDevMode (app_Status app)" b dirs rule: dirMounts.induct)
    (auto simp: dirReference_def mountName_def helperMount_def split: if_splits)

lemma grows_names: "grows s t \<Longrightarrow> mountNames L (os_interp t) container = mountNames L (os_interp s) container"
proof -
  assume g: "grows s t"
  have d: "dirReference (it_app (os_interp t)) dir = dirReference (it_app (os_interp s)) dir" for dir
    using g by (simp add: dirReference_def GetDevMode_def grows_def same_app_def)
  have "referencesOf (it_app (os_interp t)) c = referencesOf (it_app (os_interp s)) c" for c by (simp add: referencesOf_def d)
  then show ?thesis using g by (simp add: mountNames_def set_volumeReferences grows_def)
qed

lemma toContainer_mounts:
  assumes "toContainer L sc name c s = Some (Inr k, s')" "partScope sc" "c \<in> set (allContainers container)"
    and "list_all (\<lambda>(_, f). fileGiven f) (c_Files (c_fields c))" "m \<in> set (kc_VolumeMounts k)"
  shows "Incomplete sc (os_interp s') \<or> km_Name m \<in> mountNames L (os_interp s) container"
proof -
  from assms(1) obtain env mounts t where k: "toEnv L sc (c_Environment (c_fields c)) (ai_Environment (app_Spec (it_app (os_interp s)))) s = Some (Inr env, t)"
    "toMounts L sc c t = Some (Inr mounts, s')" "kc_VolumeMounts k = mounts"
    by (auto simp: toContainer_def dm_bind_Inr)
  from k(2) obtain files where f: "dm_map (fileMount L sc) (typed_Sorted (c_Files (c_fields c))) t = Some (Inr files, s')"
    "mounts = files @ dirMounts L (GetDevMode (app_Status (it_app (os_interp s')))) False (typed_Sorted (c_Dirs (c_fields c)))"
    by (auto simp: toMounts_def dm_bind_Inr)
  have st: "grows s t" "grows t s'" using growing_D [OF growing_toEnv k(1)] growing_D [OF growing_map [OF growing_fileMount] f(1)] by auto
  have refs: "mountName L r \<in> mountNames L (os_interp s') container" if "r \<in> referencesOf (it_app (os_interp s')) c" for r
    using that assms(3) by (auto simp: mountNames_def set_volumeReferences)
  have names: "mountNames L (os_interp s') container = mountNames L (os_interp s) container" using grows_names [OF grows_trans [OF st]] .
  from assms(5) k(3) f(2) consider "m \<in> set files"
    | "m \<in> set (dirMounts L (GetDevMode (app_Status (it_app (os_interp s')))) False (typed_Sorted (c_Dirs (c_fields c))))" by auto
  then show ?thesis
  proof cases
    case 1
    obtain x u v where x: "x \<in> set (typed_Sorted (c_Files (c_fields c)))" "fileMount L sc x u = Some (Inr m, v)" "grows t u" "grows v s'"
      by (rule dm_map_Inr [OF f(1) growing_fileMount 1])
    obtain key g where xg: "x = (key, g)" by (cases x)
    with x(1) assms(4) have g: "fileGiven g" "(key, g) \<in> set (c_Files (c_fields c))" by (auto simp: list_all_iff)
    have sec: "it_secretName (os_interp u) = it_secretName (os_interp s)" using x(3) st(1) by (simp add: grows_def)
    from fileMount_name [OF x(2) [unfolded xg] assms(2) g(1)] show ?thesis
    proof (elim disjE exE conjE)
      assume "Incomplete sc (os_interp v)"
      then show ?thesis using Incomplete_grows [OF assms(2) x(4)] by simp
    next
      fix r assume "fileReference g = Some r" "km_Name m = mountName L r"
      then show ?thesis using refs [of r] g(2) names by (auto simp: referencesOf_def)
    next
      assume "fl_Content g \<noteq> []" "sr_Name (fl_Secret g) = []" "km_Name m = contentName (it_secretName (os_interp u)) (NormalizeMode (fl_Mode g))"
      then have "NormalizeMode (fl_Mode g) \<in> contentModes c" "km_Name m = contentName (it_secretName (os_interp s)) (NormalizeMode (fl_Mode g))"
        using g(2) by (auto simp: contentModes_def sec)
      then show ?thesis using assms(3) by (auto simp: mountNames_def keys_addFilesFileModes)
    qed
  next
    case 2
    from dirMounts_name [OF this] refs names show ?thesis by (fastforce simp: referencesOf_def)
  qed
qed

lemma hasContextDir_reference:
  assumes "hasContextDir container" "GetDevMode (app_Status app)" "list_all (\<lambda>(_, c). c_Sidecars c = []) (c_Sidecars container)"
  shows "(AcornHelper, [], []) \<in> set (volumeReferences app container)"
proof -
  have flat: "\<exists>(k, dir) \<in> set (c_Dirs (c_fields c)). vm_ContextDir dir \<noteq> []" if "hasContextDir c" "c_Sidecars c = []" for c
    using that by (cases c) (auto simp: list_ex_iff)
  have "\<exists>c \<in> set (allContainers container). \<exists>(k, dir) \<in> set (c_Dirs (c_fields c)). vm_ContextDir dir \<noteq> []"
  proof (cases container)
    case (Container f sidecars)
    from assms(1) [unfolded Container] consider k dir where "(k, dir) \<in> set (c_Dirs f)" "vm_ContextDir dir \<noteq> []"
      | k c where "(k, c) \<in> set sidecars" "hasContextDir c" by (auto simp: list_ex_iff)
    then show ?thesis
    proof cases
      case 1 then show ?thesis using Container by (auto simp: allContainers_def)
    next
      case 2
      with flat [of c] assms(3) Container show ?thesis by (force simp: allContainers_def list_all_iff)
    qed
  qed
  then show ?thesis using assms(2) by (fastforce simp: set_volumeReferences referencesOf_def dirReference_def)
qed

lemma toContainers_mounts:
  assumes "toContainers L sc name container s = Some (Inr (cs, ics), s')" "partScope sc" "renderable (it_app (os_interp s)) container"
    and "k \<in> set cs \<union> set ics" "m \<in> set (kc_VolumeMounts k)"
  shows "Incomplete sc (os_interp s') \<or> km_Name m \<in> mountNames L (os_interp s) container"
proof -
  let ?side = "\<lambda>(key, sidecar). dm_bind (toContainer L sc key sidecar) (\<lambda>c. dm_return (c_Init (c_fields sidecar), c))"
  from assms(1) obtain main sidecars t where c: "toContainer L sc name container s = Some (Inr main, t)"
    "dm_map ?side (typed_Sorted (c_Sidecars container)) t = Some (Inr sidecars, s')"
    "cs = main # map snd (filter (\<lambda>(init, _). \<not> init) sidecars)"
    "ics = (if GetDevMode (app_Status (it_app (os_interp s))) \<and> hasContextDir container then [acornHelper L] else []) @ map snd (filter fst sidecars)"
    by (auto simp: toContainers_def dm_bind_Inr Let_def)
  have gside: "growing (?side x)" for x by (cases x) (auto intro!: growing)
  have st: "grows s t" "grows t s'" using growing_D [OF growing_toContainer c(1)] growing_D [OF growing_map [OF gside] c(2)] by auto
  have files: "list_all (\<lambda>(_, f). fileGiven f) (c_Files (c_fields c))" if "c \<in> set (allContainers container)" for c
    using that assms(3) by (simp add: renderable_def list_all_iff)
  from assms(4) c(3,4) consider "k = main" | "k \<in> snd ` set sidecars"
    | "k = acornHelper L" "GetDevMode (app_Status (it_app (os_interp s)))" "hasContextDir container" by (auto split: if_splits)
  then show ?thesis
  proof cases
    case 1
    then have "m \<in> set (kc_VolumeMounts main)" using assms(5) by simp
    from toContainer_mounts [OF c(1) assms(2) _ _ this, of container] show ?thesis
      using files [of container] Incomplete_grows [OF assms(2) st(2)] by (auto simp: allContainers_def)
  next
    case 2
    then obtain init where "(init, k) \<in> set sidecars" by auto
    from dm_map_Inr [OF c(2) gside this] obtain x u v where x: "x \<in> set (typed_Sorted (c_Sidecars container))" "?side x u = Some (Inr (init, k), v)" "grows t u" "grows v s'"
      by blast
    obtain key sidecar where xk: "x = (key, sidecar)" by (cases x)
    from x(2) xk have "toContainer L sc key sidecar u = Some (Inr k, v)" by (auto simp: dm_bind_Inr)
    moreover from x(1) xk have "(key, sidecar) \<in> set (c_Sidecars container)" by simp
    then have "sidecar \<in> set (allContainers container)" by (force simp: allContainers_def)
    ultimately have "Incomplete sc (os_interp v) \<or> km_Name m \<in> mountNames L (os_interp u) container"
      using toContainer_mounts [OF _ assms(2) _ files assms(5)] by blast
    then show ?thesis using Incomplete_grows [OF assms(2) x(4)] grows_names [OF grows_trans [OF st(1) x(3)]] by auto
  next
    case 3
    then have "m = helperMount L" using assms(5) by (simp add: acornHelper_def)
    then have "km_Name m = mountName L (AcornHelper, [], [])" by (simp add: helperMount_def mountName_def)
    moreover have "(AcornHelper, [], []) \<in> set (volumeReferences (it_app (os_interp s)) container)"
      using hasContextDir_reference [OF 3(3,2)] assms(3) by (simp add: renderable_def)
    ultimately show ?thesis by (simp add: mountNames_def)
  qed
qed

subsection \<open>Deployments and jobs\<close>

lemma toDeployment_parts:
  assumes "toDeployment L name container s = Some (Inr dep, s')"
  obtains cs ics t u volumes pull annotations where
    "toContainers L (ForContainer name) name container s = Some (Inr (cs, ics), t)" "grows t u" "grows u s'" "grows s u"
    "toVolumes L (os_interp u) container = Inr volumes"
    "kd_Template dep = \<lparr>pt_Labels = containerLabels (it_app (os_interp s')) container name [], pt_Annotations = pt_Annotations (kd_Template dep),
       pt_Spec = (podSpec (it_app (os_interp s')) name (sg_PriorityClassName (podScheduling (it_app (os_interp s')) name)) [] pull cs ics volumes)\<lparr>ps_Hostname := ps_Hostname (pt_Spec (kd_Template dep))\<rparr>\<rparr>"
    "kd_MatchLabels dep = selectorMatchLabels (it_app (os_interp s')) name []"
    "if ai_Stop (app_Spec (it_app (os_interp s'))) = Some True then kd_Replicas dep = Some 0
     else om_Annotations (kd_Meta dep) = AddMissingAnnotations (ForContainer name) (os_interp s') (GetStopped (it_app (os_interp s'))) annotations"
proof -
  let ?sc = "ForContainer name"
  from assms obtain cs ics t sec u volumes deps v pull where d: "toContainers L ?sc name container s = Some (Inr (cs, ics), t)"
    "getSecretAnnotations L ?sc container t = Some (Inr sec, u)" "toVolumes L (os_interp u) container = Inr volumes"
    "dm_dependencies name (c_Dependencies (c_fields container)) u = Some (Inr deps, v)" "pullForContainer L name (cs @ ics) v = Some (Inr pull, s')"
    "dep = setReplicas (it_app (os_interp s')) (isStateful (it_app (os_interp s)) container) ?sc (os_interp s')
       \<lparr>kd_Meta = zero_ObjectMeta\<lparr>om_Name := name, om_Namespace := is_Namespace (app_Status (it_app (os_interp s'))), om_Labels := containerLabels (it_app (os_interp s')) container name [],
          om_Annotations := typed_Concat [containerAnnotations (it_app (os_interp s')) container name, deps, sec]\<rparr>,
        kd_Replicas = c_Scale (c_fields container), kd_MatchLabels = selectorMatchLabels (it_app (os_interp s')) name [],
        kd_Template = \<lparr>pt_Labels = containerLabels (it_app (os_interp s')) container name [],
          pt_Annotations = typed_Concat [containerAnnotations (it_app (os_interp s')) container name, podAnnotations L container, sec],
          pt_Spec = podSpec (it_app (os_interp s')) name (sg_PriorityClassName (podScheduling (it_app (os_interp s')) name)) [] pull cs ics volumes\<rparr>, kd_Strategy = []\<rparr>"
    by (auto simp: toDeployment_def dm_bind_Inr Let_def)
  have g: "grows s t" "grows t u" "grows u v" "grows v s'"
    by (rule growing_D [OF growing_toContainers d(1)] growing_D [OF growing_getSecretAnnotations d(2)] growing_D [OF growing_dependencies d(4)]
        growing_D [OF growing_pull d(5)])+
  show thesis
    by (rule that [OF d(1) g(2) grows_trans [OF g(3,4)] grows_trans [OF g(1,2)] d(3), where pull = pull and annotations = "typed_Concat [containerAnnotations (it_app (os_interp s')) container name, deps, sec]"])
      (simp_all add: d(6) setReplicas_def Let_def podSpec_def)
qed

lemma partScope_simps [simp]: "name \<noteq> [] \<Longrightarrow> partScope (ForContainer name)" "name \<noteq> [] \<Longrightarrow> partScope (ForJob name)"
  by (simp_all add: partScope_def ForContainer_def ForJob_def)

lemma renderable_grows: "grows s t \<Longrightarrow> renderable (it_app (os_interp t)) container = renderable (it_app (os_interp s)) container"
proof -
  assume g: "grows s t"
  then have r: "referencesOf (it_app (os_interp t)) c = referencesOf (it_app (os_interp s)) c" for c
    by (simp add: referencesOf_def dirReference_def GetDevMode_def grows_def same_app_def)
  have m: "mountable (it_app (os_interp t)) = mountable (it_app (os_interp s))"
    using g by (simp add: fun_eq_iff mountable_def isEphemeral_def isBind_def GetDevMode_def grows_def same_app_def)
  show ?thesis by (simp add: renderable_def list_all_iff set_volumeReferences r m)
qed

lemma rendered_mounts:
  assumes "orders_volumes L" "partScope sc" "renderable (it_app (os_interp s)) container"
    and "toContainers L sc name container s = Some (Inr (cs, ics), t)" "grows s u" "grows t u" "toVolumes L (os_interp u) container = Inr volumes"
  shows "Incomplete sc (os_interp u) \<or> (\<forall>k \<in> set cs \<union> set ics. \<forall>m \<in> set (kc_VolumeMounts k). km_Name m \<in> kv_Name ` set volumes)"
proof -
  have "renderable (it_app (os_interp u)) container" using assms(3,5) by (simp add: renderable_grows)
  then have "kv_Name ` set volumes = mountNames L (os_interp u) container"
    using toVolumes_names [OF assms(1,7)] by (simp add: renderable_def)
  also have "\<dots> = mountNames L (os_interp s) container" by (rule grows_names [OF assms(5)])
  finally show ?thesis
    using toContainers_mounts [OF assms(4,2,3)] Incomplete_grows [OF assms(2,6)] by metis
qed

lemma AddMissing_create: "Incomplete sc i \<Longrightarrow> gm_get (AddMissingAnnotations sc i stopped annotations) AnnotationCreate = Some ''false''"
  by (simp add: AddMissingAnnotations_def go_map)

subsection \<open>Labels\<close>

lemmas label_keys = AcornAppName_def AcornAppNamespace_def AcornManaged_def AcornContainerName_def AcornAppPublicName_def AcornJobName_def Prefix_def

lemma gathered_acorn: "str_contains k ''acorn.io/'' \<Longrightarrow> gm_get (GatherScoped n t g r ls) k = None"
  unfolding GatherScoped_def by (subst ExcludeAcornKey_get) (simp_all add: gather_fold_ok typed_Concat_def copyInto_ok)

lemma Merge_get: "gm_ok overlay \<Longrightarrow> gm_get (Merge base overlay) k = (case gm_get overlay k of None \<Rightarrow> gm_get base k | Some v \<Rightarrow> Some v)"
  by (simp add: Merge_def copyInto_get)

lemma managedLoop_ok: "gm_ok m \<Longrightarrow> gm_ok (managedLoop m kv)"
  by (induction m kv rule: managedLoop.induct) auto

lemma Managed_ok: "gm_ok (Managed app kv)"
  unfolding Managed_def ManagedByApp_def by (rule managedLoop_ok) (simp add: gm_ok_def label_keys)

lemma Managed_get:
  "gm_get (Managed app kv) k = gm_get (managedLoop [(AcornAppName, om_Name (app_Meta app)), (AcornAppNamespace, om_Namespace (app_Meta app)), (AcornManaged, ''true'')] kv) k"
  by (simp add: Managed_def ManagedByApp_def)

lemma selects_get: "gm_ok sel \<Longrightarrow> selects sel labels \<longleftrightarrow> (\<forall>k v. gm_get sel k = Some v \<longrightarrow> gm_get labels k = Some v)"
  by (auto simp: selects_def list_all_iff gm_get_in_set)

lemma base_labels_get [go_map]:
  "gm_get [(AcornAppName, a), (AcornAppNamespace, n), (AcornManaged, t)] k =
     (if k = AcornAppName then Some a else if k = AcornAppNamespace then Some n else if k = AcornManaged then Some t else None)"
  by (simp add: gm_get_def)

lemma keys_distinct [simp]:
  "AcornAppName \<noteq> AcornAppNamespace" "AcornAppName \<noteq> AcornManaged" "AcornAppName \<noteq> AcornContainerName" "AcornAppName \<noteq> AcornAppPublicName" "AcornAppName \<noteq> AcornJobName"
  "AcornAppNamespace \<noteq> AcornManaged" "AcornAppNamespace \<noteq> AcornContainerName" "AcornAppNamespace \<noteq> AcornAppPublicName" "AcornAppNamespace \<noteq> AcornJobName"
  "AcornManaged \<noteq> AcornContainerName" "AcornManaged \<noteq> AcornAppPublicName" "AcornManaged \<noteq> AcornJobName"
  "AcornContainerName \<noteq> AcornAppPublicName" "AcornContainerName \<noteq> AcornJobName" "AcornAppPublicName \<noteq> AcornJobName"
  by (simp_all add: label_keys)

lemmas keys_distinct' [simp] = keys_distinct [symmetric]

lemma selector_selects:
  assumes "name \<noteq> []"
  shows "selects (selectorMatchLabels app name []) labels \<longleftrightarrow> gm_get labels AcornAppName = Some (om_Name (app_Meta app)) \<and>
    gm_get labels AcornAppNamespace = Some (om_Namespace (app_Meta app)) \<and> gm_get labels AcornManaged = Some ''true'' \<and> gm_get labels AcornContainerName = Some name"
proof -
  have ok: "gm_ok (selectorMatchLabels app name [])" by (simp add: selectorMatchLabels_def mergeConLabels_def Merge_def copyInto_ok)
  have "gm_get (selectorMatchLabels app name []) k = (if k = AcornAppName then Some (om_Name (app_Meta app)) else if k = AcornAppNamespace then Some (om_Namespace (app_Meta app))
      else if k = AcornManaged then Some ''true'' else if k = AcornContainerName then Some name else None)" for k
    using assms by (auto simp: selectorMatchLabels_def mergeConLabels_def Merge_get [OF Managed_ok] Managed_get go_map)
  then show ?thesis unfolding selects_get [OF ok] by auto
qed

lemma container_pod_labels:
  assumes "name \<noteq> []"
  shows "gm_get (containerLabels app container name []) AcornAppName = Some (om_Name (app_Meta app))"
    "gm_get (containerLabels app container name []) AcornAppNamespace = Some (om_Namespace (app_Meta app))"
    "gm_get (containerLabels app container name []) AcornManaged = Some ''true''"
    "gm_get (containerLabels app container name []) AcornContainerName = Some name"
  using assms by (simp_all add: containerLabels_def mergeConLabels_def Merge_get [OF Managed_ok] Managed_get go_map)

lemma job_pod_labels:
  shows "gm_get (jobPodLabels app container name) AcornAppName = Some (om_Name (app_Meta app))"
    "gm_get (jobPodLabels app container name) AcornAppNamespace = Some (om_Namespace (app_Meta app))"
    "gm_get (jobPodLabels app container name) AcornManaged = Some ''true''"
    "gm_get (jobPodLabels app container name) AcornContainerName = None"
proof -
  have c: "str_contains AcornContainerName ''acorn.io/''" by code_simp
  show "gm_get (jobPodLabels app container name) AcornAppName = Some (om_Name (app_Meta app))"
    "gm_get (jobPodLabels app container name) AcornAppNamespace = Some (om_Namespace (app_Meta app))"
    "gm_get (jobPodLabels app container name) AcornManaged = Some ''true''"
    "gm_get (jobPodLabels app container name) AcornContainerName = None"
    by (simp_all add: jobPodLabels_def jobLabels_def mergeConLabels_def Merge_get [OF Managed_ok] Managed_get go_map gathered_acorn [OF c])
qed

lemma same_app_labels:
  assumes "same_app a b"
  shows "containerLabels b container name kv = containerLabels a container name kv" "selectorMatchLabels b name kv = selectorMatchLabels a name kv"
    "jobPodLabels b container name = jobPodLabels a container name"
  using assms
  by (simp_all add: same_app_def containerLabels_def selectorMatchLabels_def jobPodLabels_def jobLabels_def mergeConLabels_def Managed_def)

lemma grows_app: "grows s t \<Longrightarrow> same_app (it_app (os_interp s)) (it_app (os_interp t))"
  by (simp add: grows_def)

lemma revisionLoop_ok: "revisionLoop L sc result names s = Some (Inr r, s') \<Longrightarrow> gm_ok result \<Longrightarrow> gm_ok r"
  by (induction L sc result names arbitrary: s rule: revisionLoop.induct)
    (auto simp: dm_bind_Inr split: if_splits sum.splits option.splits)

lemma jobObject_simps:
  "pt_Labels (jobTemplate (jobObject L i name container event sec pull cs ics volumes deps)) = jobPodLabels (it_app i) container name"
  "ps_Volumes (pt_Spec (jobTemplate (jobObject L i name container event sec pull cs ics volumes deps))) = volumes @ [jobVolume L]"
  by (simp_all add: jobObject_def jobTemplate_def jobPod_def podSpec_def Let_def)

lemma jobObject_mounts:
  assumes "k \<in> set (ps_Containers (pt_Spec (jobTemplate (jobObject L i name container event sec pull cs ics volumes deps)))) \<union>
      set (ps_InitContainers (pt_Spec (jobTemplate (jobObject L i name container event sec pull cs ics volumes deps))))" "m \<in> set (kc_VolumeMounts k)"
  shows "km_Name m = JobHelper \<or> (\<exists>k' \<in> set cs \<union> set ics. m \<in> set (kc_VolumeMounts k'))"
  using assms
  by (cases "c_Schedule (c_fields container) = []")
    (auto simp: jobObject_def jobTemplate_def jobPod_def podSpec_def setSecretOutputVolume_def setJobEventName_def Let_def)

lemma jobObject_create:
  assumes "Incomplete (ForJob name) i" "gm_ok sec"
  shows "gm_get (om_Annotations (jobMeta (jobObject L i name container event sec pull cs ics volumes deps))) AnnotationCreate = Some ''false''"
proof -
  let ?marked = "AddMissingAnnotations (ForJob name) i (GetStopped (it_app i)) (baseAnnotations (it_app i) name container sec)"
  have "gm_ok ?marked" using assms(2) by (simp add: AddMissingAnnotations_def baseAnnotations_def Let_def Merge_def copyInto_ok)
  then have "gm_get (Merge deps ?marked) AnnotationCreate = Some ''false''" by (simp only: Merge_get AddMissing_create [OF assms(1)] option.case)
  then show ?thesis
    by (simp add: jobObject_def jobMeta_def jobAnnotations_def Let_def go_map AnnotationCreate_def AnnotationPrune_def AnnotationUpdate_def
        AcornAppGeneration_def Prefix_def)
qed

lemma renderJob_parts:
  assumes "renderJob L name container event s = Some (Inr job, s')" "name \<noteq> []"
  obtains cs ics t u volumes where
    "toContainers L (ForJob name) name container s = Some (Inr (cs, ics), t)" "grows t u" "grows s u"
    "toVolumes L (os_interp u) container = Inr volumes"
    "pt_Labels (jobTemplate job) = jobPodLabels (it_app (os_interp s)) container name"
    "\<And>k m. k \<in> set (ps_Containers (pt_Spec (jobTemplate job))) \<union> set (ps_InitContainers (pt_Spec (jobTemplate job))) \<Longrightarrow> m \<in> set (kc_VolumeMounts k) \<Longrightarrow>
       km_Name m = JobHelper \<or> (\<exists>k' \<in> set cs \<union> set ics. m \<in> set (kc_VolumeMounts k'))"
    "ps_Volumes (pt_Spec (jobTemplate job)) = volumes @ [jobVolume L]"
    "Incomplete (ForJob name) (os_interp u) \<Longrightarrow> gm_get (om_Annotations (jobMeta job)) AnnotationCreate = Some ''false''"
proof -
  from assms(1) obtain cs ics t sec u volumes pull v deps where d: "toContainers L (ForJob name) name container s = Some (Inr (cs, ics), t)"
    "getSecretAnnotations L (ForJob name) container t = Some (Inr sec, u)" "toVolumes L (os_interp u) container = Inr volumes"
    "pullForContainer L name (cs @ jobHelper L # ics) u = Some (Inr pull, v)"
    "job = jobObject L (os_interp v) name container event sec pull (cs @ [jobHelper L]) ics volumes deps"
    by (auto simp: renderJob_def dm_bind_Inr Let_def)
  have g: "grows s t" "grows t u" "grows u v"
    by (rule growing_D [OF growing_toContainers d(1)] growing_D [OF growing_getSecretAnnotations d(2)] growing_D [OF growing_pull d(4)])+
  have ok: "gm_ok sec" using d(2) by (auto simp: getSecretAnnotations_def intro: revisionLoop_ok)
  have ann: "gm_get (om_Annotations (jobMeta job)) AnnotationCreate = Some ''false''" if "Incomplete (ForJob name) (os_interp u)"
    unfolding d(5) by (rule jobObject_create [OF Incomplete_grows [OF _ g(3) that] ok]) (simp add: assms(2))
  have mounts: "km_Name m = JobHelper \<or> (\<exists>k' \<in> set cs \<union> set ics. m \<in> set (kc_VolumeMounts k'))"
    if "k \<in> set (ps_Containers (pt_Spec (jobTemplate job))) \<union> set (ps_InitContainers (pt_Spec (jobTemplate job)))" "m \<in> set (kc_VolumeMounts k)" for k m
    using jobObject_mounts [OF that [unfolded d(5)]] by (auto simp: jobHelper_def zero_KContainer_def)
  have labels: "pt_Labels (jobTemplate job) = jobPodLabels (it_app (os_interp s)) container name"
    unfolding d(5) jobObject_simps by (rule same_app_labels(3) [OF grows_app [OF grows_trans [OF grows_trans [OF g(1,2)] g(3)]]])
  show thesis
    by (rule that [OF d(1) g(2) grows_trans [OF g(1,2)] d(3) labels mounts _ ann]) (simp_all add: d(5) jobObject_simps)
qed

lemma growing_markSkipped [growing]: "growing (dm_modify (markSkipped name skipped))"
  by (auto simp: growing_def grows_def markSkipped_def modifyAppStatus_def same_app_def)

lemma toJob_rendered:
  assumes "toJob L name container s = Some (Inr (Some job), s')"
  obtains t where "grows s t" "renderJob L name container (GetEvent name (it_app (os_interp s))) t = Some (Inr job, s')"
    "ShouldRunForEvent (GetEvent name (it_app (os_interp s))) container"
proof -
  from assms have r: "ShouldRunForEvent (GetEvent name (it_app (os_interp s))) container"
    by (auto simp: toJob_def dm_bind_Inr Let_def split: if_splits)
  with assms obtain t where t: "dm_modify (markSkipped name False) s = Some (Inr (), t)"
    "renderJob L name container (GetEvent name (it_app (os_interp s))) t = Some (Inr job, s')"
    by (auto simp: toJob_def dm_bind_Inr Let_def)
  show thesis by (rule that [OF growing_D [OF growing_markSkipped t(1)] t(2) r])
qed

subsection \<open>The roles of the workloads\<close>

fun rbacObjects :: "'q object list \<Rightarrow> RBACObject list" where
  "rbacObjects [] = []"
| "rbacObjects (RBAC r # objs) = r # rbacObjects objs"
| "rbacObjects (_ # objs) = rbacObjects objs"

lemma rbacObjects_append [simp]: "rbacObjects (xs @ ys) = rbacObjects xs @ rbacObjects ys"
  by (induction xs rule: rbacObjects.induct) simp_all

lemma rbacObjects_RBAC [simp]: "rbacObjects (map RBAC rs) = rs"
  by (induction rs) simp_all

lemma workloadRoles_same: "same_app a b \<Longrightarrow> workloadRoles R b name l ann = workloadRoles R a name l ann"
  by (simp add: same_app_def workloadRoles_def toPermissions_def toClusterPermissions_def clusterObjects_def toRoleAndRoleBinding_def roleName_def roleMeta_def
      ShortID_def Managed_def cong: if_cong)

lemma appRoles_same: "same_app a b \<Longrightarrow> appRoles R b parts = appRoles R a parts"
  by (simp add: appRoles_def workloadRoles_same)

lemma appRoles_Cons:
  "workloadRoles R app name l a = Inr rs \<Longrightarrow> appRoles R app parts = Inr objs \<Longrightarrow> appRoles R app ((name, l, a) # parts) = Inr (rs @ objs)"
  by (auto simp: appRoles_def bind_err_Inr)

lemma appRoles_append:
  "appRoles R app ps = Inr xs \<Longrightarrow> appRoles R app qs = Inr ys \<Longrightarrow> appRoles R app (ps @ qs) = Inr (xs @ ys)"
  by (auto simp: appRoles_def bind_err_Inr map_err_append)

lemma growing_toDeployment [growing]: "growing (toDeployment L name container)"
  unfolding toDeployment_def Let_def by (auto intro!: growing split: prod.splits)

lemma growing_renderJob [growing]: "growing (renderJob L name container event)"
  unfolding renderJob_def Let_def by (auto intro!: growing split: prod.splits)

lemma growing_toJob [growing]: "growing (toJob L name container)"
  unfolding toJob_def Let_def by (auto intro!: growing)

lemma growing_deploymentObjects [growing]: "growing (deploymentObjects L R entry)"
  unfolding deploymentObjects_def by (auto intro!: growing split: prod.splits)

lemma growing_jobObjects [growing]: "growing (jobObjects L R entry)"
  unfolding jobObjects_def by (auto intro!: growing split: prod.splits option.splits)

lemma toDeployment_name: "toDeployment L name container s = Some (Inr dep, s') \<Longrightarrow> om_Name (kd_Meta dep) = name"
  by (auto simp: toDeployment_def dm_bind_Inr setReplicas_def Let_def)

lemma toJob_name: "toJob L name container s = Some (Inr (Some job), s') \<Longrightarrow> om_Name (jobMeta job) = name"
  by (auto simp: toJob_def renderJob_def jobObject_def jobMeta_def dm_bind_Inr Let_def split: if_splits)

lemma workloadObjects_roles: "workloadObjects R app name l a = Inr (perms, sa) \<Longrightarrow> workloadRoles R app name l a = Inr perms"
  by (cases "toServiceAccount R name l a app"; cases "workloadRoles R app name l a") (simp_all add: workloadObjects_def)

lemma deploymentObjects_roles:
  assumes "deploymentObjects L R (name, container) s = Some (Inr objs, s')"
  shows "\<exists>l a. workloadRoles R (it_app (os_interp s)) name l a = Inr (rbacObjects objs)"
proof -
  from assms obtain dep perms sa where d: "toDeployment L name container s = Some (Inr dep, s')"
    "workloadObjects R (it_app (os_interp s')) (om_Name (kd_Meta dep)) (om_Labels (kd_Meta dep)) (om_Annotations (kd_Meta dep)) = Inr (perms, sa)"
    "objs = map RBAC perms @ [ServiceAccount sa, Deployed dep, Budget (ToPodDisruptionBudget dep)]"
    by (auto simp: deploymentObjects_def dm_bind_Inr)
  have "workloadRoles R (it_app (os_interp s)) name (om_Labels (kd_Meta dep)) (om_Annotations (kd_Meta dep)) = Inr perms"
    using workloadObjects_roles [OF d(2)]
    by (simp only: toDeployment_name [OF d(1)] workloadRoles_same [OF grows_app [OF growing_D [OF growing_toDeployment d(1)]]])
  with d(3) show ?thesis by auto
qed

lemma jobObjects_roles:
  assumes "jobObjects L R (name, container) s = Some (Inr objs, s')"
  shows "\<exists>parts. appRoles R (it_app (os_interp s)) parts = Inr (rbacObjects objs) \<and> fst ` set parts \<subseteq> {name}"
proof -
  from assms obtain found t where f: "toJob L name container s = Some (Inr found, t)"
    "(case found of None \<Rightarrow> dm_return []
      | Some job \<Rightarrow> dm_bind (dm_gets it_app) (\<lambda>app.
         dm_bind (dm_result (workloadObjects R app (om_Name (jobMeta job)) (om_Labels (jobMeta job)) (stripPruneAndUpdate (om_Annotations (jobMeta job))))) (\<lambda>(perms, sa).
         dm_return (map RBAC perms @ [ServiceAccount sa, Job job])))) t = Some (Inr objs, s')"
    by (auto simp: jobObjects_def dm_bind_Inr)
  show ?thesis
  proof (cases found)
    case None
    with f(2) have "objs = []" by simp
    then show ?thesis by (intro exI [of _ "[]"]) (simp add: appRoles_def)
  next
    case (Some job)
    with f(2) obtain perms sa where d: "workloadObjects R (it_app (os_interp t)) (om_Name (jobMeta job)) (om_Labels (jobMeta job)) (stripPruneAndUpdate (om_Annotations (jobMeta job))) = Inr (perms, sa)"
      "objs = map RBAC perms @ [ServiceAccount sa, Job job]" by (auto simp: dm_bind_Inr)
    from f(1) Some have j: "toJob L name container s = Some (Inr (Some job), t)" by simp
    from workloadObjects_roles [OF d(1)] have "workloadRoles R (it_app (os_interp s)) name (om_Labels (jobMeta job)) (stripPruneAndUpdate (om_Annotations (jobMeta job))) = Inr perms"
      by (simp add: toJob_name [OF j] workloadRoles_same [OF grows_app [OF growing_D [OF growing_toJob j]]])
    with d(2) show ?thesis
      by (intro exI [of _ "[(name, om_Labels (jobMeta job), stripPruneAndUpdate (om_Annotations (jobMeta job)))]"]) (simp add: appRoles_def)
  qed
qed

lemma mapped_roles:
  assumes "dm_map f work s = Some (Inr objss, s')" "\<And>x. growing (f x)"
    and "\<And>x t objs t'. f x t = Some (Inr objs, t') \<Longrightarrow> \<exists>parts. appRoles R (it_app (os_interp t)) parts = Inr (rbacObjects objs) \<and> fst ` set parts \<subseteq> {fst x}"
  shows "\<exists>parts. appRoles R (it_app (os_interp s)) parts = Inr (rbacObjects (concat objss)) \<and> fst ` set parts \<subseteq> fst ` set work"
  using assms(1)
proof (induction work arbitrary: s objss)
  case Nil
  then show ?case by (intro exI [of _ "[]"]) (simp add: appRoles_def)
next
  case (Cons x xs)
  from Cons.prems obtain objs t objss' where h: "f x s = Some (Inr objs, t)" "dm_map f xs t = Some (Inr objss', s')" "objss = objs # objss'"
    by (auto simp: dm_bind_Inr)
  from assms(3) [OF h(1)] obtain ps where ps: "appRoles R (it_app (os_interp s)) ps = Inr (rbacObjects objs)" "fst ` set ps \<subseteq> {fst x}" by blast
  from Cons.IH [OF h(2)] obtain qs where qs: "appRoles R (it_app (os_interp t)) qs = Inr (rbacObjects (concat objss'))" "fst ` set qs \<subseteq> fst ` set xs" by blast
  from qs(1) have "appRoles R (it_app (os_interp s)) qs = Inr (rbacObjects (concat objss'))"
    by (simp add: appRoles_same [OF grows_app [OF growing_D [OF assms(2) h(1)]]])
  from appRoles_append [OF ps(1) this] ps(2) qs(2) h(3) show ?case by (intro exI [of _ "ps @ qs"]) auto
qed

text \<open>The roles of an app, and the names of the workloads they are for.\<close>

definition workloadNames :: "('f, 'q) AppInstance \<Rightarrow> string set" where
  "workloadNames app = fst ` set (as_Containers (is_AppSpec (app_Status app))) \<union> fst ` set (as_Jobs (is_AppSpec (app_Status app)))"

lemma growing_ToDeployments [growing]: "growing (ToDeployments L R)"
  unfolding ToDeployments_def by (auto intro!: growing)

lemma rendered_roles:
  assumes "ToDeployments L R s = Some (Inr deps, t)" "toJobs L R t = Some (Inr jobs, u)"
  shows "\<exists>parts. appRoles R (it_app (os_interp s)) parts = Inr (rbacObjects (deps @ jobs)) \<and> fst ` set parts \<subseteq> workloadNames (it_app (os_interp s))"
proof -
  from assms(1) obtain ds where d: "dm_map (deploymentObjects L R) (filter (\<lambda>(name, _). \<not> IsLinked (ai_Links (app_Spec (it_app (os_interp s)))) name)
      (typed_Sorted (as_Containers (is_AppSpec (app_Status (it_app (os_interp s))))))) s = Some (Inr ds, t)" "deps = concat ds"
    by (auto simp: ToDeployments_def dm_bind_Inr)
  from assms(2) obtain js where j: "dm_map (jobObjects L R) (typed_Sorted (as_Jobs (is_AppSpec (app_Status (it_app (os_interp t)))))) t = Some (Inr js, u)" "jobs = concat js"
    by (auto simp: toJobs_def dm_bind_Inr)
  have dr: "\<exists>parts. appRoles R (it_app (os_interp t)) parts = Inr (rbacObjects objs) \<and> fst ` set parts \<subseteq> {fst x}"
    if h: "deploymentObjects L R x t = Some (Inr objs, t')" for x t objs t'
  proof -
    obtain name c where x: "x = (name, c)" by (cases x)
    from deploymentObjects_roles [OF h [unfolded x]] obtain l a where "workloadRoles R (it_app (os_interp t)) name l a = Inr (rbacObjects objs)" by blast
    then show ?thesis by (intro exI [of _ "[(name, l, a)]"]) (simp add: appRoles_def x)
  qed
  have jr: "\<exists>parts. appRoles R (it_app (os_interp t)) parts = Inr (rbacObjects objs) \<and> fst ` set parts \<subseteq> {fst x}"
    if h: "jobObjects L R x t = Some (Inr objs, t')" for x t objs t'
    using jobObjects_roles [of L R "fst x" "snd x"] h by simp
  have same: "same_app (it_app (os_interp s)) (it_app (os_interp t))" using growing_D [OF growing_ToDeployments assms(1)] by (rule grows_app)
  have "\<exists>parts. appRoles R (it_app (os_interp s)) parts = Inr (rbacObjects (concat ds)) \<and> fst ` set parts \<subseteq> fst ` set (filter (\<lambda>(name, _).
      \<not> IsLinked (ai_Links (app_Spec (it_app (os_interp s)))) name) (typed_Sorted (as_Containers (is_AppSpec (app_Status (it_app (os_interp s)))))))"
    by (rule mapped_roles [OF d(1) growing_deploymentObjects]) (erule dr)
  then obtain ps where ps: "appRoles R (it_app (os_interp s)) ps = Inr (rbacObjects deps)"
    "fst ` set ps \<subseteq> fst ` set (filter (\<lambda>(name, _). \<not> IsLinked (ai_Links (app_Spec (it_app (os_interp s)))) name)
      (typed_Sorted (as_Containers (is_AppSpec (app_Status (it_app (os_interp s)))))))"
    unfolding d(2) by blast
  then have names: "fst ` set ps \<subseteq> workloadNames (it_app (os_interp s))" unfolding workloadNames_def set_filter set_typed_Sorted by blast
  have "\<exists>parts. appRoles R (it_app (os_interp t)) parts = Inr (rbacObjects (concat js)) \<and>
      fst ` set parts \<subseteq> fst ` set (typed_Sorted (as_Jobs (is_AppSpec (app_Status (it_app (os_interp t))))))"
    by (rule mapped_roles [OF j(1) growing_jobObjects]) (erule jr)
  then obtain qs where qs: "appRoles R (it_app (os_interp t)) qs = Inr (rbacObjects jobs)"
    "fst ` set qs \<subseteq> fst ` set (typed_Sorted (as_Jobs (is_AppSpec (app_Status (it_app (os_interp t))))))"
    unfolding j(2) by blast
  then have "fst ` set qs \<subseteq> workloadNames (it_app (os_interp s))" using same by (simp add: workloadNames_def same_app_def le_supI2)
  moreover have "appRoles R (it_app (os_interp s)) (ps @ qs) = Inr (rbacObjects deps @ rbacObjects jobs)"
    by (intro appRoles_append ps(1)) (simp add: qs(1) flip: appRoles_same [OF same])
  ultimately show ?thesis using names by (intro exI [of _ "ps @ qs"]) (simp add: image_Un)
qed

subsection \<open>Properties\<close>

definition completePod :: "'q KPodSpec \<Rightarrow> bool" where
  "completePod spec \<longleftrightarrow> list_all (\<lambda>k. list_all (\<lambda>m. km_Name m \<in> kv_Name ` set (ps_Volumes spec)) (kc_VolumeMounts k)) (ps_Containers spec @ ps_InitContainers spec)"

text \<open>C1: the pods of an app are complete. When the files of a container or job have content or a key of a secret, and its volumes with a slash in their name
  are ephemeral, every mount of every container of the pod that is rendered for it, of its sidecars and of the helper of the development mode has a volume
  of that name in the pod; otherwise an expression could not be resolved, and the object is not created, or the deployment has no replicas.\<close>

theorem pods_complete:
  assumes "orders_volumes L" "name \<noteq> []" "renderable (it_app (os_interp s)) container"
  shows "(toDeployment L name container s = Some (Inr dep, s') \<longrightarrow>
      completePod (pt_Spec (kd_Template dep)) \<or> kd_Replicas dep = Some 0 \<or> gm_get (om_Annotations (kd_Meta dep)) AnnotationCreate = Some ''false'') \<and>
    (toJob L name container s = Some (Inr (Some job), s') \<longrightarrow>
      completePod (pt_Spec (jobTemplate job)) \<or> gm_get (om_Annotations (jobMeta job)) AnnotationCreate = Some ''false'')"
proof (intro conjI impI)
  assume "toDeployment L name container s = Some (Inr dep, s')"
  then obtain cs ics t u volumes pull annotations where d: "toContainers L (ForContainer name) name container s = Some (Inr (cs, ics), t)"
    "grows t u" "grows u s'" "grows s u" "toVolumes L (os_interp u) container = Inr volumes"
    "kd_Template dep = \<lparr>pt_Labels = containerLabels (it_app (os_interp s')) container name [], pt_Annotations = pt_Annotations (kd_Template dep),
       pt_Spec = (podSpec (it_app (os_interp s')) name (sg_PriorityClassName (podScheduling (it_app (os_interp s')) name)) [] pull cs ics volumes)\<lparr>ps_Hostname := ps_Hostname (pt_Spec (kd_Template dep))\<rparr>\<rparr>"
    "if ai_Stop (app_Spec (it_app (os_interp s'))) = Some True then kd_Replicas dep = Some 0
     else om_Annotations (kd_Meta dep) = AddMissingAnnotations (ForContainer name) (os_interp s') (GetStopped (it_app (os_interp s'))) annotations"
    by (rule toDeployment_parts) blast
  have parts: "ps_Containers (pt_Spec (kd_Template dep)) = cs" "ps_InitContainers (pt_Spec (kd_Template dep)) = ics" "ps_Volumes (pt_Spec (kd_Template dep)) = volumes"
    by (subst d(6), simp add: podSpec_def)+
  have sc: "partScope (ForContainer name)" using assms(2) by simp
  from rendered_mounts [OF assms(1) sc assms(3) d(1,4,2,5)]
  show "completePod (pt_Spec (kd_Template dep)) \<or> kd_Replicas dep = Some 0 \<or> gm_get (om_Annotations (kd_Meta dep)) AnnotationCreate = Some ''false''"
  proof
    assume "Incomplete (ForContainer name) (os_interp u)"
    from AddMissing_create [OF Incomplete_grows [OF sc d(3) this]] d(7) show ?thesis by (simp split: if_splits)
  qed (auto simp: completePod_def parts list_all_iff)
next
  assume "toJob L name container s = Some (Inr (Some job), s')"
  then obtain s1 where j: "grows s s1" "renderJob L name container (GetEvent name (it_app (os_interp s))) s1 = Some (Inr job, s')" by (rule toJob_rendered)
  from renderJob_parts [OF j(2) assms(2)] obtain cs ics t u volumes where d: "toContainers L (ForJob name) name container s1 = Some (Inr (cs, ics), t)"
    "grows t u" "grows s1 u" "toVolumes L (os_interp u) container = Inr volumes"
    "\<And>k m. k \<in> set (ps_Containers (pt_Spec (jobTemplate job))) \<union> set (ps_InitContainers (pt_Spec (jobTemplate job))) \<Longrightarrow> m \<in> set (kc_VolumeMounts k) \<Longrightarrow>
       km_Name m = JobHelper \<or> (\<exists>k' \<in> set cs \<union> set ics. m \<in> set (kc_VolumeMounts k'))"
    "ps_Volumes (pt_Spec (jobTemplate job)) = volumes @ [jobVolume L]"
    "Incomplete (ForJob name) (os_interp u) \<Longrightarrow> gm_get (om_Annotations (jobMeta job)) AnnotationCreate = Some ''false''" by metis
  have "renderable (it_app (os_interp s1)) container" using assms(3) by (simp add: renderable_grows [OF j(1)])
  from rendered_mounts [OF assms(1) partScope_simps(2) [OF assms(2)] this d(1,3,2,4)]
  show "completePod (pt_Spec (jobTemplate job)) \<or> gm_get (om_Annotations (jobMeta job)) AnnotationCreate = Some ''false''"
  proof (elim disjE)
    assume all: "\<forall>k \<in> set cs \<union> set ics. \<forall>m \<in> set (kc_VolumeMounts k). km_Name m \<in> kv_Name ` set volumes"
    have "km_Name m \<in> kv_Name ` set (ps_Volumes (pt_Spec (jobTemplate job)))"
      if "k \<in> set (ps_Containers (pt_Spec (jobTemplate job))) \<union> set (ps_InitContainers (pt_Spec (jobTemplate job)))" "m \<in> set (kc_VolumeMounts k)" for k m
      using d(5) [OF that] all by (auto simp: d(6) jobVolume_def)
    then show ?thesis by (simp add: completePod_def list_all_iff)
  qed (use d(7) in simp_all)
qed

text \<open>C2: a deployment selects its own pods. By the selector of the deployment of a container it has a pod of another deployment just when the two are of the
  same container of the same app, and never the pod of a job; and the pods of deployments and jobs have the labels of their app by which network policies
  select them. Labels of the user cannot change that.\<close>

theorem deployments_own_pods:
  assumes "toDeployment L name container s = Some (Inr dep, s')" "name \<noteq> []" "toDeployment L' name' container' t = Some (Inr dep', t')" "name' \<noteq> []"
    and "toJob L'' jobName job u = Some (Inr (Some obj), u')" "jobName \<noteq> []"
    and "app = it_app (os_interp s)" "app' = it_app (os_interp t)" "app'' = it_app (os_interp u)"
  shows "(selects (kd_MatchLabels dep) (pt_Labels (kd_Template dep')) \<longleftrightarrow>
      name' = name \<and> om_Name (app_Meta app') = om_Name (app_Meta app) \<and> om_Namespace (app_Meta app') = om_Namespace (app_Meta app)) \<and>
    \<not> selects (kd_MatchLabels dep) (pt_Labels (jobTemplate obj)) \<and>
    selects (Managed app' []) (pt_Labels (kd_Template dep')) \<and> selects (Managed app'' []) (pt_Labels (jobTemplate obj))"
proof -
  have labels: "pt_Labels (kd_Template dep) = containerLabels (it_app (os_interp s)) container name [] \<and> kd_MatchLabels dep = selectorMatchLabels (it_app (os_interp s)) name []"
    if "toDeployment L name container s = Some (Inr dep, s')" for L :: "('x, 'y, 'z) object_lib" and name container s dep s'
    using that
  proof (rule toDeployment_parts)
    fix cs ics t u volumes pull annotations assume d: "grows u s'" "grows s u" "kd_MatchLabels dep = selectorMatchLabels (it_app (os_interp s')) name []"
      "kd_Template dep = \<lparr>pt_Labels = containerLabels (it_app (os_interp s')) container name [], pt_Annotations = pt_Annotations (kd_Template dep),
       pt_Spec = (podSpec (it_app (os_interp s')) name (sg_PriorityClassName (podScheduling (it_app (os_interp s')) name)) [] pull cs ics volumes)\<lparr>ps_Hostname := ps_Hostname (pt_Spec (kd_Template dep))\<rparr>\<rparr>"
    have "pt_Labels (kd_Template dep) = containerLabels (it_app (os_interp s')) container name []" by (subst d(4)) simp
    with d(3) show ?thesis by (simp add: same_app_labels [OF grows_app [OF grows_trans [OF d(2,1)]]])
  qed
  from assms(5) obtain u1 where j: "grows u u1" "renderJob L'' jobName job (GetEvent jobName (it_app (os_interp u))) u1 = Some (Inr obj, u')" by (rule toJob_rendered)
  have "pt_Labels (jobTemplate obj) = jobPodLabels (it_app (os_interp u1)) job jobName" by (rule renderJob_parts [OF j(2) assms(6)]) simp
  then have job: "pt_Labels (jobTemplate obj) = jobPodLabels app'' job jobName" unfolding assms(9) by (simp add: same_app_labels [OF grows_app [OF j(1)]])
  have dep: "kd_MatchLabels dep = selectorMatchLabels app name []" "pt_Labels (kd_Template dep') = containerLabels app' container' name' []"
    using labels [OF assms(1)] labels [OF assms(3)] assms(7,8) by simp_all
  show ?thesis
    unfolding dep job selector_selects [OF assms(2)] Managed_app
    by (auto simp: selects_def container_pod_labels [OF assms(4)] job_pod_labels)
qed

text \<open>C3: a stopped app runs nothing. Once an app is stopped and not removed, every deployment that is rendered for it has no replicas, and the jobs that are
  rendered are those of the app which name the event \<open>stop\<close>.\<close>

theorem stopped_app_runs_nothing:
  assumes "it_app (os_interp s) = app" "ai_Stop (app_Spec app) = Some True" "om_DeletionTimestamp (app_Meta app) = None"
  shows "(ToDeployments L R s = Some (Inr objs, s') \<and> Deployed dep \<in> set objs \<longrightarrow> kd_Replicas dep = Some 0) \<and>
    (toJobs L R s = Some (Inr jobs, s'') \<and> Job job \<in> set jobs \<longrightarrow>
      (\<exists>c. (om_Name (jobMeta job), c) \<in> set (as_Jobs (is_AppSpec (app_Status app))) \<and> ''stop'' \<in> set (c_Events (c_fields c))))"
proof (intro conjI impI)
  assume "ToDeployments L R s = Some (Inr objs, s') \<and> Deployed dep \<in> set objs"
  then obtain ds part where d: "dm_map (deploymentObjects L R) (filter (\<lambda>(name, _). \<not> IsLinked (ai_Links (app_Spec app)) name)
      (typed_Sorted (as_Containers (is_AppSpec (app_Status app))))) s = Some (Inr ds, s')" "part \<in> set ds" "Deployed dep \<in> set part"
    by (auto simp: ToDeployments_def dm_bind_Inr assms(1))
  obtain x t u where x: "deploymentObjects L R x t = Some (Inr part, u)" "grows s t" by (rule dm_map_Inr [OF d(1) growing_deploymentObjects d(2)])
  obtain name container where [simp]: "x = (name, container)" by (cases x)
  from x(1) d(3) have "toDeployment L name container t = Some (Inr dep, u)" by (auto simp: deploymentObjects_def dm_bind_Inr)
  then show "kd_Replicas dep = Some 0"
  proof (rule toDeployment_parts)
    fix v and annotations :: labels assume g: "grows v u" "grows t v" and
      r: "if ai_Stop (app_Spec (it_app (os_interp u))) = Some True then kd_Replicas dep = Some 0
       else om_Annotations (kd_Meta dep) = AddMissingAnnotations (ForContainer name) (os_interp u) (GetStopped (it_app (os_interp u))) annotations"
    have "same_app app (it_app (os_interp u))" using grows_app [OF grows_trans [OF grows_trans [OF x(2) g(2)] g(1)]] assms(1) by simp
    then show ?thesis using r assms(2) by (simp add: same_app_def)
  qed
next
  assume "toJobs L R s = Some (Inr jobs, s'') \<and> Job job \<in> set jobs"
  then obtain js part where d: "dm_map (jobObjects L R) (typed_Sorted (as_Jobs (is_AppSpec (app_Status app)))) s = Some (Inr js, s'')" "part \<in> set js" "Job job \<in> set part"
    by (auto simp: toJobs_def dm_bind_Inr assms(1))
  obtain x t u where x: "x \<in> set (typed_Sorted (as_Jobs (is_AppSpec (app_Status app))))" "jobObjects L R x t = Some (Inr part, u)" "grows s t"
    by (rule dm_map_Inr [OF d(1) growing_jobObjects d(2)])
  obtain name container where xs [simp]: "x = (name, container)" by (cases x)
  from x(2) d(3) obtain v where j: "toJob L name container t = Some (Inr (Some job), v)" by (auto simp: jobObjects_def dm_bind_Inr split: option.splits)
  then have "ShouldRunForEvent (GetEvent name (it_app (os_interp t))) container" by (rule toJob_rendered)
  moreover have "same_app app (it_app (os_interp t))" using grows_app [OF x(3)] assms(1) by simp
  ultimately have "''stop'' \<in> set (c_Events (c_fields container))"
    using assms(2,3) by (simp add: GetEvent_def ShouldRunForEvent_def same_app_def split: if_splits)
  with x(1) toJob_name [OF j] show "\<exists>c. (om_Name (jobMeta job), c) \<in> set (as_Jobs (is_AppSpec (app_Status app))) \<and> ''stop'' \<in> set (c_Events (c_fields c))" by auto
qed

subsection \<open>A sample\<close>

text \<open>An app with a container that has a volume and a file of a secret, and a job.\<close>

definition pod_demo_lib :: "(unit, unit, int) object_lib" where
  "pod_demo_lib = \<lparr>ol_interp = interp_sample_lib, ol_contextDigest = id, ol_DefaultImage = ''acorn'', ol_SHA256Hex = (\<lambda>s. CHR ''h'' # s),
     ol_SafeConcatName = str_join ''-'', ol_encodeContainer = (\<lambda>_. ''{}''), ol_encodeImages = (\<lambda>_. ''{}''), ol_ParseQuantity = (\<lambda>_. Inr 1), ol_oneMega = 1000000,
     ol_parsePort = (\<lambda>s. (PortName s, 0)), ol_secretData = (\<lambda>_ _. Inr (Some [])), ol_forImages = (\<lambda>name ns _. Inr (zero_KSecret\<lparr>kx_Meta := zero_ObjectMeta\<lparr>om_Name := name\<rparr>\<rparr>)),
     ol_visit = rev, ol_sortByName = id\<rparr>"

definition pod_demo_container :: Container where
  "pod_demo_container = Container (zero_container_fields\<lparr>c_Image := ''nginx'',
     c_Files := [(''motd'', \<lparr>fl_Mode = ''0600'', fl_Content = [], fl_Secret = \<lparr>sr_Name = ''db'', sr_Key = ''motd'', sr_OnChange = []\<rparr>\<rparr>)],
     c_Dirs := [(''data'', \<lparr>vm_Volume = ''data'', vm_SubPath = [], vm_ContextDir = [], vm_Secret = \<lparr>vs_Name = [], vs_OnChange = []\<rparr>\<rparr>)]\<rparr>) []"

definition pod_demo_spec :: "unit AppSpec" where
  "pod_demo_spec = zero_AppSpec\<lparr>as_Containers := [(''web'', pod_demo_container)], as_Jobs := [(''seed'', pod_demo_container)],
     as_Volumes := [(''data'', zero_VolumeRequest)]\<rparr>"

definition pod_demo_app :: "(unit, int) AppInstance" where
  "pod_demo_app = zero_AppInstance\<lparr>app_Meta := zero_ObjectMeta\<lparr>om_Name := ''app'', om_Namespace := ''p'', om_UID := ''0123456789abcdef''\<rparr>,
     app_Status := zero_AppInstanceStatus\<lparr>is_Namespace := ''app-ns'', is_AppSpec := pod_demo_spec\<rparr>\<rparr>"

definition pod_demo_state :: "(unit, int) AppInstance \<Rightarrow> (unit, unit, int) object_state" where
  "pod_demo_state app = \<lparr>os_interp = NewInterpolator app, os_pullObjects = [], os_pullErrs = []\<rparr>"

definition pod_demo_stopped :: "(unit, int) AppInstance" where
  "pod_demo_stopped = pod_demo_app\<lparr>app_Spec := zero_AppInstanceSpec\<lparr>ai_Stop := Some True\<rparr>\<rparr>"

lemma pod_demo_orders: "orders_volumes pod_demo_lib"
  by (simp add: orders_volumes_def pod_demo_lib_def)

lemma pod_demo_renderable: "renderable (it_app (os_interp (pod_demo_state pod_demo_app))) pod_demo_container"
  by code_simp

lemmas pod_demo_defs = pod_demo_app_def pod_demo_stopped_def pod_demo_container_def zero_container_fields_def zero_AppInstance_def zero_AppInstanceStatus_def
  zero_AppInstanceSpec_def zero_ObjectMeta_def

text \<open>What the steps of the rendering give for the container of the sample, in every app that has the volume and does not run in development mode.\<close>

definition pod_demo :: "(unit, int) AppInstance \<Rightarrow> bool" where
  "pod_demo app \<longleftrightarrow> as_Volumes (is_AppSpec (app_Status app)) = [(''data'', zero_VolumeRequest)] \<and> as_Annotations (is_AppSpec (app_Status app)) = [] \<and>
     ai_Environment (app_Spec app) = [] \<and> ai_Volumes (app_Spec app) = [] \<and> ai_Annotations (app_Spec app) = [] \<and> \<not> is_DevSession (app_Status app) \<and>
     om_Generation (app_Meta app) = 0"

lemma pod_demo_same: "pod_demo a \<Longrightarrow> same_app a b \<Longrightarrow> pod_demo b"
  by (simp add: pod_demo_def same_app_def)

lemma pod_demo_apps: "pod_demo pod_demo_app" "pod_demo pod_demo_stopped"
  by (simp_all add: pod_demo_def pod_demo_spec_def zero_AppSpec_def pod_demo_defs)

lemma typed_Sorted_simps: "typed_Sorted ([] :: ('x :: linorder \<times> 'y) list) = []" "typed_Sorted [(k :: string, v)] = [(k, v)]"
  by (simp_all add: typed_Sorted_def)

lemma pod_demo_containers:
  assumes "pod_demo app"
  shows "\<exists>cs. toContainers pod_demo_lib sc name pod_demo_container (pod_demo_state app) = Some (Inr (cs, []), pod_demo_state app)"
proof -
  have env: "ai_Environment (app_Spec app) = []" using assms by (simp add: pod_demo_def)
  have "\<exists>k. toContainer pod_demo_lib sc name pod_demo_container (pod_demo_state app) = Some (Inr k, pod_demo_state app)"
    by (simp add: toContainer_def toEnv_def toMounts_def fileMount_def dm_bind_def dm_gets_def dm_return_def dm_result_def env pod_demo_state_def NewInterpolator_def
        pod_demo_container_def zero_container_fields_def typed_Sorted_simps)
  moreover have "hasContextDir pod_demo_container = False" "c_Sidecars pod_demo_container = []"
    by (simp_all add: pod_demo_container_def)
  ultimately show ?thesis
    by (auto simp: toContainers_def dm_bind_def dm_gets_def dm_return_def dm_result_def typed_Sorted_simps)
qed

lemma pod_demo_volumes:
  assumes "pod_demo app"
  shows "\<exists>vs. toVolumes pod_demo_lib (NewInterpolator app) pod_demo_container = Inr vs"
proof -
  have "volumeReferences app pod_demo_container = [(''data'', [], []), ([], ''db'', ''0600'')]"
    by (simp add: volumeReferences_def addVolumeReferencesForContainer_def addReference_def dirReference_def gm_set_def pod_demo_container_def zero_container_fields_def
        typed_Sorted_simps)
  moreover have "\<exists>v. referencedVolume pod_demo_lib app (''data'', [], []) = Inr v"
    using assms by (auto simp: referencedVolume_def toVolumeName_def isBind_def isEphemeral_def pod_demo_def GetDevMode_def zero_VolumeRequest_def EqualFold_def
        VolumeRequestTypeEphemeral_def split: option.splits)
  moreover have "\<not> isl (referencedVolume pod_demo_lib pod_demo_app ([], ''db'', ''0600''))" by code_simp
  then have "\<exists>v. referencedVolume pod_demo_lib app ([], ''db'', ''0600'') = Inr v"
    by (auto simp: referencedVolume_def isl_def split: sum.splits) (metis sum.exhaust)
  moreover have "addFilesFileModesForContainer pod_demo_container [] = []"
    by (simp add: addFilesFileModesForContainer_def filesModes_def pod_demo_container_def zero_container_fields_def)
  ultimately show ?thesis by (auto simp: toVolumes_def NewInterpolator_def pod_demo_lib_def)
qed

lemma pod_demo_steps:
  "getSecretAnnotations pod_demo_lib sc pod_demo_container = dm_return []"
  "dm_dependencies name (c_Dependencies (c_fields pod_demo_container)) s =
     Some (Inr (if om_Generation (app_Meta (it_app (os_interp s))) > 0 then [(AcornAppGeneration, itoa (om_Generation (app_Meta (it_app (os_interp s)))))] else []), s)"
  "\<exists>names s'. pullForContainer pod_demo_lib name cs (pod_demo_state app) = Some (Inr names, s') \<and> os_interp s' = NewInterpolator app"
  by (simp_all add: getSecretAnnotations_def redeploySecrets_def dm_dependencies_def getDependencyAnnotations_def pullForContainer_def pod_demo_lib_def pod_demo_state_def
      NewInterpolator_def pod_demo_container_def zero_container_fields_def ChangeTypeRedeploy_def Let_def)

lemma pod_demo_interp [simp]:
  "os_interp (pod_demo_state app) = NewInterpolator app" "it_app (NewInterpolator app) = app" "it_incomplete (NewInterpolator app) = []"
  by (simp_all add: pod_demo_state_def NewInterpolator_def)

lemma pod_demo_facts:
  assumes "pod_demo app"
  shows "containerAnnotations app pod_demo_container ''web'' = []" "isStateful app pod_demo_container" "om_Generation (app_Meta app) = 0"
  using assms
  by (simp_all add: pod_demo_def containerAnnotations_def GatherScoped_def typed_Concat_def copyInto_def ExcludeAcornKey_def isStateful_def pod_demo_container_def
      zero_container_fields_def zero_VolumeRequest_def)

lemma pod_demo_deployment:
  assumes "pod_demo app"
  obtains dep s' where "toDeployment pod_demo_lib ''web'' pod_demo_container (pod_demo_state app) = Some (Inr dep, s')" "os_interp s' = NewInterpolator app"
    "ai_Stop (app_Spec app) \<noteq> Some True \<Longrightarrow> kd_Replicas dep = Some 1" "gm_get (om_Annotations (kd_Meta dep)) AnnotationCreate = None"
proof -
  obtain cs where cs: "toContainers pod_demo_lib (ForContainer ''web'') ''web'' pod_demo_container (pod_demo_state app) = Some (Inr (cs, []), pod_demo_state app)"
    using pod_demo_containers [OF assms] by blast
  obtain vs where vs: "toVolumes pod_demo_lib (NewInterpolator app) pod_demo_container = Inr vs" using pod_demo_volumes [OF assms] by blast
  obtain names s' where pull: "pullForContainer pod_demo_lib ''web'' cs (pod_demo_state app) = Some (Inr names, s')" "os_interp s' = NewInterpolator app"
    using pod_demo_steps(3) by blast
  have e: "typed_Concat [[], [], []] = ([] :: labels)" by (simp add: typed_Concat_def copyInto_def)
  have "\<exists>dep0. toDeployment pod_demo_lib ''web'' pod_demo_container (pod_demo_state app) =
      Some (Inr (setReplicas app True (ForContainer ''web'') (NewInterpolator app :: (unit, unit, int) Interpolator) dep0), s') \<and> om_Annotations (kd_Meta dep0) = []"
    by (simp add: toDeployment_def dm_bind_def dm_gets_def dm_return_def dm_result_def cs vs pull pod_demo_facts [OF assms] pod_demo_steps Let_def e)
      (rule exI, rule conjI [OF refl], simp)
  then obtain dep0 where dep: "toDeployment pod_demo_lib ''web'' pod_demo_container (pod_demo_state app) =
      Some (Inr (setReplicas app True (ForContainer ''web'') (NewInterpolator app :: (unit, unit, int) Interpolator) dep0), s')" "om_Annotations (kd_Meta dep0) = []" by blast
  show thesis
    by (rule that [OF dep(1) pull(2)])
      (simp_all add: setReplicas_def AddMissingAnnotations_def Incomplete_def ForContainer_def gm_get_or_def dep(2) Let_def)
qed

lemma pod_demo_job: "\<exists>job u. toJob pod_demo_lib ''seed'' pod_demo_container (pod_demo_state pod_demo_app) = Some (Inr (Some job), u)"
proof -
  let ?i = "markSkipped ''seed'' False (NewInterpolator pod_demo_app) :: (unit, unit, int) Interpolator"
  let ?app = "it_app ?i"
  have "same_app pod_demo_app ?app" by (simp add: markSkipped_def modifyAppStatus_def)
  with pod_demo_apps(1) have demo: "pod_demo ?app" by (rule pod_demo_same)
  have "ShortID ?app = ShortID pod_demo_app" by (simp add: markSkipped_def modifyAppStatus_def ShortID_def)
  then have s: "(pod_demo_state pod_demo_app)\<lparr>os_interp := ?i\<rparr> = pod_demo_state ?app"
    by (simp add: pod_demo_state_def NewInterpolator_def markSkipped_def modifyAppStatus_def)
  have event: "ShouldRunForEvent (GetEvent ''seed'' pod_demo_app) pod_demo_container" by code_simp
  obtain cs where cs: "toContainers pod_demo_lib (ForJob ''seed'') ''seed'' pod_demo_container (pod_demo_state ?app) = Some (Inr (cs, []), pod_demo_state ?app)"
    using pod_demo_containers [OF demo] by blast
  obtain vs where vs: "toVolumes pod_demo_lib (NewInterpolator ?app) pod_demo_container = Inr vs" using pod_demo_volumes [OF demo] by blast
  obtain names s' where pull: "pullForContainer pod_demo_lib ''seed'' (cs @ [jobHelper pod_demo_lib]) (pod_demo_state ?app) = Some (Inr names, s')"
    using pod_demo_steps(3) by blast
  have "\<exists>job. renderJob pod_demo_lib ''seed'' pod_demo_container (GetEvent ''seed'' pod_demo_app) (pod_demo_state ?app) = Some (Inr job, s')"
    by (simp add: renderJob_def dm_bind_def dm_gets_def dm_return_def dm_result_def cs vs pull pod_demo_steps Let_def)
  then show ?thesis
    by (auto simp: toJob_def dm_bind_def dm_gets_def dm_modify_def dm_return_def dm_result_def s event Let_def)
qed

theorem pods_complete_witness:
  "case toDeployment pod_demo_lib ''web'' pod_demo_container (pod_demo_state pod_demo_app) of Some (Inr dep, s') \<Rightarrow> completePod (pt_Spec (kd_Template dep)) | _ \<Rightarrow> False"
proof -
  have "ai_Stop (app_Spec pod_demo_app) \<noteq> Some True" by (simp add: pod_demo_defs)
  then obtain dep s' where d: "toDeployment pod_demo_lib ''web'' pod_demo_container (pod_demo_state pod_demo_app) = Some (Inr dep, s')"
    "kd_Replicas dep = Some 1" "gm_get (om_Annotations (kd_Meta dep)) AnnotationCreate = None"
    using pod_demo_deployment [OF pod_demo_apps(1)] by metis
  have "completePod (pt_Spec (kd_Template dep))"
    using pods_complete [OF pod_demo_orders _ pod_demo_renderable, of "''web''" dep s'] d by simp
  with d(1) show ?thesis by simp
qed

theorem deployments_own_pods_witness:
  "case toDeployment pod_demo_lib ''web'' pod_demo_container (pod_demo_state pod_demo_app) of Some (Inr dep, s') \<Rightarrow>
     (case toJob pod_demo_lib ''seed'' pod_demo_container (pod_demo_state pod_demo_app) of Some (Inr (Some job), u) \<Rightarrow>
        selects (kd_MatchLabels dep) (pt_Labels (kd_Template dep)) \<and> \<not> selects (kd_MatchLabels dep) (pt_Labels (jobTemplate job)) | _ \<Rightarrow> False) | _ \<Rightarrow> False"
proof -
  obtain dep s' where d: "toDeployment pod_demo_lib ''web'' pod_demo_container (pod_demo_state pod_demo_app) = Some (Inr dep, s')"
    using pod_demo_deployment [OF pod_demo_apps(1)] by metis
  obtain job u where j: "toJob pod_demo_lib ''seed'' pod_demo_container (pod_demo_state pod_demo_app) = Some (Inr (Some job), u)"
    using pod_demo_job by blast
  show ?thesis
    using deployments_own_pods [OF d _ d _ j _ refl refl refl] by (simp add: d j)
qed

definition pod_demo_roles :: "(unit, unit, int) role_reads" where
  "pod_demo_roles = \<lparr>ry_SafeConcatName = str_join ''-'', ry_namespace = (\<lambda>_. Inr None), ry_awsAnnotations = (\<lambda>_ _ _. Inr []), ry_marshal = (\<lambda>_. Inr ''{}'')\<rparr>"

lemma pod_demo_objects:
  "\<exists>sa dep budget s'. ToDeployments pod_demo_lib pod_demo_roles (pod_demo_state pod_demo_stopped) = Some (Inr [ServiceAccount sa, Deployed dep, Budget budget], s')"
proof -
  obtain dep s' where d: "toDeployment pod_demo_lib ''web'' pod_demo_container (pod_demo_state pod_demo_stopped) = Some (Inr dep, s')"
    "os_interp s' = NewInterpolator pod_demo_stopped"
    using pod_demo_deployment [OF pod_demo_apps(2)] by metis
  have p: "GetPermissions (app_Spec pod_demo_stopped) = []" "ai_Links (app_Spec pod_demo_stopped) = []" by (simp_all add: GetPermissions_def pod_demo_defs)
  have w: "\<exists>sa. workloadObjects pod_demo_roles pod_demo_stopped n l a = Inr ([], sa)" for n l a
    by (simp add: workloadObjects_def toServiceAccount_def addAWS_def awsPermissions_def workloadRoles_def p pod_demo_roles_def HasRules_def FindPermission_eq
        zero_Permissions_def Let_def)
  have c: "typed_Sorted (as_Containers (is_AppSpec (app_Status pod_demo_stopped))) = [(''web'', pod_demo_container)]"
    by (simp add: typed_Sorted_def pod_demo_spec_def zero_AppSpec_def pod_demo_defs)
  obtain sa where sa: "workloadObjects pod_demo_roles pod_demo_stopped (om_Name (kd_Meta dep)) (om_Labels (kd_Meta dep)) (om_Annotations (kd_Meta dep)) = Inr ([], sa)"
    using w by blast
  show ?thesis
    by (simp add: ToDeployments_def deploymentObjects_def dm_bind_def dm_gets_def dm_return_def dm_result_def c d p sa IsLinked_def)
qed

theorem stopped_app_runs_nothing_witness:
  "case ToDeployments pod_demo_lib pod_demo_roles (pod_demo_state pod_demo_stopped) of
     Some (Inr [_, Deployed dep, _], s') \<Rightarrow> kd_Replicas dep = Some 0 | _ \<Rightarrow> False"
proof -
  obtain sa dep budget s' where o: "ToDeployments pod_demo_lib pod_demo_roles (pod_demo_state pod_demo_stopped) = Some (Inr [ServiceAccount sa, Deployed dep, Budget budget], s')"
    using pod_demo_objects by blast
  have "ai_Stop (app_Spec pod_demo_stopped) = Some True" "om_DeletionTimestamp (app_Meta pod_demo_stopped) = None" by (simp_all add: pod_demo_defs)
  with stopped_app_runs_nothing [THEN conjunct1, of "pod_demo_state pod_demo_stopped" pod_demo_stopped pod_demo_lib pod_demo_roles "[ServiceAccount sa, Deployed dep, Budget budget]" s' dep] o have "kd_Replicas dep = Some 0" by simp
  with o show ?thesis by simp
qed

end
