(* ===== verification/Spec2Isabelle.thy ===== *)
theory Spec2Isabelle
  imports PortPublishing ImpliedResources Quota Readiness Admission SecretPasses Deployments
begin

text \<open>
  \<^bold>\<open>Acorn.\<close> Acorn runs container applications on Kubernetes. A user writes an Acornfile; the command line
  and the API server turn it and the options of a run into an \<open>AppInstance\<close>; controllers then parse
  the app, check images and permissions, ask for quota, schedule the workloads, publish ports, report how
  far the app has come, and keep the images up to date. This development models the decisions of that program, not the calls that read
  and write the cluster: what a handler reads is an argument, what it writes is its result.

  \<^bold>\<open>Theories and code\<close> (paths below \<open>src/\<close>; \<open>v1\<close> is \<open>pkg/apis/internal.acorn.io/v1\<close>, \<open>admin/v1\<close> is
  \<open>pkg/apis/internal.admin.acorn.io/v1\<close>).

  \<^item> \<open>Prelude\<close>: strings, \<open>strconv\<close>, sorting and maps of Go, the error monad, and the locales for parsers of
    slices and for defaulting functions. A Go map is an association list; where a loop ranges over a map
    the order of the list is the order of the visit, and theorems hold for every list.
  \<^item> \<open>PortSyntax\<close>: \<open>v1/ports.go\<close>, the port types of \<open>v1/appspec.go\<close> and \<open>v1/service.go\<close>. Port numbers are 32-bit words.
  \<^item> \<open>PermissionRules\<close>: \<open>PolicyRule\<close>, \<open>Permissions\<close> and \<open>Grants\<close> of \<open>v1/appspec.go\<close>.
  \<^item> \<open>AppTypes\<close>, \<open>StatusTypes\<close>: the structs of \<open>v1/appspec.go\<close>, \<open>v1/appinstance.go\<close> and \<open>v1/appstatus.go\<close>.
  \<^item> \<open>PortPublishing\<close>: \<open>pkg/ports\<close>. The pointers of \<open>DedupPorts\<close> into a slice that may be reallocated are modelled.
  \<^item> \<open>BindingSyntax\<close>: \<open>v1/volumes.go\<close>, \<open>v1/labelsannotations.go\<close>, \<open>v1/memory.go\<close> and the other parsers of \<open>v1/ports.go\<close>.
  \<^item> \<open>GoText\<close>, \<open>JsonDecode\<close>, \<open>AppSpecDecode\<close>: \<open>v1/unmarshal.go\<close> and \<open>v1/map.go\<close> over the part of \<open>encoding/json\<close>,
    \<open>net/url\<close>, \<open>path/filepath\<close> and \<open>encoding/base64\<close> they use. JSON text is already parsed into a \<open>json\<close> value.
  \<^item> \<open>ImpliedResources\<close>: \<open>addImpliedResources\<close> and \<open>checkForDuplicateNames\<close> of \<open>v1/unmarshal.go\<close>.
  \<^item> \<open>Conditions\<close>, \<open>AppInstances\<close>: \<open>v1/conditions.go\<close>, \<open>pkg/condition\<close>, \<open>v1/appinstance.go\<close>, \<open>v1/projectinstance.go\<close>
    and the region handler and validator of projects.
  \<^item> \<open>Quota\<close>: \<open>admin/v1/resources.go\<close>, \<open>admin/v1/quotarequests.go\<close>, \<open>pkg/controller/quota\<close>.
  \<^item> \<open>Classes\<close>: \<open>pkg/computeclasses\<close>, \<open>pkg/volume\<close>, and the classes of \<open>admin/v1\<close>.
  \<^item> \<open>Workloads\<close>: \<open>pkg/controller/defaults\<close> and \<open>pkg/controller/scheduling\<close>.
  \<^item> \<open>ImagePattern\<close>, \<open>AutoUpgrade\<close>: \<open>pkg/imagepattern\<close> and \<open>pkg/autoupgrade\<close>.
  \<^item> \<open>ImageAllowRules\<close>: \<open>pkg/imageallowrules\<close> and \<open>pkg/cosign/cosign.go\<close>.
  \<^item> \<open>Labels\<close>, \<open>Refs\<close>: \<open>pkg/labels\<close>, \<open>pkg/publicname\<close> and \<open>pkg/ref\<close>.
  \<^item> \<open>StatusRender\<close>: \<open>pkg/controller/appstatus\<close>, the handlers that read the objects of an app and set its status, and the
    events of \<open>pkg/jobs\<close>. What the cluster holds is a record of reads (\<open>status_reads\<close>).
  \<^item> \<open>ImageRefs\<close>: \<open>pkg/tags\<close>, \<open>pkg/appdefinition/lookup.go\<close> and \<open>pkg/imagesystem/registry.go\<close>, the images an app was built with and the
    internal registry.
  \<^item> \<open>AppValidation\<close>, \<open>Admission\<close>: \<open>validator.go\<close> of \<open>pkg/server/registry/apigroups/acorn/apps\<close>, the admission of an app, and its
    theorems. What the validator reads and the access reviews it creates are a record (\<open>validator\<close>).
  \<^item> \<open>Readiness\<close>: \<open>ready.go\<close>, \<open>check.go\<close> and \<open>cli_status.go\<close> of the same package and \<open>depends.go\<close> and \<open>generation.go\<close> of
    \<open>pkg/controller/appdefinition\<close>, with the theorems about both.
  \<^item> \<open>Encryption\<close>: \<open>pkg/encryption/nacl\<close>, the keys of a project, encryption for several keys and decryption. The secrets of the cluster are
    a state (\<open>kube\<close>) and each call of the API may fail (\<open>faults\<close>).
  \<^item> \<open>Interpolation\<close>: \<open>pkg/secrets/interpolation.go\<close> and \<open>pkg/externalid\<close>, the expressions of an app and the secret that collects what they
    stand for.
  \<^item> \<open>AppSecrets\<close>, \<open>SecretPasses\<close>: \<open>pkg/secrets/secret.go\<close>, \<open>generateSecret.go\<close>, the output of jobs in \<open>pkg/jobs/jobs.go\<close> and
    \<open>pkg/controller/secrets/secret.go\<close>, how the secrets of an app are found or generated and copied, and what a pass over them changes. The
    functions are computations in a monad of state (the cluster, the draws, the secrets found so far), error and no return.
  \<^item> \<open>InstallConfig\<close>: \<open>pkg/config\<close> and \<open>pkg/profiles\<close>, the configuration of an installation and how it is merged, completed, stored and read.
  \<^item> \<open>NetworkPolicies\<close>: \<open>pkg/controller/networkpolicy\<close>, the network policies of apps, ingresses, published services and builders, and below
    them what Kubernetes documents of a policy (\<open>accepts\<close>, \<open>sends\<close>), in whose terms the theorems speak.
  \<^item> \<open>WorkloadRoles\<close>: \<open>permissions.go\<close> and \<open>serviceaccount.go\<close> of \<open>pkg/controller/appdefinition\<close>, the service accounts, roles and bindings of
    workloads, and below them what Kubernetes documents of a role (\<open>account_may\<close>).
  \<^item> \<open>PodTemplates\<close>, \<open>Deployments\<close>: \<open>deploy.go\<close>, \<open>jobs.go\<close>, \<open>pullsecrets.go\<close> and the volumes of pods in \<open>volume.go\<close> of the same package, and
    \<open>pkg/pdb\<close>; then the theorems about the pods. The rendering is a computation whose state is the interpolator and the pull secrets.

  \<^bold>\<open>Errors and effects.\<close> Functions that can fail return a sum, with the error on the left; a panic of the
  code is an error value of its own. Handlers that change an object return it; the auto-upgrade daemon
  returns its map, the status updates it sent and the time to sleep.

  \<^bold>\<open>Parameters.\<close> Packages that are not part of the repository are arguments: regular expressions,
  image references, the registry, cosign, \<open>resource.Quantity\<close>, \<open>time.ParseDuration\<close>, label selectors, and reads
  from the cluster. What a theorem needs of them is a named hypothesis that states what the package documents:
  \<open>quantity_laws\<close> for the arithmetic of quantities, \<open>submatch_laws\<close> for the shape of the submatches of an expression,
  \<open>completes\<close> for what the API server adds to a new object, \<open>config_json\<close> for the JSON of a configuration, \<open>nacl_laws\<close> for the boxes of NaCl and the JSON of a key store, \<open>repository_laws\<close> for the text of a repository and \<open>reviews_end\<close> for the end of all access reviews that were started;
  the witnesses of these theorems instantiate the parameters with concrete functions.

  \<^bold>\<open>Loops.\<close> Four loops of the code are not structural: the replacement of the special
  characters of a pattern (\<open>matcherLoop\<close>, the number of special characters falls), the search for an allowed tag
  (\<open>allowedLoop\<close>, the list of tags shrinks), the cleaning of paths, and the walk along external names
  (\<open>isServiceReadyByNamespace\<close>, the services not seen yet become fewer); each has its termination proof. The lookup of
  a reference (\<open>resolve\<close>), the permissions of nested images (\<open>getPermissions\<close>) and the resolution of an expression (\<open>resolveToken\<close>, which
  may lead to expressions of another app), and the rendering of templates that lead to other secrets (\<open>GetOrCreateSecret\<close>) may run forever
  and are partial functions; \<open>Lookup_terminates\<close>, \<open>Validate_terminates\<close> and \<open>templates_end\<close> say when they return. No fuel is used.

  \<^bold>\<open>What is shown.\<close> Round trips of ports, labels and secret references with their textual forms; that decoding
  leaves every used secret and volume declared and every name unique; which ports are published and that
  they do not conflict; which permissions a rule grants; that conditions stay well-formed over every
  sequence of reports; that an app gets its quota condition only when its whole request is allocated; which
  class and memory a workload gets; that the latest tag is maximal, that the daemon watches exactly
  the apps that upgrade and writes only allowed images, apart from the case named in
  \<open>sync_updates_allowed\<close>; that an image is allowed exactly when a rule covers it and its signatures verify; that an app
  that is reported ready is ready in all its parts; that containers whose dependencies have no circle all come up, and
  those in a circle never do; what a reference to a service or a secret finds; and that an admitted app has no permission its
  user does not have, has all those its images ask for, runs only images its project allows, and fits the classes it uses;
  that a value encrypted for a project can be decrypted there and nowhere else; and that interpolated values are kept in one secret,
  under their digests, and never shown in the environment; that a pass over the secrets of an app changes no secret of another, loses none,
  and leaves generated secrets as they are; that a configuration that is read is complete, and that what an installation validates is what the
  cluster then has; that with network policies on an app is reached only from its project, from the namespaces the administrator allows, and
  through its published ports; that the workloads of an app may do what the app grants them, and nothing its user may not; that a pod has a volume for
  every mount, a deployment selects its own pods, and a stopped app runs nothing.

  \<^bold>\<open>Not modelled.\<close> The command line, the client, builds, installation, logging, TLS and DNS are input, output and
  calls of other services. Generated code and mocks have no behaviour of their own. The controllers
  that render Kubernetes objects are next.
\<close>

section \<open>Admission and the image allow rules\<close>

lemma signatureRules_signed:
  "signatureRules L img rules opts = Inr (True, opts') \<Longrightarrow> rule \<in> set rules \<Longrightarrow>
   \<exists>given resolved. EnsureReferences L img given = Inr resolved \<and> signedBy L (resolved\<lparr>vo_AnnotationRules := sr_Annotations rule\<rparr>) rule"
  by (induction L img rules opts rule: signatureRules.induct)
    (auto simp: bind_err_Inr Let_def split: if_splits)

lemma iarLoop_allowed:
  "iarLoop compile L img ref digest rules opts = None \<Longrightarrow>
   \<exists>iar \<in> set rules. imageCovered compile ref digest iar \<and> 
     (\<forall>rule \<in> set (ir_Rules iar). \<exists>given resolved. EnsureReferences L img given = Inr resolved \<and>
        signedBy L (resolved\<lparr>vo_AnnotationRules := sr_Annotations rule\<rparr>) rule)"
proof (induction compile L img ref digest rules opts rule: iarLoop.induct)
  case (2 compile L img ref digest iar iars opts)
  show ?case
  proof (cases "imageCovered compile ref digest iar \<and> (\<exists>used. signatureRules L img (ir_Rules iar) opts = Inr (True, used))")
    case True
    then show ?thesis using signatureRules_signed by (metis list.set_intros(1))
  next
    case False
    with 2 show ?thesis by (cases "signatureRules L img (ir_Rules iar) opts") (auto split: if_splits prod.splits)
  qed
qed simp


definition ruled_validator :: "(unit, unit, int, string, string) validator" where
  "ruled_validator = (sample_validator demo_spec)\<lparr>va_imageAllowed := (\<lambda>ns img digest.
     CheckImageAllowed (Inr [sample_rule ''alice'']) None None
       (CheckImageAgainstRules (\<lambda>_. Inl ()) sample_cosign (Inr [(FeatureImageAllowRules, True)]) (\<lambda>_. Inr sample_name) ns img digest))\<rparr>"


section \<open>Admission and the rights of workloads\<close>

lemma accepted_granted_nothing:
  assumes "App_Validate K app = Some (Inr ([], app'))"
  shows "app' = setGranted [] app"
proof -
  obtain granted where g: "grantedPermissions K app = Some (Inr granted)" "app' = setGranted granted app"
    using assms by (rule accepted_cases)
  from g(1) have "granted = []"
  proof (cases rule: granted_cases)
    case (2 project img0)
    from 2(3) obtain img d req where "getPermissions K (om_Namespace (app_Meta app)) [] img d = Some (Inr (req, granted))"
      by (rule validateImage_Inr)
    then show ?thesis using getPermissions_sound [OF _ refl] by blast
  qed
  with g(2) show ?thesis by simp
qed

text \<open>C1: No rights beyond the user's: what a workload of an accepted app may do by the roles that are made for it was asked of the cluster on behalf of
  the user who sent the app. When a service account may make a request by the roles and bindings that the rendering of the app makes, it is the account of
  a container or job of the app, and there is a rule that covers the request, resolves to its namespace or to the whole cluster, and all of whose access
  reviews for that user were allowed.\<close>

theorem workload_rights_reviewed:
  assumes "App_Validate K app = Some (Inr ([], app'))" "reviews_end K"
    and "it_app (os_interp s) = inst" "app_Spec inst = app_Spec app'" "om_Namespace (app_Meta inst) = va_namespace K"
    and "ToDeployments L R s = Some (Inr deps, t)" "toJobs L R t = Some (Inr jobs, u)" "roles_distinct R inst (workloadNames inst)"
    and "account_may covers (rbacObjects (deps @ jobs)) subject namespace req"
  shows "subject \<in> account (is_Namespace (app_Status inst)) ` workloadNames inst \<and>
    (\<exists>user rule. va_user K = Some user \<and> covers (rbacRule rule) req \<and> (\<exists>n \<in> set (ResolveNamespaces rule (va_namespace K)). n = [] \<or> n = namespace) \<and>
       (\<forall>review \<in> ruleReviews (userReview user) (va_namespace K) rule. va_review K review = Inr True))"
proof -
  obtain parts where parts: "appRoles R inst parts = Inr (rbacObjects (deps @ jobs))" "fst ` set parts \<subseteq> workloadNames inst"
    using rendered_roles [OF assms(6,7)] assms(3) by blast
  have "roles_distinct R inst (fst ` set parts)" using assms(8) parts(2) by (auto simp: roles_distinct_def intro: inj_on_subset)
  from account_may_granted [OF parts(1) this assms(9)] obtain name rule where r: "name \<in> workloadNames inst"
    "subject = account (is_Namespace (app_Status inst)) name" "rule \<in> grantedRules inst name" "covers (rbacRule rule) req"
    "\<exists>n \<in> set (ResolveNamespaces rule (va_namespace K)). n = [] \<or> n = namespace"
    using parts(2) unfolding assms(5) by blast
  have app': "app' = setGranted [] app" using assms(1) by (rule accepted_granted_nothing)
  have "checkPermissionsForPrivilegeEscalation K (ai_Permissions (app_Spec app)) = None" using assms(1) by (rule accepted_cases)
  with escalation_None [OF assms(2)] obtain user where user: "va_user K = Some user"
    "\<forall>perm \<in> set (ai_Permissions (app_Spec app)). \<forall>rule \<in> set (GetRules perm). \<forall>review \<in> ruleReviews (userReview user) (va_namespace K) rule. va_review K review = Inr True"
    by blast
  from r(3) obtain perm where "perm \<in> set (ai_Permissions (app_Spec app))" "rule \<in> set (GetRules perm)"
    by (auto simp: grantedRules_def GetPermissions_def assms(4) app' setGranted_def)
  with user r show ?thesis by blast
qed

text \<open>The app of the sample of \<open>Admission\<close>, once its image is known.\<close>

definition reviewed_app :: "(unit, int) AppInstance" where
  "reviewed_app = demo_app\<lparr>app_Status := zero_AppInstanceStatus\<lparr>is_Namespace := ''app-ns'',
     is_AppSpec := zero_AppSpec\<lparr>as_Containers := [(''web'', pod_demo_container)], as_Volumes := [(''data'', zero_VolumeRequest)]\<rparr>\<rparr>\<rparr>"

definition reviewed_covers :: "RBACPolicyRule \<Rightarrow> string \<times> string \<Rightarrow> bool" where
  "reviewed_covers rule = (\<lambda>(verb, resource). verb \<in> set (rv_Verbs rule) \<and> resource \<in> set (rv_Resources rule))"

lemma reviewed_app_simps:
  "app_Spec reviewed_app = app_Spec demo_app" "om_Namespace (app_Meta reviewed_app) = va_namespace (sample_validator demo_spec)"
  "is_Namespace (app_Status reviewed_app) = ''app-ns''" "om_Namespace (app_Meta reviewed_app) = ''proj''" "workloadNames reviewed_app = {''web''}"
  "pod_demo reviewed_app" "as_Containers (is_AppSpec (app_Status reviewed_app)) = [(''web'', pod_demo_container)]" "as_Jobs (is_AppSpec (app_Status reviewed_app)) = []"
  "ai_Links (app_Spec demo_app) = []" "it_app (os_interp (pod_demo_state reviewed_app)) = reviewed_app"
  by (simp_all add: reviewed_app_def demo_app_def sample_validator_def workloadNames_def zero_AppSpec_def pod_demo_def pod_demo_defs)

lemma reviewed_roles: "\<exists>objs. workloadRoles pod_demo_roles reviewed_app ''web'' l a = Inr objs"
  by (auto simp: workloadRoles_def toPermissions_def pod_demo_roles_def gm_get_or_def Let_def)

lemma reviewed_rendered:
  obtains deps t where "ToDeployments pod_demo_lib pod_demo_roles (pod_demo_state reviewed_app) = Some (Inr deps, t)" "toJobs pod_demo_lib pod_demo_roles t = Some (Inr [], t)"
    "\<exists>l a. workloadRoles pod_demo_roles reviewed_app ''web'' l a = Inr (rbacObjects deps)"
proof -
  obtain dep s' where d: "toDeployment pod_demo_lib ''web'' pod_demo_container (pod_demo_state reviewed_app) = Some (Inr dep, s')" "os_interp s' = NewInterpolator reviewed_app"
    using pod_demo_deployment [OF reviewed_app_simps(6)] by metis
  obtain rs where rs: "workloadRoles pod_demo_roles reviewed_app ''web'' (om_Labels (kd_Meta dep)) (om_Annotations (kd_Meta dep)) = Inr rs" using reviewed_roles by blast
  obtain sa where sa: "toServiceAccount pod_demo_roles ''web'' (om_Labels (kd_Meta dep)) (om_Annotations (kd_Meta dep)) reviewed_app = Inr sa"
    by (cases "HasRules (Some (awsPermissions reviewed_app ''web''))") (simp_all add: toServiceAccount_def addAWS_def pod_demo_roles_def Let_def)
  have w: "workloadObjects pod_demo_roles reviewed_app (om_Name (kd_Meta dep)) (om_Labels (kd_Meta dep)) (om_Annotations (kd_Meta dep)) = Inr (rs, sa)"
    by (simp add: workloadObjects_def toDeployment_name [OF d(1)] rs sa)
  have "ToDeployments pod_demo_lib pod_demo_roles (pod_demo_state reviewed_app) =
      Some (Inr (map RBAC rs @ [ServiceAccount sa, Deployed dep, Budget (ToPodDisruptionBudget dep)]), s')"
    by (simp add: ToDeployments_def deploymentObjects_def dm_bind_def dm_gets_def dm_return_def dm_result_def reviewed_app_simps typed_Sorted_simps IsLinked_def d w)
  moreover have "toJobs pod_demo_lib pod_demo_roles s' = Some (Inr [], s')"
    by (simp add: toJobs_def dm_bind_def dm_gets_def dm_return_def dm_result_def d(2) reviewed_app_simps typed_Sorted_simps)
  ultimately show thesis by (rule that) (use rs in auto)
qed

theorem workload_rights_reviewed_witness:
  "case ToDeployments pod_demo_lib pod_demo_roles (pod_demo_state reviewed_app) of
     Some (Inr deps, _) \<Rightarrow> account_may reviewed_covers (rbacObjects deps) (account ''app-ns'' ''web'') ''proj'' (''get'', ''secrets'') \<and>
       \<not> account_may reviewed_covers (rbacObjects deps) (account ''app-ns'' ''other'') ''proj'' (''get'', ''secrets'')
   | _ \<Rightarrow> False"
proof -
  obtain deps t l a where r: "ToDeployments pod_demo_lib pod_demo_roles (pod_demo_state reviewed_app) = Some (Inr deps, t)" "toJobs pod_demo_lib pod_demo_roles t = Some (Inr [], t)"
    "workloadRoles pod_demo_roles reviewed_app ''web'' l a = Inr (rbacObjects deps)" by (rule reviewed_rendered) blast
  have d: "roles_distinct pod_demo_roles reviewed_app (workloadNames reviewed_app)" by (simp add: roles_distinct_def reviewed_app_simps)
  have only: "subject = account ''app-ns'' ''web''" if "account_may reviewed_covers (rbacObjects deps) subject ''proj'' (''get'', ''secrets'')" for subject
    using workload_rights_reviewed [OF demo_accepted demo_reviews_end reviewed_app_simps(10,1,2) r(1,2) d, of reviewed_covers subject "''proj''" "(''get'', ''secrets'')"] that
    by (simp add: reviewed_app_simps)
  have "account_may reviewed_covers (rbacObjects deps) (account (is_Namespace (app_Status reviewed_app)) ''web'') ''proj'' (''get'', ''secrets'')"
  proof (rule granted_account_may [OF r(3), of None demo_rule])
    show "demo_rule \<in> grantedRules reviewed_app ''web''"
      by (auto simp: grantedRules_def GetPermissions_def reviewed_app_simps(1) demo_app_def demo_perms_def GetRules_def)
    show "reviewed_covers (rbacRule demo_rule) (''get'', ''secrets'')" by (simp add: reviewed_covers_def rbacRule_def demo_rule_def)
    show "''proj'' \<in> set (ResolveNamespaces demo_rule (om_Namespace (app_Meta reviewed_app)))"
      by (simp add: reviewed_app_simps(4) demo_rule_def zero_PolicyRule_def ResolveNamespaces_def Namespaces_def IsProjectScoped_def IsAccountScoped_def Let_def gm_set_def)
  qed (simp_all add: pod_demo_roles_def gm_get_or_def)
  then have "account_may reviewed_covers (rbacObjects deps) (account ''app-ns'' ''web'') ''proj'' (''get'', ''secrets'')" by (simp only: reviewed_app_simps(3))
  moreover have "\<not> account_may reviewed_covers (rbacObjects deps) (account ''app-ns'' ''other'') ''proj'' (''get'', ''secrets'')"
    by (rule notI, drule only) (simp add: account_def)
  ultimately show ?thesis by (simp only: r(1) option.case prod.case sum.case simp_thms)
qed

end
